(* ===== verification/Lp_Prelude.thy ===== *)
theory Lp_Prelude
  imports Main "HOL-Library.Sublist"
begin

text \<open>
  Shared ground of the development: the collections of rewrite rules the component theories fill,
  the client-visible error codes of \<^verbatim>\<open>workstation-core/src/error.rs\<close>, the result type every
  fallible operation returns, and generic lemmas on lists and options that several components use.
\<close>

named_theorems str_simps \<open>rewrite rules of the Rust string operations\<close>
named_theorems path_simps \<open>rewrite rules of the Windows path operations\<close>
named_theorems policy_simps \<open>unfolding rules of the policy evaluator\<close>
named_theorems db_simps \<open>unfolding rules of the table operations\<close>

section \<open>Error codes and results\<close>

text \<open>\<^verbatim>\<open>ErrorCode\<close>: the closed set of codes a remote client can see.\<close>

datatype error_code =
    McpServerNotFound | McpServerDisabled | McpConnectionFailed | McpProcessExited
  | McpToolNotFound | McpToolTimeout | McpPermissionDenied | McpProtocolError
  | McpInvalidResponse | AuthenticationFailed | InsufficientScope | PermissionDenied
  | ProtectedResource | ApprovalRequired | ApprovalDenied | ApprovalExpired
  | ApprovalInvalidated | ApprovalPending | SessionExpired | IdempotencyConflict
  | OutcomeUnknown | PathOutsidePolicy | PathNotFound | AlreadyExists
  | ProjectNotFound | TaskNotFound | NotFound | CommandFailed
  | Timeout | OutputLimitReached | EmergencyStopActive | ServiceUnavailable
  | ClientDisabled | ClientLimitReached | RateLimited | ProjectLocked
  | AuditUnavailable | CacheQuotaExceeded | InvalidArguments | TooLarge
  | AttributionBlocked | ConfigFault | Unsupported | Internal

text \<open>\<^verbatim>\<open>LpError\<close>, less the locally logged \<^verbatim>\<open>internal\<close> text and the JSON \<^verbatim>\<open>details\<close>.\<close>

record lp_error =
  code :: error_code
  message :: string

type_synonym 'a lp_result = "lp_error + 'a"

definition LpError_new :: "error_code \<Rightarrow> string \<Rightarrow> lp_error" where
  "LpError_new c m = \<lparr>code = c, message = m\<rparr>"

definition LpError_internal :: lp_error where
  "LpError_internal =
     LpError_new Internal ''An internal error occurred; see the local diagnostic log.''"

definition LpError_invalid :: "string \<Rightarrow> lp_error" where
  "LpError_invalid m = LpError_new InvalidArguments m"

definition LpError_not_found :: "string \<Rightarrow> lp_error" where
  "LpError_not_found m = LpError_new NotFound m"

lemma LpError_sel [simp]:
  "code (LpError_new c m) = c" "message (LpError_new c m) = m"
  "code LpError_internal = Internal" "code (LpError_invalid m) = InvalidArguments"
  "code (LpError_not_found m) = NotFound"
  by (simp_all add: LpError_new_def LpError_internal_def LpError_invalid_def LpError_not_found_def)

definition is_ok :: "'e + 'a \<Rightarrow> bool" where
  "is_ok r = (case r of Inl _ \<Rightarrow> False | Inr _ \<Rightarrow> True)"

lemma is_ok_simps [simp]: "is_ok (Inr x)" "\<not> is_ok (Inl e)"
  by (simp_all add: is_ok_def)

lemma is_ok_iff: "is_ok r \<longleftrightarrow> (\<exists>x. r = Inr x)"
  by (cases r) simp_all

text \<open>\<^verbatim>\<open>?\<close> and early \<^verbatim>\<open>return\<close>: the computation goes on from an \<open>Inr\<close> and stops at an \<open>Inl\<close>; \<open>fold_until\<close> is a
  loop whose body may return.\<close>

fun and_then :: "'e + 's \<Rightarrow> ('s \<Rightarrow> 'e + 't) \<Rightarrow> 'e + 't" where
  "and_then (Inl e) f = Inl e"
| "and_then (Inr s) f = f s"

fun fold_until :: "('s \<Rightarrow> 'a \<Rightarrow> 'e + 's) \<Rightarrow> 's \<Rightarrow> 'a list \<Rightarrow> 'e + 's" where
  "fold_until f s [] = Inr s"
| "fold_until f s (x # xs) = and_then (f s x) (\<lambda>s'. fold_until f s' xs)"

lemma and_then_Inr: "and_then r f = Inr t \<longleftrightarrow> (\<exists>s. r = Inr s \<and> f s = Inr t)"
  by (cases r) auto

lemma and_then_Inl: "and_then r f = Inl e \<longleftrightarrow> r = Inl e \<or> (\<exists>s. r = Inr s \<and> f s = Inl e)"
  by (cases r) auto

lemma fold_until_append:
  "fold_until f s (xs @ ys) = and_then (fold_until f s xs) (\<lambda>s'. fold_until f s' ys)"
proof (induction xs arbitrary: s)
  case (Cons x xs)
  then show ?case by (cases "f s x") auto
qed simp

text \<open>What holds after one completed iteration and is kept by the later ones holds at the end.\<close>

lemma fold_until_reaches:
  assumes "fold_until f s xs = Inr t" and "x \<in> set xs"
    and "\<And>s s'. f s x = Inr s' \<Longrightarrow> Q s'"
    and "\<And>s y s'. f s y = Inr s' \<Longrightarrow> Q s \<Longrightarrow> Q s'"
  shows "Q t"
proof -
  have kept: "fold_until f s' ys = Inr t' \<Longrightarrow> Q s' \<Longrightarrow> Q t'" for s' ys t'
    using assms(4) by (induction ys arbitrary: s') (auto simp: and_then_Inr)
  from assms(1,2) show ?thesis
    by (induction xs arbitrary: s) (auto simp: and_then_Inr dest: assms(3) kept)
qed

section \<open>Coverage\<close>

text \<open>A grant covers a request reflexively and transitively. A request is granted when one of the grants
  held covers it.\<close>

locale coverage =
  fixes covers :: "'a \<Rightarrow> 'a \<Rightarrow> bool"
  assumes covers_refl: "covers a a"
    and covers_trans: "covers a b \<Longrightarrow> covers b c \<Longrightarrow> covers a c"
begin

lemma granted_self: "a \<in> set gs \<Longrightarrow> \<exists>g \<in> set gs. covers g a"
  using covers_refl by blast

lemma granted_narrower: "\<exists>g \<in> set gs. covers g a \<Longrightarrow> covers a b \<Longrightarrow> \<exists>g \<in> set gs. covers g b"
  using covers_trans by blast

lemma covered_grants_add_nothing:
  assumes "\<forall>h \<in> set hs. \<exists>g \<in> set gs. covers g h" and "\<exists>h \<in> set hs. covers h a"
  shows "\<exists>g \<in> set gs. covers g a"
  using assms covers_trans by blast

end

section \<open>Options\<close>

text \<open>\<^verbatim>\<open>Option::or_else\<close> and \<^verbatim>\<open>Option::unwrap_or\<close>.\<close>

fun or_else :: "'a option \<Rightarrow> 'a option \<Rightarrow> 'a option" where
  "or_else (Some x) _ = Some x"
| "or_else None y = y"

fun unwrap_or :: "'a \<Rightarrow> 'a option \<Rightarrow> 'a" where
  "unwrap_or d None = d"
| "unwrap_or d (Some x) = x"

lemma or_else_None_iff [simp]: "or_else x y = None \<longleftrightarrow> x = None \<and> y = None"
  by (cases x) auto

section \<open>Lists\<close>

text \<open>\<^verbatim>\<open>slice::first\<close>, \<^verbatim>\<open>slice::get\<close> and \<^verbatim>\<open>slice::last\<close>.\<close>

fun first_of :: "'a list \<Rightarrow> 'a option" where
  "first_of [] = None"
| "first_of (x # _) = Some x"

fun nth_of :: "'a list \<Rightarrow> nat \<Rightarrow> 'a option" where
  "nth_of [] _ = None"
| "nth_of (x # xs) n = (case n of 0 \<Rightarrow> Some x | Suc m \<Rightarrow> nth_of xs m)"

definition last_of :: "'a list \<Rightarrow> 'a option" where
  "last_of xs = (if xs = [] then None else Some (last xs))"

text \<open>\<^verbatim>\<open>Vec::dedup\<close> drops consecutive repetitions only.\<close>

fun dedup :: "'a list \<Rightarrow> 'a list" where
  "dedup [] = []"
| "dedup [x] = [x]"
| "dedup (x # y # ys) = (if x = y then dedup (y # ys) else x # dedup (y # ys))"

lemma first_of_in_set: "first_of xs = Some x \<Longrightarrow> x \<in> set xs"
  by (cases xs) auto

lemma nth_of_nth: "nth_of xs n = (if n < length xs then Some (xs ! n) else None)"
  by (induction xs arbitrary: n) (auto split: nat.splits)

lemma set_dedup [simp]: "set (dedup xs) = set xs"
  by (induction xs rule: dedup.induct) auto

lemma find_Some_in_set: "find P xs = Some x \<Longrightarrow> x \<in> set xs \<and> P x"
  by (induction xs) (auto split: if_splits)

lemma find_None_set: "find P xs = None \<longleftrightarrow> (\<forall>x\<in>set xs. \<not> P x)"
  by (induction xs) auto

lemma takeWhile_cut: "\<not> P y \<Longrightarrow> takeWhile P (xs @ y # ys) = takeWhile P xs"
  by (induction xs) auto

lemma takeWhile_append_stop:
  "\<lbrakk>\<forall>x\<in>set xs. P x; \<not> P y\<rbrakk> \<Longrightarrow> takeWhile P (xs @ y # ys) = xs"
  by (simp add: takeWhile_append2)

lemma dropWhile_append_stop:
  "\<lbrakk>\<forall>x\<in>set xs. P x; \<not> P y\<rbrakk> \<Longrightarrow> dropWhile P (xs @ y # ys) = y # ys"
  by (simp add: dropWhile_append2)

end
