(* ===== verification/Rust_Str.thy ===== *)
theory Rust_Str
  imports Lp_Prelude
begin

text \<open>
  Rust's \<^verbatim>\<open>str\<close> as the program uses it. A Rust string is its UTF-8 encoding, so it is modelled as
  the list of its bytes (HOL's \<^typ>\<open>char\<close> is a byte): \<^verbatim>\<open>len\<close> is the list's length, byte offsets are
  list positions, and a search for an ASCII character or string never matches inside a multi-byte
  character, because every byte of one is at least 128. Operations that count or cut at Unicode
  characters (\<^verbatim>\<open>chars\<close>, \<^verbatim>\<open>trim\<close>) go through \<open>utf8_chars\<close>, which cuts before every byte that
  is not a continuation byte.
\<close>

section \<open>Bytes\<close>

abbreviation (input) DQ :: char where "DQ \<equiv> CHR 0x22"
abbreviation (input) BS :: char where "BS \<equiv> CHR 0x5C"
abbreviation (input) SP :: char where "SP \<equiv> CHR 0x20"
abbreviation (input) TAB :: char where "TAB \<equiv> CHR 0x09"
abbreviation (input) LF :: char where "LF \<equiv> CHR 0x0A"
abbreviation (input) CR :: char where "CR \<equiv> CHR 0x0D"

definition is_dir_sep :: "char \<Rightarrow> bool" where
  "is_dir_sep c \<longleftrightarrow> c = BS \<or> c = CHR ''/''"

text \<open>Windows text is written with \<^verbatim>\<open>/\<close> for a backslash: \<open>bs ''C:/x''\<close> is the path \<^verbatim>\<open>C:\x\<close>.\<close>

definition bs :: "string \<Rightarrow> string" where
  "bs s = map (\<lambda>c. if c = CHR ''/'' then BS else c) s"

abbreviation byte :: "char \<Rightarrow> nat" where
  "byte c \<equiv> of_char c"

definition is_ascii_alphabetic :: "char \<Rightarrow> bool" where
  "is_ascii_alphabetic c \<longleftrightarrow>
     (65 \<le> byte c \<and> byte c \<le> 90) \<or> (97 \<le> byte c \<and> byte c \<le> 122)"

definition is_ascii_digit :: "char \<Rightarrow> bool" where
  "is_ascii_digit c \<longleftrightarrow> 48 \<le> byte c \<and> byte c \<le> 57"

definition ascii_lower :: "char \<Rightarrow> char" where
  "ascii_lower c = (if 65 \<le> byte c \<and> byte c \<le> 90 then char_of (byte c + 32) else c)"

definition ascii_upper :: "char \<Rightarrow> char" where
  "ascii_upper c = (if 97 \<le> byte c \<and> byte c \<le> 122 then char_of (byte c - 32) else c)"

definition to_ascii_lowercase :: "string \<Rightarrow> string" where
  "to_ascii_lowercase s = map ascii_lower s"

definition to_ascii_uppercase :: "string \<Rightarrow> string" where
  "to_ascii_uppercase s = map ascii_upper s"

definition eq_ignore_ascii_case :: "string \<Rightarrow> string \<Rightarrow> bool" where
  "eq_ignore_ascii_case a b \<longleftrightarrow> to_ascii_lowercase a = to_ascii_lowercase b"

section \<open>Prefixes, suffixes and substrings\<close>

definition starts_with :: "string \<Rightarrow> string \<Rightarrow> bool" where
  "starts_with s p \<longleftrightarrow> take (length p) s = p"

definition ends_with :: "string \<Rightarrow> string \<Rightarrow> bool" where
  "ends_with s p \<longleftrightarrow> length p \<le> length s \<and> drop (length s - length p) s = p"

fun contains_str :: "string \<Rightarrow> string \<Rightarrow> bool" where
  "contains_str [] p = (p = [])"
| "contains_str (c # s) p = (starts_with (c # s) p \<or> contains_str s p)"

definition contains_char :: "string \<Rightarrow> char \<Rightarrow> bool" where
  "contains_char s c \<longleftrightarrow> List.member s c"

definition strip_prefix :: "string \<Rightarrow> string \<Rightarrow> string option" where
  "strip_prefix s p = (if starts_with s p then Some (drop (length p) s) else None)"

definition strip_suffix :: "string \<Rightarrow> string \<Rightarrow> string option" where
  "strip_suffix s p = (if ends_with s p then Some (take (length s - length p) s) else None)"

section \<open>Splitting and joining\<close>

text \<open>\<^verbatim>\<open>str::split\<close> at every byte that satisfies \<open>P\<close>; never empty.\<close>

fun split_on :: "(char \<Rightarrow> bool) \<Rightarrow> string \<Rightarrow> string list" where
  "split_on P [] = [[]]"
| "split_on P (c # cs) =
     (if P c then [] # split_on P cs
      else (case split_on P cs of [] \<Rightarrow> [[c]] | w # ws \<Rightarrow> (c # w) # ws))"

definition split_once :: "string \<Rightarrow> char \<Rightarrow> (string \<times> string) option" where
  "split_once s c =
     (case dropWhile (\<lambda>x. x \<noteq> c) s of
        [] \<Rightarrow> None
      | _ # r \<Rightarrow> Some (takeWhile (\<lambda>x. x \<noteq> c) s, r))"

text \<open>\<^verbatim>\<open>rsplit_once\<close> with a set of separator characters.\<close>

definition rsplit_once :: "string \<Rightarrow> (char \<Rightarrow> bool) \<Rightarrow> (string \<times> string) option" where
  "rsplit_once s P =
     (case dropWhile (\<lambda>x. \<not> P x) (rev s) of
        [] \<Rightarrow> None
      | _ # r \<Rightarrow> Some (rev r, rev (takeWhile (\<lambda>x. \<not> P x) (rev s))))"

fun join_with :: "string \<Rightarrow> string list \<Rightarrow> string" where
  "join_with sep [] = []"
| "join_with sep [x] = x"
| "join_with sep (x # y # ys) = x @ sep @ join_with sep (y # ys)"

definition replace_char :: "string \<Rightarrow> (char \<Rightarrow> bool) \<Rightarrow> char \<Rightarrow> string" where
  "replace_char s P d = map (\<lambda>x. if P x then d else x) s"

definition remove_char :: "string \<Rightarrow> char \<Rightarrow> string" where
  "remove_char s c = filter (\<lambda>x. x \<noteq> c) s"

section \<open>Trimming\<close>

definition trim_end_matches :: "string \<Rightarrow> (char \<Rightarrow> bool) \<Rightarrow> string" where
  "trim_end_matches s P = rev (dropWhile P (rev s))"

definition trim_start_char :: "string \<Rightarrow> char \<Rightarrow> string" where
  "trim_start_char s c = dropWhile (\<lambda>x. x = c) s"

definition trim_matches :: "string \<Rightarrow> char \<Rightarrow> string" where
  "trim_matches s c = trim_end_matches (trim_start_char s c) (\<lambda>x. x = c)"

text \<open>\<^verbatim>\<open>trim_start_matches\<close> with a string pattern removes it as often as it stands in front.\<close>

function trim_start_str :: "string \<Rightarrow> string \<Rightarrow> string" where
  "trim_start_str s p =
     (if p \<noteq> [] \<and> starts_with s p then trim_start_str (drop (length p) s) p else s)"
  by pat_completeness auto
termination
  by (relation "measure (\<lambda>(s, p). length s)")
     (auto simp: starts_with_def, metis diff_less length_greater_0_conv list.size(3) take_Nil)

declare trim_start_str.simps [simp del]

definition is_continuation :: "char \<Rightarrow> bool" where
  "is_continuation c \<longleftrightarrow> 128 \<le> byte c \<and> byte c \<le> 191"

text \<open>\<^verbatim>\<open>str::chars\<close>: the encodings of the string's Unicode characters, in order.\<close>

function utf8_chars :: "string \<Rightarrow> string list" where
  "utf8_chars [] = []"
| "utf8_chars (c # cs) =
     (c # takeWhile is_continuation cs) # utf8_chars (dropWhile is_continuation cs)"
  by pat_completeness auto
termination
  by (relation "measure length") (auto simp: length_dropWhile_le le_imp_less_Suc)

text \<open>The UTF-8 encodings of the characters with the Unicode property \<^verbatim>\<open>White_Space\<close>.\<close>

definition is_whitespace :: "string \<Rightarrow> bool" where
  "is_whitespace g \<longleftrightarrow>
     (case g of
        [a] \<Rightarrow> byte a = 32 \<or> (9 \<le> byte a \<and> byte a \<le> 13)
      | [a, b] \<Rightarrow> byte a = 194 \<and> (byte b = 133 \<or> byte b = 160)
      | [a, b, c] \<Rightarrow>
            (byte a = 225 \<and> byte b = 154 \<and> byte c = 128)
          \<or> (byte a = 226 \<and> byte b = 128 \<and>
               ((128 \<le> byte c \<and> byte c \<le> 138) \<or> byte c = 168 \<or> byte c = 169 \<or> byte c = 175))
          \<or> (byte a = 226 \<and> byte b = 129 \<and> byte c = 159)
          \<or> (byte a = 227 \<and> byte b = 128 \<and> byte c = 128)
      | _ \<Rightarrow> False)"

definition trim :: "string \<Rightarrow> string" where
  "trim s = concat (rev (dropWhile is_whitespace (rev (dropWhile is_whitespace (utf8_chars s)))))"

text \<open>\<^verbatim>\<open>split_whitespace\<close>: the maximal runs of characters that are no white space.\<close>

fun ws_words :: "string list \<Rightarrow> string \<Rightarrow> string list" where
  "ws_words [] w = (if w = [] then [] else [w])"
| "ws_words (g # gs) w =
     (if is_whitespace g then (if w = [] then ws_words gs [] else w # ws_words gs [])
      else ws_words gs (w @ g))"

definition split_whitespace :: "string \<Rightarrow> string list" where
  "split_whitespace s = ws_words (utf8_chars s) []"

text \<open>The program's own \<^verbatim>\<open>truncate\<close> (evaluator.rs, attribution.rs): at most \<open>n\<close> characters, an
  ellipsis (three bytes) marking a cut.\<close>

definition truncate_str :: "string \<Rightarrow> nat \<Rightarrow> string" where
  "truncate_str s n =
     (if length (utf8_chars s) \<le> n then s
      else concat (take n (utf8_chars s)) @ [CHR 0xE2, CHR 0x80, CHR 0xA6])"

section \<open>Laws\<close>

lemma starts_with_iff: "starts_with s p \<longleftrightarrow> (\<exists>r. s = p @ r)"
  unfolding starts_with_def by (metis append_eq_conv_conj append_take_drop_id)

lemma starts_with_append [simp, str_simps]: "starts_with (p @ r) p"
  by (simp add: starts_with_def)

lemma starts_with_Nil [simp, str_simps]: "starts_with s []"
  by (simp add: starts_with_def)

lemma starts_with_Cons [str_simps]:
  "starts_with s (c # p) \<longleftrightarrow> (case s of [] \<Rightarrow> False | d # s' \<Rightarrow> d = c \<and> starts_with s' p)"
  by (cases s) (auto simp: starts_with_def)

lemma strip_prefix_Some: "strip_prefix s p = Some r \<longleftrightarrow> s = p @ r"
  by (auto simp: strip_prefix_def starts_with_iff)

lemma strip_prefix_append [simp]: "strip_prefix (p @ r) p = Some r"
  by (simp add: strip_prefix_Some)

lemma concat_utf8_chars [simp]: "concat (utf8_chars s) = s"
  by (induction s rule: utf8_chars.induct) auto

lemma to_ascii_lowercase_append [simp]:
  "to_ascii_lowercase (a @ b) = to_ascii_lowercase a @ to_ascii_lowercase b"
  by (simp add: to_ascii_lowercase_def)

lemma length_to_ascii_lowercase [simp]: "length (to_ascii_lowercase s) = length s"
  by (simp add: to_ascii_lowercase_def)

lemma eq_ignore_ascii_case_refl [simp]: "eq_ignore_ascii_case s s"
  by (simp add: eq_ignore_ascii_case_def)

lemma eq_ignore_ascii_case_sym: "eq_ignore_ascii_case a b = eq_ignore_ascii_case b a"
  by (auto simp: eq_ignore_ascii_case_def)

lemma split_on_not_Nil [simp]: "split_on P s \<noteq> []"
  by (induction s) (auto split: list.splits)

lemma split_on_none:
  "\<forall>c\<in>set s. \<not> P c \<Longrightarrow> split_on P s = [s]"
  by (induction s) auto

lemma split_on_append_sep:
  "P x \<Longrightarrow> split_on P (a @ x # b) = split_on P a @ split_on P b"
  by (induction a) (auto split: list.splits)

lemma split_on_words: "w \<in> set (split_on P s) \<Longrightarrow> \<forall>c\<in>set w. \<not> P c"
proof (induction s arbitrary: w)
  case (Cons a s)
  show ?case
  proof (cases "P a")
    case True
    with Cons show ?thesis by auto
  next
    case False
    obtain u us where u: "split_on P s = u # us"
      by (cases "split_on P s") auto
    with False Cons.prems have "w = a # u \<or> w \<in> set us" by auto
    moreover have "\<forall>c\<in>set u. \<not> P c" and "w \<in> set us \<Longrightarrow> \<forall>c\<in>set w. \<not> P c"
      using u Cons.IH[of u] Cons.IH[of w] by simp_all
    ultimately show ?thesis using False by auto
  qed
qed simp

lemma split_once_Some:
  "split_once s c = Some (a, b) \<longleftrightarrow> s = a @ c # b \<and> c \<notin> set a"
proof (induction s arbitrary: a)
  case Nil
  then show ?case by (simp add: split_once_def)
next
  case (Cons x s)
  show ?case
  proof (cases "x = c")
    case True
    then show ?thesis by (auto simp: split_once_def Cons_eq_append_conv)
  next
    case False
    then have "split_once (x # s) c = map_option (\<lambda>(a, b). (x # a, b)) (split_once s c)"
      by (cases "dropWhile (\<lambda>x. x \<noteq> c) s") (simp_all add: split_once_def del: dropWhile_eq_Nil_conv)
    then have "split_once (x # s) c = Some (a, b) \<longleftrightarrow>
        (\<exists>a'. a = x # a' \<and> split_once s c = Some (a', b))"
      by (cases "split_once s c") auto
    also have "\<dots> \<longleftrightarrow> (\<exists>a'. a = x # a' \<and> s = a' @ c # b \<and> c \<notin> set a')"
      by (simp only: Cons.IH)
    also have "\<dots> \<longleftrightarrow> x # s = a @ c # b \<and> c \<notin> set a"
      using False by (cases a) auto
    finally show ?thesis .
  qed
qed

lemma split_once_None: "split_once s c = None \<longleftrightarrow> c \<notin> set s"
proof -
  have "dropWhile (\<lambda>x. x \<noteq> c) s = [] \<longleftrightarrow> c \<notin> set s"
    by (auto simp: dropWhile_eq_Nil_conv)
  then show ?thesis
    by (cases "dropWhile (\<lambda>x. x \<noteq> c) s") (simp_all add: split_once_def del: dropWhile_eq_Nil_conv)
qed

lemma trim_end_matches_last:
  "trim_end_matches s P \<noteq> [] \<Longrightarrow> \<not> P (last (trim_end_matches s P))"
  unfolding trim_end_matches_def by (metis hd_dropWhile last_rev rev_is_Nil_conv)

lemma trim_end_matches_subset: "set (trim_end_matches s P) \<subseteq> set s"
  unfolding trim_end_matches_def using set_dropWhileD by fastforce

lemma trim_end_matches_id:
  "s = [] \<or> \<not> P (last s) \<Longrightarrow> trim_end_matches s P = s"
  unfolding trim_end_matches_def
  by (cases s rule: rev_cases) auto

end
