(* ===== verification/Win_Path.thy ===== *)
theory Win_Path
  imports Rust_Str
begin

text \<open>
  Windows paths. The first part models what the program uses of \<^verbatim>\<open>std::path\<close> on Windows (prefix
  parsing, \<^verbatim>\<open>components\<close>, \<^verbatim>\<open>join\<close>/\<^verbatim>\<open>push\<close>, \<^verbatim>\<open>parent\<close>, \<^verbatim>\<open>file_name\<close>, \<^verbatim>\<open>extension\<close>); a path is its text.
  The second part is \<^verbatim>\<open>workstation-core/src/paths.rs\<close>: the component-wise, case-insensitive prefix
  test every policy decision rests on, and the application-data layout. Unicode lower-casing
  (\<^verbatim>\<open>str::to_lowercase\<close>) is a parameter \<open>lc\<close>: the results here hold for every such function.
\<close>

section \<open>Prefixes and components\<close>

datatype path_prefix =
    Verbatim string
  | VerbatimUNC string string
  | VerbatimDisk char
  | DeviceNS string
  | UNC string string
  | Disk char

datatype component =
    Prefix path_prefix string
  | RootDir
  | CurDir
  | ParentDir
  | Normal string

definition is_verbatim :: "path_prefix \<Rightarrow> bool" where
  "is_verbatim p = (case p of Verbatim _ \<Rightarrow> True | VerbatimUNC _ _ \<Rightarrow> True
     | VerbatimDisk _ \<Rightarrow> True | _ \<Rightarrow> False)"

definition has_implicit_root :: "path_prefix \<Rightarrow> bool" where
  "has_implicit_root p = (case p of Disk _ \<Rightarrow> False | _ \<Rightarrow> True)"

definition is_drive :: "path_prefix \<Rightarrow> bool" where
  "is_drive p = (case p of Disk _ \<Rightarrow> True | _ \<Rightarrow> False)"

definition prefix_len :: "path_prefix \<Rightarrow> nat" where
  "prefix_len p =
     (case p of
        Verbatim x \<Rightarrow> 4 + length x
      | VerbatimUNC x y \<Rightarrow> 8 + length x + (if y = [] then 0 else 1 + length y)
      | VerbatimDisk _ \<Rightarrow> 6
      | DeviceNS x \<Rightarrow> 4 + length x
      | UNC x y \<Rightarrow> 2 + length x + (if y = [] then 0 else 1 + length y)
      | Disk _ \<Rightarrow> 2)"

definition is_verbatim_sep :: "char \<Rightarrow> bool" where
  "is_verbatim_sep c \<longleftrightarrow> c = BS"

definition next_component :: "(char \<Rightarrow> bool) \<Rightarrow> string \<Rightarrow> string \<times> string" where
  "next_component P s = (takeWhile (\<lambda>c. \<not> P c) s, tl (dropWhile (\<lambda>c. \<not> P c) s))"

definition parse_drive :: "string \<Rightarrow> char option" where
  "parse_drive s =
     (case s of d # e # _ \<Rightarrow> if is_ascii_alphabetic d \<and> e = CHR '':'' then Some (ascii_upper d) else None
      | _ \<Rightarrow> None)"

text \<open>The standard library reads the first eight bytes with \<^verbatim>\<open>/\<close> taken as a backslash.\<close>

definition parse_prefix :: "string \<Rightarrow> path_prefix option" where
  "parse_prefix s =
     (let n = replace_char (take 8 s) (\<lambda>c. c = CHR ''/'') BS in
      if starts_with n [BS, BS] then
        (if starts_with s [BS, BS, CHR ''?'', BS] then
           (if starts_with (drop 4 n) (''UNC'' @ [BS]) then
              (let (server, r) = next_component is_verbatim_sep (drop 8 s);
                   (share, _) = next_component is_verbatim_sep r
               in Some (VerbatimUNC server share))
            else (case parse_drive (drop 4 s) of
                Some d \<Rightarrow>
                  (if length s = 6 \<or> is_verbatim_sep (s ! 6) then Some (VerbatimDisk d)
                   else Some (Verbatim (fst (next_component is_verbatim_sep (drop 4 s)))))
              | None \<Rightarrow> Some (Verbatim (fst (next_component is_verbatim_sep (drop 4 s))))))
         else if starts_with n [BS, BS, CHR ''.'', BS] then
           Some (DeviceNS (fst (next_component is_dir_sep (drop 4 s))))
         else
           (let (server, r) = next_component is_dir_sep (drop 2 s);
                (share, _) = next_component is_dir_sep r
            in if server \<noteq> [] \<and> share \<noteq> [] then Some (UNC server share) else None))
      else map_option Disk (parse_drive s))"

definition comp_of_piece :: "bool \<Rightarrow> string \<Rightarrow> component option" where
  "comp_of_piece verbatim w =
     (if w = [] then None
      else if w = ''.'' then (if verbatim then Some CurDir else None)
      else if w = ''..'' then Some ParentDir
      else Some (Normal w))"

definition path_seps :: "bool \<Rightarrow> char \<Rightarrow> bool" where
  "path_seps verbatim = (if verbatim then is_verbatim_sep else is_dir_sep)"

definition body_components :: "bool \<Rightarrow> string \<Rightarrow> component list" where
  "body_components verbatim s = List.map_filter (comp_of_piece verbatim) (split_on (path_seps verbatim) s)"

text \<open>The text of a path cut into prefix text, root text and body.\<close>

definition path_verbatim :: "string \<Rightarrow> bool" where
  "path_verbatim s = (case parse_prefix s of Some p \<Rightarrow> is_verbatim p | None \<Rightarrow> False)"

definition prefix_text :: "string \<Rightarrow> string" where
  "prefix_text s = (case parse_prefix s of Some p \<Rightarrow> take (prefix_len p) s | None \<Rightarrow> [])"

definition after_prefix :: "string \<Rightarrow> string" where
  "after_prefix s = (case parse_prefix s of Some p \<Rightarrow> drop (prefix_len p) s | None \<Rightarrow> s)"

definition has_physical_root :: "string \<Rightarrow> bool" where
  "has_physical_root s =
     (case after_prefix s of [] \<Rightarrow> False | c # _ \<Rightarrow> path_seps (path_verbatim s) c)"

definition starts_cur_dir :: "string \<Rightarrow> bool" where
  "starts_cur_dir s =
     (parse_prefix s = None \<and> \<not> has_physical_root s \<and>
      (case s of [c] \<Rightarrow> c = CHR ''.'' | c # d # _ \<Rightarrow> c = CHR ''.'' \<and> is_dir_sep d | [] \<Rightarrow> False))"

definition path_body :: "string \<Rightarrow> string" where
  "path_body s = (if has_physical_root s \<or> starts_cur_dir s then tl (after_prefix s) else after_prefix s)"

definition start_components :: "string \<Rightarrow> component list" where
  "start_components s =
     (case parse_prefix s of Some p \<Rightarrow> [Prefix p (prefix_text s)] | None \<Rightarrow> [])
   @ (if has_physical_root s then [RootDir]
      else (case parse_prefix s of
              Some p \<Rightarrow> if has_implicit_root p \<and> \<not> is_verbatim p then [RootDir] else []
            | None \<Rightarrow> if starts_cur_dir s then [CurDir] else []))"

definition components :: "string \<Rightarrow> component list" where
  "components s = start_components s @ body_components (path_verbatim s) (path_body s)"

definition comp_str :: "component \<Rightarrow> string" where
  "comp_str c = (case c of Prefix _ t \<Rightarrow> t | RootDir \<Rightarrow> [BS] | CurDir \<Rightarrow> ''.''
     | ParentDir \<Rightarrow> ''..'' | Normal t \<Rightarrow> t)"

section \<open>Deriving paths\<close>

definition is_absolute :: "string \<Rightarrow> bool" where
  "is_absolute s = (case parse_prefix s of
     Some p \<Rightarrow> has_physical_root s \<or> has_implicit_root p | None \<Rightarrow> False)"

definition push_component :: "component list \<Rightarrow> component \<Rightarrow> component list" where
  "push_component buf c =
     (case c of
        RootDir \<Rightarrow> take 1 buf @ [RootDir]
      | CurDir \<Rightarrow> buf
      | ParentDir \<Rightarrow> (case last_of buf of Some (Normal _) \<Rightarrow> butlast buf | _ \<Rightarrow> buf)
      | _ \<Rightarrow> buf @ [c])"

fun render_components :: "bool \<Rightarrow> component list \<Rightarrow> string" where
  "render_components need_sep [] = []"
| "render_components need_sep (c # cs) =
     (if need_sep \<and> c \<noteq> RootDir then [BS] else []) @ comp_str c
     @ render_components (case c of RootDir \<Rightarrow> False
           | Prefix p _ \<Rightarrow> \<not> is_drive p \<and> prefix_len p > 0 | _ \<Rightarrow> True) cs"

definition need_sep :: "string \<Rightarrow> bool" where
  "need_sep base =
     (base \<noteq> [] \<and> \<not> is_dir_sep (last base) \<and>
      \<not> (case parse_prefix base of Some p \<Rightarrow> is_drive p \<and> prefix_len p = length base | None \<Rightarrow> False))"

text \<open>\<^verbatim>\<open>Path::join\<close> and \<^verbatim>\<open>PathBuf::push\<close>.\<close>

definition path_join :: "string \<Rightarrow> string \<Rightarrow> string" where
  "path_join base s =
     (if is_absolute s \<or> parse_prefix s \<noteq> None then s
      else if path_verbatim base \<and> s \<noteq> [] then
        render_components False (foldl push_component (components base) (components s))
      else if has_physical_root s then prefix_text base @ s
      else base @ (if need_sep base then [BS] else []) @ s)"

text \<open>Dropping the pieces that yield no component from the right end (text reversed).\<close>

function trim_right_rev :: "bool \<Rightarrow> string \<Rightarrow> string" where
  "trim_right_rev v r =
     (if r \<noteq> [] \<and> comp_of_piece v (rev (takeWhile (\<lambda>c. \<not> path_seps v c) r)) = None
      then trim_right_rev v (tl (dropWhile (\<lambda>c. \<not> path_seps v c) r)) else r)"
  by pat_completeness auto
termination
proof (relation "measure (\<lambda>p. length (snd p))", goal_cases)
  case (2 v r)
  then show ?case
    using length_dropWhile_le [of "\<lambda>c. \<not> path_seps v c" r]
    by (cases r) auto
qed simp

declare trim_right_rev.simps [simp del]

definition path_start :: "string \<Rightarrow> string" where
  "path_start s = take (length s - length (path_body s)) s"

definition path_parent :: "string \<Rightarrow> string option" where
  "path_parent s =
     (let v = path_verbatim s; r = trim_right_rev v (rev (path_body s)) in
      if r = [] then (if starts_cur_dir s then Some [] else None)
      else Some (path_start s
             @ rev (trim_right_rev v (tl (dropWhile (\<lambda>c. \<not> path_seps v c) r)))))"

definition file_name :: "string \<Rightarrow> string option" where
  "file_name s = (case last_of (components s) of Some (Normal n) \<Rightarrow> Some n | _ \<Rightarrow> None)"

definition file_extension :: "string \<Rightarrow> string option" where
  "file_extension s =
     (case file_name s of
        None \<Rightarrow> None
      | Some n \<Rightarrow> (case rsplit_once n (\<lambda>c. c = CHR ''.'') of
            None \<Rightarrow> None
          | Some (stem, ext) \<Rightarrow> if stem = [] then None else Some ext))"

section \<open>Prefix tests for policy decisions\<close>

text \<open>\<^verbatim>\<open>starts_with_ci\<close>: the loop over the prefix's components, reading the path's in step.\<close>

fun comps_start_ci :: "(string \<Rightarrow> string) \<Rightarrow> component list \<Rightarrow> component list \<Rightarrow> bool" where
  "comps_start_ci lc ps [] = True"
| "comps_start_ci lc [] (q # qs) = False"
| "comps_start_ci lc (p # ps) (q # qs) =
     (lc (comp_str p) = lc (comp_str q) \<and> comps_start_ci lc ps qs)"

definition starts_with_ci :: "(string \<Rightarrow> string) \<Rightarrow> string \<Rightarrow> string \<Rightarrow> bool" where
  "starts_with_ci lc path pre = comps_start_ci lc (components path) (components pre)"

definition eq_ci :: "(string \<Rightarrow> string) \<Rightarrow> string \<Rightarrow> string \<Rightarrow> bool" where
  "eq_ci lc a b \<longleftrightarrow> starts_with_ci lc a b \<and> starts_with_ci lc b a"

section \<open>Application-data layout\<close>

record app_paths =
  ap_root :: string
  ap_config_dir :: string
  ap_data_dir :: string
  ap_logs_dir :: string
  ap_state_dir :: string
  ap_update_dir :: string
  ap_cache_dir :: string
  ap_cache_temp_dir :: string

definition with_root :: "string \<Rightarrow> app_paths" where
  "with_root root =
     (let cache_dir = path_join root ''cache'' in
      \<lparr>ap_root = root,
       ap_config_dir = path_join root ''config'',
       ap_data_dir = path_join root ''data'',
       ap_logs_dir = path_join root ''logs'',
       ap_state_dir = path_join root ''state'',
       ap_update_dir = path_join root ''update'',
       ap_cache_dir = cache_dir,
       ap_cache_temp_dir = path_join cache_dir ''temp''\<rparr>)"

definition settings_file :: "app_paths \<Rightarrow> string" where
  "settings_file a = path_join (ap_config_dir a) ''settings.json''"

definition secrets_file :: "app_paths \<Rightarrow> string" where
  "secrets_file a = path_join (ap_config_dir a) ''secrets.bin''"

definition control_db :: "app_paths \<Rightarrow> string" where
  "control_db a = path_join (ap_data_dir a) ''local-pilot.db''"

definition audit_db :: "app_paths \<Rightarrow> string" where
  "audit_db a = path_join (ap_data_dir a) ''audit.db''"

definition index_db :: "app_paths \<Rightarrow> string" where
  "index_db a = path_join (ap_data_dir a) ''index.db''"

definition remote_access_gate :: "app_paths \<Rightarrow> string" where
  "remote_access_gate a = path_join (ap_state_dir a) ''remote-access.gate''"

definition task_cache_dir :: "app_paths \<Rightarrow> string \<Rightarrow> string" where
  "task_cache_dir a task_id = path_join (path_join (ap_cache_temp_dir a) ''tasks'') task_id"

definition tool_cache_dir :: "app_paths \<Rightarrow> string \<Rightarrow> string \<Rightarrow> string" where
  "tool_cache_dir a tool_profile scope =
     path_join (path_join (path_join (ap_cache_temp_dir a) ''tools'') tool_profile) scope"

definition is_under :: "(string \<Rightarrow> string) \<Rightarrow> app_paths \<Rightarrow> string \<Rightarrow> bool" where
  "is_under lc a path = starts_with_ci lc path (ap_root a)"

section \<open>Laws\<close>

subsection \<open>The prefix test\<close>

lemma comps_start_ci_refl [simp]: "comps_start_ci lc ps ps"
  by (induction ps) auto

lemma comps_start_ci_trans:
  "comps_start_ci lc a b \<Longrightarrow> comps_start_ci lc b c \<Longrightarrow> comps_start_ci lc a c"
proof (induction lc a b arbitrary: c rule: comps_start_ci.induct)
  case (1 lc ps)
  then show ?case by (cases c) auto
next
  case (3 lc p ps q qs)
  then show ?case by (cases c) auto
qed simp

lemma comps_start_ci_append [simp]: "comps_start_ci lc (ps @ qs) ps"
  by (induction ps) auto

lemma comps_start_ci_append2 [simp]:
  "comps_start_ci lc (ps @ qs) (ps @ rs) = comps_start_ci lc qs rs"
  by (induction ps) auto

lemma comps_start_ci_iff:
  "comps_start_ci lc ps qs \<longleftrightarrow>
     length qs \<le> length ps \<and> (\<forall>i<length qs. lc (comp_str (ps ! i)) = lc (comp_str (qs ! i)))"
proof (induction lc ps qs rule: comps_start_ci.induct)
  case (3 lc p ps q qs)
  then show ?case by (auto simp: less_Suc_eq_0_disj)
qed auto

lemma starts_with_ci_refl [simp, path_simps]: "starts_with_ci lc p p"
  by (simp add: starts_with_ci_def)

lemma starts_with_ci_trans:
  "starts_with_ci lc a b \<Longrightarrow> starts_with_ci lc b c \<Longrightarrow> starts_with_ci lc a c"
  unfolding starts_with_ci_def by (rule comps_start_ci_trans)

lemma eq_ci_refl [simp, path_simps]: "eq_ci lc a a"
  by (simp add: eq_ci_def)

lemma eq_ci_sym: "eq_ci lc a b = eq_ci lc b a"
  by (auto simp: eq_ci_def)

lemma eq_ci_trans: "eq_ci lc a b \<Longrightarrow> eq_ci lc b c \<Longrightarrow> eq_ci lc a c"
  unfolding eq_ci_def by (blast intro: starts_with_ci_trans)

interpretation path_prefix_order: coverage "\<lambda>a b. starts_with_ci lc b a" for lc
  by unfold_locales (simp, blast intro: starts_with_ci_trans)

lemma starts_with_ci_cong:
  "eq_ci lc a a' \<Longrightarrow> eq_ci lc b b' \<Longrightarrow> starts_with_ci lc a b = starts_with_ci lc a' b'"
  unfolding eq_ci_def by (blast intro: starts_with_ci_trans)

subsection \<open>Drive paths\<close>

definition drive_path :: "string \<Rightarrow> bool" where
  "drive_path s = (case s of d # e # f # _ \<Rightarrow> is_ascii_alphabetic d \<and> e = CHR '':'' \<and> f = BS | _ \<Rightarrow> False)"

definition valid_name :: "string \<Rightarrow> bool" where
  "valid_name n \<longleftrightarrow> n \<noteq> [] \<and> n \<noteq> ''.'' \<and> n \<noteq> ''..'' \<and> list_all (\<lambda>c. \<not> is_dir_sep c \<and> c \<noteq> CHR '':'') n"

lemma drive_pathE:
  assumes "drive_path s"
  obtains d body where "s = d # CHR '':'' # BS # body" "is_ascii_alphabetic d"
  using assms by (auto simp: drive_path_def split: list.splits)

lemma drive_path_append [simp]: "drive_path s \<Longrightarrow> drive_path (s @ t)"
  by (auto simp: drive_path_def split: list.splits)

lemma drive_letter_not_sep: "is_ascii_alphabetic d \<Longrightarrow> d \<noteq> BS \<and> d \<noteq> CHR ''/'' \<and> d \<noteq> CHR ''.''"
  by (auto simp: is_ascii_alphabetic_def)

lemma parse_prefix_drive:
  assumes "is_ascii_alphabetic d"
  shows "parse_prefix (d # CHR '':'' # r) = Some (Disk (ascii_upper d))"
  using assms drive_letter_not_sep [OF assms]
  by (simp add: parse_prefix_def parse_drive_def replace_char_def starts_with_def Let_def)

lemma components_drive [path_simps]:
  assumes "is_ascii_alphabetic d"
  shows "components (d # CHR '':'' # BS # body) =
    Prefix (Disk (ascii_upper d)) [d, CHR '':''] # RootDir # body_components False body"
  using parse_prefix_drive [OF assms]
  by (simp add: components_def start_components_def path_body_def has_physical_root_def
      after_prefix_def prefix_text_def prefix_len_def path_verbatim_def is_verbatim_def path_seps_def
      is_dir_sep_def)

lemma body_components_append:
  "body_components False (a @ BS # b) = body_components False a @ body_components False b"
  by (simp add: body_components_def path_seps_def is_dir_sep_def split_on_append_sep
      List.map_filter_def)

lemma body_components_name:
  "valid_name n \<Longrightarrow> body_components False n = [Normal n]"
  by (simp add: body_components_def path_seps_def split_on_none valid_name_def list_all_iff
      comp_of_piece_def List.map_filter_def)

lemma body_components_Nil [simp]: "body_components False [] = []"
  by (simp add: body_components_def comp_of_piece_def List.map_filter_def)

lemma valid_name_relative:
  assumes "valid_name n"
  shows "parse_prefix n = None" "\<not> has_physical_root n" "\<not> is_absolute n"
proof -
  obtain c cs where n: "n = c # cs" "\<not> is_dir_sep c"
    using assms by (cases n) (auto simp: valid_name_def)
  then have "c \<noteq> BS" "c \<noteq> CHR ''/''" by (auto simp: is_dir_sep_def)
  moreover have "\<not> (\<exists>r. cs = CHR '':'' # r)"
    using assms n by (auto simp: valid_name_def)
  ultimately show p: "parse_prefix n = None"
    by (auto simp: parse_prefix_def parse_drive_def replace_char_def starts_with_def Let_def n
        split: list.splits)
  with n show "\<not> has_physical_root n" "\<not> is_absolute n"
    by (simp_all add: has_physical_root_def after_prefix_def path_verbatim_def path_seps_def is_absolute_def)
qed

lemma drive_path_not_verbatim: "drive_path s \<Longrightarrow> \<not> path_verbatim s"
  by (auto elim!: drive_pathE simp: path_verbatim_def parse_prefix_drive is_verbatim_def)

lemma path_join_drive:
  assumes "drive_path base" "valid_name n"
  shows "path_join base n = base @ (if last base = BS \<or> last base = CHR ''/'' then [] else [BS]) @ n"
proof -
  obtain d body where b: "base = d # CHR '':'' # BS # body" "is_ascii_alphabetic d"
    using assms(1) by (rule drive_pathE)
  then have "need_sep base \<longleftrightarrow> \<not> (last base = BS \<or> last base = CHR ''/'')"
    by (simp add: need_sep_def parse_prefix_drive is_drive_def prefix_len_def is_dir_sep_def)
  then show ?thesis
    using assms valid_name_relative [OF assms(2)] drive_path_not_verbatim [OF assms(1)]
    by (simp add: path_join_def)
qed

lemma path_join_drive_path: "drive_path base \<Longrightarrow> valid_name n \<Longrightarrow> drive_path (path_join base n)"
  by (simp add: path_join_drive)

text \<open>Joining a name appends exactly one component.\<close>

lemma components_path_join:
  assumes "drive_path base" "valid_name n"
  shows "components (path_join base n) = components base @ [Normal n]"
proof -
  obtain d body where b: "base = d # CHR '':'' # BS # body" "is_ascii_alphabetic d"
    using assms(1) by (rule drive_pathE)
  have "body_components False (body @ (if last base = BS \<or> last base = CHR ''/'' then [] else [BS]) @ n)
      = body_components False body @ [Normal n]"
  proof (cases "last base = BS \<or> last base = CHR ''/''")
    case True
    show ?thesis
    proof (cases body rule: rev_cases)
      case Nil
      then show ?thesis using b assms(2) by (simp add: body_components_name)
    next
      case (snoc body' c)
      then have c: "c = last base" using b by simp
      with True have sep: "path_seps False c" by (auto simp: path_seps_def is_dir_sep_def)
      have "body_components False (body' @ c # x) = body_components False body' @ body_components False x" for x
        using sep by (simp add: body_components_def split_on_append_sep List.map_filter_def)
      from this [of n] this [of "[]"] show ?thesis
        using True snoc assms(2) by (simp add: body_components_name)
    qed
  next
    case False
    then show ?thesis using assms(2) by (simp add: body_components_append body_components_name)
  qed
  then show ?thesis
    unfolding path_join_drive [OF assms] using b by (simp add: components_drive)
qed

lemma path_join_under:
  "drive_path base \<Longrightarrow> valid_name n \<Longrightarrow> starts_with_ci lc (path_join base n) base"
  by (simp add: starts_with_ci_def components_path_join)

text \<open>A path strictly below \<open>base\<close> has a component that \<open>base\<close> lacks, so a sibling whose name merely
  extends the last component is not below it.\<close>

lemma sibling_not_under:
  assumes "drive_path base" "valid_name n" "valid_name m" "lc n \<noteq> lc m"
  shows "\<not> starts_with_ci lc (path_join base n) (path_join base m)"
  using assms by (simp add: starts_with_ci_def components_path_join comp_str_def)

end
