(* ===== verification/Winpath.thy ===== *)
theory Winpath
  imports Win_Path "HOL-Library.Word"
begin

unbundle bit_operations_syntax

text \<open>
  \<^verbatim>\<open>workstation-policy/src/winpath.rs\<close>: lexical normalization of user input into an absolute drive
  path, and canonicalization of the longest existing prefix through an opened handle. Two things are
  parameters: Unicode upper-casing (\<^verbatim>\<open>str::to_uppercase\<close>, \<open>uc\<close>), used only to look a name up among the
  reserved device names, and the Win32 calls \<^verbatim>\<open>CreateFileW\<close>, \<^verbatim>\<open>GetFinalPathNameByHandleW\<close> and
  \<^verbatim>\<open>GetFileInformationByHandle\<close> behind \<^verbatim>\<open>winfs.rs\<close> (\<open>open_path\<close>), one function from a path and the
  no-follow flag to the opened object or the error.

  The lemmas show that an accepted path is a drive path whose every component is a valid name (no
  stream, no reserved device, no separator, no trailing dot or blank), and that canonicalization
  returns the existing prefix extended by exactly the missing names, none of which is a link.
\<close>

section \<open>Errors and the expansion environment\<close>

datatype path_error =
    Empty | TooLong | Unc | Device | Relative | AlternateStream | ReservedName
  | InvalidCharacters | DanglingLink | UnsupportedTarget | AccessDenied | Io string

record expand_env =
  ee_profile :: "string option"
  ee_vars :: "(string \<times> string) list"

definition ExpandEnv_lookup :: "expand_env \<Rightarrow> string \<Rightarrow> string option" where
  "ExpandEnv_lookup env name =
     (let upper = to_ascii_uppercase name in
      map_option snd (find (\<lambda>(n, _). n = upper) (ee_vars env)))"

section \<open>Components\<close>

definition RESERVED :: "string list" where
  "RESERVED =
     [''CON'', ''PRN'', ''AUX'', ''NUL'', ''COM1'', ''COM2'', ''COM3'', ''COM4'', ''COM5'', ''COM6'',
      ''COM7'', ''COM8'', ''COM9'', ''COM'' @ [CHR 0xC2, CHR 0xB9], ''COM'' @ [CHR 0xC2, CHR 0xB2],
      ''COM'' @ [CHR 0xC2, CHR 0xB3], ''LPT1'', ''LPT2'', ''LPT3'', ''LPT4'', ''LPT5'', ''LPT6'',
      ''LPT7'', ''LPT8'', ''LPT9'', ''LPT'' @ [CHR 0xC2, CHR 0xB9], ''LPT'' @ [CHR 0xC2, CHR 0xB2],
      ''LPT'' @ [CHR 0xC2, CHR 0xB3], ''CONIN$'', ''CONOUT$'']"

definition invalid_char :: "char \<Rightarrow> bool" where
  "invalid_char c \<longleftrightarrow> byte c < 32 \<or> List.member [CHR ''<'', CHR ''>'', DQ, CHR ''|'', CHR ''?'', CHR ''*''] c"

definition dot_or_blank :: "char \<Rightarrow> bool" where
  "dot_or_blank c \<longleftrightarrow> c = CHR ''.'' \<or> c = SP"

definition name_stem :: "(string \<Rightarrow> string) \<Rightarrow> string \<Rightarrow> string" where
  "name_stem uc n =
     uc (trim_end_matches (hd (split_on (\<lambda>c. c = CHR ''.'') n)) (\<lambda>c. c = SP))"

definition normalize_component :: "(string \<Rightarrow> string) \<Rightarrow> string \<Rightarrow> path_error + string" where
  "normalize_component uc nm =
     (if list_ex invalid_char nm then Inl InvalidCharacters
      else if contains_char nm CHR '':'' then Inl AlternateStream
      else
        (let trimmed = trim_end_matches nm dot_or_blank in
         if trimmed = [] then Inl InvalidCharacters
         else if List.member RESERVED (name_stem uc trimmed) then Inl ReservedName
         else Inr trimmed))"

section \<open>Normalization\<close>

text \<open>The \<^verbatim>\<open>%VAR%\<close> loop: a known, non-empty name is replaced, every other percent sign stays.\<close>

function expand_vars :: "expand_env \<Rightarrow> string \<Rightarrow> string" where
  "expand_vars env s =
     (case split_once s CHR ''%'' of
        None \<Rightarrow> s
      | Some (pre, r) \<Rightarrow>
          (case split_once r CHR ''%'' of
             None \<Rightarrow> pre @ CHR ''%'' # expand_vars env r
           | Some (name, rest) \<Rightarrow>
               (case ExpandEnv_lookup env name of
                  Some p \<Rightarrow> if name \<noteq> [] then pre @ p @ expand_vars env rest
                            else pre @ CHR ''%'' # expand_vars env r
                | None \<Rightarrow> pre @ CHR ''%'' # expand_vars env r)))"
  by pat_completeness auto
termination
  by (relation "measure (\<lambda>p. length (snd p))") (auto simp: split_once_Some)

declare expand_vars.simps [simp del]

definition expand_home :: "expand_env \<Rightarrow> string \<Rightarrow> path_error + string" where
  "expand_home env s =
     (if s = ''~'' \<or> starts_with s [CHR ''~'', BS] then
        (case ee_profile env of Some p \<Rightarrow> Inr (p @ tl s) | None \<Rightarrow> Inl Relative)
      else Inr s)"

definition is_drive_absolute :: "string \<Rightarrow> bool" where
  "is_drive_absolute s =
     (case s of a # b # c # _ \<Rightarrow> is_ascii_alphabetic a \<and> b = CHR '':'' \<and> c = BS | _ \<Rightarrow> False)"

text \<open>Namespace prefixes: the path to go on with and whether it was verbatim.\<close>

definition strip_namespace :: "string \<Rightarrow> path_error + (string \<times> bool)" where
  "strip_namespace s =
     (case or_else (strip_prefix s [BS, BS, CHR ''?'', BS]) (strip_prefix s [BS, CHR ''?'', CHR ''?'', BS]) of
        Some rest \<Rightarrow>
          (if starts_with (to_ascii_uppercase rest) (''UNC'' @ [BS]) then Inl Unc
           else if is_drive_absolute rest then Inr (rest, True)
           else Inl Device)
      | None \<Rightarrow>
          (if starts_with s [BS, BS, CHR ''.'', BS] \<or> starts_with s [BS, BS, CHR ''?''] then Inl Device
           else if starts_with s [BS, BS] then Inl Unc
           else Inr (s, False)))"

definition make_absolute :: "string \<Rightarrow> string \<Rightarrow> path_error + string" where
  "make_absolute base s =
     (case s of
        a # b # r \<Rightarrow>
          (if is_ascii_alphabetic a \<and> b = CHR '':'' then
             (case r of [] \<Rightarrow> Inl Relative | c # _ \<Rightarrow> if c \<noteq> BS then Inl Relative else Inr s)
           else if a = BS then Inl Relative
           else Inr (path_join base s))
      | _ \<Rightarrow> if starts_with s [BS] then Inl Relative else Inr (path_join base s))"

definition drive_text :: "char \<Rightarrow> string" where
  "drive_text d = [ascii_upper d, CHR '':'']"

fun normalize_parts ::
    "(string \<Rightarrow> string) \<Rightarrow> bool \<Rightarrow> component list \<Rightarrow> string option \<Rightarrow> string list
     \<Rightarrow> path_error + (string option \<times> string list)" where
  "normalize_parts uc verbatim [] drive parts = Inr (drive, parts)"
| "normalize_parts uc verbatim (c # cs) drive parts =
     (case c of
        Prefix p _ \<Rightarrow>
          (case p of
             Disk d \<Rightarrow> normalize_parts uc verbatim cs (Some (drive_text d)) parts
           | VerbatimDisk d \<Rightarrow> normalize_parts uc verbatim cs (Some (drive_text d)) parts
           | UNC _ _ \<Rightarrow> Inl Unc
           | VerbatimUNC _ _ \<Rightarrow> Inl Unc
           | _ \<Rightarrow> Inl Device)
      | RootDir \<Rightarrow> normalize_parts uc verbatim cs drive parts
      | CurDir \<Rightarrow> if verbatim then Inl InvalidCharacters else normalize_parts uc verbatim cs drive parts
      | ParentDir \<Rightarrow> if verbatim then Inl InvalidCharacters
                     else normalize_parts uc verbatim cs drive (butlast parts)
      | Normal t \<Rightarrow>
          (if t = ''.'' \<or> t = ''..'' then
             (if verbatim then Inl InvalidCharacters
              else normalize_parts uc verbatim cs drive (if t = ''..'' then butlast parts else parts))
           else (case normalize_component uc t of
                   Inl e \<Rightarrow> Inl e
                 | Inr n \<Rightarrow> normalize_parts uc verbatim cs drive (parts @ [n]))))"

definition push_all :: "string \<Rightarrow> string list \<Rightarrow> string" where
  "push_all = foldl path_join"

definition normalize :: "(string \<Rightarrow> string) \<Rightarrow> expand_env \<Rightarrow> string \<Rightarrow> string \<Rightarrow> path_error + string" where
  "normalize uc env inp base =
     (if trim inp = [] then Inl Empty
      else if length inp > 32000 then Inl TooLong
      else if contains_char inp CHR 0x00 then Inl InvalidCharacters
      else (case expand_home env (replace_char (trim inp) (\<lambda>c. c = CHR ''/'') BS) of
          Inl e \<Rightarrow> Inl e
        | Inr s1 \<Rightarrow>
            (case strip_namespace (if contains_char s1 CHR ''%'' then expand_vars env s1 else s1) of
               Inl e \<Rightarrow> Inl e
             | Inr (s2, verbatim) \<Rightarrow>
                 (case make_absolute base s2 of
                    Inl e \<Rightarrow> Inl e
                  | Inr absolute \<Rightarrow>
                      (case normalize_parts uc verbatim (components absolute) None [] of
                         Inl e \<Rightarrow> Inl e
                       | Inr (None, _) \<Rightarrow> Inl Relative
                       | Inr (Some drive, parts) \<Rightarrow> Inr (push_all (drive @ [BS]) parts))))))"

section \<open>Canonicalization\<close>

record io_error =
  ioe_os :: "int option"
  ioe_not_found :: bool
  ioe_text :: string

record file_identity =
  fid_volume :: "64 word"
  fid_id :: "128 word"

record file_info =
  fi_attributes :: "32 word"
  fi_size :: "64 word"
  fi_links :: "32 word"
  fi_identity :: file_identity
  fi_modified_ms :: int

text \<open>What an opened handle answers: \<^verbatim>\<open>GetFinalPathNameByHandleW\<close> and the file information.\<close>

record handle =
  h_final_text :: "io_error + string"
  h_info :: "io_error + file_info"

type_synonym win_open = "string \<Rightarrow> bool \<Rightarrow> io_error + handle"

definition fi_is_dir :: "file_info \<Rightarrow> bool" where
  "fi_is_dir i \<longleftrightarrow> fi_attributes i AND 0x10 \<noteq> 0"

definition fi_is_reparse :: "file_info \<Rightarrow> bool" where
  "fi_is_reparse i \<longleftrightarrow> fi_attributes i AND 0x400 \<noteq> 0"

datatype final_path = FP_Dos string | FP_Unc string | FP_Other string

definition final_path_of :: "string \<Rightarrow> final_path" where
  "final_path_of text =
     (case strip_prefix text ([BS, BS, CHR ''?'', BS] @ ''UNC'' @ [BS]) of
        Some rest \<Rightarrow> FP_Unc ([BS, BS] @ rest)
      | None \<Rightarrow>
          (case strip_prefix text [BS, BS, CHR ''?'', BS] of
             Some rest \<Rightarrow>
               (case rest of
                  a # b # r \<Rightarrow>
                    (if is_ascii_alphabetic a \<and> b = CHR '':'' then FP_Dos (ascii_upper a # b # r)
                     else FP_Other text)
                | _ \<Rightarrow> FP_Other text)
           | None \<Rightarrow> FP_Other text))"

record canonical =
  cn_path :: string
  cn_existing :: string
  cn_tail :: "string list"
  cn_identity :: "file_identity option"
  cn_exists :: bool
  cn_is_dir :: bool
  cn_is_reparse :: bool
  cn_links :: "32 word"
  cn_size :: "64 word"
  cn_modified_ms :: int

definition map_io :: "io_error \<Rightarrow> path_error" where
  "map_io e = (if ioe_os e = Some 5 then AccessDenied else Io (ioe_text e))"

definition is_not_found :: "io_error \<Rightarrow> bool" where
  "is_not_found e \<longleftrightarrow>
     (case ioe_os e of Some n \<Rightarrow> List.member [2, 3, 123, 161, 1920] n | None \<Rightarrow> False) \<or> ioe_not_found e"

definition normal_names :: "string \<Rightarrow> string list" where
  "normal_names p = List.map_filter (\<lambda>c. case c of Normal n \<Rightarrow> Some n | _ \<Rightarrow> None) (components p)"

definition root_of :: "string \<Rightarrow> string" where
  "root_of p = push_all [] (map comp_str
     (takeWhile (\<lambda>c. case c of Prefix _ _ \<Rightarrow> True | RootDir \<Rightarrow> True | _ \<Rightarrow> False) (components p)))"

text \<open>The successful end of the loop, at \<open>n\<close> existing components.\<close>

definition canonical_of :: "handle \<Rightarrow> string list \<Rightarrow> path_error + canonical" where
  "canonical_of h rest =
     (case h_info h of
        Inl e \<Rightarrow> Inl (map_io e)
      | Inr info \<Rightarrow>
          (case h_final_text h of
             Inl e \<Rightarrow> Inl (map_io e)
           | Inr t \<Rightarrow>
               (case final_path_of t of
                  FP_Unc _ \<Rightarrow> Inl Unc
                | FP_Other _ \<Rightarrow> Inl UnsupportedTarget
                | FP_Dos existing \<Rightarrow>
                    (let ex = (rest = []) in
                     if \<not> ex \<and> \<not> fi_is_dir info then Inl (Io ''a parent path component is a file'')
                     else Inr \<lparr>cn_path = push_all existing rest, cn_existing = existing, cn_tail = rest,
                               cn_identity = Some (fi_identity info), cn_exists = ex,
                               cn_is_dir = (ex \<and> fi_is_dir info),
                               cn_is_reparse = (ex \<and> fi_is_reparse info),
                               cn_links = (if ex then fi_links info else 0),
                               cn_size = (if ex then fi_size info else 0),
                               cn_modified_ms = (if ex then fi_modified_ms info else 0)\<rparr>))))"

definition no_follow_at :: "bool \<Rightarrow> string list \<Rightarrow> nat \<Rightarrow> bool" where
  "no_follow_at follow_final comps n \<longleftrightarrow> n = length comps \<and> \<not> follow_final"

fun canonicalize_from ::
    "win_open \<Rightarrow> bool \<Rightarrow> string \<Rightarrow> string list \<Rightarrow> nat \<Rightarrow> path_error + canonical" where
  "canonicalize_from open_path follow_final root comps n =
     (let candidate = push_all root (take n comps); nf = no_follow_at follow_final comps n in
      (case open_path candidate nf of
         Inr h \<Rightarrow> canonical_of h (drop n comps)
       | Inl e \<Rightarrow>
           (if is_not_found e then
              (if n > 0 \<and> \<not> nf \<and> is_ok (open_path candidate True) then Inl DanglingLink
               else (case n of
                       0 \<Rightarrow> Inl (Io ''the drive does not exist'')
                     | Suc m \<Rightarrow> canonicalize_from open_path follow_final root comps m))
            else Inl (map_io e))))"

declare canonicalize_from.simps [simp del]

definition canonicalize :: "win_open \<Rightarrow> string \<Rightarrow> bool \<Rightarrow> path_error + canonical" where
  "canonicalize open_path normalized follow_final =
     (let comps = normal_names normalized in
      canonicalize_from open_path follow_final (root_of normalized) comps (length comps))"

definition resolve ::
    "(string \<Rightarrow> string) \<Rightarrow> win_open \<Rightarrow> expand_env \<Rightarrow> string \<Rightarrow> string \<Rightarrow> bool \<Rightarrow> path_error + canonical" where
  "resolve uc open_path env inp base follow_final =
     (case normalize uc env inp base of
        Inl e \<Rightarrow> Inl e
      | Inr normalized \<Rightarrow> canonicalize open_path normalized follow_final)"

section \<open>What an accepted path looks like\<close>

definition safe_name :: "(string \<Rightarrow> string) \<Rightarrow> string \<Rightarrow> bool" where
  "safe_name uc n \<longleftrightarrow>
     valid_name n \<and> \<not> list_ex invalid_char n \<and> \<not> dot_or_blank (last n)
     \<and> \<not> List.member RESERVED (name_stem uc n)"

lemma safe_name_valid: "safe_name uc n \<Longrightarrow> valid_name n"
  by (simp add: safe_name_def)

lemma normalize_component_safe:
  assumes "normalize_component uc nm = Inr n" "\<forall>c\<in>set nm. \<not> is_dir_sep c"
  shows "safe_name uc n"
proof -
  let ?t = "trim_end_matches nm dot_or_blank"
  from assms(1) have n: "n = ?t" "?t \<noteq> []" "\<not> list_ex invalid_char nm" "CHR '':'' \<notin> set nm"
      "\<not> List.member RESERVED (name_stem uc ?t)"
    by (auto simp: normalize_component_def contains_char_def Let_def split: if_splits)
  have sub: "set n \<subseteq> set nm" using n trim_end_matches_subset by metis
  have last: "\<not> dot_or_blank (last n)" using n trim_end_matches_last by metis
  then have "n \<noteq> ''.''" "n \<noteq> ''..''" by (auto simp: dot_or_blank_def)
  with n sub last assms(2) show ?thesis
    by (auto simp: safe_name_def valid_name_def list_all_iff list_ex_iff)
qed

lemma ascii_upper_alphabetic:
  "is_ascii_alphabetic d \<Longrightarrow> is_ascii_alphabetic (ascii_upper d)"
  by (auto simp: is_ascii_alphabetic_def ascii_upper_def of_char_of)

lemma ascii_upper_idem [simp]: "ascii_upper (ascii_upper d) = ascii_upper d"
  by (auto simp: ascii_upper_def of_char_of)

text \<open>Components of a path that is not verbatim: names are free of separators, drives are letters.\<close>

lemma body_components_no_sep:
  assumes "Normal t \<in> set (body_components False s)"
  shows "\<forall>c\<in>set t. \<not> is_dir_sep c"
proof -
  from assms have "t \<in> set (split_on is_dir_sep s)"
    by (auto simp: body_components_def path_seps_def comp_of_piece_def List.map_filter_def
        split: if_splits)
  then show ?thesis by (rule split_on_words)
qed

lemma components_no_sep:
  assumes "\<not> path_verbatim s" "Normal t \<in> set (components s)"
  shows "\<forall>c\<in>set t. \<not> is_dir_sep c"
  using assms body_components_no_sep
  by (auto simp: components_def start_components_def split: option.splits if_splits)

lemma parse_prefix_Disk:
  "parse_prefix s = Some (Disk d) \<Longrightarrow> is_ascii_alphabetic d \<and> ascii_upper d = d"
  by (auto simp: parse_prefix_def parse_drive_def Let_def ascii_upper_alphabetic
      split: if_splits list.splits option.splits prod.splits)

lemma components_drive_letter:
  assumes "Prefix p t \<in> set (components s)"
  shows "parse_prefix s = Some p"
  using assms
  by (auto simp: components_def start_components_def body_components_def comp_of_piece_def
      List.map_filter_def split: option.splits if_splits)

lemma verbatim_starts:
  "path_verbatim s \<Longrightarrow> starts_with s [BS, BS]"
  by (auto simp: path_verbatim_def parse_prefix_def is_verbatim_def Let_def starts_with_iff
      split: option.splits if_splits list.splits prod.splits path_prefix.splits)

lemma normalize_parts_step:
  assumes "normalize_parts uc v (c # cs) drive parts = Inr r"
  shows "\<exists>d ps. normalize_parts uc v cs d ps = Inr r
    \<and> (ps = parts \<or> ps = butlast parts
        \<or> (\<exists>t n. c = Normal t \<and> normalize_component uc t = Inr n \<and> ps = parts @ [n]))
    \<and> (d = drive \<or> (\<exists>q t. (c = Prefix (Disk q) t \<or> c = Prefix (VerbatimDisk q) t) \<and> d = Some (drive_text q)))"
proof (cases c)
  case (Prefix q t)
  with assms show ?thesis by (cases q) auto
next
  case (Normal t)
  with assms show ?thesis
    by (cases "t = ''.'' \<or> t = ''..''"; cases "normalize_component uc t"; cases v) auto
qed (use assms in \<open>cases v; auto\<close>)+

lemma normalize_parts_safe:
  assumes "normalize_parts uc v cs drive parts = Inr (drive', parts')"
    and "\<forall>t. Normal t \<in> set cs \<longrightarrow> (\<forall>c\<in>set t. \<not> is_dir_sep c)"
    and "\<forall>n\<in>set parts. safe_name uc n"
  shows "\<forall>n\<in>set parts'. safe_name uc n"
  using assms
proof (induction cs arbitrary: drive parts)
  case (Cons c cs)
  from normalize_parts_step [OF Cons.prems(1)] obtain d ps where
      step: "normalize_parts uc v cs d ps = Inr (drive', parts')"
      "ps = parts \<or> ps = butlast parts
        \<or> (\<exists>t n. c = Normal t \<and> normalize_component uc t = Inr n \<and> ps = parts @ [n])"
    by blast
  have "\<forall>n\<in>set ps. safe_name uc n"
    using step(2)
  proof (elim disjE exE conjE)
    fix t n assume "c = Normal t" "normalize_component uc t = Inr n" "ps = parts @ [n]"
    with Cons.prems(2,3) normalize_component_safe [of uc t n] show ?thesis by simp
  qed (use Cons.prems(3) in \<open>auto dest: in_set_butlastD\<close>)
  with Cons.IH [OF step(1)] Cons.prems(2) show ?case by simp
qed simp

lemma normalize_parts_drive:
  assumes "normalize_parts uc v cs drive parts = Inr (Some d, parts')"
  shows "drive = Some d \<or> (\<exists>c t. d = drive_text c \<and>
    (Prefix (Disk c) t \<in> set cs \<or> Prefix (VerbatimDisk c) t \<in> set cs))"
  using assms
proof (induction cs arbitrary: drive parts)
  case (Cons c cs)
  from normalize_parts_step [OF Cons.prems] obtain e ps where
      "normalize_parts uc v cs e ps = Inr (Some d, parts')"
      "e = drive \<or> (\<exists>q t. (c = Prefix (Disk q) t \<or> c = Prefix (VerbatimDisk q) t) \<and> e = Some (drive_text q))"
    by blast
  with Cons.IH [of e ps] show ?case by auto
qed simp

text \<open>Pushing names onto a drive path appends them as components.\<close>

lemma push_all_simps [simp]: "push_all b [] = b" "push_all b (n # ns) = push_all (path_join b n) ns"
  by (simp_all add: push_all_def)

lemma push_all_drive:
  assumes "drive_path base" "\<forall>n\<in>set ns. valid_name n"
  shows "drive_path (push_all base ns) \<and> components (push_all base ns) = components base @ map Normal ns"
  using assms
  by (induction ns arbitrary: base) (auto simp: path_join_drive_path components_path_join)

lemma make_absolute_not_verbatim:
  assumes "make_absolute base s = Inr a" "drive_path base" "\<not> starts_with s [BS, BS]"
  shows "\<not> path_verbatim a"
proof (cases "a = s")
  case True
  with assms(3) show ?thesis using verbatim_starts by blast
next
  case False
  with assms(1) have a: "a = path_join base s"
    by (auto simp: make_absolute_def split: list.splits if_splits)
  obtain d body where b: "base = d # CHR '':'' # BS # body" "is_ascii_alphabetic d"
    using assms(2) by (rule drive_pathE)
  have "\<not> path_verbatim base" using assms(2) by (rule drive_path_not_verbatim)
  moreover have "prefix_text base = [d, CHR '':'']"
    using b by (simp add: prefix_text_def parse_prefix_drive prefix_len_def)
  moreover have "\<not> path_verbatim (d # r)" for r
    using verbatim_starts [of "d # r"] drive_letter_not_sep [OF b(2)] by (auto simp: starts_with_def)
  ultimately show ?thesis
    using False b assms(3) verbatim_starts [of s] by (auto simp: a path_join_def)
qed

lemma strip_namespace_result:
  assumes "strip_namespace s = Inr (r, v)"
  shows "\<not> starts_with r [BS, BS]"
proof (cases "or_else (strip_prefix s [BS, BS, CHR ''?'', BS]) (strip_prefix s [BS, CHR ''?'', CHR ''?'', BS])")
  case None
  with assms show ?thesis by (auto simp: strip_namespace_def split: if_splits)
next
  case (Some q)
  with assms have "is_drive_absolute r" by (auto simp: strip_namespace_def split: if_splits)
  then show ?thesis
    using drive_letter_not_sep by (auto simp: is_drive_absolute_def starts_with_def split: list.splits)
qed

text \<open>The shape every accepted path has.\<close>

definition wf_normal :: "(string \<Rightarrow> string) \<Rightarrow> string \<Rightarrow> bool" where
  "wf_normal uc p \<longleftrightarrow>
     (\<exists>d parts. is_ascii_alphabetic d \<and> ascii_upper d = d \<and> p = push_all [d, CHR '':'', BS] parts
        \<and> components p = Prefix (Disk d) [d, CHR '':''] # RootDir # map Normal parts
        \<and> (\<forall>n\<in>set parts. safe_name uc n))"

lemma normalize_shape:
  assumes "normalize uc env inp base = Inr p" "drive_path base"
  shows "wf_normal uc p"
proof -
  from assms(1) obtain s s2 v a drv parts where
      s2: "strip_namespace s = Inr (s2, v)" and a: "make_absolute base s2 = Inr a"
      and parts: "normalize_parts uc v (components a) None [] = Inr (Some drv, parts)"
      and p: "p = push_all (drv @ [BS]) parts"
    by (auto simp: normalize_def split: if_splits sum.splits option.splits prod.splits)
  have nv: "\<not> path_verbatim a"
    using make_absolute_not_verbatim [OF a assms(2) strip_namespace_result [OF s2]] .
  have safe: "\<forall>n\<in>set parts. safe_name uc n"
    using normalize_parts_safe [OF parts] components_no_sep [OF nv] by auto
  from normalize_parts_drive [OF parts] obtain c t where c: "drv = drive_text c"
      "Prefix (Disk c) t \<in> set (components a) \<or> Prefix (VerbatimDisk c) t \<in> set (components a)"
    by auto
  moreover have "Prefix (VerbatimDisk c) t \<notin> set (components a)"
    using components_drive_letter nv by (force simp: path_verbatim_def is_verbatim_def)
  ultimately have "parse_prefix a = Some (Disk c)" using components_drive_letter by blast
  then have d: "is_ascii_alphabetic c" "ascii_upper c = c" using parse_prefix_Disk by auto
  then have "drive_path (drv @ [BS])" by (simp add: c drive_text_def drive_path_def)
  with safe have "components p = components (drv @ [BS]) @ map Normal parts"
    unfolding p using push_all_drive safe_name_valid by blast
  with d c p safe show ?thesis
    unfolding wf_normal_def
    by (intro exI [of _ c] exI [of _ parts]) (simp add: drive_text_def components_drive)
qed

lemma wf_normal_drive_path:
  assumes "wf_normal uc p"
  shows "drive_path p"
proof -
  from assms obtain d parts where "is_ascii_alphabetic d" "p = push_all [d, CHR '':'', BS] parts"
      "\<forall>n\<in>set parts. safe_name uc n"
    by (auto simp: wf_normal_def)
  moreover from this have "drive_path [d, CHR '':'', BS]" by (simp add: drive_path_def)
  ultimately show ?thesis using push_all_drive safe_name_valid by blast
qed

section \<open>Canonicalization\<close>

text \<open>The names that do not exist yet are the ones below the longest prefix that opens; no link
  hides among them.\<close>

lemma canonicalize_from_Inr:
  assumes "canonicalize_from op ff root comps n = Inr c" "n \<le> length comps"
  shows "\<exists>k h. k \<le> n \<and> op (push_all root (take k comps)) (no_follow_at ff comps k) = Inr h
    \<and> canonical_of h (drop k comps) = Inr c
    \<and> (\<forall>m. k < m \<and> m \<le> n \<longrightarrow> \<not> is_ok (op (push_all root (take m comps)) True)
          \<and> (\<exists>e. op (push_all root (take m comps)) (no_follow_at ff comps m) = Inl e \<and> is_not_found e))"
  using assms
proof (induction n)
  case 0
  then show ?case
    by (subst (asm) canonicalize_from.simps) (auto simp: Let_def split: sum.splits if_splits)
next
  case (Suc n)
  let ?cand = "push_all root (take (Suc n) comps)"
  show ?case
  proof (cases "op ?cand (no_follow_at ff comps (Suc n))")
    case (Inr h)
    with Suc.prems show ?thesis
      by (intro exI [of _ "Suc n"] exI [of _ h]) (auto simp: canonicalize_from.simps [of _ _ _ _ "Suc n"])
  next
    case (Inl e)
    with Suc.prems have e: "is_not_found e" "no_follow_at ff comps (Suc n) \<or> \<not> is_ok (op ?cand True)"
        "canonicalize_from op ff root comps n = Inr c"
      by (auto simp: canonicalize_from.simps [of _ _ _ _ "Suc n"] split: if_splits)
    then have "\<not> is_ok (op ?cand True)" using Inl by (cases "no_follow_at ff comps (Suc n)") auto
    with Suc.IH [OF e(3)] Suc.prems(2) Inl e(1) show ?thesis
      by (metis Suc_leD le_SucE le_SucI)
  qed
qed

lemma canonical_of_Inr:
  assumes "canonical_of h rest = Inr c"
  shows "cn_tail c = rest \<and> cn_path c = push_all (cn_existing c) rest \<and> cn_exists c = (rest = [])
    \<and> (\<exists>t. h_final_text h = Inr t \<and> final_path_of t = FP_Dos (cn_existing c))"
  using assms by (auto simp: canonical_of_def Let_def split: sum.splits final_path.splits if_splits)

lemma final_path_of_Dos: "final_path_of t = FP_Dos p \<Longrightarrow> \<exists>d r. p = ascii_upper d # CHR '':'' # r \<and> is_ascii_alphabetic d"
  by (auto simp: final_path_of_def split: option.splits list.splits if_splits)

lemma normal_names_wf:
  assumes "wf_normal uc p"
  shows "\<forall>n\<in>set (normal_names p). safe_name uc n"
  using assms by (auto simp: wf_normal_def normal_names_def List.map_filter_def split: component.splits)

text \<open>A canonical path is the existing prefix with exactly the missing names appended.\<close>

lemma canonicalize_extends:
  assumes "canonicalize op p ff = Inr c" "wf_normal uc p" "drive_path (cn_existing c)"
  shows "components (cn_path c) = components (cn_existing c) @ map Normal (cn_tail c)
    \<and> drive_path (cn_path c) \<and> (\<exists>k. cn_tail c = drop k (normal_names p))"
proof -
  from canonicalize_from_Inr assms(1) obtain k h where
      "canonical_of h (drop k (normal_names p)) = Inr c"
    unfolding canonicalize_def Let_def by blast
  from canonical_of_Inr [OF this] have c: "cn_tail c = drop k (normal_names p)"
      "cn_path c = push_all (cn_existing c) (cn_tail c)" by auto
  moreover from normal_names_wf [OF assms(2)] have "\<forall>n\<in>set (cn_tail c). valid_name n"
    unfolding c by (meson in_set_dropD safe_name_valid)
  ultimately show ?thesis using push_all_drive [OF assms(3)] by metis
qed

end
