(* ===== verification/Protected.thy ===== *)
theory Protected
  imports Winpath
begin

text \<open>
  \<^verbatim>\<open>workstation-policy/src/protected.rs\<close>: the secret and credential locations no agent may touch. The
  rule set is built from the settings and the expansion environment; a path is protected by a
  directory rule, by a \<^verbatim>\<open>.ssh\<close> or \<^verbatim>\<open>.gnupg\<close> component anywhere in it, or by its file name. Glob patterns
  belong to the \<^verbatim>\<open>globset\<close> crate: whether a pattern compiles, whether a set of them builds, and whether
  a pattern matches a name are the fields of \<open>glob_engine\<close>. \<^verbatim>\<open>GlobSet::matches\<close> lists the matching
  patterns in order of insertion, so its first hit is the first matching pattern.
\<close>

record glob_engine =
  ge_valid :: "string \<Rightarrow> bool"
  ge_set_ok :: "string list \<Rightarrow> bool"
  ge_match :: "string \<Rightarrow> string \<Rightarrow> bool"

datatype protected_kind = PK_Directory | PK_FilePattern | PK_EnvFile

record protected_match =
  pm_rule :: string
  pm_kind :: protected_kind

record protected_path_settings =
  ps_extra_directories :: "string list"
  ps_extra_file_patterns :: "string list"
  ps_exceptions :: "string list"
  ps_allow_env_file_reads :: bool
  ps_mutation_exceptions :: "string list"
  ps_generic_pattern_source_extensions :: "string list"

definition ProtectedPathSettings_default :: protected_path_settings where
  "ProtectedPathSettings_default =
     \<lparr>ps_extra_directories = [], ps_extra_file_patterns = [],
      ps_exceptions = [''.env.example'', ''.env.sample'', ''.env.template'', ''.env.dist''],
      ps_allow_env_file_reads = False, ps_mutation_exceptions = [],
      ps_generic_pattern_source_extensions =
        [''rs'', ''py'', ''js'', ''mjs'', ''cjs'', ''ts'', ''tsx'', ''jsx'', ''go'', ''java'', ''kt'', ''c'',
         ''cc'', ''cpp'', ''h'', ''hpp'', ''cs'', ''rb'', ''php'', ''swift'', ''scala'', ''md'', ''mdx'',
         ''html'', ''css'', ''scss'', ''vue'', ''svelte'', ''dart'', ''lua'', ''sql'', ''snap'', ''proto'',
         ''graphql'']\<rparr>"

section \<open>Rule sets\<close>

definition profile_directories :: "string list" where
  "profile_directories = map bs
     [''.ssh'', ''.aws'', ''.azure'', ''.gnupg'', ''.kube'', ''.docker'', ''.cloudflared'', ''.wrangler'',
      ''.config/gh'', ''.config/gcloud'', ''.config/git/credentials'', ''.git-credentials'', ''.netrc'',
      ''_netrc'', ''.npmrc'', ''.pypirc'', ''.terraform.d/credentials.tfrc.json'', ''.cargo/credentials'',
      ''.cargo/credentials.toml'', ''.vault-token'', ''.password-store'', ''.m2/settings-security.xml'']"

definition appdata_directories :: "string list" where
  "appdata_directories = map bs
     [''Microsoft/Credentials'', ''Microsoft/Protect'', ''Microsoft/Vault'',
      ''Microsoft/SystemCertificates/My'', ''GitHub CLI'', ''gcloud'', ''Mozilla/Firefox/Profiles'',
      ''Bitwarden'', ''KeePass'', ''KeePassXC'', ''1Password'', ''xdg.config/.wrangler'',
      ''Docker/config.json'']"

definition localappdata_directories :: "string list" where
  "localappdata_directories = map bs
     [''Microsoft/Credentials'', ''Microsoft/Vault'', ''Google/Chrome/User Data'',
      ''Microsoft/Edge/User Data'', ''BraveSoftware/Brave-Browser/User Data'', ''Vivaldi/User Data'',
      ''Opera Software'', ''1Password'', ''Bitwarden'', ''GitCredentialManager'', ''gcloud'']"

definition labelled :: "string \<Rightarrow> string \<Rightarrow> string list \<Rightarrow> (string \<times> string) list" where
  "labelled var base ds = map (\<lambda>d. (CHR ''%'' # var @ [CHR ''%'', BS] @ d, path_join base d)) ds"

definition default_directories :: "expand_env \<Rightarrow> (string \<times> string) list" where
  "default_directories env =
     (let lookup = (\<lambda>name. map_option snd (find (\<lambda>(n, _). n = name) (ee_vars env))) in
        (case ee_profile env of Some p \<Rightarrow> labelled ''USERPROFILE'' p profile_directories | None \<Rightarrow> [])
      @ (case lookup ''APPDATA'' of Some a \<Rightarrow> labelled ''APPDATA'' a appdata_directories | None \<Rightarrow> [])
      @ (case lookup ''LOCALAPPDATA'' of
           Some l \<Rightarrow> labelled ''LOCALAPPDATA'' l localappdata_directories | None \<Rightarrow> [])
      @ (case lookup ''SYSTEMROOT'' of
           Some s \<Rightarrow> [(bs ''%SYSTEMROOT%/System32/config'', path_join (path_join s ''System32'') ''config'')]
         | None \<Rightarrow> []))"

definition FILE_PATTERNS :: "string list" where
  "FILE_PATTERNS =
     [''*.pem'', ''*.pfx'', ''*.p12'', ''*.key'', ''*.ppk'', ''*.kdbx'', ''*.keystore'', ''*.jks'', ''id_rsa'',
      ''id_rsa.*'', ''id_dsa'', ''id_dsa.*'', ''id_ecdsa'', ''id_ecdsa.*'', ''id_ed25519'', ''id_ed25519.*'',
      ''.git-credentials'', ''.netrc'', ''_netrc'', ''.pgpass'', ''*.tfstate'', ''*.tfstate.backup'']"

definition GENERIC_PATTERNS :: "string list" where
  "GENERIC_PATTERNS = [''credentials*'', ''secrets*'', ''*token*'']"

text \<open>A built glob set is the list of its patterns; a set that does not build is empty.\<close>

record protected_rules =
  pr_directories :: "(string \<times> string) list"
  pr_files :: "string list"
  pr_generic :: "string list"
  pr_exceptions :: "string list"
  pr_source_exts :: "string list"
  pr_allow_env_reads :: bool
  pr_mutation_exceptions :: "string list"

definition glob_set :: "glob_engine \<Rightarrow> string list \<Rightarrow> string list" where
  "glob_set ge ps = (let valid = filter (ge_valid ge) ps in if ge_set_ok ge valid then valid else [])"

definition resolve_directory ::
    "(string \<Rightarrow> string) \<Rightarrow> win_open \<Rightarrow> string \<times> string \<Rightarrow> (string \<times> string) list" where
  "resolve_directory lc open_path d =
     (case d of (label, p) \<Rightarrow>
        (label, p) #
        (case canonicalize open_path p True of
           Inr c \<Rightarrow> if eq_ci lc (cn_path c) p then [] else [(label, cn_path c)]
         | Inl _ \<Rightarrow> []))"

definition extra_directory ::
    "(string \<Rightarrow> string) \<Rightarrow> expand_env \<Rightarrow> string \<Rightarrow> (string \<times> string) option" where
  "extra_directory uc env extra =
     (case normalize uc env extra (bs ''C:/'') of Inr p \<Rightarrow> Some (extra, p) | Inl _ \<Rightarrow> None)"

definition ProtectedRules_new ::
    "(string \<Rightarrow> string) \<Rightarrow> (string \<Rightarrow> string) \<Rightarrow> glob_engine \<Rightarrow> win_open
     \<Rightarrow> protected_path_settings \<Rightarrow> expand_env \<Rightarrow> protected_rules" where
  "ProtectedRules_new lc uc ge open_path settings env =
     (let dirs = default_directories env
            @ List.map_filter (extra_directory uc env) (ps_extra_directories settings) in
      \<lparr>pr_directories = concat (map (resolve_directory lc open_path) dirs),
       pr_files = glob_set ge (FILE_PATTERNS @ ps_extra_file_patterns settings),
       pr_generic = glob_set ge GENERIC_PATTERNS,
       pr_exceptions = glob_set ge (ps_exceptions settings),
       pr_source_exts = map to_ascii_lowercase (ps_generic_pattern_source_extensions settings),
       pr_allow_env_reads = ps_allow_env_file_reads settings,
       pr_mutation_exceptions = ps_mutation_exceptions settings\<rparr>)"

section \<open>Checks\<close>

definition check_name :: "glob_engine \<Rightarrow> protected_rules \<Rightarrow> string \<Rightarrow> bool \<Rightarrow> protected_match option" where
  "check_name ge r name for_read =
     (if list_ex (\<lambda>p. ge_match ge p name) (pr_exceptions r) then None
      else
        (let lower = to_ascii_lowercase name in
         if lower = ''.env'' \<or> starts_with lower ''.env.'' \<or> ends_with lower ''.env'' then
           (if for_read \<and> pr_allow_env_reads r then None
            else Some \<lparr>pm_rule = ''.env / .env.*'', pm_kind = PK_EnvFile\<rparr>)
         else (case find (\<lambda>p. ge_match ge p name) (pr_files r) of
             Some p \<Rightarrow> Some \<lparr>pm_rule = p, pm_kind = PK_FilePattern\<rparr>
           | None \<Rightarrow>
               (case find (\<lambda>p. ge_match ge p name) (pr_generic r) of
                  Some p \<Rightarrow>
                    (let ext = to_ascii_lowercase (unwrap_or [] (file_extension name)) in
                     if List.member (pr_source_exts r) ext then None
                     else Some \<lparr>pm_rule = p, pm_kind = PK_FilePattern\<rparr>)
                | None \<Rightarrow> None))))"

definition secret_component :: "component \<Rightarrow> bool" where
  "secret_component c \<longleftrightarrow>
     (let s = to_ascii_lowercase (comp_str c) in s = ''.ssh'' \<or> s = ''.gnupg'')"

definition protected_check ::
    "(string \<Rightarrow> string) \<Rightarrow> glob_engine \<Rightarrow> protected_rules \<Rightarrow> string \<Rightarrow> bool \<Rightarrow> protected_match option" where
  "protected_check lc ge r path for_read =
     (case find (\<lambda>(_, dir). starts_with_ci lc path dir) (pr_directories r) of
        Some (label, _) \<Rightarrow> Some \<lparr>pm_rule = label, pm_kind = PK_Directory\<rparr>
      | None \<Rightarrow>
          (case find secret_component (components path) of
             Some c \<Rightarrow> Some \<lparr>pm_rule = to_ascii_lowercase (comp_str c) @ '' directory'', pm_kind = PK_Directory\<rparr>
           | None \<Rightarrow>
               (case file_name path of
                  None \<Rightarrow> None
                | Some name \<Rightarrow> check_name ge r name for_read)))"

definition mutation_excepted :: "(string \<Rightarrow> string) \<Rightarrow> protected_rules \<Rightarrow> string \<Rightarrow> bool" where
  "mutation_excepted lc r path = list_ex (\<lambda>p. eq_ci lc p path) (pr_mutation_exceptions r)"

section \<open>Protection reaches everything below a protected directory\<close>

lemma protected_check_directory:
  assumes "(label, dir) \<in> set (pr_directories r)" "starts_with_ci lc path dir"
  shows "\<exists>m. protected_check lc ge r path fr = Some m \<and> pm_kind m = PK_Directory"
proof -
  from assms obtain x where "find (\<lambda>(_, dir). starts_with_ci lc path dir) (pr_directories r) = Some x"
    by (cases "find (\<lambda>(_, dir). starts_with_ci lc path dir) (pr_directories r)")
       (auto simp: find_None_set)
  then show ?thesis by (cases x) (simp add: protected_check_def)
qed

lemma protected_check_secret:
  assumes "c \<in> set (components path)" "secret_component c"
  shows "\<exists>m. protected_check lc ge r path fr = Some m \<and> pm_kind m = PK_Directory"
proof (cases "find (\<lambda>(_, dir). starts_with_ci lc path dir) (pr_directories r)")
  case None
  from assms obtain x where "find secret_component (components path) = Some x"
    by (cases "find secret_component (components path)") (auto simp: find_None_set)
  with None show ?thesis by (simp add: protected_check_def)
qed (auto simp: protected_check_def)

lemma protected_check_kind_directory:
  assumes "protected_check lc ge r path fr = Some m" "pm_kind m = PK_Directory"
  shows "(\<exists>label dir. (label, dir) \<in> set (pr_directories r) \<and> starts_with_ci lc path dir)
    \<or> (\<exists>c\<in>set (components path). secret_component c)"
proof (rule ccontr)
  assume none: "\<not> ?thesis"
  then have "find (\<lambda>(_, dir). starts_with_ci lc path dir) (pr_directories r) = None"
      "find secret_component (components path) = None"
    by (auto simp: find_None_set)
  with assms(1) obtain n where "check_name ge r n fr = Some m"
    by (auto simp: protected_check_def split: option.splits)
  with assms(2) show False
    by (auto simp: check_name_def Let_def split: if_splits option.splits)
qed

lemma protected_check_below:
  assumes "protected_check lc ge r path fr = Some m" "pm_kind m = PK_Directory"
    and "drive_path path" "valid_name n"
  shows "\<exists>m'. protected_check lc ge r (path_join path n) fr' = Some m' \<and> pm_kind m' = PK_Directory"
  using protected_check_kind_directory [OF assms(1,2)]
proof (elim disjE exE conjE bexE)
  fix label dir
  assume "(label, dir) \<in> set (pr_directories r)" "starts_with_ci lc path dir"
  then show ?thesis
    using path_join_under [OF assms(3,4), of lc] starts_with_ci_trans protected_check_directory by blast
next
  fix c
  assume "c \<in> set (components path)" "secret_component c"
  then show ?thesis
    using assms(3,4) protected_check_secret [of c "path_join path n"] by (simp add: components_path_join)
qed

text \<open>Reading is never protected more strictly than writing.\<close>

lemma protected_check_mutation:
  "protected_check lc ge r path True = Some m \<Longrightarrow> \<exists>m'. protected_check lc ge r path False = Some m'"
  by (auto simp: protected_check_def check_name_def Let_def split: option.splits if_splits)

lemma default_directory_rule:
  assumes "(label, dir) \<in> set (default_directories env)"
  shows "(label, dir) \<in> set (pr_directories (ProtectedRules_new lc uc ge op settings env))"
proof -
  have "(label, dir) \<in> set (resolve_directory lc op (label, dir))"
    by (simp add: resolve_directory_def)
  with assms show ?thesis by (auto simp: ProtectedRules_new_def Let_def)
qed

end
