(* ===== verification/Classify.thy ===== *)
theory Classify
  imports Protected
begin

text \<open>
  \<^verbatim>\<open>workstation-policy/src/classify.rs\<close>: a canonical path belongs to the cache/temp allowance, to the
  application's control data, to the trusted workspace, or to the rest of the machine. The tests run in
  this order, so the cache allowance is the only part of the application directory that is not
  control data, and control data inside the trusted workspace stays control data.
\<close>

record roots =
  ro_trusted :: string
  ro_app_data :: string
  ro_cache_temp :: string
  ro_install_dir :: "string option"

datatype cache_area = CacheTask string | CacheTool string string | CacheOther

datatype path_class = Trusted | CacheTemp cache_area | ControlData | External

record classification =
  cl_class :: path_class
  cl_protected :: "protected_match option"

definition cache_area_of :: "string list \<Rightarrow> cache_area" where
  "cache_area_of rel =
     (case rel of
        kind # i # rest \<Rightarrow>
          (if eq_ignore_ascii_case kind ''tasks'' then CacheTask i
           else (case rest of
                   [] \<Rightarrow> CacheOther
                 | scope # _ \<Rightarrow> if eq_ignore_ascii_case kind ''tools'' then CacheTool i scope else CacheOther))
      | _ \<Rightarrow> CacheOther)"

definition classify_class :: "(string \<Rightarrow> string) \<Rightarrow> roots \<Rightarrow> string \<Rightarrow> path_class" where
  "classify_class lc r path =
     (if starts_with_ci lc path (ro_cache_temp r) then
        CacheTemp (cache_area_of
          (map comp_str (drop (length (components (ro_cache_temp r))) (components path))))
      else if starts_with_ci lc path (ro_app_data r) then ControlData
      else if (case ro_install_dir r of Some d \<Rightarrow> starts_with_ci lc path d | None \<Rightarrow> False) then ControlData
      else if starts_with_ci lc path (ro_trusted r) then Trusted
      else External)"

definition classify ::
    "(string \<Rightarrow> string) \<Rightarrow> glob_engine \<Rightarrow> roots \<Rightarrow> protected_rules \<Rightarrow> string \<Rightarrow> bool \<Rightarrow> classification" where
  "classify lc ge r rules path for_read =
     \<lparr>cl_class = classify_class lc r path, cl_protected = protected_check lc ge rules path for_read\<rparr>"

definition is_trusted :: "(string \<Rightarrow> string) \<Rightarrow> roots \<Rightarrow> string \<Rightarrow> bool" where
  "is_trusted lc r path \<longleftrightarrow> classify_class lc r path = Trusted"

section \<open>Where the classes lie\<close>

lemma classify_trusted_iff:
  "is_trusted lc r p \<longleftrightarrow>
     starts_with_ci lc p (ro_trusted r) \<and> \<not> starts_with_ci lc p (ro_cache_temp r)
     \<and> \<not> starts_with_ci lc p (ro_app_data r)
     \<and> (case ro_install_dir r of Some d \<Rightarrow> \<not> starts_with_ci lc p d | None \<Rightarrow> True)"
  by (auto simp: is_trusted_def classify_class_def split: option.splits)

lemma classify_control_iff:
  "classify_class lc r p = ControlData \<longleftrightarrow>
     \<not> starts_with_ci lc p (ro_cache_temp r) \<and>
     (starts_with_ci lc p (ro_app_data r)
      \<or> (case ro_install_dir r of Some d \<Rightarrow> starts_with_ci lc p d | None \<Rightarrow> False))"
  by (auto simp: classify_class_def split: option.splits)

lemma classify_external_iff:
  "classify_class lc r p = External \<longleftrightarrow>
     \<not> starts_with_ci lc p (ro_cache_temp r) \<and> \<not> starts_with_ci lc p (ro_app_data r)
     \<and> (case ro_install_dir r of Some d \<Rightarrow> \<not> starts_with_ci lc p d | None \<Rightarrow> True)
     \<and> \<not> starts_with_ci lc p (ro_trusted r)"
  by (auto simp: classify_class_def split: option.splits)

text \<open>Two spellings of a path get the same class, the text inside a cache area apart.\<close>

lemma classify_class_eq_ci:
  assumes "eq_ci lc p q"
  shows "classify_class lc r p = classify_class lc r q
    \<or> (\<exists>a b. classify_class lc r p = CacheTemp a \<and> classify_class lc r q = CacheTemp b)"
proof -
  have "starts_with_ci lc p x = starts_with_ci lc q x" for x
    using starts_with_ci_cong [OF assms eq_ci_refl] .
  then show ?thesis by (simp add: classify_class_def split: option.splits)
qed

section \<open>The application's own files\<close>

definition layout_roots :: "app_paths \<Rightarrow> string \<Rightarrow> string option \<Rightarrow> roots" where
  "layout_roots a trusted install =
     \<lparr>ro_trusted = trusted, ro_app_data = ap_root a, ro_cache_temp = ap_cache_temp_dir a,
      ro_install_dir = install\<rparr>"

lemma valid_names [simp]:
  "valid_name ''cache''" "valid_name ''temp''" "valid_name ''config''" "valid_name ''data''"
  "valid_name ''state''" "valid_name ''settings.json''" "valid_name ''secrets.bin''"
  "valid_name ''local-pilot.db''" "valid_name ''audit.db''" "valid_name ''index.db''"
  "valid_name ''remote-access.gate''" "valid_name ''tasks''" "valid_name ''tools''"
  by (simp_all add: valid_name_def is_dir_sep_def)

lemma control_file_class:
  assumes "drive_path root" "valid_name d" "valid_name f" "lc d \<noteq> lc ''cache''"
  shows "classify_class lc (layout_roots (with_root root) trusted install)
    (path_join (path_join root d) f) = ControlData"
proof -
  let ?p = "path_join (path_join root d) f" and ?c = "path_join (path_join root ''cache'') ''temp''"
  have comps: "components ?p = components root @ [Normal d, Normal f]"
      "components ?c = components root @ [Normal ''cache'', Normal ''temp'']"
    using assms by (simp_all add: components_path_join path_join_drive_path)
  have "\<not> starts_with_ci lc ?p ?c"
    using assms(4) by (simp add: starts_with_ci_def comps comp_str_def)
  moreover have "starts_with_ci lc ?p root" by (simp add: starts_with_ci_def comps)
  ultimately show ?thesis
    by (simp add: classify_control_iff layout_roots_def with_root_def Let_def)
qed

lemma cache_temp_below:
  assumes "drive_path root" "valid_name tid"
  shows "classify_class lc (layout_roots (with_root root) trusted install)
      (task_cache_dir (with_root root) tid) = CacheTemp (CacheTask tid)"
  using assms
  by (simp add: classify_class_def layout_roots_def with_root_def task_cache_dir_def Let_def
      starts_with_ci_def components_path_join path_join_drive_path cache_area_of_def comp_str_def)

lemma tool_cache_below:
  assumes "drive_path root" "valid_name tool" "valid_name scope"
  shows "classify_class lc (layout_roots (with_root root) trusted install)
      (tool_cache_dir (with_root root) tool scope) = CacheTemp (CacheTool tool scope)"
proof -
  have "\<not> eq_ignore_ascii_case ''tools'' ''tasks''" by code_simp
  with assms show ?thesis
    by (simp add: classify_class_def layout_roots_def with_root_def tool_cache_dir_def Let_def
        starts_with_ci_def components_path_join path_join_drive_path cache_area_of_def comp_str_def)
qed

end
