(* ===== verification/Attribution.thy ===== *)
theory Attribution
  imports Rust_Str
begin

text \<open>
  \<^verbatim>\<open>workstation-policy/src/attribution.rs\<close>: the guardrail against automatic attribution in text that
  becomes official on GitHub. The \<^verbatim>\<open>regex\<close> crate is a parameter: \<open>re_find\<close> is \<^verbatim>\<open>Regex::find\<close> (the matched
  text) and \<open>re_ok\<close> says that \<^verbatim>\<open>Regex::new\<close> accepts a pattern, both over the pattern's source text. The
  patterns themselves are the ones of the source.
\<close>

record regex_engine =
  re_find :: "string \<Rightarrow> string \<Rightarrow> string option"
  re_ok :: "string \<Rightarrow> bool"

definition re_is_match :: "regex_engine \<Rightarrow> string \<Rightarrow> string \<Rightarrow> bool" where
  "re_is_match E p s = (re_find E p s \<noteq> None)"

text \<open>The patterns are written with \<open>%\<close>, which none of them contains, in place of the backslash, which \<open>rx\<close>
  puts back.\<close>

definition rx :: "string \<Rightarrow> string" where
  "rx p = map (\<lambda>c. if c = CHR ''%'' then BS else c) p"

definition AGENTS :: string where
  "AGENTS = rx (concat
     [''(?:claude(?:[%s%-]code)?|anthropic|chat%s?gpt|open%s?ai|gpt[%s%-]?%d[%w.%-]*|codex|'',
      ''(?:github%s+)?copilot|gemini|bard|llama|mistral|cursor(?:%s+ai)?|devin|codeium|windsurf|tabnine|'',
      ''amazon%s+q|codewhisperer|aider|cline|sourcegraph%s+cody|cody|'',
      ''an?%s+ai(?:%s+(?:assistant|agent|model|tool|pair%s+programmer))?|'',
      ''ai[%s%-](?:assistant|agent|model|tool|pair%s+programmer)|'',
      ''(?:large%s+)?language%s+model|llm|coding%s+agent)''])"

definition AGENT_DOMAINS :: string where
  "AGENT_DOMAINS = rx ''anthropic%.com|openai%.com|cursor%.(?:sh|com)|codeium%.com''"

text \<open>The robot emoji U+1F916 in UTF-8.\<close>

definition robot_emoji :: string where
  "robot_emoji = [CHR 0xF0, CHR 0x9F, CHR 0xA4, CHR 0x96]"

definition attribution_patterns :: "(string \<times> string) list" where
  "attribution_patterns =
     [(''attribution trailer'',
       rx (concat [''(?im)^%s*(?:co-authored-by|signed-off-by|reviewed-by|helped-by|assisted-by|'',
                   ''generated-by|written-by|authored-by)%s*:[^%n]*(?:%b'']) @ AGENTS @ rx ''%b|''
         @ AGENT_DOMAINS @ '')''),
      (''generated-with note'',
       rx (concat [''(?i)%b(?:generated|written|created|authored|produced|drafted|assisted|co-?authored|'',
                   ''powered|made|built|coded|developed|implemented)%s+(?:entirely%s+|partly%s+|partially%s+)?'',
                   ''(?:with|by|using|via|through|in%s+collaboration%s+with)%s+'',
                   ''(?:the%s+help%s+of%s+|assistance%s+from%s+)?[%[%(%*_`'', [CHR 0x27], ''%x22]*''])
         @ AGENTS @ rx ''%b''),
      (''agent session marker'',
       rx ''(?i)%b(?:claude|chatgpt|codex|copilot|cursor|gemini)[%s%-_]session%s*[:=]''),
      (''agent session link'',
       rx ''(?i)(?:claude%.ai/(?:code|chat|share)|chatgpt%.com/(?:codex|share|c/)|chat%.openai%.com/share)''),
      (''robot generated badge'',
       ''(?i)'' @ robot_emoji @ rx ''%s*(?:generated|created|written|authored)'')]"

definition identity_pattern :: string where
  "identity_pattern = rx ''(?i)(?:%b'' @ AGENTS @ rx ''%b|'' @ AGENT_DOMAINS @ rx ''|%[bot%])''"

definition ref_name_pattern :: string where
  "ref_name_pattern = rx (concat
     [''(?i)^(?:refs/(?:heads|tags)/)?(?:claude|anthropic|codex|copilot|chatgpt|openai|cursor|devin|'',
      ''gemini|ai-agent|agent|llm)(?:[/_%-]|$)''])"

definition quoted_match :: "string \<Rightarrow> string \<Rightarrow> string" where
  "quoted_match label s = label @ '': '' @ [DQ] @ truncate_str s 80 @ [DQ]"

fun find_labelled :: "regex_engine \<Rightarrow> (string \<times> string) list \<Rightarrow> string \<Rightarrow> string option" where
  "find_labelled E [] s = None"
| "find_labelled E ((label, p) # ps) s =
     (case re_find E p s of Some x \<Rightarrow> Some (quoted_match label x) | None \<Rightarrow> find_labelled E ps s)"

definition find_attribution :: "regex_engine \<Rightarrow> string \<Rightarrow> string list \<Rightarrow> string option" where
  "find_attribution E s extra =
     (case find_labelled E attribution_patterns s of
        Some d \<Rightarrow> Some d
      | None \<Rightarrow> find_labelled E (map (\<lambda>p. (''blocked phrase'', p)) extra) s)"

definition identity_discloses_agent :: "regex_engine \<Rightarrow> string \<Rightarrow> bool" where
  "identity_discloses_agent E v = re_is_match E identity_pattern v"

definition ref_name_discloses_agent :: "regex_engine \<Rightarrow> string \<Rightarrow> bool" where
  "ref_name_discloses_agent E name = re_is_match E ref_name_pattern name"

definition compile_extra :: "regex_engine \<Rightarrow> string list \<Rightarrow> string list" where
  "compile_extra E patterns = filter (re_ok E) (map (\<lambda>p. ''(?i)'' @ p) patterns)"

section \<open>What the guardrail finds\<close>

lemma find_labelled_None:
  "find_labelled E ps s = None \<longleftrightarrow> (\<forall>lp \<in> set ps. re_find E (snd lp) s = None)"
  by (induction ps) (auto split: option.splits)

lemma find_attribution_None:
  "find_attribution E s extra = None \<longleftrightarrow>
     (\<forall>p \<in> set (map snd attribution_patterns @ extra). re_find E p s = None)"
proof -
  have "find_attribution E s extra = None \<longleftrightarrow> find_labelled E attribution_patterns s = None
      \<and> find_labelled E (map (\<lambda>p. (''blocked phrase'', p)) extra) s = None"
    by (simp add: find_attribution_def split: option.splits)
  then show ?thesis by (auto simp: find_labelled_None)
qed

end
