(* ===== verification/Tokenize.thy ===== *)
theory Tokenize
  imports Rust_Str
begin

text \<open>
  \<^verbatim>\<open>workstation-policy/src/command/tokenize.rs\<close>: the tokenizers that turn a \<^verbatim>\<open>cmd.exe\<close> line into
  simple commands with their redirections, quote an argument for \<^verbatim>\<open>CreateProcess\<close>, split a command
  line back into arguments, and reduce a program token to its base name. Record fields carry
  a prefix for their struct (\<open>rd_\<close>, \<open>sg_\<close>, \<open>cs_\<close>) since HOL field names are global. The loops over a character
  index become recursions on the characters still to be read; a look-ahead at \<^verbatim>\<open>chars[i + 1]\<close> is a
  case split on the rest.

  The lemmas show that quoting and splitting are inverse on argument lists, that a command after a
  separator is analysed on its own and is never absorbed by the text before it, and that the tokens
  handed to the classifier are never empty.
\<close>

section \<open>Splitting a command line into simple commands\<close>

record redirect =
  rd_target :: string
  rd_append :: bool
  rd_input :: bool

record segment =
  sg_tokens :: "string list"
  sg_redirects :: "redirect list"

definition empty_segment :: segment where
  "empty_segment = \<lparr>sg_tokens = [], sg_redirects = []\<rparr>"

text \<open>The local variables of \<^verbatim>\<open>split_cmd\<close>; \<open>cs_pending\<close> is \<^verbatim>\<open>pending_redirect\<close>, (append, input).\<close>

record cmd_state =
  cs_segments :: "segment list"
  cs_cur :: segment
  cs_tok :: string
  cs_tok_started :: bool
  cs_in_quote :: bool
  cs_pending :: "(bool \<times> bool) option"

definition cmd_init :: cmd_state where
  "cmd_init = \<lparr>cs_segments = [], cs_cur = empty_segment, cs_tok = [], cs_tok_started = False,
               cs_in_quote = False, cs_pending = None\<rparr>"

definition flush_tok :: "cmd_state \<Rightarrow> cmd_state" where
  "flush_tok s =
     (if cs_tok_started s then
        (let t = cs_tok s in
         (case cs_pending s of
            Some (app, inp) \<Rightarrow>
              s\<lparr>cs_cur := (if starts_with t ''&'' then cs_cur s
                        else (cs_cur s)\<lparr>sg_redirects := sg_redirects (cs_cur s)
                                 @ [\<lparr>rd_target = t, rd_append = app, rd_input = inp\<rparr>]\<rparr>),
                cs_tok := [], cs_tok_started := False, cs_pending := None\<rparr>
          | None \<Rightarrow>
              s\<lparr>cs_cur := (cs_cur s)\<lparr>sg_tokens := sg_tokens (cs_cur s) @ [t]\<rparr>,
                cs_tok := [], cs_tok_started := False\<rparr>))
      else s)"

definition push_segment :: "cmd_state \<Rightarrow> cmd_state" where
  "push_segment s =
     (if sg_tokens (cs_cur s) \<noteq> [] \<or> sg_redirects (cs_cur s) \<noteq> []
      then s\<lparr>cs_segments := cs_segments s @ [cs_cur s], cs_cur := empty_segment\<rparr> else s)"

definition push_char :: "char \<Rightarrow> cmd_state \<Rightarrow> cmd_state" where
  "push_char c s = s\<lparr>cs_tok := cs_tok s @ [c], cs_tok_started := True\<rparr>"

text \<open>One turn of the \<^verbatim>\<open>while\<close> loop at character \<open>c\<close> with \<open>cs\<close> after it: the new state and what is
  left to read.\<close>

definition redirect_step :: "cmd_state \<Rightarrow> char \<Rightarrow> string \<Rightarrow> cmd_state \<times> string" where
  "redirect_step s c cs =
     (let s' = (if cs_tok_started s \<and> (cs_tok s = ''1'' \<or> cs_tok s = ''2'')
                then s\<lparr>cs_tok := [], cs_tok_started := False\<rparr> else flush_tok s);
          app = (c = CHR ''>'' \<and> starts_with cs ''>'');
          rest = (if app then tl cs else cs)
      in (if starts_with rest ''&'' then (s', dropWhile is_ascii_digit (tl rest))
          else (s'\<lparr>cs_pending := Some (app, c = CHR ''<'')\<rparr>, rest)))"

definition split_cmd_step :: "cmd_state \<Rightarrow> char \<Rightarrow> string \<Rightarrow> cmd_state \<times> string" where
  "split_cmd_step s c cs =
     (if cs_in_quote s then
        (if c = DQ then (s\<lparr>cs_in_quote := False\<rparr>, cs)
         else (s\<lparr>cs_tok := cs_tok s @ [c]\<rparr>, cs))
      else if c = DQ then (s\<lparr>cs_in_quote := True, cs_tok_started := True\<rparr>, cs)
      else if c = CHR ''^'' then
        (case cs of [] \<Rightarrow> (s, []) | d # ds \<Rightarrow> (push_char d s, ds))
      else if c = SP \<or> c = TAB \<or> c = CR \<or> c = LF then
        (if c = LF then push_segment (flush_tok s) else flush_tok s, cs)
      else if c = CHR ''&'' \<or> c = CHR ''|'' \<or> c = CHR ''('' \<or> c = CHR '')'' then
        (push_segment (flush_tok s),
         if (c = CHR ''&'' \<or> c = CHR ''|'') \<and> starts_with cs [c] then tl cs else cs)
      else if c = CHR ''>'' \<or> c = CHR ''<'' then redirect_step s c cs
      else (push_char c s, cs))"

lemma redirect_step_shrinks: "length (snd (redirect_step s c cs)) \<le> length cs"
proof -
  have "length (dropWhile is_ascii_digit (tl r)) \<le> length cs" if "length r \<le> length cs" for r
    using that le_trans [OF length_dropWhile_le [of is_ascii_digit "tl r"]] by simp
  then show ?thesis by (simp add: redirect_step_def Let_def)
qed

lemma split_cmd_step_shrinks: "length (snd (split_cmd_step s c cs)) \<le> length cs"
  by (simp add: split_cmd_step_def redirect_step_shrinks split: list.splits)

function split_cmd_loop :: "cmd_state \<Rightarrow> string \<Rightarrow> cmd_state" where
  "split_cmd_loop s [] = s"
| "split_cmd_loop s (c # cs) =
     split_cmd_loop (fst (split_cmd_step s c cs)) (snd (split_cmd_step s c cs))"
  by pat_completeness auto
termination
  by (relation "measure (\<lambda>p. length (snd p))") (auto simp: split_cmd_step_shrinks le_imp_less_Suc)

definition clean_segment :: "segment \<Rightarrow> segment" where
  "clean_segment g =
     (let ts = (case sg_tokens g of
                  [] \<Rightarrow> []
                | t # r \<Rightarrow> (case strip_prefix t ''@'' of None \<Rightarrow> t # r | Some u \<Rightarrow> u # r))
      in g\<lparr>sg_tokens := filter (\<lambda>t. t \<noteq> []) ts\<rparr>)"

definition split_cmd :: "string \<Rightarrow> segment list" where
  "split_cmd line =
     map clean_segment (cs_segments (push_segment (flush_tok (split_cmd_loop cmd_init line))))"

section \<open>Quoting and splitting arguments\<close>

fun quote_loop :: "string \<Rightarrow> nat \<Rightarrow> string \<Rightarrow> string" where
  "quote_loop out b [] = out @ replicate (b * 2) BS @ [DQ]"
| "quote_loop out b (c # cs) =
     (if c = BS then quote_loop out (b + 1) cs
      else if c = DQ then quote_loop (out @ replicate (b * 2 + 1) BS @ [DQ]) 0 cs
      else quote_loop (out @ replicate b BS @ [c]) 0 cs)"

definition needs_quote :: "char \<Rightarrow> bool" where
  "needs_quote c \<longleftrightarrow> c = SP \<or> c = TAB \<or> c = LF \<or> c = CHR 0x0B \<or> c = DQ"

definition quote_arg :: "string \<Rightarrow> string" where
  "quote_arg arg =
     (if arg \<noteq> [] \<and> \<not> list_ex needs_quote arg then arg else quote_loop [DQ] 0 arg)"

record args_state =
  as_args :: "string list"
  as_cur :: string
  as_in_quote :: bool
  as_started :: bool

definition win_args_step :: "args_state \<Rightarrow> char \<Rightarrow> string \<Rightarrow> args_state \<times> string" where
  "win_args_step s c cs =
     (if c = BS then
        (let n = Suc (length (takeWhile (\<lambda>x. x = BS) cs));
             rest = dropWhile (\<lambda>x. x = BS) cs
         in (if starts_with rest [DQ] then
               (if n mod 2 = 1
                then (s\<lparr>as_cur := as_cur s @ replicate (n div 2) BS @ [DQ], as_started := True\<rparr>, tl rest)
                else (s\<lparr>as_cur := as_cur s @ replicate (n div 2) BS, as_started := True\<rparr>, rest))
             else (s\<lparr>as_cur := as_cur s @ replicate n BS, as_started := True\<rparr>, rest)))
      else if c = DQ then
        (if as_in_quote s \<and> starts_with cs [DQ]
         then (s\<lparr>as_cur := as_cur s @ [DQ], as_started := True\<rparr>, tl cs)
         else (s\<lparr>as_in_quote := \<not> as_in_quote s, as_started := True\<rparr>, cs))
      else if (c = SP \<or> c = TAB) \<and> \<not> as_in_quote s then
        (if as_started s
         then (s\<lparr>as_args := as_args s @ [as_cur s], as_cur := [], as_started := False\<rparr>, cs)
         else (s, cs))
      else (s\<lparr>as_cur := as_cur s @ [c], as_started := True\<rparr>, cs))"

lemma win_args_step_shrinks: "length (snd (win_args_step s c cs)) \<le> length cs"
proof (cases "c = BS")
  case True
  have "length (dropWhile (\<lambda>x. x = BS) cs) \<le> length cs" by (rule length_dropWhile_le)
  moreover from this have "length (tl (dropWhile (\<lambda>x. x = BS) cs)) \<le> length cs" by simp
  ultimately show ?thesis using True by (simp add: win_args_step_def Let_def del: length_tl)
next
  case False
  then show ?thesis by (simp add: win_args_step_def)
qed

function win_args_loop :: "args_state \<Rightarrow> string \<Rightarrow> args_state" where
  "win_args_loop s [] = s"
| "win_args_loop s (c # cs) =
     win_args_loop (fst (win_args_step s c cs)) (snd (win_args_step s c cs))"
  by pat_completeness auto
termination
  by (relation "measure (\<lambda>p. length (snd p))") (auto simp: win_args_step_shrinks le_imp_less_Suc)

definition args_init :: args_state where
  "args_init = \<lparr>as_args = [], as_cur = [], as_in_quote = False, as_started = False\<rparr>"

definition args_finish :: "args_state \<Rightarrow> string list" where
  "args_finish s = (if as_started s then as_args s @ [as_cur s] else as_args s)"

definition split_windows_args :: "string \<Rightarrow> string list" where
  "split_windows_args line = args_finish (win_args_loop args_init line)"

section \<open>Program names\<close>

definition program_exts :: "string list" where
  "program_exts = [''.exe'', ''.cmd'', ''.bat'', ''.com'', ''.ps1'']"

fun strip_first_suffix :: "string list \<Rightarrow> string \<Rightarrow> string" where
  "strip_first_suffix [] s = s"
| "strip_first_suffix (e # es) s =
     (case strip_suffix s e of Some r \<Rightarrow> r | None \<Rightarrow> strip_first_suffix es s)"

definition program_name :: "string \<Rightarrow> string" where
  "program_name token =
     strip_first_suffix program_exts
       (to_ascii_lowercase (rev (takeWhile (\<lambda>c. \<not> is_dir_sep c) (rev token))))"

section \<open>Quoting and splitting are inverse\<close>

lemma quote_loop_acc: "quote_loop out b s = out @ quote_loop [] b s"
proof (induction s arbitrary: out b)
  case (Cons c cs)
  show ?case
    using Cons.IH [of "out @ replicate (b * 2 + 1) BS @ [DQ]" 0] Cons.IH [of "replicate (b * 2 + 1) BS @ [DQ]" 0]
      Cons.IH [of "out @ replicate b BS @ [c]" 0] Cons.IH [of "replicate b BS @ [c]" 0]
      Cons.IH [of out "b + 1"]
    by simp
qed simp

lemma BS_run:
  assumes "\<not> starts_with r [BS]"
  shows "takeWhile (\<lambda>x. x = BS) (replicate n BS @ r) = replicate n BS"
    and "dropWhile (\<lambda>x. x = BS) (replicate n BS @ r) = r"
  using assms by (induction n) (auto simp: starts_with_Cons split: list.splits)

text \<open>A run of backslashes is taken literally unless a quote follows, and is halved before one.\<close>

lemma win_args_loop_run:
  assumes "\<not> starts_with r [BS]" "\<not> starts_with r [DQ]"
  shows "win_args_loop s (replicate n BS @ r) =
    win_args_loop (if n = 0 then s else s\<lparr>as_cur := as_cur s @ replicate n BS, as_started := True\<rparr>) r"
proof (cases n)
  case (Suc m)
  then show ?thesis
    using assms by (simp add: win_args_step_def Let_def BS_run)
qed simp

lemma win_args_loop_run_quote:
  "win_args_loop s (replicate n BS @ DQ # r) =
    (if n mod 2 = 1
     then win_args_loop (s\<lparr>as_cur := as_cur s @ replicate (n div 2) BS @ [DQ], as_started := True\<rparr>) r
     else win_args_loop (if n = 0 then s else
            s\<lparr>as_cur := as_cur s @ replicate (n div 2) BS, as_started := True\<rparr>) (DQ # r))"
proof (cases n)
  case (Suc m)
  then show ?thesis
    by (simp add: win_args_step_def Let_def BS_run starts_with_def del: win_args_loop.simps(2))
       (simp add: win_args_step_def Let_def BS_run starts_with_def)
qed simp

lemma win_args_loop_quote_tail:
  assumes "as_in_quote s" "\<not> starts_with r [DQ]"
  shows "win_args_loop s (quote_loop [] b cs @ r) =
    win_args_loop (s\<lparr>as_cur := as_cur s @ replicate b BS @ cs, as_in_quote := False, as_started := True\<rparr>) r"
  using assms
proof (induction cs arbitrary: s b)
  case Nil
  then have "win_args_loop s (replicate (b * 2) BS @ DQ # r) =
      win_args_loop (s\<lparr>as_cur := as_cur s @ replicate b BS, as_in_quote := False, as_started := True\<rparr>) r"
    by (subst win_args_loop_run_quote) (simp add: win_args_step_def)
  then show ?case by simp
next
  case (Cons c cs)
  consider "c = BS" | "c = DQ" | "c \<noteq> BS" "c \<noteq> DQ" by blast
  then show ?case
  proof cases
    case 1
    then show ?thesis
      using Cons.IH [of s "b + 1"] Cons.prems by (simp add: replicate_app_Cons_same)
  next
    case 2
    let ?s = "s\<lparr>as_cur := as_cur s @ replicate b BS @ [DQ], as_started := True\<rparr>"
    have odd: "(b * 2 + 1) mod 2 = 1" and half: "(b * 2 + 1) div 2 = b" by presburger+
    have "win_args_loop s (replicate (b * 2 + 1) BS @ DQ # quote_loop [] 0 cs @ r) =
        win_args_loop ?s (quote_loop [] 0 cs @ r)"
      by (subst win_args_loop_run_quote) (simp only: odd half if_True simp_thms)
    moreover have "quote_loop [] b (c # cs) = replicate (b * 2 + 1) BS @ DQ # quote_loop [] 0 cs"
      using 2 quote_loop_acc [of "replicate (b * 2 + 1) BS @ [DQ]" 0 cs] by simp
    ultimately show ?thesis
      using 2 Cons.IH [of ?s 0] Cons.prems by (simp del: win_args_loop.simps quote_loop.simps)
  next
    case 3
    let ?s = "s\<lparr>as_cur := as_cur s @ replicate b BS @ [c], as_started := True\<rparr>"
    have "win_args_loop s (replicate b BS @ c # quote_loop [] 0 cs @ r) =
        win_args_loop ?s (quote_loop [] 0 cs @ r)"
      using Cons.prems 3 by (subst win_args_loop_run) (auto simp: starts_with_def win_args_step_def)
    with 3 Cons.IH [of ?s 0] Cons.prems show ?thesis
      by (simp add: quote_loop_acc [of "replicate b BS @ [c]"])
  qed
qed

text \<open>An argument without blanks or quotes is read as it stands.\<close>

lemma win_args_loop_BS:
  assumes "\<not> starts_with (dropWhile (\<lambda>x. x = BS) cs) [DQ]"
  shows "win_args_loop s (BS # cs) =
    win_args_loop (s\<lparr>as_cur := as_cur s @ [BS], as_started := True\<rparr>) cs"
proof (cases "starts_with cs [BS]")
  case True
  then obtain ds where "cs = BS # ds" by (auto simp: starts_with_iff)
  with assms show ?thesis by (simp add: win_args_step_def Let_def)
next
  case False
  then have "takeWhile (\<lambda>x. x = BS) cs = []" "dropWhile (\<lambda>x. x = BS) cs = cs"
    by (cases cs; simp add: starts_with_def)+
  with assms show ?thesis by (simp add: win_args_step_def Let_def)
qed

lemma win_args_loop_plain:
  assumes "\<forall>c\<in>set a. \<not> needs_quote c" "\<not> as_in_quote s" "\<not> starts_with (dropWhile (\<lambda>x. x = BS) r) [DQ]"
  shows "win_args_loop s (a @ r) =
    win_args_loop (if a = [] then s else s\<lparr>as_cur := as_cur s @ a, as_started := True\<rparr>) r"
  using assms
proof (induction a arbitrary: s)
  case (Cons c a)
  let ?s = "s\<lparr>as_cur := as_cur s @ [c], as_started := True\<rparr>"
  have nodq: "\<not> starts_with (dropWhile (\<lambda>x. x = BS) (a @ r)) [DQ]"
    using Cons.prems(1,3) by (induction a) (auto simp: starts_with_def needs_quote_def)
  have "win_args_loop s ((c # a) @ r) = win_args_loop ?s (a @ r)"
  proof (cases "c = BS")
    case True
    then show ?thesis using win_args_loop_BS [OF nodq, of s] by (simp del: win_args_loop.simps)
  next
    case False
    with Cons.prems(1,2) show ?thesis by (simp add: win_args_step_def needs_quote_def)
  qed
  also have "\<dots> = win_args_loop (if a = [] then ?s else ?s\<lparr>as_cur := as_cur ?s @ a, as_started := True\<rparr>) r"
    using Cons.prems by (intro Cons.IH) auto
  finally show ?case by simp
qed simp

definition args_ready :: "string list \<Rightarrow> args_state" where
  "args_ready args = \<lparr>as_args = args, as_cur = [], as_in_quote = False, as_started = False\<rparr>"

lemma win_args_loop_quote_arg:
  assumes "r = [] \<or> (\<exists>r'. r = SP # r')"
  shows "win_args_loop (args_ready args) (quote_arg a @ r) =
    win_args_loop \<lparr>as_args = args, as_cur = a, as_in_quote = False, as_started = True\<rparr> r"
proof (cases "a \<noteq> [] \<and> \<not> list_ex needs_quote a")
  case True
  then have "\<forall>c\<in>set a. \<not> needs_quote c" by (simp add: list_ex_iff)
  moreover have "\<not> starts_with (dropWhile (\<lambda>x. x = BS) r) [DQ]"
    using assms by (auto simp: starts_with_def)
  ultimately show ?thesis
    using True by (subst quote_arg_def, subst if_P [OF True], subst win_args_loop_plain)
      (simp_all add: args_ready_def)
next
  case False
  let ?s = "(args_ready args)\<lparr>as_in_quote := True, as_started := True\<rparr>"
  have r: "\<not> starts_with r [DQ]" using assms by (auto simp: starts_with_def)
  have "win_args_loop (args_ready args) (quote_arg a @ r) = win_args_loop ?s (quote_loop [] 0 a @ r)"
    unfolding quote_arg_def if_not_P [OF False] quote_loop_acc [of "[DQ]"]
    by (simp add: win_args_step_def args_ready_def)
  also have "\<dots> = win_args_loop \<lparr>as_args = args, as_cur = a, as_in_quote = False, as_started = True\<rparr> r"
    by (subst win_args_loop_quote_tail [OF _ r]) (simp_all add: args_ready_def)
  finally show ?thesis .
qed

lemma win_args_loop_join:
  "args_finish (win_args_loop (args_ready pre) (join_with [SP] (map quote_arg args))) = pre @ args"
proof (induction args arbitrary: pre)
  case Nil
  then show ?case by (simp add: args_finish_def args_ready_def)
next
  case (Cons a args)
  show ?case
  proof (cases args)
    case Nil
    with win_args_loop_quote_arg [of "[]" pre a] show ?thesis
      by (simp add: args_finish_def)
  next
    case (Cons b bs)
    then have "win_args_loop (args_ready pre) (join_with [SP] (map quote_arg (a # args))) =
        win_args_loop \<lparr>as_args = pre, as_cur = a, as_in_quote = False, as_started = True\<rparr>
          (SP # join_with [SP] (map quote_arg args))"
      by (simp add: win_args_loop_quote_arg del: win_args_loop.simps)
    also have "\<dots> = win_args_loop (args_ready (pre @ [a])) (join_with [SP] (map quote_arg args))"
      by (simp add: win_args_step_def args_ready_def)
    finally show ?thesis using Cons.IH [of "pre @ [a]"] by simp
  qed
qed

text \<open>C28: quoting every argument and joining the results with blanks, then splitting the line, gives
  back exactly the arguments.\<close>

theorem quote_split_roundtrip:
  "split_windows_args (join_with [SP] (map quote_arg args)) = args"
  using win_args_loop_join [of "[]" args]
  by (simp add: split_windows_args_def args_init_def args_ready_def)

section \<open>Commands after a separator are analysed on their own\<close>

lemma flush_tok_sel [simp]:
  "cs_tok_started (flush_tok s) = False" "cs_in_quote (flush_tok s) = cs_in_quote s"
  "cs_segments (flush_tok s) = cs_segments s"
  by (simp_all add: flush_tok_def Let_def split: option.splits prod.splits)

lemma push_segment_sel [simp]:
  "cs_tok_started (push_segment s) = cs_tok_started s" "cs_in_quote (push_segment s) = cs_in_quote s"
  "cs_tok (push_segment s) = cs_tok s" "cs_pending (push_segment s) = cs_pending s"
  by (simp_all add: push_segment_def)

lemma flush_tok_idle: "\<not> cs_tok_started s \<Longrightarrow> flush_tok s = s"
  by (simp add: flush_tok_def)

lemma push_segment_twice [simp]: "push_segment (push_segment s) = push_segment s"
  by (simp add: push_segment_def empty_segment_def)

text \<open>Text without \<^verbatim>\<open>^\<close>, \<^verbatim>\<open><\<close> and \<^verbatim>\<open>>\<close> has no look-ahead except the doubled operators, and reading the
  second half of a doubled operator again changes nothing.\<close>

definition no_lookahead :: "string \<Rightarrow> bool" where
  "no_lookahead a \<longleftrightarrow> (\<forall>c\<in>set a. c \<noteq> CHR ''^'' \<and> c \<noteq> CHR ''<'' \<and> c \<noteq> CHR ''>'')"

definition cmd_sep :: "char \<Rightarrow> bool" where
  "cmd_sep c \<longleftrightarrow> c = CHR ''&'' \<or> c = CHR ''|'' \<or> c = CHR ''('' \<or> c = CHR '')'' \<or> c = LF"

lemma idle_sep:
  assumes "c = CHR ''&'' \<or> c = CHR ''|''" "\<not> cs_in_quote s"
  shows "split_cmd_loop (push_segment (flush_tok s)) (c # cs) =
    split_cmd_loop (push_segment (flush_tok s)) cs"
proof (induction "length cs" arbitrary: cs rule: less_induct)
  case less
  have step: "split_cmd_loop (push_segment (flush_tok s)) (c # cs) =
    split_cmd_loop (push_segment (flush_tok s)) (if starts_with cs [c] then tl cs else cs)"
    using assms by (elim disjE) (simp_all add: split_cmd_step_def flush_tok_idle)
  show ?case
  proof (cases "starts_with cs [c]")
    case True
    then obtain ds where "cs = c # ds" by (auto simp: starts_with_iff)
    with step less [of ds] True show ?thesis by simp
  next
    case False
    with step show ?thesis by simp
  qed
qed

lemma split_cmd_loop_step:
  assumes "c \<noteq> CHR ''^''" "c \<noteq> CHR ''<''" "c \<noteq> CHR ''>''"
  shows "split_cmd_loop s (c # cs) = split_cmd_loop (fst (split_cmd_step s c [])) cs"
proof (cases "(c = CHR ''&'' \<or> c = CHR ''|'') \<and> \<not> cs_in_quote s \<and> starts_with cs [c]")
  case True
  then obtain ds where "cs = c # ds" by (auto simp: starts_with_iff)
  moreover from True have "\<not> cs_in_quote s" "c = CHR ''&'' \<or> c = CHR ''|''" by simp_all
  moreover from this have "split_cmd_step s c x = (push_segment (flush_tok s), if starts_with x [c] then tl x else x)"
    for x by (elim disjE) (simp_all add: split_cmd_step_def)
  ultimately show ?thesis using idle_sep [of c s ds] by simp
next
  case False
  with assms show ?thesis by (auto simp: split_cmd_step_def)
qed

lemma split_cmd_loop_append:
  assumes "no_lookahead a"
  shows "split_cmd_loop s (a @ b) = split_cmd_loop (split_cmd_loop s a) b"
  using assms
  by (induction a arbitrary: s)
     (auto simp: no_lookahead_def split_cmd_loop_step simp del: split_cmd_loop.simps(2))

text \<open>Without redirection characters nothing is ever pending; quotes open and close in turn.\<close>

lemma split_cmd_loop_state:
  assumes "no_lookahead a" "cs_pending s = None"
  shows "cs_pending (split_cmd_loop s a) = None \<and>
    cs_in_quote (split_cmd_loop s a) = (cs_in_quote s \<noteq> odd (count_list a DQ))"
  using assms
proof (induction a arbitrary: s)
  case (Cons c a)
  let ?s = "fst (split_cmd_step s c [])"
  have "cs_pending ?s = None" "cs_in_quote ?s = (if c = DQ then \<not> cs_in_quote s else cs_in_quote s)"
    using Cons.prems
    by (auto simp: no_lookahead_def split_cmd_step_def push_char_def flush_tok_def)
  with Cons.IH [of ?s] Cons.prems show ?case
    by (auto simp: no_lookahead_def split_cmd_loop_step simp del: split_cmd_loop.simps(2))
qed simp

text \<open>The segments already collected are a prefix of every later state's segments.\<close>

lemma flush_tok_segments:
  "flush_tok (s\<lparr>cs_segments := g @ cs_segments s\<rparr>) =
    (flush_tok s)\<lparr>cs_segments := g @ cs_segments s\<rparr>"
  by (simp add: flush_tok_def Let_def split: option.splits prod.splits)

lemma push_segment_segments:
  "push_segment (s\<lparr>cs_segments := g @ cs_segments s\<rparr>) =
    (push_segment s)\<lparr>cs_segments := g @ cs_segments (push_segment s)\<rparr>"
  by (simp add: push_segment_def)

lemma push_flush_segments:
  "push_segment ((flush_tok s)\<lparr>cs_segments := g @ cs_segments s\<rparr>) =
    (push_segment (flush_tok s))\<lparr>cs_segments := g @ cs_segments (push_segment (flush_tok s))\<rparr>"
  using push_segment_segments [of g "flush_tok s"] by simp

lemma redirect_step_segments:
  "redirect_step (s\<lparr>cs_segments := g @ cs_segments s\<rparr>) c cs =
    ((fst (redirect_step s c cs))\<lparr>cs_segments := g @ cs_segments (fst (redirect_step s c cs))\<rparr>,
     snd (redirect_step s c cs))"
  by (auto simp: redirect_step_def Let_def flush_tok_segments)

lemma split_cmd_step_segments:
  "split_cmd_step (s\<lparr>cs_segments := g @ cs_segments s\<rparr>) c cs =
    ((fst (split_cmd_step s c cs))\<lparr>cs_segments := g @ cs_segments (fst (split_cmd_step s c cs))\<rparr>,
     snd (split_cmd_step s c cs))"
  by (simp add: split_cmd_step_def push_flush_segments flush_tok_segments redirect_step_segments
        push_char_def split: list.splits)

lemma split_cmd_loop_segments:
  "split_cmd_loop (s\<lparr>cs_segments := g @ cs_segments s\<rparr>) cs =
    (split_cmd_loop s cs)\<lparr>cs_segments := g @ cs_segments (split_cmd_loop s cs)\<rparr>"
  by (induction s cs rule: split_cmd_loop.induct) (simp_all add: split_cmd_step_segments)

lemma push_flush_idle:
  assumes "cs_pending s = None" "\<not> cs_in_quote s" "cs_tok_started s \<or> cs_tok s = []"
  shows "push_segment (flush_tok s) = cmd_init\<lparr>cs_segments := cs_segments (push_segment (flush_tok s))\<rparr>"
  using assms
  by (cases s) (auto simp: push_segment_def flush_tok_def cmd_init_def empty_segment_def Let_def)

definition tok_inv :: "cmd_state \<Rightarrow> bool" where
  "tok_inv s \<longleftrightarrow> (cs_tok_started s \<or> cs_tok s = []) \<and> (cs_in_quote s \<longrightarrow> cs_tok_started s)"

lemma tok_inv_simps:
  "tok_inv s \<Longrightarrow> \<not> cs_in_quote s \<Longrightarrow> tok_inv (flush_tok s)"
  "tok_inv (push_segment s) = tok_inv s"
  "tok_inv (push_char c s)"
  "tok_inv (s\<lparr>cs_in_quote := True, cs_tok_started := True\<rparr>)"
  "tok_inv s \<Longrightarrow> tok_inv (s\<lparr>cs_in_quote := False\<rparr>)"
  "tok_inv s \<Longrightarrow> cs_in_quote s \<Longrightarrow> tok_inv (s\<lparr>cs_tok := t\<rparr>)"
  "\<not> cs_in_quote s \<Longrightarrow> tok_inv (s\<lparr>cs_tok := [], cs_tok_started := False\<rparr>)"
  "tok_inv (s\<lparr>cs_pending := p\<rparr>) = tok_inv s"
  by (auto simp: tok_inv_def flush_tok_def push_segment_def push_char_def Let_def split: option.splits)

lemma tok_inv_step: "tok_inv s \<Longrightarrow> tok_inv (fst (split_cmd_step s c cs))"
  by (simp add: split_cmd_step_def redirect_step_def Let_def tok_inv_simps split: list.splits)

lemma tok_inv_loop: "tok_inv s \<Longrightarrow> tok_inv (split_cmd_loop s cs)"
  by (induction s cs rule: split_cmd_loop.induct) (simp_all add: tok_inv_step)

text \<open>Nothing before a command separator changes how the rest of the line is read. For a prefix with balanced quotes and
  no pending escape or redirection, the segments of the whole line are those of the prefix followed by those
  of the rest, whatever the rest is, so a command cannot be hidden behind \<^verbatim>\<open>&\<close>, \<^verbatim>\<open>|\<close> or a new line.\<close>

theorem split_cmd_separator:
  assumes "no_lookahead a" "even (count_list a DQ)" "cmd_sep c"
  shows "split_cmd (a @ c # b) = split_cmd a @ split_cmd b"
proof -
  let ?s = "split_cmd_loop cmd_init a"
  let ?t = "push_segment (flush_tok ?s)"
  have st: "cs_pending ?s = None" "\<not> cs_in_quote ?s"
    using split_cmd_loop_state [OF assms(1), of cmd_init] assms(2) by (simp_all add: cmd_init_def)
  have "tok_inv ?s"
    by (rule tok_inv_loop) (simp add: tok_inv_def cmd_init_def)
  with st have t: "?t = cmd_init\<lparr>cs_segments := cs_segments ?t\<rparr>"
    by (intro push_flush_idle) (auto simp: tok_inv_def)
  have sep: "c \<noteq> CHR ''^''" "c \<noteq> CHR ''<''" "c \<noteq> CHR ''>''"
    using assms(3) by (auto simp: cmd_sep_def)
  have "split_cmd_loop cmd_init (a @ c # b) = split_cmd_loop ?s (c # b)"
    by (rule split_cmd_loop_append [OF assms(1)])
  also have "\<dots> = split_cmd_loop ?t b"
    using assms(3) st(2) by (subst split_cmd_loop_step [OF sep]) (auto simp: split_cmd_step_def cmd_sep_def)
  also have "\<dots> = split_cmd_loop (cmd_init\<lparr>cs_segments := cs_segments ?t @ cs_segments cmd_init\<rparr>) b"
    by (subst t) (simp add: cmd_init_def)
  also have "\<dots> = (split_cmd_loop cmd_init b)
      \<lparr>cs_segments := cs_segments ?t @ cs_segments (split_cmd_loop cmd_init b)\<rparr>"
    by (rule split_cmd_loop_segments)
  finally show ?thesis
    by (simp add: split_cmd_def push_flush_segments flush_tok_segments)
qed

theorem split_cmd_separator_witness:
  "split_cmd (''echo hi '' @ CHR ''&'' # '' del x'') = split_cmd ''echo hi '' @ split_cmd '' del x''"
  by (rule split_cmd_separator) code_simp+

lemma split_cmd_tokens_nonempty:
  "g \<in> set (split_cmd line) \<Longrightarrow> t \<in> set (sg_tokens g) \<Longrightarrow> t \<noteq> []"
  by (auto simp: split_cmd_def clean_segment_def Let_def)

text \<open>The directory a program is named by, with either separator, does not change what it is classified as.\<close>

theorem program_name_directory:
  assumes "is_dir_sep c"
  shows "program_name (d @ c # n) = program_name n"
  using assms by (simp add: program_name_def takeWhile_cut)

theorem program_name_directory_witness:
  "program_name (bs ''C:/Tools'' @ BS # ''GIT.exe'') = program_name ''GIT.exe'' \<and> program_name ''GIT.exe'' = ''git''"
proof
  show "program_name (bs ''C:/Tools'' @ BS # ''GIT.exe'') = program_name ''GIT.exe''"
    by (rule program_name_directory) (simp add: is_dir_sep_def)
  show "program_name ''GIT.exe'' = ''git''" by code_simp
qed

end
