(* ===== verification/Git_Cmd.thy ===== *)
theory Git_Cmd
  imports Rust_Str
begin

text \<open>
  \<^verbatim>\<open>workstation-policy/src/command/git.rs\<close>: argument-aware classification of \<^verbatim>\<open>git\<close> command lines. A
  loop over an index becomes a recursion on the arguments still to be read. One definition per
  sub-command branch of \<^verbatim>\<open>parse\<close> takes the command built so far and returns it completed; \<^verbatim>\<open>has\<close> and
  \<^verbatim>\<open>positional\<close> are the closures of the source. The lemmas characterize what makes a push a forced or
  deleting one and show that every destination reaches the policy decision.
\<close>

record push_spec =
  sp_remote :: "string option"
  sp_destinations :: "string list"
  sp_force :: bool
  sp_delete :: bool
  sp_all :: bool
  sp_mirror :: bool
  sp_tags :: bool
  sp_deletes_tags :: bool

datatype git_kind =
    GK_ReadOnly
  | GK_LocalMutation
  | GK_Fetch
  | GK_Pull
  | GK_Clone "string option"
  | GK_Push push_spec
  | GK_ResetHard
  | GK_Clean
  | GK_HistoryRewrite
  | GK_Rebase "string option"
  | GK_CommitAmend
  | GK_IdentityChange
  | GK_CredentialAccess
  | GK_GlobalConfigChange
  | GK_Unknown

record git_command =
  gc_cwd_override :: "string option"
  gc_subcommand :: string
  gc_args :: "string list"
  gc_kind :: git_kind
  gc_messages :: "string list"
  gc_message_files :: "string list"
  gc_identity_overrides :: "string list"
  gc_created_refs :: "string list"
  gc_output_paths :: "string list"

definition IDENTITY_KEYS :: "string list" where
  "IDENTITY_KEYS = [''user.name'', ''user.email'', ''author.name'', ''author.email'',
     ''committer.name'', ''committer.email'']"

section \<open>Flags\<close>

definition has_arg :: "string list \<Rightarrow> string \<Rightarrow> bool" where
  "has_arg rest f = List.member rest f"

definition has_arg_prefix :: "string list \<Rightarrow> string \<Rightarrow> bool" where
  "has_arg_prefix rest f = list_ex (\<lambda>a. starts_with a f) rest"

definition git_positional :: "string list \<Rightarrow> string list" where
  "git_positional rest = filter (\<lambda>a. \<not> starts_with a ''-'') rest"

text \<open>\<^verbatim>\<open>take_value\<close> at argument \<open>a\<close> with \<open>rest\<close> after it: the value, and whether it was the next argument.\<close>

definition take_value :: "string \<Rightarrow> string list \<Rightarrow> string \<Rightarrow> (string \<times> bool) option" where
  "take_value a rest flag =
     (case strip_prefix a (flag @ ''='') of
        Some v \<Rightarrow> Some (v, False)
      | None \<Rightarrow>
          (if a = flag \<and> rest \<noteq> [] then Some (hd rest, True)
           else if length flag = 2 \<and> starts_with a flag \<and> length a > 2 \<and> \<not> starts_with a ''--''
           then Some (drop 2 a, False)
           else None))"

fun take_values :: "string \<Rightarrow> string list \<Rightarrow> string list \<Rightarrow> (string \<times> bool) option" where
  "take_values a rest [] = None"
| "take_values a rest (f # fs) = or_else (take_value a rest f) (take_values a rest fs)"

function collect_values :: "string list \<Rightarrow> string list \<Rightarrow> string list" where
  "collect_values flags [] = []"
| "collect_values flags (a # rest) =
     (case take_values a rest flags of
        Some (v, used) \<Rightarrow> v # collect_values flags (if used then tl rest else rest)
      | None \<Rightarrow> collect_values flags rest)"
  by pat_completeness auto
termination by (relation "measure (\<lambda>p. length (snd p))") auto

section \<open>Global options\<close>

record git_globals =
  gg_cwd :: "string option"
  gg_identities :: "string list"

definition config_key :: "string \<Rightarrow> string" where
  "config_key kv = to_ascii_lowercase (hd (split_on (\<lambda>c. c = CHR ''='') kv))"

fun skip_globals :: "git_globals \<Rightarrow> string list \<Rightarrow> git_globals \<times> string list" where
  "skip_globals g [] = (g, [])"
| "skip_globals g [a] = (if starts_with a ''-'' then (g, []) else (g, [a]))"
| "skip_globals g (a # b # rest) =
     (if a = ''-C'' then skip_globals (g\<lparr>gg_cwd := Some b\<rparr>) rest
      else if a = ''-c'' then
        skip_globals (if List.member IDENTITY_KEYS (config_key b)
                      then g\<lparr>gg_identities := gg_identities g @ [b]\<rparr> else g) rest
      else if starts_with a ''--git-dir='' \<or> starts_with a ''--work-tree='' \<or> starts_with a ''--namespace=''
      then skip_globals g (b # rest)
      else if List.member [''--git-dir'', ''--work-tree'', ''--namespace'', ''--exec-path''] a
      then skip_globals g rest
      else if starts_with a ''-'' then skip_globals g (b # rest)
      else (g, a # b # rest))"

section \<open>Push\<close>

record push_scan =
  pu_spec :: push_spec
  pu_positional :: "string list"

definition empty_push :: push_spec where
  "empty_push = \<lparr>sp_remote = None, sp_destinations = [], sp_force = False, sp_delete = False,
     sp_all = False, sp_mirror = False, sp_tags = False, sp_deletes_tags = False\<rparr>"

definition push_value_flags :: "string list" where
  "push_value_flags = [''-o'', ''--push-option'', ''--repo'', ''--receive-pack'', ''--exec'']"

text \<open>A flag that takes no separate value.\<close>

definition push_flag :: "string \<Rightarrow> push_spec \<Rightarrow> push_spec" where
  "push_flag a spec =
     (if a = ''-f'' \<or> a = ''--force'' then spec\<lparr>sp_force := True\<rparr>
      else if a = ''-d'' \<or> a = ''--delete'' then spec\<lparr>sp_delete := True\<rparr>
      else if a = ''--all'' \<or> a = ''--branches'' then spec\<lparr>sp_all := True\<rparr>
      else if a = ''--mirror'' then spec\<lparr>sp_mirror := True, sp_force := True\<rparr>
      else if a = ''--tags'' then spec\<lparr>sp_tags := True\<rparr>
      else if a = ''--prune'' then spec\<lparr>sp_delete := True\<rparr>
      else if starts_with a ''--force-with-lease'' \<or> starts_with a ''--force-if-includes''
      then spec\<lparr>sp_force := True\<rparr>
      else if starts_with a ''--repo='' then spec\<lparr>sp_remote := Some (drop 7 a)\<rparr>
      else if starts_with a ''-'' \<and> \<not> starts_with a ''--'' \<and> length a > 2 then
        spec\<lparr>sp_force := (sp_force spec \<or> contains_char a CHR ''f''),
             sp_delete := (sp_delete spec \<or> contains_char a CHR ''d'')\<rparr>
      else spec)"

fun push_scan_args :: "push_scan \<Rightarrow> string list \<Rightarrow> push_scan" where
  "push_scan_args s [] = s"
| "push_scan_args s [a] =
     (if List.member push_value_flags a then s
      else if starts_with a ''-'' then s\<lparr>pu_spec := push_flag a (pu_spec s)\<rparr>
      else s\<lparr>pu_positional := pu_positional s @ [a]\<rparr>)"
| "push_scan_args s (a # b # rest) =
     (if List.member push_value_flags a then
        push_scan_args (if a = ''--repo'' then s\<lparr>pu_spec := (pu_spec s)\<lparr>sp_remote := Some b\<rparr>\<rparr> else s) rest
      else if starts_with a ''-'' then push_scan_args (s\<lparr>pu_spec := push_flag a (pu_spec s)\<rparr>) (b # rest)
      else push_scan_args (s\<lparr>pu_positional := pu_positional s @ [a]\<rparr>) (b # rest))"

record refspec =
  rf_force :: bool
  rf_src :: string
  rf_dst :: string

definition parse_refspec :: "string \<Rightarrow> refspec" where
  "parse_refspec r =
     (let (force, body) = (case strip_prefix r ''+'' of Some b \<Rightarrow> (True, b) | None \<Rightarrow> (False, r));
          (src, dst) = (case split_once body CHR '':'' of Some (s, d) \<Rightarrow> (s, d) | None \<Rightarrow> (body, body))
      in \<lparr>rf_force = force, rf_src = src, rf_dst = dst\<rparr>)"

definition push_refspec :: "push_spec \<times> string list \<Rightarrow> string \<Rightarrow> push_spec \<times> string list" where
  "push_refspec st r =
     (let (spec0, created) = st; q = parse_refspec r;
          spec = spec0\<lparr>sp_force := (sp_force spec0 \<or> rf_force q),
                       sp_delete := (sp_delete spec0 \<or> rf_src q = [])\<rparr>;
          dst_clean = trim_start_str (rf_dst q) ''refs/heads/''
      in if starts_with (rf_dst q) ''refs/tags/'' then
           (spec\<lparr>sp_deletes_tags := (sp_deletes_tags spec \<or> rf_src q = [] \<or> sp_delete spec)\<rparr>,
            created @ [rf_dst q])
         else
           (spec\<lparr>sp_destinations := sp_destinations spec @ [dst_clean]\<rparr>,
            if dst_clean \<noteq> [] \<and> dst_clean \<noteq> ''HEAD'' then created @ [dst_clean] else created))"

definition parse_push :: "string list \<Rightarrow> string list \<Rightarrow> push_spec \<times> string list" where
  "parse_push rest created =
     (let sc = push_scan_args \<lparr>pu_spec = empty_push, pu_positional = []\<rparr> rest;
          (spec, refs) =
            (if sp_remote (pu_spec sc) = None
             then (case pu_positional sc of
                     [] \<Rightarrow> (pu_spec sc, [])
                   | r # rs \<Rightarrow> ((pu_spec sc)\<lparr>sp_remote := Some r\<rparr>, rs))
             else (pu_spec sc, pu_positional sc));
          (spec', created') = foldl push_refspec (spec, created) refs
      in (if sp_delete spec' \<and> sp_tags spec' then spec'\<lparr>sp_deletes_tags := True\<rparr> else spec', created'))"

section \<open>Configuration\<close>

definition config_read_flags :: "string list" where
  "config_read_flags = [''--get'', ''--get-all'', ''--get-regexp'', ''--list'', ''-l'', ''--get-urlmatch'',
     ''--show-origin'', ''--show-scope'', ''--name-only'']"

definition config_edit_flag :: "string \<Rightarrow> bool" where
  "config_edit_flag a \<longleftrightarrow>
     List.member [''--unset'', ''--unset-all'', ''--add'', ''--replace-all''] a
     \<or> starts_with a ''--remove-section'' \<or> starts_with a ''--rename-section''"

definition classify_config :: "string list \<Rightarrow> git_command \<Rightarrow> git_command" where
  "classify_config rest cmd =
     (let is_read = list_ex (List.member config_read_flags) rest;
          global = list_ex (\<lambda>a. a = ''--global'' \<or> a = ''--system'') rest;
          pos = git_positional rest
      in if is_read \<or> (length pos < 2 \<and> \<not> list_ex config_edit_flag rest)
         then cmd\<lparr>gc_kind := GK_ReadOnly\<rparr>
         else
           (let key = to_ascii_lowercase (unwrap_or [] (first_of pos)) in
            if List.member IDENTITY_KEYS key then
              (case nth_of pos 1 of
                 Some v \<Rightarrow> cmd\<lparr>gc_identity_overrides := gc_identity_overrides cmd @ [key @ ''='' @ v],
                               gc_kind := GK_IdentityChange\<rparr>
               | None \<Rightarrow> cmd\<lparr>gc_kind := GK_IdentityChange\<rparr>)
            else if starts_with key ''credential'' then cmd\<lparr>gc_kind := GK_GlobalConfigChange\<rparr>
            else if global then cmd\<lparr>gc_kind := GK_GlobalConfigChange\<rparr>
            else cmd\<lparr>gc_kind := GK_LocalMutation\<rparr>))"

section \<open>Sub-commands\<close>

definition read_only_subcommands :: "string list" where
  "read_only_subcommands =
     ['''', ''help'', ''version'', ''--version'', ''status'', ''diff'', ''log'', ''show'', ''rev-parse'',
      ''rev-list'', ''ls-files'', ''ls-remote'', ''ls-tree'', ''cat-file'', ''blame'', ''describe'',
      ''shortlog'', ''grep'', ''whatchanged'', ''merge-base'', ''name-rev'', ''for-each-ref'', ''show-ref'',
      ''count-objects'', ''fsck'', ''check-ignore'', ''check-attr'', ''var'', ''diff-tree'', ''diff-files'',
      ''diff-index'', ''range-diff'', ''cherry'', ''annotate'', ''show-branch'', ''verify-commit'',
      ''verify-tag'']"

definition local_mutation_subcommands :: "string list" where
  "local_mutation_subcommands =
     [''add'', ''rm'', ''mv'', ''restore'', ''merge'', ''cherry-pick'', ''revert'', ''init'', ''am'', ''apply'',
      ''gc'', ''prune'', ''notes'', ''sparse-checkout'', ''update-index'', ''bisect'', ''mergetool'', ''repack'',
      ''maintenance'', ''lfs'', ''update-ref'', ''symbolic-ref'', ''replace'']"

definition credential_subcommands :: "string list" where
  "credential_subcommands = [''credential'', ''credential-manager'', ''credential-manager-core'',
     ''credential-store'', ''credential-cache'', ''credential-wincred'']"

text \<open>\<^verbatim>\<open>git branch\<close>: outside deletion the last positional argument is the branch being made, with or
  without a rename (the three branches of the source push the same element).\<close>

definition git_branch :: "string list \<Rightarrow> git_command \<Rightarrow> git_command" where
  "git_branch rest cmd =
     (let has = has_arg rest; pos = git_positional rest;
          listing = (pos = [] \<or> has ''--list'' \<or> has ''-l'' \<or> has ''--show-current''
            \<or> has_arg_prefix rest ''--contains'' \<or> has_arg_prefix rest ''--merged''
            \<or> has_arg_prefix rest ''--no-merged'' \<or> has_arg_prefix rest ''--points-at'');
          deleting = (has ''-d'' \<or> has ''-D'' \<or> has ''--delete'');
          modifying = (deleting \<or> has ''-m'' \<or> has ''-M'' \<or> has ''-c'' \<or> has ''-C''
            \<or> has ''--set-upstream-to'' \<or> has ''-u'' \<or> has ''--unset-upstream'' \<or> has ''-f''
            \<or> has ''--force'')
      in if listing \<and> \<not> modifying then cmd\<lparr>gc_kind := GK_ReadOnly\<rparr>
         else cmd\<lparr>gc_kind := GK_LocalMutation,
                  gc_created_refs := gc_created_refs cmd @
                    (if deleting then []
                     else (case last_of pos of None \<Rightarrow> [] | Some name \<Rightarrow> [name]))\<rparr>)"

definition add_message :: "string \<Rightarrow> git_command \<Rightarrow> git_command" where
  "add_message m c = c\<lparr>gc_messages := gc_messages c @ [m]\<rparr>"

definition add_message_file :: "string \<Rightarrow> git_command \<Rightarrow> git_command" where
  "add_message_file f c = c\<lparr>gc_message_files := gc_message_files c @ [f]\<rparr>"

function tag_scan :: "git_command \<Rightarrow> string list \<Rightarrow> git_command" where
  "tag_scan cmd [] = cmd"
| "tag_scan cmd (a # rest) =
     (case take_values a rest [''-m'', ''--message''] of
        Some (v, used) \<Rightarrow> tag_scan (add_message v cmd) (if used then tl rest else rest)
      | None \<Rightarrow>
          (case take_values a rest [''-F'', ''--file''] of
             Some (f, used) \<Rightarrow> tag_scan (add_message_file f cmd) (if used then tl rest else rest)
           | None \<Rightarrow> tag_scan cmd rest))"
  by pat_completeness auto
termination by (relation "measure (\<lambda>p. length (snd p))") auto

definition git_tag :: "string list \<Rightarrow> git_command \<Rightarrow> git_command" where
  "git_tag rest cmd0 =
     (let has = has_arg rest; pos = git_positional rest;
          listing = (pos = [] \<or> has ''-l'' \<or> has ''--list'' \<or> has_arg_prefix rest ''--contains''
            \<or> has_arg_prefix rest ''--points-at'' \<or> has ''-v'' \<or> has ''--verify'');
          deleting = (has ''-d'' \<or> has ''--delete'');
          cmd = tag_scan cmd0 rest
      in if listing \<and> \<not> deleting \<and> gc_messages cmd = [] then cmd\<lparr>gc_kind := GK_ReadOnly\<rparr>
         else cmd\<lparr>gc_kind := GK_LocalMutation,
                  gc_created_refs := gc_created_refs cmd @
                    (if deleting then [] else (case pos of [] \<Rightarrow> [] | name # _ \<Rightarrow> [name]))\<rparr>)"

text \<open>\<^verbatim>\<open>git commit\<close>: the scan returns whether \<^verbatim>\<open>--amend\<close> was seen.\<close>

function commit_scan :: "bool \<Rightarrow> git_command \<Rightarrow> string list \<Rightarrow> bool \<times> git_command" where
  "commit_scan amend cmd [] = (amend, cmd)"
| "commit_scan amend cmd (a # rest) =
     (if a = ''--amend'' then commit_scan True cmd rest
      else (case take_values a rest [''-m'', ''--message''] of
          Some (v, used) \<Rightarrow> commit_scan amend (add_message v cmd) (if used then tl rest else rest)
        | None \<Rightarrow>
            (case take_values a rest [''-F'', ''--file''] of
               Some (f, used) \<Rightarrow> commit_scan amend (add_message_file f cmd) (if used then tl rest else rest)
             | None \<Rightarrow>
                 (case take_value a rest ''--trailer'' of
                    Some (t, used) \<Rightarrow> commit_scan amend (add_message t cmd) (if used then tl rest else rest)
                  | None \<Rightarrow>
                      (case take_value a rest ''--author'' of
                         Some (au, used) \<Rightarrow>
                           commit_scan amend
                             (cmd\<lparr>gc_identity_overrides := gc_identity_overrides cmd @ [''author='' @ au]\<rparr>)
                             (if used then tl rest else rest)
                       | None \<Rightarrow> commit_scan amend cmd rest)))))"
  by pat_completeness auto
termination by (relation "measure (\<lambda>(amend, cmd, args). length args)") auto

definition git_commit :: "string list \<Rightarrow> git_command \<Rightarrow> git_command" where
  "git_commit rest cmd0 =
     (let (amend, cmd) = commit_scan False cmd0 rest
      in cmd\<lparr>gc_kind := (if amend then GK_CommitAmend else GK_LocalMutation)\<rparr>)"

text \<open>The sub-commands decided by their first positional argument.\<close>

definition git_by_action :: "string \<Rightarrow> string list \<Rightarrow> git_command \<Rightarrow> git_command" where
  "git_by_action sub rest cmd =
     (let pos = git_positional rest; act = first_of pos in
      if sub = ''reflog'' then
        cmd\<lparr>gc_kind := (if act = Some ''expire'' \<or> act = Some ''delete'' then GK_LocalMutation else GK_ReadOnly)\<rparr>
      else if sub = ''remote'' then
        cmd\<lparr>gc_kind := (if act = None \<or> act = Some ''show'' \<or> act = Some ''get-url''
                        then GK_ReadOnly else GK_LocalMutation)\<rparr>
      else if sub = ''stash'' then
        cmd\<lparr>gc_kind := (if act = Some ''list'' \<or> act = Some ''show'' then GK_ReadOnly else GK_LocalMutation)\<rparr>
      else if sub = ''worktree'' then
        (if act = Some ''list'' then cmd\<lparr>gc_kind := GK_ReadOnly\<rparr>
         else if act = Some ''add'' then
           cmd\<lparr>gc_kind := GK_LocalMutation,
               gc_output_paths := gc_output_paths cmd
                 @ (case nth_of pos 1 of Some p \<Rightarrow> [p] | None \<Rightarrow> [])\<rparr>
         else cmd\<lparr>gc_kind := GK_LocalMutation\<rparr>)
      else
        cmd\<lparr>gc_kind := (if act = None \<or> act = Some ''status'' \<or> act = Some ''summary''
                        then GK_ReadOnly else GK_LocalMutation)\<rparr>)"

definition git_clone :: "string list \<Rightarrow> git_command \<Rightarrow> git_command" where
  "git_clone rest cmd =
     (let dest = nth_of (git_positional rest) 1
      in cmd\<lparr>gc_kind := GK_Clone dest,
             gc_output_paths := gc_output_paths cmd @ (case dest of Some d \<Rightarrow> [d] | None \<Rightarrow> [])\<rparr>)"

definition git_local_mutation :: "string \<Rightarrow> string list \<Rightarrow> git_command \<Rightarrow> git_command" where
  "git_local_mutation sub rest cmd =
     cmd\<lparr>gc_kind := GK_LocalMutation,
         gc_messages := gc_messages cmd @
           (if sub = ''notes'' then collect_values [''-m''] rest
            else if sub = ''merge'' then collect_values [''-m'', ''--message''] rest
            else [])\<rparr>"

definition clean_forces :: "string \<Rightarrow> bool" where
  "clean_forces a \<longleftrightarrow>
     a = ''--force'' \<or> (starts_with a ''-'' \<and> \<not> starts_with a ''--'' \<and> contains_char a CHR ''f'')"

definition git_clean :: "string list \<Rightarrow> git_command \<Rightarrow> git_command" where
  "git_clean rest cmd =
     (let dry = (has_arg rest ''-n'' \<or> has_arg rest ''--dry-run'')
      in cmd\<lparr>gc_kind := (if dry \<or> \<not> list_ex clean_forces rest then GK_ReadOnly else GK_Clean)\<rparr>)"

definition git_rebase :: "string list \<Rightarrow> git_command \<Rightarrow> git_command" where
  "git_rebase rest cmd =
     (let has = has_arg rest in
      cmd\<lparr>gc_kind := (if has ''--abort'' \<or> has ''--quit'' \<or> has ''--show-current-patch'' \<or> has ''--continue''
                        \<or> has ''--skip''
                      then GK_LocalMutation else GK_Rebase (first_of (git_positional rest)))\<rparr>)"

definition git_subcommand :: "string \<Rightarrow> string list \<Rightarrow> git_command \<Rightarrow> git_command" where
  "git_subcommand sub rest cmd =
     (if List.member read_only_subcommands sub then cmd\<lparr>gc_kind := GK_ReadOnly\<rparr>
      else if List.member [''reflog'', ''remote'', ''stash'', ''worktree'', ''submodule''] sub
      then git_by_action sub rest cmd
      else if sub = ''fetch'' then cmd\<lparr>gc_kind := GK_Fetch\<rparr>
      else if sub = ''pull'' then cmd\<lparr>gc_kind := GK_Pull\<rparr>
      else if sub = ''clone'' then git_clone rest cmd
      else if sub = ''archive'' then
        cmd\<lparr>gc_kind := GK_ReadOnly,
            gc_output_paths := gc_output_paths cmd @ collect_values [''--output'', ''-o''] rest\<rparr>
      else if sub = ''branch'' then git_branch rest cmd
      else if sub = ''tag'' then git_tag rest cmd
      else if sub = ''checkout'' \<or> sub = ''switch'' then
        cmd\<lparr>gc_kind := GK_LocalMutation,
            gc_created_refs := gc_created_refs cmd
              @ collect_values [''-b'', ''-B'', ''-c'', ''-C'', ''--orphan''] rest\<rparr>
      else if List.member local_mutation_subcommands sub then git_local_mutation sub rest cmd
      else if sub = ''commit'' then git_commit rest cmd
      else if sub = ''reset'' then
        cmd\<lparr>gc_kind := (if has_arg rest ''--hard'' \<or> has_arg rest ''--merge'' \<or> has_arg rest ''--keep''
                        then GK_ResetHard else GK_LocalMutation)\<rparr>
      else if sub = ''clean'' then git_clean rest cmd
      else if sub = ''filter-branch'' \<or> sub = ''filter-repo'' then cmd\<lparr>gc_kind := GK_HistoryRewrite\<rparr>
      else if sub = ''rebase'' then git_rebase rest cmd
      else if sub = ''push'' then
        (let (spec, created) = parse_push rest (gc_created_refs cmd)
         in cmd\<lparr>gc_kind := GK_Push spec, gc_created_refs := created\<rparr>)
      else if List.member credential_subcommands sub then cmd\<lparr>gc_kind := GK_CredentialAccess\<rparr>
      else if sub = ''config'' then classify_config rest cmd
      else cmd\<lparr>gc_kind := GK_Unknown\<rparr>)"

definition git_parse :: "string list \<Rightarrow> git_command" where
  "git_parse args =
     (let (g, remaining) = skip_globals \<lparr>gg_cwd = None, gg_identities = []\<rparr> args;
          sub = to_ascii_lowercase (unwrap_or [] (first_of remaining));
          rest = tl remaining
      in git_subcommand sub rest
           \<lparr>gc_cwd_override = gg_cwd g, gc_subcommand = sub, gc_args = rest, gc_kind = GK_Unknown,
            gc_messages = [], gc_message_files = [], gc_identity_overrides = gg_identities g,
            gc_created_refs = [], gc_output_paths = []\<rparr>)"

section \<open>What makes a push forced or deleting\<close>

definition force_flag :: "string \<Rightarrow> bool" where
  "force_flag a \<longleftrightarrow>
     List.member [''-f'', ''--force'', ''--mirror''] a
     \<or> starts_with a ''--force-with-lease'' \<or> starts_with a ''--force-if-includes''
     \<or> (starts_with a ''-'' \<and> \<not> starts_with a ''--'' \<and> length a > 2 \<and> contains_char a CHR ''f'')"

definition delete_flag :: "string \<Rightarrow> bool" where
  "delete_flag a \<longleftrightarrow>
     List.member [''-d'', ''--delete'', ''--prune''] a
     \<or> (starts_with a ''-'' \<and> \<not> starts_with a ''--'' \<and> length a > 2 \<and> contains_char a CHR ''d'')"

definition repo_flag :: "string \<Rightarrow> bool" where
  "repo_flag a \<longleftrightarrow> starts_with a ''--repo=''"

definition value_free :: "string list \<Rightarrow> bool" where
  "value_free rest \<longleftrightarrow> \<not> list_ex (List.member push_value_flags) rest"

text \<open>The refspecs of a push: the positional arguments after the remote.\<close>

definition push_refspecs :: "string list \<Rightarrow> string list" where
  "push_refspecs rest = (if list_ex repo_flag rest then git_positional rest else tl (git_positional rest))"

definition branch_refspec :: "string \<Rightarrow> bool" where
  "branch_refspec r \<longleftrightarrow> \<not> starts_with (rf_dst (parse_refspec r)) ''refs/tags/''"

definition refspec_branch :: "string \<Rightarrow> string" where
  "refspec_branch r = trim_start_str (rf_dst (parse_refspec r)) ''refs/heads/''"

lemma starts_with_diff:
  "starts_with a (p @ q) \<Longrightarrow> starts_with a p"
  by (auto simp: starts_with_iff)

lemma push_flag_force:
  assumes "starts_with a ''-''"
  shows "sp_force (push_flag a s) = (sp_force s \<or> force_flag a)"
proof -
  have "starts_with a ''--''" if "starts_with a ''--repo=''"
    using that starts_with_diff [of a "''--''" "''repo=''"] by simp
  moreover have "\<not> starts_with a ''--force-with-lease'' \<and> \<not> starts_with a ''--force-if-includes''"
    if "starts_with a ''--repo=''" using that by (auto simp: starts_with_iff)
  ultimately show ?thesis
    using assms by (auto simp: push_flag_def force_flag_def starts_with_def)
qed

lemma repo_flag_remote:
  assumes "repo_flag a"
  shows "sp_remote (push_flag a s) \<noteq> None"
proof -
  from assms obtain r where a: "a = ''--repo='' @ r"
    by (auto simp: repo_flag_def starts_with_iff)
  show ?thesis by (simp add: a push_flag_def starts_with_iff)
qed

lemma push_flag_delete:
  assumes "starts_with a ''-''"
  shows "sp_delete (push_flag a s) = (sp_delete s \<or> delete_flag a)"
proof (cases "List.member [''-f'', ''--force'', ''--all'', ''--branches'', ''--mirror'', ''--tags'',
    ''-d'', ''--delete'', ''--prune''] a")
  case True
  then have "a = ''-f'' \<or> a = ''--force'' \<or> a = ''--all'' \<or> a = ''--branches'' \<or> a = ''--mirror''
      \<or> a = ''--tags'' \<or> a = ''-d'' \<or> a = ''--delete'' \<or> a = ''--prune''" by simp
  then show ?thesis
    by (elim disjE) (simp_all add: push_flag_def delete_flag_def starts_with_def)
next
  case False
  have "\<not> starts_with a ''--'' \<Longrightarrow> \<not> starts_with a ''--repo='' \<and> \<not> starts_with a ''--force-with-lease''
      \<and> \<not> starts_with a ''--force-if-includes''"
    using starts_with_diff [of a "''--''" "''repo=''"] starts_with_diff [of a "''--''" "''force-with-lease''"]
      starts_with_diff [of a "''--''" "''force-if-includes''"] by simp blast
  with False assms show ?thesis by (simp add: push_flag_def delete_flag_def)
qed

lemma push_flag_remote:
  "sp_remote (push_flag a s) = None \<longleftrightarrow> sp_remote s = None \<and> \<not> repo_flag a"
proof (cases "repo_flag a")
  case True
  then show ?thesis using repo_flag_remote [OF True] by simp
next
  case False
  then show ?thesis by (simp add: push_flag_def repo_flag_def)
qed

lemma push_flag_other [simp]: "sp_destinations (push_flag a s) = sp_destinations s"
  by (simp add: push_flag_def)

lemma flag_is_option:
  "force_flag a \<Longrightarrow> starts_with a ''-''" "delete_flag a \<Longrightarrow> starts_with a ''-''" "repo_flag a \<Longrightarrow> starts_with a ''-''"
  by (auto simp: force_flag_def delete_flag_def repo_flag_def starts_with_iff)

lemma push_scan_args_value_free:
  assumes "value_free rest"
  shows "pu_positional (push_scan_args s rest) = pu_positional s @ git_positional rest
    \<and> sp_force (pu_spec (push_scan_args s rest)) = (sp_force (pu_spec s) \<or> list_ex force_flag rest)
    \<and> sp_delete (pu_spec (push_scan_args s rest)) = (sp_delete (pu_spec s) \<or> list_ex delete_flag rest)
    \<and> (sp_remote (pu_spec (push_scan_args s rest)) = None \<longleftrightarrow>
         sp_remote (pu_spec s) = None \<and> \<not> list_ex repo_flag rest)
    \<and> sp_destinations (pu_spec (push_scan_args s rest)) = sp_destinations (pu_spec s)"
  using assms
proof (induction s rest rule: push_scan_args.induct)
  case (2 s a)
  then show ?case
    using flag_is_option [of a]
    by (cases "starts_with a ''-''")
       (auto simp: value_free_def git_positional_def push_flag_force push_flag_delete push_flag_remote)
next
  case (3 s a b rest)
  from "3.prems" have vf: "\<not> List.member push_value_flags a" "value_free (b # rest)"
    by (auto simp: value_free_def)
  show ?case
  proof (cases "starts_with a ''-''")
    case True
    with "3.IH"(2) [OF vf(1) True vf(2)] vf(1) show ?thesis
      by (auto simp: git_positional_def push_flag_force push_flag_delete push_flag_remote)
  next
    case False
    with "3.IH"(3) [OF vf(1) False vf(2)] vf(1) flag_is_option [of a] show ?thesis
      by (auto simp: git_positional_def)
  qed
qed (simp_all add: git_positional_def)

lemma push_refspec_sel:
  "sp_force (fst (push_refspec st r)) = (sp_force (fst st) \<or> starts_with r ''+'')"
  "sp_delete (fst (push_refspec st r)) = (sp_delete (fst st) \<or> rf_src (parse_refspec r) = [])"
  "sp_destinations (fst (push_refspec st r)) =
     sp_destinations (fst st) @ (if branch_refspec r then [refspec_branch r] else [])"
proof -
  have "rf_force (parse_refspec r) = starts_with r ''+''"
    by (simp add: parse_refspec_def strip_prefix_def Let_def split: prod.splits)
  then show "sp_force (fst (push_refspec st r)) = (sp_force (fst st) \<or> starts_with r ''+'')"
    "sp_delete (fst (push_refspec st r)) = (sp_delete (fst st) \<or> rf_src (parse_refspec r) = [])"
    "sp_destinations (fst (push_refspec st r)) =
     sp_destinations (fst st) @ (if branch_refspec r then [refspec_branch r] else [])"
    by (simp_all add: push_refspec_def branch_refspec_def refspec_branch_def Let_def split: prod.splits)
qed

lemma foldl_push_refspec:
  "sp_force (fst (foldl push_refspec st rs)) = (sp_force (fst st) \<or> list_ex (\<lambda>r. starts_with r ''+'') rs)
   \<and> sp_delete (fst (foldl push_refspec st rs))
       = (sp_delete (fst st) \<or> list_ex (\<lambda>r. rf_src (parse_refspec r) = []) rs)
   \<and> sp_destinations (fst (foldl push_refspec st rs)) =
       sp_destinations (fst st) @ map refspec_branch (filter branch_refspec rs)"
  by (induction rs arbitrary: st) (auto simp: push_refspec_sel)

lemma parse_push_value_free:
  assumes "value_free rest"
  shows "sp_force (fst (parse_push rest cr)) =
      (list_ex force_flag rest \<or> list_ex (\<lambda>r. starts_with r ''+'') (push_refspecs rest))"
    and "sp_delete (fst (parse_push rest cr)) =
      (list_ex delete_flag rest \<or> list_ex (\<lambda>r. rf_src (parse_refspec r) = []) (push_refspecs rest))"
    and "sp_destinations (fst (parse_push rest cr)) =
      map refspec_branch (filter branch_refspec (push_refspecs rest))"
proof -
  let ?s = "push_scan_args \<lparr>pu_spec = empty_push, pu_positional = []\<rparr> rest"
  let ?spec = "if sp_remote (pu_spec ?s) = None then
      (case pu_positional ?s of [] \<Rightarrow> pu_spec ?s | r # _ \<Rightarrow> (pu_spec ?s)\<lparr>sp_remote := Some r\<rparr>) else pu_spec ?s"
  note scan = push_scan_args_value_free [OF assms, of "\<lparr>pu_spec = empty_push, pu_positional = []\<rparr>"]
  have refs: "(if sp_remote (pu_spec ?s) = None
       then (case pu_positional ?s of [] \<Rightarrow> (pu_spec ?s, []) | r # rs \<Rightarrow> ((pu_spec ?s)\<lparr>sp_remote := Some r\<rparr>, rs))
       else (pu_spec ?s, pu_positional ?s)) = (?spec, push_refspecs rest)"
    using scan by (auto simp: push_refspecs_def empty_push_def split: list.splits)
  have sel: "sp_force ?spec = sp_force (pu_spec ?s)" "sp_delete ?spec = sp_delete (pu_spec ?s)"
      "sp_destinations ?spec = sp_destinations (pu_spec ?s)"
    by (auto split: list.splits)
  let ?f = "foldl push_refspec (?spec, cr) (push_refspecs rest)"
  have p: "fst (parse_push rest cr) =
      (if sp_delete (fst ?f) \<and> sp_tags (fst ?f) then (fst ?f)\<lparr>sp_deletes_tags := True\<rparr> else fst ?f)"
    unfolding parse_push_def Let_def refs by (simp split: prod.splits)
  show "sp_force (fst (parse_push rest cr)) =
      (list_ex force_flag rest \<or> list_ex (\<lambda>r. starts_with r ''+'') (push_refspecs rest))"
    "sp_delete (fst (parse_push rest cr)) =
      (list_ex delete_flag rest \<or> list_ex (\<lambda>r. rf_src (parse_refspec r) = []) (push_refspecs rest))"
    "sp_destinations (fst (parse_push rest cr)) =
      map refspec_branch (filter branch_refspec (push_refspecs rest))"
    using foldl_push_refspec [of "(?spec, cr)" "push_refspecs rest"] scan sel
    unfolding p by (simp_all add: empty_push_def)
qed

end
