(* ===== verification/Gh_Cmd.thy ===== *)
theory Gh_Cmd
  imports Rust_Str
begin

text \<open>
  \<^verbatim>\<open>workstation-policy/src/command/gh.rs\<close>: classification of GitHub CLI command lines.
\<close>

datatype gh_kind =
    GH_Read
  | GH_Write
  | GH_DestructiveWrite
  | GH_CredentialAccess
  | GH_CredentialChange
  | GH_Unknown

record gh_command =
  gh_group :: string
  gh_action :: string
  gh_kind :: gh_kind
  gh_texts :: "string list"
  gh_text_files :: "string list"
  gh_created_refs :: "string list"

text \<open>\<^verbatim>\<open>value_of\<close>: every name is tried at every argument, and the argument after a match is itself scanned.\<close>

definition value_of_name :: "string \<Rightarrow> string list \<Rightarrow> string \<Rightarrow> string list" where
  "value_of_name a rest n =
     (if a = n \<and> rest \<noteq> [] then [hd rest]
      else (case strip_prefix a (n @ ''='') of Some v \<Rightarrow> [v] | None \<Rightarrow> []))"

fun value_of :: "string list \<Rightarrow> string list \<Rightarrow> string list" where
  "value_of [] names = []"
| "value_of (a # rest) names = concat (map (value_of_name a rest) names) @ value_of rest names"

definition gh_has :: "string list \<Rightarrow> string \<Rightarrow> bool" where
  "gh_has args f = List.member args f"

definition gh_api_field :: "string \<Rightarrow> string" where
  "gh_api_field f = (case split_once f CHR ''='' of Some (_, v) \<Rightarrow> v | None \<Rightarrow> [])"

definition gh_auth_kind :: "string list \<Rightarrow> string \<Rightarrow> gh_kind" where
  "gh_auth_kind args act =
     (if act = ''token'' then GH_CredentialAccess
      else if act = ''status'' \<and> (gh_has args ''-t'' \<or> gh_has args ''--show-token'') then GH_CredentialAccess
      else if act = ''status'' then GH_Read
      else if List.member [''login'', ''logout'', ''refresh'', ''setup-git'', ''switch''] act
      then GH_CredentialChange
      else GH_Unknown)"

definition gh_api :: "string list \<Rightarrow> gh_command \<Rightarrow> gh_command" where
  "gh_api args cmd =
     (let meth = map_option to_ascii_uppercase (first_of (value_of args [''-X'', ''--method'']));
          fields = value_of args [''-f'', ''--raw-field'', ''-F'', ''--field'']
      in cmd\<lparr>gh_texts := gh_texts cmd @ map gh_api_field fields,
             gh_kind := (case meth of
                 Some m \<Rightarrow> (if m = ''DELETE'' then GH_DestructiveWrite
                            else if m = ''GET'' \<or> m = ''HEAD'' then GH_Read else GH_Write)
               | None \<Rightarrow> (if fields = [] \<and> \<not> gh_has args ''--input'' then GH_Read else GH_Write))\<rparr>)"

definition gh_release :: "string \<Rightarrow> string list \<Rightarrow> gh_command \<Rightarrow> gh_command" where
  "gh_release act pos cmd =
     (if List.member [''list'', ''view'', ''download''] act then cmd\<lparr>gh_kind := GH_Read\<rparr>
      else if act = ''delete'' \<or> act = ''delete-asset'' then cmd\<lparr>gh_kind := GH_DestructiveWrite\<rparr>
      else (case (if act = ''create'' then nth_of pos 2 else None) of
              Some tag \<Rightarrow> cmd\<lparr>gh_created_refs := gh_created_refs cmd @ [tag],
                              gh_texts := gh_texts cmd @ [tag], gh_kind := GH_Write\<rparr>
            | None \<Rightarrow> cmd\<lparr>gh_kind := GH_Write\<rparr>))"

text \<open>The groups whose kind depends on the action only.\<close>

definition gh_group_kind :: "string \<Rightarrow> string \<Rightarrow> gh_kind" where
  "gh_group_kind grp act =
     (if List.member [''secret'', ''variable'', ''ssh-key'', ''gpg-key''] grp then
        (if act = ''list'' \<or> act = ''get'' then GH_Read else GH_CredentialChange)
      else if grp = ''pr'' \<or> grp = ''issue'' then
        (if List.member [''list'', ''view'', ''status'', ''checks'', ''diff''] act then GH_Read
         else if act = ''delete'' then GH_DestructiveWrite
         else if act = ''checkout'' then GH_Read
         else GH_Write)
      else if grp = ''repo'' then
        (if List.member [''view'', ''list'', ''clone''] act then GH_Read
         else if List.member [''delete'', ''archive'', ''rename''] act then GH_DestructiveWrite
         else GH_Write)
      else if List.member [''gist'', ''label'', ''project'', ''cache'', ''ruleset''] grp then
        (if act = ''list'' \<or> act = ''view'' then GH_Read
         else if act = ''delete'' then GH_DestructiveWrite
         else GH_Write)
      else if grp = ''workflow'' \<or> grp = ''run'' then
        (if List.member [''list'', ''view'', ''watch'', ''download''] act then GH_Read else GH_Write)
      else if List.member [''browse'', ''search'', ''status'', ''help'', ''version'', ''--version'',
          ''extension'', ''alias'', ''config'', ''codespace'', ''org'', ''completion''] grp
      then GH_Read
      else GH_Unknown)"

definition gh_text_flags :: "string list" where
  "gh_text_flags = [''--title'', ''-t'', ''--body'', ''-b'', ''--notes'', ''-n'', ''--message'',
     ''--subject'', ''--description'', ''-d'']"

definition gh_parse :: "string list \<Rightarrow> gh_command" where
  "gh_parse args =
     (let pos = filter (\<lambda>a. \<not> starts_with a ''-'') args;
          grp = to_ascii_lowercase (unwrap_or [] (first_of pos));
          act = to_ascii_lowercase (unwrap_or [] (nth_of pos 1));
          cmd = \<lparr>gh_group = grp, gh_action = act, gh_kind = GH_Unknown,
                 gh_texts = value_of args gh_text_flags,
                 gh_text_files = value_of args [''--body-file'', ''-F'', ''--notes-file''],
                 gh_created_refs = value_of args [''--head'', ''-H'']\<rparr>
      in if grp = ''auth'' then cmd\<lparr>gh_kind := gh_auth_kind args act\<rparr>
         else if grp = ''release'' then gh_release act pos cmd
         else if grp = ''api'' then gh_api args cmd
         else cmd\<lparr>gh_kind := gh_group_kind grp act\<rparr>)"

section \<open>The text of a write reaches the check\<close>

lemma value_of_next:
  assumes "List.member names n" and "rest \<noteq> []"
  shows "List.member (value_of (pre @ n # rest) names) (hd rest)"
  using assms by (induction pre) (auto simp: value_of_name_def split: if_splits option.splits
      intro!: bexI [of _ n])

lemma gh_parse_texts:
  "set (value_of args gh_text_flags) \<subseteq> set (gh_texts (gh_parse args))"
  unfolding gh_parse_def Let_def gh_release_def gh_api_def
  by (auto split: option.splits)

end
