(* ===== verification/Packages.thy ===== *)
theory Packages
  imports Rust_Str
begin

text \<open>
  \<^verbatim>\<open>workstation-policy/src/command/packages.rs\<close>: the scope of a package-manager invocation. One
  definition per manager family of the \<^verbatim>\<open>match\<close>.
\<close>

datatype package_scope = PS_Local | PS_Global | PS_Admin | PS_NotInstall

record package_action =
  pa_manager :: string
  pa_scope :: package_scope
  pa_detail :: string

definition mk_package :: "string \<Rightarrow> package_scope \<Rightarrow> string \<Rightarrow> package_action" where
  "mk_package program scope detail = \<lparr>pa_manager = program, pa_scope = scope, pa_detail = detail\<rparr>"

definition first_word :: "string list \<Rightarrow> string" where
  "first_word lower = unwrap_or [] (find (\<lambda>a. \<not> starts_with a ''-'') lower)"

definition pip_target_flag :: "string \<Rightarrow> bool" where
  "pip_target_flag a \<longleftrightarrow>
     a = ''--target'' \<or> a = ''-t'' \<or> starts_with a ''--target='' \<or> a = ''--prefix'' \<or> a = ''--root''"

definition classify_pip :: "string list \<Rightarrow> bool \<Rightarrow> package_action" where
  "classify_pip lower program_in_trusted =
     (let first = first_word lower; mk = mk_package ''pip'' in
      if \<not> List.member [''install'', ''uninstall'', ''download'', ''wheel''] first
      then mk PS_NotInstall ''pip query''
      else if List.member lower ''--user'' then mk PS_Global ''pip install --user''
      else if list_ex pip_target_flag lower
      then mk PS_Local ''pip install into an explicit directory (checked separately)''
      else if first = ''download'' \<or> first = ''wheel'' then mk PS_Local ''pip download''
      else if program_in_trusted then mk PS_Local ''pip install inside a project virtual environment''
      else mk PS_Global ''pip install into a global interpreter'')"

definition node_install_words :: "string list" where
  "node_install_words = [''install'', ''i'', ''add'', ''ci'', ''update'', ''up'', ''upgrade'', ''remove'',
     ''rm'', ''uninstall'', ''un'', ''link'', ''global'', '''']"

definition classify_node :: "string \<Rightarrow> string list \<Rightarrow> package_action" where
  "classify_node program lower =
     (let has = List.member lower; first = first_word lower; mk = mk_package program;
          global = (has ''-g'' \<or> has ''--global'' \<or> has ''--location=global''
                    \<or> (program = ''yarn'' \<and> first = ''global''));
          install_like = List.member node_install_words first
      in if program = ''npm'' \<and> first = ''install'' \<and> list_ex (\<lambda>a. contains_str a ''playwright'') lower
            \<and> global
         then mk PS_Global ''global Playwright install''
         else if global \<and> install_like then mk PS_Global (program @ '' global install'')
         else if install_like then mk PS_Local (program @ '' project dependency operation'')
         else if (first = ''exec'' \<or> first = ''x'' \<or> first = ''dlx'') \<and> has ''playwright'' \<and> has ''install''
         then mk PS_Global ''Playwright browser download into the user profile''
         else mk PS_NotInstall ''package script'')"

text \<open>The arguments after the first \<^verbatim>\<open>-m\<close> of a Python command line.\<close>

fun after_dash_m :: "string list \<Rightarrow> string list option" where
  "after_dash_m [] = None"
| "after_dash_m (a # rest) = (if a = ''-m'' then Some rest else after_dash_m rest)"

definition classify_python :: "string \<Rightarrow> string list \<Rightarrow> bool \<Rightarrow> package_action option" where
  "classify_python program lower program_in_trusted =
     (case after_dash_m lower of
        None \<Rightarrow> None
      | Some rest \<Rightarrow>
          (let module = unwrap_or [] (first_of rest) in
           if module = ''pip'' then Some (classify_pip (tl rest) program_in_trusted)
           else if module = ''venv'' \<or> module = ''virtualenv''
           then Some (mk_package program PS_Local ''create virtual environment'')
           else None))"

definition classify_dotnet :: "string \<Rightarrow> string list \<Rightarrow> package_action" where
  "classify_dotnet program lower =
     (let has = List.member lower; first = first_word lower; mk = mk_package program in
      if (first = ''tool'' \<and> (has ''-g'' \<or> has ''--global'' \<or> has ''--tool-path''))
         \<or> (first = ''new'' \<and> (has ''--install'' \<or> nth_of lower 1 = Some ''install''))
      then mk PS_Global ''dotnet global tool/template install''
      else if first = ''workload''
         \<and> List.member [Some ''install'', Some ''update'', Some ''repair'', Some ''uninstall''] (nth_of lower 1)
      then mk PS_Admin ''dotnet workload change''
      else mk PS_Local ''dotnet project operation'')"

text \<open>The managers of whole machines and user profiles.\<close>

definition classify_system_manager :: "string \<Rightarrow> string list \<Rightarrow> package_action option" where
  "classify_system_manager program lower =
     (let has = List.member lower; first = first_word lower; mk = (\<lambda>s d. Some (mk_package program s d)) in
      if program = ''winget'' then
        (if List.member [''install'', ''upgrade'', ''uninstall'', ''remove'', ''import'', ''update'', ''add''] first
         then (if has ''machine'' \<and> has ''--scope'' then mk PS_Admin ''winget machine-wide install''
               else mk PS_Global ''winget install'')
         else mk PS_NotInstall ''winget query'')
      else if program = ''choco'' \<or> program = ''chocolatey'' then
        (if List.member [''install'', ''upgrade'', ''uninstall'', ''update'', ''feature'', ''source'', ''config''] first
         then mk PS_Admin ''Chocolatey system install''
         else mk PS_NotInstall ''choco query'')
      else if program = ''scoop'' then
        (if List.member [''install'', ''update'', ''uninstall'', ''bucket'', ''reset''] first
         then (if has ''--global'' \<or> has ''-g'' then mk PS_Admin ''scoop global install''
               else mk PS_Global ''scoop user install'')
         else mk PS_NotInstall ''scoop query'')
      else if program = ''gem'' then
        (if List.member [''install'', ''uninstall'', ''update''] first then mk PS_Global ''gem install''
         else mk PS_NotInstall ''gem query'')
      else if program = ''composer'' then
        (if first = ''global'' then mk PS_Global ''composer global install''
         else mk PS_Local ''composer project operation'')
      else if List.member [''nvm'', ''volta'', ''fnm'', ''corepack'', ''sdkmanager''] program then
        (if List.member [''list'', ''ls'', ''current'', ''version'', ''--version''] first
         then mk PS_NotInstall ''version manager query''
         else mk PS_Global ''runtime/version manager change'')
      else None)"

definition package_classify :: "string \<Rightarrow> string list \<Rightarrow> bool \<Rightarrow> package_action option" where
  "package_classify program args program_in_trusted =
     (let lower = map to_ascii_lowercase args; has = List.member lower; first = first_word lower;
          mk = (\<lambda>s d. Some (mk_package program s d))
      in if List.member [''npm'', ''pnpm'', ''yarn'', ''bun'', ''cnpm''] program
         then Some (classify_node program lower)
         else if program = ''npx'' then
           (if has ''playwright'' \<and> has ''install''
            then mk PS_Global ''Playwright browser download into the user profile''
            else mk PS_NotInstall ''npx package execution'')
         else if program = ''pip'' \<or> program = ''pip3'' then Some (classify_pip lower program_in_trusted)
         else if program = ''python'' \<or> program = ''python3'' \<or> program = ''py''
         then classify_python program lower program_in_trusted
         else if program = ''uv'' then
           (if first = ''tool'' \<and> nth_of lower 1 = Some ''install'' then mk PS_Global ''uv tool install''
            else if first = ''pip'' \<and> has ''--system'' then mk PS_Global ''uv pip install --system''
            else mk PS_Local ''uv project operation'')
         else if List.member [''poetry'', ''pipenv'', ''pdm'', ''hatch'', ''bundle''] program
         then mk PS_Local (program @ '' project dependency operation'')
         else if program = ''pipx'' then
           (if List.member [''install'', ''upgrade'', ''uninstall'', ''inject'', ''ensurepath''] first
            then mk PS_Global ''pipx user-global install'' else mk PS_NotInstall ''pipx'')
         else if program = ''cargo'' then
           (if first = ''install'' \<or> first = ''uninstall'' then mk PS_Global ''cargo install into ~/.cargo/bin''
            else mk PS_Local ''cargo project operation'')
         else if program = ''rustup'' then
           (if List.member [''show'', ''which'', ''--version'', ''doc''] first
            then mk PS_NotInstall ''rustup query'' else mk PS_Global ''rustup toolchain change'')
         else if program = ''go'' then
           (if first = ''install'' then mk PS_Global ''go install into GOBIN''
            else mk PS_Local ''go project operation'')
         else if program = ''dotnet'' then Some (classify_dotnet program lower)
         else classify_system_manager program lower)"

end
