(* ===== verification/Finding.thy ===== *)
theory Finding
  imports Tokenize Git_Cmd Gh_Cmd Packages
begin

text \<open>
  The vocabulary of \<^verbatim>\<open>workstation-policy/src/command/mod.rs\<close>: what the analysis of a command reports.
  \<^verbatim>\<open>Finding\<close>, \<^verbatim>\<open>PathRef\<close> and \<^verbatim>\<open>CommandAnalysis\<close> are records, and the helpers that turn arguments into path
  references come with them.
\<close>

datatype category =
    Cat_ReadOnly
  | Cat_PackageLocal
  | Cat_PackageGlobal
  | Cat_GitSafe
  | Cat_GitDestructive
  | Cat_GithubRead
  | Cat_GithubWrite
  | Cat_CredentialAccess
  | Cat_SystemChange
  | Cat_Admin
  | Cat_Network
  | Cat_Dynamic
  | Cat_Unknown

datatype ref_access = RA_ReadDisclose | RA_Read | RA_Write | RA_Delete | RA_Unknown

record path_ref =
  pf_raw :: string
  pf_access :: ref_access
  pf_via :: string

record finding =
  fd_category :: category
  fd_program :: string
  fd_detail :: string
  fd_paths :: "path_ref list"
  fd_git :: "git_command option"
  fd_gh :: "gh_command option"
  fd_package :: "package_action option"
  fd_official_texts :: "string list"
  fd_official_text_files :: "string list"
  fd_official_refs :: "string list"
  fd_identity_values :: "string list"

definition Finding_new :: "category \<Rightarrow> string \<Rightarrow> string \<Rightarrow> finding" where
  "Finding_new cat program detail =
     \<lparr>fd_category = cat, fd_program = program, fd_detail = detail, fd_paths = [], fd_git = None,
      fd_gh = None, fd_package = None, fd_official_texts = [], fd_official_text_files = [],
      fd_official_refs = [], fd_identity_values = []\<rparr>"

definition with_paths :: "path_ref list \<Rightarrow> finding \<Rightarrow> finding" where
  "with_paths ps f = f\<lparr>fd_paths := ps\<rparr>"

definition more_paths :: "path_ref list \<Rightarrow> finding \<Rightarrow> finding" where
  "more_paths ps f = f\<lparr>fd_paths := fd_paths f @ ps\<rparr>"

datatype shell_kind = SK_Process | SK_Cmd | SK_PowerShell

record command_analysis =
  ca_kind :: shell_kind
  ca_findings :: "finding list"
  ca_parse_errors :: "string list"

definition all_paths :: "command_analysis \<Rightarrow> path_ref list" where
  "all_paths a = concat (map fd_paths (ca_findings a))"

definition read_only_finding :: "finding \<Rightarrow> bool" where
  "read_only_finding f \<longleftrightarrow>
     List.member [Cat_ReadOnly, Cat_GithubRead, Cat_Network] (fd_category f)
     \<or> (fd_category f = Cat_GitSafe \<and>
         (case fd_git f of Some g \<Rightarrow> gc_kind g = GK_ReadOnly | None \<Rightarrow> False))"

definition is_read_only :: "command_analysis \<Rightarrow> bool" where
  "is_read_only a \<longleftrightarrow>
     ca_parse_errors a = [] \<and> ca_findings a \<noteq> [] \<and> list_all read_only_finding (ca_findings a)
     \<and> list_all (\<lambda>p. List.member [RA_Read, RA_ReadDisclose] (pf_access p)) (all_paths a)"

section \<open>Arguments and paths\<close>

definition starts_with_drive :: "string \<Rightarrow> bool" where
  "starts_with_drive s \<longleftrightarrow> (case s of c # d # _ \<Rightarrow> is_ascii_alphabetic c \<and> d = CHR '':'' | _ \<Rightarrow> False)"

definition looks_like_path :: "string \<Rightarrow> bool" where
  "looks_like_path arg \<longleftrightarrow>
     \<not> (arg = [] \<or> contains_str arg ''://'' \<or> starts_with arg ''-'')
     \<and> (contains_char arg BS \<or> contains_char arg CHR ''/'' \<or> starts_with arg ''.'' \<or> starts_with arg ''~''
        \<or> starts_with arg ''%'' \<or> starts_with (to_ascii_lowercase arg) ''$env:''
        \<or> starts_with arg ''$HOME'' \<or> starts_with_drive arg)"

definition is_switch :: "string \<Rightarrow> bool \<Rightarrow> bool" where
  "is_switch arg cmd_builtin \<longleftrightarrow>
     starts_with arg ''-''
     \<or> (cmd_builtin \<and> starts_with arg ''/'' \<and> length arg \<le> 12 \<and> \<not> contains_char (tl arg) CHR ''/'')"

definition positional :: "string list \<Rightarrow> bool \<Rightarrow> string list" where
  "positional args cmd_builtin = filter (\<lambda>a. \<not> is_switch a cmd_builtin) args"

definition refs :: "string list \<Rightarrow> ref_access \<Rightarrow> string \<Rightarrow> path_ref list" where
  "refs values access via =
     map (\<lambda>v. \<lparr>pf_raw = v, pf_access = access, pf_via = via\<rparr>)
       (filter (\<lambda>v. v \<noteq> [] \<and> \<not> contains_str v ''://'') values)"

definition path_like_refs :: "string list \<Rightarrow> ref_access \<Rightarrow> string \<Rightarrow> path_ref list" where
  "path_like_refs args access via = refs (filter looks_like_path args) access via"

definition flag_value_at :: "string \<Rightarrow> string list \<Rightarrow> string \<Rightarrow> string list" where
  "flag_value_at a rest n =
     (let lower = to_ascii_lowercase a in
      if lower = n then (case rest of v # _ \<Rightarrow> [v] | [] \<Rightarrow> [])
      else (case strip_prefix lower (n @ ''='') of
              Some v \<Rightarrow> [drop (length a - length v) a]
            | None \<Rightarrow> []))"

fun flag_values :: "string list \<Rightarrow> string list \<Rightarrow> string list" where
  "flag_values [] names = []"
| "flag_values (a # rest) names = concat (map (flag_value_at a rest) names) @ flag_values rest names"

definition package_finding :: "string \<Rightarrow> package_action \<Rightarrow> finding" where
  "package_finding prog p =
     (let cat = (case pa_scope p of
            PS_Local \<Rightarrow> Cat_PackageLocal
          | PS_Global \<Rightarrow> Cat_PackageGlobal
          | PS_Admin \<Rightarrow> Cat_Admin
          | PS_NotInstall \<Rightarrow> Cat_Unknown)
      in (Finding_new cat prog (pa_detail p))\<lparr>fd_package := Some p\<rparr>)"

definition cmd_builtins :: "string list" where
  "cmd_builtins =
     [''type'', ''more'', ''del'', ''erase'', ''rd'', ''rmdir'', ''copy'', ''xcopy'', ''robocopy'', ''move'',
      ''ren'', ''rename'', ''md'', ''mkdir'', ''dir'', ''tree'', ''attrib'', ''icacls'', ''cacls'',
      ''takeown'', ''find'', ''findstr'', ''fc'', ''comp'', ''where'', ''compact'', ''vol'', ''cd'',
      ''chdir'', ''pushd'']"

definition pos_unix_or_cmd :: "string \<Rightarrow> string list \<Rightarrow> string list \<Rightarrow> string list" where
  "pos_unix_or_cmd prog pos_cmd pos_unix = (if List.member cmd_builtins prog then pos_cmd else pos_unix)"

definition split_last :: "string list \<Rightarrow> string list \<times> string option" where
  "split_last p =
     (if p = [] then ([], None)
      else if butlast p \<noteq> [] then (butlast p, Some (last p))
      else ([last p], None))"

definition is_remote_spec :: "string \<Rightarrow> bool" where
  "is_remote_spec s \<longleftrightarrow> \<not> starts_with_drive s \<and> contains_char s CHR '':'' \<and> \<not> contains_char s BS"

definition unquote :: "string \<Rightarrow> string" where
  "unquote s =
     (let t = trim s in
      if length t \<ge> 2 \<and> ((starts_with t [CHR 0x27] \<and> ends_with t [CHR 0x27])
                          \<or> (starts_with t [DQ] \<and> ends_with t [DQ]))
      then butlast (tl t) else t)"

section \<open>Facts used by the analysis\<close>

lemma Finding_new_sel [simp]:
  "fd_category (Finding_new c p d) = c" "fd_paths (Finding_new c p d) = []"
  "fd_program (Finding_new c p d) = p" "fd_detail (Finding_new c p d) = d"
  "fd_git (Finding_new c p d) = None" "fd_gh (Finding_new c p d) = None"
  "fd_package (Finding_new c p d) = None" "fd_official_texts (Finding_new c p d) = []"
  "fd_official_refs (Finding_new c p d) = []" "fd_identity_values (Finding_new c p d) = []"
  "fd_official_text_files (Finding_new c p d) = []"
  by (simp_all add: Finding_new_def)

lemma with_paths_sel [simp]:
  "fd_category (with_paths ps f) = fd_category f" "fd_paths (with_paths ps f) = ps"
  "fd_category (more_paths ps f) = fd_category f" "fd_paths (more_paths ps f) = fd_paths f @ ps"
  "fd_git (with_paths ps f) = fd_git f" "fd_git (more_paths ps f) = fd_git f"
  by (simp_all add: with_paths_def more_paths_def)

lemma refs_append: "refs (xs @ ys) access via = refs xs access via @ refs ys access via"
  by (simp add: refs_def)

lemma refs_mem:
  "p \<in> set (refs values access via) \<longleftrightarrow>
     pf_raw p \<in> set values \<and> pf_raw p \<noteq> [] \<and> \<not> contains_str (pf_raw p) ''://''
     \<and> pf_access p = access \<and> pf_via p = via"
  by (cases p) (auto simp: refs_def)

text \<open>\<^verbatim>\<open>flag_values\<close> compares the lower-cased argument, so a name with an upper-case letter finds nothing.\<close>

lemma to_ascii_lowercase_idem: "to_ascii_lowercase (to_ascii_lowercase x) = to_ascii_lowercase x"
proof -
  have "ascii_lower (ascii_lower c) = ascii_lower c" for c
    by (auto simp: ascii_lower_def of_char_of)
  then show ?thesis by (simp add: to_ascii_lowercase_def)
qed

lemma flag_value_at_upper:
  assumes "to_ascii_lowercase n \<noteq> n"
  shows "flag_value_at a rest n = []"
proof -
  note id = to_ascii_lowercase_idem
  have "\<not> starts_with (to_ascii_lowercase a) (n @ ''='')"
  proof
    assume "starts_with (to_ascii_lowercase a) (n @ ''='')"
    then obtain r where r: "to_ascii_lowercase a = n @ ''='' @ r" by (auto simp: starts_with_iff)
    have "to_ascii_lowercase (to_ascii_lowercase a) = to_ascii_lowercase n @ to_ascii_lowercase (''='' @ r)"
      unfolding r by simp
    with id [of a] r have "to_ascii_lowercase n @ to_ascii_lowercase (''='' @ r) = n @ ''='' @ r" by simp
    then have "to_ascii_lowercase n = n" by (auto simp: to_ascii_lowercase_def append_eq_append_conv)
    with assms show False by simp
  qed
  moreover have "to_ascii_lowercase a \<noteq> n" using assms id [of a] by auto
  ultimately show ?thesis by (simp add: flag_value_at_def strip_prefix_def Let_def)
qed

lemma flag_values_upper:
  "list_all (\<lambda>n. to_ascii_lowercase n \<noteq> n) names \<Longrightarrow> flag_values args names = []"
  by (induction args) (auto simp: list_all_iff flag_value_at_upper)

end
