(* ===== verification/Program_Cmd.thy ===== *)
theory Program_Cmd
  imports Finding
begin

text \<open>
  \<^verbatim>\<open>classify_program_inner\<close> of \<^verbatim>\<open>workstation-policy/src/command/mod.rs\<close>: the classification of one native
  program invocation. The branches that analyze a nested command line (\<^verbatim>\<open>cmd /c\<close>, \<^verbatim>\<open>powershell -Command\<close>)
  return the nested line as a \<open>program_plan\<close>; the theory Command runs it one level deeper, which is where
  the source makes the recursive call. The other branches return their findings.

  Parameters of the analyzer: the PowerShell parser process (\<open>an_ps_parse\<close>), the \<^verbatim>\<open>base64\<close> decoder
  (\<open>an_b64_decode\<close>, bytes or an error) and the resolution of a program token against the trusted
  workspace (\<open>an_program_in_trusted\<close>).
\<close>

section \<open>The PowerShell syntax tree (powershell.rs)\<close>

record ps_element =
  el_kind :: string
  el_text :: string
  el_value :: "string option"

record ps_redirect =
  rr_target :: string
  rr_append :: bool

record ps_command =
  pc_name :: "string option"
  pc_invocation_operator :: string
  pc_elements :: "ps_element list"
  pc_redirects :: "ps_redirect list"

record ps_member =
  pm_text :: string
  pm_target :: string
  pm_member :: string

record ps_ast =
  ast_commands :: "ps_command list"
  ast_members :: "ps_member list"
  ast_errors :: "string list"

definition ps_args :: "ps_command \<Rightarrow> string list" where
  "ps_args c = map (\<lambda>e. unwrap_or (el_text e) (el_value e)) (drop 1 (pc_elements c))"

definition is_dynamic_name :: "ps_command \<Rightarrow> bool" where
  "is_dynamic_name c \<longleftrightarrow>
     pc_name c = None
     \<or> (case pc_elements c of e # _ \<Rightarrow> el_kind e \<noteq> ''StringConstantExpressionAst'' | [] \<Rightarrow> True)"

record analyzer =
  an_ps_parse :: "string \<Rightarrow> string + ps_ast"
  an_b64_decode :: "string \<Rightarrow> string option"
  an_program_in_trusted :: "string \<Rightarrow> bool"

section \<open>Decoding of an encoded command\<close>

text \<open>\<^verbatim>\<open>u16::from_le_bytes\<close> over two-byte chunks (an odd last byte is dropped), then
  \<^verbatim>\<open>String::from_utf16_lossy\<close>: a surrogate pair is one scalar value and a lone surrogate U+FFFD.\<close>

fun utf16_units :: "string \<Rightarrow> nat list" where
  "utf16_units (a # b # rest) = (byte a + 256 * byte b) # utf16_units rest"
| "utf16_units _ = []"

definition encode_utf8 :: "nat \<Rightarrow> string" where
  "encode_utf8 c =
     (if c < 0x80 then [char_of c]
      else if c < 0x800 then [char_of (0xC0 + c div 64), char_of (0x80 + c mod 64)]
      else if c < 0x10000 then
        [char_of (0xE0 + c div 4096), char_of (0x80 + c div 64 mod 64), char_of (0x80 + c mod 64)]
      else [char_of (0xF0 + c div 262144), char_of (0x80 + c div 4096 mod 64),
            char_of (0x80 + c div 64 mod 64), char_of (0x80 + c mod 64)])"

fun utf16_lossy :: "nat list \<Rightarrow> string" where
  "utf16_lossy [] = []"
| "utf16_lossy [u] = encode_utf8 (if 0xD800 \<le> u \<and> u < 0xE000 then 0xFFFD else u)"
| "utf16_lossy (u # v # rest) =
     (if 0xD800 \<le> u \<and> u < 0xDC00 \<and> 0xDC00 \<le> v \<and> v < 0xE000
      then encode_utf8 (0x10000 + (u - 0xD800) * 1024 + (v - 0xDC00)) @ utf16_lossy rest
      else encode_utf8 (if 0xD800 \<le> u \<and> u < 0xE000 then 0xFFFD else u) @ utf16_lossy (v # rest))"

section \<open>Shells\<close>

datatype program_plan =
    PP_Findings "finding list"
  | PP_Cmd string
  | PP_Ps string "finding list"

text \<open>\<^verbatim>\<open>cmd\<close>: everything after the first \<^verbatim>\<open>/c\<close>, \<^verbatim>\<open>/k\<close> or \<^verbatim>\<open>/r\<close> is a command line.\<close>

fun cmd_invocation :: "string list \<Rightarrow> program_plan" where
  "cmd_invocation [] = PP_Findings [Finding_new Cat_Dynamic ''cmd'' ''interactive command interpreter'']"
| "cmd_invocation (a # rest) =
     (if List.member [''/c'', ''/k'', ''/r''] (to_ascii_lowercase a) then PP_Cmd (join_with [SP] rest)
      else cmd_invocation rest)"

fun ps_option_scan :: "analyzer \<Rightarrow> string \<Rightarrow> string list \<Rightarrow> program_plan option" where
  "ps_option_scan A prog [] = None"
| "ps_option_scan A prog (x # rest) =
     (let a = trim_start_char (trim_start_char (to_ascii_lowercase x) CHR ''/'') CHR ''-'' in
      if List.member [''encodedcommand'', ''enc'', ''e'', ''ec'', ''en'', ''encoded''] a \<and> rest \<noteq> [] then
        (case an_b64_decode A (trim (hd rest)) of
           Some bytes \<Rightarrow>
             Some (PP_Ps (utf16_lossy (utf16_units bytes))
               [Finding_new Cat_Dynamic prog ''encoded command (decoded and analyzed)''])
         | None \<Rightarrow> Some (PP_Findings [Finding_new Cat_Dynamic prog ''undecodable encoded command'']))
      else if a = ''command'' \<or> a = ''c'' then
        (let script = join_with [SP] rest in
         if trim script = ''-''
         then Some (PP_Findings [Finding_new Cat_Dynamic prog ''script from standard input''])
         else Some (PP_Ps script []))
      else if a = ''file'' \<or> a = ''f'' then
        Some (PP_Findings [with_paths (refs [unwrap_or [] (first_of rest)] RA_Read prog)
          (Finding_new Cat_Unknown prog ''runs a script file'')])
      else ps_option_scan A prog rest)"

definition ps_invocation :: "analyzer \<Rightarrow> string \<Rightarrow> string list \<Rightarrow> program_plan" where
  "ps_invocation A prog args =
     (case ps_option_scan A prog args of
        Some p \<Rightarrow> p
      | None \<Rightarrow>
          (case positional args False of
             [] \<Rightarrow> PP_Findings [Finding_new Cat_Dynamic prog ''interactive shell'']
           | first # rest \<Rightarrow>
               PP_Ps (join_with [SP] (first # rest))
                 [Finding_new Cat_Unknown prog (''argument '' @ first)]))"

section \<open>git and gh\<close>

definition git_category :: "git_kind \<Rightarrow> category" where
  "git_category k =
     (case k of
        GK_ResetHard \<Rightarrow> Cat_GitDestructive
      | GK_Clean \<Rightarrow> Cat_GitDestructive
      | GK_HistoryRewrite \<Rightarrow> Cat_GitDestructive
      | GK_CredentialAccess \<Rightarrow> Cat_CredentialAccess
      | GK_IdentityChange \<Rightarrow> Cat_SystemChange
      | GK_GlobalConfigChange \<Rightarrow> Cat_SystemChange
      | GK_Unknown \<Rightarrow> Cat_Unknown
      | _ \<Rightarrow> Cat_GitSafe)"

definition git_finding :: "string list \<Rightarrow> finding" where
  "git_finding args =
     (let g = git_parse args in
      (Finding_new (git_category (gc_kind g)) ''git'' (''git '' @ gc_subcommand g))
        \<lparr>fd_paths := refs (gc_output_paths g) RA_Write ''git'',
         fd_official_texts := gc_messages g,
         fd_official_text_files := gc_message_files g,
         fd_official_refs := gc_created_refs g,
         fd_identity_values := gc_identity_overrides g,
         fd_git := Some g\<rparr>)"

definition gh_category :: "gh_kind \<Rightarrow> category" where
  "gh_category k =
     (case k of
        GH_Read \<Rightarrow> Cat_GithubRead
      | GH_Write \<Rightarrow> Cat_GithubWrite
      | GH_DestructiveWrite \<Rightarrow> Cat_GithubWrite
      | GH_CredentialAccess \<Rightarrow> Cat_CredentialAccess
      | GH_CredentialChange \<Rightarrow> Cat_SystemChange
      | GH_Unknown \<Rightarrow> Cat_Unknown)"

definition gh_finding :: "string list \<Rightarrow> finding" where
  "gh_finding args =
     (let g = gh_parse args in
      (Finding_new (gh_category (gh_kind g)) ''gh'' (''gh '' @ gh_group g @ '' '' @ gh_action g))
        \<lparr>fd_official_texts := gh_texts g,
         fd_official_text_files := gh_text_files g,
         fd_official_refs := gh_created_refs g,
         fd_paths := refs (gh_text_files g) RA_Read ''gh'',
         fd_gh := Some g\<rparr>)"

section \<open>Programs that read, copy, move and delete files\<close>

definition read_only_programs :: "string list" where
  "read_only_programs =
     [''dir'', ''ls'', ''tree'', ''where'', ''echo'', ''cd'', ''chdir'', ''ver'', ''vol'', ''hostname'', ''whoami'',
      ''systeminfo'', ''tasklist'', ''ipconfig'', ''ping'', ''nslookup'', ''tracert'', ''netstat'', ''wc'', ''diff'',
      ''fc'', ''comp'', ''sort'', ''uniq'', ''cls'', ''title'', ''pause'', ''timeout'', ''exit'', ''rem'', ''pushd'',
      ''popd'', ''which'', ''stat'', ''file'', ''du'', ''df'', ''pwd'', ''true'', ''false'', ''date'', ''whereis'',
      ''chcp'', ''getmac'', ''arp'', ''route'', ''query'', ''qprocess'', ''driverquery'', ''set'', ''path'',
      ''assoc'', ''ftype'']"

definition read_only_program :: "string \<Rightarrow> string list \<Rightarrow> finding" where
  "read_only_program prog args =
     (let lower_args = map to_ascii_lowercase args;
          access = (if List.member [''diff'', ''fc'', ''comp'', ''sort'', ''uniq'', ''wc''] prog
                    then RA_ReadDisclose else RA_Read);
          paths = (if List.member [''echo'', ''set'', ''rem'', ''title''] prog then []
                   else path_like_refs
                     (pos_unix_or_cmd prog (positional args True) (positional args False)) access prog)
      in if prog = ''route'' \<and> (case lower_args of a # _ \<Rightarrow> a \<noteq> ''print'' | [] \<Rightarrow> False)
         then Finding_new Cat_Admin prog ''routing table change''
         else if prog = ''set'' \<and> list_ex (\<lambda>a. contains_char a CHR ''='') args
         then Finding_new Cat_ReadOnly prog ''set process environment variable''
         else with_paths paths (Finding_new Cat_ReadOnly prog ''read-only command''))"

definition certutil_program :: "string \<Rightarrow> string list \<Rightarrow> finding" where
  "certutil_program prog args =
     (let has = List.member (map to_ascii_lowercase args); files = positional args True in
      if has ''-encode'' \<or> has ''-decode'' \<or> has ''-dump'' \<or> has ''-encodehex'' \<or> has ''-decodehex''
      then more_paths (refs (drop 1 files) RA_Write prog)
        (with_paths (refs (take 1 files) RA_ReadDisclose prog)
          (Finding_new Cat_ReadOnly prog ''encode/decode file''))
      else if has ''-exportpfx'' \<or> has ''-exportsst''
      then Finding_new Cat_CredentialAccess prog ''certificate export''
      else if has ''-urlcache''
      then with_paths (path_like_refs args RA_Write prog) (Finding_new Cat_Network prog ''download'')
      else with_paths (path_like_refs args RA_Unknown prog) (Finding_new Cat_Unknown prog ''certutil''))"

definition copy_program :: "string \<Rightarrow> string list \<Rightarrow> finding" where
  "copy_program prog args =
     (let p = pos_unix_or_cmd prog (positional args True) (positional args False);
          (src, dst) = split_last p;
          cat = (if prog = ''scp'' \<or> prog = ''rsync'' then Cat_Network else Cat_Unknown);
          f = with_paths (refs (filter (\<lambda>s. \<not> is_remote_spec s) src) RA_ReadDisclose prog)
                (Finding_new cat prog ''copy'')
      in (case dst of
            Some d \<Rightarrow> (if is_remote_spec d then f else more_paths (refs [d] RA_Write prog) f)
          | None \<Rightarrow> f))"

definition rename_target :: "string \<Rightarrow> string list \<Rightarrow> string \<Rightarrow> string" where
  "rename_target prog src d =
     (if (prog = ''ren'' \<or> prog = ''rename'') \<and> \<not> contains_char d BS then
        (case src of
           s # _ \<Rightarrow> (case rsplit_once s is_dir_sep of Some (parent, _) \<Rightarrow> parent @ [BS] @ d | None \<Rightarrow> d)
         | [] \<Rightarrow> d)
      else d)"

definition move_program :: "string \<Rightarrow> string list \<Rightarrow> finding" where
  "move_program prog args =
     (let p = pos_unix_or_cmd prog (positional args True) (positional args False);
          (src, dst) = split_last p;
          f = with_paths (refs src RA_Delete prog) (Finding_new Cat_Unknown prog ''move/rename'')
      in (case dst of
            Some d \<Rightarrow> more_paths (refs [rename_target prog src d] RA_Write prog) f
          | None \<Rightarrow> f))"

definition in_place_flag :: "string \<Rightarrow> bool" where
  "in_place_flag a \<longleftrightarrow>
     a = ''-i'' \<or> (starts_with a ''-i'' \<and> length a \<le> 6) \<or> starts_with a ''--in-place''"

definition stream_editor :: "string \<Rightarrow> string list \<Rightarrow> finding" where
  "stream_editor prog args =
     (let lower_args = map to_ascii_lowercase args; files = drop 1 (positional args False) in
      if list_ex in_place_flag lower_args
      then with_paths (refs files RA_Write prog) (Finding_new Cat_Unknown prog ''in-place edit'')
      else if prog = ''perl'' \<and> (List.member lower_args ''-e'' \<or> List.member lower_args ''-E'')
      then Finding_new Cat_Dynamic prog ''inline script''
      else with_paths (refs files RA_ReadDisclose prog) (Finding_new Cat_ReadOnly prog ''stream edit''))"

definition upload_file :: "string \<Rightarrow> string list" where
  "upload_file v =
     (case split_once v CHR ''@'' of
        Some (_, p) \<Rightarrow> [hd (split_on (\<lambda>c. c = CHR '';'') p)]
      | None \<Rightarrow> [])"

definition download_program :: "string \<Rightarrow> string list \<Rightarrow> finding" where
  "download_program prog args =
     (let outputs = filter (\<lambda>v. v \<noteq> ''-'') (flag_values args
            [''-o'', ''--output'', ''-O'', ''--output-document'', ''-P'', ''--directory-prefix'']);
          uploads = flag_values args [''-t'', ''--upload-file'']
            @ concat (map upload_file (flag_values args
                [''-d'', ''--data'', ''--data-binary'', ''--data-raw'', ''--data-urlencode'', ''-f'', ''--form'']))
      in more_paths (refs uploads RA_ReadDisclose prog)
           (with_paths (refs outputs RA_Write prog) (Finding_new Cat_Network prog ''network request'')))"

text \<open>The branches on files, in the order of the source; \<open>None\<close> when the program is none of these.\<close>

definition file_program :: "string \<Rightarrow> string list \<Rightarrow> finding option" where
  "file_program prog args =
     (let pos_cmd = positional args True; pos = pos_unix_or_cmd prog pos_cmd (positional args False) in
      if List.member [''type'', ''more'', ''cat'', ''less'', ''head'', ''tail'', ''strings'', ''xxd'', ''od'',
          ''base64'', ''hexdump'', ''nl'', ''tac''] prog
      then Some (with_paths (refs pos RA_ReadDisclose prog)
             (Finding_new Cat_ReadOnly prog ''print file content''))
      else if List.member [''findstr'', ''find'', ''grep'', ''rg'', ''egrep'', ''fgrep'', ''ag''] prog
      then Some (with_paths (refs (drop 1 pos) RA_ReadDisclose prog)
             (Finding_new Cat_ReadOnly prog ''search file content''))
      else if prog = ''certutil'' then Some (certutil_program prog args)
      else if List.member read_only_programs prog then Some (read_only_program prog args)
      else if List.member [''del'', ''erase'', ''rd'', ''rmdir'', ''rm'', ''unlink'', ''shred''] prog
      then Some (with_paths (refs pos RA_Delete prog) (Finding_new Cat_Unknown prog ''delete''))
      else if List.member [''copy'', ''xcopy'', ''robocopy'', ''cp'', ''scp'', ''rsync''] prog
      then Some (copy_program prog args)
      else if List.member [''move'', ''ren'', ''rename'', ''mv''] prog then Some (move_program prog args)
      else if List.member [''md'', ''mkdir'', ''touch'', ''attrib'', ''icacls'', ''cacls'', ''takeown'', ''chmod'',
          ''chown'', ''compact'', ''tee''] prog
      then Some (with_paths (refs pos RA_Write prog) (Finding_new Cat_Unknown prog ''create/modify''))
      else if prog = ''mklink''
      then Some (more_paths (refs (drop 1 pos_cmd) RA_Read prog)
             (with_paths (refs (take 1 pos_cmd) RA_Write prog) (Finding_new Cat_Unknown prog ''create link'')))
      else if prog = ''sed'' \<or> prog = ''perl'' then Some (stream_editor prog args)
      else if prog = ''curl'' \<or> prog = ''wget'' then Some (download_program prog args)
      else if List.member [''ssh'', ''sftp'', ''ftp'', ''telnet'', ''nc'', ''ncat''] prog
      then Some (Finding_new Cat_Network prog ''remote connection'')
      else if List.member [''tar'', ''7z'', ''zip'', ''unzip'', ''expand'', ''gzip'', ''gunzip'', ''bzip2'', ''xz'',
          ''extrac32'', ''makecab''] prog
      then Some (with_paths (path_like_refs args RA_Unknown prog)
             (Finding_new Cat_Unknown prog ''archive operation''))
      else None)"

section \<open>Programs that change the system\<close>

definition machine_key :: "string \<Rightarrow> bool" where
  "machine_key key \<longleftrightarrow>
     list_ex (starts_with key) [''hklm'', ''hkey_local_machine'', ''hkcr'', ''hkey_classes_root'', ''hku'',
       ''hkey_users'', ''hkcc'']"

definition reg_program :: "string \<Rightarrow> string list \<Rightarrow> finding" where
  "reg_program prog args =
     (let lower_args = map to_ascii_lowercase args;
          sub = unwrap_or [] (first_of lower_args); key = unwrap_or [] (nth_of lower_args 1)
      in if sub = ''query'' \<or> sub = ''compare'' then Finding_new Cat_ReadOnly prog ''registry query''
         else if sub = ''save'' \<or> sub = ''export'' then
           (if list_ex (ends_with key) [bs ''/sam'', bs ''/security'', bs ''/system'']
            then Finding_new Cat_CredentialAccess prog ''registry hive export''
            else with_paths (refs (take 1 (drop 2 (positional args True))) RA_Write prog)
                   (Finding_new Cat_ReadOnly prog ''registry export''))
         else Finding_new (if machine_key key then Cat_Admin else Cat_SystemChange) prog (''registry '' @ sub))"

definition sc_program :: "string \<Rightarrow> string list \<Rightarrow> finding" where
  "sc_program prog args =
     (let sub = unwrap_or [] (find (\<lambda>a. \<not> starts_with a (bs ''//'')) (map to_ascii_lowercase args)) in
      if List.member [''query'', ''queryex'', ''qc'', ''qdescription'', ''qfailure'', ''sdshow'',
          ''getdisplayname'', ''getkeyname'', ''enumdepend''] sub
      then Finding_new Cat_ReadOnly prog ''service query''
      else Finding_new Cat_Admin prog (''service '' @ sub))"

definition net_modifier :: "string \<Rightarrow> bool" where
  "net_modifier a \<longleftrightarrow>
     a = ''/add'' \<or> a = ''/delete'' \<or> starts_with a ''/active'' \<or> starts_with a ''/passwordreq''"

definition net_program :: "string \<Rightarrow> string list \<Rightarrow> finding" where
  "net_program prog args =
     (let lower_args = map to_ascii_lowercase args; sub = unwrap_or [] (first_of lower_args) in
      if List.member [''start'', ''stop'', ''pause'', ''continue''] sub \<and> length lower_args > 1
      then Finding_new Cat_Admin prog (''service '' @ sub)
      else if List.member [''user'', ''localgroup'', ''group'', ''accounts'', ''share''] sub
        \<and> (list_ex net_modifier lower_args \<or> (sub = ''user'' \<and> length lower_args > 2))
      then Finding_new Cat_Admin prog (''net '' @ sub @ '' change'')
      else if sub = ''use'' \<and> length lower_args > 1
      then Finding_new Cat_SystemChange prog ''network drive mapping''
      else Finding_new Cat_ReadOnly prog (''net '' @ sub))"

definition netsh_program :: "string \<Rightarrow> string list \<Rightarrow> finding" where
  "netsh_program prog args =
     (let lower_args = map to_ascii_lowercase args in
      if list_ex (List.member [''show'', ''dump'']) lower_args
         \<and> \<not> list_ex (List.member [''set'', ''add'', ''delete'', ''reset'']) lower_args
      then Finding_new Cat_ReadOnly prog ''network configuration query''
      else Finding_new Cat_Admin prog ''network/firewall configuration change'')"

fun runs_as_system :: "string list \<Rightarrow> bool" where
  "runs_as_system (a # b # rest) \<longleftrightarrow>
     (a = ''/ru'' \<and> (b = ''system'' \<or> contains_str b ''administrator'')) \<or> runs_as_system (b # rest)"
| "runs_as_system _ \<longleftrightarrow> False"

definition schtasks_program :: "string \<Rightarrow> string list \<Rightarrow> finding" where
  "schtasks_program prog args =
     (let lower_args = map to_ascii_lowercase args in
      if List.member lower_args ''/query'' then Finding_new Cat_ReadOnly prog ''scheduled task query''
      else if runs_as_system lower_args then Finding_new Cat_Admin prog ''scheduled task as SYSTEM''
      else Finding_new Cat_SystemChange prog ''scheduled task change'')"

definition disk_change_arg :: "string \<Rightarrow> bool" where
  "disk_change_arg a \<longleftrightarrow>
     starts_with a ''/f'' \<or> starts_with a ''/r'' \<or> starts_with a ''/w'' \<or> a = ''cl'' \<or> a = ''clear-log''"

definition system_program :: "string \<Rightarrow> string list \<Rightarrow> finding option" where
  "system_program prog args =
     (let lower_args = map to_ascii_lowercase args; has = List.member lower_args in
      if prog = ''reg'' then Some (reg_program prog args)
      else if prog = ''sc'' then Some (sc_program prog args)
      else if prog = ''net'' \<or> prog = ''net1'' then Some (net_program prog args)
      else if prog = ''netsh'' then Some (netsh_program prog args)
      else if List.member [''bcdedit'', ''diskpart'', ''format'', ''dism'', ''sfc'', ''vssadmin'', ''fsutil'',
          ''bootrec'', ''manage-bde'', ''pnputil'', ''runas'', ''wusa'', ''msiexec'', ''bcdboot'', ''auditpol'',
          ''secedit'', ''gpupdate'', ''lodctr'', ''dcomcnfg''] prog
      then Some (Finding_new Cat_Admin prog ''administrative system tool'')
      else if List.member [''chkdsk'', ''cipher'', ''wevtutil''] prog
      then Some (if list_ex disk_change_arg lower_args
                 then Finding_new Cat_Admin prog ''administrative disk/log operation''
                 else Finding_new Cat_ReadOnly prog ''system query'')
      else if List.member [''shutdown'', ''logoff'', ''restart-computer''] prog
      then Some (Finding_new Cat_SystemChange prog ''shutdown/logoff'')
      else if prog = ''schtasks'' then Some (schtasks_program prog args)
      else if prog = ''setx''
      then Some (if has ''/m'' then Finding_new Cat_Admin prog ''machine environment variable change''
                 else Finding_new Cat_SystemChange prog ''user environment variable change'')
      else if prog = ''wmic''
      then Some (if list_ex (List.member [''call'', ''create'', ''delete'', ''set'']) lower_args
                 then Finding_new Cat_Admin prog ''WMI change or process creation''
                 else Finding_new Cat_ReadOnly prog ''WMI query'')
      else if prog = ''cmdkey''
      then Some (if has ''/list'' \<or> list_ex (\<lambda>a. starts_with a ''/list:'') lower_args
                 then Finding_new Cat_ReadOnly prog ''list credential targets (no secrets)''
                 else Finding_new Cat_SystemChange prog ''credential store change'')
      else None)"

text \<open>The programs that reach credentials.\<close>

definition credential_program :: "string \<Rightarrow> string list \<Rightarrow> finding option" where
  "credential_program prog args =
     (let lower_args = map to_ascii_lowercase args in
      if prog = ''vaultcmd''
      then Some (if list_ex (\<lambda>a. starts_with a ''/listcreds'' \<or> starts_with a ''/listproperties'') lower_args
                 then Finding_new Cat_CredentialAccess prog ''credential vault listing''
                 else Finding_new Cat_SystemChange prog ''credential vault change'')
      else if prog = ''rundll32''
      then Some (if list_ex (\<lambda>a. contains_str a ''keymgr'' \<or> contains_str a ''comsvcs''
                      \<or> contains_str a ''minidump'') lower_args
                 then Finding_new Cat_CredentialAccess prog ''credential manager or memory dump''
                 else Finding_new Cat_Dynamic prog ''rundll32 entry point'')
      else if List.member [''mimikatz'', ''pypykatz'', ''lazagne'', ''secretsdump'', ''ntdsutil'', ''gsecdump'',
          ''pwdump'', ''wce''] prog
      then Some (Finding_new Cat_CredentialAccess prog ''credential dumping tool'')
      else if prog = ''procdump'' \<or> prog = ''procdump64''
      then Some (if list_ex (\<lambda>a. contains_str a ''lsass'') lower_args
                 then Finding_new Cat_CredentialAccess prog ''LSASS memory dump''
                 else with_paths (path_like_refs args RA_Write prog)
                        (Finding_new Cat_Unknown prog ''process dump''))
      else if List.member [''git-credential-manager'', ''git-credential-manager-core'',
          ''git-credential-wincred'', ''git-credential-store''] prog
      then Some (Finding_new Cat_CredentialAccess prog ''git credential helper'')
      else None)"

section \<open>Interpreters, package managers and the rest\<close>

definition interpreters :: "string list" where
  "interpreters =
     [''bash'', ''sh'', ''zsh'', ''wsl'', ''node'', ''deno'', ''python'', ''python3'', ''py'', ''ruby'', ''php'',
      ''lua'', ''osascript'', ''mshta'', ''cscript'', ''wscript'', ''java'', ''dotnet-script'']"

definition interpreter_program :: "string \<Rightarrow> string list \<Rightarrow> bool \<Rightarrow> finding" where
  "interpreter_program prog args in_trusted =
     (case (if prog = ''python'' \<or> prog = ''python3'' \<or> prog = ''py''
            then package_classify prog args in_trusted else None) of
        Some p \<Rightarrow> package_finding prog p
      | None \<Rightarrow>
          (let inline_code = list_ex (List.member [''-c'', ''-e'', ''--eval'', ''-p'', ''--print'', ''-command''])
                 (map to_ascii_lowercase args)
           in with_paths (path_like_refs args RA_Unknown prog)
                (Finding_new (if inline_code \<or> prog = ''mshta'' \<or> prog = ''wsl'' then Cat_Dynamic else Cat_Unknown)
                   prog (if inline_code then ''inline code'' else ''script interpreter''))))"

definition other_program :: "string \<Rightarrow> string list \<Rightarrow> bool \<Rightarrow> finding" where
  "other_program prog args in_trusted =
     (case package_classify prog args in_trusted of
        Some p \<Rightarrow>
          more_paths (refs (flag_values args [''--target'', ''-t'', ''--prefix'', ''--root'', ''--install-dir'',
              ''--tool-path'']) RA_Write prog) (package_finding prog p)
      | None \<Rightarrow>
          with_paths (path_like_refs args RA_Unknown prog)
            (Finding_new Cat_Unknown prog ''unrecognized program''))"

text \<open>\<^verbatim>\<open>classify_program_inner\<close>: the arms of the \<^verbatim>\<open>match\<close> have disjoint patterns, so grouping them keeps the
  result.\<close>

definition leaf_program :: "analyzer \<Rightarrow> string \<Rightarrow> string \<Rightarrow> string list \<Rightarrow> finding" where
  "leaf_program A prog program_token args =
     (if prog = ''git'' then git_finding args
      else if prog = ''gh'' then gh_finding args
      else (case file_program prog args of
          Some f \<Rightarrow> f
        | None \<Rightarrow> (case system_program prog args of
            Some f \<Rightarrow> f
          | None \<Rightarrow> (case credential_program prog args of
              Some f \<Rightarrow> f
            | None \<Rightarrow> (if List.member interpreters prog
                then interpreter_program prog args (an_program_in_trusted A program_token)
                else other_program prog args (an_program_in_trusted A program_token))))))"

definition classify_program_inner :: "analyzer \<Rightarrow> string \<Rightarrow> string \<Rightarrow> string list \<Rightarrow> program_plan" where
  "classify_program_inner A prog program_token args =
     (if prog = ''cmd'' then cmd_invocation args
      else if prog = ''powershell'' \<or> prog = ''pwsh'' then ps_invocation A prog args
      else PP_Findings [leaf_program A prog program_token args])"

section \<open>What the classification guarantees\<close>

lemma classify_program_inner_nonempty:
  "classify_program_inner A prog tok args = PP_Findings fs \<Longrightarrow> fs \<noteq> []"
proof -
  have "cmd_invocation args = PP_Findings fs \<Longrightarrow> fs \<noteq> []"
    by (induction args) (auto split: if_splits)
  moreover have "ps_option_scan A prog args = Some (PP_Findings fs) \<Longrightarrow> fs \<noteq> []"
    by (induction args) (auto simp: Let_def simp del: List.member_iff split: if_splits option.splits)
  ultimately show "classify_program_inner A prog tok args = PP_Findings fs \<Longrightarrow> fs \<noteq> []"
    by (auto simp: classify_program_inner_def ps_invocation_def split: if_splits option.splits list.splits)
qed

end
