(* ===== verification/Ps_Cmd.thy ===== *)
theory Ps_Cmd
  imports Program_Cmd
begin

text \<open>
  \<^verbatim>\<open>classify_ps_command\<close>, \<^verbatim>\<open>split_ps_params\<close> and \<^verbatim>\<open>classify_member\<close> of
  \<^verbatim>\<open>workstation-policy/src/command/mod.rs\<close>: the classification of one PowerShell command of a parsed script.
  A command that runs a native program returns a \<open>ps_plan\<close> that names it; the theory Command classifies it
  one level deeper.
\<close>

section \<open>Parameters\<close>

definition ps_switch_params :: "string list" where
  "ps_switch_params = [''recurse'', ''force'', ''whatif'', ''confirm'', ''append'', ''nonewline'', ''passthru'',
     ''raw'', ''wait'', ''nonewwindow'', ''usebasicparsing'', ''noclobber'', ''asjob'', ''hidden'', ''file'',
     ''directory'']"

record ps_params =
  pp_named :: "(string \<times> string) list"
  pp_pos :: "string list"

definition add_named :: "string \<Rightarrow> string \<Rightarrow> ps_params \<Rightarrow> ps_params" where
  "add_named k v r = r\<lparr>pp_named := (k, v) # pp_named r\<rparr>"

definition ps_param_name :: "string \<Rightarrow> string option" where
  "ps_param_name a =
     (case strip_prefix a ''-'' of
        Some p \<Rightarrow> (case p of c # _ \<Rightarrow> (if is_ascii_alphabetic c then Some p else None) | [] \<Rightarrow> None)
      | None \<Rightarrow> None)"

function split_ps_params :: "string list \<Rightarrow> ps_params" where
  "split_ps_params [] = \<lparr>pp_named = [], pp_pos = []\<rparr>"
| "split_ps_params (a # rest) =
     (case ps_param_name a of
        Some p \<Rightarrow>
          (case split_once p CHR '':'' of
             Some (k, v) \<Rightarrow> add_named (to_ascii_lowercase k) (unquote v) (split_ps_params rest)
           | None \<Rightarrow>
               (let key = to_ascii_lowercase p in
                if \<not> List.member ps_switch_params key \<and> rest \<noteq> [] \<and> \<not> starts_with (hd rest) ''-''
                then add_named key (unquote (hd rest)) (split_ps_params (tl rest))
                else add_named key [] (split_ps_params rest)))
      | None \<Rightarrow> (let r = split_ps_params rest in r\<lparr>pp_pos := unquote a # pp_pos r\<rparr>))"
  by pat_completeness auto
termination by (relation "measure length") auto

definition ps_get :: "ps_params \<Rightarrow> string list \<Rightarrow> string list" where
  "ps_get r keys =
     filter (\<lambda>s. s \<noteq> [])
       (map snd (filter (\<lambda>kv. list_ex (\<lambda>x. eq_ignore_ascii_case x (fst kv)) keys) (pp_named r)))"

definition path_params :: "string list" where
  "path_params = [''path'', ''literalpath'', ''lp'', ''pspath'', ''filepath'', ''fullname'']"

definition paths_or_pos :: "ps_params \<Rightarrow> string list \<Rightarrow> string list" where
  "paths_or_pos r keys = (let v = ps_get r keys in if v = [] then take 1 (pp_pos r) else v)"

definition provider_category :: "string \<Rightarrow> category option" where
  "provider_category p =
     (let l = to_ascii_lowercase p; sw = starts_with l in
      if sw ''hklm:'' \<or> sw ''registry::hkey_local_machine'' \<or> sw ''hkcr:'' \<or> sw ''registry::hkey_classes_root''
      then Some Cat_Admin
      else if sw ''hkcu:'' \<or> sw ''registry::hkey_current_user'' then Some Cat_SystemChange
      else if sw ''env:'' \<or> sw ''variable:'' \<or> sw ''function:'' \<or> sw ''alias:'' then Some Cat_ReadOnly
      else if sw ''cert:'' then Some Cat_CredentialAccess
      else None)"

definition first_provider :: "string list \<Rightarrow> category option" where
  "first_provider p = (case p of x # _ \<Rightarrow> provider_category x | [] \<Rightarrow> None)"

section \<open>Cmdlets that read\<close>

definition ps_content_readers :: "string list" where
  "ps_content_readers = [''get-content'', ''gc'', ''cat'', ''type'', ''import-csv'', ''import-clixml'',
     ''format-hex'', ''fhx'', ''get-filehash'', ''select-string'', ''sls'', ''import-powershelldatafile'']"

definition ps_read_content :: "string \<Rightarrow> string \<Rightarrow> ps_params \<Rightarrow> finding" where
  "ps_read_content name lower r =
     (let access = (if lower = ''get-filehash'' then RA_Read else RA_ReadDisclose) in
      if lower = ''select-string'' \<or> lower = ''sls''
      then with_paths (refs (ps_get r path_params) access name)
             (Finding_new Cat_ReadOnly name ''search file content'')
      else with_paths (refs (paths_or_pos r path_params) access name)
             (Finding_new Cat_ReadOnly name ''read file content''))"

definition ps_inspectors :: "string list" where
  "ps_inspectors = [''get-item'', ''gi'', ''get-childitem'', ''gci'', ''ls'', ''dir'', ''test-path'',
     ''resolve-path'', ''rvpa'', ''get-acl'', ''get-itemproperty'', ''gp'', ''split-path'', ''join-path'',
     ''get-location'', ''gl'', ''pwd'', ''set-location'', ''sl'', ''cd'', ''chdir'', ''push-location'', ''pushd'',
     ''pop-location'', ''popd'', ''measure-object'', ''measure'']"

definition ps_inspect :: "string \<Rightarrow> string \<Rightarrow> ps_params \<Rightarrow> finding" where
  "ps_inspect name lower r =
     (let p0 = ps_get r path_params;
          p = (if p0 = [] \<and> \<not> List.member [''split-path'', ''join-path'', ''measure-object'', ''measure''] lower
               then take 1 (pp_pos r) else p0)
      in (case first_provider p of
            Some cat \<Rightarrow>
              (if cat = Cat_CredentialAccess then Finding_new Cat_ReadOnly name ''certificate store listing''
               else Finding_new Cat_ReadOnly name ''provider read'')
          | None \<Rightarrow> with_paths (refs p RA_Read name) (Finding_new Cat_ReadOnly name ''inspect items'')))"

definition ps_pipeline_cmdlets :: "string list" where
  "ps_pipeline_cmdlets =
     [''write-output'', ''write-host'', ''echo'', ''write'', ''out-host'', ''out-null'', ''out-string'',
      ''format-table'', ''ft'', ''format-list'', ''fl'', ''select-object'', ''select'', ''where-object'', ''where'',
      ''?'', ''foreach-object'', ''foreach'', ''%'', ''sort-object'', ''sort'', ''group-object'', ''get-date'',
      ''get-process'', ''gps'', ''ps'', ''get-service'', ''gsv'', ''get-command'', ''gcm'', ''get-help'',
      ''get-member'', ''gm'', ''convertto-json'', ''convertfrom-json'', ''get-variable'', ''gv'', ''set-variable'',
      ''set'', ''sv'', ''new-object'', ''start-sleep'', ''sleep'', ''write-error'', ''write-warning'',
      ''write-verbose'', ''write-debug'', ''write-progress'', ''get-host'', ''get-culture'', ''get-uptime'',
      ''get-computerinfo'', ''get-psdrive'', ''get-module'', ''import-module'', ''ipmo'', ''test-connection'',
      ''resolve-dnsname'', ''get-netipaddress'', ''get-ciminstance'', ''get-wmiobject'', ''compare-object'',
      ''get-random'', ''convertto-csv'', ''convertfrom-csv'', ''get-unique'', ''tee-variable'', ''clear-host'',
      ''cls'', ''exit'', ''return'', ''wait-process'', ''get-job'', ''receive-job'', ''wait-job'', ''remove-job'',
      ''get-alias'', ''get-psreadlineoption'', ''get-executionpolicy'', ''get-winevent'', ''get-eventlog'',
      ''measure-command'', ''get-hotfix'', ''stop-process'', ''kill'', ''spps'']"

definition ps_pipeline :: "string \<Rightarrow> string \<Rightarrow> ps_params \<Rightarrow> finding" where
  "ps_pipeline name lower r =
     (if lower = ''import-module'' \<or> lower = ''ipmo''
      then with_paths (path_like_refs (paths_or_pos r [''name'']) RA_Read name)
             (Finding_new Cat_ReadOnly name ''load module'')
      else Finding_new Cat_ReadOnly name ''read-only/pipeline cmdlet'')"

section \<open>Cmdlets that write, move and delete\<close>

definition ps_new_item :: "string \<Rightarrow> ps_params \<Rightarrow> finding" where
  "ps_new_item name r =
     (let p0 = ps_get r [''path'']; p1 = (if p0 = [] then take 1 (pp_pos r) else p0);
          item_names = ps_get r [''name''];
          p = (case (p1, item_names) of
                 (base # _, n # _) \<Rightarrow> [base @ [BS] @ n]
               | (_, _) \<Rightarrow> (if p1 = [] then item_names else p1))
      in (case first_provider p of
            Some cat \<Rightarrow> Finding_new cat name ''create provider item''
          | None \<Rightarrow> more_paths (refs (ps_get r [''value'', ''target'']) RA_Read name)
              (with_paths (refs p RA_Write name) (Finding_new Cat_Unknown name ''create item''))))"

definition ps_remove_item :: "string \<Rightarrow> ps_params \<Rightarrow> finding" where
  "ps_remove_item name r =
     (let p = paths_or_pos r path_params in
      (case first_provider p of
         Some cat \<Rightarrow> Finding_new cat name ''remove provider item''
       | None \<Rightarrow> with_paths (refs p RA_Delete name) (Finding_new Cat_Unknown name ''delete items'')))"

definition ps_copy_item :: "string \<Rightarrow> ps_params \<Rightarrow> finding" where
  "ps_copy_item name r =
     (let src = paths_or_pos r path_params; dst0 = ps_get r [''destination''];
          dst = (if dst0 = [] then take 1 (drop 1 (pp_pos r)) else dst0)
      in more_paths (refs dst RA_Write name)
           (with_paths (refs src RA_ReadDisclose name) (Finding_new Cat_Unknown name ''copy items'')))"

definition ps_rename_target :: "string list \<Rightarrow> string list \<Rightarrow> string list" where
  "ps_rename_target src dst =
     (case (src, dst) of
        (s # _, n # _) \<Rightarrow>
          (if \<not> contains_char n BS \<and> \<not> contains_char n CHR ''/'' then
             (let parent = (case rsplit_once s is_dir_sep of Some (p, _) \<Rightarrow> p | None \<Rightarrow> [])
              in [if parent = [] then n else parent @ [BS] @ n])
           else dst)
      | (_, _) \<Rightarrow> dst)"

definition ps_move_item :: "string \<Rightarrow> string \<Rightarrow> ps_params \<Rightarrow> finding" where
  "ps_move_item name lower r =
     (let src = paths_or_pos r path_params; dst0 = ps_get r [''destination'', ''newname''];
          dst1 = (if dst0 = [] then take 1 (drop 1 (pp_pos r)) else dst0);
          dst = (if starts_with lower ''ren'' \<or> lower = ''rni'' then ps_rename_target src dst1 else dst1)
      in more_paths (refs dst RA_Write name)
           (with_paths (refs src RA_Delete name) (Finding_new Cat_Unknown name ''move items'')))"

definition ps_archive :: "string \<Rightarrow> string \<Rightarrow> ps_params \<Rightarrow> finding" where
  "ps_archive name lower r =
     (let dst = ps_get r [''destinationpath''] in
      if lower = ''expand-archive''
      then more_paths (refs (if dst = [] then [''.''] else dst) RA_Write name)
             (with_paths (refs (paths_or_pos r path_params) RA_Read name)
               (Finding_new Cat_Unknown name ''extract archive''))
      else more_paths (refs dst RA_Write name)
             (with_paths (refs (ps_get r [''path'', ''literalpath'']) RA_ReadDisclose name)
               (Finding_new Cat_Unknown name ''create archive'')))"

definition ps_web_request :: "string \<Rightarrow> ps_params \<Rightarrow> finding" where
  "ps_web_request name r =
     more_paths (refs (filter (\<lambda>s. \<not> contains_str s ''://'') (ps_get r [''infile'', ''source'']))
         RA_ReadDisclose name)
       (more_paths (refs (ps_get r [''outfile'', ''destination'']) RA_Write name)
         (Finding_new Cat_Network name ''network request''))"

text \<open>The file branches of the \<^verbatim>\<open>match\<close>, in its order.\<close>

definition ps_file_command :: "string \<Rightarrow> string \<Rightarrow> ps_params \<Rightarrow> finding option" where
  "ps_file_command name lower r =
     (if List.member ps_content_readers lower then Some (ps_read_content name lower r)
      else if List.member ps_inspectors lower then Some (ps_inspect name lower r)
      else if List.member [''set-content'', ''sc'', ''add-content'', ''ac'', ''out-file'', ''clear-content'',
          ''clc'', ''export-csv'', ''epcsv'', ''export-clixml'', ''set-acl''] lower
      then Some (with_paths (refs (paths_or_pos r path_params) RA_Write name)
             (Finding_new Cat_Unknown name ''write file''))
      else if lower = ''tee-object'' \<or> lower = ''tee''
      then Some (with_paths (refs (let p = ps_get r [''filepath'', ''literalpath'', ''path'']
                                   in if p = [] then pp_pos r else p) RA_Write name)
             (Finding_new Cat_Unknown name ''write file''))
      else if List.member [''new-item'', ''ni'', ''md'', ''mkdir''] lower then Some (ps_new_item name r)
      else if List.member [''remove-item'', ''ri'', ''rm'', ''rmdir'', ''del'', ''erase'', ''rd''] lower
      then Some (ps_remove_item name r)
      else if List.member [''copy-item'', ''copy'', ''cp'', ''cpi''] lower then Some (ps_copy_item name r)
      else if List.member [''move-item'', ''move'', ''mv'', ''mi'', ''rename-item'', ''ren'', ''rni''] lower
      then Some (ps_move_item name lower r)
      else if List.member [''set-item'', ''si'', ''new-itemproperty'', ''set-itemproperty'', ''sp'',
          ''remove-itemproperty'', ''rp'', ''clear-itemproperty'', ''rename-itemproperty''] lower
      then Some (Finding_new (unwrap_or Cat_SystemChange (first_provider (paths_or_pos r path_params))) name
             ''change provider item/property'')
      else if lower = ''expand-archive'' \<or> lower = ''compress-archive'' then Some (ps_archive name lower r)
      else if List.member [''invoke-webrequest'', ''iwr'', ''invoke-restmethod'', ''irm'', ''curl'', ''wget'',
          ''start-bitstransfer''] lower
      then Some (ps_web_request name r)
      else None)"

section \<open>Cmdlets that change the system\<close>

definition ps_admin_cmdlets :: "string list" where
  "ps_admin_cmdlets =
     [''new-service'', ''set-service'', ''remove-service'', ''start-service'', ''stop-service'',
      ''restart-service'', ''suspend-service'', ''resume-service'', ''install-windowsfeature'',
      ''enable-windowsoptionalfeature'', ''disable-windowsoptionalfeature'', ''add-windowscapability'',
      ''remove-windowscapability'', ''add-mppreference'', ''set-mppreference'', ''remove-mppreference'',
      ''new-netfirewallrule'', ''set-netfirewallrule'', ''remove-netfirewallrule'', ''set-netfirewallprofile'',
      ''new-localuser'', ''set-localuser'', ''remove-localuser'', ''add-localgroupmember'',
      ''remove-localgroupmember'', ''set-timezone'', ''set-date'', ''enable-psremoting'', ''set-netipaddress'',
      ''new-netipaddress'', ''set-dnsclientserveraddress'', ''bcdedit'']"

definition ps_execution_policy :: "string \<Rightarrow> ps_params \<Rightarrow> finding" where
  "ps_execution_policy name r =
     (let scope = (case ps_get r [''scope''] of s # _ \<Rightarrow> to_ascii_lowercase s | [] \<Rightarrow> ''localmachine'');
          cat = (if scope = ''process'' then Cat_ReadOnly
                 else if scope = ''currentuser'' then Cat_SystemChange else Cat_Admin)
      in Finding_new cat name (''execution policy change ('' @ scope @ '')''))"

definition ps_module_install :: "string \<Rightarrow> ps_params \<Rightarrow> finding" where
  "ps_module_install name r =
     (let scope = (case ps_get r [''scope''] of s # _ \<Rightarrow> to_ascii_lowercase s | [] \<Rightarrow> []);
          cat = (if scope = ''allusers'' then Cat_Admin else Cat_PackageGlobal)
      in (Finding_new cat name ''PowerShell module install'')
           \<lparr>fd_package := Some \<lparr>pa_manager = ''powershellget'',
              pa_scope = (if cat = Cat_Admin then PS_Admin else PS_Global),
              pa_detail = ''PowerShell module install into a user/system module path''\<rparr>\<rparr>)"

definition ps_system_command :: "string \<Rightarrow> string \<Rightarrow> ps_params \<Rightarrow> finding option" where
  "ps_system_command name lower r =
     (if List.member [''get-storedcredential'', ''convertfrom-securestring'', ''export-pfxcertificate'',
          ''get-credential'', ''export-certificate''] lower
      then Some (Finding_new Cat_CredentialAccess name ''credential export or prompt'')
      else if List.member ps_admin_cmdlets lower
      then Some (Finding_new Cat_Admin name ''administrative system change'')
      else if lower = ''set-executionpolicy'' then Some (ps_execution_policy name r)
      else if List.member [''register-scheduledtask'', ''unregister-scheduledtask'', ''set-scheduledtask'',
          ''restart-computer'', ''stop-computer'', ''register-psrepository'', ''set-psrepository'',
          ''set-itempropertyvalue''] lower
      then Some (Finding_new Cat_SystemChange name ''user/system configuration change'')
      else if List.member [''install-module'', ''install-package'', ''install-script'', ''update-module'',
          ''update-script'', ''uninstall-module'', ''install-psresource'', ''update-psresource''] lower
      then Some (ps_module_install name r)
      else if List.member [''invoke-expression'', ''iex'', ''add-type'', ''invoke-command'', ''icm'',
          ''start-job'', ''sajb'', ''invoke-item'', ''ii''] lower
      then Some (Finding_new Cat_Dynamic name ''dynamic code execution'')
      else None)"

section \<open>One command\<close>

text \<open>\<open>PL_Program tok args extra\<close> stands for \<^verbatim>\<open>classify_program(tok, args, redirects, depth + 1, errors)\<close>
  followed by the findings \<open>extra\<close>.\<close>

datatype ps_plan =
    PL_Findings "finding list"
  | PL_Program string "string list" "finding list"

definition ps_start_process :: "string \<Rightarrow> path_ref list \<Rightarrow> ps_params \<Rightarrow> ps_plan" where
  "ps_start_process name redirects r =
     (let file = or_else (first_of (ps_get r [''filepath''])) (first_of (pp_pos r));
          verb = map_option to_ascii_lowercase (first_of (ps_get r [''verb'']))
      in if verb = Some ''runas''
         then PL_Findings [more_paths redirects (Finding_new Cat_Admin name ''elevated process launch (RunAs)'')]
         else
           (let args = concat (map (\<lambda>a. split_windows_args
                  (replace_char a (\<lambda>c. c = CHR 0x27 \<or> c = CHR '','') SP)) (ps_get r [''argumentlist'', ''args'']))
            in (case file of
                  Some f \<Rightarrow> PL_Program f args [Finding_new Cat_Dynamic name ''starts a separate process'']
                | None \<Rightarrow> PL_Findings [more_paths redirects (Finding_new Cat_Dynamic name ''starts a process'')])))"

definition classify_ps_command :: "string \<Rightarrow> string list \<Rightarrow> path_ref list \<Rightarrow> ps_plan" where
  "classify_ps_command name args redirects =
     (let lower = to_ascii_lowercase name; r = split_ps_params args;
          with_redirects = (\<lambda>f. PL_Findings [more_paths redirects f])
      in (case ps_file_command name lower r of
            Some f \<Rightarrow> with_redirects f
          | None \<Rightarrow> (case ps_system_command name lower r of
              Some f \<Rightarrow> with_redirects f
            | None \<Rightarrow>
                (if List.member [''start-process'', ''saps'', ''start''] lower
                 then ps_start_process name redirects r
                 else if List.member ps_pipeline_cmdlets lower then with_redirects (ps_pipeline name lower r)
                 else if contains_char lower CHR ''-'' \<and> \<not> contains_char lower CHR ''.''
                   \<and> \<not> contains_char lower BS \<and> \<not> contains_char lower CHR ''/''
                 then PL_Findings [with_paths (path_like_refs args RA_Unknown name @ redirects)
                        (Finding_new Cat_Unknown name ''unrecognized cmdlet or function'')]
                 else PL_Program name args []))))"

section \<open>.NET members\<close>

function extract_literals :: "string \<Rightarrow> string list" where
  "extract_literals [] = []"
| "extract_literals (q # rest) =
     (if q = CHR 0x27 \<or> q = DQ
      then takeWhile (\<lambda>c. c \<noteq> q) rest # extract_literals (drop 1 (dropWhile (\<lambda>c. c \<noteq> q) rest))
      else extract_literals rest)"
  by pat_completeness auto
termination
  by (relation "measure length") (auto simp: less_Suc_eq_le intro: le_trans [OF diff_le_self length_dropWhile_le])

definition net_io_file :: "string \<Rightarrow> string list \<Rightarrow> (category \<Rightarrow> string \<Rightarrow> ref_access option \<Rightarrow> finding list) \<Rightarrow> finding list" where
  "net_io_file member literals f =
     (if starts_with member ''read'' \<or> member = ''openread'' \<or> member = ''opentext''
      then f Cat_ReadOnly ''file read'' (Some RA_ReadDisclose)
      else if member = ''exists'' \<or> starts_with member ''get'' \<or> starts_with member ''enumerate''
      then f Cat_ReadOnly ''file query'' (Some RA_Read)
      else if member = ''delete'' then f Cat_Unknown ''delete'' (Some RA_Delete)
      else if member = ''copy''
      then [with_paths (refs (take 1 literals) RA_ReadDisclose ''[.NET]''
              @ refs (take 1 (drop 1 literals)) RA_Write ''[.NET]'') (Finding_new Cat_Unknown ''[.NET]'' ''copy'')]
      else if member = ''move'' \<or> member = ''replace''
      then [with_paths (refs (take 1 literals) RA_Delete ''[.NET]''
              @ refs (take 1 (drop 1 literals)) RA_Write ''[.NET]'') (Finding_new Cat_Unknown ''[.NET]'' ''move'')]
      else f Cat_Unknown ''file write'' (Some RA_Write))"

definition member_finding :: "ps_member \<Rightarrow> string list \<Rightarrow> category \<Rightarrow> string \<Rightarrow> ref_access option \<Rightarrow> finding list" where
  "member_finding m literals cat detail access =
     [with_paths (case access of Some a \<Rightarrow> refs (take 1 literals) a ''[.NET]'' | None \<Rightarrow> [])
        (Finding_new cat ''[.NET]'' (pm_target m @ ''::'' @ pm_member m @ '' '' @ detail))]"

definition classify_member :: "ps_member \<Rightarrow> finding list" where
  "classify_member m =
     (let target = remove_char (to_ascii_lowercase (pm_target m)) SP;
          member = to_ascii_lowercase (pm_member m);
          literals = extract_literals (pm_text m);
          f = member_finding m literals
      in if contains_str target ''scriptblock]'' \<and> member = ''create''
         then f Cat_Dynamic ''creates a script block'' None
         else if ends_with target ''environment]'' \<and> member = ''setenvironmentvariable'' then
           (let scope = to_ascii_lowercase (unwrap_or (pm_text m) (nth_of literals 2)) in
            if contains_str scope ''machine'' then f Cat_Admin ''machine environment change'' None
            else if contains_str scope ''user'' then f Cat_SystemChange ''user environment change'' None
            else f Cat_ReadOnly ''process environment change'' None)
         else if contains_str target ''registry'' then f Cat_SystemChange ''registry access'' None
         else if ends_with target ''io.file]'' \<or> ends_with target ''io.directory]''
         then net_io_file member literals f
         else if member = ''downloadfile'' \<or> member = ''downloadfileasync''
         then [with_paths (refs (take 1 (drop 1 literals)) RA_Write ''[.NET]'')
                 (Finding_new Cat_Network ''[.NET]'' ''download to file'')]
         else if List.member [''uploadfile'', ''uploaddata'', ''uploadstring'', ''sendasync'', ''getasync'',
             ''postasync'', ''downloadstring'', ''downloaddata'', ''openread''] member
         then f Cat_Network ''network I/O'' None
         else if List.member [''invoke'', ''invokescript'', ''start'', ''loadfrom'', ''load'', ''loadfile'',
             ''createinstance''] member
         then f Cat_Dynamic ''dynamic invocation'' None
         else if List.member [''writealltext'', ''writeallbytes'', ''writealllines'', ''appendalltext'', ''save'',
             ''create'', ''createdirectory''] member
         then f Cat_Unknown ''write'' (Some RA_Write)
         else [])"

end
