(* ===== verification/Command.thy ===== *)
theory Command
  imports Ps_Cmd "HOL-Library.Sublist"
begin

text \<open>
  The analysis of a whole command (\<^verbatim>\<open>workstation-policy/src/command/mod.rs\<close>): \<^verbatim>\<open>cmd_findings\<close>,
  \<^verbatim>\<open>ps_findings\<close>, \<^verbatim>\<open>classify_program\<close> and the three entry points. They call each other one nesting level
  deeper until \<^verbatim>\<open>MAX_DEPTH\<close>; the \<^verbatim>\<open>errors\<close> vector the source threads by mutable reference is the state passed
  through. The lemmas show that the analysis is total, that every redirection reaches the findings and what
  the read-only verdict implies.
\<close>

definition MAX_DEPTH :: nat where
  "MAX_DEPTH = 4"

section \<open>Unwrapping call, start, if and for\<close>

fun start_options :: "string list \<Rightarrow> string list" where
  "start_options [] = []"
| "start_options (t # ts) =
     (if starts_with t ''/'' \<or> t = []
      then (if eq_ignore_ascii_case t ''/d'' then (case ts of [] \<Rightarrow> [] | _ # us \<Rightarrow> start_options us)
            else start_options ts)
      else t # ts)"

definition start_strip :: "string list \<Rightarrow> string list" where
  "start_strip ts =
     (case start_options ts of
        t # u # us \<Rightarrow> (if contains_char t SP then u # us else t # u # us)
      | ys \<Rightarrow> ys)"

definition if_strip :: "string list \<Rightarrow> string list" where
  "if_strip ts0 =
     (let ts = (case ts0 of t # us \<Rightarrow> (if eq_ignore_ascii_case t ''not'' then us else ts0) | [] \<Rightarrow> [])
      in (case ts of
            [] \<Rightarrow> []
          | t # _ \<Rightarrow>
              (if List.member [''exist'', ''defined'', ''errorlevel''] (to_ascii_lowercase t) then drop 2 ts
               else if contains_str t ''=='' then tl ts
               else if length ts \<ge> 3 then drop 3 ts
               else ts)))"

fun for_strip :: "string list \<Rightarrow> string list" where
  "for_strip [] = []"
| "for_strip (t # ts) = (if eq_ignore_ascii_case t ''do'' then ts else for_strip ts)"

lemma length_start_options: "length (start_options ts) \<le> length ts"
  by (induction ts rule: start_options.induct) (simp_all add: le_SucI split: list.split)

lemma length_start_strip: "length (start_strip ts) \<le> length ts"
  using length_start_options [of ts] by (auto simp: start_strip_def split: list.splits)

lemma length_if_strip: "length (if_strip ts) \<le> length ts"
  by (auto simp: if_strip_def Let_def simp del: List.member_iff split: list.split)

lemma length_for_strip: "length (for_strip ts) \<le> length ts"
  by (induction ts) auto

text \<open>The findings pushed while unwrapping, and the tokens left.\<close>

function unwrap_tokens :: "string list \<Rightarrow> finding list \<times> string list" where
  "unwrap_tokens [] = ([], [])"
| "unwrap_tokens (t # ts) =
     (let prog = program_name t in
      if prog = ''call'' \<and> ts \<noteq> [] then unwrap_tokens ts
      else if prog = ''start'' \<and> ts \<noteq> [] then unwrap_tokens (start_strip ts)
      else if prog = ''if'' then
        (let (fs, us) = unwrap_tokens (if_strip ts)
         in (Finding_new Cat_Dynamic ''if'' ''conditional execution'' # fs, us))
      else if prog = ''for'' then
        (let (fs, us) = unwrap_tokens (for_strip (t # ts))
         in (Finding_new Cat_Dynamic ''for'' ''loop with variable expansion'' # fs, us))
      else ([], t # ts))"
  by pat_completeness auto

termination
  by (relation "measure length")
     (auto simp: less_Suc_eq_le length_start_strip length_if_strip length_for_strip)

section \<open>Segments and commands\<close>

definition cmd_redirect_refs :: "redirect list \<Rightarrow> path_ref list" where
  "cmd_redirect_refs rs =
     map (\<lambda>r. \<lparr>pf_raw = rd_target r, pf_access = (if rd_input r then RA_ReadDisclose else RA_Write),
               pf_via = ''redirection''\<rparr>)
       (filter (\<lambda>r. \<not> eq_ignore_ascii_case (rd_target r) ''nul'') rs)"

definition ps_redirect_refs :: "ps_redirect list \<Rightarrow> path_ref list" where
  "ps_redirect_refs rs =
     map (\<lambda>r. \<lparr>pf_raw = unquote (rr_target r), pf_access = RA_Write, pf_via = ''redirection''\<rparr>)
       (filter (\<lambda>r. \<not> eq_ignore_ascii_case (rr_target r) ''$null''
                    \<and> \<not> eq_ignore_ascii_case (rr_target r) ''nul'') rs)"

definition dynamic_program :: "string \<Rightarrow> finding list" where
  "dynamic_program t =
     (if contains_char t CHR ''%'' \<or> contains_char t CHR ''!''
      then [Finding_new Cat_Dynamic (program_name t) ''program name uses variable expansion''] else [])"

text \<open>The end of \<^verbatim>\<open>classify_program\<close>: the redirections go to the first finding.\<close>

definition attach_redirects :: "string \<Rightarrow> path_ref list \<Rightarrow> finding list \<Rightarrow> finding list" where
  "attach_redirects prog redirects fs =
     (if redirects = [] then fs
      else (case fs of
              f # rest \<Rightarrow> more_paths redirects f # rest
            | [] \<Rightarrow> [with_paths redirects (Finding_new Cat_Unknown prog ''redirection'')]))"

section \<open>The mutually recursive analysis\<close>

text \<open>Every cycle of calls goes through \<^verbatim>\<open>classify_program\<close>, which enters a shell one level deeper, and a shell
  analysis beyond \<^verbatim>\<open>MAX_DEPTH\<close> stops.\<close>

definition shell_rank :: "nat \<Rightarrow> nat" where
  "shell_rank depth = (if depth > MAX_DEPTH then 0 else 10 * (5 - depth) + 3)"

definition loop_rank :: "nat \<Rightarrow> nat \<Rightarrow> nat" where
  "loop_rank depth k = 10 * (5 - depth) + k"

lemma shell_rank_next: "shell_rank (Suc depth) < loop_rank depth (Suc 0)"
  by (auto simp: shell_rank_def loop_rank_def MAX_DEPTH_def)

lemma shell_rank_loop: "\<not> depth > MAX_DEPTH \<Longrightarrow> loop_rank depth 2 < shell_rank depth"
  by (auto simp: shell_rank_def loop_rank_def MAX_DEPTH_def)

lemma loop_rank_next: "loop_rank (Suc depth) (Suc 0) < loop_rank depth 2" "loop_rank depth (Suc 0) < loop_rank depth 2"
  by (auto simp: loop_rank_def)

definition analysis_rank where
  "analysis_rank = (\<lambda>q. case q of
     Inl (Inl (A, line, depth, errs)) \<Rightarrow> (shell_rank depth, 0)
   | Inl (Inr (A, segs, depth, errs)) \<Rightarrow> (loop_rank depth 2, length segs)
   | Inr (Inl (A, tok, args, redirects, depth, errs)) \<Rightarrow> (loop_rank depth (Suc 0), 0)
   | Inr (Inr (Inl (A, script, depth, errs))) \<Rightarrow> (shell_rank depth, 0)
   | Inr (Inr (Inr (A, cs, depth, errs))) \<Rightarrow> (loop_rank depth 2, length cs))"

function cmd_findings :: "analyzer \<Rightarrow> string \<Rightarrow> nat \<Rightarrow> string list \<Rightarrow> finding list \<times> string list"
  and cmd_segments :: "analyzer \<Rightarrow> segment list \<Rightarrow> nat \<Rightarrow> string list \<Rightarrow> finding list \<times> string list"
  and classify_program ::
    "analyzer \<Rightarrow> string \<Rightarrow> string list \<Rightarrow> path_ref list \<Rightarrow> nat \<Rightarrow> string list \<Rightarrow> finding list \<times> string list"
  and ps_findings :: "analyzer \<Rightarrow> string \<Rightarrow> nat \<Rightarrow> string list \<Rightarrow> finding list \<times> string list"
  and ps_commands :: "analyzer \<Rightarrow> ps_command list \<Rightarrow> nat \<Rightarrow> string list \<Rightarrow> finding list \<times> string list"
where
  "cmd_findings A line depth errs =
     (if depth > MAX_DEPTH then ([Finding_new Cat_Dynamic ''cmd'' ''command nesting too deep to analyze''], errs)
      else cmd_segments A (split_cmd line) depth errs)"
| "cmd_segments A [] depth errs = ([], errs)"
| "cmd_segments A (seg # segs) depth errs =
     (let redirect_refs = cmd_redirect_refs (sg_redirects seg) in
      if sg_tokens seg = [] then
        (let (fs, errs') = cmd_segments A segs depth errs
         in ((if redirect_refs \<noteq> []
              then [with_paths redirect_refs (Finding_new Cat_Unknown ''cmd'' ''redirection'')] else []) @ fs, errs'))
      else
        (let (pre, tokens) = unwrap_tokens (sg_tokens seg) in
         (case tokens of
            [] \<Rightarrow> (let (fs, errs') = cmd_segments A segs depth errs in (pre @ fs, errs'))
          | t # args \<Rightarrow>
              (let (fs, errs1) = classify_program A t args redirect_refs depth errs;
                   (gs, errs2) = cmd_segments A segs depth errs1
               in (pre @ fs @ dynamic_program t @ gs, errs2)))))"
| "classify_program A program_token args redirects depth errs =
     (let prog = program_name program_token;
          (fs, errs') =
            (case classify_program_inner A prog program_token args of
               PP_Findings fs \<Rightarrow> (fs, errs)
             | PP_Cmd line \<Rightarrow> cmd_findings A line (depth + 1) errs
             | PP_Ps script extra \<Rightarrow>
                 (let (fs, e) = ps_findings A script (depth + 1) errs in (fs @ extra, e)))
      in (attach_redirects prog redirects fs, errs'))"
| "ps_findings A script depth errs =
     (if depth > MAX_DEPTH
      then ([Finding_new Cat_Dynamic ''powershell'' ''command nesting too deep to analyze''], errs)
      else (case an_ps_parse A script of
              Inl e \<Rightarrow> ([Finding_new Cat_Unknown ''powershell'' ''script could not be parsed''], errs @ [e])
            | Inr ast \<Rightarrow>
                (let (fs, errs') = ps_commands A (ast_commands ast) depth (errs @ ast_errors ast)
                 in (fs @ concat (map classify_member (ast_members ast)), errs'))))"
| "ps_commands A [] depth errs = ([], errs)"
| "ps_commands A (c # cs) depth errs =
     (let redirect_refs = ps_redirect_refs (pc_redirects c);
          (fs, errs1) =
            (if is_dynamic_name c
             then ([with_paths redirect_refs (Finding_new Cat_Dynamic ''&'' ''invokes a command chosen at run time'')],
                   errs)
             else (case classify_ps_command (unwrap_or [] (pc_name c)) (ps_args c) redirect_refs of
                     PL_Findings fs \<Rightarrow> (fs, errs)
                   | PL_Program tok args extra \<Rightarrow>
                       (let (fs, e) = classify_program A tok args redirect_refs (depth + 1) errs
                        in (fs @ extra, e))));
          (gs, errs2) = ps_commands A cs depth errs1
      in (fs @ gs, errs2))"
  by pat_completeness auto

termination
  by (relation "inv_image (less_than <*lex*> less_than) analysis_rank")
     (auto simp: analysis_rank_def shell_rank_next shell_rank_loop loop_rank_next)

definition analyze_process :: "analyzer \<Rightarrow> string \<Rightarrow> string list \<Rightarrow> command_analysis" where
  "analyze_process A executable args =
     (let (fs, errs) = classify_program A executable args [] 0 []
      in \<lparr>ca_kind = SK_Process, ca_findings = fs, ca_parse_errors = errs\<rparr>)"

definition analyze_cmd :: "analyzer \<Rightarrow> string \<Rightarrow> command_analysis" where
  "analyze_cmd A line =
     (let (fs, errs) = cmd_findings A line 0 []
      in \<lparr>ca_kind = SK_Cmd, ca_findings = fs, ca_parse_errors = errs\<rparr>)"

definition analyze_powershell :: "analyzer \<Rightarrow> string \<Rightarrow> command_analysis" where
  "analyze_powershell A script =
     (let (fs, errs) = ps_findings A script 0 []
      in \<lparr>ca_kind = SK_PowerShell, ca_findings = fs, ca_parse_errors = errs\<rparr>)"

declare cmd_findings.simps [simp del] classify_program.simps [simp del] ps_findings.simps [simp del]

section \<open>Redirections reach the findings\<close>

definition finding_paths :: "finding list \<Rightarrow> path_ref list" where
  "finding_paths fs = concat (map fd_paths fs)"

lemma finding_paths_simps [simp]:
  "finding_paths [] = []" "finding_paths (f # fs) = fd_paths f @ finding_paths fs"
  "finding_paths (fs @ gs) = finding_paths fs @ finding_paths gs"
  by (simp_all add: finding_paths_def)

lemma attach_redirects_paths:
  "set (finding_paths (attach_redirects prog redirects fs)) = set (finding_paths fs) \<union> set redirects"
  by (auto simp: attach_redirects_def split: list.splits)

lemma classify_program_redirects:
  "set redirects \<subseteq> set (finding_paths (fst (classify_program A t args redirects depth errs)))"
  by (simp add: classify_program.simps attach_redirects_paths Let_def split: prod.splits)

text \<open>A segment is visible when unwrapping leaves a program to classify.\<close>

definition visible_segment :: "segment \<Rightarrow> bool" where
  "visible_segment seg \<longleftrightarrow> sg_tokens seg = [] \<or> snd (unwrap_tokens (sg_tokens seg)) \<noteq> []"

lemma cmd_segments_split:
  obtains fs errs' where "fst (cmd_segments A (seg # segs) depth errs) = fs @ fst (cmd_segments A segs depth errs')"
    and "visible_segment seg \<Longrightarrow> set (cmd_redirect_refs (sg_redirects seg)) \<subseteq> set (finding_paths fs)"
    and "\<And>t args. snd (unwrap_tokens (sg_tokens seg)) = t # args \<Longrightarrow>
      set (fst (classify_program A t args (cmd_redirect_refs (sg_redirects seg)) depth errs)) \<subseteq> set fs"
    and "snd (cmd_segments A (seg # segs) depth errs) = snd (cmd_segments A segs depth errs')"
    and "\<And>t args. snd (unwrap_tokens (sg_tokens seg)) = t # args \<Longrightarrow>
      errs' = snd (classify_program A t args (cmd_redirect_refs (sg_redirects seg)) depth errs)"
proof (cases "sg_tokens seg = []")
  case True
  show thesis
    by (rule that [of "if cmd_redirect_refs (sg_redirects seg) \<noteq> []
          then [with_paths (cmd_redirect_refs (sg_redirects seg)) (Finding_new Cat_Unknown ''cmd'' ''redirection'')]
          else []" errs])
       (simp_all add: True Let_def split: prod.splits)
next
  case False
  obtain pre tokens where u: "unwrap_tokens (sg_tokens seg) = (pre, tokens)" by (cases "unwrap_tokens (sg_tokens seg)")
  show thesis
  proof (cases tokens)
    case Nil
    with False u show thesis
      by (intro that [of pre errs]) (simp_all add: visible_segment_def Let_def split: prod.splits)
  next
    case (Cons t args)
    let ?c = "classify_program A t args (cmd_redirect_refs (sg_redirects seg)) depth errs"
    show thesis
      using False u Cons classify_program_redirects [of "cmd_redirect_refs (sg_redirects seg)" A t args depth errs]
      by (intro that [of "pre @ fst ?c @ dynamic_program t" "snd ?c"]) (auto simp: Let_def split: prod.splits)
  qed
qed

lemma cmd_segments_redirects:
  assumes "seg \<in> set segs" and "visible_segment seg"
  shows "set (cmd_redirect_refs (sg_redirects seg)) \<subseteq> set (finding_paths (fst (cmd_segments A segs depth errs)))"
  using assms
proof (induction segs arbitrary: errs)
  case (Cons s segs)
  obtain fs errs' where "fst (cmd_segments A (s # segs) depth errs) = fs @ fst (cmd_segments A segs depth errs')"
    and "visible_segment s \<Longrightarrow> set (cmd_redirect_refs (sg_redirects s)) \<subseteq> set (finding_paths fs)"
    by (rule cmd_segments_split [of A s segs depth errs]) blast
  with Cons.prems Cons.IH [of errs'] show ?case by auto
qed simp

text \<open>The findings of a command line contain those of each of its programs.\<close>

lemma all_paths_analyze_cmd:
  "all_paths (analyze_cmd A line) = finding_paths (fst (cmd_findings A line 0 []))"
  by (simp add: all_paths_def analyze_cmd_def finding_paths_def split: prod.splits)

lemma cmd_findings_at: "depth \<le> MAX_DEPTH \<Longrightarrow> cmd_findings A line depth errs = cmd_segments A (split_cmd line) depth errs"
  by (simp add: cmd_findings.simps)

text \<open>In a \<^verbatim>\<open>shell.cmd\<close> line, every redirection of a segment that still has a program after unwrapping
  \<^verbatim>\<open>call\<close>, \<^verbatim>\<open>start\<close>, \<^verbatim>\<open>if\<close> and \<^verbatim>\<open>for\<close> (or of a segment with no program at all) is reported as a path reference
  with the right access, unless its target is \<^verbatim>\<open>nul\<close>; no branch of the classifier loses it.\<close>

theorem redirections_reported:
  assumes "List.member (split_cmd line) seg" and "visible_segment seg"
    and "List.member (sg_redirects seg) r" and "\<not> eq_ignore_ascii_case (rd_target r) ''nul''"
  shows "\<exists>p. List.member (all_paths (analyze_cmd A line)) p \<and> pf_raw p = rd_target r
    \<and> pf_access p = (if rd_input r then RA_ReadDisclose else RA_Write)"
proof -
  let ?p = "\<lparr>pf_raw = rd_target r, pf_access = (if rd_input r then RA_ReadDisclose else RA_Write),
               pf_via = ''redirection''\<rparr>"
  have "?p \<in> set (cmd_redirect_refs (sg_redirects seg))"
    using assms(3,4) by (auto simp: cmd_redirect_refs_def)
  with cmd_segments_redirects [of seg "split_cmd line" A 0 "[]"] assms(1,2)
  have "?p \<in> set (all_paths (analyze_cmd A line))"
    by (auto simp: all_paths_analyze_cmd cmd_findings_at)
  then show ?thesis by (intro exI [of _ ?p]) simp
qed

text \<open>A command line judged read-only redirects the output of no visible segment to a file.\<close>

theorem read_only_no_output:
  assumes "is_read_only (analyze_cmd A line)"
    and "List.member (split_cmd line) seg" and "visible_segment seg" and "List.member (sg_redirects seg) r"
  shows "rd_input r \<or> eq_ignore_ascii_case (rd_target r) ''nul''"
proof (rule ccontr)
  assume c: "\<not> (rd_input r \<or> eq_ignore_ascii_case (rd_target r) ''nul'')"
  have "\<exists>p. p \<in> set (all_paths (analyze_cmd A line)) \<and> pf_access p = RA_Write"
  proof -
    let ?p = "\<lparr>pf_raw = rd_target r, pf_access = RA_Write, pf_via = ''redirection''\<rparr>"
    have "?p \<in> set (cmd_redirect_refs (sg_redirects seg))"
      using assms(4) c by (auto simp: cmd_redirect_refs_def)
    with cmd_segments_redirects [of seg "split_cmd line" A 0 "[]"] assms(2,3)
    show ?thesis by (auto simp: all_paths_analyze_cmd cmd_findings_at)
  qed
  with assms(1) show False by (auto simp: is_read_only_def list_all_iff)
qed


lemma cmd_segments_programs:
  assumes "seg \<in> set segs" and "snd (unwrap_tokens (sg_tokens seg)) = t # args"
  shows "\<exists>errs'. set (fst (classify_program A t args (cmd_redirect_refs (sg_redirects seg)) depth errs'))
    \<subseteq> set (fst (cmd_segments A segs depth errs))"
  using assms
proof (induction segs arbitrary: errs)
  case (Cons s segs)
  obtain fs errs' where split: "fst (cmd_segments A (s # segs) depth errs) = fs @ fst (cmd_segments A segs depth errs')"
    and here: "snd (unwrap_tokens (sg_tokens s)) = t # args \<Longrightarrow>
      set (fst (classify_program A t args (cmd_redirect_refs (sg_redirects s)) depth errs)) \<subseteq> set fs"
    by (rule cmd_segments_split [of A s segs depth errs]) blast
  show ?case
  proof (cases "s = seg")
    case True
    with here Cons.prems(2) show ?thesis unfolding split by auto
  next
    case False
    with Cons.prems Cons.IH [of errs'] show ?thesis unfolding split by auto
  qed
qed simp

section \<open>Parse errors are kept\<close>

lemma errors_kept:
  "prefix errs (snd (cmd_findings A line depth errs))"
  "prefix errs (snd (cmd_segments A segs depth errs))"
  "prefix errs (snd (classify_program A tok args redirects depth errs))"
  "prefix errs (snd (ps_findings A script depth errs))"
  "prefix errs (snd (ps_commands A cs depth errs))"
proof (induction A line depth errs and A segs depth errs and A tok args redirects depth errs
    and A script depth errs and A cs depth errs
    rule: cmd_findings_cmd_segments_classify_program_ps_findings_ps_commands.induct)
  case (1 A line depth errs)
  then show ?case by (simp add: cmd_findings.simps)
next
  case (2 A depth errs)
  then show ?case by simp
next
  case (3 A seg segs depth errs)
  show ?case
  proof (cases "sg_tokens seg = []")
    case True
    with "3.IH"(1) show ?thesis by (auto simp: Let_def split: prod.splits)
  next
    case False
    obtain pre tokens where u: "unwrap_tokens (sg_tokens seg) = (pre, tokens)"
      by (cases "unwrap_tokens (sg_tokens seg)")
    show ?thesis
    proof (cases tokens)
      case Nil
      with False u "3.IH"(2) show ?thesis by (auto simp: Let_def split: prod.splits)
    next
      case (Cons t args)
      obtain fs errs1 where c: "classify_program A t args (cmd_redirect_refs (sg_redirects seg)) depth errs = (fs, errs1)"
        by fastforce
      have "prefix errs errs1" using "3.IH"(3) [OF refl False u [symmetric] refl Cons] c by simp
      moreover have "prefix errs1 (snd (cmd_segments A segs depth errs1))"
        using "3.IH"(4) [OF refl False u [symmetric] refl Cons c [symmetric] refl] by simp
      ultimately show ?thesis using False u Cons c by (auto simp: Let_def split: prod.splits intro: prefix_order.trans)
    qed
  qed
next
  case (4 A tok args redirects depth errs)
  show ?case
    using "4.IH" [OF refl] by (auto simp: classify_program.simps Let_def split: prod.splits program_plan.splits)
next
  case (5 A script depth errs)
  show ?case
  proof (cases "an_ps_parse A script")
    case (Inr ast)
    obtain fs errs' where cs: "ps_commands A (ast_commands ast) depth (errs @ ast_errors ast) = (fs, errs')"
      by fastforce
    have "prefix (errs @ ast_errors ast) errs'" if "\<not> depth > MAX_DEPTH"
      using "5.IH" [OF that Inr] cs by simp
    then show ?thesis
      using Inr cs by (simp add: ps_findings.simps) (metis append_prefixD)
  qed (simp add: ps_findings.simps)
next
  case (6 A depth errs)
  then show ?case by simp
next
  case (7 A c cs depth errs)
  let ?step = "if is_dynamic_name c
     then ([with_paths (ps_redirect_refs (pc_redirects c))
              (Finding_new Cat_Dynamic ''&'' ''invokes a command chosen at run time'')], errs)
     else (case classify_ps_command (unwrap_or [] (pc_name c)) (ps_args c) (ps_redirect_refs (pc_redirects c)) of
             PL_Findings fs \<Rightarrow> (fs, errs)
           | PL_Program tok args extra \<Rightarrow>
               (let (fs, e) = classify_program A tok args (ps_redirect_refs (pc_redirects c)) (depth + 1) errs
                in (fs @ extra, e)))"
  obtain fs errs1 where st: "?step = (fs, errs1)" by fastforce
  have "prefix errs errs1"
    using st "7.IH"(1) [OF refl] by (auto simp: Let_def split: if_splits ps_plan.splits prod.splits)
  moreover have "prefix errs1 (snd (ps_commands A cs depth errs1))"
    using "7.IH"(2) [OF refl st [symmetric] refl] by simp
  moreover have "snd (ps_commands A (c # cs) depth errs) = snd (ps_commands A cs depth errs1)"
    unfolding ps_commands.simps Let_def st [unfolded Let_def] by (simp split: prod.splits)
  ultimately show ?case by (metis prefix_order.trans)
qed


lemma cmd_segments_errors:
  assumes "seg \<in> set segs" and "snd (unwrap_tokens (sg_tokens seg)) = t # args"
    and "\<And>errs. e \<in> set (snd (classify_program A t args (cmd_redirect_refs (sg_redirects seg)) depth errs))"
  shows "e \<in> set (snd (cmd_segments A segs depth errs))"
  using assms(1)
proof (induction segs arbitrary: errs)
  case (Cons s segs)
  obtain errs' where split: "snd (cmd_segments A (s # segs) depth errs) = snd (cmd_segments A segs depth errs')"
    and here: "snd (unwrap_tokens (sg_tokens s)) = t # args \<Longrightarrow>
      errs' = snd (classify_program A t args (cmd_redirect_refs (sg_redirects s)) depth errs)"
    by (rule cmd_segments_split [of A s segs depth errs]) blast
  show ?case
  proof (cases "s = seg")
    case True
    with here assms(2,3) have "e \<in> set errs'" by simp
    with errors_kept(2) [of errs' A segs depth] show ?thesis
      unfolding split by (auto dest: set_mono_prefix)
  next
    case False
    with Cons show ?thesis unfolding split by simp
  qed
qed simp

text \<open>When any segment of a command line runs PowerShell on a script the parser rejects, the parser's
  error is among the errors of the whole analysis, however many segments follow, and the line is not
  judged read-only.\<close>

theorem unparsed_script_not_read_only:
  assumes "List.member (split_cmd line) seg" and "snd (unwrap_tokens (sg_tokens seg)) = t # args"
    and "classify_program_inner A (program_name t) t args = PP_Ps script extra"
    and "an_ps_parse A script = Inl e"
  shows "List.member (ca_parse_errors (analyze_cmd A line)) e \<and> \<not> is_read_only (analyze_cmd A line)"
proof -
  have "e \<in> set (snd (classify_program A t args r 0 errs))" for r errs
    using assms(3,4) by (simp add: classify_program.simps ps_findings.simps MAX_DEPTH_def)
  then have "e \<in> set (snd (cmd_segments A (split_cmd line) 0 []))"
    using cmd_segments_errors [of seg "split_cmd line" t args e A 0] assms(1,2) by simp
  then have "e \<in> set (ca_parse_errors (analyze_cmd A line))"
    by (auto simp: analyze_cmd_def cmd_findings_at split: prod.splits)
  then show ?thesis by (auto simp: is_read_only_def)
qed

definition quiet_analyzer :: analyzer where
  "quiet_analyzer = \<lparr>an_ps_parse = (\<lambda>_. Inl ''no parser''), an_b64_decode = (\<lambda>_. None),
     an_program_in_trusted = (\<lambda>_. False)\<rparr>"

lemma demo_line: "split_cmd ''dir & powershell -c gci'' =
   [\<lparr>sg_tokens = [''dir''], sg_redirects = []\<rparr>, \<lparr>sg_tokens = [''powershell'', ''-c'', ''gci''], sg_redirects = []\<rparr>]"
  by code_simp

theorem unparsed_script_not_read_only_witness:
  "\<not> is_read_only (analyze_cmd quiet_analyzer ''dir & powershell -c gci'')"
proof -
  have "snd (unwrap_tokens [''powershell'', ''-c'', ''gci'']) = [''powershell'', ''-c'', ''gci'']"
    by code_simp
  moreover have "classify_program_inner quiet_analyzer (program_name ''powershell'') ''powershell'' [''-c'', ''gci''] = PP_Ps ''gci'' []"
    by code_simp
  ultimately show ?thesis
    using unparsed_script_not_read_only [of "''dir & powershell -c gci''"
      "\<lparr>sg_tokens = [''powershell'', ''-c'', ''gci''], sg_redirects = []\<rparr>" "''powershell''" "[''-c'', ''gci'']"
      quiet_analyzer "''gci''" "[]" "''no parser''"]
    by (simp add: demo_line quiet_analyzer_def)
qed

lemma redirect_line: "split_cmd ''dir > out.txt'' =
   [\<lparr>sg_tokens = [''dir''], sg_redirects = [\<lparr>rd_target = ''out.txt'', rd_append = False, rd_input = False\<rparr>]\<rparr>]"
  by code_simp

theorem redirections_reported_witness:
  "\<exists>p. List.member (all_paths (analyze_cmd quiet_analyzer ''dir > out.txt'')) p \<and> pf_raw p = ''out.txt'' \<and> pf_access p = RA_Write"
proof -
  have "visible_segment \<lparr>sg_tokens = [''dir''], sg_redirects = [\<lparr>rd_target = ''out.txt'', rd_append = False, rd_input = False\<rparr>]\<rparr>"
    by code_simp
  moreover have "\<not> eq_ignore_ascii_case ''out.txt'' ''nul''" by code_simp
  ultimately show ?thesis
    using redirections_reported [of "''dir > out.txt''" "\<lparr>sg_tokens = [''dir''], sg_redirects = [\<lparr>rd_target = ''out.txt'', rd_append = False, rd_input = False\<rparr>]\<rparr>"
      "\<lparr>rd_target = ''out.txt'', rd_append = False, rd_input = False\<rparr>" quiet_analyzer]
    by (simp add: redirect_line)
qed

lemma nul_line: "split_cmd ''dir > nul'' =
   [\<lparr>sg_tokens = [''dir''], sg_redirects = [\<lparr>rd_target = ''nul'', rd_append = False, rd_input = False\<rparr>]\<rparr>]"
  by code_simp

theorem read_only_no_output_witness:
  "is_read_only (analyze_cmd quiet_analyzer ''dir > nul'') \<and> eq_ignore_ascii_case ''nul'' ''nul''"
proof -
  have ro: "is_read_only (analyze_cmd quiet_analyzer ''dir > nul'')" by code_simp
  have "visible_segment \<lparr>sg_tokens = [''dir''],
      sg_redirects = [\<lparr>rd_target = ''nul'', rd_append = False, rd_input = False\<rparr>]\<rparr>"
    by code_simp
  then show ?thesis
    using ro read_only_no_output [OF ro, of "\<lparr>sg_tokens = [''dir''],
        sg_redirects = [\<lparr>rd_target = ''nul'', rd_append = False, rd_input = False\<rparr>]\<rparr>"
      "\<lparr>rd_target = ''nul'', rd_append = False, rd_input = False\<rparr>"]
    by (simp add: nul_line)
qed

section \<open>A redirection that is lost\<close>

text \<open>\<^verbatim>\<open>start\<close> followed by options only leaves no program, and the segment's redirection is dropped with it,
  although the shell would truncate the file: the line is judged read-only and names no path.\<close>

theorem start_redirect_dropped:
  "is_read_only (analyze_cmd quiet_analyzer ''echo hi & start /b > out.txt'')
   \<and> all_paths (analyze_cmd quiet_analyzer ''echo hi & start /b > out.txt'') = []"
  by code_simp

end
