(* ===== verification/Evaluator.thy ===== *)
theory Evaluator
  imports Classify Attribution Command
begin

text \<open>
  \<^verbatim>\<open>workstation-policy/src/evaluator.rs\<close>: the central policy evaluator. A decision is a value; the loops of
  \<^verbatim>\<open>evaluate_command\<close> that may return early are \<open>fold_until\<close> over a state of warnings and approval
  requirements, \<open>Inl\<close> being the early return. \<open>policy_env\<close> collects what the evaluator calls and does not define:
  Unicode case mapping, glob and regular-expression engines, file handles, process environment and SHA-256.
\<close>

section \<open>Vocabulary\<close>

datatype entry_point = Structured | RawShell

datatype fs_access =
    FA_Metadata | FA_List | FA_Read | FA_Write | FA_Create | FA_Delete
  | FA_MoveSource | FA_MoveDestination | FA_CopyDestination | FA_Mkdir

definition is_mutation :: "fs_access \<Rightarrow> bool" where
  "is_mutation a \<longleftrightarrow> \<not> (a = FA_Metadata \<or> a = FA_List \<or> a = FA_Read)"

definition op_class :: "fs_access \<Rightarrow> string" where
  "op_class a = (if a = FA_Delete \<or> a = FA_MoveSource then ''delete'' else ''write'')"

text \<open>The derived \<^verbatim>\<open>Debug\<close> name, as it appears in the reason of an approval.\<close>

definition fs_access_debug :: "fs_access \<Rightarrow> string" where
  "fs_access_debug a =
     (case a of FA_Metadata \<Rightarrow> ''Metadata'' | FA_List \<Rightarrow> ''List'' | FA_Read \<Rightarrow> ''Read'' | FA_Write \<Rightarrow> ''Write''
      | FA_Create \<Rightarrow> ''Create'' | FA_Delete \<Rightarrow> ''Delete'' | FA_MoveSource \<Rightarrow> ''MoveSource''
      | FA_MoveDestination \<Rightarrow> ''MoveDestination'' | FA_CopyDestination \<Rightarrow> ''CopyDestination''
      | FA_Mkdir \<Rightarrow> ''Mkdir'')"

datatype risk = Low | Medium | High | Critical

definition risk_rank :: "risk \<Rightarrow> nat" where
  "risk_rank r = (case r of Low \<Rightarrow> 0 | Medium \<Rightarrow> 1 | High \<Rightarrow> 2 | Critical \<Rightarrow> 3)"

instantiation risk :: linorder
begin

definition less_eq_risk :: "risk \<Rightarrow> risk \<Rightarrow> bool" where
  "less_eq_risk a b \<longleftrightarrow> risk_rank a \<le> risk_rank b"

definition less_risk :: "risk \<Rightarrow> risk \<Rightarrow> bool" where
  "less_risk a b \<longleftrightarrow> risk_rank a < risk_rank b"

instance
  by intro_classes
     (auto simp: less_eq_risk_def less_risk_def risk_rank_def split: risk.splits)

end

datatype session_scope =
    PathPrefix string string
  | Exact string string

text \<open>\<^verbatim>\<open>SessionScope::covers\<close>.\<close>

fun scope_covers :: "(string \<Rightarrow> string) \<Rightarrow> session_scope \<Rightarrow> session_scope \<Rightarrow> bool" where
  "scope_covers lc (PathPrefix a pa) (PathPrefix b pb) = (a = b \<and> starts_with_ci lc pb pa)"
| "scope_covers lc (Exact a la) (Exact b lb) = (a = b)"
| "scope_covers lc _ _ = False"

definition scope_describe :: "session_scope \<Rightarrow> string" where
  "scope_describe s = (case s of PathPrefix op p \<Rightarrow> op @ '' under '' @ p @ [BS] | Exact _ label \<Rightarrow> label)"

record approval_requirement =
  ar_category :: string
  ar_reason :: string
  ar_impact :: string
  ar_risk :: risk
  ar_requires_admin :: bool
  ar_paths :: "string list"
  ar_command :: "string option"
  ar_session_scope :: session_scope

datatype decision =
    Allow "string list"
  | Deny error_code string
  | RequireApproval approval_requirement

fun is_allow :: "decision \<Rightarrow> bool" where
  "is_allow (Allow _) = True"
| "is_allow _ = False"

definition decision_label :: "decision \<Rightarrow> string" where
  "decision_label d = (case d of Allow _ \<Rightarrow> ''allow'' | Deny _ _ \<Rightarrow> ''deny'' | RequireApproval _ \<Rightarrow> ''require_approval'')"

record policy_context =
  px_principal_id :: string
  px_entry :: entry_point
  px_session_grants :: "session_scope list"
  px_owns_task :: "string \<Rightarrow> bool"

record git_facts =
  gf_repo_root :: "string option"
  gf_current_branch :: "string option"
  gf_upstream_branch :: "string option"
  gf_default_branches :: "string list"
  gf_rewrites_published_history :: bool

section \<open>Settings and engine\<close>

datatype install_policy = IP_RequireApproval | IP_Allow | IP_Deny

record external_write_grant =
  eg_id :: string
  eg_path_prefix :: string
  eg_allow_delete :: bool
  eg_created_at :: int

text \<open>The settings the evaluator reads.\<close>

record settings =
  se_protected_paths :: protected_path_settings
  se_shell_protection_enabled :: bool
  se_allow_auto_push_default_branch :: bool
  se_allow_destructive :: bool
  se_extra_blocked_attribution_patterns :: "string list"
  se_system_install_policy :: install_policy
  se_external_write_grants :: "external_write_grant list"

record policy_env =
  ev_lc :: "string \<Rightarrow> string"
  ev_uc :: "string \<Rightarrow> string"
  ev_glob :: glob_engine
  ev_regex :: regex_engine
  ev_open :: win_open
  ev_var :: "string \<Rightarrow> string option"
  ev_sha256_hex :: "string \<Rightarrow> string"

record policy_engine =
  pe_settings :: settings
  pe_roots :: roots
  pe_protected :: protected_rules
  pe_env :: expand_env
  pe_config_fault :: bool
  pe_extra_attribution :: "string list"

definition PolicyEngine_new ::
    "policy_env \<Rightarrow> settings \<Rightarrow> roots \<Rightarrow> expand_env \<Rightarrow> bool \<Rightarrow> policy_engine" where
  "PolicyEngine_new V s r env config_fault =
     \<lparr>pe_settings = s, pe_roots = r,
      pe_protected = ProtectedRules_new (ev_lc V) (ev_uc V) (ev_glob V) (ev_open V) (se_protected_paths s) env,
      pe_env = env, pe_config_fault = config_fault,
      pe_extra_attribution = compile_extra (ev_regex V) (se_extra_blocked_attribution_patterns s)\<rparr>"

definition held :: "policy_env \<Rightarrow> policy_context \<Rightarrow> session_scope \<Rightarrow> bool" where
  "held V ctx scope = list_ex (\<lambda>g. scope_covers (ev_lc V) g scope) (px_session_grants ctx)"

section \<open>Structured file access\<close>

definition external_scope :: "string \<Rightarrow> fs_access \<Rightarrow> session_scope" where
  "external_scope canonical access = PathPrefix (op_class access) (unwrap_or canonical (path_parent canonical))"

definition external_requirement :: "string \<Rightarrow> fs_access \<Rightarrow> approval_requirement" where
  "external_requirement canonical access =
     \<lparr>ar_category = ''external_'' @ op_class access,
      ar_reason = fs_access_debug access @ '' outside the trusted workspace requires local approval.'',
      ar_impact = ''Changes '' @ canonical @ '' outside Documents'' @ [BS] @ ''Projects.'',
      ar_risk = (if op_class access = ''delete'' then High else Medium),
      ar_requires_admin = False, ar_paths = [canonical], ar_command = None,
      ar_session_scope = external_scope canonical access\<rparr>"

definition grant_applies :: "policy_env \<Rightarrow> string \<Rightarrow> fs_access \<Rightarrow> external_write_grant \<Rightarrow> bool" where
  "grant_applies V canonical access g \<longleftrightarrow>
     starts_with_ci (ev_lc V) canonical (eg_path_prefix g)
     \<and> (eg_allow_delete g \<or> op_class access = ''write'')"

definition evaluate_external ::
    "policy_env \<Rightarrow> policy_engine \<Rightarrow> string \<Rightarrow> fs_access \<Rightarrow> policy_context \<Rightarrow> decision" where
  "evaluate_external V E canonical access ctx =
     (if \<not> is_mutation access then Allow []
      else (case find (grant_applies V canonical access) (se_external_write_grants (pe_settings E)) of
          Some g \<Rightarrow> Allow [''allowed by local policy grant '' @ eg_id g]
        | None \<Rightarrow>
            (if held V ctx (external_scope canonical access) then Allow [''allowed by session approval'']
             else RequireApproval (external_requirement canonical access))))"

definition protected_allowed ::
    "policy_env \<Rightarrow> policy_engine \<Rightarrow> string \<Rightarrow> fs_access \<Rightarrow> bool" where
  "protected_allowed V E canonical access =
     (if access = FA_Metadata then True
      else if is_mutation access then mutation_excepted (ev_lc V) (pe_protected E) canonical
      else False)"

definition evaluate_fs ::
    "policy_env \<Rightarrow> policy_engine \<Rightarrow> string \<Rightarrow> fs_access \<Rightarrow> policy_context \<Rightarrow> decision" where
  "evaluate_fs V E canonical access ctx =
     (if pe_config_fault E \<and> is_mutation access
      then Deny ConfigFault ''Settings are damaged; mutations are disabled until they are repaired locally.''
      else
        (let class = classify_class (ev_lc V) (pe_roots E) canonical in
         if class = ControlData
         then Deny PermissionDenied ''Local Pilot application control data is not accessible to agents.''
         else (case (case protected_check (ev_lc V) (ev_glob V) (pe_protected E) canonical (\<not> is_mutation access) of
                 Some m \<Rightarrow> (if protected_allowed V E canonical access then None else Some m)
               | None \<Rightarrow> None) of
             Some m \<Rightarrow>
               Deny ProtectedResource (''Protected resource ('' @ pm_rule m @
                 ''). Ask the user directly if secret or credential information is needed.'')
           | None \<Rightarrow>
               (case class of
                  Trusted \<Rightarrow> Allow []
                | CacheTemp area \<Rightarrow>
                    (if (case area of
                           CacheTask task_id \<Rightarrow> px_owns_task ctx task_id
                         | CacheTool _ scope \<Rightarrow> scope = px_principal_id ctx
                         | CacheOther \<Rightarrow> False)
                     then Allow []
                     else Deny PermissionDenied ''This cache/temp location belongs to another task or client.'')
                | External \<Rightarrow> evaluate_external V E canonical access ctx
                | ControlData \<Rightarrow> Deny PermissionDenied []))))"

section \<open>Paths named by a command\<close>

text \<open>A PowerShell environment reference or \<^verbatim>\<open>$HOME\<close> at the front; \<open>None\<close> is the source's \<^verbatim>\<open>?\<close>.\<close>

definition expand_ps_prefix :: "policy_env \<Rightarrow> policy_engine \<Rightarrow> string \<Rightarrow> string option" where
  "expand_ps_prefix V E s =
     (let lower = to_ascii_lowercase s in
      if starts_with lower ''$env:'' then
        (let rest = drop 5 s; name = takeWhile (\<lambda>c. \<not> is_dir_sep c) rest;
             tail = dropWhile (\<lambda>c. \<not> is_dir_sep c) rest
         in (case or_else (map_option snd (find (\<lambda>nv. eq_ignore_ascii_case (fst nv) name) (ee_vars (pe_env E))))
                    (ev_var V name) of
               Some value \<Rightarrow> Some (value @ tail)
             | None \<Rightarrow> None))
      else if starts_with lower ''$home'' then
        (case ee_profile (pe_env E) of Some p \<Rightarrow> Some (p @ drop 5 s) | None \<Rightarrow> None)
      else Some s)"

definition is_wild :: "char \<Rightarrow> bool" where
  "is_wild c \<longleftrightarrow> c = CHR ''*'' \<or> c = CHR ''?'' \<or> c = CHR ''$''"

text \<open>With a wildcard the directory part before it is taken.\<close>

definition wildcard_directory :: "string \<Rightarrow> string option" where
  "wildcard_directory s =
     (if list_ex is_wild s then
        (let front = takeWhile (\<lambda>c. \<not> is_wild c) s;
             dir = (case rsplit_once front is_dir_sep of Some (d, _) \<Rightarrow> d | None \<Rightarrow> [])
         in if dir = [] \<or> contains_char front CHR ''$'' then None else Some dir)
      else Some s)"

definition resolve_command_path :: "policy_env \<Rightarrow> policy_engine \<Rightarrow> string \<Rightarrow> string \<Rightarrow> string option" where
  "resolve_command_path V E raw cwd =
     (let s = trim_matches (trim_matches (trim raw) DQ) CHR 0x27 in
      case expand_ps_prefix V E s of
        None \<Rightarrow> None
      | Some s1 \<Rightarrow> (case wildcard_directory s1 of
          None \<Rightarrow> None
        | Some s2 \<Rightarrow> (case normalize (ev_uc V) (pe_env E) s2 cwd of
            Inl _ \<Rightarrow> None
          | Inr normalized \<Rightarrow> (case canonicalize (ev_open V) normalized True of
              Inr c \<Rightarrow> Some (cn_path c)
            | Inl _ \<Rightarrow> Some normalized))))"

section \<open>Git decisions\<close>

definition exact_scope :: "string \<Rightarrow> string \<Rightarrow> string \<Rightarrow> session_scope" where
  "exact_scope key text label = Exact key (label @ '': '' @ truncate_str text 120)"

definition simple_requirement ::
    "string \<Rightarrow> string \<Rightarrow> string \<Rightarrow> risk \<Rightarrow> string list \<Rightarrow> string \<Rightarrow> session_scope \<Rightarrow> approval_requirement" where
  "simple_requirement cat reason impact rk paths text scope =
     \<lparr>ar_category = cat, ar_reason = reason, ar_impact = impact, ar_risk = rk, ar_requires_admin = False,
      ar_paths = paths, ar_command = Some text, ar_session_scope = scope\<rparr>"

definition git_repo :: "git_facts \<Rightarrow> string" where
  "git_repo facts = unwrap_or [] (gf_repo_root facts)"

definition repo_paths :: "git_facts \<Rightarrow> string list" where
  "repo_paths facts = (if git_repo facts = [] then [] else [git_repo facts])"

definition git_destructive :: "policy_engine \<Rightarrow> git_facts \<Rightarrow> string \<Rightarrow> string \<Rightarrow> string \<Rightarrow> decision" where
  "git_destructive E facts text key what =
     (if se_allow_destructive (pe_settings E)
      then Allow [''destructive Git operation allowed by settings: '' @ what]
      else RequireApproval (simple_requirement ''git_destructive'' (what @ '' is a destructive Git operation.'')
        ''May discard work or rewrite shared history.'' High (repo_paths facts) text
        (exact_scope key text ''run this exact Git command'')))"

definition push_targets :: "push_spec \<Rightarrow> git_facts \<Rightarrow> string list" where
  "push_targets spec facts =
     (let ts = map (\<lambda>d. if d = ''HEAD'' then unwrap_or [] (gf_current_branch facts) else d) (sp_destinations spec)
      in if ts = [] then (case or_else (gf_upstream_branch facts) (gf_current_branch facts) of
           Some u \<Rightarrow> [u] | None \<Rightarrow> []) else ts)"

definition default_branches :: "git_facts \<Rightarrow> string list" where
  "default_branches facts =
     (if gf_default_branches facts = [] then [''main'', ''master''] else gf_default_branches facts)"

definition is_default_branch :: "git_facts \<Rightarrow> string \<Rightarrow> bool" where
  "is_default_branch facts t = list_ex (\<lambda>d. eq_ignore_ascii_case d t) (default_branches facts)"

definition default_push_requirement :: "push_spec \<Rightarrow> git_facts \<Rightarrow> string \<Rightarrow> approval_requirement" where
  "default_push_requirement spec facts text =
     (let branch = unwrap_or ''default branch'' (find (is_default_branch facts) (push_targets spec facts)) in
      simple_requirement ''git_default_branch_push''
        (''Direct push to the default branch '' @ [CHR 0x27] @ branch @ [CHR 0x27] @
         '' requires local approval (branch-first workflow).'')
        (''Publishes commits directly to '' @ branch @ '' on '' @
         unwrap_or ''the upstream remote'' (sp_remote spec) @ ''.'')
        Medium (repo_paths facts) text
        (Exact (''git_push_default:'' @ to_ascii_lowercase (git_repo facts) @ '':'' @
                unwrap_or [] (sp_remote spec) @ '':'' @ branch)
           (''push to '' @ branch @ '' in '' @ git_repo facts)))"

definition evaluate_push :: "policy_engine \<Rightarrow> push_spec \<Rightarrow> git_facts \<Rightarrow> string \<Rightarrow> string \<Rightarrow> decision" where
  "evaluate_push E spec facts text key =
     (if sp_force spec \<or> sp_mirror spec then git_destructive E facts text key ''Force push''
      else if sp_delete spec
      then git_destructive E facts text key
        (if sp_deletes_tags spec then ''Deleting remote tags'' else ''Deleting a remote branch'')
      else if sp_deletes_tags spec then git_destructive E facts text key ''Deleting remote tags''
      else if (sp_all spec \<or> list_ex (is_default_branch facts) (push_targets spec facts))
        \<and> \<not> se_allow_auto_push_default_branch (pe_settings E)
      then RequireApproval (default_push_requirement spec facts text)
      else Allow [])"

definition evaluate_git_kind :: "policy_engine \<Rightarrow> git_command \<Rightarrow> git_facts \<Rightarrow> string \<Rightarrow> string \<Rightarrow> decision" where
  "evaluate_git_kind E g facts text key =
     (let destructive = git_destructive E facts text key;
          exact = exact_scope key text ''run this exact Git command''
      in case gc_kind g of
        GK_ResetHard \<Rightarrow> destructive ''git reset --hard''
      | GK_Clean \<Rightarrow> destructive ''git clean -f''
      | GK_HistoryRewrite \<Rightarrow> destructive ''History filtering''
      | GK_Rebase _ \<Rightarrow>
          (if gf_rewrites_published_history facts then destructive ''Rebase of published commits'' else Allow [])
      | GK_CommitAmend \<Rightarrow>
          (if gf_rewrites_published_history facts then destructive ''Amending a published commit'' else Allow [])
      | GK_CredentialAccess \<Rightarrow> Deny ProtectedResource ''Git credential access is blocked.''
      | GK_IdentityChange \<Rightarrow>
          RequireApproval (simple_requirement ''git_identity_change''
            ''The command changes the configured Git identity.''
            ''Commits would be attributed to a different author.'' High [] text exact)
      | GK_Push spec \<Rightarrow> evaluate_push E spec facts text key
      | GK_GlobalConfigChange \<Rightarrow>
          RequireApproval (simple_requirement ''external_write''
            ''The command changes global Git configuration.''
            (''Modifies the user'' @ [CHR 0x27] @ ''s global .gitconfig.'') Medium [] text exact)
      | _ \<Rightarrow> Allow [])"

section \<open>Raw commands\<close>

record eval_state =
  es_warnings :: "string list"
  es_approvals :: "approval_requirement list"

type_synonym flow = "decision + eval_state"

definition warn :: "string list \<Rightarrow> eval_state \<Rightarrow> eval_state" where
  "warn ws s = s\<lparr>es_warnings := es_warnings s @ ws\<rparr>"

definition require :: "approval_requirement \<Rightarrow> eval_state \<Rightarrow> eval_state" where
  "require r s = s\<lparr>es_approvals := es_approvals s @ [r]\<rparr>"

text \<open>What is fixed before the loop over the findings.\<close>

record command_request =
  cr_cwd :: string
  cr_text :: string
  cr_key :: string
  cr_cwd_trusted :: bool

definition exact_command :: "command_request \<Rightarrow> session_scope" where
  "exact_command Q = exact_scope (cr_key Q) (cr_text Q) ''run this exact command''"

definition unknown_external :: "command_request \<Rightarrow> string \<Rightarrow> approval_requirement" where
  "unknown_external Q reason =
     simple_requirement ''unknown_external'' reason (''Runs with working directory '' @ cr_cwd Q @ ''.'') Medium
       [cr_cwd Q] (cr_text Q) (exact_command Q)"

definition has_only_reads :: "finding \<Rightarrow> bool" where
  "has_only_reads f \<longleftrightarrow>
     list_all (\<lambda>p. pf_access p = RA_Read \<or> pf_access p = RA_ReadDisclose) (fd_paths f) \<and> fd_paths f \<noteq> []"

definition quoted :: "string \<Rightarrow> string" where
  "quoted s = [CHR 0x27] @ s @ [CHR 0x27]"

definition category_step :: "policy_engine \<Rightarrow> command_request \<Rightarrow> finding \<Rightarrow> eval_state \<Rightarrow> flow" where
  "category_step E Q f s =
     (case fd_category f of
        Cat_CredentialAccess \<Rightarrow>
          Inl (Deny ProtectedResource (''Credential access/export is blocked ('' @ fd_detail f @
            ''). Ask the user directly for any secret you need.''))
      | Cat_Admin \<Rightarrow>
          Inl (Deny PermissionDenied (quoted (fd_detail f) @
            '' needs administrative rights. Agent processes run as a standard user; use the admin_request tool for a locally approved, structured elevated operation.''))
      | Cat_SystemChange \<Rightarrow>
          Inr (require (simple_requirement ''system_change''
            (fd_detail f @ '' changes user or system configuration.'')
            ''Modifies configuration outside the trusted workspace.'' High [] (cr_text Q) (exact_command Q)) s)
      | Cat_PackageGlobal \<Rightarrow>
          (case se_system_install_policy (pe_settings E) of
             IP_Allow \<Rightarrow> Inr (warn [''global install allowed by policy: '' @ fd_detail f] s)
           | IP_Deny \<Rightarrow>
               Inl (Deny PermissionDenied (''System-wide/user-global installs are disabled by local policy ('' @
                 fd_detail f @ '').''))
           | IP_RequireApproval \<Rightarrow>
               Inr (require (simple_requirement ''package_global''
                 (fd_detail f @ '' installs software outside the project.'')
                 ''Installs or changes tools in the user profile or system.'' Medium [] (cr_text Q)
                 (exact_scope (cr_key Q) (cr_text Q) ''run this exact install command'')) s))
      | Cat_PackageLocal \<Rightarrow>
          (if cr_cwd_trusted Q then Inr s
           else Inr (require (simple_requirement ''external_write''
                  ''Dependency installation outside the trusted workspace.''
                  (''Writes dependencies under '' @ cr_cwd Q @ ''.'') Medium [cr_cwd Q] (cr_text Q)
                  (exact_command Q)) s))
      | Cat_Dynamic \<Rightarrow> Inr (warn [''dynamic behaviour cannot be fully analyzed: '' @ fd_detail f] s)
      | Cat_Unknown \<Rightarrow>
          (if \<not> cr_cwd_trusted Q \<and> \<not> has_only_reads f
           then Inr (require (unknown_external Q (quoted (fd_program f) @
                  '' may modify files and runs outside the trusted workspace.'')) s)
           else Inr (warn [''unclassified command '' @ quoted (fd_program f)] s))
      | _ \<Rightarrow> Inr s)"

text \<open>The texts of an official action: given inline, or read from the files the command names.\<close>

definition official_texts ::
    "policy_env \<Rightarrow> policy_engine \<Rightarrow> (string \<Rightarrow> string option) \<Rightarrow> string \<Rightarrow> finding \<Rightarrow> string list" where
  "official_texts V E read_text_file cwd f =
     fd_official_texts f @
     List.map_filter (\<lambda>file. Option.bind (resolve_command_path V E file cwd) read_text_file)
       (fd_official_text_files f)"

definition attribution_step ::
    "policy_env \<Rightarrow> policy_engine \<Rightarrow> (string \<Rightarrow> string option) \<Rightarrow> command_request \<Rightarrow> finding \<Rightarrow> eval_state \<Rightarrow> flow" where
  "attribution_step V E read_text_file Q f s =
     (case List.map_filter (\<lambda>t. find_attribution (ev_regex V) t (pe_extra_attribution E))
             (official_texts V E read_text_file (cr_cwd Q) f) of
        hit # _ \<Rightarrow>
          Inl (Deny AttributionBlocked
            (''Agent/vendor attribution is not allowed in official Git/GitHub content ('' @ hit @ '').''))
      | [] \<Rightarrow>
          (case find (ref_name_discloses_agent (ev_regex V)) (fd_official_refs f) of
             Some r \<Rightarrow>
               Inl (Deny AttributionBlocked (''Branch/tag name '' @ quoted r @ '' discloses agent attribution.''))
           | None \<Rightarrow>
               (if list_ex (identity_discloses_agent (ev_regex V)) (fd_identity_values f)
                then Inl (Deny AttributionBlocked ''Git identity overrides may not name an agent or vendor.'')
                else Inr s)))"

definition git_step ::
    "policy_engine \<Rightarrow> (git_command \<Rightarrow> git_facts) \<Rightarrow> command_request \<Rightarrow> finding \<Rightarrow> eval_state \<Rightarrow> flow" where
  "git_step E facts Q f s =
     (case fd_git f of
        None \<Rightarrow> Inr s
      | Some g \<Rightarrow>
          (case evaluate_git_kind E g (facts g) (cr_text Q) (cr_key Q) of
             Allow w \<Rightarrow> Inr (warn w s)
           | RequireApproval r \<Rightarrow> Inr (require r s)
           | Deny c m \<Rightarrow> Inl (Deny c m)))"

definition gh_step :: "command_request \<Rightarrow> finding \<Rightarrow> eval_state \<Rightarrow> flow" where
  "gh_step Q f s =
     (case fd_gh f of
        Some g \<Rightarrow>
          (if gh_kind g = GH_DestructiveWrite
           then Inr (require (simple_requirement ''github_destructive''
                  (''gh '' @ gh_group g @ '' '' @ gh_action g @ '' makes an irreversible remote change.'')
                  ''Deletes, archives or renames GitHub resources.'' High [] (cr_text Q) (exact_command Q)) s)
           else Inr s)
      | None \<Rightarrow> Inr s)"

text \<open>The approval a structured access would need, restated for the command.\<close>

definition shell_requirement :: "command_request \<Rightarrow> fs_access \<Rightarrow> string \<Rightarrow> approval_requirement \<Rightarrow> approval_requirement" where
  "shell_requirement Q op resolved r =
     r\<lparr>ar_category := ''shell_'' @ ar_category r, ar_command := Some (cr_text Q),
       ar_reason := ''The command '' @ (if op = FA_Delete then ''deletes'' else ''writes'') @ '' '' @ resolved @
         '' outside the trusted workspace.''\<rparr>"

definition write_op :: "ref_access \<Rightarrow> fs_access" where
  "write_op a = (if a = RA_Delete then FA_Delete else FA_Write)"

definition is_write_ref :: "path_ref \<Rightarrow> bool" where
  "is_write_ref p \<longleftrightarrow> pf_access p = RA_Write \<or> pf_access p = RA_Delete"

definition write_step ::
    "policy_env \<Rightarrow> policy_engine \<Rightarrow> policy_context \<Rightarrow> command_request \<Rightarrow> path_ref \<Rightarrow> string \<Rightarrow> eval_state \<Rightarrow> flow" where
  "write_step V E ctx Q p resolved s =
     (if is_write_ref p then
        (case evaluate_fs V E resolved (write_op (pf_access p)) ctx of
           Allow w \<Rightarrow> Inr (warn w s)
         | RequireApproval r \<Rightarrow> Inr (require (shell_requirement Q (write_op (pf_access p)) resolved r) s)
         | Deny c m \<Rightarrow> Inl (Deny c m))
      else Inr s)"

definition path_step ::
    "policy_env \<Rightarrow> policy_engine \<Rightarrow> policy_context \<Rightarrow> command_request \<Rightarrow> eval_state \<Rightarrow> path_ref \<Rightarrow> flow" where
  "path_step V E ctx Q s p =
     (case resolve_command_path V E (pf_raw p) (cr_cwd Q) of
        None \<Rightarrow> Inr (if is_write_ref p then warn [''could not resolve path '' @ quoted (pf_raw p)] s else s)
      | Some resolved \<Rightarrow>
          (let class = classify_class (ev_lc V) (pe_roots E) resolved;
               protected = protected_check (ev_lc V) (ev_glob V) (pe_protected E) resolved
                 (pf_access p = RA_Read \<or> pf_access p = RA_ReadDisclose)
           in if class = ControlData \<and> pf_access p \<noteq> RA_Read
              then Inl (Deny PermissionDenied (quoted (pf_raw p) @ '' refers to Local Pilot control data.''))
              else (case protected of
                  Some m \<Rightarrow>
                    (if List.member [RA_ReadDisclose, RA_Write, RA_Delete] (pf_access p)
                     then Inl (Deny ProtectedResource (quoted (pf_raw p) @ '' is a protected resource ('' @ pm_rule m @
                            ''); it cannot be printed, copied or modified by agent commands.''))
                     else write_step V E ctx Q p resolved
                            (if pf_access p = RA_Unknown
                             then warn [''command references protected resource '' @ quoted (pf_raw p) @
                                    '' (use, not disclosure)''] s
                             else s))
                | None \<Rightarrow> write_step V E ctx Q p resolved s)))"

definition finding_step ::
    "policy_env \<Rightarrow> policy_engine \<Rightarrow> (git_command \<Rightarrow> git_facts) \<Rightarrow> (string \<Rightarrow> string option) \<Rightarrow> policy_context
     \<Rightarrow> command_request \<Rightarrow> eval_state \<Rightarrow> finding \<Rightarrow> flow" where
  "finding_step V E facts read_text_file ctx Q s f =
     and_then (category_step E Q f s) (\<lambda>s1.
     and_then (attribution_step V E read_text_file Q f s1) (\<lambda>s2.
     and_then (git_step E facts Q f s2) (\<lambda>s3.
     and_then (gh_step Q f s3) (\<lambda>s4.
     fold_until (path_step V E ctx Q) s4 (fd_paths f)))))"

text \<open>After the loop: unparsed and dynamic commands outside the trusted workspace.\<close>

definition final_requirements :: "command_request \<Rightarrow> command_analysis \<Rightarrow> eval_state \<Rightarrow> eval_state" where
  "final_requirements Q a s =
     (let s1 = (if ca_parse_errors a \<noteq> [] then
            (let w = warn [''command could not be fully parsed''] s in
             if cr_cwd_trusted Q then w
             else require (unknown_external Q
                    ''The command could not be parsed and runs outside the trusted workspace.'') w)
          else s)
      in if List.member (map fd_category (ca_findings a)) Cat_Dynamic \<and> \<not> cr_cwd_trusted Q
         then require (unknown_external Q ''The command uses dynamic execution outside the trusted workspace.'') s1
         else s1)"

definition risk_descending :: "approval_requirement list \<Rightarrow> approval_requirement list" where
  "risk_descending rs = sort_key (\<lambda>r. 3 - risk_rank (ar_risk r)) rs"

definition is_exact :: "session_scope \<Rightarrow> bool" where
  "is_exact s = (case s of Exact _ _ \<Rightarrow> True | PathPrefix _ _ \<Rightarrow> False)"

definition combine_approvals :: "command_request \<Rightarrow> approval_requirement list \<Rightarrow> approval_requirement" where
  "combine_approvals Q rs =
     (let first = hd rs;
          c1 = (if length rs > 1
                then first\<lparr>ar_reason := join_with [SP] (map ar_reason rs),
                           ar_paths := dedup (concat (map ar_paths rs))\<rparr> else first)
      in if length rs > 1 \<or> \<not> is_exact (ar_session_scope c1)
         then c1\<lparr>ar_session_scope := exact_command Q\<rparr> else c1)"

definition decide_command :: "policy_env \<Rightarrow> policy_context \<Rightarrow> command_request \<Rightarrow> eval_state \<Rightarrow> decision" where
  "decide_command V ctx Q s =
     (if es_approvals s = [] then Allow (es_warnings s)
      else
        (let rs = risk_descending (es_approvals s); combined = combine_approvals Q rs in
         if held V ctx (ar_session_scope combined) \<or> list_all (\<lambda>a. held V ctx (ar_session_scope a)) rs
         then Allow (es_warnings s @ [''allowed by session approval''])
         else RequireApproval (combined\<lparr>ar_command := Some (cr_text Q)\<rparr>)))"

definition command_request_of ::
    "policy_env \<Rightarrow> policy_engine \<Rightarrow> string \<Rightarrow> string \<Rightarrow> policy_context \<Rightarrow> command_request" where
  "command_request_of V E cwd text ctx =
     \<lparr>cr_cwd = cwd, cr_text = text, cr_key = ev_sha256_hex V (cwd @ [LF] @ text),
      cr_cwd_trusted = (case classify_class (ev_lc V) (pe_roots E) cwd of
          Trusted \<Rightarrow> True
        | CacheTemp (CacheTask task_id) \<Rightarrow> px_owns_task ctx task_id
        | _ \<Rightarrow> False)\<rparr>"

definition evaluate_command ::
    "policy_env \<Rightarrow> policy_engine \<Rightarrow> command_analysis \<Rightarrow> string \<Rightarrow> string \<Rightarrow> (git_command \<Rightarrow> git_facts)
     \<Rightarrow> (string \<Rightarrow> string option) \<Rightarrow> policy_context \<Rightarrow> decision" where
  "evaluate_command V E a cwd text facts read_text_file ctx =
     (if classify_class (ev_lc V) (pe_roots E) cwd = ControlData
      then Deny PermissionDenied ''The working directory is Local Pilot control data.''
      else if protected_check (ev_lc V) (ev_glob V) (pe_protected E) cwd True \<noteq> None
      then Deny ProtectedResource ''The working directory is a protected location.''
      else if pe_config_fault E
      then Deny ConfigFault ''Settings are damaged; process launches are disabled until they are repaired locally.''
      else if \<not> se_shell_protection_enabled (pe_settings E)
      then Allow [''shell protection checks are OFF: command/path preflight was bypassed'']
      else
        (let Q = command_request_of V E cwd text ctx in
         case fold_until (finding_step V E facts read_text_file ctx Q) \<lparr>es_warnings = [], es_approvals = []\<rparr>
                (ca_findings a) of
           Inl d \<Rightarrow> d
         | Inr s \<Rightarrow> decide_command V ctx Q (final_requirements Q a s)))"

section \<open>Structured Git, GitHub text and administrative requests\<close>

definition evaluate_git_structured ::
    "policy_env \<Rightarrow> policy_engine \<Rightarrow> git_command \<Rightarrow> git_facts \<Rightarrow> policy_context \<Rightarrow> decision" where
  "evaluate_git_structured V E g facts ctx =
     (if pe_config_fault E \<and> gc_kind g \<noteq> GK_ReadOnly
      then Deny ConfigFault ''Settings are damaged; Git mutations are disabled until they are repaired locally.''
      else (case List.map_filter (\<lambda>t. find_attribution (ev_regex V) t (pe_extra_attribution E)) (gc_messages g) of
          hit # _ \<Rightarrow>
            Deny AttributionBlocked
              (''Agent/vendor attribution is not allowed in commit/tag messages ('' @ hit @ '').'')
        | [] \<Rightarrow>
            (case find (ref_name_discloses_agent (ev_regex V)) (gc_created_refs g) of
               Some r \<Rightarrow> Deny AttributionBlocked (''Branch/tag name '' @ quoted r @ '' discloses agent attribution.'')
             | None \<Rightarrow>
                 (if gc_identity_overrides g \<noteq> []
                  then Deny PermissionDenied ''Structured Git tools never override the configured Git identity.''
                  else
                    (let text = ''git '' @ gc_subcommand g @ '' '' @ join_with [SP] (gc_args g);
                         key = ev_sha256_hex V (git_repo facts @ [LF] @ text)
                     in (case evaluate_git_kind E g facts text key of
                           RequireApproval r \<Rightarrow>
                             (if held V ctx (ar_session_scope r) then Allow [''allowed by session approval'']
                              else RequireApproval r)
                         | d \<Rightarrow> d))))))"

definition check_github_text ::
    "policy_env \<Rightarrow> policy_engine \<Rightarrow> string list \<Rightarrow> string list \<Rightarrow> (error_code \<times> string) + unit" where
  "check_github_text V E texts rfs =
     (case List.map_filter (\<lambda>t. find_attribution (ev_regex V) t (pe_extra_attribution E)) texts of
        hit # _ \<Rightarrow>
          Inl (AttributionBlocked,
            ''Agent/vendor attribution is not allowed in official GitHub content ('' @ hit @ '').'')
      | [] \<Rightarrow>
          (case find (ref_name_discloses_agent (ev_regex V)) rfs of
             Some r \<Rightarrow> Inl (AttributionBlocked, ''Branch/tag name '' @ quoted r @ '' discloses agent attribution.'')
           | None \<Rightarrow> Inr ()))"

definition evaluate_admin ::
    "policy_env \<Rightarrow> policy_engine \<Rightarrow> string \<Rightarrow> string \<Rightarrow> policy_context \<Rightarrow> decision" where
  "evaluate_admin V E summary digest ctx =
     (if pe_config_fault E
      then Deny ConfigFault ''Settings are damaged; administrative operations are disabled.''
      else
        (let scope = Exact (''admin:'' @ digest) (''administrative operation: '' @ summary) in
         if held V ctx scope then Allow [''allowed by session approval'']
         else RequireApproval
           \<lparr>ar_category = ''admin'', ar_reason = ''Administrative operations always require local approval.'',
            ar_impact = summary, ar_risk = Critical, ar_requires_admin = True, ar_paths = [],
            ar_command = Some summary, ar_session_scope = scope\<rparr>))"

end
