(* ===== verification/Policy.thy ===== *)
theory Policy
  imports Evaluator
begin

text \<open>
  What the policy evaluator guarantees: which accesses a structured tool gets, what an allowed command may
  have named, what an approval request says and what holding its scope gives. The model is in the theory
  Evaluator.
\<close>

section \<open>Scopes\<close>

interpretation scope: coverage "scope_covers lc" for lc
proof
  show "scope_covers lc a a" for a by (cases a) auto
  show "scope_covers lc a b \<Longrightarrow> scope_covers lc b c \<Longrightarrow> scope_covers lc a c" for a b c
    by (cases a; cases b; cases c) (auto intro: starts_with_ci_trans)
qed

lemma held_iff: "held V ctx s \<longleftrightarrow> (\<exists>g \<in> set (px_session_grants ctx). scope_covers (ev_lc V) g s)"
  by (simp add: held_def list_ex_iff)

lemma held_narrower: "held V ctx s \<Longrightarrow> scope_covers (ev_lc V) s t \<Longrightarrow> held V ctx t"
  unfolding held_iff by (rule scope.granted_narrower)

lemma held_own: "s \<in> set (px_session_grants ctx) \<Longrightarrow> held V ctx s"
  unfolding held_iff by (rule scope.granted_self)

definition add_grant :: "session_scope \<Rightarrow> policy_context \<Rightarrow> policy_context" where
  "add_grant s ctx = ctx\<lparr>px_session_grants := px_session_grants ctx @ [s]\<rparr>"

lemma add_grant_sel [simp]:
  "px_principal_id (add_grant s ctx) = px_principal_id ctx" "px_owns_task (add_grant s ctx) = px_owns_task ctx"
  "px_entry (add_grant s ctx) = px_entry ctx"
  by (simp_all add: add_grant_def)

lemma held_add_grant: "held V (add_grant g ctx) s \<longleftrightarrow> held V ctx s \<or> scope_covers (ev_lc V) g s"
  by (auto simp: held_iff add_grant_def)

lemma exact_covers_exact_only: "is_exact g \<Longrightarrow> scope_covers lc g s \<Longrightarrow> is_exact s"
  by (cases g; cases s) (auto simp: is_exact_def)

lemma is_exact_scope [simp]: "is_exact (exact_scope k t l)" "is_exact (Exact k l)" "\<not> is_exact (external_scope p a)"
  by (simp_all add: is_exact_def exact_scope_def external_scope_def)

section \<open>Structured file access\<close>

lemma evaluate_fs_cases:
  "evaluate_fs V E p a ctx =
     (if pe_config_fault E \<and> is_mutation a
      then Deny ConfigFault ''Settings are damaged; mutations are disabled until they are repaired locally.''
      else if classify_class (ev_lc V) (pe_roots E) p = ControlData
      then Deny PermissionDenied ''Local Pilot application control data is not accessible to agents.''
      else if protected_check (ev_lc V) (ev_glob V) (pe_protected E) p (\<not> is_mutation a) \<noteq> None
              \<and> \<not> protected_allowed V E p a
      then Deny ProtectedResource (''Protected resource ('' @
             pm_rule (the (protected_check (ev_lc V) (ev_glob V) (pe_protected E) p (\<not> is_mutation a))) @
             ''). Ask the user directly if secret or credential information is needed.'')
      else (case classify_class (ev_lc V) (pe_roots E) p of
              Trusted \<Rightarrow> Allow []
            | CacheTemp area \<Rightarrow>
                (if (case area of CacheTask task_id \<Rightarrow> px_owns_task ctx task_id
                       | CacheTool _ scope \<Rightarrow> scope = px_principal_id ctx
                       | CacheOther \<Rightarrow> False)
                 then Allow []
                 else Deny PermissionDenied ''This cache/temp location belongs to another task or client.'')
            | External \<Rightarrow> evaluate_external V E p a ctx
            | ControlData \<Rightarrow> Deny PermissionDenied []))"
  by (auto simp: evaluate_fs_def Let_def split: option.splits)

definition owns_cache :: "policy_context \<Rightarrow> cache_area \<Rightarrow> bool" where
  "owns_cache ctx area =
     (case area of
        CacheTask task_id \<Rightarrow> px_owns_task ctx task_id
      | CacheTool _ scope \<Rightarrow> scope = px_principal_id ctx
      | CacheOther \<Rightarrow> False)"

definition external_ok :: "policy_env \<Rightarrow> policy_engine \<Rightarrow> string \<Rightarrow> fs_access \<Rightarrow> policy_context \<Rightarrow> bool" where
  "external_ok V E p a ctx \<longleftrightarrow>
     list_ex (grant_applies V p a) (se_external_write_grants (pe_settings E)) \<or> held V ctx (external_scope p a)"

lemma evaluate_external_allow:
  "is_mutation a \<Longrightarrow> is_allow (evaluate_external V E p a ctx) \<longleftrightarrow> external_ok V E p a ctx"
  by (auto simp: evaluate_external_def external_ok_def list_ex_iff find_None_set split: option.splits
      dest: find_Some_in_set)

text \<open>C22: When a structured tool may change a file. A mutation is allowed exactly when the settings are intact,
  the path is not the application's control data, it is not a protected resource unless that very path is a
  configured mutation exception, and it lies in the trusted workspace, in a cache area of the caller, or
  outside under a locally configured grant for that kind of change or a session approval that covers the
  directory.\<close>

theorem mutation_allowed_iff:
  "is_mutation a \<and> is_allow (evaluate_fs V E p a ctx) \<longleftrightarrow>
     is_mutation a \<and> \<not> pe_config_fault E
     \<and> (protected_check (ev_lc V) (ev_glob V) (pe_protected E) p False = None
        \<or> mutation_excepted (ev_lc V) (pe_protected E) p)
     \<and> (case classify_class (ev_lc V) (pe_roots E) p of
          Trusted \<Rightarrow> True
        | CacheTemp area \<Rightarrow> owns_cache ctx area
        | External \<Rightarrow> external_ok V E p a ctx
        | ControlData \<Rightarrow> False)"
proof (cases "is_mutation a")
  case True
  then have "a \<noteq> FA_Metadata" by (auto simp: is_mutation_def)
  with True show ?thesis
    by (simp add: evaluate_fs_cases protected_allowed_def evaluate_external_allow owns_cache_def
        split: path_class.split cache_area.split)
qed simp

text \<open>No agent reaches the application's own data. With the application laid out under a drive-rooted directory, every
  file of a directory directly below it other than the cache (settings, secrets, databases, the remote-access
  gate) is denied to every access kind, whatever the trusted workspace, the installation directory, the
  settings, the local grants and the session approvals are.\<close>

theorem control_data_denied:
  assumes "drive_path root" and "valid_name d" and "valid_name f"
    and "ev_lc V d \<noteq> ev_lc V ''cache''"
    and "pe_roots E = layout_roots (with_root root) trusted install"
  shows "\<exists>c m. evaluate_fs V E (path_join (path_join root d) f) a ctx = Deny c m"
  using control_file_class [of root d f "ev_lc V" trusted install] assms
  by (simp add: evaluate_fs_cases)

text \<open>A protected directory is closed to reading and listing altogether, and to every change of anything
  under it that is not itself a configured exception: for a path under a protected directory no grant and no
  session approval turns the denial into an approval request.\<close>

theorem protected_directory_denied:
  assumes "List.member (pr_directories (pe_protected E)) (label, dir)"
    and "starts_with_ci (ev_lc V) p dir" and "a \<noteq> FA_Metadata"
    and "\<not> mutation_excepted (ev_lc V) (pe_protected E) p"
  shows "\<exists>c m. evaluate_fs V E p a ctx = Deny c m"
proof -
  have "protected_check (ev_lc V) (ev_glob V) (pe_protected E) p fr \<noteq> None" for fr
    using protected_check_directory [of label dir "pe_protected E" "ev_lc V" p "ev_glob V" fr] assms(1,2) by auto
  with assms(3,4) show ?thesis by (simp add: evaluate_fs_cases protected_allowed_def)
qed

text \<open>Holding more grants never closes anything.\<close>

lemma held_mono:
  "set (px_session_grants ctx) \<subseteq> set (px_session_grants ctx') \<Longrightarrow> held V ctx s \<Longrightarrow> held V ctx' s"
  by (auto simp: held_iff)

lemma evaluate_fs_read_external:
  "\<not> is_mutation a \<Longrightarrow> evaluate_external V E p a ctx = Allow []"
  by (simp add: evaluate_external_def)

text \<open>An approval is effective and narrow. When a structured access needs approval, the access with the requested scope
  granted for the session is allowed, and so is the same kind of change of any other path whose directory lies
  under it, while an access of the other kind (deleting instead of writing, or the reverse) still gets the answer
  it got before.\<close>

theorem session_approval_effective:
  assumes "evaluate_fs V E p a ctx = RequireApproval r"
  shows "is_allow (evaluate_fs V E p a (add_grant (ar_session_scope r) ctx))
    \<and> (op_class b \<noteq> op_class a \<longrightarrow>
         evaluate_fs V E q b (add_grant (ar_session_scope r) ctx) = evaluate_fs V E q b ctx)
    \<and> (classify_class (ev_lc V) (pe_roots E) q = External
       \<and> protected_check (ev_lc V) (ev_glob V) (pe_protected E) q False = None
       \<and> op_class b = op_class a \<and> is_mutation b
       \<and> starts_with_ci (ev_lc V) (unwrap_or q (path_parent q)) (unwrap_or p (path_parent p)) \<longrightarrow>
         is_allow (evaluate_fs V E q b (add_grant (ar_session_scope r) ctx)))"
proof -
  have ext: "evaluate_external V E p a ctx = RequireApproval r" "classify_class (ev_lc V) (pe_roots E) p = External"
    using assms by (auto simp: evaluate_fs_cases split: if_splits path_class.splits)
  then have mut: "is_mutation a" and scope: "ar_session_scope r = external_scope p a"
    by (auto simp: evaluate_external_def external_requirement_def split: if_splits option.splits)
  have cf: "\<not> pe_config_fault E" using assms mut by (auto simp: evaluate_fs_cases)
  have same: "held V (add_grant (external_scope p a) ctx) (external_scope q b) = held V ctx (external_scope q b)"
    if "op_class b \<noteq> op_class a"
    using that by (auto simp: held_add_grant external_scope_def)
  have "is_allow (evaluate_fs V E p a (add_grant (ar_session_scope r) ctx))"
    using assms mut ext(2) evaluate_external_allow [OF mut, of V E p "add_grant (ar_session_scope r) ctx"]
    by (auto simp: evaluate_fs_cases external_ok_def scope held_add_grant scope.covers_refl split: if_splits)
  moreover have "evaluate_fs V E q b (add_grant (ar_session_scope r) ctx) = evaluate_fs V E q b ctx"
    if "op_class b \<noteq> op_class a"
    using same [OF that] by (simp add: evaluate_fs_cases evaluate_external_def scope split: path_class.split cache_area.split)
  moreover have "is_allow (evaluate_fs V E q b (add_grant (ar_session_scope r) ctx))"
    if "classify_class (ev_lc V) (pe_roots E) q = External"
      "protected_check (ev_lc V) (ev_glob V) (pe_protected E) q False = None" "op_class b = op_class a"
      "is_mutation b" "starts_with_ci (ev_lc V) (unwrap_or q (path_parent q)) (unwrap_or p (path_parent p))"
    using that cf evaluate_external_allow [OF that(4), of V E q "add_grant (ar_session_scope r) ctx"]
    by (auto simp: evaluate_fs_cases external_ok_def scope held_add_grant external_scope_def)
  ultimately show ?thesis by blast
qed

section \<open>Commands\<close>

lemma warn_require_sel [simp]:
  "es_approvals (warn w s) = es_approvals s" "es_approvals (require r s) = es_approvals s @ [r]"
  "es_warnings (require r s) = es_warnings s" "es_warnings (warn w s) = es_warnings s @ w"
  by (simp_all add: warn_def require_def)

text \<open>A step never takes an approval requirement back, and what it returns early is a denial.\<close>

definition grows :: "eval_state \<Rightarrow> flow \<Rightarrow> bool" where
  "grows s r = (case r of Inl d \<Rightarrow> (\<exists>c m. d = Deny c m) | Inr t \<Rightarrow> set (es_approvals s) \<subseteq> set (es_approvals t))"

lemma category_step_grows: "grows s (category_step E Q f s)"
  by (auto simp: grows_def category_step_def split: category.split install_policy.split)

lemma attribution_step_grows: "grows s (attribution_step V E rd Q f s)"
  by (auto simp: grows_def attribution_step_def split: list.split option.split)

lemma git_step_grows: "grows s (git_step E facts Q f s)"
  by (auto simp: grows_def git_step_def split: option.split decision.split)

lemma gh_step_grows: "grows s (gh_step Q f s)"
  by (auto simp: grows_def gh_step_def split: option.split)

lemma write_step_grows: "grows s (write_step V E ctx Q p r s)"
  by (auto simp: grows_def write_step_def split: decision.split)

lemma grows_warn: "grows (warn w s) r = grows s r"
  by (cases r) (simp_all add: grows_def)

lemma path_step_grows: "grows s (path_step V E ctx Q s p)"
proof (cases "resolve_command_path V E (pf_raw p) (cr_cwd Q)")
  case None
  then show ?thesis by (simp add: path_step_def grows_def)
next
  case (Some r)
  have "grows s (write_step V E ctx Q p r (warn ws s))" for ws
    using write_step_grows [of "warn ws s" V E ctx Q p r] by (simp add: grows_warn)
  moreover have "grows s (Inl (Deny c m))" for c m by (simp add: grows_def)
  ultimately show ?thesis
    using Some write_step_grows [of s V E ctx Q p r] by (auto simp: path_step_def Let_def split: option.split)
qed

lemma grows_and_then:
  assumes "grows s r" and "\<And>t. r = Inr t \<Longrightarrow> grows t (f t)"
  shows "grows s (and_then r f)"
  using assms by (cases r) (auto simp: grows_def split: sum.splits)

lemma grows_fold:
  assumes "\<And>s x. grows s (f s x)"
  shows "grows s (fold_until f s xs)"
  using assms by (induction xs arbitrary: s) (auto simp: grows_def [of _ "Inr _"] intro!: grows_and_then)

lemmas step_grows = category_step_grows attribution_step_grows git_step_grows gh_step_grows

lemma finding_step_grows: "grows s (finding_step V E facts rd ctx Q s f)"
  unfolding finding_step_def
  by (intro grows_and_then step_grows grows_fold path_step_grows)

lemma path_step_keeps:
  "path_step V E ctx Q s p = Inr t \<Longrightarrow> set (es_approvals s) \<subseteq> set (es_approvals t)"
  using path_step_grows [of s V E ctx Q p] by (simp add: grows_def)

lemma finding_step_keeps:
  "finding_step V E facts rd ctx Q s f = Inr t \<Longrightarrow> set (es_approvals s) \<subseteq> set (es_approvals t)"
  using finding_step_grows [of s V E facts rd ctx Q f] by (simp add: grows_def)

lemma fold_finding_steps:
  "grows s (fold_until (finding_step V E facts rd ctx Q) s fs)"
  by (intro grows_fold finding_step_grows)

text \<open>A finding that stops the loop makes the command denied, whatever surrounds it.\<close>

lemma stopping_finding_denied:
  assumes "se_shell_protection_enabled (pe_settings E)" and "f \<in> set (ca_findings a)"
    and "\<And>s t. finding_step V E facts rd ctx (command_request_of V E cwd text ctx) s f \<noteq> Inr t"
  shows "\<exists>c m. evaluate_command V E a cwd text facts rd ctx = Deny c m"
proof -
  let ?Q = "command_request_of V E cwd text ctx" and ?s = "\<lparr>es_warnings = [], es_approvals = []\<rparr>"
  have "fold_until (finding_step V E facts rd ctx ?Q) ?s (ca_findings a) \<noteq> Inr t" for t
    using fold_until_reaches [of "finding_step V E facts rd ctx ?Q" ?s "ca_findings a" t f "\<lambda>_. False"] assms(2,3)
    by blast
  then obtain d where d: "fold_until (finding_step V E facts rd ctx ?Q) ?s (ca_findings a) = Inl d"
    by (cases "fold_until (finding_step V E facts rd ctx ?Q) ?s (ca_findings a)") auto
  then have "\<exists>c m. d = Deny c m"
    using fold_finding_steps [of ?s V E facts rd ctx ?Q "ca_findings a"] by (simp add: grows_def)
  with d assms(1) show ?thesis by (auto simp: evaluate_command_def Let_def)
qed

text \<open>With the shell checks on, a command in which any part was classified as credential access or as an administrative
  change is denied: no surrounding command, no setting, no local grant and no session approval makes it
  allowed or even asks for approval.\<close>

theorem credential_and_admin_denied:
  assumes "se_shell_protection_enabled (pe_settings E)" and "List.member (ca_findings a) f"
    and "List.member [Cat_CredentialAccess, Cat_Admin] (fd_category f)"
  shows "\<exists>c m. evaluate_command V E a cwd text facts rd ctx = Deny c m"
proof (rule stopping_finding_denied [OF assms(1)])
  show "finding_step V E facts rd ctx (command_request_of V E cwd text ctx) s f \<noteq> Inr t" for s t
    using assms(3) by (auto simp: finding_step_def category_step_def and_then_Inr)
qed (use assms(2) in simp)

text \<open>The references no session approval opens: control data (unless only inspected) and protected resources
  that would be disclosed, written or deleted.\<close>

definition forbidden_ref :: "policy_env \<Rightarrow> policy_engine \<Rightarrow> string \<Rightarrow> path_ref \<Rightarrow> bool" where
  "forbidden_ref V E cwd p \<longleftrightarrow>
     (case resolve_command_path V E (pf_raw p) cwd of
        None \<Rightarrow> False
      | Some r \<Rightarrow>
          (classify_class (ev_lc V) (pe_roots E) r = ControlData \<and> pf_access p \<noteq> RA_Read)
          \<or> (List.member [RA_ReadDisclose, RA_Write, RA_Delete] (pf_access p)
             \<and> protected_check (ev_lc V) (ev_glob V) (pe_protected E) r (pf_access p = RA_ReadDisclose) \<noteq> None))"

lemma forbidden_ref_stops: "forbidden_ref V E (cr_cwd Q) p \<Longrightarrow> path_step V E ctx Q s p \<noteq> Inr t"
  by (auto simp: forbidden_ref_def path_step_def Let_def split: option.splits)

text \<open>With the shell checks on, a command that names control data other than for inspection, or that would
  print, copy, write or delete a protected resource, is denied, whatever is granted or approved.\<close>

theorem forbidden_reference_denied:
  assumes "se_shell_protection_enabled (pe_settings E)" and "List.member (all_paths a) p"
    and "forbidden_ref V E cwd p"
  shows "\<exists>c m. evaluate_command V E a cwd text facts rd ctx = Deny c m"
proof -
  let ?Q = "command_request_of V E cwd text ctx"
  from assms(2) obtain f where f: "f \<in> set (ca_findings a)" "p \<in> set (fd_paths f)"
    by (auto simp: all_paths_def)
  have "path_step V E ctx ?Q s p \<noteq> Inr t" for s t
    using forbidden_ref_stops [of V E ?Q p] assms(3) by (simp add: command_request_of_def)
  then have "fold_until (path_step V E ctx ?Q) s (fd_paths f) \<noteq> Inr t" for s t
    using fold_until_reaches [of "path_step V E ctx ?Q" s "fd_paths f" t p "\<lambda>_. False"] f(2) by blast
  then have "finding_step V E facts rd ctx ?Q s f \<noteq> Inr t" for s t
    by (auto simp: finding_step_def and_then_Inr)
  with assms(1) f(1) show ?thesis by (blast intro: stopping_finding_denied)
qed

text \<open>With the shell checks on, a command whose official text (commit message, trailer, pull-request body, inline or in a
  file it names) matches an attribution pattern or a locally blocked phrase is denied.\<close>

theorem attributed_text_denied:
  assumes "se_shell_protection_enabled (pe_settings E)" and "List.member (ca_findings a) f"
    and "List.member (official_texts V E rd cwd f) t"
    and "List.member (map snd attribution_patterns @ pe_extra_attribution E) pat"
    and "re_find (ev_regex V) pat t = Some hit"
  shows "\<exists>c m. evaluate_command V E a cwd text facts rd ctx = Deny c m"
proof (rule stopping_finding_denied [OF assms(1)])
  let ?Q = "command_request_of V E cwd text ctx"
  have "find_attribution (ev_regex V) t (pe_extra_attribution E) \<noteq> None"
    using assms(4,5) find_attribution_None [of "ev_regex V" t "pe_extra_attribution E"] by fastforce
  then have "List.map_filter (\<lambda>t. find_attribution (ev_regex V) t (pe_extra_attribution E))
      (official_texts V E rd cwd f) \<noteq> []"
    using assms(3) by (auto simp: List.map_filter_def filter_empty_conv)
  then have "attribution_step V E rd ?Q f s \<noteq> Inr s'" for s s'
    by (auto simp: attribution_step_def command_request_of_def split: list.splits)
  then show "finding_step V E facts rd ctx ?Q s f \<noteq> Inr t" for s t
    by (auto simp: finding_step_def and_then_Inr)
qed (use assms(2) in simp)

section \<open>What an allowed command may write\<close>

lemma evaluate_fs_approval_scope:
  assumes "evaluate_fs V E p a ctx = RequireApproval r"
  shows "ar_session_scope r = external_scope p a \<and> \<not> held V ctx (external_scope p a)"
  using assms
  by (auto simp: evaluate_fs_cases evaluate_external_def external_requirement_def
      split: if_splits path_class.splits option.splits)

text \<open>A requirement left open: not exact, and not covered by a grant.\<close>

definition open_requirement :: "policy_env \<Rightarrow> policy_context \<Rightarrow> approval_requirement \<Rightarrow> bool" where
  "open_requirement V ctx r \<longleftrightarrow> \<not> is_exact (ar_session_scope r) \<and> \<not> held V ctx (ar_session_scope r)"

definition write_accounted ::
    "policy_env \<Rightarrow> policy_engine \<Rightarrow> policy_context \<Rightarrow> path_ref \<Rightarrow> string \<Rightarrow> eval_state \<Rightarrow> bool" where
  "write_accounted V E ctx p r s \<longleftrightarrow>
     is_allow (evaluate_fs V E r (write_op (pf_access p)) ctx)
     \<or> (\<exists>q \<in> set (es_approvals s). open_requirement V ctx q)"

lemma write_step_accounts:
  assumes "write_step V E ctx Q p r s = Inr t" and "is_write_ref p"
  shows "write_accounted V E ctx p r t"
  using assms evaluate_fs_approval_scope [of V E r "write_op (pf_access p)" ctx]
  by (auto simp: write_step_def write_accounted_def open_requirement_def shell_requirement_def
      split: decision.splits)

lemma path_step_accounts:
  assumes "path_step V E ctx Q s p = Inr t" and "is_write_ref p"
    and "resolve_command_path V E (pf_raw p) (cr_cwd Q) = Some r"
  shows "write_accounted V E ctx p r t"
  using assms write_step_accounts [of V E ctx Q p r _ t]
  by (auto simp: path_step_def Let_def split: option.splits if_splits)

lemma write_accounted_mono:
  "write_accounted V E ctx p r s \<Longrightarrow> set (es_approvals s) \<subseteq> set (es_approvals t) \<Longrightarrow> write_accounted V E ctx p r t"
  by (auto simp: write_accounted_def)

lemma finding_step_accounts:
  assumes "finding_step V E facts rd ctx Q s f = Inr t" and "p \<in> set (fd_paths f)" and "is_write_ref p"
    and "resolve_command_path V E (pf_raw p) (cr_cwd Q) = Some r"
  shows "write_accounted V E ctx p r t"
proof -
  from assms(1) obtain s4 where "fold_until (path_step V E ctx Q) s4 (fd_paths f) = Inr t"
    by (auto simp: finding_step_def and_then_Inr)
  then show ?thesis
    by (rule fold_until_reaches [where Q = "write_accounted V E ctx p r", OF _ assms(2)])
       (use path_step_accounts [OF _ assms(3,4)] write_accounted_mono path_step_keeps in blast)+
qed

lemma final_requirements_keeps: "set (es_approvals s) \<subseteq> set (es_approvals (final_requirements Q a s))"
  by (auto simp: final_requirements_def Let_def)

lemma set_risk_descending [simp]: "set (risk_descending rs) = set rs"
  by (simp add: risk_descending_def)

lemma combine_open_exact:
  assumes "q \<in> set rs" and "\<not> is_exact (ar_session_scope q)"
  shows "ar_session_scope (combine_approvals Q rs) = exact_command Q"
proof (cases "length rs > 1")
  case False
  with assms(1) have "rs = [q]" by (cases rs) auto
  with assms(2) show ?thesis by (simp add: combine_approvals_def)
qed (simp add: combine_approvals_def Let_def)

lemma decide_command_open:
  assumes "is_allow (decide_command V ctx Q s)" and "q \<in> set (es_approvals s)" and "open_requirement V ctx q"
  shows "held V ctx (exact_command Q)"
proof -
  have "\<not> list_all (\<lambda>a. held V ctx (ar_session_scope a)) (risk_descending (es_approvals s))"
    using assms(2,3) by (auto simp: list_all_iff open_requirement_def)
  moreover have "ar_session_scope (combine_approvals Q (risk_descending (es_approvals s))) = exact_command Q"
    using assms(2,3) by (intro combine_open_exact [of q]) (auto simp: open_requirement_def)
  ultimately show ?thesis
    using assms(1,2) by (auto simp: decide_command_def Let_def split: if_splits)
qed


section \<open>What an approval request says\<close>

lemma risk_le_rank: "a \<le> b \<longleftrightarrow> risk_rank a \<le> risk_rank b"
  by (simp add: less_eq_risk_def)

lemma risk_rank_bound: "risk_rank r \<le> 3"
  by (simp add: risk_rank_def split: risk.split)

lemma hd_risk_descending:
  assumes "a \<in> set rs"
  shows "ar_risk a \<le> ar_risk (hd (risk_descending rs))"
proof -
  let ?k = "\<lambda>r. 3 - risk_rank (ar_risk r)"
  obtain x xs where xs: "risk_descending rs = x # xs"
    using assms by (cases "risk_descending rs") (use set_risk_descending [of rs] in auto)
  have "sorted (map ?k (risk_descending rs))" by (simp add: risk_descending_def)
  moreover have "a \<in> set (risk_descending rs)" using assms by simp
  ultimately have "?k x \<le> ?k a" unfolding xs by auto
  with risk_rank_bound [of "ar_risk a"] risk_rank_bound [of "ar_risk x"] show ?thesis
    by (simp add: xs risk_le_rank)
qed

lemma combine_approvals_sel:
  assumes "rs \<noteq> []"
  shows "ar_risk (combine_approvals Q rs) = ar_risk (hd rs)"
    "is_exact (ar_session_scope (combine_approvals Q rs))"
    "a \<in> set rs \<Longrightarrow> set (ar_paths a) \<subseteq> set (ar_paths (combine_approvals Q rs))"
proof -
  have "length rs = 1 \<or> length rs > 1" using assms by (cases rs) auto
  then show "ar_risk (combine_approvals Q rs) = ar_risk (hd rs)"
    "is_exact (ar_session_scope (combine_approvals Q rs))"
    "a \<in> set rs \<Longrightarrow> set (ar_paths a) \<subseteq> set (ar_paths (combine_approvals Q rs))"
    using assms
    by (auto simp: combine_approvals_def Let_def exact_command_def length_Suc_conv)
qed

text \<open>When a command needs approval, the one request the user sees names every path any part of the command needs approval for,
  carries the highest risk of its parts, quotes the command, and its session scope is exact, so granting it never opens a
  directory.\<close>

theorem combined_approval:
  assumes "decide_command V ctx Q s = RequireApproval r" and "List.member (es_approvals s) q"
  shows "ar_risk q \<le> ar_risk r \<and> set (ar_paths q) \<subseteq> set (ar_paths r)
    \<and> ar_command r = Some (cr_text Q) \<and> is_exact (ar_session_scope r)"
proof -
  let ?rs = "risk_descending (es_approvals s)"
  have ne: "?rs \<noteq> []" using assms(2) by (auto simp flip: set_empty)
  have r: "r = (combine_approvals Q ?rs)\<lparr>ar_command := Some (cr_text Q)\<rparr>"
    using assms(1) by (auto simp: decide_command_def Let_def split: if_splits)
  have "q \<in> set ?rs" using assms(2) by simp
  then show ?thesis
    using combine_approvals_sel [OF ne, where Q = Q] hd_risk_descending [of q "es_approvals s"] assms(2)
    by (simp add: r)
qed

lemma evaluate_fs_exact_grant:
  assumes "is_exact g"
  shows "evaluate_fs V E p a (add_grant g ctx) = evaluate_fs V E p a ctx"
proof -
  have "\<not> scope_covers (ev_lc V) g (external_scope p a)"
    using exact_covers_exact_only [OF assms] by fastforce
  then show ?thesis
    by (simp add: evaluate_fs_cases evaluate_external_def held_add_grant split: path_class.split cache_area.split)
qed

lemma command_request_of_grant [simp]:
  "command_request_of V E cwd text (add_grant g ctx) = command_request_of V E cwd text ctx"
  by (simp add: command_request_of_def split: path_class.split cache_area.split)

lemma finding_step_exact_grant:
  assumes "is_exact g"
  shows "finding_step V E facts rd (add_grant g ctx) Q = finding_step V E facts rd ctx Q"
proof -
  have eq: "write_step V E (add_grant g ctx) Q = write_step V E ctx Q"
    by (intro ext) (simp add: write_step_def evaluate_fs_exact_grant [OF assms])
  have "path_step V E (add_grant g ctx) Q s p = path_step V E ctx Q s p" for s p
    unfolding path_step_def eq by (rule refl)
  then have "path_step V E (add_grant g ctx) Q = path_step V E ctx Q" by (intro ext)
  then show ?thesis by (intro ext) (simp add: finding_step_def)
qed

lemma command_grant_effective:
  assumes "evaluate_command V E a cwd text facts rd ctx = RequireApproval r"
  shows "is_exact (ar_session_scope r)
    \<and> is_allow (evaluate_command V E a cwd text facts rd (add_grant (ar_session_scope r) ctx))"
proof -
  let ?Q = "command_request_of V E cwd text ctx" and ?s = "\<lparr>es_warnings = [], es_approvals = []\<rparr>"
  let ?g = "ar_session_scope r"
  obtain t where t: "fold_until (finding_step V E facts rd ctx ?Q) ?s (ca_findings a) = Inr t"
      and d: "decide_command V ctx ?Q (final_requirements ?Q a t) = RequireApproval r"
    using assms fold_finding_steps [of ?s V E facts rd ctx ?Q "ca_findings a"]
    by (auto simp: evaluate_command_def Let_def grows_def split: if_splits sum.splits)
  let ?f = "final_requirements ?Q a t"
  have ne: "es_approvals ?f \<noteq> []" using d by (auto simp: decide_command_def)
  then have rne: "risk_descending (es_approvals ?f) \<noteq> []" using set_risk_descending by (metis set_empty)
  have scope: "?g = ar_session_scope (combine_approvals ?Q (risk_descending (es_approvals ?f)))"
    using d ne by (auto simp: decide_command_def Let_def split: if_splits)
  have ex: "is_exact ?g" using combine_approvals_sel(2) [OF rne] by (simp add: scope)
  have "held V (add_grant ?g ctx) (ar_session_scope (combine_approvals ?Q (risk_descending (es_approvals ?f))))"
    by (simp add: held_add_grant scope scope.covers_refl)
  then have "is_allow (decide_command V (add_grant ?g ctx) ?Q ?f)"
    using ne by (simp add: decide_command_def Let_def)
  with t assms ex show ?thesis
    by (auto simp: evaluate_command_def Let_def finding_step_exact_grant split: if_splits)
qed

text \<open>An approved command runs: when the evaluator asks for approval of a command, holding the scope it
  asked for as a session grant makes the same command in the same directory allowed, and the scope is exact.\<close>

theorem command_approval_effective:
  assumes "evaluate_command V E a cwd text facts rd ctx = RequireApproval r"
  shows "is_exact (ar_session_scope r)
    \<and> is_allow (evaluate_command V E a cwd text facts rd (add_grant (ar_session_scope r) ctx))"
  using assms by (rule command_grant_effective)

section \<open>Git and administrative requests\<close>

lemma git_parse_push:
  "gc_kind (git_parse (''push'' # rest)) = GK_Push (fst (parse_push rest []))"
proof -
  have g: "skip_globals \<lparr>gg_cwd = None, gg_identities = []\<rparr> (''push'' # rest) =
      (\<lparr>gg_cwd = None, gg_identities = []\<rparr>, ''push'' # rest)"
    by (cases rest) (simp_all add: starts_with_def)
  have "to_ascii_lowercase ''push'' = ''push''" by code_simp
  then show ?thesis
    unfolding git_parse_def g
    by (simp add: git_subcommand_def read_only_subcommands_def local_mutation_subcommands_def Let_def
        split: prod.splits)
qed

text \<open>A plain push that names the default branch is never silent. For a push without value-taking options, when one of its
  refspecs is a branch refspec whose destination is a default branch (in any letter case) and the local
  settings allow neither automatic pushes to it nor destructive operations, the decision is an approval
  request.\<close>

theorem default_branch_push_needs_approval:
  assumes "value_free rest" and "List.member (push_refspecs rest) r" and "branch_refspec r"
    and "is_default_branch facts (refspec_branch r)" and "refspec_branch r \<noteq> ''HEAD''"
    and "\<not> se_allow_auto_push_default_branch (pe_settings E)" and "\<not> se_allow_destructive (pe_settings E)"
  shows "\<exists>q. evaluate_git_kind E (git_parse (''push'' # rest)) facts text key = RequireApproval q"
proof -
  let ?spec = "fst (parse_push rest [])"
  have "refspec_branch r \<in> set (sp_destinations ?spec)"
    using parse_push_value_free(3) [OF assms(1)] assms(2,3) by auto
  then have "refspec_branch r \<in> set (push_targets ?spec facts)"
    using assms(5) by (force simp: push_targets_def Let_def)
  then have "list_ex (is_default_branch facts) (push_targets ?spec facts)"
    using assms(4) by (auto simp: list_ex_iff)
  then show ?thesis
    using assms(6,7) by (simp add: evaluate_git_kind_def git_parse_push evaluate_push_def git_destructive_def)
qed

text \<open>A forced or deleting push is an approval request at the highest Git risk or, when the settings allow destructive Git
  operations, an allowance that says so; for a push without value-taking options the force is found in every
  spelling: \<^verbatim>\<open>-f\<close>, \<^verbatim>\<open>--force\<close>, \<^verbatim>\<open>--mirror\<close>, \<^verbatim>\<open>--force-with-lease\<close>, a combined short option, a \<^verbatim>\<open>+\<close> refspec.\<close>

theorem forced_push_needs_approval:
  assumes "value_free rest"
    and "list_ex force_flag rest \<or> list_ex delete_flag rest
      \<or> list_ex (\<lambda>r. starts_with r ''+'') (push_refspecs rest)
      \<or> list_ex (\<lambda>r. rf_src (parse_refspec r) = []) (push_refspecs rest)"
    and "\<not> se_allow_destructive (pe_settings E)"
  shows "\<exists>q. evaluate_git_kind E (git_parse (''push'' # rest)) facts text key = RequireApproval q
    \<and> ar_category q = ''git_destructive'' \<and> ar_risk q = High"
proof -
  let ?spec = "fst (parse_push rest [])"
  have "sp_force ?spec \<or> sp_delete ?spec"
    using parse_push_value_free(1,2) [OF assms(1)] assms(2) by auto
  then show ?thesis
    using assms(3)
    by (auto simp: evaluate_git_kind_def git_parse_push evaluate_push_def git_destructive_def
        simple_requirement_def)
qed

lemma config_fault_denied:
  assumes "pe_config_fault E" and "is_mutation acc" and "gc_kind g \<noteq> GK_ReadOnly"
  shows "(\<exists>c m. evaluate_fs V E p acc ctx = Deny c m)
    \<and> (\<exists>c m. evaluate_command V E a cwd text facts rd ctx = Deny c m)
    \<and> (\<exists>c m. evaluate_git_structured V E g gf ctx = Deny c m)
    \<and> (\<exists>c m. evaluate_admin V E summary digest ctx = Deny c m)"
  using assms
  by (simp add: evaluate_fs_cases evaluate_command_def evaluate_git_structured_def evaluate_admin_def)

text \<open>Damaged settings close every door: with a configuration fault no file change, no command and no
  administrative operation is allowed or can be approved, and of Git only reads are answered otherwise.\<close>

theorem config_fault_denies:
  assumes "pe_config_fault E" and "is_mutation acc" and "gc_kind g \<noteq> GK_ReadOnly"
  shows "(\<exists>c m. evaluate_fs V E p acc ctx = Deny c m)
    \<and> (\<exists>c m. evaluate_command V E a cwd text facts rd ctx = Deny c m)
    \<and> (\<exists>c m. evaluate_git_structured V E g gf ctx = Deny c m)
    \<and> (\<exists>c m. evaluate_admin V E summary digest ctx = Deny c m)"
  using assms by (rule config_fault_denied)

text \<open>An administrative operation is allowed only when this very operation (its digest) was approved for
  the session and the settings are intact, and otherwise asks at critical risk; no path approval and no
  approval of another operation counts.\<close>

theorem admin_allowed_iff:
  "is_allow (evaluate_admin V E summary digest ctx) \<longleftrightarrow>
     \<not> pe_config_fault E \<and> (\<exists>label. List.member (px_session_grants ctx) (Exact (''admin:'' @ digest) label))"
proof -
  have "scope_covers lc g (Exact k l) \<longleftrightarrow> (\<exists>l'. g = Exact k l')" for lc g k l
    by (cases g) auto
  then show ?thesis
    by (auto simp: evaluate_admin_def Let_def held_def list_ex_iff)
qed

end
