(* ===== verification/Policy_Examples.thy ===== *)
theory Policy_Examples
  imports Policy
begin

text \<open>
  The policy properties at concrete inputs, and the inputs at which the preflight of raw commands says less than its
  comments promise.
\<close>

section \<open>A concrete engine\<close>

text \<open>Instances of the parameters, a workspace, an application directory and one protected directory: the inputs at which the
  properties are exercised.\<close>

definition demo_env :: policy_env where
  "demo_env =
     \<lparr>ev_lc = to_ascii_lowercase, ev_uc = to_ascii_uppercase,
      ev_glob = \<lparr>ge_valid = (\<lambda>_. True), ge_set_ok = (\<lambda>_. True), ge_match = (\<lambda>p n. p = n)\<rparr>,
      ev_regex = \<lparr>re_find = (\<lambda>p s. if contains_str s ''by Claude'' then Some s else None), re_ok = (\<lambda>_. True)\<rparr>,
      ev_open = (\<lambda>_ _. Inl \<lparr>ioe_os = Some 5, ioe_not_found = False, ioe_text = ''access denied''\<rparr>),
      ev_var = (\<lambda>_. None), ev_sha256_hex = (\<lambda>s. s)\<rparr>"

definition demo_settings :: settings where
  "demo_settings =
     \<lparr>se_protected_paths = ProtectedPathSettings_default, se_shell_protection_enabled = True,
      se_allow_auto_push_default_branch = False, se_allow_destructive = False,
      se_extra_blocked_attribution_patterns = [], se_system_install_policy = IP_RequireApproval,
      se_external_write_grants = []\<rparr>"

definition demo_rules :: protected_rules where
  "demo_rules = \<lparr>pr_directories = [(''vault'', bs ''C:/vault'')], pr_files = [], pr_generic = [],
     pr_exceptions = [], pr_source_exts = [], pr_allow_env_reads = False, pr_mutation_exceptions = []\<rparr>"

definition demo_engine :: policy_engine where
  "demo_engine =
     \<lparr>pe_settings = demo_settings,
      pe_roots = layout_roots (with_root (bs ''C:/App'')) (bs ''C:/Projects'') None,
      pe_protected = demo_rules, pe_env = \<lparr>ee_profile = Some (bs ''C:/Users/me''), ee_vars = []\<rparr>,
      pe_config_fault = False, pe_extra_attribution = []\<rparr>"

definition demo_ctx :: policy_context where
  "demo_ctx = \<lparr>px_principal_id = ''p1'', px_entry = RawShell, px_session_grants = [], px_owns_task = (\<lambda>_. False)\<rparr>"

definition demo_facts :: git_facts where
  "demo_facts = \<lparr>gf_repo_root = None, gf_current_branch = Some ''work'', gf_upstream_branch = None,
     gf_default_branches = [''main''], gf_rewrites_published_history = False\<rparr>"

definition demo_analysis :: "finding list \<Rightarrow> command_analysis" where
  "demo_analysis fs = \<lparr>ca_kind = SK_Cmd, ca_findings = fs, ca_parse_errors = []\<rparr>"

definition demo_decide :: "command_analysis \<Rightarrow> string \<Rightarrow> decision" where
  "demo_decide a text = evaluate_command demo_env demo_engine a (bs ''C:/Projects'') text
     (\<lambda>_. demo_facts) (\<lambda>_. None) demo_ctx"

lemma demo_sel:
  "se_shell_protection_enabled (pe_settings demo_engine)" "\<not> pe_config_fault demo_engine"
  "pe_roots demo_engine = layout_roots (with_root (bs ''C:/App'')) (bs ''C:/Projects'') None"
  by (simp_all add: demo_engine_def demo_settings_def)

lemma demo_delete: "fst (cmd_findings quiet_analyzer (bs ''del C:/*'') 0 []) =
   [with_paths [\<lparr>pf_raw = bs ''C:/*'', pf_access = RA_Delete, pf_via = ''del''\<rparr>] (Finding_new Cat_Unknown ''del'' ''delete'')]"
  by code_simp

lemma demo_resolve: "resolve_command_path demo_env demo_engine (bs ''C:/*'') (bs ''C:/Projects'') = None"
  by code_simp

lemma demo_resolve2: "resolve_command_path demo_env demo_engine (bs ''C:/vault/k'') (bs ''C:/Projects'') = Some (bs ''C:/vault/k'')"
  by code_simp

lemma demo_resolve3: "resolve_command_path demo_env demo_engine ''out.txt'' (bs ''C:/Projects'') = Some (bs ''C:/Projects/out.txt'')"
  by code_simp

lemma demo_fs: "evaluate_fs demo_env demo_engine (bs ''C:/other/x.txt'') FA_Write demo_ctx =
   RequireApproval (external_requirement (bs ''C:/other/x.txt'') FA_Write)"
  by code_simp
lemma demo_cwd:
  "classify_class to_ascii_lowercase (pe_roots demo_engine) (bs ''C:/Projects'') = Trusted"
  "protected_check to_ascii_lowercase (ev_glob demo_env) demo_rules (bs ''C:/Projects'') True = None"
  by code_simp+

lemma demo_out:
  "classify_class to_ascii_lowercase (pe_roots demo_engine) (bs ''C:/Projects/out.txt'') = Trusted"
  "protected_check to_ascii_lowercase (ev_glob demo_env) demo_rules (bs ''C:/Projects/out.txt'') False = None"
  by code_simp+

lemma demo_env_sel [simp]: "ev_lc demo_env = to_ascii_lowercase" "pe_protected demo_engine = demo_rules"
  by (simp_all add: demo_env_def demo_engine_def)

definition demo_delete_finding :: "string \<Rightarrow> finding" where
  "demo_delete_finding raw =
     with_paths [\<lparr>pf_raw = raw, pf_access = RA_Delete, pf_via = ''del''\<rparr>] (Finding_new Cat_Unknown ''del'' ''delete'')"

lemmas step_defs = finding_step_def category_step_def attribution_step_def official_texts_def git_step_def
  gh_step_def path_step_def write_step_def final_requirements_def

lemma with_paths_other [simp]:
  "fd_official_texts (with_paths ps f) = fd_official_texts f" "fd_official_refs (with_paths ps f) = fd_official_refs f"
  "fd_identity_values (with_paths ps f) = fd_identity_values f" "fd_gh (with_paths ps f) = fd_gh f"
  "fd_official_text_files (with_paths ps f) = fd_official_text_files f"
  "fd_program (with_paths ps f) = fd_program f" "fd_detail (with_paths ps f) = fd_detail f"
  by (simp_all add: with_paths_def)

definition demo_request :: "string \<Rightarrow> command_request" where
  "demo_request text = \<lparr>cr_cwd = bs ''C:/Projects'', cr_text = text, cr_key = bs ''C:/Projects'' @ [LF] @ text,
     cr_cwd_trusted = True\<rparr>"

lemma demo_request_of: "command_request_of demo_env demo_engine (bs ''C:/Projects'') text demo_ctx = demo_request text"
proof -
  have "ev_sha256_hex demo_env s = s" for s by (simp add: demo_env_def)
  with demo_cwd(1) show ?thesis by (simp add: command_request_of_def demo_request_def)
qed

lemma demo_request_sel [simp]:
  "cr_cwd (demo_request text) = bs ''C:/Projects''" "cr_text (demo_request text) = text"
  "cr_cwd_trusted (demo_request text)"
  by (simp_all add: demo_request_def)

lemma demo_evaluate:
  "demo_decide a text =
     (case fold_until (finding_step demo_env demo_engine (\<lambda>_. demo_facts) (\<lambda>_. None) demo_ctx (demo_request text))
             \<lparr>es_warnings = [], es_approvals = []\<rparr> (ca_findings a) of
        Inl d \<Rightarrow> d
      | Inr s \<Rightarrow> decide_command demo_env demo_ctx (demo_request text) (final_requirements (demo_request text) a s))"
  using demo_cwd demo_sel(1,2)
  by (simp add: demo_decide_def evaluate_command_def demo_request_of Let_def)

lemma demo_all: "is_allow (demo_decide (demo_analysis [demo_delete_finding ''out.txt'']) ''del out.txt'')"
proof -
  have "evaluate_fs demo_env demo_engine (bs ''C:/Projects/out.txt'') FA_Delete demo_ctx = Allow []"
    using demo_out demo_sel(2) by (simp add: evaluate_fs_cases is_mutation_def)
  moreover have "resolve_command_path demo_env demo_engine ''out.txt'' (bs ''C:/Projects'') = Some (bs ''C:/Projects/out.txt'')"
    by code_simp
  ultimately show ?thesis
    by (simp add: demo_evaluate demo_analysis_def demo_delete_finding_def step_defs demo_out is_write_ref_def write_op_def
        decide_command_def)
qed

section \<open>Gaps in the preflight\<close>

text \<open>A wildcard at the root of a drive leaves the directory \<^verbatim>\<open>C:\<close>, which does not normalize; the reference is not resolved, and
  from a trusted working directory the deletion is allowed with a warning only.\<close>

theorem drive_root_delete_allowed:
  "demo_decide (analyze_cmd quiet_analyzer (bs ''del C:/*'')) (bs ''del C:/*'') =
     Allow [''unclassified command '' @ quoted ''del'', ''could not resolve path '' @ quoted (bs ''C:/*'')]"
proof -
  have a: "analyze_cmd quiet_analyzer (bs ''del C:/*'') = demo_analysis [demo_delete_finding (bs ''C:/*'')]"
    by code_simp
  show ?thesis
    unfolding a
    by (simp add: demo_evaluate demo_analysis_def demo_delete_finding_def step_defs is_write_ref_def write_op_def demo_resolve
        decide_command_def warn_def)
qed

text \<open>Destinations that name the default branch in a spelling \<^verbatim>\<open>git\<close> accepts and the comparison does not: a
  partially qualified name, the alias of \<^verbatim>\<open>HEAD\<close> and a wildcard over all branches.\<close>

theorem default_branch_push_spellings:
  "list_all (\<lambda>r. evaluate_git_kind demo_engine (git_parse [''push'', ''origin'', r])
       (demo_facts\<lparr>gf_current_branch := Some ''main''\<rparr>) [] [] = Allow [])
     [''heads/main'', ''@'', ''refs/heads/*:refs/heads/*'']"
  by code_simp

section \<open>Witnesses\<close>

theorem control_data_denied_witness:
  "\<exists>c m. evaluate_fs demo_env demo_engine (path_join (path_join (bs ''C:/App'') ''config'') ''settings.json'')
     FA_Read demo_ctx = Deny c m"
proof (rule control_data_denied [of "bs ''C:/App''" "''config''" "''settings.json''"])
  show "drive_path (bs ''C:/App'')" by code_simp
  show "ev_lc demo_env ''config'' \<noteq> ev_lc demo_env ''cache''" by code_simp
qed (simp_all add: demo_sel)

theorem protected_directory_denied_witness:
  "\<exists>c m. evaluate_fs demo_env demo_engine (bs ''C:/vault/k'') FA_Read demo_ctx = Deny c m"
  by (rule protected_directory_denied [of _ "''vault''" "bs ''C:/vault''"]) code_simp+

theorem session_approval_effective_witness:
  "is_allow (evaluate_fs demo_env demo_engine (bs ''C:/other/x.txt'') FA_Write
     (add_grant (ar_session_scope (external_requirement (bs ''C:/other/x.txt'') FA_Write)) demo_ctx))"
  using session_approval_effective [OF demo_fs] by blast

theorem credential_and_admin_denied_witness:
  "\<exists>c m. demo_decide (demo_analysis [Finding_new Cat_CredentialAccess ''mimikatz'' ''credential dumping tool'']) ''mimikatz''
     = Deny c m"
  unfolding demo_decide_def
  by (rule credential_and_admin_denied [OF demo_sel(1),
        where f = "Finding_new Cat_CredentialAccess ''mimikatz'' ''credential dumping tool''"])
     (simp_all add: demo_analysis_def)

lemma demo_vault: "starts_with_ci (ev_lc demo_env) (bs ''C:/vault/k'') (bs ''C:/vault'')"
  by code_simp

lemma demo_forbidden:
  "forbidden_ref demo_env demo_engine (bs ''C:/Projects'') \<lparr>pf_raw = bs ''C:/vault/k'', pf_access = RA_Delete, pf_via = ''del''\<rparr>"
proof -
  have "protected_check (ev_lc demo_env) (ev_glob demo_env) (pe_protected demo_engine) (bs ''C:/vault/k'') False \<noteq> None"
    using protected_check_directory [of "''vault''" "bs ''C:/vault''" demo_rules "ev_lc demo_env" "bs ''C:/vault/k''"]
      demo_vault by (fastforce simp: demo_rules_def)
  then show ?thesis by (simp add: forbidden_ref_def demo_resolve2)
qed

theorem forbidden_reference_denied_witness:
  "\<exists>c m. demo_decide (demo_analysis [demo_delete_finding (bs ''C:/vault/k'')]) (bs ''del C:/vault/k'') = Deny c m"
  unfolding demo_decide_def
  by (rule forbidden_reference_denied [OF demo_sel(1) _ demo_forbidden])
     (simp add: demo_analysis_def all_paths_def demo_delete_finding_def)

theorem attributed_text_denied_witness:
  "\<exists>c m. demo_decide (demo_analysis [(Finding_new Cat_GitSafe ''git'' ''git commit'')
     \<lparr>fd_official_texts := [''Fix. Written by Claude'']\<rparr>]) ''git commit'' = Deny c m"
  unfolding demo_decide_def
proof (rule attributed_text_denied [OF demo_sel(1), where f = "(Finding_new Cat_GitSafe ''git'' ''git commit'')
     \<lparr>fd_official_texts := [''Fix. Written by Claude'']\<rparr>"])
  show "List.member (map snd attribution_patterns @ pe_extra_attribution demo_engine) (snd (hd attribution_patterns))"
    by (simp add: attribution_patterns_def)
  show "re_find (ev_regex demo_env) (snd (hd attribution_patterns)) ''Fix. Written by Claude'' = Some ''Fix. Written by Claude''"
    by (simp add: demo_env_def starts_with_def)
qed (simp_all add: demo_analysis_def official_texts_def)


definition demo_change :: finding where
  "demo_change = Finding_new Cat_SystemChange ''setx'' ''user environment variable change''"

lemma demo_change_approval:
  "demo_decide (demo_analysis [demo_change]) ''setx A B'' =
     RequireApproval (simple_requirement ''system_change''
       (''user environment variable change'' @ '' changes user or system configuration.'')
       ''Modifies configuration outside the trusted workspace.'' High [] ''setx A B'' (exact_command (demo_request ''setx A B'')))"
  by (simp add: demo_evaluate demo_analysis_def demo_change_def step_defs decide_command_def combine_approvals_def
      risk_descending_def held_def demo_ctx_def simple_requirement_def require_def exact_command_def exact_scope_def is_exact_def
      List.map_filter_def Let_def)

theorem command_approval_effective_witness:
  "\<exists>g. is_exact g \<and> is_allow (evaluate_command demo_env demo_engine (demo_analysis [demo_change]) (bs ''C:/Projects'') ''setx A B''
     (\<lambda>_. demo_facts) (\<lambda>_. None) (add_grant g demo_ctx))"
  using command_approval_effective [OF demo_change_approval [unfolded demo_decide_def]] by blast

theorem combined_approval_witness:
  "Medium \<le> High \<and> is_exact (ar_session_scope (combine_approvals (demo_request ''x'')
     (risk_descending [unknown_external (demo_request ''x'') ''r'', external_requirement (bs ''C:/a/b'') FA_Delete])))"
proof -
  let ?s = "\<lparr>es_warnings = [], es_approvals = [unknown_external (demo_request ''x'') ''r'', external_requirement (bs ''C:/a/b'') FA_Delete]\<rparr>"
  let ?c = "combine_approvals (demo_request ''x'') (risk_descending (es_approvals ?s))"
  have "decide_command demo_env demo_ctx (demo_request ''x'') ?s = RequireApproval (?c\<lparr>ar_command := Some ''x''\<rparr>)"
    by (simp add: decide_command_def held_def demo_ctx_def risk_descending_def)
  from combined_approval [OF this, of "unknown_external (demo_request ''x'') ''r''"] show ?thesis
    by (simp add: risk_le_rank risk_rank_def)
qed

theorem default_branch_push_needs_approval_witness:
  "\<exists>q. evaluate_git_kind demo_engine (git_parse [''push'', ''origin'', ''work:Main'']) demo_facts [] [] = RequireApproval q"
  by (rule default_branch_push_needs_approval [of "[''origin'', ''work:Main'']" "''work:Main''"]) code_simp+

theorem forced_push_needs_approval_witness:
  "\<exists>q. evaluate_git_kind demo_engine (git_parse [''push'', ''-uf'', ''origin'', ''work'']) demo_facts [] [] = RequireApproval q
    \<and> ar_category q = ''git_destructive'' \<and> ar_risk q = High"
  by (rule forced_push_needs_approval [of "[''-uf'', ''origin'', ''work'']"]) code_simp+

theorem config_fault_denies_witness:
  "\<exists>c m. evaluate_command demo_env (demo_engine\<lparr>pe_config_fault := True\<rparr>) (demo_analysis []) (bs ''C:/Projects'') ''dir''
     (\<lambda>_. demo_facts) (\<lambda>_. None) demo_ctx = Deny c m"
  using config_fault_denies [of "demo_engine\<lparr>pe_config_fault := True\<rparr>" FA_Write "git_parse [''push'']" demo_env "[]" demo_ctx
      "demo_analysis []" "bs ''C:/Projects''" "''dir''" "\<lambda>_. demo_facts" "\<lambda>_. None" demo_facts "[]" "[]"]
  by (simp add: is_mutation_def git_parse_push)

end
