(* ===== verification/Path_Props.thy ===== *)
theory Path_Props
  imports Classify
begin

text \<open>
  The guarantees of path handling that the policy rests on: the shape of a normalized path, what a canonical
  path hides, how far protection reaches and that classification does not depend on the spelling.
\<close>

text \<open>C27: Whatever the input, a path that normalizes is an absolute path on one drive letter whose components are exactly
  names free of control characters, wildcards, stream colons and separators, not empty, \<^verbatim>\<open>.\<close> or \<^verbatim>\<open>..\<close>, without trailing
  dots or blanks, and no reserved device name under any extension.\<close>

theorem normalized_path:
  assumes "normalize uc env inp base = Inr p" and "drive_path base"
  shows "\<exists>d parts. is_ascii_alphabetic d
    \<and> components p = Prefix (Disk d) [d, CHR '':''] # RootDir # map Normal parts
    \<and> list_all (\<lambda>n. valid_name n \<and> \<not> list_ex invalid_char n \<and> \<not> dot_or_blank (last n)
        \<and> \<not> List.member RESERVED (name_stem uc n)) parts"
  using normalize_shape [OF assms] by (auto simp: wf_normal_def list_all_iff safe_name_def)

theorem normalized_path_witness:
  "\<exists>d parts. is_ascii_alphabetic d
    \<and> components (bs ''C:/a/c.txt'') = Prefix (Disk d) [d, CHR '':''] # RootDir # map Normal parts"
proof -
  have "normalize to_ascii_uppercase \<lparr>ee_profile = None, ee_vars = []\<rparr> ''b/../c.txt. '' (bs ''C:/a'')
      = Inr (bs ''C:/a/c.txt'')" by code_simp
  from normalized_path [OF this] show ?thesis
    by (auto simp: drive_path_def bs_def is_ascii_alphabetic_def)
qed

text \<open>C26: A canonical path hides no link. When canonicalization succeeds, some prefix of the path was opened and its final
  name (all links followed) is the existing part, the rest is appended to it unchanged, and at every deeper
  position neither the object nor a link of that name exists.\<close>

theorem canonical_no_hidden_link:
  assumes "canonicalize op p ff = Inr c"
  shows "\<exists>k. k \<le> length (normal_names p) \<and> cn_tail c = drop k (normal_names p)
    \<and> cn_path c = push_all (cn_existing c) (cn_tail c)
    \<and> (\<exists>h t. op (push_all (root_of p) (take k (normal_names p))) (no_follow_at ff (normal_names p) k) = Inr h
         \<and> h_final_text h = Inr t \<and> final_path_of t = FP_Dos (cn_existing c))
    \<and> (\<forall>m. k < m \<and> m \<le> length (normal_names p) \<longrightarrow>
         \<not> is_ok (op (push_all (root_of p) (take m (normal_names p))) True))"
proof -
  from assms canonicalize_from_Inr obtain k h where k: "k \<le> length (normal_names p)"
      "op (push_all (root_of p) (take k (normal_names p))) (no_follow_at ff (normal_names p) k) = Inr h"
      "canonical_of h (drop k (normal_names p)) = Inr c"
      "\<forall>m. k < m \<and> m \<le> length (normal_names p) \<longrightarrow>
         \<not> is_ok (op (push_all (root_of p) (take m (normal_names p))) True)"
    unfolding canonicalize_def Let_def by blast
  with canonical_of_Inr [OF k(3)] show ?thesis by (intro exI [of _ k]) auto
qed

definition demo_disk :: win_open where
  "demo_disk p no_follow =
     (if p = bs ''C:/'' then
        Inr \<lparr>h_final_text = Inr (bs ''//?/C:/''),
             h_info = Inr \<lparr>fi_attributes = 0x10, fi_size = 0, fi_links = 1,
               fi_identity = \<lparr>fid_volume = 1, fid_id = 1\<rparr>, fi_modified_ms = 0\<rparr>\<rparr>
      else Inl \<lparr>ioe_os = Some 2, ioe_not_found = True, ioe_text = []\<rparr>)"

theorem canonical_no_hidden_link_witness:
  "\<exists>c k. canonicalize demo_disk (bs ''C:/new.txt'') True = Inr c \<and> cn_path c = bs ''C:/new.txt''
    \<and> cn_tail c = drop k (normal_names (bs ''C:/new.txt''))"
proof -
  have ok: "is_ok (canonicalize demo_disk (bs ''C:/new.txt'') True)" by code_simp
  then obtain c where c: "canonicalize demo_disk (bs ''C:/new.txt'') True = Inr c" by (auto simp: is_ok_iff)
  have "(case canonicalize demo_disk (bs ''C:/new.txt'') True of
      Inr c \<Rightarrow> cn_path c = bs ''C:/new.txt'' | Inl _ \<Rightarrow> False)" by code_simp
  with c canonical_no_hidden_link [OF c] show ?thesis by auto
qed

text \<open>Protection reaches down. When a path is protected as a directory, every path below it at any depth is, for reading and
  for writing, whatever its name and whatever the name exceptions are.\<close>

theorem protection_reaches_down:
  assumes "protected_check lc ge r path fr = Some q" and "pm_kind q = PK_Directory"
    and "drive_path path" and "list_all valid_name ns"
  shows "\<exists>q'. protected_check lc ge r (push_all path ns) fr' = Some q' \<and> pm_kind q' = PK_Directory"
  using assms
proof (induction ns arbitrary: path fr q)
  case Nil
  then show ?case
    using protected_check_kind_directory [OF Nil.prems(1,2)] protected_check_directory [of _ _ r lc path ge fr']
      protected_check_secret [of _ path lc ge r fr'] by fastforce
next
  case (Cons n ns)
  have n: "valid_name n" "list_all valid_name ns" using Cons.prems(4) by auto
  obtain q' where "protected_check lc ge r (path_join path n) fr = Some q'" "pm_kind q' = PK_Directory"
    using protected_check_below [OF Cons.prems(1,2,3) n(1)] by blast
  from Cons.IH [OF this path_join_drive_path [OF Cons.prems(3) n(1)] n(2)] show ?case by simp
qed

definition demo_ge :: glob_engine where
  "demo_ge = \<lparr>ge_valid = (\<lambda>_. True), ge_set_ok = (\<lambda>_. True), ge_match = (\<lambda>p n. p = n)\<rparr>"

theorem protection_reaches_down_witness:
  "\<exists>q'. protected_check to_ascii_lowercase demo_ge
     (ProtectedRules_new to_ascii_lowercase to_ascii_uppercase demo_ge demo_disk ProtectedPathSettings_default
        \<lparr>ee_profile = None, ee_vars = []\<rparr>)
     (push_all (bs ''C:/k/.ssh'') [''keys'', ''.env.example'']) False = Some q' \<and> pm_kind q' = PK_Directory"
proof -
  let ?r = "ProtectedRules_new to_ascii_lowercase to_ascii_uppercase demo_ge demo_disk ProtectedPathSettings_default
        \<lparr>ee_profile = None, ee_vars = []\<rparr>"
  have "List.member (components (bs ''C:/k/.ssh'')) (Normal ''.ssh'')" by code_simp
  moreover have "secret_component (Normal ''.ssh'')" by code_simp
  ultimately obtain q where "protected_check to_ascii_lowercase demo_ge ?r (bs ''C:/k/.ssh'') True = Some q"
      "pm_kind q = PK_Directory"
    using protected_check_secret [of "Normal ''.ssh''" "bs ''C:/k/.ssh''" to_ascii_lowercase demo_ge ?r True] by auto
  then show ?thesis
  proof (rule protection_reaches_down)
    show "drive_path (bs ''C:/k/.ssh'')" by code_simp
    show "list_all valid_name [''keys'', ''.env.example'']" by code_simp
  qed
qed

text \<open>Two spellings of the same path, equal component by component up to letter case, are both trusted, both control data or both
  external; inside the cache allowance both are cache paths.\<close>

theorem classification_ignores_case:
  assumes "eq_ci lc p q"
  shows "(classify_class lc r p = Trusted \<longleftrightarrow> classify_class lc r q = Trusted)
    \<and> (classify_class lc r p = ControlData \<longleftrightarrow> classify_class lc r q = ControlData)
    \<and> (classify_class lc r p = External \<longleftrightarrow> classify_class lc r q = External)"
  using classify_class_eq_ci [OF assms, of r] by auto

theorem classification_ignores_case_witness:
  "classify_class to_ascii_lowercase (layout_roots (with_root (bs ''C:/App'')) (bs ''C:/Projects'') None) (bs ''c:/PROJECTS/x'') = Trusted"
proof -
  have "eq_ci to_ascii_lowercase (bs ''c:/PROJECTS/x'') (bs ''C:/Projects/x'')" by code_simp
  moreover have "classify_class to_ascii_lowercase (layout_roots (with_root (bs ''C:/App'')) (bs ''C:/Projects'') None)
      (bs ''C:/Projects/x'') = Trusted" by code_simp
  ultimately show ?thesis using classification_ignores_case by blast
qed

end
