(* ===== verification/Db_Table.thy ===== *)
theory Db_Table
  imports Rust_Str "HOL-Library.Word"
begin

text \<open>
  The control database as the services see it. A table is the list of its rows in insertion order; the operations are
  the SQL statements the program issues: a row by primary key, an insertion that a primary-key conflict
  refuses, an update and a deletion under a \<^verbatim>\<open>WHERE\<close> condition. The interface the services rely on is the
  locale \<open>row_store\<close>; the theory of each service interprets it on its own tables. Columns that hold JSON are
  held parsed. \<^verbatim>\<open>time.rs\<close> and the parts of the outside world an operation reads (the clock, a new identifier,
  whether the database accepts a write) are here too.
\<close>

section \<open>Time and the outside world\<close>

definition MINUTE_MS :: int where
  "MINUTE_MS = 60000"

definition HOUR_MS :: int where
  "HOUR_MS = 60 * MINUTE_MS"

definition DAY_MS :: int where
  "DAY_MS = 24 * HOUR_MS"

text \<open>\<open>io_now\<close> is what \<^verbatim>\<open>time::now_ms\<close> returns during the operation, \<open>io_id\<close> the identifier \<^verbatim>\<open>ids::new_id\<close> makes,
  and \<open>io_db_ok\<close> whether the database takes the operation's write: when it does not, the write has no effect.\<close>

record io_env =
  io_now :: int
  io_id :: string
  io_db_ok :: bool

section \<open>JSON\<close>

text \<open>\<^verbatim>\<open>serde_json::Value\<close>; numbers are kept as their text.\<close>

datatype json =
    JNull
  | JBool bool
  | JNumber string
  | JString string
  | JArray "json list"
  | JObject "(string \<times> json) list"

section \<open>Tables\<close>

definition find_by :: "('r \<Rightarrow> 'k) \<Rightarrow> 'k \<Rightarrow> 'r list \<Rightarrow> 'r option" where
  "find_by key k rows = find (\<lambda>r. key r = k) rows"

definition insert_by :: "('r \<Rightarrow> 'k) \<Rightarrow> 'r \<Rightarrow> 'r list \<Rightarrow> 'r list option" where
  "insert_by key r rows = (if list_ex (\<lambda>x. key x = key r) rows then None else Some (rows @ [r]))"

definition update_where :: "('r \<Rightarrow> bool) \<Rightarrow> ('r \<Rightarrow> 'r) \<Rightarrow> 'r list \<Rightarrow> 'r list" where
  "update_where P f rows = map (\<lambda>r. if P r then f r else r) rows"

definition delete_where :: "('r \<Rightarrow> bool) \<Rightarrow> 'r list \<Rightarrow> 'r list" where
  "delete_where P rows = filter (\<lambda>r. \<not> P r) rows"

text \<open>The number of rows an update touches, which \<^verbatim>\<open>execute\<close> returns.\<close>

definition count_where :: "('r \<Rightarrow> bool) \<Rightarrow> 'r list \<Rightarrow> nat" where
  "count_where P rows = length (filter P rows)"

text \<open>\<^verbatim>\<open>ORDER BY created_at DESC LIMIT n\<close>; rows of the same time keep their order.\<close>

definition newest_first :: "('r \<Rightarrow> int) \<Rightarrow> nat \<Rightarrow> 'r list \<Rightarrow> 'r list" where
  "newest_first at n rows = take n (sort_key (\<lambda>r. - at r) rows)"

definition keyed :: "('r \<Rightarrow> 'k) \<Rightarrow> 'r list \<Rightarrow> bool" where
  "keyed key rows \<longleftrightarrow> distinct (map key rows)"

lemma find_by_Some: "find_by key k rows = Some r \<Longrightarrow> key r = k \<and> r \<in> set rows"
  by (auto simp: find_by_def dest: find_Some_in_set)

lemma find_by_None: "find_by key k rows = None \<longleftrightarrow> (\<forall>r\<in>set rows. key r \<noteq> k)"
  by (simp add: find_by_def find_None_set)

lemma find_by_keyed: "keyed key rows \<Longrightarrow> r \<in> set rows \<Longrightarrow> find_by key (key r) rows = Some r"
  by (induction rows) (auto simp: keyed_def find_by_def)

lemma find_by_append:
  "find_by key k (rows @ [r]) =
     (case find_by key k rows of None \<Rightarrow> if key r = k then Some r else None | Some x \<Rightarrow> Some x)"
  by (induction rows) (auto simp: find_by_def)

lemma find_by_update:
  assumes "\<And>r. key (f r) = key r"
  shows "find_by key k (update_where P f rows) = map_option (\<lambda>r. if P r then f r else r) (find_by key k rows)"
  by (induction rows) (auto simp: update_where_def find_by_def assms)

lemma set_delete_where [simp]: "set (delete_where P rows) = {r \<in> set rows. \<not> P r}"
  by (auto simp: delete_where_def)

lemma find_by_delete:
  assumes "keyed key rows"
  shows "find_by key k (delete_where P rows) =
    (case find_by key k rows of None \<Rightarrow> None | Some r \<Rightarrow> if P r then None else Some r)"
proof (cases "find_by key k rows")
  case None
  then have "find_by key k (delete_where P rows) = None" by (simp add: find_by_None)
  then show ?thesis using None by simp
next
  case (Some r)
  then have r: "key r = k" "r \<in> set rows" by (auto dest: find_by_Some)
  have kd: "keyed key (delete_where P rows)"
    using assms by (simp add: keyed_def delete_where_def distinct_map_filter)
  show ?thesis
  proof (cases "P r")
    case True
    have "x = r" if "x \<in> set rows" "key x = k" for x
      using find_by_keyed [OF assms that(1)] that(2) Some by simp
    then have "find_by key k (delete_where P rows) = None" using True by (auto simp: find_by_None)
    then show ?thesis using True Some by simp
  next
    case False
    then show ?thesis using find_by_keyed [OF kd, of r] r Some by simp
  qed
qed

section \<open>The interface of a keyed table\<close>

locale row_store =
  fixes key :: "'r \<Rightarrow> 'k"
    and look :: "'k \<Rightarrow> 't \<Rightarrow> 'r option"
    and put :: "'r \<Rightarrow> 't \<Rightarrow> 't option"
    and change :: "('r \<Rightarrow> bool) \<Rightarrow> ('r \<Rightarrow> 'r) \<Rightarrow> 't \<Rightarrow> 't"
    and remove :: "('r \<Rightarrow> bool) \<Rightarrow> 't \<Rightarrow> 't"
    and inv :: "'t \<Rightarrow> bool"
  assumes look_key: "look k t = Some r \<Longrightarrow> key r = k"
    and put_conflict: "put r t = None \<longleftrightarrow> look (key r) t \<noteq> None"
    and put_look: "put r t = Some t' \<Longrightarrow> look k t' = (if k = key r then Some r else look k t)"
    and change_look: "(\<And>r. key (f r) = key r) \<Longrightarrow>
      look k (change P f t) = map_option (\<lambda>r. if P r then f r else r) (look k t)"
    and remove_look: "inv t \<Longrightarrow>
      look k (remove P t) = (case look k t of None \<Rightarrow> None | Some r \<Rightarrow> if P r then None else Some r)"
    and put_inv: "inv t \<Longrightarrow> put r t = Some t' \<Longrightarrow> inv t'"
    and change_inv: "(\<And>r. key (f r) = key r) \<Longrightarrow> inv t \<Longrightarrow> inv (change P f t)"
    and remove_inv: "inv t \<Longrightarrow> inv (remove P t)"
begin

lemma put_keeps: "put r t = Some t' \<Longrightarrow> look k t = Some x \<Longrightarrow> look k t' = Some x"
  using put_look [of r t t' k] put_conflict [of r t] by auto

lemma put_new: "put r t = Some t' \<Longrightarrow> look (key r) t = None \<and> look (key r) t' = Some r"
  using put_look [of r t t' "key r"] put_conflict [of r t] by auto

lemma change_row:
  assumes "\<And>r. key (f r) = key r" and "look k t = Some r"
  shows "look k (change (\<lambda>x. key x = k') f t) = Some (if k = k' then f r else r)"
  using change_look [OF assms(1), of k "\<lambda>x. key x = k'" t] assms(2) look_key [OF assms(2)] by simp

lemma change_misses: "(\<And>r. key (f r) = key r) \<Longrightarrow> look k t = Some r \<Longrightarrow> \<not> P r \<Longrightarrow> look k (change P f t) = Some r"
  by (simp add: change_look)

lemma change_all_gone:
  assumes "\<And>r. key (f r) = key r" and "\<And>r. \<not> P (f r)" and "look k (change P f t) = Some r"
  shows "\<not> P r"
  using assms(3) assms(2) [of r] assms(2) by (auto simp: change_look [OF assms(1)] split: if_splits) metis

end

lemma list_row_store: "row_store key (find_by key) (insert_by key) update_where delete_where (keyed key)"
proof
  show "find_by key k t = Some r \<Longrightarrow> key r = k" for k t r
    by (drule find_by_Some) simp
  show "insert_by key r t = None \<longleftrightarrow> find_by key (key r) t \<noteq> None" for r t
    by (auto simp: insert_by_def list_ex_iff find_by_None simp del: not_None_eq)
  show "insert_by key r t = Some t' \<Longrightarrow> find_by key k t' = (if k = key r then Some r else find_by key k t)" for r t t' k
    using find_by_None [of key "key r" t]
    by (auto simp: insert_by_def list_ex_iff find_by_append split: if_splits option.split)
  show "(\<And>r. key (f r) = key r) \<Longrightarrow>
      find_by key k (update_where P f t) = map_option (\<lambda>r. if P r then f r else r) (find_by key k t)" for f k P t
    by (rule find_by_update)
  show "keyed key t \<Longrightarrow> find_by key k (delete_where P t) =
      (case find_by key k t of None \<Rightarrow> None | Some r \<Rightarrow> if P r then None else Some r)" for t k P
    by (rule find_by_delete)
  show "keyed key t \<Longrightarrow> insert_by key r t = Some t' \<Longrightarrow> keyed key t'" for t r t'
    by (force simp: insert_by_def list_ex_iff keyed_def split: if_splits)
  show "(\<And>r. key (f r) = key r) \<Longrightarrow> keyed key t \<Longrightarrow> keyed key (update_where P f t)" for f t P
    by (simp add: keyed_def update_where_def comp_def if_distrib cong: if_cong)
  show "keyed key t \<Longrightarrow> keyed key (delete_where P t)" for t P
    by (simp add: keyed_def delete_where_def distinct_map_filter)
qed

end
