(* ===== verification/Config.thy ===== *)
theory Config
  imports Evaluator Db_Table "HOL-Library.AList"
begin

text \<open>
  The settings document: \<^verbatim>\<open>workstation-core/src/config.rs\<close> with every section, the defaults, the validation, the
  migration of a raw document and the loader that falls back to the defaults with a fault. Machine
  integers keep their width. The JSON reader, the deserializer, the URL parser and the copy of a damaged file are
  parameters. \<open>policy_settings\<close> is the part the policy evaluator reads.
\<close>

unbundle bit_operations_syntax

type_synonym u16 = "16 word"
type_synonym u32 = "32 word"
type_synonym u64 = "64 word"

text \<open>The cast \<^verbatim>\<open>as i64\<close>.\<close>

definition as_i64 :: "u64 \<Rightarrow> int" where
  "as_i64 x = sint x"

definition i64_range :: "int \<Rightarrow> bool" where
  "i64_range x \<longleftrightarrow> - (2 ^ 63) \<le> x \<and> x < 2 ^ 63"

definition SCHEMA_VERSION :: u32 where
  "SCHEMA_VERSION = 1"

section \<open>Sections\<close>

record general_settings =
  gs_autostart :: bool
  gs_close_to_tray :: bool
  gs_start_minimized :: bool

definition GeneralSettings_default :: general_settings where
  "GeneralSettings_default = \<lparr>gs_autostart = True, gs_close_to_tray = True, gs_start_minimized = False\<rparr>"

datatype trusted_proxy = TP_None | CloudflareTunnel

record network_settings =
  ns_bind_address :: string
  ns_port :: u16
  ns_public_mcp_url :: "string option"
  ns_trusted_proxy :: trusted_proxy
  ns_max_request_body_bytes :: u64
  ns_extra_allowed_hosts :: "string list"

definition NetworkSettings_default :: network_settings where
  "NetworkSettings_default =
     \<lparr>ns_bind_address = ''127.0.0.1'', ns_port = 0, ns_public_mcp_url = None, ns_trusted_proxy = TP_None,
      ns_max_request_body_bytes = 8 * 1024 * 1024, ns_extra_allowed_hosts = []\<rparr>"

record auth_settings =
  au_access_token_ttl_seconds :: u64
  au_refresh_token_ttl_days :: u64
  au_authorization_code_ttl_seconds :: u64
  au_pending_connection_ttl_seconds :: u64
  au_allow_dynamic_client_registration :: bool
  au_max_registered_clients :: u64
  au_max_pending_connection_requests :: u64

definition AuthSettings_default :: auth_settings where
  "AuthSettings_default =
     \<lparr>au_access_token_ttl_seconds = 3600, au_refresh_token_ttl_days = 30, au_authorization_code_ttl_seconds = 120,
      au_pending_connection_ttl_seconds = 600, au_allow_dynamic_client_registration = True,
      au_max_registered_clients = 50, au_max_pending_connection_requests = 10\<rparr>"

record session_settings =
  ss_idle_timeout_minutes :: u64
  ss_absolute_lifetime_hours :: u64
  ss_pending_approval_minutes :: u64
  ss_terminate_tasks_on_revoke :: bool
  ss_terminate_tasks_on_expiry :: bool

definition SessionSettings_default :: session_settings where
  "SessionSettings_default =
     \<lparr>ss_idle_timeout_minutes = 30, ss_absolute_lifetime_hours = 8, ss_pending_approval_minutes = 10,
      ss_terminate_tasks_on_revoke = True, ss_terminate_tasks_on_expiry = False\<rparr>"

record concurrency_settings =
  cs_allow_multiple_agents :: bool
  cs_allow_any_authenticated_client :: bool
  cs_allowed_client_ids :: "string list"
  cs_max_simultaneous_clients :: u64
  cs_max_tasks_per_client :: u64
  cs_max_concurrent_calls_per_client :: u64
  cs_requests_per_minute :: u32
  cs_allow_multiple_writers_per_project :: bool
  cs_writer_lease_seconds :: u64

definition ConcurrencySettings_default :: concurrency_settings where
  "ConcurrencySettings_default =
     \<lparr>cs_allow_multiple_agents = True, cs_allow_any_authenticated_client = True, cs_allowed_client_ids = [],
      cs_max_simultaneous_clients = 8, cs_max_tasks_per_client = 8, cs_max_concurrent_calls_per_client = 16,
      cs_requests_per_minute = 600, cs_allow_multiple_writers_per_project = False, cs_writer_lease_seconds = 300\<rparr>"

record process_settings =
  pc_powershell_executable :: string
  pc_default_timeout_seconds :: u64
  pc_max_timeout_seconds :: u64
  pc_foreground_wait_seconds :: u64
  pc_max_output_bytes_per_task :: u64
  pc_terminate_tasks_on_restart :: bool
  pc_max_command_length :: u64

definition ProcessSettings_default :: process_settings where
  "ProcessSettings_default =
     \<lparr>pc_powershell_executable = ''powershell.exe'', pc_default_timeout_seconds = 30 * 60,
      pc_max_timeout_seconds = 24 * 60 * 60, pc_foreground_wait_seconds = 60,
      pc_max_output_bytes_per_task = 16 * 1024 * 1024, pc_terminate_tasks_on_restart = True,
      pc_max_command_length = 16 * 1024\<rparr>"

text \<open>\<^verbatim>\<open>ShellProtectionSettings\<close>, \<^verbatim>\<open>GitSettings\<close>, \<^verbatim>\<open>GithubSettings\<close>, \<^verbatim>\<open>PackageSettings\<close>, \<^verbatim>\<open>TrustedWorkspaceSettings\<close>,
  \<^verbatim>\<open>ExternalWriteSettings\<close> and \<^verbatim>\<open>AdvancedSettings\<close> hold one or two values each, which are fields of the document below.\<close>

record cache_temp_settings =
  ct_quota_mb :: u64
  ct_finished_task_retention_hours :: u64
  ct_redirect_package_caches :: bool

definition CacheTempSettings_default :: cache_temp_settings where
  "CacheTempSettings_default =
     \<lparr>ct_quota_mb = 10 * 1024, ct_finished_task_retention_hours = 24, ct_redirect_package_caches = True\<rparr>"

record tool_secret_grant =
  tg_id :: string
  tg_variables :: "string list"
  tg_executable_path :: string
  tg_executable_sha256 :: string
  tg_project_scope :: "string option"
  tg_created_at :: int

record environment_settings =
  es_allowed :: "string list"
  es_denied :: "string list"
  es_disclosable :: "string list"
  es_tool_grants :: "tool_secret_grant list"

definition EnvironmentSettings_default :: environment_settings where
  "EnvironmentSettings_default = \<lparr>es_allowed = [], es_denied = [], es_disclosable = [], es_tool_grants = []\<rparr>"

record audit_settings =
  ad_retention_days :: u64
  ad_max_size_mb :: u64

definition AuditSettings_default :: audit_settings where
  "AuditSettings_default = \<lparr>ad_retention_days = 30, ad_max_size_mb = 512\<rparr>"

record data_shared_settings =
  dsh_retention_days :: u64
  dsh_max_size_mb :: u64
  dsh_reserved_events_per_session :: u64
  dsh_max_reserved_payload_bytes :: u64

definition DataSharedSettings_default :: data_shared_settings where
  "DataSharedSettings_default =
     \<lparr>dsh_retention_days = 30, dsh_max_size_mb = 250, dsh_reserved_events_per_session = 20,
      dsh_max_reserved_payload_bytes = 256 * 1024\<rparr>"

record limit_settings =
  lm_max_read_bytes :: u64
  lm_max_write_bytes :: u64
  lm_max_get_many_items :: u64
  lm_max_search_results :: u64
  lm_max_list_entries :: u64
  lm_max_task_output_bytes_per_call :: u64
  lm_max_result_bytes :: u64

definition LimitSettings_default :: limit_settings where
  "LimitSettings_default =
     \<lparr>lm_max_read_bytes = 1024 * 1024, lm_max_write_bytes = 8 * 1024 * 1024, lm_max_get_many_items = 200,
      lm_max_search_results = 500, lm_max_list_entries = 2000, lm_max_task_output_bytes_per_call = 256 * 1024,
      lm_max_result_bytes = 2 * 1024 * 1024\<rparr>"

record notification_settings =
  nt_enabled :: bool
  nt_approvals :: bool
  nt_connections :: bool
  nt_task_failures :: bool

definition NotificationSettings_default :: notification_settings where
  "NotificationSettings_default =
     \<lparr>nt_enabled = True, nt_approvals = True, nt_connections = True, nt_task_failures = True\<rparr>"

record updates_settings =
  up_check_automatically :: bool
  up_install_automatically :: bool

definition UpdateSettings_default :: updates_settings where
  "UpdateSettings_default = \<lparr>up_check_automatically = True, up_install_automatically = False\<rparr>"

section \<open>The document\<close>

record app_settings =
  st_schema_version :: u32
  st_policy_revision :: u64
  st_setup_completed :: bool
  st_general :: general_settings
  st_network :: network_settings
  st_root_override :: "string option"
  st_protected_paths :: protected_path_settings
  st_auth :: auth_settings
  st_sessions :: session_settings
  st_concurrency :: concurrency_settings
  st_process :: process_settings
  st_shell_protection_enabled :: bool
  st_allow_auto_push_default_branch :: bool
  st_allow_destructive :: bool
  st_extra_blocked_attribution_patterns :: "string list"
  st_system_install_policy :: install_policy
  st_cache_temp :: cache_temp_settings
  st_environment :: environment_settings
  st_external_writes :: "external_write_grant list"
  st_audit :: audit_settings
  st_data_shared :: data_shared_settings
  st_limits :: limit_settings
  st_notifications :: notification_settings
  st_updates :: updates_settings
  st_advanced_mode :: bool

definition Settings_default :: app_settings where
  "Settings_default =
     \<lparr>st_schema_version = SCHEMA_VERSION, st_policy_revision = 1, st_setup_completed = False,
      st_general = GeneralSettings_default, st_network = NetworkSettings_default, st_root_override = None,
      st_protected_paths = ProtectedPathSettings_default, st_auth = AuthSettings_default,
      st_sessions = SessionSettings_default, st_concurrency = ConcurrencySettings_default,
      st_process = ProcessSettings_default, st_shell_protection_enabled = True,
      st_allow_auto_push_default_branch = False, st_allow_destructive = False,
      st_extra_blocked_attribution_patterns = [], st_system_install_policy = IP_RequireApproval,
      st_cache_temp = CacheTempSettings_default, st_environment = EnvironmentSettings_default,
      st_external_writes = [], st_audit = AuditSettings_default, st_data_shared = DataSharedSettings_default,
      st_limits = LimitSettings_default, st_notifications = NotificationSettings_default,
      st_updates = UpdateSettings_default, st_advanced_mode = False\<rparr>"

definition policy_settings :: "app_settings \<Rightarrow> settings" where
  "policy_settings s =
     \<lparr>se_protected_paths = st_protected_paths s, se_shell_protection_enabled = st_shell_protection_enabled s,
      se_allow_auto_push_default_branch = st_allow_auto_push_default_branch s,
      se_allow_destructive = st_allow_destructive s,
      se_extra_blocked_attribution_patterns = st_extra_blocked_attribution_patterns s,
      se_system_install_policy = st_system_install_policy s, se_external_write_grants = st_external_writes s\<rparr>"

section \<open>Addresses\<close>

text \<open>\<^verbatim>\<open>IpAddr::from_str\<close>: four decimal octets without leading zeros, or up to eight groups of one to four hexadecimal
  digits with at most one \<^verbatim>\<open>::\<close>, the last two groups possibly written as an IPv4 address.\<close>

definition decimal :: "string \<Rightarrow> nat" where
  "decimal s = foldl (\<lambda>n c. 10 * n + (byte c - 48)) 0 s"

definition is_octet :: "string \<Rightarrow> bool" where
  "is_octet s \<longleftrightarrow> s \<noteq> [] \<and> length s \<le> 3 \<and> list_all is_ascii_digit s
     \<and> (length s = 1 \<or> hd s \<noteq> CHR ''0'') \<and> decimal s \<le> 255"

definition is_ipv4 :: "string \<Rightarrow> bool" where
  "is_ipv4 s \<longleftrightarrow> (let p = split_on (\<lambda>c. c = CHR ''.'') s in length p = 4 \<and> list_all is_octet p)"

definition is_hex_digit :: "char \<Rightarrow> bool" where
  "is_hex_digit c \<longleftrightarrow> is_ascii_digit c \<or> (97 \<le> byte (ascii_lower c) \<and> byte (ascii_lower c) \<le> 102)"

definition is_hex_group :: "string \<Rightarrow> bool" where
  "is_hex_group s \<longleftrightarrow> s \<noteq> [] \<and> length s \<le> 4 \<and> list_all is_hex_digit s"

text \<open>The number of groups a colon-separated part stands for, the last one an IPv4 address if that is allowed.\<close>

definition group_count :: "bool \<Rightarrow> string \<Rightarrow> nat option" where
  "group_count v4 s =
     (if s = [] then Some 0
      else (let p = split_on (\<lambda>c. c = CHR '':'') s in
        if list_all is_hex_group p then Some (length p)
        else if v4 \<and> list_all is_hex_group (butlast p) \<and> is_ipv4 (last p) then Some (length p + 1)
        else None))"

fun cut_colons :: "string \<Rightarrow> (string \<times> string) option" where
  "cut_colons [] = None"
| "cut_colons (c # s) =
     (if starts_with (c # s) ''::'' then Some ([], drop 2 (c # s))
      else map_option (\<lambda>(h, t). (c # h, t)) (cut_colons s))"

definition is_ipv6 :: "string \<Rightarrow> bool" where
  "is_ipv6 s =
     (case cut_colons s of
        None \<Rightarrow> s \<noteq> [] \<and> group_count True s = Some 8
      | Some (h, t) \<Rightarrow>
          (case (group_count False h, group_count True t) of
             (Some m, Some n) \<Rightarrow> m + n \<le> 7
           | _ \<Rightarrow> False))"

definition is_ip_addr :: "string \<Rightarrow> bool" where
  "is_ip_addr s \<longleftrightarrow> is_ipv4 s \<or> is_ipv6 s"

section \<open>Validation\<close>

text \<open>A URL as the \<^verbatim>\<open>url\<close> crate parses it, and the parameters of the loader.\<close>

record url =
  url_scheme :: string
  url_host :: "string option"
  url_query :: "string option"
  url_fragment :: "string option"
  url_username :: string
  url_password :: "string option"
  url_path :: string

record config_env =
  ce_url_parse :: "string \<Rightarrow> string + url"
  ce_json_parse :: "string \<Rightarrow> string + json"
  ce_from_value :: "json \<Rightarrow> string + app_settings"
  ce_as_u64 :: "json \<Rightarrow> u64 option"

definition validate_public_url :: "config_env \<Rightarrow> string \<Rightarrow> url lp_result" where
  "validate_public_url C u =
     (case ce_url_parse C u of
        Inl e \<Rightarrow> Inl (LpError_invalid (''public MCP URL is not a valid URL: '' @ e))
      | Inr p \<Rightarrow>
          if url_scheme p \<noteq> ''https''
             \<and> \<not> (url_scheme p = ''http'' \<and> (url_host p = Some ''localhost'' \<or> url_host p = Some ''127.0.0.1''))
          then Inl (LpError_invalid ''public MCP URL must use https'')
          else if url_host p = None then Inl (LpError_invalid ''public MCP URL must include a host'')
          else if url_query p \<noteq> None \<or> url_fragment p \<noteq> None
          then Inl (LpError_invalid ''public MCP URL must not include a query or fragment'')
          else if url_username p \<noteq> [] \<or> url_password p \<noteq> None
          then Inl (LpError_invalid ''public MCP URL must not embed credentials'')
          else if \<not> ends_with (url_path p) ''/mcp''
          then Inl (LpError_invalid ''public MCP URL path must end with /mcp'')
          else Inr p)"

definition bad :: "string \<Rightarrow> unit lp_result" where
  "bad m = Inl (LpError_new ConfigFault m)"

text \<open>The product of the reservation is one of machine integers and wraps.\<close>

definition reserved_bytes :: "app_settings \<Rightarrow> u64" where
  "reserved_bytes s =
     dsh_reserved_events_per_session (st_data_shared s) * dsh_max_reserved_payload_bytes (st_data_shared s)
     * cs_max_simultaneous_clients (st_concurrency s)"

definition validate_times :: "session_settings \<Rightarrow> unit lp_result" where
  "validate_times s =
     (if ss_idle_timeout_minutes s = 0 \<or> ss_idle_timeout_minutes s > 7 * 24 * 60
      then bad ''sessions.idle_timeout_minutes must be between 1 and 10080''
      else if ss_absolute_lifetime_hours s = 0 \<or> ss_absolute_lifetime_hours s > 24 * 30
      then bad ''sessions.absolute_lifetime_hours must be between 1 and 720''
      else if ss_pending_approval_minutes s = 0 \<or> ss_pending_approval_minutes s > 24 * 60
      then bad ''sessions.pending_approval_minutes must be between 1 and 1440''
      else Inr ())"

definition validate_storage :: "app_settings \<Rightarrow> unit lp_result" where
  "validate_storage s =
     (if dsh_max_size_mb (st_data_shared s) < 16 then bad ''data_shared.max_size_mb must be at least 16''
      else if ad_max_size_mb (st_audit s) < 16 then bad ''audit.max_size_mb must be at least 16''
      else if dsh_retention_days (st_data_shared s) = 0 \<or> ad_retention_days (st_audit s) = 0
      then bad ''retention must be at least one day''
      else if reserved_bytes s > dsh_max_size_mb (st_data_shared s) * 1024 * 1024 div 2
      then bad ''data_shared reservations (events per session x payload size x max clients) must fit in half of the Data Shared size budget''
      else if cs_max_simultaneous_clients (st_concurrency s) = 0 \<or> cs_max_tasks_per_client (st_concurrency s) = 0
      then bad ''concurrency limits must be at least 1''
      else if lm_max_read_bytes (st_limits s) = 0 \<or> lm_max_read_bytes (st_limits s) > 64 * 1024 * 1024
      then bad ''limits.max_read_bytes must be between 1 byte and 64 MiB''
      else Inr ())"

definition validate_network :: "config_env \<Rightarrow> network_settings \<Rightarrow> unit lp_result" where
  "validate_network C n =
     and_then
       (case ns_public_mcp_url n of
          None \<Rightarrow> Inr ()
        | Some u \<Rightarrow> and_then (validate_public_url C u) (\<lambda>_. Inr ()))
       (\<lambda>_. if \<not> is_ip_addr (ns_bind_address n) then bad ''network.bind_address must be an IP address'' else Inr ())"

definition validate :: "config_env \<Rightarrow> app_settings \<Rightarrow> unit lp_result" where
  "validate C s =
     and_then (validate_times (st_sessions s)) (\<lambda>_.
       and_then (validate_storage s) (\<lambda>_. validate_network C (st_network s)))"

section \<open>Loading\<close>

definition json_get :: "json \<Rightarrow> string \<Rightarrow> json option" where
  "json_get v k = (case v of JObject kvs \<Rightarrow> map_of kvs k | _ \<Rightarrow> None)"

text \<open>\<^verbatim>\<open>Map::insert\<close>: an existing key keeps its place.\<close>

definition json_insert :: "string \<Rightarrow> json \<Rightarrow> json \<Rightarrow> json" where
  "json_insert k x v =
     (case v of JObject kvs \<Rightarrow> JObject (AList.update k x kvs) | _ \<Rightarrow> v)"

text \<open>\<^verbatim>\<open>as u32\<close> keeps the low half.\<close>

definition schema_version_of :: "config_env \<Rightarrow> json \<Rightarrow> u32" where
  "schema_version_of C v = ucast (unwrap_or 0 (Option.bind (json_get v ''schema_version'') (ce_as_u64 C)))"

definition migrate :: "config_env \<Rightarrow> (u32 \<Rightarrow> string) \<Rightarrow> json \<Rightarrow> app_settings lp_result" where
  "migrate C show value =
     (let version = schema_version_of C value in
      if version > SCHEMA_VERSION
      then Inl (LpError_new ConfigFault
        (''settings schema version '' @ show version @ '' is newer than supported '' @ show SCHEMA_VERSION))
      else
        (let value' = (if version = 0 then json_insert ''schema_version'' (JNumber ''1'') value else value) in
         case ce_from_value C value' of
           Inl e \<Rightarrow> Inl (LpError_new ConfigFault (''settings: '' @ e))
         | Inr s0 \<Rightarrow>
             (let s = s0\<lparr>st_schema_version := SCHEMA_VERSION\<rparr> in
              and_then (validate C s) (\<lambda>_. Inr s))))"

record config_fault =
  cf_message :: string
  cf_backup_path :: "string option"

record loaded_settings =
  ld_settings :: app_settings
  ld_fault :: "config_fault option"
  ld_existed :: bool

text \<open>\<open>file\<close> is what reading the file gave, \<open>backup\<close> where the damaged file was copied to, if it could be.\<close>

definition load :: "config_env \<Rightarrow> (u32 \<Rightarrow> string) \<Rightarrow> io_error + string \<Rightarrow> string option \<Rightarrow> loaded_settings" where
  "load C show file backup =
     (case file of
        Inl e \<Rightarrow>
          if ioe_not_found e then \<lparr>ld_settings = Settings_default, ld_fault = None, ld_existed = False\<rparr>
          else \<lparr>ld_settings = Settings_default,
             ld_fault = Some \<lparr>cf_message = ''settings could not be read: '' @ ioe_text e, cf_backup_path = None\<rparr>,
             ld_existed = True\<rparr>
      | Inr text \<Rightarrow>
          (case and_then
              (case ce_json_parse C text of
                 Inl e \<Rightarrow> Inl (LpError_new ConfigFault (''settings JSON: '' @ e))
               | Inr v \<Rightarrow> Inr v)
              (migrate C show) of
             Inr s \<Rightarrow> \<lparr>ld_settings = s, ld_fault = None, ld_existed = True\<rparr>
           | Inl e \<Rightarrow> \<lparr>ld_settings = Settings_default,
               ld_fault = Some \<lparr>cf_message = message e, cf_backup_path = backup\<rparr>, ld_existed = True\<rparr>))"

text \<open>\<open>write\<close> is the outcome of writing the file atomically.\<close>

definition save :: "config_env \<Rightarrow> unit lp_result \<Rightarrow> app_settings \<Rightarrow> unit lp_result" where
  "save C write s = and_then (validate C s) (\<lambda>_. write)"

section \<open>Bounds\<close>

lemma as_i64_small: "x \<noteq> 0 \<Longrightarrow> x \<le> b \<Longrightarrow> b \<le> 100000 \<Longrightarrow> 0 < as_i64 x \<and> as_i64 x \<le> uint b"
  by (simp add: as_i64_def sint_uint word_le_def word_neq_0_conv word_less_def signed_take_bit_int_eq_self)

lemma validate_times_Inr: "validate_times t = Inr () \<Longrightarrow>
    ss_idle_timeout_minutes t \<noteq> 0 \<and> ss_idle_timeout_minutes t \<le> 10080
    \<and> ss_absolute_lifetime_hours t \<noteq> 0 \<and> ss_absolute_lifetime_hours t \<le> 720
    \<and> ss_pending_approval_minutes t \<noteq> 0 \<and> ss_pending_approval_minutes t \<le> 1440"
  by (auto simp: validate_times_def bad_def not_less split: if_splits)

lemma validated_times:
  assumes "validate_times t = Inr ()"
  shows "0 < as_i64 (ss_idle_timeout_minutes t) \<and> as_i64 (ss_idle_timeout_minutes t) \<le> 10080"
    "0 < as_i64 (ss_absolute_lifetime_hours t) \<and> as_i64 (ss_absolute_lifetime_hours t) \<le> 720"
    "0 < as_i64 (ss_pending_approval_minutes t) \<and> as_i64 (ss_pending_approval_minutes t) \<le> 1440"
  using validate_times_Inr [OF assms] as_i64_small [of "ss_idle_timeout_minutes t" 10080]
    as_i64_small [of "ss_absolute_lifetime_hours t" 720] as_i64_small [of "ss_pending_approval_minutes t" 1440]
  by simp_all

end
