(* ===== verification/Event_System.thy ===== *)
theory Event_System
  imports Lp_Prelude
begin

text \<open>
  The services as event systems: a step takes a state and a label to a state, and a run is a finite sequence of
  steps. The locales are the three arguments the services share: an invariant that every step keeps, an
  event that can only happen once because it sets a mark that stays, and a condition that only certain
  events establish.
\<close>

inductive run :: "('s \<Rightarrow> 'e \<Rightarrow> 's \<Rightarrow> bool) \<Rightarrow> 's \<Rightarrow> 'e list \<Rightarrow> 's \<Rightarrow> bool" for step where
  run_nil: "run step s [] s"
| run_snoc: "run step s es t \<Longrightarrow> step t e u \<Longrightarrow> run step s (es @ [e]) u"

inductive_cases run_nilE [elim!]: "run step s [] t"
inductive_cases run_snocE: "run step s (es @ [e]) u"

lemma run_append: "run step s es t \<Longrightarrow> run step t fs u \<Longrightarrow> run step s (es @ fs) u"
proof (induction fs arbitrary: u rule: rev_induct)
  case (snoc f fs)
  then obtain v where "run step t fs v" "step v f u" by (auto elim: run_snocE)
  then show ?case using snoc run_snoc [of step s "es @ fs" v f u] by simp
qed auto

lemma run_split: "run step s (es @ fs) u \<Longrightarrow> \<exists>t. run step s es t \<and> run step t fs u"
proof (induction fs arbitrary: u rule: rev_induct)
  case Nil
  then show ?case using run_nil [of step u] by (intro exI [of _ u]) simp
next
  case (snoc f fs)
  then have "run step s ((es @ fs) @ [f]) u" by simp
  then obtain v where v: "run step s (es @ fs) v" "step v f u" by (rule run_snocE) auto
  with snoc.IH obtain t where "run step s es t" "run step t fs v" by blast
  with v show ?case by (meson run_snoc)
qed

lemma run_Cons: "run step s (e # es) u \<longleftrightarrow> (\<exists>t. step s e t \<and> run step t es u)"
proof
  assume "run step s (e # es) u"
  then obtain t where t: "run step s ([] @ [e]) t" "run step t es u"
    using run_split [of step s "[e]" es u] by auto
  from t(1) have "step s e t" by (rule run_snocE) auto
  then show "\<exists>t. step s e t \<and> run step t es u" using t(2) by blast
next
  assume "\<exists>t. step s e t \<and> run step t es u"
  then show "run step s (e # es) u"
    using run_append [of step s "[e]"] run_snoc [OF run_nil, of step s e] by fastforce
qed

section \<open>Invariants\<close>

locale invariant_system =
  fixes step :: "'s \<Rightarrow> 'e \<Rightarrow> 's \<Rightarrow> bool" and inv :: "'s \<Rightarrow> bool"
  assumes step_inv: "inv s \<Longrightarrow> step s e t \<Longrightarrow> inv t"
begin

lemma run_inv: "run step s es t \<Longrightarrow> inv s \<Longrightarrow> inv t"
  by (induction rule: run.induct) (auto intro: step_inv)

lemma run_middle: "run step s (es @ e # fs) u \<Longrightarrow> inv s \<Longrightarrow>
  \<exists>t t'. run step s es t \<and> inv t \<and> step t e t' \<and> inv t' \<and> run step t' fs u"
  using run_split [of step s es "e # fs" u] by (metis run_Cons run_inv step_inv)

end

section \<open>Events that happen once\<close>

text \<open>\<open>fires\<close> needs the mark \<open>spent\<close> to be absent and sets it; no step clears it.\<close>

locale once_system = invariant_system +
  fixes fires :: "'e \<Rightarrow> bool" and spent :: "'s \<Rightarrow> bool"
  assumes fires_fresh: "inv s \<Longrightarrow> step s e t \<Longrightarrow> fires e \<Longrightarrow> \<not> spent s \<and> spent t"
    and spent_stays: "inv s \<Longrightarrow> spent s \<Longrightarrow> step s e t \<Longrightarrow> spent t"
begin

lemma run_spent: "run step s es t \<Longrightarrow> inv s \<Longrightarrow> spent s \<Longrightarrow> spent t \<and> filter fires es = []"
proof (induction rule: run.induct)
  case (run_snoc s es t e u)
  then have inv: "inv t" and sp: "spent t" "filter fires es = []" by (auto intro: run_inv)
  show ?case
    using sp fires_fresh [OF inv run_snoc.hyps(2)] spent_stays [OF inv sp(1) run_snoc.hyps(2)] by auto
qed simp

lemma at_most_once: "run step s es t \<Longrightarrow> inv s \<Longrightarrow> length (filter fires es) \<le> 1"
proof (induction rule: run.induct)
  case (run_snoc s es t e u)
  have "filter fires es = []" if "fires e"
  proof (rule ccontr)
    assume "filter fires es \<noteq> []"
    then obtain f where "f \<in> set es" "fires f" by (auto simp: filter_empty_conv)
    then obtain xs ys where "es = xs @ f # ys" by (meson split_list)
    with run_snoc run_middle [of s xs f ys t] obtain v w where
      "inv v" "step v f w" "inv w" "run step w ys t" by blast
    then have "spent t" using fires_fresh [of v f w] run_spent [of w ys t] \<open>fires f\<close> by blast
    moreover have "inv t" using run_snoc run_inv by blast
    ultimately show False using fires_fresh [of t e u] run_snoc that by blast
  qed
  then show ?case using run_snoc by auto
qed simp

end

section \<open>Conditions that only certain events establish\<close>

locale enabling_system = invariant_system +
  fixes ready :: "'s \<Rightarrow> bool" and enables :: "'e \<Rightarrow> bool" and disables :: "'e \<Rightarrow> bool"
  assumes becomes_ready: "inv s \<Longrightarrow> \<not> ready s \<Longrightarrow> step s e t \<Longrightarrow> ready t \<Longrightarrow> enables e"
    and disabled: "inv s \<Longrightarrow> step s e t \<Longrightarrow> disables e \<Longrightarrow> \<not> ready t"
begin

lemma enabled_before:
  "run step s es t \<Longrightarrow> inv s \<Longrightarrow> \<not> ready s \<Longrightarrow> ready t \<Longrightarrow>
     \<exists>pre e post. es = pre @ e # post \<and> enables e \<and> list_all (\<lambda>f. \<not> disables f) post"
proof (induction rule: run.induct)
  case (run_snoc s es t e u)
  have inv: "inv t" using run_snoc run_inv by blast
  show ?case
  proof (cases "ready t")
    case True
    with run_snoc obtain pre x post where
      "es = pre @ x # post" "enables x" "list_all (\<lambda>f. \<not> disables f) post" by blast
    moreover have "\<not> disables e" using run_snoc inv disabled by blast
    ultimately have "es @ [e] = pre @ x # (post @ [e]) \<and> enables x \<and> list_all (\<lambda>f. \<not> disables f) (post @ [e])"
      by simp
    then show ?thesis by blast
  next
    case False
    then have "enables e" using run_snoc inv becomes_ready by blast
    then have "es @ [e] = es @ e # [] \<and> enables e \<and> list_all (\<lambda>f. \<not> disables f) []" by simp
    then show ?thesis by blast
  qed
qed simp

end

end
