(* ===== verification/Settings_Store.thy ===== *)
theory Settings_Store
  imports Config Event_System
begin

text \<open>
  The settings the local user owns, \<^verbatim>\<open>workstation-server/src/settings_store.rs\<close>: the current document, the fault it was loaded with,
  and the policy revision that every security-relevant change advances. Then the properties of the
  settings document itself.
\<close>

section \<open>The store\<close>

record settings_store =
  sst_current :: app_settings
  sst_fault :: "config_fault option"

definition SettingsStore_load :: "loaded_settings \<Rightarrow> settings_store" where
  "SettingsStore_load l = \<lparr>sst_current = ld_settings l, sst_fault = ld_fault l\<rparr>"

definition SettingsStore_from_settings :: "app_settings \<Rightarrow> settings_store" where
  "SettingsStore_from_settings s = \<lparr>sst_current = s, sst_fault = None\<rparr>"

definition strip :: "app_settings \<Rightarrow> app_settings" where
  "strip s = s\<lparr>st_policy_revision := 0, st_general := GeneralSettings_default,
     st_notifications := NotificationSettings_default, st_updates := UpdateSettings_default, st_setup_completed := False\<rparr>"

definition security_relevant_change :: "app_settings \<Rightarrow> app_settings \<Rightarrow> bool" where
  "security_relevant_change a b \<longleftrightarrow> strip a \<noteq> strip b"

text \<open>The document \<^verbatim>\<open>update\<close> saves: this schema, and a revision that moves exactly on a security-relevant change.\<close>

definition next_settings :: "app_settings \<Rightarrow> app_settings \<Rightarrow> app_settings" where
  "next_settings prev next =
     (let n = next\<lparr>st_schema_version := SCHEMA_VERSION\<rparr> in
      n\<lparr>st_policy_revision := (if security_relevant_change prev n then st_policy_revision prev + 1
        else st_policy_revision prev)\<rparr>)"

definition update_store ::
    "config_env \<Rightarrow> unit lp_result \<Rightarrow> app_settings \<Rightarrow> settings_store \<Rightarrow> (app_settings \<times> app_settings) lp_result \<times> settings_store" where
  "update_store C write next S =
     (let prev = sst_current S; n = next_settings prev next in
      case save C write n of
        Inl e \<Rightarrow> (Inl e, S)
      | Inr _ \<Rightarrow> (Inr (prev, n), \<lparr>sst_current = n, sst_fault = None\<rparr>))"

definition reset_to_defaults ::
    "config_env \<Rightarrow> unit lp_result \<Rightarrow> settings_store \<Rightarrow> app_settings lp_result \<times> settings_store" where
  "reset_to_defaults C write S =
     (let s = Settings_default\<lparr>st_policy_revision := st_policy_revision (sst_current S) + 1\<rparr> in
      case save C write s of
        Inl e \<Rightarrow> (Inl e, S)
      | Inr _ \<Rightarrow> (Inr s, \<lparr>sst_current = s, sst_fault = None\<rparr>))"

section \<open>Runs\<close>

datatype store_event = ST_Update | ST_Reset | ST_Refused

inductive store_step :: "settings_store \<Rightarrow> store_event \<Rightarrow> settings_store \<Rightarrow> bool" where
  store_update: "update_store C write next S = (Inr r, S') \<Longrightarrow> store_step S ST_Update S'"
| store_reset: "reset_to_defaults C write S = (Inr r, S') \<Longrightarrow> store_step S ST_Reset S'"
| store_update_refused: "update_store C write next S = (Inl e, S') \<Longrightarrow> store_step S ST_Refused S'"
| store_reset_refused: "reset_to_defaults C write S = (Inl e, S') \<Longrightarrow> store_step S ST_Refused S'"

lemma next_settings_strip:
  "st_policy_revision (next_settings p n) = st_policy_revision p \<Longrightarrow> strip (next_settings p n) = strip p"
  by (auto simp: next_settings_def Let_def security_relevant_change_def strip_def split: if_splits)

lemma next_settings_revision:
  "st_policy_revision (next_settings p n) = st_policy_revision p \<and> strip (next_settings p n) = strip p
   \<or> st_policy_revision (next_settings p n) = st_policy_revision p + 1"
  using next_settings_strip [of p n] by (auto simp: next_settings_def Let_def)

text \<open>The revision counts the changes: \<open>k\<close> of at most \<open>n\<close> steps.\<close>

definition counted_changes :: "app_settings \<Rightarrow> nat \<Rightarrow> app_settings \<Rightarrow> bool" where
  "counted_changes a n b \<longleftrightarrow> (\<exists>k \<le> n. st_policy_revision b = st_policy_revision a + of_nat k \<and> (k = 0 \<longrightarrow> strip b = strip a))"

lemma store_step_counts:
  assumes "store_step S e S'" and "counted_changes a n (sst_current S)"
  shows "counted_changes a (Suc n) (sst_current S')"
proof -
  obtain k where k: "k \<le> n" "st_policy_revision (sst_current S) = st_policy_revision a + of_nat k"
    "k = 0 \<Longrightarrow> strip (sst_current S) = strip a" using assms(2) by (auto simp: counted_changes_def)
  have "sst_current S' = sst_current S
      \<or> st_policy_revision (sst_current S') = st_policy_revision (sst_current S) \<and> strip (sst_current S') = strip (sst_current S)
      \<or> st_policy_revision (sst_current S') = st_policy_revision (sst_current S) + 1"
    using assms(1)
  proof cases
    case (store_update C w n r)
    then show ?thesis
      using next_settings_revision [of "sst_current S" n] by (auto simp: update_store_def Let_def split: sum.splits)
  qed (auto simp: update_store_def reset_to_defaults_def Let_def split: sum.splits)
  then show ?thesis
  proof (elim disjE)
    assume "st_policy_revision (sst_current S') = st_policy_revision (sst_current S) + 1"
    then show ?thesis using k by (auto simp: counted_changes_def intro!: exI [of _ "Suc k"])
  qed (use k in \<open>auto simp: counted_changes_def intro!: exI [of _ k]\<close>)
qed

lemma store_run_counts:
  "run store_step S es S' \<Longrightarrow> counted_changes (sst_current S) (length es) (sst_current S')"
proof (induction rule: run.induct)
  case (run_nil S)
  then show ?case by (auto simp: counted_changes_def)
next
  case (run_snoc S es T e U)
  then show ?case using store_step_counts [of T e U] by simp
qed

section \<open>Properties\<close>

text \<open>C33: A policy revision pins the policy. Over any sequence of fewer than \<^term>\<open>2 ^ 64\<close> updates and resets, accepted or refused, if
  the revision is the same as before then every setting that is not cosmetic is the same, in particular all
  that the policy evaluator, the session limits and the concurrency limits read; an approval bound to
  a revision is bound to them.\<close>

theorem revision_pins_policy:
  assumes "run store_step S es S'" and "length es < 2 ^ 64"
    and "st_policy_revision (sst_current S') = st_policy_revision (sst_current S)"
  shows "strip (sst_current S') = strip (sst_current S)
    \<and> policy_settings (sst_current S') = policy_settings (sst_current S)
    \<and> st_sessions (sst_current S') = st_sessions (sst_current S)
    \<and> st_concurrency (sst_current S') = st_concurrency (sst_current S)"
proof -
  obtain k where k: "k \<le> length es" "st_policy_revision (sst_current S') = st_policy_revision (sst_current S) + of_nat k"
    "k = 0 \<Longrightarrow> strip (sst_current S') = strip (sst_current S)"
    using store_run_counts [OF assms(1)] by (auto simp: counted_changes_def)
  then have "(of_nat k :: u64) = 0" using assms(3) by simp
  then have "(2 ^ 64 :: nat) dvd k" by (simp add: word_of_nat_eq_0_iff)
  then have "k = 0" using k(1) assms(2) by (auto dest: dvd_imp_le)
  then have st: "strip (sst_current S') = strip (sst_current S)" by (rule k(3))
  have "policy_settings (strip s) = policy_settings s" "st_sessions (strip s) = st_sessions s"
    "st_concurrency (strip s) = st_concurrency s" for s
    by (simp_all add: strip_def policy_settings_def)
  then show ?thesis using st by metis
qed

lemma defaults_valid: "validate C Settings_default = Inr ()"
proof -
  have "is_ip_addr ''127.0.0.1''" by code_simp
  then show ?thesis
    by (simp add: validate_def validate_times_def validate_storage_def validate_network_def reserved_bytes_def Settings_default_def
        SessionSettings_default_def DataSharedSettings_default_def AuditSettings_default_def ConcurrencySettings_default_def
        LimitSettings_default_def NetworkSettings_default_def)
qed

lemma validate_cong: "validate C (s\<lparr>st_policy_revision := r\<rparr>) = validate C s" "validate C (s\<lparr>st_setup_completed := b\<rparr>) = validate C s"
  by (simp_all add: validate_def validate_storage_def reserved_bytes_def)

lemma migrate_valid: "migrate C show v = Inr s \<Longrightarrow> validate C s = Inr ()"
  by (auto simp: migrate_def Let_def and_then_Inr split: if_splits sum.splits)

text \<open>Loading fails closed. Whatever is on disk, the settings in force after loading are valid; if the file cannot be read, parsed,
  migrated or validated they are the defaults (setup not completed, shell checks on, no automatic push to the
  default branch, no destructive operations, no standing grants) and a fault is recorded; without a file there is
  no fault.\<close>

theorem load_fails_closed:
  "validate C (ld_settings (load C show contents backup)) = Inr ()
   \<and> (ld_fault (load C show contents backup) \<noteq> None \<or> \<not> ld_existed (load C show contents backup) \<longrightarrow>
        ld_settings (load C show contents backup) = Settings_default)
   \<and> (ld_fault (load C show contents backup) = None \<longleftrightarrow>
        (case contents of Inl e \<Rightarrow> ioe_not_found e
         | Inr doc \<Rightarrow> (\<exists>v s. ce_json_parse C doc = Inr v \<and> migrate C show v = Inr s)))
   \<and> \<not> st_setup_completed Settings_default \<and> st_shell_protection_enabled Settings_default
   \<and> \<not> st_allow_auto_push_default_branch Settings_default \<and> \<not> st_allow_destructive Settings_default
   \<and> st_external_writes Settings_default = []"
proof -
  have d: "\<not> st_setup_completed Settings_default \<and> st_shell_protection_enabled Settings_default
      \<and> \<not> st_allow_auto_push_default_branch Settings_default \<and> \<not> st_allow_destructive Settings_default
      \<and> st_external_writes Settings_default = []"
    by (simp add: Settings_default_def)
  show ?thesis
  proof (cases contents)
    case (Inl e)
    then show ?thesis using d by (simp add: load_def defaults_valid)
  next
    case (Inr doc)
    show ?thesis
    proof (cases "ce_json_parse C doc")
      case (Inl e)
      then show ?thesis using d Inr by (simp add: load_def defaults_valid)
    next
      case v: (Inr v)
      show ?thesis
      proof (cases "migrate C show v")
        case (Inl e)
        then show ?thesis using d v \<open>contents = Inr doc\<close> by (simp add: load_def defaults_valid)
      next
        case (Inr s)
        then show ?thesis using d v \<open>contents = Inr doc\<close> migrate_valid [OF Inr] by (simp add: load_def)
      qed
    qed
  qed
qed

text \<open>Validated durations are positive and fit the machine integers they are converted to: a session opened or an approval
  requested at any clock reading of the next million years has an expiry later than now that does not overflow.\<close>

theorem validated_durations:
  assumes "validate C s = Inr ()" and "0 \<le> now" and "now \<le> 31536000000000000"
  shows "list_all (\<lambda>d. 0 < d \<and> i64_range d \<and> now < now + d \<and> i64_range (now + d))
    [as_i64 (ss_idle_timeout_minutes (st_sessions s)) * MINUTE_MS,
     as_i64 (ss_absolute_lifetime_hours (st_sessions s)) * HOUR_MS,
     as_i64 (ss_pending_approval_minutes (st_sessions s)) * MINUTE_MS]"
proof -
  have "validate_times (st_sessions s) = Inr ()" using assms(1) by (simp add: validate_def and_then_Inr)
  from validated_times [OF this] assms(2,3) show ?thesis by (simp add: i64_range_def MINUTE_MS_def HOUR_MS_def)
qed

text \<open>The check of the Data Shared reservation can be passed by overflow: with these settings the reservation is far above half the
  budget, the product wraps to zero, and the document validates.\<close>

theorem reservation_check_wraps:
  defines "s \<equiv> Settings_default\<lparr>st_data_shared := DataSharedSettings_default\<lparr>dsh_reserved_events_per_session := 2 ^ 32,
      dsh_max_reserved_payload_bytes := 2 ^ 32\<rparr>\<rparr>"
  shows "validate C s = Inr ()
    \<and> uint (dsh_reserved_events_per_session (st_data_shared s)) * uint (dsh_max_reserved_payload_bytes (st_data_shared s))
        * uint (cs_max_simultaneous_clients (st_concurrency s)) > uint (dsh_max_size_mb (st_data_shared s)) * 1024 * 1024 div 2"
proof -
  have "is_ip_addr ''127.0.0.1''" by code_simp
  then show ?thesis
    by (simp add: s_def validate_def validate_times_def validate_storage_def validate_network_def reserved_bytes_def
        Settings_default_def SessionSettings_default_def DataSharedSettings_default_def AuditSettings_default_def
        ConcurrencySettings_default_def LimitSettings_default_def NetworkSettings_default_def)
qed

section \<open>Witnesses\<close>

definition plain_env :: config_env where
  "plain_env = \<lparr>ce_url_parse = (\<lambda>_. Inl ''relative URL without a base''), ce_json_parse = (\<lambda>_. Inr (JObject [])),
     ce_from_value = (\<lambda>_. Inr Settings_default), ce_as_u64 = (\<lambda>_. None)\<rparr>"

theorem validated_durations_witness:
  "list_all (\<lambda>d. 0 < d \<and> i64_range d \<and> (1000 :: int) < 1000 + d \<and> i64_range (1000 + d))
    [as_i64 (ss_idle_timeout_minutes (st_sessions Settings_default)) * MINUTE_MS,
     as_i64 (ss_absolute_lifetime_hours (st_sessions Settings_default)) * HOUR_MS,
     as_i64 (ss_pending_approval_minutes (st_sessions Settings_default)) * MINUTE_MS]"
  by (rule validated_durations [OF defaults_valid]) simp_all

definition store_before :: settings_store where
  "store_before = SettingsStore_from_settings Settings_default"

definition store_after :: settings_store where
  "store_after = snd (update_store plain_env (Inr ()) (Settings_default\<lparr>st_setup_completed := True\<rparr>) store_before)"

lemma store_after_step: "store_step store_before ST_Update store_after" "st_policy_revision (sst_current store_after) = 1"
proof -
  have n: "next_settings Settings_default (Settings_default\<lparr>st_setup_completed := True\<rparr>) = Settings_default\<lparr>st_setup_completed := True\<rparr>"
    by (simp add: next_settings_def Let_def security_relevant_change_def strip_def Settings_default_def)
  have "validate plain_env (Settings_default\<lparr>st_setup_completed := True\<rparr>) = Inr ()"
    by (simp add: validate_cong defaults_valid)
  then have u: "update_store plain_env (Inr ()) (Settings_default\<lparr>st_setup_completed := True\<rparr>) store_before =
      (Inr (Settings_default, Settings_default\<lparr>st_setup_completed := True\<rparr>),
       \<lparr>sst_current = Settings_default\<lparr>st_setup_completed := True\<rparr>, sst_fault = None\<rparr>)"
    by (simp add: update_store_def Let_def store_before_def SettingsStore_from_settings_def n save_def)
  then show "store_step store_before ST_Update store_after" unfolding store_after_def by (auto intro: store_update)
  show "st_policy_revision (sst_current store_after) = 1" by (simp add: store_after_def u) (simp add: Settings_default_def)
qed

theorem revision_pins_policy_witness:
  "strip (sst_current store_after) = strip (sst_current store_before)
    \<and> policy_settings (sst_current store_after) = policy_settings (sst_current store_before)
    \<and> st_sessions (sst_current store_after) = st_sessions (sst_current store_before)
    \<and> st_concurrency (sst_current store_after) = st_concurrency (sst_current store_before)"
proof (rule revision_pins_policy)
  show "run store_step store_before [ST_Update] store_after"
    unfolding run_Cons by (intro exI conjI, rule store_after_step(1), rule run_nil)
  show "st_policy_revision (sst_current store_after) = st_policy_revision (sst_current store_before)"
    by (simp add: store_after_step store_before_def SettingsStore_from_settings_def) (simp add: Settings_default_def)
qed simp

theorem load_fails_closed_witness:
  "ld_settings (load plain_env (\<lambda>_. ''1'') (Inl \<lparr>ioe_os = Some 5, ioe_not_found = False, ioe_text = ''access denied''\<rparr>) None) =
     Settings_default"
  using load_fails_closed [of plain_env "\<lambda>_. ''1''" "Inl \<lparr>ioe_os = Some 5, ioe_not_found = False, ioe_text = ''access denied''\<rparr>" None]
  by simp

end
