(* ===== verification/Sessions.thy ===== *)
theory Sessions
  imports Config Event_System "HOL-Library.Char_ord" "HOL-Library.List_Lexorder"
begin

text \<open>
  Application sessions, \<^verbatim>\<open>workstation-server/src/sessions.rs\<close>: the sessions in memory, one per client and credential, their
  expiry, the grants they carry, and the two tables they are recorded in. The map of active sessions is an
  association list; a lookup by session identifier takes the first match, as the source's iteration does.
\<close>

section \<open>State\<close>

record session_grant =
  sg_scope :: session_scope
  sg_label :: string
  sg_approval_id :: "string option"
  sg_created_at :: int

record session =
  ses_id :: string
  ses_client_id :: string
  ses_credential_id :: string
  ses_created_at :: int
  ses_last_activity_at :: int
  ses_absolute_expires_at :: int
  ses_idle_timeout_ms :: int
  ses_grants :: "session_grant list"

definition idle_expires_at :: "session \<Rightarrow> int" where
  "idle_expires_at s = ses_last_activity_at s + ses_idle_timeout_ms s"

definition expired :: "session \<Rightarrow> int \<Rightarrow> string option" where
  "expired s now =
     (if now \<ge> ses_absolute_expires_at s then Some ''absolute_expiry''
      else if now \<ge> idle_expires_at s then Some ''idle_expiry''
      else None)"

definition scopes :: "session \<Rightarrow> session_scope list" where
  "scopes s = map sg_scope (ses_grants s)"

record ended_session =
  en_session :: session
  en_reason :: string

text \<open>Rows of \<^verbatim>\<open>application_sessions\<close> and \<^verbatim>\<open>session_permissions\<close>.\<close>

record session_row =
  sr_session_id :: string
  sr_client_id :: string
  sr_credential_id :: string
  sr_created_at :: int
  sr_last_activity_at :: int
  sr_absolute_expires_at :: int
  sr_ended_at :: "int option"
  sr_end_reason :: "string option"

record permission_row =
  pm_session_id :: string
  pm_client_id :: string
  pm_scope :: session_scope
  pm_label :: string
  pm_approval_id :: "string option"
  pm_created_at :: int
  pm_revoked_at :: "int option"

type_synonym session_key = "string \<times> string"

record session_service =
  sv_active :: "(session_key \<times> session) list"
  sv_sessions :: "session_row list"
  sv_permissions :: "permission_row list"

interpretation session_rows: row_store sr_session_id "find_by sr_session_id" "insert_by sr_session_id"
    update_where delete_where "keyed sr_session_id"
  by (rule list_row_store)

interpretation active_map: row_store fst "find_by fst" "insert_by fst" update_where delete_where "keyed fst"
  by (rule list_row_store)

section \<open>Operations\<close>

text \<open>\<^verbatim>\<open>SessionService::new\<close> on the tables the last process left.\<close>

definition SessionService_new :: "session_row list \<Rightarrow> permission_row list \<Rightarrow> session_service" where
  "SessionService_new rows perms = \<lparr>sv_active = [], sv_sessions = rows, sv_permissions = perms\<rparr>"

text \<open>\<^verbatim>\<open>values_mut().find(..)\<close>: a change to the first match only.\<close>

fun update_first :: "('a \<Rightarrow> bool) \<Rightarrow> ('a \<Rightarrow> 'a) \<Rightarrow> 'a list \<Rightarrow> 'a list" where
  "update_first P f [] = []"
| "update_first P f (x # xs) = (if P x then f x # xs else x # update_first P f xs)"

definition map_session :: "(session \<Rightarrow> session) \<Rightarrow> session_key \<times> session \<Rightarrow> session_key \<times> session" where
  "map_session f e = (fst e, f (snd e))"

definition revoke_permissions :: "(permission_row \<Rightarrow> bool) \<Rightarrow> int \<Rightarrow> permission_row list \<Rightarrow> permission_row list" where
  "revoke_permissions P now perms =
     update_where (\<lambda>p. P p \<and> pm_revoked_at p = None) (\<lambda>p. p\<lparr>pm_revoked_at := Some now\<rparr>) perms"

definition end_all_persisted :: "io_env \<Rightarrow> string \<Rightarrow> session_service \<Rightarrow> nat lp_result \<times> session_service" where
  "end_all_persisted w reason S =
     (if \<not> io_db_ok w then (Inl LpError_internal, S)
      else (Inr (count_where (\<lambda>r. sr_ended_at r = None) (sv_sessions S)),
        S\<lparr>sv_permissions := revoke_permissions (\<lambda>_. True) (io_now w) (sv_permissions S),
          sv_sessions := update_where (\<lambda>r. sr_ended_at r = None)
            (\<lambda>r. r\<lparr>sr_ended_at := Some (io_now w), sr_end_reason := Some reason\<rparr>) (sv_sessions S)\<rparr>))"

definition persist_end :: "io_env \<Rightarrow> string \<Rightarrow> string \<Rightarrow> session_service \<Rightarrow> session_service" where
  "persist_end w sid reason S =
     (if \<not> io_db_ok w then S
      else S\<lparr>sv_sessions := update_where (\<lambda>r. sr_session_id r = sid \<and> sr_ended_at r = None)
          (\<lambda>r. r\<lparr>sr_ended_at := Some (io_now w), sr_end_reason := Some reason\<rparr>) (sv_sessions S),
        sv_permissions := revoke_permissions (\<lambda>p. pm_session_id p = sid) (io_now w) (sv_permissions S)\<rparr>)"

definition new_session :: "io_env \<Rightarrow> string \<Rightarrow> string \<Rightarrow> session_settings \<Rightarrow> session" where
  "new_session w client cred cfg =
     \<lparr>ses_id = io_id w, ses_client_id = client, ses_credential_id = cred, ses_created_at = io_now w,
      ses_last_activity_at = io_now w,
      ses_absolute_expires_at = io_now w + as_i64 (ss_absolute_lifetime_hours cfg) * HOUR_MS,
      ses_idle_timeout_ms = as_i64 (ss_idle_timeout_minutes cfg) * MINUTE_MS, ses_grants = []\<rparr>"

definition session_row_of :: "session \<Rightarrow> session_row" where
  "session_row_of s =
     \<lparr>sr_session_id = ses_id s, sr_client_id = ses_client_id s, sr_credential_id = ses_credential_id s,
      sr_created_at = ses_created_at s, sr_last_activity_at = ses_created_at s,
      sr_absolute_expires_at = ses_absolute_expires_at s, sr_ended_at = None, sr_end_reason = None\<rparr>"

definition open_session ::
    "io_env \<Rightarrow> session_key \<Rightarrow> session_settings \<Rightarrow> ended_session option \<Rightarrow> session_service
     \<Rightarrow> (session \<times> ended_session option) lp_result \<times> session_service" where
  "open_session w key cfg ended S =
     (let s = new_session w (fst key) (snd key) cfg in
      case (if io_db_ok w then insert_by sr_session_id (session_row_of s) (sv_sessions S) else None) of
        None \<Rightarrow> (Inl LpError_internal, S)
      | Some rows \<Rightarrow> (Inr (s, ended),
          S\<lparr>sv_sessions := rows, sv_active := delete_where (\<lambda>e. fst e = key) (sv_active S) @ [(key, s)]\<rparr>))"

definition resolve_session ::
    "io_env \<Rightarrow> string \<Rightarrow> string \<Rightarrow> session_settings \<Rightarrow> session_service
     \<Rightarrow> (session \<times> ended_session option) lp_result \<times> session_service" where
  "resolve_session w client cred cfg S =
     (case find_by fst (client, cred) (sv_active S) of
        None \<Rightarrow> open_session w (client, cred) cfg None S
      | Some (_, s) \<Rightarrow>
          (case expired s (io_now w) of
             None \<Rightarrow> (Inr (s, None), S)
           | Some reason \<Rightarrow>
               open_session w (client, cred) cfg (Some \<lparr>en_session = s, en_reason = reason\<rparr>)
                 (persist_end w (ses_id s) reason
                   (S\<lparr>sv_active := delete_where (\<lambda>e. fst e = (client, cred)) (sv_active S)\<rparr>))))"

definition get_session :: "session_service \<Rightarrow> string \<Rightarrow> session option" where
  "get_session S sid = find (\<lambda>s. ses_id s = sid) (map snd (sv_active S))"

definition list_sessions :: "session_service \<Rightarrow> session list" where
  "list_sessions S = sort_key ses_created_at (map snd (sv_active S))"

text \<open>The sorted, duplicate-free client identifiers.\<close>

definition active_client_ids :: "int \<Rightarrow> session_service \<Rightarrow> string list" where
  "active_client_ids now S =
     dedup (sort (map ses_client_id (filter (\<lambda>s. expired s now = None) (map snd (sv_active S)))))"

definition mark_active :: "int \<Rightarrow> session \<Rightarrow> session" where
  "mark_active now s = (if expired s now = None then s\<lparr>ses_last_activity_at := now\<rparr> else s)"

definition touch :: "io_env \<Rightarrow> string \<Rightarrow> session_service \<Rightarrow> session_service" where
  "touch w sid S =
     S\<lparr>sv_active := update_first (\<lambda>e. ses_id (snd e) = sid) (map_session (mark_active (io_now w))) (sv_active S)\<rparr>"

definition touch_client :: "io_env \<Rightarrow> string \<Rightarrow> session_service \<Rightarrow> session_service" where
  "touch_client w client S =
     S\<lparr>sv_active := update_where (\<lambda>e. ses_client_id (snd e) = client) (map_session (mark_active (io_now w)))
       (sv_active S)\<rparr>"

definition push_grant :: "session_grant \<Rightarrow> session \<Rightarrow> session" where
  "push_grant g s = s\<lparr>ses_grants := ses_grants s @ [g]\<rparr>"

definition add_session_grant ::
    "io_env \<Rightarrow> string \<Rightarrow> session_grant \<Rightarrow> session_service \<Rightarrow> unit lp_result \<times> session_service" where
  "add_session_grant w sid g S =
     (case get_session S sid of
        None \<Rightarrow> (Inl (LpError_new SessionExpired ''the session has ended''), S)
      | Some s \<Rightarrow>
          (let S' = S\<lparr>sv_active := update_first (\<lambda>e. ses_id (snd e) = sid) (map_session (push_grant g)) (sv_active S)\<rparr> in
           if \<not> io_db_ok w then (Inl LpError_internal, S')
           else (Inr (), S'\<lparr>sv_permissions := sv_permissions S' @
             [\<lparr>pm_session_id = ses_id s, pm_client_id = ses_client_id s, pm_scope = sg_scope g, pm_label = sg_label g,
               pm_approval_id = sg_approval_id g, pm_created_at = sg_created_at g, pm_revoked_at = None\<rparr>]\<rparr>)))"

definition clear_grants :: "io_env \<Rightarrow> session_service \<Rightarrow> session_service" where
  "clear_grants w S =
     S\<lparr>sv_active := map (map_session (\<lambda>s. s\<lparr>ses_grants := []\<rparr>)) (sv_active S),
       sv_permissions := (if io_db_ok w then revoke_permissions (\<lambda>_. True) (io_now w) (sv_permissions S)
         else sv_permissions S)\<rparr>"

definition end_session_id ::
    "io_env \<Rightarrow> string \<Rightarrow> string \<Rightarrow> session_service \<Rightarrow> ended_session option \<times> session_service" where
  "end_session_id w sid reason S =
     (case find (\<lambda>e. ses_id (snd e) = sid) (sv_active S) of
        None \<Rightarrow> (None, S)
      | Some (key, s) \<Rightarrow>
          (Some \<lparr>en_session = s, en_reason = reason\<rparr>,
           persist_end w (ses_id s) reason (S\<lparr>sv_active := delete_where (\<lambda>e. fst e = key) (sv_active S)\<rparr>)))"

definition end_where ::
    "io_env \<Rightarrow> (session \<Rightarrow> bool) \<Rightarrow> string \<Rightarrow> session_service \<Rightarrow> ended_session list \<times> session_service" where
  "end_where w P reason S =
     (let out = map snd (filter (\<lambda>e. P (snd e)) (sv_active S)) in
      (map (\<lambda>s. \<lparr>en_session = s, en_reason = reason\<rparr>) out,
       fold (\<lambda>s. persist_end w (ses_id s) reason) out
         (S\<lparr>sv_active := delete_where (\<lambda>e. P (snd e)) (sv_active S)\<rparr>)))"

definition end_client :: "io_env \<Rightarrow> string \<Rightarrow> string \<Rightarrow> session_service \<Rightarrow> ended_session list \<times> session_service" where
  "end_client w client = end_where w (\<lambda>s. ses_client_id s = client)"

definition end_credential :: "io_env \<Rightarrow> string \<Rightarrow> string \<Rightarrow> session_service \<Rightarrow> ended_session list \<times> session_service" where
  "end_credential w cred = end_where w (\<lambda>s. ses_credential_id s = cred)"

definition end_all :: "io_env \<Rightarrow> string \<Rightarrow> session_service \<Rightarrow> ended_session list \<times> session_service" where
  "end_all w = end_where w (\<lambda>_. True)"

definition sweep_one ::
    "io_env \<Rightarrow> string \<times> string \<Rightarrow> ended_session list \<times> session_service \<Rightarrow> ended_session list \<times> session_service" where
  "sweep_one w x acc =
     (let (e, S) = end_session_id w (fst x) (snd x) (snd acc) in
      (fst acc @ (case e of None \<Rightarrow> [] | Some d \<Rightarrow> [d]), S))"

definition sweep :: "io_env \<Rightarrow> session_service \<Rightarrow> ended_session list \<times> session_service" where
  "sweep w S =
     fold (sweep_one w)
       (List.map_filter (\<lambda>e. map_option (\<lambda>r. (ses_id (snd e), r)) (expired (snd e) (io_now w))) (sv_active S))
       ([], S)"

definition limit_session :: "session_settings \<Rightarrow> session \<Rightarrow> session" where
  "limit_session cfg s =
     s\<lparr>ses_idle_timeout_ms := as_i64 (ss_idle_timeout_minutes cfg) * MINUTE_MS,
       ses_absolute_expires_at := min (ses_absolute_expires_at s)
         (ses_created_at s + as_i64 (ss_absolute_lifetime_hours cfg) * HOUR_MS)\<rparr>"

definition apply_limits :: "session_settings \<Rightarrow> session_service \<Rightarrow> session_service" where
  "apply_limits cfg S = S\<lparr>sv_active := map (map_session (limit_session cfg)) (sv_active S)\<rparr>"

section \<open>The invariant\<close>

text \<open>What identifies an entry of the map; every operation but opening and ending leaves it alone.\<close>

definition ident :: "session_key \<times> session \<Rightarrow> session_key \<times> string \<times> session_key" where
  "ident e = (fst e, ses_id (snd e), (ses_client_id (snd e), ses_credential_id (snd e)))"

definition idents_ok :: "string set \<Rightarrow> (session_key \<times> string \<times> session_key) list \<Rightarrow> bool" where
  "idents_ok known is \<longleftrightarrow> distinct (map fst is) \<and> distinct (map (fst \<circ> snd) is)
     \<and> (\<forall>i\<in>set is. fst i = snd (snd i) \<and> fst (snd i) \<in> known)"

text \<open>At most one session per client and credential, filed under both; no identifier is used twice; each active session
  is recorded.\<close>

definition session_inv :: "session_service \<Rightarrow> bool" where
  "session_inv S \<longleftrightarrow> keyed sr_session_id (sv_sessions S)
     \<and> idents_ok (sr_session_id ` set (sv_sessions S)) (map ident (sv_active S))"

definition keeps_ident :: "(session \<Rightarrow> session) \<Rightarrow> bool" where
  "keeps_ident f \<longleftrightarrow> (\<forall>s. ses_id (f s) = ses_id s \<and> ses_client_id (f s) = ses_client_id s
     \<and> ses_credential_id (f s) = ses_credential_id s)"

lemma new_session_sel [simp]:
  "ses_id (new_session w c d cfg) = io_id w" "ses_client_id (new_session w c d cfg) = c"
  "ses_credential_id (new_session w c d cfg) = d" "ses_grants (new_session w c d cfg) = []"
  "ses_created_at (new_session w c d cfg) = io_now w" "ses_last_activity_at (new_session w c d cfg) = io_now w"
  by (simp_all add: new_session_def)

lemma session_row_of_sel [simp]: "sr_session_id (session_row_of s) = ses_id s"
  by (simp add: session_row_of_def)

lemma ident_map_session: "keeps_ident f \<Longrightarrow> ident (map_session f e) = ident e"
  by (simp add: ident_def map_session_def keeps_ident_def)

lemma keeps_ident_simps [simp]:
  "keeps_ident (mark_active now)" "keeps_ident (push_grant g)" "keeps_ident (limit_session cfg)"
  "keeps_ident (\<lambda>s. s\<lparr>ses_grants := []\<rparr>)"
  by (simp_all add: keeps_ident_def mark_active_def push_grant_def limit_session_def)

lemma map_update_first: "(\<And>x. h (f x) = h x) \<Longrightarrow> map h (update_first P f xs) = map h xs"
  by (induction xs) auto

lemma map_update_where: "(\<And>x. h (f x) = h x) \<Longrightarrow> map h (update_where P f xs) = map h xs"
  by (simp add: update_where_def)

lemma idents_ok_delete: "idents_ok K (map ident xs) \<Longrightarrow> idents_ok K (map ident (delete_where P xs))"
  by (auto simp: idents_ok_def delete_where_def comp_def intro: distinct_map_filter)

lemma idents_ok_mono: "idents_ok K is \<Longrightarrow> K \<subseteq> K' \<Longrightarrow> idents_ok K' is"
  by (auto simp: idents_ok_def)

lemma idents_ok_snoc:
  assumes "idents_ok K is" and "k \<notin> fst ` set is" and "x \<notin> K"
  shows "idents_ok (insert x K) (is @ [(k, x, k)])"
  using assms by (auto simp: idents_ok_def)

lemma session_inv_active:
  assumes "session_inv S" and "map ident (sv_active S') = map ident (sv_active S)" and "sv_sessions S' = sv_sessions S"
  shows "session_inv S'"
  using assms by (simp add: session_inv_def)

lemma session_inv_rows:
  assumes "session_inv S" and "map sr_session_id (sv_sessions S') = map sr_session_id (sv_sessions S)"
    and "sv_active S' = sv_active S"
  shows "session_inv S'"
  using assms by (simp add: session_inv_def keyed_def flip: set_map)

lemma persist_end_inv: "session_inv S \<Longrightarrow> session_inv (persist_end w sid r S)"
  by (erule session_inv_rows) (simp_all add: persist_end_def map_update_where)

lemma persist_end_active [simp]: "sv_active (persist_end w sid r S) = sv_active S"
  by (simp add: persist_end_def)

lemma end_all_persisted_inv: "session_inv S \<Longrightarrow> session_inv (snd (end_all_persisted w r S))"
  by (erule session_inv_rows) (simp_all add: end_all_persisted_def map_update_where)

lemma remove_inv: "session_inv S \<Longrightarrow> session_inv (S\<lparr>sv_active := delete_where P (sv_active S)\<rparr>)"
  by (simp add: session_inv_def idents_ok_delete)

lemma fold_persist_inv: "session_inv S \<Longrightarrow> session_inv (fold (\<lambda>s. persist_end w (ses_id s) r) xs S)"
  by (induction xs arbitrary: S) (simp_all add: persist_end_inv)

lemma fold_persist_active [simp]: "sv_active (fold (\<lambda>s. persist_end w (ses_id s) r) xs S) = sv_active S"
  by (induction xs arbitrary: S) simp_all

lemma open_session_inv:
  assumes "session_inv S"
  shows "session_inv (snd (open_session w key cfg e S))"
proof (cases "if io_db_ok w then insert_by sr_session_id (session_row_of (new_session w (fst key) (snd key) cfg)) (sv_sessions S)
    else None")
  case None
  then show ?thesis using assms by (simp add: open_session_def Let_def)
next
  case (Some rows)
  then have rows: "rows = sv_sessions S @ [session_row_of (new_session w (fst key) (snd key) cfg)]"
    and fresh: "io_id w \<notin> sr_session_id ` set (sv_sessions S)"
    by (auto simp: insert_by_def list_ex_iff split: if_splits)
  have "idents_ok (sr_session_id ` set (sv_sessions S)) (map ident (delete_where (\<lambda>e. fst e = key) (sv_active S)))"
    using assms by (simp add: session_inv_def idents_ok_delete)
  then have "idents_ok (insert (io_id w) (sr_session_id ` set (sv_sessions S)))
      (map ident (delete_where (\<lambda>e. fst e = key) (sv_active S)) @ [(key, io_id w, key)])"
    by (rule idents_ok_snoc) (use fresh in \<open>auto simp: ident_def\<close>)
  moreover have "keyed sr_session_id rows"
    using assms rows fresh by (simp add: session_inv_def keyed_def)
  ultimately show ?thesis
    using Some rows
    by (simp only: open_session_def Let_def Some option.case snd_conv) (simp add: session_inv_def ident_def)
qed

lemma resolve_session_inv: "session_inv S \<Longrightarrow> session_inv (snd (resolve_session w client cred cfg S))"
  by (auto simp: resolve_session_def open_session_inv persist_end_inv remove_inv split: option.split)

lemma end_session_id_inv: "session_inv S \<Longrightarrow> session_inv (snd (end_session_id w sid r S))"
  by (auto simp: end_session_id_def persist_end_inv remove_inv split: option.split)

lemma end_where_inv: "session_inv S \<Longrightarrow> session_inv (snd (end_where w P r S))"
  by (simp add: end_where_def Let_def fold_persist_inv remove_inv)

lemma sweep_one_snd [simp]: "snd (sweep_one w x acc) = snd (end_session_id w (fst x) (snd x) (snd acc))"
  by (simp add: sweep_one_def split: prod.split)

lemma sweep_inv: "session_inv S \<Longrightarrow> session_inv (snd (sweep w S))"
proof -
  have "session_inv (snd acc) \<Longrightarrow> session_inv (snd (fold (sweep_one w) xs acc))" for xs acc
    by (induction xs arbitrary: acc) (simp_all add: end_session_id_inv)
  then show "session_inv S \<Longrightarrow> session_inv (snd (sweep w S))" by (simp add: sweep_def)
qed

lemma add_session_grant_inv: "session_inv S \<Longrightarrow> session_inv (snd (add_session_grant w sid g S))"
  by (erule session_inv_active)
    (simp_all add: add_session_grant_def Let_def map_update_first ident_map_session split: option.split)

lemma touch_inv: "session_inv S \<Longrightarrow> session_inv (touch w sid S)"
  by (erule session_inv_active) (simp_all add: touch_def map_update_first ident_map_session)

lemma touch_client_inv: "session_inv S \<Longrightarrow> session_inv (touch_client w c S)"
  by (erule session_inv_active) (simp_all add: touch_client_def map_update_where ident_map_session)

lemma clear_grants_inv: "session_inv S \<Longrightarrow> session_inv (clear_grants w S)"
  by (erule session_inv_active) (simp_all add: clear_grants_def ident_map_session comp_def)

lemma apply_limits_inv: "session_inv S \<Longrightarrow> session_inv (apply_limits cfg S)"
  by (erule session_inv_active) (simp_all add: apply_limits_def ident_map_session comp_def)

section \<open>Runs\<close>

text \<open>One label per operation that changes the state; \<open>Restart\<close> is a new process on the same tables, which first
  ends what the old one left open.\<close>

datatype session_event =
    SE_Resolve string string session_settings
  | SE_Touch string
  | SE_TouchClient string
  | SE_AddGrant string session_grant
  | SE_ClearGrants
  | SE_End string string
  | SE_EndWhere "session \<Rightarrow> bool" string
  | SE_Sweep
  | SE_ApplyLimits session_settings
  | SE_Restart

inductive session_step :: "session_service \<Rightarrow> session_event \<Rightarrow> session_service \<Rightarrow> bool" where
  resolve_step: "session_step S (SE_Resolve client cred cfg) (snd (resolve_session w client cred cfg S))"
| touch_step: "session_step S (SE_Touch sid) (touch w sid S)"
| touch_client_step: "session_step S (SE_TouchClient client) (touch_client w client S)"
| add_grant_step: "session_step S (SE_AddGrant sid g) (snd (add_session_grant w sid g S))"
| clear_grants_step: "session_step S SE_ClearGrants (clear_grants w S)"
| end_step: "session_step S (SE_End sid reason) (snd (end_session_id w sid reason S))"
| end_where_step: "session_step S (SE_EndWhere P reason) (snd (end_where w P reason S))"
| sweep_step: "session_step S SE_Sweep (snd (sweep w S))"
| apply_limits_step: "session_step S (SE_ApplyLimits cfg) (apply_limits cfg S)"
| restart_step: "session_step S SE_Restart
    (snd (end_all_persisted w ''restart'' (SessionService_new (sv_sessions S) (sv_permissions S))))"

lemma SessionService_new_inv: "keyed sr_session_id rows \<Longrightarrow> session_inv (SessionService_new rows perms)"
  by (simp add: session_inv_def SessionService_new_def idents_ok_def)

lemmas session_invs = resolve_session_inv touch_inv touch_client_inv add_session_grant_inv clear_grants_inv
  end_session_id_inv end_where_inv sweep_inv apply_limits_inv end_all_persisted_inv SessionService_new_inv

interpretation session_runs: invariant_system session_step session_inv
proof
  fix S e S'
  assume inv: "session_inv S" and step: "session_step S e S'"
  then have "keyed sr_session_id (sv_sessions S)" by (simp add: session_inv_def)
  with step inv show "session_inv S'" by cases (simp_all add: session_invs)
qed

section \<open>No session comes back\<close>

text \<open>\<open>descends S S'\<close>: identifiers stay recorded, and every session of \<open>S'\<close> with an identifier recorded in \<open>S\<close> is a session
  of \<open>S\<close>, of the same client and credential, with an absolute expiry that has not moved later.\<close>

definition recorded :: "session_service \<Rightarrow> string set" where
  "recorded S = sr_session_id ` set (sv_sessions S)"

definition heir :: "session \<Rightarrow> session \<Rightarrow> bool" where
  "heir s s' \<longleftrightarrow> ses_id s' = ses_id s \<and> ses_client_id s' = ses_client_id s
     \<and> ses_credential_id s' = ses_credential_id s \<and> ses_created_at s' = ses_created_at s
     \<and> ses_absolute_expires_at s' \<le> ses_absolute_expires_at s"

definition descends :: "session_service \<Rightarrow> session_service \<Rightarrow> bool" where
  "descends S S' \<longleftrightarrow> recorded S \<subseteq> recorded S'
     \<and> (\<forall>e'\<in>set (sv_active S'). ses_id (snd e') \<in> recorded S \<longrightarrow> (\<exists>e\<in>set (sv_active S). heir (snd e) (snd e')))"

lemma heir_refl [simp]: "heir s s"
  by (simp add: heir_def)

lemma heir_simps [simp]:
  "heir s (mark_active now s)" "heir s (push_grant g s)" "heir s (limit_session cfg s)" "heir s (s\<lparr>ses_grants := gs\<rparr>)"
  by (simp_all add: heir_def mark_active_def push_grant_def limit_session_def)

lemma descends_refl: "descends S S"
  by (auto simp: descends_def intro: heir_refl)

lemma descends_trans:
  assumes "descends S T" and "descends T U"
  shows "descends S U"
  unfolding descends_def
proof (intro conjI ballI impI)
  show "recorded S \<subseteq> recorded U" using assms by (auto simp: descends_def)
next
  fix u
  assume u: "u \<in> set (sv_active U)" "ses_id (snd u) \<in> recorded S"
  then obtain t where t: "t \<in> set (sv_active T)" "heir (snd t) (snd u)" using assms by (auto simp: descends_def)
  with u have "ses_id (snd t) \<in> recorded S" by (simp add: heir_def)
  with assms(1) t obtain s where s: "s \<in> set (sv_active S)" "heir (snd s) (snd t)" by (auto simp: descends_def)
  with t show "\<exists>e\<in>set (sv_active S). heir (snd e) (snd u)" by (auto simp: heir_def intro!: bexI [of _ s])
qed

lemma descends_rows: "recorded S' = recorded S \<Longrightarrow> sv_active S' = sv_active S \<Longrightarrow> descends S S'"
  by (auto simp: descends_def intro: heir_refl)

lemma descends_subset:
  "sv_sessions S' = sv_sessions S \<Longrightarrow> set (sv_active S') \<subseteq> set (sv_active S) \<Longrightarrow> descends S S'"
  by (auto simp: descends_def recorded_def intro: heir_refl)

lemma descends_changed:
  assumes "sv_sessions S' = sv_sessions S"
    and "\<And>e'. e' \<in> set (sv_active S') \<Longrightarrow> \<exists>e\<in>set (sv_active S). heir (snd e) (snd e')"
  shows "descends S S'"
  using assms by (auto simp: descends_def recorded_def)

lemma recorded_update: "(\<And>r. sr_session_id (f r) = sr_session_id r) \<Longrightarrow>
  sr_session_id ` set (update_where P f rows) = sr_session_id ` set rows"
  using map_update_where [of sr_session_id f P rows] by (metis set_map)

lemma persist_end_descends: "descends S (persist_end w sid r S)"
  by (rule descends_rows) (simp_all add: recorded_def persist_end_def recorded_update)

lemma fold_persist_descends: "descends S (fold (\<lambda>s. persist_end w (ses_id s) r) xs S)"
  by (induction xs arbitrary: S) (auto intro: descends_refl descends_trans persist_end_descends)

lemma remove_descends: "descends S (S\<lparr>sv_active := delete_where P (sv_active S)\<rparr>)"
  by (rule descends_subset) auto

lemma ended_descends: "descends S (persist_end w sid r (S\<lparr>sv_active := delete_where P (sv_active S)\<rparr>))"
  by (rule descends_trans [OF remove_descends persist_end_descends])

lemma open_session_descends: "descends S (snd (open_session w key cfg e S))"
proof (cases "if io_db_ok w then insert_by sr_session_id (session_row_of (new_session w (fst key) (snd key) cfg)) (sv_sessions S)
    else None")
  case None
  then show ?thesis by (simp add: open_session_def Let_def descends_refl)
next
  case (Some rows)
  then have rows: "rows = sv_sessions S @ [session_row_of (new_session w (fst key) (snd key) cfg)]"
    and fresh: "io_id w \<notin> recorded S"
    by (auto simp: insert_by_def list_ex_iff recorded_def split: if_splits)
  let ?S = "snd (open_session w key cfg e S)"
  have "\<exists>d\<in>set (sv_active S). heir (snd d) (snd e')"
    if "e' \<in> set (sv_active ?S)" "ses_id (snd e') \<in> recorded S" for e'
  proof -
    have "e' \<in> set (sv_active S)"
      using that fresh Some by (auto simp: open_session_def Let_def simp del: split_paired_All)
    then show ?thesis by (intro bexI [of _ e']) simp_all
  qed
  moreover have "recorded S \<subseteq> recorded ?S" using Some rows by (auto simp: open_session_def Let_def recorded_def)
  ultimately show ?thesis by (simp add: descends_def)
qed

lemma resolve_session_descends: "descends S (snd (resolve_session w client cred cfg S))"
  by (auto simp: resolve_session_def descends_refl open_session_descends split: option.split
      intro: descends_trans [OF ended_descends open_session_descends])

lemma end_session_id_descends: "descends S (snd (end_session_id w sid r S))"
  by (auto simp: end_session_id_def descends_refl ended_descends split: option.split)

lemma end_where_descends: "descends S (snd (end_where w P r S))"
  using descends_trans [OF remove_descends fold_persist_descends] by (simp add: end_where_def Let_def)

lemma sweep_descends: "descends S (snd (sweep w S))"
proof -
  have "descends (snd acc) (snd (fold (sweep_one w) xs acc))" for xs acc
  proof (induction xs arbitrary: acc)
    case (Cons x xs)
    have "descends (snd acc) (snd (sweep_one w x acc))" by (simp add: end_session_id_descends)
    with Cons.IH [of "sweep_one w x acc"] show ?case by (auto intro: descends_trans)
  qed (simp add: descends_refl)
  from this [of "([], S)"] show ?thesis by (simp add: sweep_def)
qed

lemma update_first_in: "x \<in> set (update_first P f xs) \<Longrightarrow> \<exists>y\<in>set xs. x = y \<or> x = f y"
  by (induction xs) (auto split: if_splits)

lemma update_where_in: "x \<in> set (update_where P f xs) \<Longrightarrow> \<exists>y\<in>set xs. x = y \<or> x = f y"
  by (auto simp: update_where_def)

lemma descends_map_session:
  assumes "sv_sessions S' = sv_sessions S" and "\<And>s. heir s (f s)"
    and "sv_active S' = map (map_session f) (sv_active S) \<or> sv_active S' = update_where P (map_session f) (sv_active S)
      \<or> sv_active S' = update_first P (map_session f) (sv_active S)"
  shows "descends S S'"
proof (rule descends_changed [OF assms(1)])
  fix e'
  assume "e' \<in> set (sv_active S')"
  then obtain e where "e \<in> set (sv_active S)" "e' = e \<or> e' = map_session f e"
    using assms(3) update_first_in [of e' P "map_session f"] update_where_in [of e' P "map_session f"] by fastforce
  then show "\<exists>e\<in>set (sv_active S). heir (snd e) (snd e')"
    using assms(2) [of "snd e"] by (intro bexI [of _ e]) (auto simp: map_session_def)
qed

lemma session_step_descends: "session_step S e S' \<Longrightarrow> descends S S'"
proof (induction rule: session_step.induct)
  case (touch_step S sid w)
  show ?case by (rule descends_map_session [where f = "mark_active (io_now w)"]) (simp_all add: touch_def, blast)
next
  case (touch_client_step S client w)
  show ?case by (rule descends_map_session [where f = "mark_active (io_now w)"]) (simp_all add: touch_client_def, blast)
next
  case (add_grant_step S sid g w)
  show ?case
  proof (cases "get_session S sid")
    case None
    then show ?thesis by (simp add: add_session_grant_def descends_refl)
  next
    case (Some s)
    then show ?thesis
      by (intro descends_map_session [where f = "push_grant g" and P = "\<lambda>e. ses_id (snd e) = sid"])
        (simp_all add: add_session_grant_def Let_def)
  qed
next
  case (clear_grants_step S w)
  show ?case by (rule descends_map_session [where f = "\<lambda>s. s\<lparr>ses_grants := []\<rparr>"]) (simp_all add: clear_grants_def)
next
  case (apply_limits_step S cfg)
  show ?case by (rule descends_map_session [where f = "limit_session cfg"]) (simp_all add: apply_limits_def)
next
  case (restart_step S w)
  show ?case by (simp add: descends_def recorded_def end_all_persisted_def SessionService_new_def recorded_update)
qed (simp_all add: resolve_session_descends end_session_id_descends end_where_descends sweep_descends)


interpretation session_lineage: invariant_system session_step "descends S"
  by unfold_locales (rule descends_trans [OF _ session_step_descends])

section \<open>The sweep\<close>

lemma session_inv_ids: "session_inv S \<Longrightarrow> distinct (map (\<lambda>e. ses_id (snd e)) (sv_active S))"
  by (simp add: session_inv_def idents_ok_def ident_def comp_def)

lemma session_inv_keys: "session_inv S \<Longrightarrow> keyed fst (sv_active S)"
  by (simp add: session_inv_def idents_ok_def ident_def comp_def keyed_def)

lemma same_key: "keyed fst xs \<Longrightarrow> e \<in> set xs \<Longrightarrow> d \<in> set xs \<Longrightarrow> fst e = fst d \<longleftrightarrow> e = d"
  by (metis find_by_keyed option.inject)

lemma same_id: "session_inv S \<Longrightarrow> e \<in> set (sv_active S) \<Longrightarrow> d \<in> set (sv_active S) \<Longrightarrow>
  ses_id (snd e) = ses_id (snd d) \<longleftrightarrow> e = d"
  using session_inv_ids [of S] by (auto simp: distinct_map inj_on_def)

lemma find_map: "find P (map f xs) = map_option f (find (\<lambda>x. P (f x)) xs)"
  by (induction xs) auto

lemma find_session:
  assumes "session_inv S" and "e \<in> set (sv_active S)"
  shows "find (\<lambda>d. ses_id (snd d) = ses_id (snd e)) (sv_active S) = Some e"
proof (cases "find (\<lambda>d. ses_id (snd d) = ses_id (snd e)) (sv_active S)")
  case None
  then show ?thesis using assms(2) unfolding find_None_set by blast
next
  case (Some d)
  then show ?thesis using same_id [OF assms(1) _ assms(2), of d] by (auto dest!: find_Some_in_set)
qed

text \<open>Ending by identifier removes that session and no other.\<close>

lemma end_session_id_active:
  assumes "session_inv S" and "e \<in> set (sv_active S)" and "ses_id (snd e) = sid"
  shows "sv_active (snd (end_session_id w sid r S)) = delete_where (\<lambda>d. ses_id (snd d) = sid) (sv_active S)"
proof -
  have "find (\<lambda>d. ses_id (snd d) = sid) (sv_active S) = Some e"
    using find_session [OF assms(1,2)] assms(3) by simp
  moreover have "delete_where (\<lambda>d. fst d = fst e) (sv_active S) = delete_where (\<lambda>d. ses_id (snd d) = sid) (sv_active S)"
    using same_key [OF session_inv_keys [OF assms(1)] _ assms(2)] same_id [OF assms(1) _ assms(2)] assms(3)
    by (auto simp: delete_where_def intro!: filter_cong)
  ultimately show ?thesis by (cases e) (simp add: end_session_id_def)
qed

lemma end_session_id_missing:
  "\<forall>e\<in>set (sv_active S). ses_id (snd e) \<noteq> sid \<Longrightarrow> snd (end_session_id w sid r S) = S"
  by (auto simp: end_session_id_def split: option.split dest: find_Some_in_set)

lemma fold_sweep_active:
  "session_inv (snd acc) \<Longrightarrow>
     sv_active (snd (fold (sweep_one w) xs acc)) =
       delete_where (\<lambda>e. ses_id (snd e) \<in> fst ` set xs) (sv_active (snd acc))"
proof (induction xs arbitrary: acc)
  case Nil
  then show ?case by (simp add: delete_where_def)
next
  case (Cons x xs)
  have "sv_active (snd (sweep_one w x acc)) = delete_where (\<lambda>e. ses_id (snd e) = fst x) (sv_active (snd acc))"
  proof (cases "\<exists>e\<in>set (sv_active (snd acc)). ses_id (snd e) = fst x")
    case True
    then show ?thesis using Cons.prems by (auto simp: end_session_id_active)
  next
    case False
    then show ?thesis by (simp add: end_session_id_missing delete_where_def)
  qed
  with Cons show ?case by (auto simp: delete_where_def end_session_id_inv intro!: filter_cong)
qed

lemma session_ids_inj: "session_inv S \<Longrightarrow> inj_on (\<lambda>e. ses_id (snd e)) (set (sv_active S))"
  using session_inv_ids [of S] by (simp add: distinct_map)

lemma map_filter_keys:
  "fst ` set (List.map_filter (\<lambda>e. map_option (\<lambda>r. (g e, r)) (h e)) xs) = g ` {e \<in> set xs. h e \<noteq> None}"
  by (induction xs) (auto simp: List.map_filter_simps split: option.splits)

text \<open>The periodic sweep ends exactly the sessions past their idle or absolute limit: in every state the
  service can reach, what is active afterwards is what was active and had not expired, in the same order.\<close>

theorem sweep_exact:
  assumes "keyed sr_session_id rows" and "run session_step (SessionService_new rows perms) es S"
  shows "sv_active (snd (sweep w S)) = filter (\<lambda>e. expired (snd e) (io_now w) = None) (sv_active S)"
proof -
  have inv: "session_inv S" using session_runs.run_inv [OF assms(2)] assms(1) SessionService_new_inv by blast
  let ?late = "List.map_filter (\<lambda>e. map_option (\<lambda>r. (ses_id (snd e), r)) (expired (snd e) (io_now w))) (sv_active S)"
  have late: "ses_id (snd e) \<in> fst ` set ?late \<longleftrightarrow> expired (snd e) (io_now w) \<noteq> None" if "e \<in> set (sv_active S)" for e
    unfolding map_filter_keys using inj_on_image_mem_iff [OF session_ids_inj [OF inv] that] that by simp
  have "sv_active (snd (sweep w S)) = delete_where (\<lambda>e. ses_id (snd e) \<in> fst ` set ?late) (sv_active S)"
    unfolding sweep_def using fold_sweep_active [of "([], S)" w ?late] inv by simp
  also have "\<dots> = filter (\<lambda>e. expired (snd e) (io_now w) = None) (sv_active S)"
    unfolding delete_where_def by (rule filter_cong [OF refl]) (simp only: late not_not)
  finally show ?thesis .
qed

section \<open>Properties\<close>

text \<open>A session of thirty minutes idle time, last active at the start of the clock.\<close>

definition demo_idle :: session where
  "demo_idle = \<lparr>ses_id = ''ses_1'', ses_client_id = ''cl_1'', ses_credential_id = ''cred_1'', ses_created_at = 0,
     ses_last_activity_at = 0, ses_absolute_expires_at = 8 * HOUR_MS, ses_idle_timeout_ms = 30 * MINUTE_MS, ses_grants = []\<rparr>"


text \<open>C29: In every state the session service can reach, over restarts and failed database writes, there is at most one active
  session for a client and credential, no two active sessions share an identifier, and a lookup under the
  client and credential of an active session finds that session.\<close>

theorem one_session_per_grant:
  assumes "keyed sr_session_id rows" and "run session_step (SessionService_new rows perms) es S"
    and "(k, s) \<in> set (sv_active S)"
  shows "find_by fst (ses_client_id s, ses_credential_id s) (sv_active S) = Some (k, s)
    \<and> get_session S (ses_id s) = Some s"
proof -
  have inv: "session_inv S" using session_runs.run_inv [OF assms(2)] assms(1) SessionService_new_inv by blast
  have "k = (ses_client_id s, ses_credential_id s)"
    using inv assms(3) by (auto simp: session_inv_def idents_ok_def ident_def)
  then have "find_by fst (ses_client_id s, ses_credential_id s) (sv_active S) = Some (k, s)"
    using find_by_keyed [OF session_inv_keys [OF inv] assms(3)] by simp
  moreover have "get_session S (ses_id s) = Some s"
    using find_session [OF inv assms(3)] by (simp add: get_session_def find_map)
  ultimately show ?thesis by blast
qed

text \<open>A session that has ended never comes back, and no operation moves a session's absolute expiry later: along any run,
  an active session whose identifier was recorded before was active then, for the same client and credential,
  with an absolute expiry at least as late.\<close>

theorem session_never_revived:
  assumes "run session_step S es S'" and "(k', s') \<in> set (sv_active S')"
    and "find_by sr_session_id (ses_id s') (sv_sessions S) \<noteq> None"
  shows "\<exists>k s. (k, s) \<in> set (sv_active S) \<and> ses_id s = ses_id s' \<and> ses_client_id s = ses_client_id s'
    \<and> ses_credential_id s = ses_credential_id s' \<and> ses_absolute_expires_at s' \<le> ses_absolute_expires_at s"
proof -
  have "descends S S'" by (rule session_lineage.run_inv [OF assms(1) descends_refl])
  moreover have "ses_id s' \<in> recorded S"
    using assms(3) by (force simp: recorded_def dest: find_by_Some)
  ultimately obtain e where "e \<in> set (sv_active S)" "heir (snd e) s'"
    using assms(2) by (force simp: descends_def)
  then show ?thesis by (intro exI [of _ "fst e"] exI [of _ "snd e"]) (simp add: heir_def)
qed


lemma open_session_Inr:
  assumes "open_session w (c, d) cfg e S = (Inr (s, en), S')"
  shows "s = new_session w c d cfg \<and> en = e \<and> sv_active S' = delete_where (\<lambda>x. fst x = (c, d)) (sv_active S) @ [((c, d), s)]"
proof (cases "if io_db_ok w then insert_by sr_session_id (session_row_of (new_session w c d cfg)) (sv_sessions S) else None")
  case None
  then show ?thesis using assms by (simp add: open_session_def Let_def)
next
  case (Some rows)
  have "open_session w (c, d) cfg e S = (Inr (new_session w c d cfg, e), S\<lparr>sv_sessions := rows,
      sv_active := delete_where (\<lambda>x. fst x = (c, d)) (sv_active S) @ [((c, d), new_session w c d cfg)]\<rparr>)"
    by (simp only: open_session_def Let_def fst_conv snd_conv Some option.case)
  then show ?thesis using assms by auto
qed

text \<open>A caller always gets a live session of its own: under validated settings the session \<^verbatim>\<open>resolve\<close> returns has not
  expired, belongs to that client and credential, is the active one, and carries grants only if it was
  already active; what it reports as ended is the expired session it replaced.\<close>

theorem resolved_session_live:
  assumes "validate_times cfg = Inr ()" and "session_inv S" and "resolve_session w client cred cfg S = (Inr (s, ended), S')"
  shows "expired s (io_now w) = None \<and> ses_client_id s = client \<and> ses_credential_id s = cred
    \<and> find_by fst (client, cred) (sv_active S') = Some ((client, cred), s)
    \<and> (ses_grants s \<noteq> [] \<longrightarrow> find_by fst (client, cred) (sv_active S) = Some ((client, cred), s))
    \<and> (\<forall>e. ended = Some e \<longrightarrow> find_by fst (client, cred) (sv_active S) = Some ((client, cred), en_session e)
        \<and> expired (en_session e) (io_now w) = Some (en_reason e))"
proof -
  have fresh: "expired (new_session w client cred cfg) (io_now w) = None"
    using validated_times [OF assms(1)]
    by (simp add: expired_def idle_expires_at_def new_session_def HOUR_MS_def MINUTE_MS_def)
  have opened: "s = new_session w client cred cfg \<and> ended = e \<and>
      find_by fst (client, cred) (sv_active S') = Some ((client, cred), s)"
    if "open_session w (client, cred) cfg e T = (Inr (s, ended), S')" for e T
  proof -
    from that have "s = new_session w client cred cfg \<and> ended = e
        \<and> sv_active S' = delete_where (\<lambda>e. fst e = (client, cred)) (sv_active T) @ [((client, cred), s)]"
      by (rule open_session_Inr)
    moreover have "find_by fst (client, cred) (delete_where (\<lambda>e. fst e = (client, cred)) (sv_active T)) = None"
      by (simp add: find_by_None)
    ultimately show ?thesis by (simp add: find_by_append)
  qed
  show ?thesis
  proof (cases "find_by fst (client, cred) (sv_active S)")
    case None
    then have "open_session w (client, cred) cfg None S = (Inr (s, ended), S')" using assms(3) by (simp add: resolve_session_def)
    from opened [OF this] fresh show ?thesis by simp
  next
    case (Some e)
    then have e: "fst e = (client, cred)" "e \<in> set (sv_active S)" using find_by_Some [OF Some] by auto
    then have ce: "ses_client_id (snd e) = client \<and> ses_credential_id (snd e) = cred"
      using assms(2) by (auto simp: session_inv_def idents_ok_def ident_def)
    obtain s0 where s0: "e = ((client, cred), s0)" using e(1) by (cases e) simp
    show ?thesis
    proof (cases "expired s0 (io_now w)")
      case None
      then have "s = s0 \<and> ended = None \<and> S' = S" using assms(3) Some s0 by (simp add: resolve_session_def)
      then show ?thesis using None Some s0 ce by simp
    next
      case (Some r)
      with \<open>find_by fst (client, cred) (sv_active S) = Some e\<close> s0 assms(3)
      have "open_session w (client, cred) cfg (Some \<lparr>en_session = s0, en_reason = r\<rparr>)
          (persist_end w (ses_id s0) r (S\<lparr>sv_active := delete_where (\<lambda>e. fst e = (client, cred)) (sv_active S)\<rparr>))
          = (Inr (s, ended), S')"
        by (simp add: resolve_session_def)
      from opened [OF this] fresh Some \<open>find_by fst (client, cred) (sv_active S) = Some e\<close> s0 show ?thesis by simp
    qed
  qed
qed

text \<open>New limits can revive a session: an idle-expired session that has not been swept yet is live again once a longer
  idle timeout is applied.\<close>

theorem apply_limits_revives_idle:
  "expired demo_idle 1800000 = Some ''idle_expiry''
   \<and> map (\<lambda>e. expired (snd e) 1800000) (sv_active (apply_limits (SessionSettings_default\<lparr>ss_idle_timeout_minutes := 60\<rparr>)
       \<lparr>sv_active = [((''cl_1'', ''cred_1''), demo_idle)], sv_sessions = [], sv_permissions = []\<rparr>)) = [None]"
  by (simp add: expired_def idle_expires_at_def demo_idle_def apply_limits_def map_session_def limit_session_def
      SessionSettings_default_def as_i64_def HOUR_MS_def MINUTE_MS_def)

section \<open>Witnesses\<close>

definition demo_io :: io_env where
  "demo_io = \<lparr>io_now = 0, io_id = ''ses_1'', io_db_ok = True\<rparr>"

definition demo_sessions :: session_service where
  "demo_sessions = snd (resolve_session demo_io ''cl_1'' ''cred_1'' SessionSettings_default (SessionService_new [] []))"

lemma session_demo:
  "resolve_session demo_io ''cl_1'' ''cred_1'' SessionSettings_default (SessionService_new [] []) =
     (Inr (demo_idle, None), demo_sessions)"
  "demo_sessions = \<lparr>sv_active = [((''cl_1'', ''cred_1''), demo_idle)], sv_sessions = [session_row_of demo_idle],
     sv_permissions = []\<rparr>"
  by (simp_all add: demo_sessions_def resolve_session_def SessionService_new_def open_session_def Let_def insert_by_def find_by_def
      delete_where_def new_session_def demo_io_def demo_idle_def SessionSettings_default_def as_i64_def session_row_of_def)

lemma session_demo_run: "run session_step (SessionService_new [] []) [SE_Resolve ''cl_1'' ''cred_1'' SessionSettings_default] demo_sessions"
  using resolve_step [of "SessionService_new [] []" "''cl_1''" "''cred_1''" SessionSettings_default demo_io]
  by (auto simp: run_Cons demo_sessions_def intro: run_nil)

theorem sweep_exact_witness:
  "sv_active (snd (sweep (demo_io\<lparr>io_now := 1800000\<rparr>) demo_sessions)) =
     filter (\<lambda>e. expired (snd e) (io_now (demo_io\<lparr>io_now := 1800000\<rparr>)) = None) (sv_active demo_sessions)"
  by (rule sweep_exact [OF _ session_demo_run]) (simp add: keyed_def)

theorem one_session_per_grant_witness:
  "find_by fst (ses_client_id demo_idle, ses_credential_id demo_idle) (sv_active demo_sessions) =
     Some ((''cl_1'', ''cred_1''), demo_idle) \<and> get_session demo_sessions (ses_id demo_idle) = Some demo_idle"
  by (rule one_session_per_grant [OF _ session_demo_run]) (simp_all add: keyed_def session_demo)

theorem session_never_revived_witness:
  "\<exists>k s. (k, s) \<in> set (sv_active demo_sessions) \<and> ses_id s = ses_id demo_idle \<and> ses_client_id s = ses_client_id demo_idle
    \<and> ses_credential_id s = ses_credential_id demo_idle \<and> ses_absolute_expires_at demo_idle \<le> ses_absolute_expires_at s"
  by (rule session_never_revived [where es = "[]" and S' = demo_sessions and k' = "(''cl_1'', ''cred_1'')"])
    (simp_all add: run_nil session_demo find_by_def)

theorem resolved_session_live_witness:
  "expired demo_idle (io_now demo_io) = None \<and> ses_client_id demo_idle = ''cl_1'' \<and> ses_credential_id demo_idle = ''cred_1''
    \<and> find_by fst (''cl_1'', ''cred_1'') (sv_active demo_sessions) = Some ((''cl_1'', ''cred_1''), demo_idle)
    \<and> (ses_grants demo_idle \<noteq> [] \<longrightarrow>
        find_by fst (''cl_1'', ''cred_1'') (sv_active (SessionService_new [] [])) = Some ((''cl_1'', ''cred_1''), demo_idle))
    \<and> (\<forall>e :: ended_session. None = Some e \<longrightarrow>
        find_by fst (''cl_1'', ''cred_1'') (sv_active (SessionService_new [] [])) = Some ((''cl_1'', ''cred_1''), en_session e)
        \<and> expired (en_session e) (io_now demo_io) = Some (en_reason e))"
proof (rule resolved_session_live [OF _ _ session_demo(1)])
  show "validate_times SessionSettings_default = Inr ()"
    by (simp add: validate_times_def SessionSettings_default_def)
  show "session_inv (SessionService_new [] [])"
    by (rule SessionService_new_inv) (simp add: keyed_def)
qed

end
