(* ===== verification/Approvals.thy ===== *)
theory Approvals
  imports Sessions
begin

text \<open>
  The approval engine, \<^verbatim>\<open>workstation-server/src/approvals.rs\<close>: requests for approval and their statuses, the operations kept in
  memory until they are resumed, the records of executions, and the idempotency keys. A database transaction
  commits as a whole or has no effect; a duplicate primary key makes it fail.
\<close>

section \<open>Data\<close>

datatype auth_method = OAuth | ManualToken

record principal =
  pr_client_id :: string
  pr_display_name :: string
  pr_credential_id :: string
  pr_auth_method :: auth_method
  pr_scopes :: "string list"
  pr_oauth_client_id :: "string option"

definition has_scope :: "principal \<Rightarrow> string \<Rightarrow> bool" where
  "has_scope p scope \<longleftrightarrow> List.member (pr_scopes p) scope"

record pending_operation =
  po_tool_name :: string
  po_arguments :: json
  po_descriptor_digest :: string
  po_required_scopes :: "string list"
  po_session_scope :: session_scope

record approval_summary =
  sm_paths :: "string list"
  sm_command :: "string option"
  sm_cwd :: "string option"
  sm_arguments :: "json option"
  sm_impact :: string
  sm_session_scope_label :: string

text \<open>A row of \<^verbatim>\<open>approvals\<close>; \<^verbatim>\<open>ApprovalView\<close> is its projection to the displayed columns.\<close>

record approval_row =
  ap_id :: string
  ap_client_id :: string
  ap_client_display_name :: string
  ap_session_id :: string
  ap_credential_id :: string
  ap_tool_name :: string
  ap_category :: string
  ap_summary :: approval_summary
  ap_reason :: string
  ap_risk :: risk
  ap_requires_admin :: bool
  ap_status :: string
  ap_created_at :: int
  ap_expires_at :: int
  ap_decided_at :: "int option"
  ap_decision_note :: "string option"
  ap_execution_id :: "string option"
  ap_policy_revision :: u64
  ap_operation_digest :: string
  ap_required_scopes :: string
  ap_session_scope :: session_scope

record approval_view =
  av_id :: string
  av_client_id :: string
  av_client_display_name :: string
  av_session_id :: string
  av_tool_name :: string
  av_category :: string
  av_summary :: approval_summary
  av_reason :: string
  av_risk :: risk
  av_requires_admin :: bool
  av_status :: string
  av_created_at :: int
  av_expires_at :: int
  av_decided_at :: "int option"
  av_execution_id :: "string option"
  av_policy_revision :: u64

text \<open>A row of \<^verbatim>\<open>operation_executions\<close> and its view.\<close>

record execution_row =
  ex_id :: string
  ex_approval_id :: "string option"
  ex_client_id :: string
  ex_tool_name :: string
  ex_status :: string
  ex_result :: "json option"
  ex_task_id :: "string option"
  ex_created_at :: int
  ex_completed_at :: "int option"

record execution_view =
  ev_execution_id :: string
  ev_approval_id :: "string option"
  ev_status :: string
  ev_result :: "json option"
  ev_task_id :: "string option"
  ev_created_at :: int
  ev_completed_at :: "int option"

record idem_row =
  ik_client_id :: string
  ik_key :: string
  ik_tool_name :: string
  ik_args_digest :: string
  ik_status :: string
  ik_result :: "json option"
  ik_created_at :: int

datatype local_decision = AllowOnce | AllowSession | DenyRequest

datatype resume_start =
    RS_Dispatch pending_operation string approval_view
  | RS_Existing execution_view

datatype idem_outcome = IO_Proceed | IO_Replay json | IO_InProgress | IO_Conflict

record approval_service =
  as_approvals :: "approval_row list"
  as_executions :: "execution_row list"
  as_idem :: "idem_row list"
  as_ops :: "string \<Rightarrow> pending_operation option"

interpretation approval_rows: row_store ap_id "find_by ap_id" "insert_by ap_id" update_where delete_where "keyed ap_id"
  by (rule list_row_store)

interpretation execution_rows: row_store ex_id "find_by ex_id" "insert_by ex_id" update_where delete_where "keyed ex_id"
  by (rule list_row_store)

definition idem_key :: "idem_row \<Rightarrow> string \<times> string" where
  "idem_key r = (ik_client_id r, ik_key r)"

interpretation idem_rows: row_store idem_key "find_by idem_key" "insert_by idem_key" update_where delete_where
    "keyed idem_key"
  by (rule list_row_store)

section \<open>Reading\<close>

definition row_to_view :: "approval_row \<Rightarrow> approval_view" where
  "row_to_view r =
     \<lparr>av_id = ap_id r, av_client_id = ap_client_id r, av_client_display_name = ap_client_display_name r,
      av_session_id = ap_session_id r, av_tool_name = ap_tool_name r, av_category = ap_category r,
      av_summary = ap_summary r, av_reason = ap_reason r, av_risk = ap_risk r, av_requires_admin = ap_requires_admin r,
      av_status = ap_status r, av_created_at = ap_created_at r, av_expires_at = ap_expires_at r,
      av_decided_at = ap_decided_at r, av_execution_id = ap_execution_id r, av_policy_revision = ap_policy_revision r\<rparr>"

definition row_to_exec :: "execution_row \<Rightarrow> execution_view" where
  "row_to_exec r =
     \<lparr>ev_execution_id = ex_id r, ev_approval_id = ex_approval_id r, ev_status = ex_status r, ev_result = ex_result r,
      ev_task_id = ex_task_id r, ev_created_at = ex_created_at r, ev_completed_at = ex_completed_at r\<rparr>"

definition get_approval :: "approval_service \<Rightarrow> string \<Rightarrow> approval_view option" where
  "get_approval A i = map_option row_to_view (find_by ap_id i (as_approvals A))"

text \<open>\<^verbatim>\<open>limit.clamp(1, 1000)\<close>.\<close>

definition list_approvals :: "string option \<Rightarrow> string option \<Rightarrow> nat \<Rightarrow> approval_service \<Rightarrow> approval_view list" where
  "list_approvals status client limit A =
     map row_to_view (newest_first ap_created_at (min 1000 (max 1 limit))
       (filter (\<lambda>r. (case status of None \<Rightarrow> True | Some s \<Rightarrow> ap_status r = s)
          \<and> (case client of None \<Rightarrow> True | Some c \<Rightarrow> ap_client_id r = c)) (as_approvals A)))"

definition approval_scope :: "approval_service \<Rightarrow> string \<Rightarrow> session_scope option" where
  "approval_scope A i =
     (case as_ops A i of
        Some op \<Rightarrow> Some (po_session_scope op)
      | None \<Rightarrow> map_option ap_session_scope (find_by ap_id i (as_approvals A)))"

definition execution :: "approval_service \<Rightarrow> string \<Rightarrow> execution_view option" where
  "execution A e = map_option row_to_exec (find_by ex_id e (as_executions A))"

definition list_unknown_outcomes :: "approval_service \<Rightarrow> execution_view list" where
  "list_unknown_outcomes A =
     map row_to_exec (newest_first ex_created_at 200 (filter (\<lambda>r. ex_status r = ''outcome_unknown'') (as_executions A)))"

section \<open>Requests and decisions\<close>

definition ApprovalService_new :: "approval_row list \<Rightarrow> execution_row list \<Rightarrow> idem_row list \<Rightarrow> approval_service" where
  "ApprovalService_new rows execs idem =
     \<lparr>as_approvals = rows, as_executions = execs, as_idem = idem, as_ops = (\<lambda>_. None)\<rparr>"

text \<open>\<^verbatim>\<open>status IN ('pending', 'allowed_once', 'allowed_session')\<close>.\<close>

definition open_status :: "string \<Rightarrow> bool" where
  "open_status s \<longleftrightarrow> s = ''pending'' \<or> s = ''allowed_once'' \<or> s = ''allowed_session''"

definition startup_recovery :: "io_env \<Rightarrow> approval_service \<Rightarrow> (nat \<times> nat) lp_result \<times> approval_service" where
  "startup_recovery w A =
     (if \<not> io_db_ok w then (Inl LpError_internal, A)
      else (Inr (count_where (\<lambda>r. open_status (ap_status r)) (as_approvals A),
            count_where (\<lambda>r. ex_status r = ''dispatched'') (as_executions A)),
        A\<lparr>as_approvals := update_where (\<lambda>r. open_status (ap_status r))
            (\<lambda>r. r\<lparr>ap_status := ''invalidated'', ap_decision_note := Some ''Local Pilot restarted''\<rparr>) (as_approvals A),
          as_executions := update_where (\<lambda>r. ex_status r = ''dispatched'')
            (\<lambda>r. r\<lparr>ex_status := ''outcome_unknown'', ex_completed_at := Some (io_now w)\<rparr>) (as_executions A),
          as_idem := update_where (\<lambda>r. ik_status r = ''in_progress'')
            (\<lambda>r. r\<lparr>ik_status := ''outcome_unknown''\<rparr>) (as_idem A)\<rparr>))"

text \<open>\<open>digest\<close> is \<^verbatim>\<open>hashing::json_digest\<close> and \<open>show\<close> prints the revision.\<close>

definition operation_digest ::
    "(json \<Rightarrow> string) \<Rightarrow> (u64 \<Rightarrow> string) \<Rightarrow> pending_operation \<Rightarrow> u64 \<Rightarrow> string \<Rightarrow> string \<Rightarrow> string" where
  "operation_digest digest show op revision client sid =
     digest (JObject [(''tool'', JString (po_tool_name op)), (''arguments'', po_arguments op),
       (''descriptor'', JString (po_descriptor_digest op)), (''policy_revision'', JNumber (show revision)),
       (''client'', JString client), (''session'', JString sid)])"

definition create_row ::
    "io_env \<Rightarrow> (json \<Rightarrow> string) \<Rightarrow> (u64 \<Rightarrow> string) \<Rightarrow> principal \<Rightarrow> session \<Rightarrow> string \<Rightarrow> approval_requirement
     \<Rightarrow> approval_summary \<Rightarrow> pending_operation \<Rightarrow> u64 \<Rightarrow> u64 \<Rightarrow> approval_row" where
  "create_row w digest show p s tool req summary op revision lifetime =
     \<lparr>ap_id = io_id w, ap_client_id = pr_client_id p, ap_client_display_name = pr_display_name p,
      ap_session_id = ses_id s, ap_credential_id = pr_credential_id p, ap_tool_name = tool,
      ap_category = ar_category req, ap_summary = summary, ap_reason = ar_reason req, ap_risk = ar_risk req,
      ap_requires_admin = ar_requires_admin req, ap_status = ''pending'', ap_created_at = io_now w,
      ap_expires_at = io_now w + as_i64 lifetime * MINUTE_MS, ap_decided_at = None, ap_decision_note = None,
      ap_execution_id = None, ap_policy_revision = revision,
      ap_operation_digest = operation_digest digest show op revision (pr_client_id p) (ses_id s),
      ap_required_scopes = join_with [SP] (po_required_scopes op), ap_session_scope = po_session_scope op\<rparr>"

definition create ::
    "io_env \<Rightarrow> (json \<Rightarrow> string) \<Rightarrow> (u64 \<Rightarrow> string) \<Rightarrow> principal \<Rightarrow> session \<Rightarrow> string \<Rightarrow> approval_requirement
     \<Rightarrow> approval_summary \<Rightarrow> pending_operation \<Rightarrow> u64 \<Rightarrow> u64 \<Rightarrow> approval_service
     \<Rightarrow> approval_view lp_result \<times> approval_service" where
  "create w digest show p s tool req summary op revision lifetime A =
     (let row = create_row w digest show p s tool req summary op revision lifetime in
      case (if io_db_ok w then insert_by ap_id row (as_approvals A) else None) of
        None \<Rightarrow> (Inl LpError_internal, A)
      | Some rows \<Rightarrow>
          (let A' = A\<lparr>as_approvals := rows, as_ops := (as_ops A)(io_id w \<mapsto> op)\<rparr> in
           (case get_approval A' (io_id w) of None \<Rightarrow> Inl LpError_internal | Some v \<Rightarrow> Inr v, A')))"

definition decision_status :: "local_decision \<Rightarrow> string" where
  "decision_status d =
     (case d of AllowOnce \<Rightarrow> ''allowed_once'' | AllowSession \<Rightarrow> ''allowed_session'' | DenyRequest \<Rightarrow> ''denied'')"

definition set_status :: "string \<Rightarrow> string \<Rightarrow> approval_row list \<Rightarrow> approval_row list" where
  "set_status i st rows = update_where (\<lambda>r. ap_id r = i) (\<lambda>r. r\<lparr>ap_status := st\<rparr>) rows"

definition decide_rows :: "io_env \<Rightarrow> string \<Rightarrow> local_decision \<Rightarrow> u64 \<Rightarrow> approval_row list \<Rightarrow> approval_row list" where
  "decide_rows w i d lifetime rows =
     update_where (\<lambda>r. ap_id r = i)
       (\<lambda>r. r\<lparr>ap_status := decision_status d, ap_decided_at := Some (io_now w),
         ap_expires_at := (if d = DenyRequest then ap_expires_at r
           else io_now w + as_i64 lifetime * MINUTE_MS)\<rparr>) rows"

definition decide ::
    "io_env \<Rightarrow> string \<Rightarrow> local_decision \<Rightarrow> u64 \<Rightarrow> approval_service \<Rightarrow> approval_view lp_result \<times> approval_service" where
  "decide w i d lifetime A =
     (if \<not> io_db_ok w then (Inl LpError_internal, A)
      else (case find_by ap_id i (as_approvals A) of
          None \<Rightarrow> (Inl (LpError_not_found ''unknown approval''), A)
        | Some r \<Rightarrow>
            if ap_status r \<noteq> ''pending'' then (Inl (LpError_invalid (''approval is already '' @ ap_status r)), A)
            else if ap_expires_at r < io_now w
            then (Inl (LpError_new ApprovalExpired ''the approval request expired''),
              A\<lparr>as_approvals := set_status i ''expired'' (as_approvals A)\<rparr>)
            else
              (let A' = A\<lparr>as_approvals := decide_rows w i d lifetime (as_approvals A),
                   as_ops := (if d = DenyRequest then (as_ops A)(i := None) else as_ops A)\<rparr> in
               (case get_approval A' i of None \<Rightarrow> Inl LpError_internal | Some v \<Rightarrow> Inr v, A'))))"

section \<open>Resuming\<close>

text \<open>What the transaction finds: an error that leaves the row alone, one that first expires or invalidates it, the execution
  that exists already, or nothing in the way.\<close>

datatype resume_check =
    RC_Error lp_error
  | RC_Expire lp_error
  | RC_Invalidate string lp_error
  | RC_Existing execution_view
  | RC_Go

definition missing_scope :: "string \<Rightarrow> principal \<Rightarrow> bool" where
  "missing_scope required p \<longleftrightarrow> list_ex (\<lambda>s. \<not> has_scope p s) (split_whitespace required)"

definition resume_check ::
    "io_env \<Rightarrow> approval_row \<Rightarrow> principal \<Rightarrow> session \<Rightarrow> u64 \<Rightarrow> approval_service \<Rightarrow> resume_check" where
  "resume_check w r p s revision A =
     (if ap_client_id r \<noteq> pr_client_id p then RC_Error (LpError_not_found ''unknown approval'')
      else (case ap_execution_id r of
          Some e \<Rightarrow> (case execution A e of None \<Rightarrow> RC_Error LpError_internal | Some v \<Rightarrow> RC_Existing v)
        | None \<Rightarrow>
            if ap_status r = ''pending''
            then RC_Error (LpError_new ApprovalPending ''the request is still waiting for local approval'')
            else if ap_status r = ''denied''
            then RC_Error (LpError_new ApprovalDenied ''the workstation owner denied this request'')
            else if ap_status r = ''expired'' then RC_Error (LpError_new ApprovalExpired ''the approval expired'')
            else if \<not> (ap_status r = ''allowed_once'' \<or> ap_status r = ''allowed_session'')
            then RC_Error (LpError_new ApprovalInvalidated ''the approval is no longer valid'')
            else if ap_expires_at r < io_now w
            then RC_Expire (LpError_new ApprovalExpired ''the approval expired before it was resumed'')
            else if ap_session_id r \<noteq> ses_id s
            then RC_Invalidate ''session ended'' (LpError_new ApprovalInvalidated
              ''the approval belonged to an application session that has ended'')
            else if ap_policy_revision r \<noteq> revision
            then RC_Invalidate ''policy changed'' (LpError_new ApprovalInvalidated
              ''local policy changed after approval; request the operation again'')
            else if missing_scope (ap_required_scopes r) p
            then RC_Error (LpError_new InsufficientScope
              ''the current credential lacks the scopes of the original operation'')
            else if as_ops A (ap_id r) = None
            then RC_Invalidate ''operation snapshot unavailable'' (LpError_new ApprovalInvalidated
              ''the stored operation is no longer available'')
            else RC_Go))"

definition execution_row_of :: "io_env \<Rightarrow> approval_row \<Rightarrow> string \<Rightarrow> execution_row" where
  "execution_row_of w r client =
     \<lparr>ex_id = io_id w, ex_approval_id = Some (ap_id r), ex_client_id = client, ex_tool_name = ap_tool_name r,
      ex_status = ''dispatched'', ex_result = None, ex_task_id = None, ex_created_at = io_now w, ex_completed_at = None\<rparr>"

definition consume :: "io_env \<Rightarrow> approval_row \<Rightarrow> approval_row list \<Rightarrow> approval_row list" where
  "consume w r rows =
     update_where (\<lambda>x. ap_id x = ap_id r)
       (\<lambda>x. x\<lparr>ap_execution_id := Some (io_id w),
         ap_status := (if ap_status r = ''allowed_once'' then ''consumed'' else ''allowed_session'')\<rparr>) rows"

definition dispatch_approval ::
    "io_env \<Rightarrow> approval_row \<Rightarrow> pending_operation \<Rightarrow> string \<Rightarrow> approval_service
     \<Rightarrow> resume_start lp_result \<times> approval_service" where
  "dispatch_approval w r op client A =
     (case insert_by ex_id (execution_row_of w r client) (as_executions A) of
        None \<Rightarrow> (Inl LpError_internal, A)
      | Some execs \<Rightarrow>
          (let A1 = A\<lparr>as_approvals := consume w r (as_approvals A), as_executions := execs\<rparr>;
               A2 = (case get_approval A1 (ap_id r) of
                  Some v \<Rightarrow> if av_status v = ''consumed'' then A1\<lparr>as_ops := (as_ops A1)(ap_id r := None)\<rparr> else A1
                | None \<Rightarrow> A1)
           in (case get_approval A2 (ap_id r) of
                 None \<Rightarrow> Inl LpError_internal
               | Some v \<Rightarrow> Inr (RS_Dispatch op (io_id w) v), A2)))"

definition begin_resume ::
    "io_env \<Rightarrow> string \<Rightarrow> principal \<Rightarrow> session \<Rightarrow> u64 \<Rightarrow> approval_service
     \<Rightarrow> resume_start lp_result \<times> approval_service" where
  "begin_resume w i p s revision A =
     (if \<not> io_db_ok w then (Inl LpError_internal, A)
      else (case find_by ap_id i (as_approvals A) of
          None \<Rightarrow> (Inl (LpError_not_found ''unknown approval''), A)
        | Some r \<Rightarrow>
            (case resume_check w r p s revision A of
               RC_Error e \<Rightarrow> (Inl e, A)
             | RC_Expire e \<Rightarrow> (Inl e, A\<lparr>as_approvals := set_status i ''expired'' (as_approvals A)\<rparr>)
             | RC_Invalidate why e \<Rightarrow>
                 (Inl e, A\<lparr>as_approvals := update_where (\<lambda>x. ap_id x = i)
                    (\<lambda>x. x\<lparr>ap_status := ''invalidated'', ap_decision_note := Some why\<rparr>) (as_approvals A)\<rparr>)
             | RC_Existing v \<Rightarrow> (Inr (RS_Existing v), A)
             | RC_Go \<Rightarrow>
                 (case as_ops A i of
                    None \<Rightarrow> (Inl LpError_internal, A)
                  | Some op \<Rightarrow> dispatch_approval w r op (pr_client_id p) A))))"

section \<open>Outcomes\<close>

definition complete_execution ::
    "io_env \<Rightarrow> string \<Rightarrow> string \<Rightarrow> json option \<Rightarrow> string option \<Rightarrow> approval_service \<Rightarrow> approval_service" where
  "complete_execution w e status result task A =
     (if \<not> io_db_ok w then A
      else A\<lparr>as_executions := update_where (\<lambda>r. ex_id r = e)
        (\<lambda>r. r\<lparr>ex_status := status, ex_result := result, ex_task_id := or_else task (ex_task_id r),
          ex_completed_at := Some (io_now w)\<rparr>) (as_executions A)\<rparr>)"

definition reconcile :: "io_env \<Rightarrow> string \<Rightarrow> string \<Rightarrow> approval_service \<Rightarrow> unit lp_result \<times> approval_service" where
  "reconcile w e note A =
     (if \<not> io_db_ok w then (Inl LpError_internal, A)
      else (Inr (), A\<lparr>as_executions := update_where (\<lambda>r. ex_id r = e \<and> ex_status r = ''outcome_unknown'')
        (\<lambda>r. r\<lparr>ex_status := ''reconciled'', ex_result := or_else (ex_result r) (Some (JObject [(''note'', JString note)]))\<rparr>)
        (as_executions A)\<rparr>))"

text \<open>\<^verbatim>\<open>ops.remove\<close> for each of the identifiers.\<close>

definition drop_ops :: "string list \<Rightarrow> (string \<Rightarrow> pending_operation option) \<Rightarrow> string \<Rightarrow> pending_operation option" where
  "drop_ops ids ops = (\<lambda>i. if List.member ids i then None else ops i)"

definition matches :: "string option \<Rightarrow> string option \<Rightarrow> approval_row \<Rightarrow> bool" where
  "matches client sid r \<longleftrightarrow> open_status (ap_status r)
     \<and> (case client of None \<Rightarrow> True | Some c \<Rightarrow> ap_client_id r = c)
     \<and> (case sid of None \<Rightarrow> True | Some s \<Rightarrow> ap_session_id r = s)"

definition invalidate ::
    "io_env \<Rightarrow> string option \<Rightarrow> string option \<Rightarrow> string \<Rightarrow> string \<Rightarrow> approval_service \<Rightarrow> string list \<times> approval_service" where
  "invalidate w client sid status note A =
     (if \<not> io_db_ok w then ([], A)
      else
        (let ids = map ap_id (filter (matches client sid) (as_approvals A)) in
         (ids, A\<lparr>as_approvals := update_where (\<lambda>r. List.member ids (ap_id r))
            (\<lambda>r. r\<lparr>ap_status := status, ap_decision_note := Some note\<rparr>) (as_approvals A),
          as_ops := drop_ops ids (as_ops A)\<rparr>)))"

definition overdue :: "int \<Rightarrow> approval_row \<Rightarrow> bool" where
  "overdue now r \<longleftrightarrow> (ap_status r = ''pending'' \<or> ap_status r = ''allowed_once'') \<and> ap_expires_at r < now"

definition expire_sweep :: "io_env \<Rightarrow> approval_service \<Rightarrow> string list \<times> approval_service" where
  "expire_sweep w A =
     (if \<not> io_db_ok w then ([], A)
      else
        (let ids = map ap_id (filter (overdue (io_now w)) (as_approvals A)) in
         (ids, A\<lparr>as_approvals := update_where (\<lambda>r. List.member ids (ap_id r)) (\<lambda>r. r\<lparr>ap_status := ''expired''\<rparr>)
            (as_approvals A),
          as_ops := drop_ops ids (as_ops A)\<rparr>)))"

section \<open>Idempotency\<close>

text \<open>The clock is read once for the purge and once for the insertion; \<open>later\<close> is the second reading.\<close>

definition idem_begin ::
    "io_env \<Rightarrow> int \<Rightarrow> string \<Rightarrow> string \<Rightarrow> string \<Rightarrow> string \<Rightarrow> approval_service
     \<Rightarrow> idem_outcome lp_result \<times> approval_service" where
  "idem_begin w later client key tool digest A =
     (if key = [] \<or> length key > 200 then (Inl (LpError_invalid ''idempotency_key must be 1-200 characters''), A)
      else if \<not> io_db_ok w then (Inl LpError_internal, A)
      else
        (let rows = delete_where (\<lambda>r. ik_created_at r < io_now w - DAY_MS) (as_idem A) in
         case find_by idem_key (client, key) rows of
           Some r \<Rightarrow>
             (Inr (if ik_tool_name r \<noteq> tool \<or> ik_args_digest r \<noteq> digest then IO_Conflict
                else if ik_status r = ''done'' then IO_Replay (unwrap_or JNull (ik_result r))
                else IO_InProgress),
              A\<lparr>as_idem := rows\<rparr>)
         | None \<Rightarrow>
             (case insert_by idem_key \<lparr>ik_client_id = client, ik_key = key, ik_tool_name = tool, ik_args_digest = digest,
                 ik_status = ''in_progress'', ik_result = None, ik_created_at = later\<rparr> rows of
                None \<Rightarrow> (Inl LpError_internal, A)
              | Some rows' \<Rightarrow> (Inr IO_Proceed, A\<lparr>as_idem := rows'\<rparr>))))"

definition idem_finish :: "io_env \<Rightarrow> string \<Rightarrow> string \<Rightarrow> json \<Rightarrow> approval_service \<Rightarrow> approval_service" where
  "idem_finish w client key result A =
     (if \<not> io_db_ok w then A
      else A\<lparr>as_idem := update_where (\<lambda>r. idem_key r = (client, key))
        (\<lambda>r. r\<lparr>ik_status := ''done'', ik_result := Some result\<rparr>) (as_idem A)\<rparr>)"

end
