(* ===== verification/Approval_Props.thy ===== *)
theory Approval_Props
  imports Approvals
begin

text \<open>
  What the approval engine guarantees over any run: which columns of a request never change, the invariant of the
  tables, a step relation with one label per operation, and the properties that rest on it (at most one dispatch,
  approval before dispatch, the exact condition of a dispatch, repeated resumes, final statuses, restarts,
  idempotency keys), each with an instance.
\<close>

section \<open>How rows evolve\<close>

text \<open>What no operation changes of a request: its owner, session, revision, scopes and tool; an execution once assigned; and
  the status once it is final.\<close>

definition row_le :: "approval_row \<Rightarrow> approval_row \<Rightarrow> bool" where
  "row_le r r' \<longleftrightarrow> ap_id r' = ap_id r \<and> ap_client_id r' = ap_client_id r \<and> ap_session_id r' = ap_session_id r
     \<and> ap_policy_revision r' = ap_policy_revision r \<and> ap_required_scopes r' = ap_required_scopes r
     \<and> ap_tool_name r' = ap_tool_name r
     \<and> (ap_execution_id r \<noteq> None \<longrightarrow> ap_execution_id r' = ap_execution_id r)
     \<and> (\<not> open_status (ap_status r) \<longrightarrow> ap_status r' = ap_status r)"

definition rows_le :: "approval_row list \<Rightarrow> approval_row list \<Rightarrow> bool" where
  "rows_le rows rows' \<longleftrightarrow> (\<forall>i r. find_by ap_id i rows = Some r \<longrightarrow> (\<exists>r'. find_by ap_id i rows' = Some r' \<and> row_le r r'))"

definition exec_le :: "execution_row list \<Rightarrow> execution_row list \<Rightarrow> bool" where
  "exec_le xs xs' \<longleftrightarrow> (\<forall>e x. find_by ex_id e xs = Some x \<longrightarrow>
     (\<exists>x'. find_by ex_id e xs' = Some x' \<and> ex_approval_id x' = ex_approval_id x))"

definition evolves :: "approval_service \<Rightarrow> approval_service \<Rightarrow> bool" where
  "evolves A A' \<longleftrightarrow> rows_le (as_approvals A) (as_approvals A') \<and> exec_le (as_executions A) (as_executions A')"

lemma row_le_refl [simp]: "row_le r r"
  by (simp add: row_le_def)

lemma row_le_trans: "row_le a b \<Longrightarrow> row_le b c \<Longrightarrow> row_le a c"
  by (auto simp: row_le_def)

lemma rows_le_refl [simp]: "rows_le rows rows"
  by (simp add: rows_le_def)

lemma exec_le_refl [simp]: "exec_le xs xs"
  by (simp add: exec_le_def)

lemma evolves_refl [simp]: "evolves A A"
  by (simp add: evolves_def)

lemma rows_le_trans: "rows_le a b \<Longrightarrow> rows_le b c \<Longrightarrow> rows_le a c"
  unfolding rows_le_def by (meson row_le_trans)

lemma exec_le_trans: "exec_le a b \<Longrightarrow> exec_le b c \<Longrightarrow> exec_le a c"
  unfolding exec_le_def by fastforce

lemma evolves_trans: "evolves A B \<Longrightarrow> evolves B C \<Longrightarrow> evolves A C"
  unfolding evolves_def by (blast intro: rows_le_trans exec_le_trans)

lemma rows_le_insert: "insert_by ap_id r rows = Some rows' \<Longrightarrow> rows_le rows rows'"
  by (auto simp: rows_le_def dest: approval_rows.put_keeps)

lemma exec_le_insert: "insert_by ex_id x xs = Some xs' \<Longrightarrow> exec_le xs xs'"
  by (auto simp: exec_le_def dest: execution_rows.put_keeps)

lemma rows_le_update:
  assumes "\<And>r. ap_id (f r) = ap_id r" and "\<And>r. P r \<Longrightarrow> row_le r (f r)"
  shows "rows_le rows (update_where P f rows)"
  using assms(2) by (simp add: rows_le_def approval_rows.change_look [OF assms(1)])

lemma rows_le_update_row:
  assumes "find_by ap_id i rows = Some r" and "\<And>r. ap_id (f r) = ap_id r" and "row_le r (f r)"
  shows "rows_le rows (update_where (\<lambda>x. ap_id x = i) f rows)"
  using assms(1,3) by (auto simp: rows_le_def approval_rows.change_row [where f = f, OF assms(2)])

lemma exec_le_update:
  "(\<And>x. ex_id (f x) = ex_id x) \<Longrightarrow> (\<And>x. ex_approval_id (f x) = ex_approval_id x) \<Longrightarrow> exec_le xs (update_where P f xs)"
  by (simp add: exec_le_def execution_rows.change_look)

lemma open_status_simps [simp]:
  "open_status ''pending''" "open_status ''allowed_once''" "open_status ''allowed_session''"
  "\<not> open_status ''denied''" "\<not> open_status ''expired''" "\<not> open_status ''invalidated''"
  "\<not> open_status ''cancelled''" "\<not> open_status ''consumed''"
  by (simp_all add: open_status_def)

text \<open>A row whose identifier is among those of the rows that satisfy \<open>P\<close> satisfies \<open>P\<close>.\<close>

lemma keyed_member: "keyed key rows \<Longrightarrow> find_by key i rows = Some r \<Longrightarrow> i \<in> key ` set (filter P rows) \<longleftrightarrow> P r"
  by (auto dest!: find_by_Some) (metis find_by_keyed option.inject)

lemma rows_le_selected:
  assumes "keyed ap_id rows" and "\<And>r. ap_id (f r) = ap_id r" and "\<And>r. P r \<Longrightarrow> row_le r (f r)"
  shows "rows_le rows (update_where (\<lambda>r. List.member (map ap_id (filter P rows)) (ap_id r)) f rows)"
  unfolding rows_le_def approval_rows.change_look [OF assms(2)]
proof (intro allI impI)
  fix i r
  assume r: "find_by ap_id i rows = Some r"
  then have "ap_id r = i" by (simp add: approval_rows.look_key)
  then have "List.member (map ap_id (filter P rows)) (ap_id r) \<longleftrightarrow> P r"
    using keyed_member [OF assms(1) r, of P] by simp
  then show "\<exists>r'. map_option (\<lambda>r. if List.member (map ap_id (filter P rows)) (ap_id r) then f r else r)
      (find_by ap_id i rows) = Some r' \<and> row_le r r'"
    using r assms(3) by simp
qed

section \<open>Invariant\<close>

text \<open>Primary keys are unique, and the execution of a request is on record.\<close>

definition approval_inv :: "approval_service \<Rightarrow> bool" where
  "approval_inv A \<longleftrightarrow> keyed ap_id (as_approvals A) \<and> keyed ex_id (as_executions A) \<and> keyed idem_key (as_idem A)
     \<and> (\<forall>i r e. find_by ap_id i (as_approvals A) = Some r \<and> ap_execution_id r = Some e \<longrightarrow>
          (\<exists>x. find_by ex_id e (as_executions A) = Some x \<and> ex_approval_id x = Some i))"

lemma keyed_map_key: "map key rows' = map key rows \<Longrightarrow> keyed key rows' = keyed key rows"
  by (simp add: keyed_def)

lemma keyed_update: "(\<And>r. key (f r) = key r) \<Longrightarrow> keyed key (update_where P f rows) = keyed key rows"
  by (rule keyed_map_key) (simp add: update_where_def)

lemma keyed_delete: "keyed key rows \<Longrightarrow> keyed key (delete_where P rows)"
  by (simp add: keyed_def delete_where_def distinct_map_filter)

text \<open>A change of rows that neither assigns an execution nor removes one.\<close>

lemma approval_inv_rows:
  assumes "approval_inv A" and "keyed ap_id (as_approvals A')" and "keyed idem_key (as_idem A')"
    and "keyed ex_id (as_executions A')" and "exec_le (as_executions A) (as_executions A')"
    and "\<And>i r e. find_by ap_id i (as_approvals A') = Some r \<Longrightarrow> ap_execution_id r = Some e \<Longrightarrow>
      \<exists>r0. find_by ap_id i (as_approvals A) = Some r0 \<and> ap_execution_id r0 = Some e"
  shows "approval_inv A'"
proof -
  have "\<exists>x. find_by ex_id e (as_executions A') = Some x \<and> ex_approval_id x = Some i"
    if r: "find_by ap_id i (as_approvals A') = Some r" "ap_execution_id r = Some e" for i r e
  proof -
    from assms(6) [OF r] obtain x where "find_by ex_id e (as_executions A) = Some x" "ex_approval_id x = Some i"
      using assms(1) unfolding approval_inv_def by blast
    then show ?thesis using assms(5) unfolding exec_le_def by fastforce
  qed
  then show ?thesis using assms(2-4) by (simp add: approval_inv_def)
qed

lemma find_update_execution:
  assumes "\<And>r. ap_id (f r) = ap_id r" and "\<And>r. ap_execution_id (f r) = ap_execution_id r"
    and "find_by ap_id i (update_where P f rows) = Some r" and "ap_execution_id r = Some e"
  shows "\<exists>r0. find_by ap_id i rows = Some r0 \<and> ap_execution_id r0 = Some e"
  using assms(3,4) by (auto simp: approval_rows.change_look [OF assms(1)] assms(2) split: if_splits)

lemma approval_inv_update:
  assumes "approval_inv A" and "\<And>r. ap_id (f r) = ap_id r" and "\<And>r. ap_execution_id (f r) = ap_execution_id r"
  shows "approval_inv (A\<lparr>as_approvals := update_where P f (as_approvals A), as_ops := ops\<rparr>)"
proof (rule approval_inv_rows [OF assms(1)])
  fix i r e
  assume "find_by ap_id i (as_approvals (A\<lparr>as_approvals := update_where P f (as_approvals A), as_ops := ops\<rparr>)) = Some r"
    and "ap_execution_id r = Some e"
  then show "\<exists>r0. find_by ap_id i (as_approvals A) = Some r0 \<and> ap_execution_id r0 = Some e"
    using find_update_execution [of f i P "as_approvals A" r e, OF assms(2,3)] by simp
qed (use assms(1) in \<open>simp_all add: approval_inv_def keyed_update assms(2)\<close>)

lemma approval_inv_update':
  assumes "approval_inv A" and "\<And>r. ap_id (f r) = ap_id r" and "\<And>r. ap_execution_id (f r) = ap_execution_id r"
  shows "approval_inv (A\<lparr>as_approvals := update_where P f (as_approvals A)\<rparr>)"
  using approval_inv_update [where ops = "as_ops A", OF assms] by (cases A) simp

section \<open>What each operation keeps\<close>

lemma create_cases:
  assumes "create w dg sh p s tool req sm op rv life A = (res, A')"
  shows "(A' = A \<and> res = Inl LpError_internal)
    \<or> (\<exists>row rows. row = create_row w dg sh p s tool req sm op rv life \<and> insert_by ap_id row (as_approvals A) = Some rows
        \<and> A' = A\<lparr>as_approvals := rows, as_ops := (as_ops A)(io_id w \<mapsto> op)\<rparr> \<and> res = Inr (row_to_view row))"
proof (cases "if io_db_ok w then insert_by ap_id (create_row w dg sh p s tool req sm op rv life) (as_approvals A) else None")
  case None
  then show ?thesis using assms by (simp add: create_def Let_def)
next
  case (Some rows)
  then have ins: "insert_by ap_id (create_row w dg sh p s tool req sm op rv life) (as_approvals A) = Some rows"
    by (simp split: if_splits)
  have "find_by ap_id (io_id w) rows = Some (create_row w dg sh p s tool req sm op rv life)"
    using approval_rows.put_new [OF ins] by (simp add: create_row_def)
  moreover have "create w dg sh p s tool req sm op rv life A =
    (case get_approval (A\<lparr>as_approvals := rows, as_ops := (as_ops A)(io_id w \<mapsto> op)\<rparr>) (io_id w) of
       None \<Rightarrow> Inl LpError_internal | Some v \<Rightarrow> Inr v, A\<lparr>as_approvals := rows, as_ops := (as_ops A)(io_id w \<mapsto> op)\<rparr>)"
    by (simp only: create_def Let_def Some option.case)
  ultimately show ?thesis using assms ins by (simp add: get_approval_def)
qed

lemma create_row_sel [simp]:
  "ap_id (create_row w dg sh p s tool req sm op rv life) = io_id w"
  "ap_execution_id (create_row w dg sh p s tool req sm op rv life) = None"
  "ap_status (create_row w dg sh p s tool req sm op rv life) = ''pending''"
  "ap_client_id (create_row w dg sh p s tool req sm op rv life) = pr_client_id p"
  by (simp_all add: create_row_def)

lemma row_to_view_sel [simp]:
  "av_id (row_to_view r) = ap_id r" "av_status (row_to_view r) = ap_status r" "av_client_id (row_to_view r) = ap_client_id r"
  by (simp_all add: row_to_view_def)

lemma create_evolves: "create w dg sh p s tool req sm op rv life A = (res, A') \<Longrightarrow> evolves A A'"
  by (drule create_cases) (auto simp: evolves_def rows_le_insert)

lemma create_inv: "create w dg sh p s tool req sm op rv life A = (res, A') \<Longrightarrow> approval_inv A \<Longrightarrow> approval_inv A'"
proof (drule create_cases, elim disjE exE conjE)
  fix row rows
  assume row: "row = create_row w dg sh p s tool req sm op rv life"
    and ins: "insert_by ap_id row (as_approvals A) = Some rows"
    and A': "A' = A\<lparr>as_approvals := rows, as_ops := (as_ops A)(io_id w \<mapsto> op)\<rparr>" and inv: "approval_inv A"
  show "approval_inv A'"
  proof (rule approval_inv_rows [OF inv])
    show "keyed ap_id (as_approvals A')" using inv ins A' approval_rows.put_inv by (auto simp: approval_inv_def)
    fix i r e
    assume "find_by ap_id i (as_approvals A') = Some r" "ap_execution_id r = Some e"
    then show "\<exists>r0. find_by ap_id i (as_approvals A) = Some r0 \<and> ap_execution_id r0 = Some e"
      using approval_rows.put_look [OF ins, of i] A' row by (auto split: if_splits)
  qed (use inv A' in \<open>simp_all add: approval_inv_def\<close>)
qed simp

text \<open>The outcomes of a decision: an error without effect, the request found expired, or the decision recorded.\<close>

lemma decide_cases:
  assumes "decide w i d life A = (res, A')"
  shows "(A' = A \<and> (\<exists>e. res = Inl e))
    \<or> (\<exists>r. find_by ap_id i (as_approvals A) = Some r \<and> ap_status r = ''pending'' \<and>
        ((A' = A\<lparr>as_approvals := set_status i ''expired'' (as_approvals A)\<rparr> \<and> (\<exists>e. res = Inl e))
         \<or> (A' = A\<lparr>as_approvals := decide_rows w i d life (as_approvals A),
              as_ops := (if d = DenyRequest then (as_ops A)(i := None) else as_ops A)\<rparr> \<and> (\<exists>v. res = Inr v))))"
proof (cases "io_db_ok w \<and> find_by ap_id i (as_approvals A) \<noteq> None")
  case False
  then show ?thesis using assms by (auto simp: decide_def split: if_splits)
next
  case True
  then obtain r where r: "io_db_ok w" "find_by ap_id i (as_approvals A) = Some r" by auto
  have "\<exists>x. find_by ap_id i (decide_rows w i d life (as_approvals A)) = Some x"
    using r(2) by (simp add: decide_rows_def approval_rows.change_look)
  then obtain x where x: "find_by ap_id i (decide_rows w i d life (as_approvals A)) = Some x" ..
  then have "get_approval B i = Some (row_to_view x)" if "as_approvals B = decide_rows w i d life (as_approvals A)" for B
    using that by (simp add: get_approval_def)
  with r assms show ?thesis
    by (auto simp: decide_def Let_def split: if_splits)
qed

lemma set_status_row_le: "open_status (ap_status r) \<Longrightarrow> row_le r (r\<lparr>ap_status := st\<rparr>)"
  by (simp add: row_le_def)

lemma set_status_rows_le:
  "find_by ap_id i rows = Some r \<Longrightarrow> open_status (ap_status r) \<Longrightarrow> rows_le rows (set_status i st rows)"
  unfolding set_status_def by (erule rows_le_update_row) (simp_all add: set_status_row_le)

lemma decide_rows_le:
  "find_by ap_id i rows = Some r \<Longrightarrow> open_status (ap_status r) \<Longrightarrow> rows_le rows (decide_rows w i d life rows)"
  unfolding decide_rows_def by (erule rows_le_update_row) (simp_all add: row_le_def)

lemma decide_evolves: "decide w i d life A = (res, A') \<Longrightarrow> evolves A A'"
  by (drule decide_cases) (auto simp: evolves_def set_status_rows_le decide_rows_le)

lemma set_status_inv: "approval_inv A \<Longrightarrow> approval_inv (A\<lparr>as_approvals := set_status i st (as_approvals A)\<rparr>)"
  unfolding set_status_def by (erule approval_inv_update') simp_all

lemma decide_inv: "decide w i d life A = (res, A') \<Longrightarrow> approval_inv A \<Longrightarrow> approval_inv A'"
  by (drule decide_cases) (auto simp: set_status_inv decide_rows_def approval_inv_update)

text \<open>The outcomes of a resume: an error without effect, the request closed, the existing execution, or a dispatch.\<close>

definition may_dispatch :: "io_env \<Rightarrow> string \<Rightarrow> principal \<Rightarrow> session \<Rightarrow> u64 \<Rightarrow> approval_row \<Rightarrow> pending_operation \<Rightarrow> approval_service \<Rightarrow> bool" where
  "may_dispatch w i p s rv r op A \<longleftrightarrow>
     find_by ap_id i (as_approvals A) = Some r \<and> ap_client_id r = pr_client_id p \<and> ap_execution_id r = None
     \<and> (ap_status r = ''allowed_once'' \<or> ap_status r = ''allowed_session'')
     \<and> io_now w \<le> ap_expires_at r \<and> ap_session_id r = ses_id s \<and> ap_policy_revision r = rv
     \<and> \<not> missing_scope (ap_required_scopes r) p \<and> as_ops A i = Some op"

definition dispatched_state :: "io_env \<Rightarrow> approval_row \<Rightarrow> string \<Rightarrow> execution_row list \<Rightarrow> approval_service \<Rightarrow> approval_service" where
  "dispatched_state w r client execs A =
     A\<lparr>as_approvals := consume w r (as_approvals A), as_executions := execs,
       as_ops := (if ap_status r = ''allowed_once'' then (as_ops A)(ap_id r := None) else as_ops A)\<rparr>"

lemma resume_check_Go:
  assumes "find_by ap_id i (as_approvals A) = Some r"
  shows "resume_check w r p s rv A = RC_Go \<longleftrightarrow> (\<exists>op. may_dispatch w i p s rv r op A)"
proof -
  have "ap_id r = i" using assms by (simp add: approval_rows.look_key)
  then show ?thesis
    using assms by (auto simp: resume_check_def may_dispatch_def not_less split: option.splits)
qed

lemma dispatch_approval_cases:
  assumes "find_by ap_id i (as_approvals A) = Some r" and "dispatch_approval w r op client A = (res, A')"
  shows "(insert_by ex_id (execution_row_of w r client) (as_executions A) = None \<and> A' = A \<and> res = Inl LpError_internal)
    \<or> (\<exists>execs v. insert_by ex_id (execution_row_of w r client) (as_executions A) = Some execs
        \<and> A' = dispatched_state w r client execs A \<and> res = Inr (RS_Dispatch op (io_id w) v) \<and> av_id v = i)"
proof (cases "insert_by ex_id (execution_row_of w r client) (as_executions A)")
  case None
  then show ?thesis using assms by (simp add: dispatch_approval_def)
next
  case (Some execs)
  have i: "ap_id r = i" using assms(1) by (simp add: approval_rows.look_key)
  let ?r = "r\<lparr>ap_execution_id := Some (io_id w),
    ap_status := (if ap_status r = ''allowed_once'' then ''consumed'' else ''allowed_session'')\<rparr>"
  have "find_by ap_id i (consume w r (as_approvals A)) = Some ?r"
    using assms(1) i by (simp add: consume_def approval_rows.change_look)
  then have get: "get_approval B i = Some (row_to_view ?r)" if "as_approvals B = consume w r (as_approvals A)" for B
    using that by (simp add: get_approval_def)
  have "dispatch_approval w r op client A =
    (Inr (RS_Dispatch op (io_id w) (row_to_view ?r)), dispatched_state w r client execs A)"
    using Some i by (simp add: dispatch_approval_def Let_def get dispatched_state_def)
  then show ?thesis using assms(2) Some i by simp
qed

lemma begin_resume_cases:
  assumes "begin_resume w i p s rv A = (res, A')"
  obtains (failed) e where "A' = A" "res = Inl e"
  | (closed) e r f where "find_by ap_id i (as_approvals A) = Some r" "open_status (ap_status r)" "res = Inl e"
      "f = ap_status_update (\<lambda>_. ''expired'')
       \<or> (\<exists>why. f = (\<lambda>x. x\<lparr>ap_status := ''invalidated'', ap_decision_note := Some why\<rparr>))"
      "A' = A\<lparr>as_approvals := update_where (\<lambda>x. ap_id x = i) f (as_approvals A)\<rparr>"
  | (existing) v r e where "A' = A" "res = Inr (RS_Existing v)" "find_by ap_id i (as_approvals A) = Some r"
      "ap_execution_id r = Some e" "execution A e = Some v"
  | (dispatched) r op execs v where "may_dispatch w i p s rv r op A"
      "insert_by ex_id (execution_row_of w r (pr_client_id p)) (as_executions A) = Some execs"
      "A' = dispatched_state w r (pr_client_id p) execs A" "res = Inr (RS_Dispatch op (io_id w) v)" "av_id v = i"
proof (cases "io_db_ok w \<and> find_by ap_id i (as_approvals A) \<noteq> None")
  case False
  then show ?thesis using assms failed by (auto simp: begin_resume_def split: if_splits)
next
  case True
  then obtain r where r: "io_db_ok w" "find_by ap_id i (as_approvals A) = Some r" by auto
  show ?thesis
  proof (cases "resume_check w r p s rv A")
    case (RC_Error e)
    then show ?thesis using assms r failed by (auto simp: begin_resume_def)
  next
    case (RC_Expire e)
    then have "open_status (ap_status r)" by (auto simp: resume_check_def open_status_def split: if_splits option.splits)
    then show ?thesis using assms r RC_Expire closed [of r e "ap_status_update (\<lambda>_. ''expired'')"]
      by (simp add: begin_resume_def set_status_def)
  next
    case (RC_Invalidate why e)
    then have "open_status (ap_status r)" by (auto simp: resume_check_def open_status_def split: if_splits option.splits)
    then show ?thesis
      using assms r RC_Invalidate closed [of r e "\<lambda>x. x\<lparr>ap_status := ''invalidated'', ap_decision_note := Some why\<rparr>"]
      by (simp add: begin_resume_def) blast
  next
    case (RC_Existing v)
    then obtain e where "ap_execution_id r = Some e" "execution A e = Some v"
      by (auto simp: resume_check_def split: if_splits option.splits)
    then show ?thesis using assms r RC_Existing existing by (auto simp: begin_resume_def)
  next
    case RC_Go
    then obtain op where op: "may_dispatch w i p s rv r op A" using resume_check_Go [OF r(2)] by blast
    then have "dispatch_approval w r op (pr_client_id p) A = (res, A')"
      using assms r RC_Go by (simp add: begin_resume_def may_dispatch_def)
    from dispatch_approval_cases [OF r(2) this] show ?thesis using failed dispatched op by blast
  qed
qed

lemma consume_rows_le:
  assumes "find_by ap_id (ap_id r) rows = Some r" and "open_status (ap_status r)" and "ap_execution_id r = None"
  shows "rows_le rows (consume w r rows)"
  unfolding consume_def by (rule rows_le_update_row [OF assms(1)]) (use assms in \<open>simp_all add: row_le_def\<close>)

lemma may_dispatchD:
  assumes "may_dispatch w i p s rv r op A"
  shows "find_by ap_id i (as_approvals A) = Some r" "ap_id r = i" "open_status (ap_status r)" "ap_execution_id r = None"
    "as_ops A i = Some op" "ap_client_id r = pr_client_id p"
  using assms approval_rows.look_key [of i "as_approvals A" r] by (auto simp: may_dispatch_def)

lemma dispatched_state_sel [simp]:
  "as_approvals (dispatched_state w r c execs A) = consume w r (as_approvals A)"
  "as_executions (dispatched_state w r c execs A) = execs" "as_idem (dispatched_state w r c execs A) = as_idem A"
  by (simp_all add: dispatched_state_def)

lemma begin_resume_evolves: "begin_resume w i p s rv A = (res, A') \<Longrightarrow> evolves A A'"
proof (erule begin_resume_cases)
  fix e r f
  assume "find_by ap_id i (as_approvals A) = Some r" "open_status (ap_status r)"
    "f = ap_status_update (\<lambda>_. ''expired'')
      \<or> (\<exists>why. f = (\<lambda>x. x\<lparr>ap_status := ''invalidated'', ap_decision_note := Some why\<rparr>))"
    "A' = A\<lparr>as_approvals := update_where (\<lambda>x. ap_id x = i) f (as_approvals A)\<rparr>"
  then show "evolves A A'" by (auto simp: evolves_def row_le_def intro!: rows_le_update_row [of i _ r])
next
  fix r op execs v
  assume "may_dispatch w i p s rv r op A" "A' = dispatched_state w r (pr_client_id p) execs A"
    "insert_by ex_id (execution_row_of w r (pr_client_id p)) (as_executions A) = Some execs"
  then show "evolves A A'"
    using may_dispatchD [of w i p s rv r op A] by (simp add: evolves_def exec_le_insert consume_rows_le)
qed auto

lemma find_consume:
  assumes "find_by ap_id k rows = Some x"
  shows "find_by ap_id k (consume w r rows) = Some (if k = ap_id r then x\<lparr>ap_execution_id := Some (io_id w),
    ap_status := (if ap_status r = ''allowed_once'' then ''consumed'' else ''allowed_session'')\<rparr> else x)"
  unfolding consume_def using assms by (simp add: approval_rows.change_row)

lemma find_consume_None [simp]: "find_by ap_id k (consume w r rows) = None \<longleftrightarrow> find_by ap_id k rows = None"
  by (simp add: consume_def approval_rows.change_look)

lemma dispatched_inv:
  assumes "approval_inv A" and "may_dispatch w i p s rv r op A"
    and ins: "insert_by ex_id (execution_row_of w r (pr_client_id p)) (as_executions A) = Some execs"
  shows "approval_inv (dispatched_state w r (pr_client_id p) execs A)"
proof -
  have x: "find_by ex_id (io_id w) execs = Some (execution_row_of w r (pr_client_id p))"
    using execution_rows.put_new [OF ins] by (simp add: execution_row_of_def)
  have "\<exists>x. find_by ex_id e execs = Some x \<and> ex_approval_id x = Some k"
    if k: "find_by ap_id k (consume w r (as_approvals A)) = Some y" "ap_execution_id y = Some e" for k y e
  proof -
    obtain y0 where y0: "find_by ap_id k (as_approvals A) = Some y0"
      using k find_consume_None [of k w r "as_approvals A"] by fastforce
    show ?thesis
    proof (cases "k = ap_id r")
      case True
      then have "e = io_id w" using k find_consume [OF y0, of w r] by simp
      then show ?thesis using x True by (simp add: execution_row_of_def)
    next
      case False
      then have "ap_execution_id y0 = Some e" using k find_consume [OF y0, of w r] by simp
      then obtain x0 where "find_by ex_id e (as_executions A) = Some x0" "ex_approval_id x0 = Some k"
        using assms(1) y0 unfolding approval_inv_def by blast
      then show ?thesis using execution_rows.put_keeps [OF ins] by blast
    qed
  qed
  moreover have "keyed ap_id (consume w r (as_approvals A))" "keyed ex_id execs" "keyed idem_key (as_idem A)"
    using assms(1) execution_rows.put_inv [OF _ ins] by (simp_all add: approval_inv_def consume_def keyed_update)
  ultimately show ?thesis by (simp add: approval_inv_def)
qed

lemma begin_resume_inv: "begin_resume w i p s rv A = (res, A') \<Longrightarrow> approval_inv A \<Longrightarrow> approval_inv A'"
  by (erule begin_resume_cases) (auto intro!: approval_inv_update' dispatched_inv)

lemma invalidate_evolves:
  "approval_inv A \<Longrightarrow> \<not> open_status st \<Longrightarrow> invalidate w c sid st note A = (ids, A') \<Longrightarrow> evolves A A'"
  by (auto simp: invalidate_def Let_def evolves_def approval_inv_def matches_def row_le_def simp del: List.member_iff
      intro!: rows_le_selected split: if_splits)

lemma invalidate_inv: "approval_inv A \<Longrightarrow> approval_inv (snd (invalidate w c sid st note A))"
  by (simp add: invalidate_def Let_def approval_inv_update del: List.member_iff)

lemma expire_sweep_evolves: "approval_inv A \<Longrightarrow> evolves A (snd (expire_sweep w A))"
  by (auto simp: expire_sweep_def Let_def evolves_def approval_inv_def overdue_def row_le_def simp del: List.member_iff
      intro!: rows_le_selected)

lemma expire_sweep_inv: "approval_inv A \<Longrightarrow> approval_inv (snd (expire_sweep w A))"
  by (simp add: expire_sweep_def Let_def approval_inv_update del: List.member_iff)

lemma executions_inv:
  assumes "approval_inv A" and "exec_le (as_executions A) xs" and "keyed ex_id xs"
  shows "approval_inv (A\<lparr>as_executions := xs\<rparr>)"
  by (rule approval_inv_rows [OF assms(1)]) (use assms in \<open>auto simp: approval_inv_def\<close>)

lemma complete_execution_inv: "approval_inv A \<Longrightarrow> approval_inv (complete_execution w e st res task A)"
  by (auto simp: complete_execution_def exec_le_update keyed_update approval_inv_def [of A] intro!: executions_inv)

lemma complete_execution_evolves: "evolves A (complete_execution w e st res task A)"
  by (simp add: complete_execution_def evolves_def exec_le_update)

lemma reconcile_inv: "approval_inv A \<Longrightarrow> approval_inv (snd (reconcile w e note A))"
  by (auto simp: reconcile_def exec_le_update keyed_update approval_inv_def [of A] intro!: executions_inv)

lemma reconcile_evolves: "evolves A (snd (reconcile w e note A))"
  by (simp add: reconcile_def evolves_def exec_le_update)

lemma idem_only_inv: "approval_inv A \<Longrightarrow> keyed idem_key rows \<Longrightarrow> approval_inv (A\<lparr>as_idem := rows\<rparr>)"
  unfolding approval_inv_def by (elim conjE, intro conjI) simp_all

lemma approval_inv_keyed:
  "approval_inv A \<Longrightarrow> keyed ap_id (as_approvals A)" "approval_inv A \<Longrightarrow> keyed ex_id (as_executions A)"
  "approval_inv A \<Longrightarrow> keyed idem_key (as_idem A)"
  unfolding approval_inv_def by blast+

lemma idem_only_evolves: "evolves A (A\<lparr>as_idem := rows\<rparr>)"
  by (simp add: evolves_def)

lemma idem_begin_shape: "\<exists>rows. snd (idem_begin w l c k t d A) = A\<lparr>as_idem := rows\<rparr>"
  by (auto simp: idem_begin_def Let_def split: option.split intro: exI [of _ "as_idem A"])

lemma idem_begin_inv: "approval_inv A \<Longrightarrow> approval_inv (snd (idem_begin w l c k t d A))"
  by (auto simp: idem_begin_def Let_def idem_only_inv keyed_delete approval_inv_keyed split: option.split
      dest: idem_rows.put_inv [rotated])

lemma idem_finish_inv: "approval_inv A \<Longrightarrow> approval_inv (idem_finish w c k v A)"
  by (simp add: idem_finish_def idem_only_inv keyed_update idem_key_def approval_inv_keyed)

section \<open>Runs\<close>

text \<open>One label per operation that changes the state, with what the caller saw of it. A request is closed with one
  of the two statuses the service uses. \<open>AE_Restart\<close> is a new process whose recovery succeeded, since the
  service does not start otherwise.\<close>

datatype approval_event =
    AE_Create pending_operation "approval_view lp_result"
  | AE_Decide string local_decision "approval_view lp_result"
  | AE_Resume string principal "resume_start lp_result"
  | AE_Complete string
  | AE_Reconcile string
  | AE_Invalidate "string list"
  | AE_Expire "string list"
  | AE_IdemBegin int "idem_outcome lp_result"
  | AE_IdemFinish string string
  | AE_Restart

inductive approval_step :: "approval_service \<Rightarrow> approval_event \<Rightarrow> approval_service \<Rightarrow> bool" where
  create_step: "create w dg sh p s tool req sm op rv life A = (res, A') \<Longrightarrow> approval_step A (AE_Create op res) A'"
| decide_step: "decide w i d life A = (res, A') \<Longrightarrow> approval_step A (AE_Decide i d res) A'"
| resume_step: "begin_resume w i p s rv A = (res, A') \<Longrightarrow> approval_step A (AE_Resume i p res) A'"
| complete_step: "approval_step A (AE_Complete e) (complete_execution w e st res task A)"
| reconcile_step: "approval_step A (AE_Reconcile e) (snd (reconcile w e note A))"
| invalidate_step: "invalidate w c sid st msg A = (ids, A') \<Longrightarrow> st = ''cancelled'' \<or> st = ''invalidated'' \<Longrightarrow>
    approval_step A (AE_Invalidate ids) A'"
| expire_step: "expire_sweep w A = (ids, A') \<Longrightarrow> approval_step A (AE_Expire ids) A'"
| idem_begin_step: "idem_begin w l c k t d A = (res, A') \<Longrightarrow> approval_step A (AE_IdemBegin (io_now w) res) A'"
| idem_finish_step: "approval_step A (AE_IdemFinish c k) (idem_finish w c k v A)"
| restart_step: "startup_recovery w (ApprovalService_new (as_approvals A) (as_executions A) (as_idem A)) = (Inr n, A') \<Longrightarrow>
    approval_step A AE_Restart A'"

lemma recovery_state:
  assumes "startup_recovery w (ApprovalService_new rows execs idem) = (Inr n, A)"
  shows "A = \<lparr>as_approvals = update_where (\<lambda>r. open_status (ap_status r))
      (\<lambda>r. r\<lparr>ap_status := ''invalidated'', ap_decision_note := Some ''Local Pilot restarted''\<rparr>) rows,
    as_executions = update_where (\<lambda>r. ex_status r = ''dispatched'')
      (\<lambda>r. r\<lparr>ex_status := ''outcome_unknown'', ex_completed_at := Some (io_now w)\<rparr>) execs,
    as_idem = update_where (\<lambda>r. ik_status r = ''in_progress'') (\<lambda>r. r\<lparr>ik_status := ''outcome_unknown''\<rparr>) idem,
    as_ops = (\<lambda>_. None)\<rparr>"
  using assms by (auto simp: startup_recovery_def ApprovalService_new_def split: if_splits)

lemma recovery_evolves:
  assumes "startup_recovery w (ApprovalService_new (as_approvals A) (as_executions A) (as_idem A)) = (Inr n, A')"
  shows "evolves A A'"
  unfolding recovery_state [OF assms] by (simp add: evolves_def rows_le_update exec_le_update row_le_def)

lemma recovery_inv:
  assumes "startup_recovery w (ApprovalService_new rows execs idem) = (Inr n, A)"
    and "approval_inv (ApprovalService_new rows execs idem)"
  shows "approval_inv A"
  using approval_inv_keyed [OF assms(2)] unfolding recovery_state [OF assms(1)]
  by (intro approval_inv_rows [OF assms(2)])
    (auto simp: ApprovalService_new_def keyed_update exec_le_update idem_key_def dest: find_update_execution [rotated 2])

lemma new_same_inv: "approval_inv A \<Longrightarrow> approval_inv (ApprovalService_new (as_approvals A) (as_executions A) (as_idem A))"
  by (rule approval_inv_rows) (auto simp: ApprovalService_new_def approval_inv_keyed)

lemma approval_step_inv: "approval_step A e A' \<Longrightarrow> approval_inv A \<Longrightarrow> approval_inv A'"
proof (induction rule: approval_step.induct)
  case (restart_step w A n A')
  then show ?case using recovery_inv new_same_inv by blast
next
  case (invalidate_step w c sid st msg A ids A')
  then show ?case using invalidate_inv [of A w c sid st msg] by simp
next
  case (expire_step w A ids A')
  then show ?case using expire_sweep_inv [of A w] by simp
next
  case (idem_begin_step w l c k t d A res A')
  then show ?case using idem_begin_inv [of A w l c k t d] by simp
qed (simp_all add: create_inv decide_inv begin_resume_inv complete_execution_inv reconcile_inv idem_finish_inv)

lemma approval_step_evolves: "approval_step A e A' \<Longrightarrow> approval_inv A \<Longrightarrow> evolves A A'"
proof (induction rule: approval_step.induct)
  case (invalidate_step w c sid st msg A ids A')
  then show ?case using invalidate_evolves [of A st w c sid msg ids A'] by auto
next
  case (expire_step w A ids A')
  then show ?case using expire_sweep_evolves [of A w] by simp
next
  case (idem_begin_step w l c k t d A res A')
  then show ?case using idem_begin_shape [of w l c k t d A] idem_only_evolves by auto
next
  case (idem_finish_step A c k w v)
  then show ?case by (simp add: idem_finish_def idem_only_evolves)
next
  case (restart_step w A n A')
  then show ?case by (simp add: recovery_evolves)
qed (simp_all add: create_evolves decide_evolves begin_resume_evolves complete_execution_evolves reconcile_evolves)

interpretation approval_runs: invariant_system approval_step approval_inv
  by unfold_locales (rule approval_step_inv)

interpretation approval_lineage: invariant_system approval_step "\<lambda>A. approval_inv A \<and> evolves A0 A"
  by unfold_locales (auto intro: approval_step_inv evolves_trans approval_step_evolves)

lemma run_evolves: "run approval_step A es A' \<Longrightarrow> approval_inv A \<Longrightarrow> evolves A A'"
  using approval_lineage.run_inv [of A es A' A] by simp

section \<open>At most one dispatch\<close>

definition dispatches :: "string \<Rightarrow> approval_event \<Rightarrow> bool" where
  "dispatches i e \<longleftrightarrow> (case e of AE_Resume j p (Inr (RS_Dispatch op x v)) \<Rightarrow> j = i | _ \<Rightarrow> False)"

definition has_execution :: "string \<Rightarrow> approval_service \<Rightarrow> bool" where
  "has_execution i A \<longleftrightarrow> (case find_by ap_id i (as_approvals A) of None \<Rightarrow> False | Some r \<Rightarrow> ap_execution_id r \<noteq> None)"

inductive_cases resume_stepE: "approval_step A (AE_Resume i p res) A'"

lemma dispatch_step:
  assumes "approval_step A (AE_Resume i p (Inr (RS_Dispatch op x v))) A'"
  obtains w s rv r execs where "may_dispatch w i p s rv r op A" "x = io_id w"
    "insert_by ex_id (execution_row_of w r (pr_client_id p)) (as_executions A) = Some execs"
    "A' = dispatched_state w r (pr_client_id p) execs A"
  using assms by (elim resume_stepE begin_resume_cases) auto

lemma dispatched_row:
  assumes "may_dispatch w i p s rv r op A"
  shows "\<exists>r'. find_by ap_id i (as_approvals (dispatched_state w r c execs A)) = Some r'
    \<and> ap_execution_id r' = Some (io_id w) \<and> ap_client_id r' = pr_client_id p"
  using may_dispatchD [OF assms] find_consume [of i "as_approvals A" r w r] by simp

lemma dispatches_has_execution:
  assumes "approval_step A e A'" and "dispatches i e"
  shows "\<not> has_execution i A \<and> has_execution i A'"
proof -
  from assms(2) obtain p op x v where e: "e = AE_Resume i p (Inr (RS_Dispatch op x v))"
    by (auto simp: dispatches_def split: approval_event.splits sum.splits resume_start.splits)
  from assms(1)[unfolded e] show ?thesis
  proof (rule dispatch_step)
    fix w s rv r execs
    assume m: "may_dispatch w i p s rv r op A" and "A' = dispatched_state w r (pr_client_id p) execs A"
    then show ?thesis using may_dispatchD [OF m] dispatched_row [OF m, of "pr_client_id p" execs] by (auto simp: has_execution_def)
  qed
qed

lemma evolves_has_execution: "evolves A A' \<Longrightarrow> has_execution i A \<Longrightarrow> has_execution i A'"
  by (fastforce simp: has_execution_def evolves_def rows_le_def row_le_def split: option.splits)

interpretation dispatch_once: once_system approval_step approval_inv "dispatches i" "has_execution i" for i
  by unfold_locales
    (simp_all add: dispatches_has_execution evolves_has_execution [OF approval_step_evolves])

section \<open>Approval comes first\<close>

definition allowed :: "string \<Rightarrow> approval_service \<Rightarrow> bool" where
  "allowed i A \<longleftrightarrow> (case find_by ap_id i (as_approvals A) of None \<Rightarrow> False
     | Some r \<Rightarrow> ap_status r = ''allowed_once'' \<or> ap_status r = ''allowed_session'')"

definition allows :: "string \<Rightarrow> approval_event \<Rightarrow> bool" where
  "allows i e \<longleftrightarrow> (case e of AE_Decide j d (Inr v) \<Rightarrow> j = i \<and> d \<noteq> DenyRequest | _ \<Rightarrow> False)"

definition withdraws :: "string \<Rightarrow> approval_event \<Rightarrow> bool" where
  "withdraws i e \<longleftrightarrow> (case e of AE_Restart \<Rightarrow> True | AE_Invalidate ids \<Rightarrow> List.member ids i
     | AE_Expire ids \<Rightarrow> List.member ids i | _ \<Rightarrow> False)"

text \<open>An update of rows that only sets a status outside the allowed ones makes nothing allowed.\<close>

lemma allowed_update:
  assumes "\<And>r. ap_id (f r) = ap_id r" and "\<And>r. ap_status (f r) \<noteq> ''allowed_once'' \<and> ap_status (f r) \<noteq> ''allowed_session''"
    and "as_approvals A' = update_where P f (as_approvals A)"
  shows "allowed i A' \<Longrightarrow> allowed i A"
  using assms(2) unfolding allowed_def assms(3) approval_rows.change_look [OF assms(1)]
  by (auto split: option.splits if_splits)

lemma allowed_same: "as_approvals A' = as_approvals A \<Longrightarrow> allowed i A' = allowed i A"
  by (simp add: allowed_def)

lemma decide_allowed:
  assumes "decide w j d life A = (res, A')" and "allowed i A'" and "\<not> allowed i A"
  shows "allows i (AE_Decide j d res)"
proof -
  from decide_cases [OF assms(1)] consider "A' = A"
    | "A' = A\<lparr>as_approvals := set_status j ''expired'' (as_approvals A)\<rparr>"
    | v where "A' = A\<lparr>as_approvals := decide_rows w j d life (as_approvals A),
        as_ops := (if d = DenyRequest then (as_ops A)(j := None) else as_ops A)\<rparr>" "res = Inr v"
    by blast
  then show ?thesis
  proof cases
    case 2
    then show ?thesis
      using assms(2,3) allowed_update [of "ap_status_update (\<lambda>_. ''expired'')" A' "\<lambda>r. ap_id r = j" A i]
      by (simp add: set_status_def)
  next
    case 3
    then have "(i = j \<and> d \<noteq> DenyRequest) \<or> allowed i A"
      using assms(2) by (auto simp: allowed_def decide_rows_def approval_rows.change_look decision_status_def
          split: option.splits if_splits local_decision.splits dest: find_by_Some)
    then show ?thesis using 3 assms(3) by (simp add: allows_def)
  qed (use assms in simp)
qed

lemma resume_allowed:
  assumes "begin_resume w j p s rv A = (res, A')" and "allowed i A'"
  shows "allowed i A"
  using assms(1)
proof (cases rule: begin_resume_cases)
  case (closed e r f)
  then show ?thesis using assms(2) allowed_update [of f A' "\<lambda>x. ap_id x = j" A i] by auto
next
  case (dispatched r op execs v)
  show ?thesis
  proof (cases "find_by ap_id i (as_approvals A)")
    case None
    then have "find_by ap_id i (as_approvals A') = None" by (simp add: dispatched(3))
    then show ?thesis using assms(2) by (simp add: allowed_def)
  next
    case (Some y)
    then show ?thesis
      using assms(2) dispatched(1,3) may_dispatchD(2) [OF dispatched(1)] find_consume [OF Some, of w r]
      by (auto simp: allowed_def may_dispatch_def split: if_splits)
  qed
qed (use assms in simp_all)

lemma selected_not_allowed:
  assumes "approval_inv A" and "\<And>r. ap_id (f r) = ap_id r"
    and "\<And>r. ap_status (f r) \<noteq> ''allowed_once'' \<and> ap_status (f r) \<noteq> ''allowed_session''"
    and "as_approvals A' = update_where (\<lambda>r. List.member ids (ap_id r)) f (as_approvals A)" and "List.member ids i"
  shows "\<not> allowed i A'"
  using assms(3,5) unfolding allowed_def assms(4) approval_rows.change_look [OF assms(2)]
  by (auto split: option.splits dest: find_by_Some)

lemma allowed_step:
  assumes "approval_step A e A'" and "\<not> allowed i A" and "allowed i A'"
  shows "allows i e"
  using assms
proof (induction rule: approval_step.induct)
  case (create_step w dg sh p s tool req sm op rv life A res A')
  then show ?case
    using create_cases [OF create_step(1)]
    by (auto simp: allowed_def dest!: approval_rows.put_look [where k = i] split: option.splits if_splits)
next
  case (decide_step w j d life A res A')
  then show ?case by (blast intro: decide_allowed)
next
  case (resume_step w j p s rv A res A')
  then show ?case using resume_allowed by blast
next
  case (invalidate_step w c sid st msg A ids A')
  then show ?case
    using allowed_update [of "\<lambda>r. r\<lparr>ap_status := st, ap_decision_note := Some msg\<rparr>" A' "\<lambda>r. List.member ids (ap_id r)" A i]
    by (auto simp: invalidate_def Let_def simp del: List.member_iff split: if_splits)
next
  case (expire_step w A ids A')
  then show ?case
    using allowed_update [of "\<lambda>r. r\<lparr>ap_status := ''expired''\<rparr>" A' "\<lambda>r. List.member ids (ap_id r)" A i]
    by (auto simp: expire_sweep_def Let_def simp del: List.member_iff split: if_splits)
next
  case (idem_begin_step w l c k t d A res A')
  then show ?case using idem_begin_shape [of w l c k t d A] by (auto simp: allowed_def)
next
  case (restart_step w A n A')
  then show ?case
    using allowed_update [of "\<lambda>r. r\<lparr>ap_status := ''invalidated'', ap_decision_note := Some ''Local Pilot restarted''\<rparr>"
        A' "\<lambda>r. open_status (ap_status r)" A i]
    by (simp add: recovery_state [OF restart_step(1)])
qed (auto simp: complete_execution_def reconcile_def idem_finish_def allowed_def split: if_splits)

lemma recovered_not_allowed:
  "startup_recovery w (ApprovalService_new rows execs idem) = (Inr n, A) \<Longrightarrow> \<not> allowed i A"
  by (drule recovery_state) (auto simp: allowed_def approval_rows.change_look split: option.splits if_splits)

lemma withdrawn_step:
  assumes "approval_step A e A'" and "approval_inv A" and "withdraws i e"
  shows "\<not> allowed i A'"
  using assms
proof (induction rule: approval_step.induct)
  case (invalidate_step w c sid st msg A ids A')
  then show ?case
    using selected_not_allowed [of A "\<lambda>r. r\<lparr>ap_status := st, ap_decision_note := Some msg\<rparr>" A' ids i]
    by (auto simp: invalidate_def Let_def withdraws_def split: if_splits)
next
  case (expire_step w A ids A')
  then show ?case
    using selected_not_allowed [of A "\<lambda>r. r\<lparr>ap_status := ''expired''\<rparr>" A' ids i]
    by (auto simp: expire_sweep_def Let_def withdraws_def split: if_splits)
next
  case (restart_step w A n A')
  then show ?case using recovered_not_allowed by blast
qed (simp_all add: withdraws_def)

interpretation approval_enabling: enabling_system approval_step approval_inv "allowed i" "allows i" "withdraws i" for i
  by unfold_locales (use allowed_step withdrawn_step in blast)+

text \<open>The operation kept for a request is the one it was created with, for the client that created it.\<close>

definition keeps_op :: "string \<Rightarrow> pending_operation \<Rightarrow> string \<Rightarrow> approval_service \<Rightarrow> bool" where
  "keeps_op i op c A \<longleftrightarrow> as_ops A i = Some op
     \<and> (case find_by ap_id i (as_approvals A) of None \<Rightarrow> False | Some r \<Rightarrow> ap_client_id r = c)"

definition creates :: "string \<Rightarrow> pending_operation \<Rightarrow> string \<Rightarrow> approval_event \<Rightarrow> bool" where
  "creates i op c e \<longleftrightarrow>
     (case e of AE_Create op' (Inr v) \<Rightarrow> op' = op \<and> av_id v = i \<and> av_client_id v = c | _ \<Rightarrow> False)"

text \<open>Only a creation adds an operation; every other step keeps or drops it.\<close>

lemma ops_step:
  assumes "approval_step A e A'" and "as_ops A' i = Some op" and "\<nexists>res. e = AE_Create op res"
  shows "as_ops A i = Some op"
  using assms
proof (induction rule: approval_step.induct)
  case (create_step w dg sh p s tool req sm op' rv life A res A')
  then show ?case using create_cases [OF create_step(1)] by (auto split: if_splits)
next
  case (decide_step w j d life A res A')
  then show ?case using decide_cases [OF decide_step(1)] by (auto split: if_splits)
next
  case (resume_step w j p s rv A res A')
  from resume_step(1) show ?case
    by (cases rule: begin_resume_cases) (use resume_step(2) in \<open>auto simp: dispatched_state_def split: if_splits\<close>)
next
  case (idem_begin_step w l c k t d A res A')
  then show ?case using idem_begin_shape [of w l c k t d A] by auto
next
  case (restart_step w A n A')
  then show ?case by (simp add: recovery_state [OF restart_step(1)])
qed (auto simp: invalidate_def expire_sweep_def Let_def drop_ops_def complete_execution_def reconcile_def idem_finish_def
  split: if_splits)

definition ops_recorded :: "approval_service \<Rightarrow> bool" where
  "ops_recorded A \<longleftrightarrow> (\<forall>i. as_ops A i \<noteq> None \<longrightarrow> find_by ap_id i (as_approvals A) \<noteq> None)"

lemma create_stepE:
  assumes "approval_step A (AE_Create op res) A'"
  obtains "A' = A"
  | row rows where "insert_by ap_id row (as_approvals A) = Some rows"
    "A' = A\<lparr>as_approvals := rows, as_ops := (as_ops A)(ap_id row \<mapsto> op)\<rparr>" "res = Inr (row_to_view row)"
proof -
  from assms obtain w dg sh p s tool req sm rv life
    where "create w dg sh p s tool req sm op rv life A = (res, A')" by (auto elim: approval_step.cases)
  from create_cases [OF this] show thesis using that by (metis create_row_sel(1))
qed

lemma evolves_find: "evolves A A' \<Longrightarrow> find_by ap_id i (as_approvals A) = Some r \<Longrightarrow>
  \<exists>r'. find_by ap_id i (as_approvals A') = Some r' \<and> row_le r r'"
  by (simp add: evolves_def rows_le_def)

lemma ops_recorded_step:
  assumes "approval_inv A" and "ops_recorded A" and "approval_step A e A'"
  shows "ops_recorded A'"
  unfolding ops_recorded_def
proof (intro allI impI)
  fix i
  assume "as_ops A' i \<noteq> None"
  then obtain op where op: "as_ops A' i = Some op" by auto
  have kept: "find_by ap_id i (as_approvals A') \<noteq> None" if "as_ops A i = Some op"
    using that assms(2) evolves_find [OF approval_step_evolves [OF assms(3,1)], of i] by (fastforce simp: ops_recorded_def)
  show "find_by ap_id i (as_approvals A') \<noteq> None"
  proof (cases "\<exists>res. e = AE_Create op res")
    case True
    then obtain res where "approval_step A (AE_Create op res) A'" using assms(3) by blast
    then show ?thesis
    proof (cases rule: create_stepE)
      case (2 row rows)
      then show ?thesis
        using approval_rows.put_new [OF 2(1)] kept op by (cases "i = ap_id row") auto
    qed (use kept op in simp)
  next
    case False
    then show ?thesis using ops_step [OF assms(3) op] kept by blast
  qed
qed

lemma keeps_op_step:
  assumes "approval_inv A" and "ops_recorded A" and "\<not> keeps_op i op c A" and "approval_step A e A'" and "keeps_op i op c A'"
  shows "creates i op c e"
proof (cases "as_ops A i = Some op")
  case True
  then obtain r where r: "find_by ap_id i (as_approvals A) = Some r" using assms(2) by (fastforce simp: ops_recorded_def)
  with evolves_find [OF approval_step_evolves [OF assms(4,1)]] True assms(3,5) show ?thesis
    by (fastforce simp: keeps_op_def row_le_def)
next
  case False
  have op: "as_ops A' i = Some op" using assms(5) by (simp add: keeps_op_def)
  then obtain res where e: "e = AE_Create op res" using False ops_step [OF assms(4)] by blast
  from assms(4)[unfolded e] show ?thesis
  proof (cases rule: create_stepE)
    case (2 row rows)
    then have "i = ap_id row" using op False by (auto split: if_splits)
    then show ?thesis
      using assms(5) approval_rows.put_new [OF 2(1)] 2 by (simp add: keeps_op_def creates_def e)
  qed (use False op in simp)
qed

interpretation snapshot: enabling_system approval_step "\<lambda>A. approval_inv A \<and> ops_recorded A" "keeps_op i op c" "creates i op c"
    "\<lambda>_. False" for i op c
  by unfold_locales (use approval_step_inv ops_recorded_step keeps_op_step in blast)+

section \<open>Properties\<close>

text \<open>C2: An approved operation runs at most once. Along any run of the approval service, whatever clients and the local user do, with
  failed writes and restarts in between, at most one resume of a given approval dispatches its operation.\<close>

theorem dispatched_at_most_once:
  assumes "approval_inv A" and "run approval_step A es A'"
  shows "length (filter (dispatches i) es) \<le> 1"
  using dispatch_once.at_most_once [OF assms(2,1)] .

text \<open>C21: Nothing runs without a local decision. When a resume dispatches an operation, then since the service started the local
  user allowed this very approval (once or for the session), nothing withdrew it afterwards (no restart, no
  invalidation and no expiry that lists it), and the operation is the one this client's request was created
  with.\<close>

theorem dispatch_follows_approval:
  assumes "approval_inv (ApprovalService_new rows execs idem)"
    and "startup_recovery w (ApprovalService_new rows execs idem) = (Inr n, A0)"
    and "run approval_step A0 (es @ [AE_Resume i p (Inr (RS_Dispatch op x v))]) A"
  shows "(\<exists>pre d u post. es = pre @ AE_Decide i d (Inr u) # post \<and> d \<noteq> DenyRequest \<and> list_all (\<lambda>e. \<not> withdraws i e) post)
    \<and> (\<exists>u. AE_Create op (Inr u) \<in> set es \<and> av_id u = i \<and> av_client_id u = pr_client_id p)"
proof -
  have inv: "approval_inv A0" by (rule recovery_inv [OF assms(2,1)])
  have ops: "as_ops A0 k = None" for k using recovery_state [OF assms(2)] by simp
  obtain B where B: "run approval_step A0 es B" "approval_step B (AE_Resume i p (Inr (RS_Dispatch op x v))) A"
    using assms(3) by (auto elim: run_snocE)
  then obtain w' s rv r where m: "may_dispatch w' i p s rv r op B" by (auto elim: dispatch_step)
  have "allowed i B" using m by (auto simp: allowed_def may_dispatch_def)
  from approval_enabling.enabled_before [OF B(1) inv recovered_not_allowed [OF assms(2)] this]
  obtain pre e post where es: "es = pre @ e # post" "allows i e" "list_all (\<lambda>f. \<not> withdraws i f) post" by blast
  then obtain d u where "e = AE_Decide i d (Inr u)" "d \<noteq> DenyRequest"
    by (auto simp: allows_def split: approval_event.splits sum.splits)
  moreover have kept: "keeps_op i op (pr_client_id p) B" using m by (auto simp: keeps_op_def may_dispatch_def)
  have start: "approval_inv A0 \<and> ops_recorded A0" "\<not> keeps_op i op (pr_client_id p) A0"
    using inv ops by (simp_all add: ops_recorded_def keeps_op_def)
  from snapshot.enabled_before [OF B(1) start kept]
  obtain e' where "e' \<in> set es" "creates i op (pr_client_id p) e'" by fastforce
  then obtain u' where "AE_Create op (Inr u') \<in> set es" "av_id u' = i" "av_client_id u' = pr_client_id p"
    by (auto simp: creates_def split: approval_event.splits sum.splits)
  ultimately show ?thesis using es by blast
qed

text \<open>C25: When exactly a resume dispatches: the caller is the client that made the request, the local user allowed it and it was
  not dispatched before, its window is open, the caller's session and the policy revision are those of the
  request, the credential has every scope of the original call, and the operation is still held. A duplicate
  execution identifier or a refused write stops it.\<close>

theorem resume_dispatches_iff:
  "(\<exists>op x v A'. begin_resume w i p s rv A = (Inr (RS_Dispatch op x v), A')) \<longleftrightarrow>
     io_db_ok w \<and> find_by ex_id (io_id w) (as_executions A) = None
     \<and> (\<exists>r op. find_by ap_id i (as_approvals A) = Some r \<and> ap_client_id r = pr_client_id p \<and> ap_execution_id r = None
        \<and> (ap_status r = ''allowed_once'' \<or> ap_status r = ''allowed_session'')
        \<and> io_now w \<le> ap_expires_at r \<and> ap_session_id r = ses_id s \<and> ap_policy_revision r = rv
        \<and> list_all (has_scope p) (split_whitespace (ap_required_scopes r)) \<and> as_ops A i = Some op)"
  (is "?lhs \<longleftrightarrow> ?rhs")
proof
  have scopes: "missing_scope req p \<longleftrightarrow> \<not> list_all (has_scope p) (split_whitespace req)" for req
    by (simp add: missing_scope_def list_ex_iff list_all_iff)
  have conflict: "insert_by ex_id (execution_row_of w r c) (as_executions A) = None \<longleftrightarrow>
      find_by ex_id (io_id w) (as_executions A) \<noteq> None" for r c
    using execution_rows.put_conflict [of "execution_row_of w r c"] by (simp add: execution_row_of_def)
  show ?rhs if ?lhs
  proof -
    from that obtain op x v A' where b: "begin_resume w i p s rv A = (Inr (RS_Dispatch op x v), A')" by blast
    then have "io_db_ok w" by (auto simp: begin_resume_def split: if_splits)
    moreover from b obtain r execs where "may_dispatch w i p s rv r op A"
      "insert_by ex_id (execution_row_of w r (pr_client_id p)) (as_executions A) = Some execs"
      by (cases rule: begin_resume_cases) auto
    ultimately show ?thesis using conflict [of r "pr_client_id p"] by (auto simp: may_dispatch_def scopes)
  qed
  show ?lhs if ?rhs
  proof -
    from that obtain r op where ok: "io_db_ok w" "find_by ex_id (io_id w) (as_executions A) = None"
      and m: "may_dispatch w i p s rv r op A" by (auto simp: may_dispatch_def scopes)
    have "resume_check w r p s rv A = RC_Go" using m resume_check_Go [OF may_dispatchD(1) [OF m]] by blast
    then have "begin_resume w i p s rv A = dispatch_approval w r op (pr_client_id p) A"
      using ok(1) may_dispatchD [OF m] by (simp add: begin_resume_def)
    then show ?thesis
      using dispatch_approval_cases [OF may_dispatchD(1) [OF m]] conflict ok(2) by (metis surj_pair option.distinct(1))
  qed
qed

text \<open>Repeated and concurrent resumes observe the first one. Once a resume has dispatched an operation as execution \<open>x\<close>, any
  later resume of it by the same client, in whatever session and under whatever revision, before or after a
  restart, answers with that execution's record and changes nothing.\<close>

theorem later_resume_observes:
  assumes "approval_inv A" and "begin_resume w i p s rv A = (Inr (RS_Dispatch op x v), B)" and "run approval_step B es C"
    and "pr_client_id q = pr_client_id p" and "io_db_ok w'"
  shows "\<exists>e. begin_resume w' i q s' rv' C = (Inr (RS_Existing e), C) \<and> ev_execution_id e = x \<and> ev_approval_id e = Some i"
proof -
  have invB: "approval_inv B" by (rule begin_resume_inv [OF assms(2,1)])
  have invC: "approval_inv C" by (rule approval_runs.run_inv [OF assms(3) invB])
  from assms(2) obtain r execs where m: "may_dispatch w i p s rv r op A" "B = dispatched_state w r (pr_client_id p) execs A"
    "x = io_id w" by (cases rule: begin_resume_cases) auto
  then obtain r' where "find_by ap_id i (as_approvals B) = Some r'" "ap_execution_id r' = Some x" "ap_client_id r' = pr_client_id p"
    using dispatched_row by blast
  then obtain r'' where c: "find_by ap_id i (as_approvals C) = Some r''" "ap_execution_id r'' = Some x"
    "ap_client_id r'' = pr_client_id q"
    using evolves_find [OF run_evolves [OF assms(3) invB]] assms(4) by (fastforce simp: row_le_def)
  then obtain y where y: "find_by ex_id x (as_executions C) = Some y" "ex_approval_id y = Some i"
    using invC unfolding approval_inv_def by blast
  have "resume_check w' r'' q s' rv' C = RC_Existing (row_to_exec y)"
    using c y(1) by (simp add: resume_check_def execution_def)
  then have "begin_resume w' i q s' rv' C = (Inr (RS_Existing (row_to_exec y)), C)"
    using c(1) assms(5) by (simp add: begin_resume_def)
  moreover have "ex_id y = x" using y(1) by (simp add: execution_rows.look_key)
  ultimately show ?thesis using y(2) by (simp add: row_to_exec_def)
qed

text \<open>A closed request stays closed: once a request is denied, expired, cancelled, invalidated or consumed, no later step of any
  run changes that status, its owner or its session.\<close>

theorem final_status_stays:
  assumes "approval_inv A" and "run approval_step A es A'" and "find_by ap_id i (as_approvals A) = Some r"
    and "\<not> open_status (ap_status r)"
  shows "\<exists>r'. find_by ap_id i (as_approvals A') = Some r' \<and> ap_status r' = ap_status r
    \<and> ap_client_id r' = ap_client_id r \<and> ap_session_id r' = ap_session_id r"
  using evolves_find [OF run_evolves [OF assms(2,1)] assms(3)] assms(4) by (auto simp: row_le_def)

text \<open>After a restart nothing can be resumed and nothing is replayed: whatever the tables held, no resume dispatches an earlier
  approval, every execution that was dispatched without an outcome is recorded as unknown, and no idempotency
  key is left in progress.\<close>

theorem restart_replays_nothing:
  assumes "startup_recovery w (ApprovalService_new rows execs idem) = (Inr n, A)"
  shows "fst (begin_resume w' i p s rv A) \<noteq> Inr (RS_Dispatch op x v)
    \<and> list_all (\<lambda>e. ex_status e \<noteq> ''dispatched'') (as_executions A)
    \<and> list_all (\<lambda>k. ik_status k \<noteq> ''in_progress'') (as_idem A)
    \<and> (find_by ex_id e execs = Some y \<and> ex_status y = ''dispatched'' \<longrightarrow>
         map_option ev_status (execution A e) = Some ''outcome_unknown'')"
proof -
  have "fst (begin_resume w' i p s rv A) \<noteq> Inr (RS_Dispatch op x v)"
  proof
    assume "fst (begin_resume w' i p s rv A) = Inr (RS_Dispatch op x v)"
    then obtain B where "begin_resume w' i p s rv A = (Inr (RS_Dispatch op x v), B)" by (metis prod.collapse)
    then obtain r where "may_dispatch w' i p s rv r op A" by (cases rule: begin_resume_cases) auto
    then show False using recovery_state [OF assms] by (simp add: may_dispatch_def)
  qed
  moreover have "map_option ev_status (execution A e) = Some ''outcome_unknown''"
    if "find_by ex_id e execs = Some y \<and> ex_status y = ''dispatched''"
    using that by (simp add: recovery_state [OF assms] execution_def execution_rows.change_look row_to_exec_def)
  moreover have "list_all (\<lambda>e. ex_status e \<noteq> ''dispatched'') (as_executions A)"
    "list_all (\<lambda>k. ik_status k \<noteq> ''in_progress'') (as_idem A)"
    by (auto simp: recovery_state [OF assms] list_all_iff update_where_def)
  ultimately show ?thesis by blast
qed

section \<open>Idempotency keys\<close>

definition idem_event_ok :: "int \<Rightarrow> approval_event \<Rightarrow> bool" where
  "idem_event_ok l e \<longleftrightarrow> (case e of AE_IdemBegin now res \<Rightarrow> now - DAY_MS \<le> l | _ \<Rightarrow> True)"

text \<open>A key that is younger than a day stays, with its tool and its arguments.\<close>

definition has_key :: "string \<times> string \<Rightarrow> string \<Rightarrow> string \<Rightarrow> int \<Rightarrow> approval_service \<Rightarrow> bool" where
  "has_key k t d l A \<longleftrightarrow> (\<exists>r. find_by idem_key k (as_idem A) = Some r \<and> ik_tool_name r = t \<and> ik_args_digest r = d
     \<and> l \<le> ik_created_at r)"

lemma has_key_purged:
  assumes "keyed idem_key (as_idem A)" and "has_key k t d l A" and "now - DAY_MS \<le> l"
  shows "\<exists>r. find_by idem_key k (delete_where (\<lambda>r. ik_created_at r < now - DAY_MS) (as_idem A)) = Some r
    \<and> ik_tool_name r = t \<and> ik_args_digest r = d \<and> l \<le> ik_created_at r"
  using assms by (auto simp: has_key_def idem_rows.remove_look)

lemma has_key_update:
  assumes "has_key k t d l A" and "as_idem A' = update_where P f (as_idem A)"
    and "\<And>r. idem_key (f r) = idem_key r" and "\<And>r. ik_tool_name (f r) = ik_tool_name r"
    and "\<And>r. ik_args_digest (f r) = ik_args_digest r" and "\<And>r. ik_created_at (f r) = ik_created_at r"
  shows "has_key k t d l A'"
proof -
  obtain r where "find_by idem_key k (as_idem A) = Some r" "ik_tool_name r = t" "ik_args_digest r = d" "l \<le> ik_created_at r"
    using assms(1) by (auto simp: has_key_def)
  then show ?thesis
    unfolding has_key_def assms(2) idem_rows.change_look [OF assms(3)]
    by (intro exI [of _ "if P r then f r else r"]) (simp add: assms)
qed

lemma has_key_step:
  assumes "approval_step A e A'" and "approval_inv A" and "has_key k t d l A" and "idem_event_ok l e"
  shows "has_key k t d l A'"
  using assms
proof (induction rule: approval_step.induct)
  case (create_step w dg sh p s tool req sm op rv life A res A')
  then show ?case using create_cases [OF create_step(1)] by (auto simp: has_key_def)
next
  case (decide_step w j d life A res A')
  then show ?case using decide_cases [OF decide_step(1)] by (auto simp: has_key_def)
next
  case (resume_step w j p s rv A res A')
  from resume_step(1) show ?case
    by (cases rule: begin_resume_cases) (use resume_step(3) in \<open>auto simp: has_key_def\<close>)
next
  case (idem_begin_step w l' c' k' t' d' A res A')
  obtain r where r: "find_by idem_key k (delete_where (\<lambda>r. ik_created_at r < io_now w - DAY_MS) (as_idem A)) = Some r"
    "ik_tool_name r = t" "ik_args_digest r = d" "l \<le> ik_created_at r"
    using has_key_purged [OF approval_inv_keyed(3) [OF idem_begin_step(2)] idem_begin_step(3), of "io_now w"] idem_begin_step(4)
    by (auto simp: idem_event_ok_def)
  then show ?case
    using idem_begin_step(1,3) idem_rows.put_keeps [OF _ r(1)]
    by (auto simp: idem_begin_def Let_def has_key_def split: if_splits option.splits)
next
  case (idem_finish_step A c' k' w v)
  show ?case
  proof (cases "io_db_ok w")
    case True
    show ?thesis
      by (rule has_key_update [OF idem_finish_step(2), where P = "\<lambda>r. idem_key r = (c', k')"
            and f = "\<lambda>r. r\<lparr>ik_status := ''done'', ik_result := Some v\<rparr>"])
        (simp_all add: True idem_finish_def idem_key_def)
  qed (use idem_finish_step in \<open>simp add: idem_finish_def\<close>)
next
  case (restart_step w A n A')
  show ?case
    by (rule has_key_update [OF restart_step(3), where P = "\<lambda>r. ik_status r = ''in_progress''"
          and f = "\<lambda>r. r\<lparr>ik_status := ''outcome_unknown''\<rparr>"])
      (simp_all add: recovery_state [OF restart_step(1)] idem_key_def)
qed (auto simp: has_key_def invalidate_def expire_sweep_def complete_execution_def reconcile_def Let_def split: if_splits)

lemma has_key_run:
  "run approval_step A es A' \<Longrightarrow> approval_inv A \<Longrightarrow> has_key k t d l A \<Longrightarrow> list_all (idem_event_ok l) es \<Longrightarrow> has_key k t d l A'"
proof (induction rule: run.induct)
  case (run_snoc A es B e C)
  then show ?case using has_key_step [of B e C k t d l] approval_runs.run_inv [of A es B] by simp
qed simp

text \<open>An idempotency key lets one call through per day. After a call proceeded under a key at time \<open>l\<close>, no call of that client
  with the same key proceeds as long as no clock reading is more than a day past \<open>l\<close>, over completions and
  restarts: it conflicts exactly when the tool or the arguments differ, and otherwise gets the recorded
  result or is told that the first call is in progress.\<close>

theorem idem_proceeds_once:
  assumes "approval_inv A" and "idem_begin w l c k t d A = (Inr IO_Proceed, B)" and "run approval_step B es C"
    and "list_all (idem_event_ok l) es" and "io_now w' - DAY_MS \<le> l" and "idem_begin w' l' c k t' d' C = (Inr out, D)"
  shows "out \<noteq> IO_Proceed \<and> (out = IO_Conflict \<longleftrightarrow> t' \<noteq> t \<or> d' \<noteq> d)"
proof -
  have invB: "approval_inv B" using idem_begin_inv [OF assms(1), of w l c k t d] assms(2) by simp
  have "has_key (c, k) t d l B"
  proof -
    from assms(2) obtain rows row where "insert_by idem_key row rows = Some (as_idem B)" "idem_key row = (c, k)"
      "ik_tool_name row = t" "ik_args_digest row = d" "ik_created_at row = l"
      by (auto simp: idem_begin_def Let_def idem_key_def split: if_splits option.splits)
    then show ?thesis using idem_rows.put_new by (fastforce simp: has_key_def)
  qed
  from has_key_run [OF assms(3) invB this assms(4)] have key: "has_key (c, k) t d l C" .
  have "keyed idem_key (as_idem C)" using approval_inv_keyed(3) [OF approval_runs.run_inv [OF assms(3) invB]] .
  from has_key_purged [OF this key assms(5)] assms(6) show ?thesis
    by (auto simp: idem_begin_def Let_def split: if_splits)
qed

section \<open>Witnesses\<close>

text \<open>One request, allowed once and resumed.\<close>

definition sample_world :: "string \<Rightarrow> int \<Rightarrow> io_env" where
  "sample_world i now = \<lparr>io_now = now, io_id = i, io_db_ok = True\<rparr>"

definition sample_principal :: principal where
  "sample_principal = \<lparr>pr_client_id = ''cl_1'', pr_display_name = ''Agent'', pr_credential_id = ''cred_1'',
     pr_auth_method = ManualToken, pr_scopes = [''workstation:read'', ''workstation:write''], pr_oauth_client_id = None\<rparr>"

definition sample_op :: pending_operation where
  "sample_op = \<lparr>po_tool_name = ''fs_delete'', po_arguments = JObject [(''path'', JString ''a'')], po_descriptor_digest = ''d'',
     po_required_scopes = [''workstation:write''], po_session_scope = Exact ''k'' ''l''\<rparr>"

definition sample_request :: approval_requirement where
  "sample_request = \<lparr>ar_category = ''external_delete'', ar_reason = ''r'', ar_impact = ''i'', ar_risk = High,
     ar_requires_admin = False, ar_paths = [''a''], ar_command = None, ar_session_scope = Exact ''k'' ''l''\<rparr>"

definition sample_summary :: approval_summary where
  "sample_summary = \<lparr>sm_paths = [''a''], sm_command = None, sm_cwd = None, sm_arguments = None, sm_impact = ''i'',
     sm_session_scope_label = ''l''\<rparr>"

definition sample_empty :: approval_service where
  "sample_empty = ApprovalService_new [] [] []"

definition sample_created :: "approval_view lp_result \<times> approval_service" where
  "sample_created = create (sample_world ''apr_1'' 0) (\<lambda>_. ''digest'') (\<lambda>_. ''1'') sample_principal demo_idle ''fs_delete'' sample_request
     sample_summary sample_op 1 10 sample_empty"

definition sample_decided :: "approval_view lp_result \<times> approval_service" where
  "sample_decided = decide (sample_world [] 1) ''apr_1'' AllowOnce 10 (snd sample_created)"

definition sample_resumed :: "resume_start lp_result \<times> approval_service" where
  "sample_resumed = begin_resume (sample_world ''exe_1'' 2) ''apr_1'' sample_principal demo_idle 1 (snd sample_decided)"

definition sample_row :: approval_row where
  "sample_row = create_row (sample_world ''apr_1'' 0) (\<lambda>_. ''digest'') (\<lambda>_. ''1'') sample_principal demo_idle ''fs_delete'' sample_request
     sample_summary sample_op 1 10"

definition sample_allowed_row :: approval_row where
  "sample_allowed_row = sample_row\<lparr>ap_status := ''allowed_once'', ap_decided_at := Some 1, ap_expires_at := 600001\<rparr>"

definition sample_consumed_row :: approval_row where
  "sample_consumed_row = sample_allowed_row\<lparr>ap_execution_id := Some ''exe_1'', ap_status := ''consumed''\<rparr>"

lemma sample_inv: "approval_inv sample_empty"
  by (simp add: approval_inv_def sample_empty_def ApprovalService_new_def keyed_def find_by_def)

lemma sample_recovery: "startup_recovery (sample_world [] 0) (ApprovalService_new [] [] []) = (Inr (0, 0), sample_empty)"
  by (simp add: startup_recovery_def sample_world_def sample_empty_def ApprovalService_new_def update_where_def count_where_def)

lemma sample_results:
  "fst sample_created = Inr (row_to_view sample_row)" "fst sample_decided = Inr (row_to_view sample_allowed_row)"
  "fst sample_resumed = Inr (RS_Dispatch sample_op ''exe_1'' (row_to_view sample_consumed_row))"
  "find_by ap_id ''apr_1'' (as_approvals (snd sample_resumed)) = Some sample_consumed_row"
  by code_simp+

lemma sample_steps:
  "approval_step sample_empty (AE_Create sample_op (Inr (row_to_view sample_row))) (snd sample_created)"
  "approval_step (snd sample_created) (AE_Decide ''apr_1'' AllowOnce (Inr (row_to_view sample_allowed_row))) (snd sample_decided)"
  "approval_step (snd sample_decided)
     (AE_Resume ''apr_1'' sample_principal (Inr (RS_Dispatch sample_op ''exe_1'' (row_to_view sample_consumed_row)))) (snd sample_resumed)"
proof -
  show "approval_step sample_empty (AE_Create sample_op (Inr (row_to_view sample_row))) (snd sample_created)"
    by (rule create_step [OF trans [OF sample_created_def [symmetric]]]) (metis sample_results(1) prod.collapse)
  show "approval_step (snd sample_created) (AE_Decide ''apr_1'' AllowOnce (Inr (row_to_view sample_allowed_row))) (snd sample_decided)"
    by (rule decide_step [OF trans [OF sample_decided_def [symmetric]]]) (metis sample_results(2) prod.collapse)
  show "approval_step (snd sample_decided)
      (AE_Resume ''apr_1'' sample_principal (Inr (RS_Dispatch sample_op ''exe_1'' (row_to_view sample_consumed_row)))) (snd sample_resumed)"
    by (rule resume_step [OF trans [OF sample_resumed_def [symmetric]]]) (metis sample_results(3) prod.collapse)
qed

definition sample_trace :: "approval_event list" where
  "sample_trace = [AE_Create sample_op (Inr (row_to_view sample_row)), AE_Decide ''apr_1'' AllowOnce (Inr (row_to_view sample_allowed_row))]"

abbreviation sample_dispatch :: approval_event where
  "sample_dispatch \<equiv> AE_Resume ''apr_1'' sample_principal (Inr (RS_Dispatch sample_op ''exe_1'' (row_to_view sample_consumed_row)))"

lemma sample_run_decided: "run approval_step sample_empty sample_trace (snd sample_decided)"
  unfolding sample_trace_def run_Cons
  by (intro exI conjI, rule sample_steps(1), rule sample_steps(2), rule run_nil)

lemma sample_run_all: "run approval_step sample_empty (sample_trace @ [sample_dispatch]) (snd sample_resumed)"
  by (rule run_snoc [where step = approval_step, OF sample_run_decided sample_steps(3)])

theorem dispatched_at_most_once_witness: "length (filter (dispatches ''apr_1'') (sample_trace @ [sample_dispatch])) \<le> 1"
  by (rule dispatched_at_most_once [OF sample_inv sample_run_all])

theorem dispatch_follows_approval_witness:
  "(\<exists>pre d u post. sample_trace = pre @ AE_Decide ''apr_1'' d (Inr u) # post \<and> d \<noteq> DenyRequest
      \<and> list_all (\<lambda>e. \<not> withdraws ''apr_1'' e) post)
    \<and> (\<exists>u. AE_Create sample_op (Inr u) \<in> set sample_trace \<and> av_id u = ''apr_1'' \<and> av_client_id u = pr_client_id sample_principal)"
  by (rule dispatch_follows_approval [OF _ sample_recovery sample_run_all]) (use sample_inv in \<open>simp add: sample_empty_def\<close>)

theorem later_resume_observes_witness:
  "\<exists>e. begin_resume (sample_world ''exe_2'' 3) ''apr_1'' sample_principal (demo_idle\<lparr>ses_id := ''ses_2''\<rparr>) 7 (snd sample_resumed) =
     (Inr (RS_Existing e), snd sample_resumed) \<and> ev_execution_id e = ''exe_1'' \<and> ev_approval_id e = Some ''apr_1''"
proof (rule later_resume_observes [OF _ _ run_nil])
  show "approval_inv (snd sample_decided)" by (rule approval_runs.run_inv [OF sample_run_decided sample_inv])
  show "begin_resume (sample_world ''exe_1'' 2) ''apr_1'' sample_principal demo_idle 1 (snd sample_decided) = (Inr (RS_Dispatch sample_op ''exe_1'' (row_to_view sample_consumed_row)), snd sample_resumed)"
    by (rule trans [OF sample_resumed_def [symmetric]]) (metis sample_results(3) prod.collapse)
qed (simp_all add: sample_world_def)

theorem final_status_stays_witness:
  "\<exists>r'. find_by ap_id ''apr_1'' (as_approvals (snd sample_resumed)) = Some r' \<and> ap_status r' = ap_status sample_consumed_row
    \<and> ap_client_id r' = ap_client_id sample_consumed_row \<and> ap_session_id r' = ap_session_id sample_consumed_row"
  by (rule final_status_stays [OF _ run_nil sample_results(4)])
    (use approval_runs.run_inv [OF sample_run_all sample_inv] in \<open>simp_all add: sample_consumed_row_def\<close>)

text \<open>The tables as a process leaves them that stopped after the dispatch.\<close>

theorem restart_replays_nothing_witness:
  "fst (begin_resume (sample_world ''exe_2'' 9) ''apr_1'' sample_principal demo_idle 1
       (snd (startup_recovery (sample_world [] 8) (ApprovalService_new [sample_consumed_row]
          [execution_row_of (sample_world ''exe_1'' 2) sample_row ''cl_1''] [])))) \<noteq>
     Inr (RS_Dispatch sample_op ''exe_2'' (row_to_view sample_row))"
proof -
  have "startup_recovery (sample_world [] 8) (ApprovalService_new [sample_consumed_row]
      [execution_row_of (sample_world ''exe_1'' 2) sample_row ''cl_1''] []) =
    (Inr (0, 1), snd (startup_recovery (sample_world [] 8) (ApprovalService_new [sample_consumed_row]
      [execution_row_of (sample_world ''exe_1'' 2) sample_row ''cl_1''] [])))"
    by (simp add: startup_recovery_def sample_world_def ApprovalService_new_def count_where_def sample_consumed_row_def
        execution_row_of_def)
  from restart_replays_nothing [OF this, of "sample_world ''exe_2'' 9" "''apr_1''" sample_principal demo_idle 1 sample_op "''exe_2''"
      "row_to_view sample_row"] show ?thesis by simp
qed

definition sample_first_call :: "idem_outcome lp_result \<times> approval_service" where
  "sample_first_call = idem_begin (sample_world [] 0) 0 ''cl_1'' ''key'' ''fs_write'' ''d'' sample_empty"

theorem idem_proceeds_once_witness:
  "\<exists>out. fst (idem_begin (sample_world [] 5) 5 ''cl_1'' ''key'' ''fs_write'' ''other'' (snd sample_first_call)) = Inr out
    \<and> out \<noteq> IO_Proceed \<and> (out = IO_Conflict \<longleftrightarrow> ''fs_write'' \<noteq> ''fs_write'' \<or> ''other'' \<noteq> ''d'')"
proof -
  let ?second = "idem_begin (sample_world [] 5) 5 ''cl_1'' ''key'' ''fs_write'' ''other'' (snd sample_first_call)"
  have "fst sample_first_call = Inr IO_Proceed" by code_simp
  then have first: "idem_begin (sample_world [] 0) 0 ''cl_1'' ''key'' ''fs_write'' ''d'' sample_empty = (Inr IO_Proceed, snd sample_first_call)"
    by (metis sample_first_call_def prod.collapse)
  have out: "fst ?second = Inr IO_Conflict" by code_simp
  then have "?second = (Inr IO_Conflict, snd ?second)" by (metis prod.collapse)
  from idem_proceeds_once [OF sample_inv first run_nil _ _ this] out show ?thesis
    by (simp add: sample_world_def DAY_MS_def HOUR_MS_def MINUTE_MS_def)
qed

end
