(* ===== verification/Leases.thy ===== *)
theory Leases
  imports Db_Table Event_System
begin

text \<open>
  Project writer leases, \<^verbatim>\<open>workstation-server/src/leases.rs\<close>: the map from a project to the leases on it, and the table
  \<^verbatim>\<open>project_locks\<close> that mirrors the first of them. The map is an association list from project to leases.
\<close>

section \<open>State\<close>

record lease =
  ls_project_id :: string
  ls_holder_client_id :: string
  ls_holder_task_id :: "string option"
  ls_acquired_at :: int
  ls_expires_at :: int

record lease_manager =
  lg_leases :: "(string \<times> lease list) list"
  lg_locks :: "lease list"

definition LeaseManager_new :: "io_env \<Rightarrow> lease list \<Rightarrow> lease_manager" where
  "LeaseManager_new w locks = \<lparr>lg_leases = [], lg_locks = (if io_db_ok w then [] else locks)\<rparr>"

interpretation lease_map: row_store fst "find_by fst" "insert_by fst" update_where delete_where "keyed fst"
  by (rule list_row_store)

section \<open>Operations\<close>

definition leases_of :: "lease_manager \<Rightarrow> string \<Rightarrow> lease list" where
  "leases_of M p = (case find_by fst p (lg_leases M) of None \<Rightarrow> [] | Some e \<Rightarrow> snd e)"

text \<open>\<^verbatim>\<open>entry(..).or_default()\<close>, and the write-back through the borrowed entry.\<close>

definition set_leases :: "string \<Rightarrow> lease list \<Rightarrow> lease_manager \<Rightarrow> lease_manager" where
  "set_leases p ls M =
     (case find_by fst p (lg_leases M) of
        None \<Rightarrow> M\<lparr>lg_leases := lg_leases M @ [(p, ls)]\<rparr>
      | Some _ \<Rightarrow> M\<lparr>lg_leases := update_where (\<lambda>e. fst e = p) (\<lambda>e. (p, ls)) (lg_leases M)\<rparr>)"

definition live :: "int \<Rightarrow> lease list \<Rightarrow> lease list" where
  "live now ls = filter (\<lambda>l. ls_expires_at l > now) ls"

definition same_holder :: "string \<Rightarrow> string option \<Rightarrow> lease \<Rightarrow> bool" where
  "same_holder client task l \<longleftrightarrow> ls_holder_client_id l = client \<and> ls_holder_task_id l = task"

text \<open>The first lease of this client and task is extended, never shortened; without one a new lease is pushed.\<close>

fun extend_first :: "string \<Rightarrow> string option \<Rightarrow> int \<Rightarrow> lease list \<Rightarrow> lease list option" where
  "extend_first client task until [] = None"
| "extend_first client task until (l # ls) =
     (if same_holder client task l then Some (l\<lparr>ls_expires_at := max (ls_expires_at l) until\<rparr> # ls)
      else map_option (Cons l) (extend_first client task until ls))"

definition renew_or_push :: "io_env \<Rightarrow> string \<Rightarrow> string \<Rightarrow> string option \<Rightarrow> int \<Rightarrow> lease list \<Rightarrow> lease list" where
  "renew_or_push w p client task ttl ls =
     (case extend_first client task (io_now w + ttl) ls of
        Some ls' \<Rightarrow> ls'
      | None \<Rightarrow> ls @ [\<lparr>ls_project_id = p, ls_holder_client_id = client, ls_holder_task_id = task,
          ls_acquired_at = io_now w, ls_expires_at = io_now w + ttl\<rparr>])"

text \<open>\<^verbatim>\<open>INSERT .. ON CONFLICT(project_id) DO UPDATE\<close> of every column but \<^verbatim>\<open>acquired_at\<close>.\<close>

definition upsert_lock :: "lease \<Rightarrow> lease list \<Rightarrow> lease list" where
  "upsert_lock l rows =
     (case insert_by ls_project_id l rows of
        Some rows' \<Rightarrow> rows'
      | None \<Rightarrow> update_where (\<lambda>r. ls_project_id r = ls_project_id l)
          (\<lambda>r. r\<lparr>ls_holder_client_id := ls_holder_client_id l, ls_holder_task_id := ls_holder_task_id l,
            ls_expires_at := ls_expires_at l\<rparr>) rows)"

definition locked_error :: "lease \<Rightarrow> lp_error" where
  "locked_error other = LpError_new ProjectLocked
     (''Another agent ('' @ ls_holder_client_id other
      @ '') currently holds the writer lease for this project; retry later or ask the user to allow multiple writers.'')"

definition acquire ::
    "io_env \<Rightarrow> string \<Rightarrow> string \<Rightarrow> string option \<Rightarrow> int \<Rightarrow> bool \<Rightarrow> lease_manager \<Rightarrow> unit lp_result \<times> lease_manager" where
  "acquire w p client task ttl allow_multiple M =
     (let ls = live (io_now w) (leases_of M p); M0 = set_leases p ls M in
      case (if allow_multiple then None else find (\<lambda>l. ls_holder_client_id l \<noteq> client) ls) of
        Some other \<Rightarrow> (Inl (locked_error other), M0)
      | None \<Rightarrow>
          (let ls' = renew_or_push w p client task ttl ls; M1 = set_leases p ls' M in
           (Inr (), case first_of ls' of
              Some l \<Rightarrow> if io_db_ok w then M1\<lparr>lg_locks := upsert_lock l (lg_locks M1)\<rparr> else M1
            | None \<Rightarrow> M1)))"

definition non_empty :: "(string \<times> lease list) list \<Rightarrow> (string \<times> lease list) list" where
  "non_empty m = filter (\<lambda>e. snd e \<noteq> []) m"

definition sync_locks :: "io_env \<Rightarrow> lease_manager \<Rightarrow> lease_manager" where
  "sync_locks w M =
     (if \<not> io_db_ok w then M else M\<lparr>lg_locks := List.map_filter (\<lambda>e. first_of (snd e)) (lg_leases M)\<rparr>)"

definition retain_leases :: "(lease \<Rightarrow> bool) \<Rightarrow> lease_manager \<Rightarrow> lease_manager" where
  "retain_leases P M = M\<lparr>lg_leases := non_empty (map (\<lambda>e. (fst e, filter P (snd e))) (lg_leases M))\<rparr>"

definition release_task :: "io_env \<Rightarrow> string \<Rightarrow> lease_manager \<Rightarrow> lease_manager" where
  "release_task w task M = sync_locks w (retain_leases (\<lambda>l. ls_holder_task_id l \<noteq> Some task) M)"

definition release_client :: "io_env \<Rightarrow> string \<Rightarrow> lease_manager \<Rightarrow> lease_manager" where
  "release_client w client M = sync_locks w (retain_leases (\<lambda>l. ls_holder_client_id l \<noteq> client) M)"

definition clear_leases :: "io_env \<Rightarrow> lease_manager \<Rightarrow> lease_manager" where
  "clear_leases w M = sync_locks w (M\<lparr>lg_leases := []\<rparr>)"

definition renew_lease :: "string \<Rightarrow> int \<Rightarrow> lease \<Rightarrow> lease" where
  "renew_lease task until l = (if ls_holder_task_id l = Some task then l\<lparr>ls_expires_at := until\<rparr> else l)"

definition renew_task :: "io_env \<Rightarrow> string \<Rightarrow> int \<Rightarrow> lease_manager \<Rightarrow> lease_manager" where
  "renew_task w task ttl M =
     M\<lparr>lg_leases := map (\<lambda>e. (fst e, map (renew_lease task (io_now w + ttl)) (snd e))) (lg_leases M)\<rparr>"

definition list_leases :: "io_env \<Rightarrow> lease_manager \<Rightarrow> lease list \<times> lease_manager" where
  "list_leases w M =
     (let M' = retain_leases (\<lambda>l. ls_expires_at l > io_now w) M in (concat (map snd (lg_leases M')), M'))"

section \<open>Leases of one project\<close>

lemma find_set: "find_by fst q (update_where (\<lambda>e. fst e = p) (\<lambda>e. (p, ls)) m) =
    (if q = p then map_option (\<lambda>_. (p, ls)) (find_by fst p m) else find_by fst q m)"
  by (induction m) (auto simp: find_by_def update_where_def)

lemma leases_of_set [simp]: "leases_of (set_leases p ls M) q = (if q = p then ls else leases_of M q)"
  using find_by_append [of fst q "lg_leases M" "(p, ls)"]
  by (cases "find_by fst p (lg_leases M)") (auto simp: set_leases_def leases_of_def find_set split: option.splits)

lemma find_filtered:
  "find_by fst q (map (\<lambda>e. (fst e, f (snd e))) m) = map_option (\<lambda>e. (fst e, f (snd e))) (find_by fst q m)"
  by (induction m) (auto simp: find_by_def)

lemma leases_of_map [simp]:
  "leases_of (M\<lparr>lg_leases := map (\<lambda>e. (fst e, map f (snd e))) (lg_leases M)\<rparr>) q = map f (leases_of M q)"
  by (simp add: leases_of_def find_filtered split: option.split)

lemma leases_of_locks [simp]: "leases_of (M\<lparr>lg_locks := x\<rparr>) q = leases_of M q" "leases_of (sync_locks w M) q = leases_of M q"
  by (simp_all add: leases_of_def sync_locks_def)

lemma leases_of_new [simp]: "leases_of (LeaseManager_new w locks) q = []" "leases_of (M\<lparr>lg_leases := []\<rparr>) q = []"
  by (simp_all add: leases_of_def LeaseManager_new_def find_by_def)

lemma find_non_empty: "keyed fst m \<Longrightarrow> find_by fst q (non_empty m) =
    (case find_by fst q m of None \<Rightarrow> None | Some e \<Rightarrow> if snd e = [] then None else Some e)"
  using lease_map.remove_look [of m q "\<lambda>e. snd e = []"] by (simp add: delete_where_def non_empty_def)

lemma leases_of_retain:
  assumes "keyed fst (lg_leases M)"
  shows "leases_of (retain_leases P M) q = filter P (leases_of M q)"
proof -
  have "keyed fst (map (\<lambda>e. (fst e, filter P (snd e))) (lg_leases M))" using assms by (simp add: keyed_def comp_def)
  then show ?thesis
    by (simp add: leases_of_def retain_leases_def find_non_empty find_filtered split: option.split)
qed

section \<open>Runs\<close>

datatype lease_event =
    LE_Acquire string string "string option" bool "unit lp_result"
  | LE_ReleaseTask string
  | LE_ReleaseClient string
  | LE_Clear
  | LE_Renew string
  | LE_List

inductive lease_step :: "lease_manager \<Rightarrow> lease_event \<Rightarrow> lease_manager \<Rightarrow> bool" where
  acquire_step: "acquire w p c t ttl am M = (res, M') \<Longrightarrow> lease_step M (LE_Acquire p c t am res) M'"
| release_task_step: "lease_step M (LE_ReleaseTask t) (release_task w t M)"
| release_client_step: "lease_step M (LE_ReleaseClient c) (release_client w c M)"
| clear_step: "lease_step M LE_Clear (clear_leases w M)"
| renew_step: "lease_step M (LE_Renew t) (renew_task w t ttl M)"
| list_step: "lease_step M LE_List (snd (list_leases w M))"

text \<open>The same system in which no call allows several writers.\<close>

definition exclusive_step :: "lease_manager \<Rightarrow> lease_event \<Rightarrow> lease_manager \<Rightarrow> bool" where
  "exclusive_step M e M' \<longleftrightarrow> lease_step M e M' \<and> (\<forall>p c t res. e \<noteq> LE_Acquire p c t True res)"

lemma keyed_map_snd: "keyed fst (map (\<lambda>e. (fst e, f (snd e))) m) = keyed fst m"
  by (simp add: keyed_def comp_def)

lemma keyed_Nil: "keyed key []"
  by (simp add: keyed_def)

lemma keyed_set_leases: "keyed fst (lg_leases M) \<Longrightarrow> keyed fst (lg_leases (set_leases p ls M))"
proof (cases "find_by fst p (lg_leases M)")
  case None
  then show "keyed fst (lg_leases M) \<Longrightarrow> ?thesis"
    using find_by_None [of fst p "lg_leases M"] by (auto simp: set_leases_def keyed_def)
next
  case (Some e)
  then show "keyed fst (lg_leases M) \<Longrightarrow> ?thesis"
    by (simp add: set_leases_def keyed_def update_where_def comp_def if_distrib cong: if_cong)
qed

lemma keyed_retain: "keyed fst (lg_leases M) \<Longrightarrow> keyed fst (lg_leases (retain_leases P M))"
  by (auto simp: retain_leases_def non_empty_def keyed_def comp_def distinct_map_filter)

lemma sync_locks_leases [simp]: "lg_leases (sync_locks w M) = lg_leases M"
  by (simp add: sync_locks_def)

lemma acquire_leases:
  assumes "acquire w p c t ttl am M = (res, M')"
  shows "(\<exists>ls. lg_leases M' = lg_leases (set_leases p ls M))
    \<and> leases_of M' q = (if q \<noteq> p then leases_of M q
        else if res = Inr () then renew_or_push w p c t ttl (live (io_now w) (leases_of M p))
        else live (io_now w) (leases_of M p))
    \<and> (res = Inr () \<longleftrightarrow> am \<or> list_all (\<lambda>l. ls_holder_client_id l = c) (live (io_now w) (leases_of M p)))"
proof (cases "if am then None else find (\<lambda>l. ls_holder_client_id l \<noteq> c) (live (io_now w) (leases_of M p))")
  case None
  let ?ls = "renew_or_push w p c t ttl (live (io_now w) (leases_of M p))"
  have "am \<or> list_all (\<lambda>l. ls_holder_client_id l = c) (live (io_now w) (leases_of M p))"
    using None by (auto simp: find_None_set list_all_iff split: if_splits)
  moreover have "res = Inr ()" "M' = set_leases p ?ls M \<or> (\<exists>x. M' = (set_leases p ?ls M)\<lparr>lg_locks := x\<rparr>)"
    using assms None by (auto simp: acquire_def Let_def split: option.splits if_splits)
  ultimately show ?thesis by auto
next
  case (Some other)
  then have "\<not> am \<and> \<not> list_all (\<lambda>l. ls_holder_client_id l = c) (live (io_now w) (leases_of M p))"
    by (auto simp: list_all_iff dest!: find_Some_in_set split: if_splits)
  moreover have "res = Inl (locked_error other)" "M' = set_leases p (live (io_now w) (leases_of M p)) M"
    using assms Some by (auto simp: acquire_def Let_def)
  ultimately show ?thesis by auto
qed

lemma lease_step_keyed: "lease_step M e M' \<Longrightarrow> keyed fst (lg_leases M) \<Longrightarrow> keyed fst (lg_leases M')"
proof (induction rule: lease_step.induct)
  case (acquire_step w p c t ttl am M res M')
  then show ?case using acquire_leases [OF acquire_step(1)] keyed_set_leases by metis
qed (auto simp: release_task_def release_client_def clear_leases_def renew_task_def list_leases_def Let_def keyed_retain
  keyed_map_snd keyed_Nil)

text \<open>All leases of a project have the same holder.\<close>

definition single_holder :: "lease list \<Rightarrow> bool" where
  "single_holder ls \<longleftrightarrow> (\<exists>c. list_all (\<lambda>l. ls_holder_client_id l = c) ls)"

definition one_writer :: "lease_manager \<Rightarrow> bool" where
  "one_writer M \<longleftrightarrow> keyed fst (lg_leases M) \<and> (\<forall>p. single_holder (leases_of M p))"

lemma single_holder_Nil: "single_holder []"
  by (simp add: single_holder_def)

lemma single_holder_filter: "single_holder ls \<Longrightarrow> single_holder (filter P ls)"
  by (auto simp: single_holder_def list_all_iff)

lemma single_holder_renew: "single_holder ls \<Longrightarrow> single_holder (map (renew_lease t u) ls)"
  by (auto simp: single_holder_def list_all_iff renew_lease_def)

lemma extend_first_holders: "extend_first c t u ls = Some ls' \<Longrightarrow> list_all (\<lambda>l. ls_holder_client_id l = c) ls \<Longrightarrow>
    list_all (\<lambda>l. ls_holder_client_id l = c) ls'"
  by (induction ls arbitrary: ls') (auto simp: same_holder_def split: if_splits)

lemma renew_or_push_holders:
  "list_all (\<lambda>l. ls_holder_client_id l = c) ls \<Longrightarrow> single_holder (renew_or_push w p c t ttl ls)"
  by (cases "extend_first c t (io_now w + ttl) ls")
    (auto simp: renew_or_push_def single_holder_def intro!: exI [of _ c] dest: extend_first_holders)

lemma one_writer_step:
  assumes "one_writer M" and "exclusive_step M e M'"
  shows "one_writer M'"
proof -
  have keyed: "keyed fst (lg_leases M)" and one: "single_holder (leases_of M p)" for p
    using assms(1) by (simp_all add: one_writer_def)
  have step: "lease_step M e M'" and multi: "\<And>p c t res. e \<noteq> LE_Acquire p c t True res"
    using assms(2) by (auto simp: exclusive_step_def)
  have "single_holder (leases_of M' q)" for q
    using step
  proof cases
    case (acquire_step w p c t ttl am res)
    then have "\<not> am" using multi by auto
    then show ?thesis
      using acquire_leases [OF acquire_step(2), of q] one by (auto simp: renew_or_push_holders live_def single_holder_filter)
  qed (simp_all add: one keyed release_task_def release_client_def clear_leases_def renew_task_def list_leases_def Let_def
      leases_of_retain single_holder_filter single_holder_renew single_holder_Nil)
  then show ?thesis using lease_step_keyed [OF step keyed] by (simp add: one_writer_def)
qed

interpretation exclusive_leases: invariant_system exclusive_step one_writer
  by unfold_locales (rule one_writer_step)

section \<open>Properties\<close>

text \<open>C30: One writer per project. As long as the settings never allow several writers, at any moment of any run the leases on
  a project all belong to one client, whatever clients acquire, tasks renew, finish or expire.\<close>

theorem single_writer:
  assumes "run exclusive_step (LeaseManager_new w locks) es M"
    and "List.member (leases_of M p) l" and "List.member (leases_of M p) k"
  shows "ls_holder_client_id l = ls_holder_client_id k"
proof -
  have "keyed fst (lg_leases (LeaseManager_new w locks))" by (simp add: LeaseManager_new_def keyed_def)
  then have "one_writer (LeaseManager_new w locks)" by (simp add: one_writer_def single_holder_Nil)
  then have "one_writer M" by (rule exclusive_leases.run_inv [OF assms(1)])
  then obtain c where "list_all (\<lambda>l. ls_holder_client_id l = c) (leases_of M p)"
    by (auto simp: one_writer_def single_holder_def)
  then show ?thesis using assms(2,3) by (simp add: list_all_iff)
qed

lemma extend_first_lease: "extend_first c t u ls = Some ls' \<Longrightarrow>
    \<exists>l\<in>set ls'. ls_holder_client_id l = c \<and> ls_holder_task_id l = t \<and> u \<le> ls_expires_at l"
  by (induction ls arbitrary: ls') (auto simp: same_holder_def split: if_splits)

text \<open>When a lease is granted. A client gets the writer lease exactly when several writers are allowed or no other client holds
  an unexpired lease on the project, so a lease that nobody renews cannot lock the project past its expiry;
  the client then holds a lease for this task until at least the requested time, and a refusal leaves exactly
  the unexpired leases in place.\<close>

theorem acquire_granted_iff:
  assumes "acquire w p c t ttl am M = (res, M')"
  shows "(res = Inr () \<longleftrightarrow> am \<or> list_all (\<lambda>l. ls_expires_at l \<le> io_now w \<or> ls_holder_client_id l = c) (leases_of M p))
    \<and> (res = Inr () \<longrightarrow> list_ex (\<lambda>l. ls_holder_client_id l = c \<and> ls_holder_task_id l = t \<and> io_now w + ttl \<le> ls_expires_at l)
         (leases_of M' p))
    \<and> (res \<noteq> Inr () \<longrightarrow> leases_of M' p = filter (\<lambda>l. io_now w < ls_expires_at l) (leases_of M p))"
proof -
  let ?ls = "live (io_now w) (leases_of M p)"
  have "list_ex (\<lambda>l. ls_holder_client_id l = c \<and> ls_holder_task_id l = t \<and> io_now w + ttl \<le> ls_expires_at l)
      (renew_or_push w p c t ttl ?ls)"
  proof (cases "extend_first c t (io_now w + ttl) ?ls")
    case (Some ls')
    then show ?thesis using extend_first_lease [OF Some] by (simp add: renew_or_push_def list_ex_iff)
  qed (simp add: renew_or_push_def)
  then show ?thesis
    using acquire_leases [OF assms, of p] by (auto simp: live_def list_all_iff not_le)
qed

section \<open>Witnesses\<close>

definition lease_io :: io_env where
  "lease_io = \<lparr>io_now = 0, io_id = [], io_db_ok = True\<rparr>"

definition lease_held :: "unit lp_result \<times> lease_manager" where
  "lease_held = acquire lease_io ''prj_1'' ''cl_1'' (Some ''task_1'') 300000 False (LeaseManager_new lease_io [])"

definition lease_again :: "unit lp_result \<times> lease_manager" where
  "lease_again = acquire lease_io ''prj_1'' ''cl_1'' None 5000 False (snd lease_held)"

definition held_lease :: "string option \<Rightarrow> int \<Rightarrow> lease" where
  "held_lease task until = \<lparr>ls_project_id = ''prj_1'', ls_holder_client_id = ''cl_1'', ls_holder_task_id = task,
     ls_acquired_at = 0, ls_expires_at = until\<rparr>"

lemma lease_again_result:
  "leases_of (snd lease_again) ''prj_1'' = [held_lease (Some ''task_1'') 300000, held_lease None 5000]"
  by code_simp

lemma lease_again_run: "run exclusive_step (LeaseManager_new lease_io [])
    [LE_Acquire ''prj_1'' ''cl_1'' (Some ''task_1'') False (fst lease_held), LE_Acquire ''prj_1'' ''cl_1'' None False (fst lease_again)]
    (snd lease_again)"
proof -
  have "acquire lease_io ''prj_1'' ''cl_1'' (Some ''task_1'') 300000 False (LeaseManager_new lease_io []) =
      (fst lease_held, snd lease_held)"
    "acquire lease_io ''prj_1'' ''cl_1'' None 5000 False (snd lease_held) = (fst lease_again, snd lease_again)"
    by (simp_all add: lease_held_def lease_again_def)
  then have "exclusive_step (LeaseManager_new lease_io [])
      (LE_Acquire ''prj_1'' ''cl_1'' (Some ''task_1'') False (fst lease_held)) (snd lease_held)"
    "exclusive_step (snd lease_held) (LE_Acquire ''prj_1'' ''cl_1'' None False (fst lease_again)) (snd lease_again)"
    by (auto simp: exclusive_step_def intro: lease_step.intros(1))
  then show ?thesis unfolding run_Cons by - (intro exI conjI, assumption, assumption, rule run_nil)
qed

theorem single_writer_witness:
  "ls_holder_client_id (held_lease (Some ''task_1'') 300000) = ls_holder_client_id (held_lease None 5000)"
  by (rule single_writer [OF lease_again_run, of "''prj_1''"]) (simp_all add: lease_again_result)

theorem acquire_granted_iff_witness:
  "(fst lease_held = Inr () \<longleftrightarrow> False \<or> list_all (\<lambda>l. ls_expires_at l \<le> io_now lease_io \<or> ls_holder_client_id l = ''cl_1'')
      (leases_of (LeaseManager_new lease_io []) ''prj_1''))
    \<and> (fst lease_held = Inr () \<longrightarrow> list_ex (\<lambda>l. ls_holder_client_id l = ''cl_1'' \<and> ls_holder_task_id l = Some ''task_1''
         \<and> io_now lease_io + 300000 \<le> ls_expires_at l) (leases_of (snd lease_held) ''prj_1''))
    \<and> (fst lease_held \<noteq> Inr () \<longrightarrow> leases_of (snd lease_held) ''prj_1'' =
         filter (\<lambda>l. io_now lease_io < ls_expires_at l) (leases_of (LeaseManager_new lease_io []) ''prj_1''))"
  by (rule acquire_granted_iff) (simp add: lease_held_def)

end
