(* ===== verification/Rate_Limit.thy ===== *)
theory Rate_Limit
  imports Complex_Main "HOL-Library.Word" Event_System
begin

text \<open>
  Request limits, \<^verbatim>\<open>workstation-server/src/ratelimit.rs\<close>: a token bucket and a semaphore per principal. The bucket's floating-point
  arithmetic is modelled by exact reals and an instant by its distance in seconds from a fixed one. A
  semaphore is a cell of a store, so that a permit goes back to the semaphore it came from even after the
  limiter has replaced it.
\<close>

section \<open>State\<close>

record bucket =
  bk_tokens :: real
  bk_last :: real

record semaphore =
  sp_capacity :: nat
  sp_used :: nat

record rate_limiter =
  rl_buckets :: "string \<Rightarrow> bucket option"
  rl_concurrency :: "string \<Rightarrow> (64 word \<times> nat) option"
  rl_semaphores :: "semaphore list"

definition RateLimiter_default :: rate_limiter where
  "RateLimiter_default = \<lparr>rl_buckets = (\<lambda>_. None), rl_concurrency = (\<lambda>_. None), rl_semaphores = []\<rparr>"

text \<open>An allowed request holds a permit of the semaphore it names.\<close>

datatype limit =
    Allowed nat
  | LimitRate nat
  | TooManyConcurrent

section \<open>The bucket\<close>

definition rate_of :: "32 word \<Rightarrow> real" where
  "rate_of per_minute = real (unat (max per_minute 1))"

text \<open>\<^verbatim>\<open>duration_since\<close> is zero for an earlier instant.\<close>

definition refill :: "real \<Rightarrow> real \<Rightarrow> bucket \<Rightarrow> real" where
  "refill p now b = min (bk_tokens b + max 0 (now - bk_last b) * p / 60) p"

definition the_bucket :: "real \<Rightarrow> real \<Rightarrow> bucket option \<Rightarrow> bucket" where
  "the_bucket p now b = (case b of None \<Rightarrow> \<lparr>bk_tokens = p, bk_last = now\<rparr> | Some b' \<Rightarrow> b')"

definition retry_after :: "real \<Rightarrow> real \<Rightarrow> nat" where
  "retry_after p tokens = max 1 (nat \<lceil>(1 - tokens) * 60 / p\<rceil>)"

definition set_bucket :: "string \<Rightarrow> real \<Rightarrow> real \<Rightarrow> rate_limiter \<Rightarrow> rate_limiter" where
  "set_bucket key tokens now L = L\<lparr>rl_buckets := (rl_buckets L)(key \<mapsto> \<lparr>bk_tokens = tokens, bk_last = now\<rparr>)\<rparr>"

section \<open>Operations\<close>

definition new_semaphore :: "string \<Rightarrow> 64 word \<Rightarrow> rate_limiter \<Rightarrow> nat \<times> rate_limiter" where
  "new_semaphore key max_concurrent L =
     (length (rl_semaphores L),
      L\<lparr>rl_semaphores := rl_semaphores L @ [\<lparr>sp_capacity = unat (max max_concurrent 1), sp_used = 0\<rparr>],
        rl_concurrency := (rl_concurrency L)(key \<mapsto> (max_concurrent, length (rl_semaphores L)))\<rparr>)"

definition semaphore_for :: "string \<Rightarrow> 64 word \<Rightarrow> rate_limiter \<Rightarrow> nat \<times> rate_limiter" where
  "semaphore_for key max_concurrent L =
     (case rl_concurrency L key of
        None \<Rightarrow> new_semaphore key max_concurrent L
      | Some (m, i) \<Rightarrow> if m \<noteq> max_concurrent then new_semaphore key max_concurrent L else (i, L))"

definition try_acquire :: "nat \<Rightarrow> rate_limiter \<Rightarrow> limit \<times> rate_limiter" where
  "try_acquire i L =
     (if i < length (rl_semaphores L) \<and> sp_used (rl_semaphores L ! i) < sp_capacity (rl_semaphores L ! i)
      then (Allowed i, L\<lparr>rl_semaphores := (rl_semaphores L)[i := (rl_semaphores L ! i)\<lparr>sp_used := sp_used (rl_semaphores L ! i) + 1\<rparr>]\<rparr>)
      else (TooManyConcurrent, L))"

definition check :: "string \<Rightarrow> 32 word \<Rightarrow> 64 word \<Rightarrow> real \<Rightarrow> rate_limiter \<Rightarrow> limit \<times> rate_limiter" where
  "check key per_minute max_concurrent now L =
     (let p = rate_of per_minute; tokens = refill p now (the_bucket p now (rl_buckets L key)) in
      if tokens < 1 then (LimitRate (retry_after p tokens), set_bucket key tokens now L)
      else (let (i, L') = semaphore_for key max_concurrent (set_bucket key (tokens - 1) now L) in try_acquire i L'))"

definition check_anonymous :: "string \<Rightarrow> 32 word \<Rightarrow> real \<Rightarrow> rate_limiter \<Rightarrow> bool \<times> rate_limiter" where
  "check_anonymous key per_minute now L =
     (let p = rate_of per_minute; k = ''anon:'' @ key; tokens = refill p now (the_bucket p now (rl_buckets L k)) in
      if tokens < 1 then (False, set_bucket k tokens now L) else (True, set_bucket k (tokens - 1) now L))"

text \<open>Dropping a permit returns it to its semaphore.\<close>

definition drop_permit :: "nat \<Rightarrow> rate_limiter \<Rightarrow> rate_limiter" where
  "drop_permit i L =
     (if i < length (rl_semaphores L)
      then L\<lparr>rl_semaphores := (rl_semaphores L)[i := (rl_semaphores L ! i)\<lparr>sp_used := sp_used (rl_semaphores L ! i) - 1\<rparr>]\<rparr>
      else L)"

section \<open>Facts about one check\<close>

lemma rate_of_pos: "1 \<le> rate_of p"
proof -
  have "(1 :: 32 word) \<le> max p 1" by simp
  then have "1 \<le> unat (max p 1)" by (simp add: word_le_nat_alt)
  then have "real 1 \<le> real (unat (max p 1))" by (rule of_nat_mono)
  then show ?thesis by (simp only: rate_of_def of_nat_1)
qed

lemma refill_bounds: "0 \<le> bk_tokens b \<Longrightarrow> 1 \<le> p \<Longrightarrow> 0 \<le> refill p now b \<and> refill p now b \<le> p"
  by (simp add: refill_def)

lemma buckets_semaphore [simp]:
  "rl_buckets (snd (semaphore_for k m L)) = rl_buckets L" "rl_buckets (snd (try_acquire i L)) = rl_buckets L"
  by (simp_all add: semaphore_for_def new_semaphore_def try_acquire_def split: option.split)

lemma set_bucket_sel [simp]:
  "rl_buckets (set_bucket k t now L) k' = (if k' = k then Some \<lparr>bk_tokens = t, bk_last = now\<rparr> else rl_buckets L k')"
  "rl_concurrency (set_bucket k t now L) = rl_concurrency L" "rl_semaphores (set_bucket k t now L) = rl_semaphores L"
  by (simp_all add: set_bucket_def)

definition limited :: "limit \<Rightarrow> bool" where
  "limited r \<longleftrightarrow> (case r of LimitRate _ \<Rightarrow> True | _ \<Rightarrow> False)"

text \<open>A check of a key leaves the refilled bucket, less one token unless the request was over the rate.\<close>

lemma check_bucket:
  assumes "check k pm mc now L = (res, L')"
  defines "t \<equiv> refill (rate_of pm) now (the_bucket (rate_of pm) now (rl_buckets L k))"
  shows "limited res \<longleftrightarrow> t < 1"
    and "rl_buckets L' k' = (if k' = k then Some \<lparr>bk_tokens = (if t < 1 then t else t - 1), bk_last = now\<rparr> else rl_buckets L k')"
proof -
  have acq: "\<not> limited (fst (try_acquire i M))" for i M by (simp add: try_acquire_def limited_def)
  show "limited res \<longleftrightarrow> t < 1"
    using assms(1) acq by (auto simp: check_def Let_def t_def limited_def split: if_splits prod.splits) (metis fst_conv)+
  show "rl_buckets L' k' = (if k' = k then Some \<lparr>bk_tokens = (if t < 1 then t else t - 1), bk_last = now\<rparr> else rl_buckets L k')"
  proof (cases "t < 1")
    case True
    then show ?thesis using assms(1) by (auto simp: check_def Let_def t_def)
  next
    case False
    obtain i M where M: "semaphore_for k mc (set_bucket k (t - 1) now L) = (i, M)" by (cases "semaphore_for k mc (set_bucket k (t - 1) now L)")
    then have "L' = snd (try_acquire i M)" using assms(1) False by (simp add: check_def Let_def t_def)
    moreover have "rl_buckets M = rl_buckets (set_bucket k (t - 1) now L)"
      using buckets_semaphore(1) [of k mc "set_bucket k (t - 1) now L"] M by simp
    ultimately show ?thesis using False by simp
  qed
qed

section \<open>Runs\<close>

datatype limit_event =
    RL_Check string "32 word" "64 word" real limit
  | RL_Anonymous string "32 word" real bool
  | RL_Drop nat

inductive limit_step :: "rate_limiter \<Rightarrow> limit_event \<Rightarrow> rate_limiter \<Rightarrow> bool" where
  check_step: "check k pm mc now L = (res, L') \<Longrightarrow> limit_step L (RL_Check k pm mc now res) L'"
| anonymous_step: "check_anonymous k pm now L = (res, L') \<Longrightarrow> limit_step L (RL_Anonymous k pm now res) L'"
| drop_step: "limit_step L (RL_Drop i) (drop_permit i L)"

fun event_time :: "limit_event \<Rightarrow> real option" where
  "event_time (RL_Check k pm mc now res) = Some now"
| "event_time (RL_Anonymous k pm now res) = Some now"
| "event_time (RL_Drop i) = None"

text \<open>The event is a check of the bucket \<open>k\<close> at the rate \<open>p\<close>, or of another bucket.\<close>

fun at_rate :: "string \<Rightarrow> real \<Rightarrow> limit_event \<Rightarrow> bool" where
  "at_rate k p (RL_Check k' pm mc now res) = (k' = k \<longrightarrow> rate_of pm = p)"
| "at_rate k p (RL_Anonymous k' pm now res) = (''anon:'' @ k' = k \<longrightarrow> rate_of pm = p)"
| "at_rate k p (RL_Drop i) = True"

text \<open>The event took a token from the bucket \<open>k\<close>.\<close>

fun admitted :: "string \<Rightarrow> limit_event \<Rightarrow> bool" where
  "admitted k (RL_Check k' pm mc now res) = (k' = k \<and> \<not> limited res)"
| "admitted k (RL_Anonymous k' pm now res) = (''anon:'' @ k' = k \<and> res)"
| "admitted k (RL_Drop i) = False"

text \<open>Tokens taken and tokens left never exceed the capacity plus what the time since \<open>t0\<close> refills.\<close>

definition paid :: "real \<Rightarrow> real \<Rightarrow> nat \<Rightarrow> real \<Rightarrow> bucket option \<Rightarrow> bool" where
  "paid p t0 n t b = (case b of None \<Rightarrow> n = 0
     | Some b' \<Rightarrow> 0 \<le> bk_tokens b' \<and> t0 \<le> bk_last b' \<and> bk_last b' \<le> t
        \<and> real n + bk_tokens b' \<le> p + (bk_last b' - t0) * p / 60)"

lemma paid_later: "paid p t0 n t b \<Longrightarrow> t \<le> t' \<Longrightarrow> paid p t0 n t' b"
  by (auto simp: paid_def split: option.splits)

lemma paid_check:
  assumes "1 \<le> p" and "paid p t0 n t b" and "t \<le> now" and "t0 \<le> now"
  defines "x \<equiv> refill p now (the_bucket p now b)"
  shows "paid p t0 (if x < 1 then n else Suc n) now (Some \<lparr>bk_tokens = (if x < 1 then x else x - 1), bk_last = now\<rparr>)"
proof -
  have "0 \<le> x \<and> real n + x \<le> p + (now - t0) * p / 60"
  proof (cases b)
    case None
    then show ?thesis using assms by (simp add: paid_def refill_def the_bucket_def)
  next
    case (Some b')
    then have b': "0 \<le> bk_tokens b'" "bk_last b' \<le> now" "real n + bk_tokens b' \<le> p + (bk_last b' - t0) * p / 60"
      using assms(2,3) by (simp_all add: paid_def)
    have "x \<le> bk_tokens b' + (now - bk_last b') * p / 60" and "0 \<le> x"
      using b'(1,2) assms(1) by (simp_all add: x_def Some refill_def the_bucket_def)
    moreover have "(bk_last b' - t0) * p / 60 + (now - bk_last b') * p / 60 = (now - t0) * p / 60"
      by (simp add: algebra_simps diff_divide_distrib add_divide_distrib)
    ultimately show ?thesis using b'(3) by linarith
  qed
  then show ?thesis using assms(4) by (simp add: paid_def)
qed

lemma anonymous_bucket:
  assumes "check_anonymous k pm now L = (res, L')"
  defines "t \<equiv> refill (rate_of pm) now (the_bucket (rate_of pm) now (rl_buckets L (''anon:'' @ k)))"
  shows "res \<longleftrightarrow> \<not> t < 1"
    and "rl_buckets L' k' = (if k' = ''anon:'' @ k then Some \<lparr>bk_tokens = (if t < 1 then t else t - 1), bk_last = now\<rparr>
      else rl_buckets L k')"
  using assms(1) by (auto simp: check_anonymous_def Let_def t_def split: if_splits)

lemma paid_step:
  assumes "limit_step L e L'" and "at_rate k p e" and "1 \<le> p" and "paid p t0 n t (rl_buckets L k)"
    and "\<And>now. event_time e = Some now \<Longrightarrow> t \<le> now \<and> t0 \<le> now"
  shows "paid p t0 (if admitted k e then Suc n else n) (case event_time e of None \<Rightarrow> t | Some now \<Rightarrow> now) (rl_buckets L' k)"
  using assms
proof (induction rule: limit_step.induct)
  case (check_step k' pm mc now L res L')
  then show ?case
    using check_bucket(1) [OF check_step(1)] check_bucket(2) [OF check_step(1), of k] paid_check [OF check_step(3,4), of now] paid_later [of p t0 n t]
    by (cases "k' = k") auto
next
  case (anonymous_step k' pm now L res L')
  then show ?case
    using anonymous_bucket(1) [OF anonymous_step(1)] anonymous_bucket(2) [OF anonymous_step(1), of k] paid_check [OF anonymous_step(3,4), of now] paid_later [of p t0 n t]
    by (cases "''anon:'' @ k' = k") auto
next
  case (drop_step L i)
  then show ?case by (simp add: drop_permit_def)
qed

lemma paid_run:
  assumes "run limit_step L es L'" and "list_all (at_rate k p) es" and "1 \<le> p" and "rl_buckets L k = None"
    and "sorted (t0 # List.map_filter event_time es)"
  shows "paid p t0 (length (filter (admitted k) es)) (last (t0 # List.map_filter event_time es)) (rl_buckets L' k)"
  using assms
proof (induction rule: run.induct)
  case (run_nil L)
  then show ?case by (simp add: paid_def)
next
  case (run_snoc L es M e L')
  let ?ts = "t0 # List.map_filter event_time es"
  have ts: "t0 # List.map_filter event_time (es @ [e]) = ?ts @ (case event_time e of None \<Rightarrow> [] | Some now \<Rightarrow> [now])"
    by (cases "event_time e") (simp_all add: List.map_filter_def)
  have "sorted ?ts" using run_snoc.prems(4) unfolding ts by (simp only: sorted_append)
  then have IH: "paid p t0 (length (filter (admitted k) es)) (last ?ts) (rl_buckets M k)"
    using run_snoc by simp
  have "last ?ts \<le> now \<and> t0 \<le> now" if "event_time e = Some now" for now
    using run_snoc.prems(4) that unfolding ts by (simp add: sorted_append)
  from paid_step [OF run_snoc.hyps(2) _ run_snoc.prems(2) IH this] run_snoc.prems(1)
  show ?case unfolding ts by (cases "event_time e") (auto split: if_splits)
qed

section \<open>Properties\<close>


text \<open>C32: A retry time is kept. When a check says to retry after \<open>s\<close> seconds, \<open>s\<close> is between one second and a minute, and the next
  check of that key at that rate \<open>s\<close> seconds later or more passes the bucket.\<close>

theorem retry_after_kept:
  assumes "check k pm mc now L = (LimitRate s, L')" and "\<And>b. rl_buckets L k = Some b \<Longrightarrow> 0 \<le> bk_tokens b"
    and "now + real s \<le> later"
  shows "1 \<le> s \<and> s \<le> 60 \<and> \<not> limited (fst (check k pm mc' later L'))"
proof -
  define p where "p = rate_of pm"
  define t where "t = refill p now (the_bucket p now (rl_buckets L k))"
  have p: "1 \<le> p" by (simp add: p_def rate_of_pos)
  have "limited (LimitRate s)" by (simp add: limited_def)
  then have lt: "t < 1" using check_bucket(1) [OF assms(1)] by (simp add: t_def p_def)
  have b: "rl_buckets L' k = Some \<lparr>bk_tokens = t, bk_last = now\<rparr>"
    using check_bucket(2) [OF assms(1), of k] lt by (simp add: t_def p_def)
  have s: "s = retry_after p t"
    using assms(1) lt by (auto simp: check_def Let_def t_def p_def split: if_splits)
  have t0: "0 \<le> t" using assms(2) p by (auto simp: t_def refill_def the_bucket_def split: option.split)
  have "(1 - t) * 60 / p \<le> 60" using t0 p lt by (simp add: divide_le_eq)
  then have "s \<le> 60" unfolding s retry_after_def by (simp add: nat_le_iff ceiling_le_iff)
  moreover have "(1 - t) * 60 / p \<le> real s" unfolding s retry_after_def by (simp add: of_nat_max le_max_iff_disj real_nat_ceiling_ge)
  then have "1 \<le> t + real s * p / 60" using p by (simp add: field_simps)
  moreover have "real s * p / 60 \<le> max 0 (later - now) * p / 60"
    using assms(3) p by (intro divide_right_mono mult_right_mono) auto
  ultimately have "1 \<le> t + max 0 (later - now) * p / 60" by linarith
  then have "\<not> refill p later \<lparr>bk_tokens = t, bk_last = now\<rparr> < 1" using p by (simp add: refill_def)
  then have "\<not> limited (fst (check k pm mc' later L'))"
    using check_bucket(1) [of k pm mc' later L' "fst (check k pm mc' later L')" "snd (check k pm mc' later L')"] b
    by (simp add: p_def the_bucket_def)
  then show ?thesis using \<open>s \<le> 60\<close> by (simp add: s retry_after_def)
qed

section \<open>Concurrency\<close>

fun grants :: "nat \<Rightarrow> limit_event \<Rightarrow> bool" where
  "grants i (RL_Check k pm mc now (Allowed j)) = (j = i)"
| "grants i _ = False"

definition sem_inv :: "rate_limiter \<Rightarrow> bool" where
  "sem_inv L \<longleftrightarrow> (\<forall>k m i. rl_concurrency L k = Some (m, i) \<longrightarrow>
       i < length (rl_semaphores L) \<and> sp_capacity (rl_semaphores L ! i) = unat (max m 1))
     \<and> list_all (\<lambda>s. sp_used s \<le> sp_capacity s) (rl_semaphores L)"

definition in_use :: "nat \<Rightarrow> rate_limiter \<Rightarrow> nat" where
  "in_use i L = (if i < length (rl_semaphores L) then sp_used (rl_semaphores L ! i) else 0)"

text \<open>Permits handed out on a semaphore, less those returned, are in use.\<close>

definition counted :: "nat \<Rightarrow> limit_event list \<Rightarrow> rate_limiter \<Rightarrow> bool" where
  "counted i es L \<longleftrightarrow> length (filter (grants i) es) \<le> in_use i L + length (filter (\<lambda>e. e = RL_Drop i) es)"

lemma semaphore_for_inv:
  assumes "sem_inv L" and "semaphore_for k m L = (i, L')"
  shows "sem_inv L' \<and> i < length (rl_semaphores L') \<and> (counted j es L \<longrightarrow> counted j es L')"
proof (cases "\<exists>j. rl_concurrency L k = Some (m, j)")
  case True
  then show ?thesis using assms by (auto simp: semaphore_for_def sem_inv_def)
next
  case False
  then have "L' = snd (new_semaphore k m L)" "i = length (rl_semaphores L)"
    using assms(2) by (auto simp: semaphore_for_def new_semaphore_def split: option.splits if_splits)
  then show ?thesis
    using assms(1) by (auto simp: sem_inv_def new_semaphore_def counted_def in_use_def nth_append less_Suc_eq)
qed

lemma try_acquire_inv:
  assumes "sem_inv L" and "try_acquire i L = (res, L')"
  shows "sem_inv L' \<and> (counted j es L \<longrightarrow> counted j (es @ [RL_Check k pm mc now res]) L')"
  using assms
  by (auto simp: try_acquire_def sem_inv_def counted_def in_use_def nth_list_update list_all_length split: if_splits)

lemma check_inv:
  assumes "sem_inv L" and "check k pm mc now L = (res, L')"
  shows "sem_inv L' \<and> (counted j es L \<longrightarrow> counted j (es @ [RL_Check k pm mc now res]) L')"
proof (cases "refill (rate_of pm) now (the_bucket (rate_of pm) now (rl_buckets L k)) < 1")
  case True
  then show ?thesis using assms by (auto simp: check_def Let_def sem_inv_def counted_def in_use_def)
next
  case False
  define M where "M = set_bucket k (refill (rate_of pm) now (the_bucket (rate_of pm) now (rl_buckets L k)) - 1) now L"
  obtain i N where N: "semaphore_for k mc M = (i, N)" by (cases "semaphore_for k mc M")
  have "sem_inv M" "counted j es L \<Longrightarrow> counted j es M" using assms(1) by (auto simp: M_def sem_inv_def counted_def in_use_def)
  moreover have "try_acquire i N = (res, L')" using assms(2) False N by (simp add: check_def Let_def M_def)
  ultimately show ?thesis using semaphore_for_inv [OF _ N, of j es] try_acquire_inv by blast
qed

lemma limit_step_inv: "limit_step L e L' \<Longrightarrow> sem_inv L \<Longrightarrow> sem_inv L' \<and> (counted j es L \<longrightarrow> counted j (es @ [e]) L')"
proof (induction rule: limit_step.induct)
  case (check_step k pm mc now L res L')
  then show ?case using check_inv by blast
next
  case (anonymous_step k pm now L res L')
  then show ?case by (auto simp: check_anonymous_def Let_def sem_inv_def counted_def in_use_def split: if_splits)
next
  case (drop_step L i)
  then show ?case by (auto simp: drop_permit_def sem_inv_def counted_def in_use_def nth_list_update list_all_length le_diff_conv2)
qed

interpretation limiter: invariant_system limit_step sem_inv
  by unfold_locales (use limit_step_inv in blast)

lemma counted_run: "run limit_step L es L' \<Longrightarrow> sem_inv L \<Longrightarrow> counted j [] L \<Longrightarrow> counted j es L'"
proof (induction rule: run.induct)
  case (run_snoc L es M e L')
  then show ?case using limit_step_inv [of M e L' j es] limiter.run_inv [of L es M] by blast
qed

text \<open>No principal has more calls in flight than its limit: in any run, the permits given on the semaphore of a key exceed the
  permits returned to it by at most the configured number of concurrent calls (at least one).\<close>

theorem concurrency_bound:
  assumes "run limit_step RateLimiter_default es L" and "rl_concurrency L k = Some (mc, i)"
  shows "length (filter (grants i) es) \<le> unat (max mc 1) + length (filter (\<lambda>e. e = RL_Drop i) es)"
proof -
  have start: "sem_inv RateLimiter_default" "counted i [] RateLimiter_default"
    by (simp_all add: sem_inv_def counted_def RateLimiter_default_def)
  have inv: "sem_inv L" by (rule limiter.run_inv [OF assms(1) start(1)])
  then have i: "i < length (rl_semaphores L)" "sp_capacity (rl_semaphores L ! i) = unat (max mc 1)"
    using assms(2) unfolding sem_inv_def by blast+
  then have "sp_used (rl_semaphores L ! i) \<le> unat (max mc 1)" using inv by (metis sem_inv_def list_all_length)
  then show ?thesis using counted_run [OF assms(1) start] i(1) by (simp add: counted_def in_use_def)
qed

section \<open>Witnesses\<close>

definition limiter_after :: rate_limiter where
  "limiter_after = snd (check ''cl_1'' 1 2 0 RateLimiter_default)"

lemma limiter_first: "check ''cl_1'' 1 2 0 RateLimiter_default = (Allowed 0, limiter_after)"
  "rl_concurrency limiter_after ''cl_1'' = Some (2, 0)"
  "rl_buckets limiter_after ''cl_1'' = Some \<lparr>bk_tokens = 0, bk_last = 0\<rparr>"
  by (simp_all add: limiter_after_def check_def rate_of_def refill_def the_bucket_def RateLimiter_default_def set_bucket_def
      semaphore_for_def new_semaphore_def try_acquire_def Let_def)

lemma limiter_run: "run limit_step RateLimiter_default [RL_Check ''cl_1'' 1 2 0 (Allowed 0)] limiter_after"
  unfolding run_Cons by (intro exI conjI, rule check_step, rule limiter_first(1), rule run_nil)

lemma rate_of_one: "rate_of 1 = 1"
  by (simp add: rate_of_def)


theorem retry_after_kept_witness:
  "1 \<le> (60 :: nat) \<and> 60 \<le> (60 :: nat) \<and> \<not> limited (fst (check ''cl_1'' 1 2 60 (snd (check ''cl_1'' 1 2 0 limiter_after))))"
proof (rule retry_after_kept)
  show "check ''cl_1'' 1 2 0 limiter_after = (LimitRate 60, snd (check ''cl_1'' 1 2 0 limiter_after))"
    by (simp add: check_def limiter_first refill_def the_bucket_def rate_of_one Let_def retry_after_def)
qed (simp_all add: limiter_first)

theorem concurrency_bound_witness:
  "length (filter (grants 0) [RL_Check ''cl_1'' 1 2 0 (Allowed 0)]) \<le>
     unat (max 2 1 :: 64 word) + length (filter (\<lambda>e. e = RL_Drop 0) [RL_Check ''cl_1'' 1 2 0 (Allowed 0)])"
  by (rule concurrency_bound [OF limiter_run limiter_first(2)])

end
