(* ===== verification/Server_State.thy ===== *)
theory Server_State
  imports Config
begin

text \<open>
  Availability of the service, \<^verbatim>\<open>workstation-server/src/state.rs\<close>: the states of the server, the gate file that must say
  \<^verbatim>\<open>enabled\<close> under a valid checksum before remote access starts, and the Emergency Stop latch in the control
  database. The digest and the printed clock are parameters.
\<close>

section \<open>States\<close>

datatype server_state = Starting | Ready | Paused | EmergencyStopped | Restarting | Stopping | Faulted

definition server_state_str :: "server_state \<Rightarrow> string" where
  "server_state_str s =
     (case s of Starting \<Rightarrow> ''starting'' | Ready \<Rightarrow> ''ready'' | Paused \<Rightarrow> ''paused''
      | EmergencyStopped \<Rightarrow> ''emergency_stopped'' | Restarting \<Rightarrow> ''restarting'' | Stopping \<Rightarrow> ''stopping''
      | Faulted \<Rightarrow> ''faulted'')"

section \<open>The gate file\<close>

text \<open>\<^verbatim>\<open>str::lines\<close>: a final line feed ends the last line, and a carriage return before one is dropped.\<close>

definition drop_cr :: "string \<Rightarrow> string" where
  "drop_cr l = (if l \<noteq> [] \<and> last l = CR then butlast l else l)"

definition str_lines :: "string \<Rightarrow> string list" where
  "str_lines s =
     (let p = split_on (\<lambda>c. c = LF) s in
      if last p = [] then map drop_cr (butlast p) else map drop_cr (butlast p) @ [last p])"

definition gate_body :: "string \<Rightarrow> string \<Rightarrow> string" where
  "gate_body v ts = v @ [LF] @ ts"

definition gate_sum :: "(string \<Rightarrow> string) \<Rightarrow> string \<Rightarrow> string" where
  "gate_sum sha body = sha (''LocalPilot-gate'' @ [LF] @ body)"

definition gate_record :: "(string \<Rightarrow> string) \<Rightarrow> string \<Rightarrow> string \<Rightarrow> string" where
  "gate_record sha v ts = gate_body v ts @ [LF] @ gate_sum sha (gate_body v ts) @ [LF]"

definition read_gate :: "(string \<Rightarrow> string) \<Rightarrow> string option \<Rightarrow> bool option" where
  "read_gate sha f =
     (case f of
        None \<Rightarrow> None
      | Some doc \<Rightarrow>
          (case str_lines doc of
             v # ts # digest # _ \<Rightarrow>
               if gate_sum sha (gate_body v ts) \<noteq> digest then None
               else if v = ''enabled'' then Some True
               else if v = ''disabled'' then Some False
               else None
           | _ \<Rightarrow> None))"

definition gate_enabled :: "(string \<Rightarrow> string) \<Rightarrow> string option \<Rightarrow> bool" where
  "gate_enabled sha f \<longleftrightarrow> read_gate sha f = Some True"

text \<open>\<open>ok\<close> tells whether the file could be written; the write is atomic.\<close>

definition write_gate ::
    "(string \<Rightarrow> string) \<Rightarrow> bool \<Rightarrow> string \<Rightarrow> bool \<Rightarrow> string option \<Rightarrow> unit lp_result \<times> string option" where
  "write_gate sha ok ts enabled f =
     (if ok then (Inr (), Some (gate_record sha (if enabled then ''enabled'' else ''disabled'') ts))
      else (Inl LpError_internal, f))"

section \<open>The latch\<close>

text \<open>The value under the key \<^verbatim>\<open>emergency_stop\<close> of \<^verbatim>\<open>settings_kv\<close>, if there is one.\<close>

definition latch_set :: "bool \<Rightarrow> string \<Rightarrow> bool \<Rightarrow> string \<Rightarrow> json option \<Rightarrow> unit lp_result \<times> json option" where
  "latch_set ok ts on reason row =
     (if ok then (Inr (), Some (JObject [(''latched'', JBool on), (''reason'', JString reason), (''at'', JNumber ts)]))
      else (Inl LpError_internal, row))"

definition latch_get :: "bool \<Rightarrow> json option \<Rightarrow> bool option" where
  "latch_get ok row =
     (if \<not> ok then None
      else Some (case Option.bind row (\<lambda>j. json_get j ''latched'') of Some (JBool b) \<Rightarrow> b | _ \<Rightarrow> False))"

section \<open>Properties\<close>

lemma split_on_LF: "LF \<notin> set a \<Longrightarrow> split_on (\<lambda>c. c = LF) (a @ LF # b) = a # split_on (\<lambda>c. c = LF) b"
  by (induction a) auto

lemma drop_cr_id: "CR \<notin> set l \<Longrightarrow> drop_cr l = l"
  unfolding drop_cr_def by (metis last_in_set)

definition one_line :: "string \<Rightarrow> bool" where
  "one_line s \<longleftrightarrow> LF \<notin> set s \<and> CR \<notin> set s"

lemma str_lines_record:
  assumes "one_line a" and "one_line b" and "one_line c"
  shows "str_lines (a @ LF # b @ LF # c @ [LF]) = [a, b, c]"
  using assms split_on_LF [of a] split_on_LF [of b] split_on_LF [of c "[]"]
  by (simp add: str_lines_def one_line_def Let_def drop_cr_id)

lemma read_gate_write:
  assumes "\<And>x. one_line (sha x)" and "one_line ts"
  shows "read_gate sha (snd (write_gate sha True ts enabled f)) = Some enabled"
proof -
  have v: "one_line (if enabled then ''enabled'' else ''disabled'')" by (simp add: one_line_def)
  have "str_lines (gate_record sha (if enabled then ''enabled'' else ''disabled'') ts) =
      [if enabled then ''enabled'' else ''disabled'', ts, gate_sum sha (gate_body (if enabled then ''enabled'' else ''disabled'') ts)]"
    using str_lines_record [OF v assms(2) assms(1)] by (simp add: gate_record_def gate_body_def gate_sum_def)
  then show ?thesis
    by (simp add: read_gate_def write_gate_def)
qed

text \<open>The gate fails closed. A gate that was written reads back as what was written, provided the digest and the printed
  time are single lines; and any file that reads as enabled begins with the line \<^verbatim>\<open>enabled\<close>, a time line and
  the digest of exactly these two, so a missing, truncated or edited gate is never an enabled one unless
  the digest was recomputed.\<close>

theorem gate_fails_closed:
  assumes "\<And>x. one_line (sha x)" and "one_line ts"
  shows "read_gate sha (snd (write_gate sha True ts enabled f)) = Some enabled
    \<and> (gate_enabled sha g \<longrightarrow> (\<exists>doc t rest. g = Some doc
         \<and> str_lines doc = ''enabled'' # t # sha (''LocalPilot-gate'' @ [LF] @ ''enabled'' @ [LF] @ t) # rest))"
proof -
  have "read_gate sha (snd (write_gate sha True ts enabled f)) = Some enabled"
    using assms by (rule read_gate_write)
  moreover have "\<exists>doc t rest. g = Some doc
      \<and> str_lines doc = ''enabled'' # t # sha (''LocalPilot-gate'' @ [LF] @ ''enabled'' @ [LF] @ t) # rest"
    if "gate_enabled sha g"
    using that by (auto simp: gate_enabled_def read_gate_def gate_sum_def gate_body_def split: option.splits list.splits if_splits)
  ultimately show ?thesis by blast
qed

theorem gate_fails_closed_witness:
  "read_gate (\<lambda>_. ''00'') (snd (write_gate (\<lambda>_. ''00'') True ''17'' True None)) = Some True
    \<and> (\<exists>doc t rest. Some (gate_record (\<lambda>_. ''00'') ''enabled'' ''17'') = Some doc
         \<and> str_lines doc = ''enabled'' # t # ''00'' # rest)"
proof -
  have "gate_enabled (\<lambda>_. ''00'') (Some (gate_record (\<lambda>_. ''00'') ''enabled'' ''17''))"
    by code_simp
  then show ?thesis
    using gate_fails_closed [of "\<lambda>_. ''00''" "''17''" True None "Some (gate_record (\<lambda>_. ''00'') ''enabled'' ''17'')"]
    by (simp add: one_line_def)
qed

lemma latch_get_set: "latch_get True (snd (latch_set True ts on reason row)) = Some on"
  by (simp add: latch_get_def latch_set_def json_get_def)

end
