(* ===== verification/Core.thy ===== *)
theory Core
  imports Approvals Leases Settings_Store Server_State
begin

text \<open>
  The service itself, \<^verbatim>\<open>workstation-server/src/lib.rs\<close>: \<^verbatim>\<open>Core\<close> owns the settings, the server state, the sessions, approvals
  and leases and the policy engine, and its operations keep them consistent. A component that has no model
  here (tasks, elevated helpers, the MCP gateway, OAuth, the audit and connection logs, the UI events)
  appears as the calls \<^verbatim>\<open>Core\<close> makes to it, in order, in \<open>co_calls\<close>.
\<close>

section \<open>State\<close>

datatype ui_event =
    StateChanged string bool
  | ApprovalRequested string string string bool
  | ApprovalChanged string string
  | ConnectionRequested string string string
  | ConnectionChanged string string
  | ClientConnected string string
  | ClientDisconnected string string string
  | TaskChanged string string string
  | TaskFailed string string string
  | ProjectsChanged
  | SettingsChanged u64
  | AuditFault string
  | EmergencyStopEvent

datatype core_call =
    Emit ui_event
  | Audit_Record string
  | Tasks_KillAll
  | Tasks_KillClient string
  | Tasks_Kill string
  | Tasks_SetMaxOutput u64
  | Helper_AbortAll
  | Mcp_Block
  | Mcp_Resume
  | Oauth_Reset
  | Oauth_Cleanup
  | Index_StopWatcher
  | Auth_RecordSeen string "string option" "string option" "string option"
  | Auth_LogConnection string string string "string option" "string option"
  | Http_Cancel string
  | Audit_Retention u64 u64 u64 u64 u64 "string list"
  | Cache_Cleanup "string list" u64
  | Tasks_Prune int

record core =
  co_settings :: settings_store
  co_state :: server_state
  co_fault :: "string option"
  co_gate :: "string option"
  co_latch :: "json option"
  co_sessions :: session_service
  co_approvals :: approval_service
  co_leases :: lease_manager
  co_env :: expand_env
  co_roots :: roots
  co_policy :: policy_engine
  co_http :: "string option"
  co_http_error :: "string option"
  co_calls :: "core_call list"

text \<open>The code around \<^verbatim>\<open>Core\<close> that is fixed for a process: the policy engine's environment, the settings file format,
  the digests, the printers of \<^verbatim>\<open>serde_json\<close> and the redactor.\<close>

record core_env =
  cv_policy :: policy_env
  cv_config :: config_env
  cv_show_u32 :: "u32 \<Rightarrow> string"
  cv_sha256_hex :: "string \<Rightarrow> string"
  cv_show_ms :: "int \<Rightarrow> string"
  cv_json_digest :: "json \<Rightarrow> string"
  cv_show_u64 :: "u64 \<Rightarrow> string"
  cv_redact :: "string \<Rightarrow> string"

text \<open>What one operation meets outside: \<open>cw_io n\<close> is the clock and the database at its \<open>n\<close>-th call that uses them; whether
  the gate file could be written, what the audit log answers, the listener's address or error, the outcome
  of writing the settings file, the known folder, the running tasks with their clients and sessions.\<close>

record core_world =
  cw_io :: "nat \<Rightarrow> io_env"
  cw_gate_ok :: bool
  cw_audit :: "unit lp_result"
  cw_serve :: "string lp_result"
  cw_save :: "unit lp_result"
  cw_default_root :: "string option"
  cw_killed :: nat
  cw_running :: "(string \<times> string) list"
  cw_tasks :: "string \<Rightarrow> (string \<times> string option) list"
  cw_audit_fault :: "string option"

definition call :: "core_call \<Rightarrow> core \<Rightarrow> core" where
  "call x C = C\<lparr>co_calls := co_calls C @ [x]\<rparr>"

definition calls :: "core_call list \<Rightarrow> core \<Rightarrow> core" where
  "calls xs C = C\<lparr>co_calls := co_calls C @ xs\<rparr>"

abbreviation settings_of :: "core \<Rightarrow> app_settings" where
  "settings_of C \<equiv> sst_current (co_settings C)"

abbreviation settings_fault :: "core \<Rightarrow> config_fault option" where
  "settings_fault C \<equiv> sst_fault (co_settings C)"

definition set_state :: "server_state \<Rightarrow> core \<Rightarrow> core" where
  "set_state s C = C\<lparr>co_state := s\<rparr>"

definition set_fault :: "string option \<Rightarrow> core \<Rightarrow> core" where
  "set_fault f C = C\<lparr>co_fault := f\<rparr>"

definition accepting :: "core \<Rightarrow> bool" where
  "accepting C \<longleftrightarrow> co_state C = Ready"

definition latched :: "bool \<Rightarrow> core \<Rightarrow> bool" where
  "latched ok C = unwrap_or True (latch_get ok (co_latch C))"

definition canonical_or :: "win_open \<Rightarrow> string \<Rightarrow> string" where
  "canonical_or open_path p = (case canonicalize open_path p True of Inl _ \<Rightarrow> p | Inr c \<Rightarrow> cn_path c)"

definition emit_state :: "core \<Rightarrow> core" where
  "emit_state C = call (Emit (StateChanged (server_state_str (co_state C)) (accepting C))) C"

section \<open>The policy engine\<close>

definition rebuild_policy :: "core_env \<Rightarrow> core_world \<Rightarrow> core \<Rightarrow> core" where
  "rebuild_policy V w C =
     (let s = settings_of C;
          trusted = (case st_root_override s of
              Some p \<Rightarrow> p
            | None \<Rightarrow> unwrap_or (ro_trusted (co_roots C)) (cw_default_root w));
          r = (co_roots C)\<lparr>ro_trusted := canonical_or (ev_open (cv_policy V)) trusted\<rparr> in
      C\<lparr>co_roots := r,
        co_policy := PolicyEngine_new (cv_policy V) (policy_settings s) r (co_env C) (settings_fault C \<noteq> None)\<rparr>)"

section \<open>Public addresses\<close>

record public_urls =
  pu_origin :: string
  pu_prefix :: string
  pu_mcp_url :: string
  pu_resource :: string
  pu_issuer :: string
  pu_resource_metadata :: string
  pu_authorization_server_metadata :: string
  pu_public_host :: "string option"
  pu_configured :: bool

text \<open>What \<^verbatim>\<open>url::Url\<close> gives for the configured URL: the serialized origin, the path, the host and a port that is not the scheme's.
  \<open>show\<close> prints a port.\<close>

record parsed_origin =
  ur_origin :: string
  ur_path :: string
  ur_host :: "string option"
  ur_port :: "u16 option"

definition trim_end_char :: "char \<Rightarrow> string \<Rightarrow> string" where
  "trim_end_char c s = List.rev (dropWhile (\<lambda>x. x = c) (List.rev s))"

definition public_urls :: "(string \<Rightarrow> parsed_origin option) \<Rightarrow> (u16 \<Rightarrow> string) \<Rightarrow> core \<Rightarrow> public_urls" where
  "public_urls parse show C =
     (let n = st_network (settings_of C) in
      case Option.bind (ns_public_mcp_url n) parse of
        Some u \<Rightarrow>
          (let path = trim_end_char (CHR 0x2F) (ur_path u); prefix = unwrap_or [] (strip_suffix path ''/mcp'') in
           \<lparr>pu_origin = ur_origin u, pu_prefix = prefix, pu_mcp_url = ur_origin u @ path, pu_resource = ur_origin u @ path,
            pu_issuer = ur_origin u @ prefix,
            pu_resource_metadata = ur_origin u @ ''/.well-known/oauth-protected-resource'' @ path,
            pu_authorization_server_metadata = ur_origin u @ ''/.well-known/oauth-authorization-server'' @ prefix,
            pu_public_host = map_option (\<lambda>h. case ur_port u of Some p \<Rightarrow> h @ '':'' @ show p | None \<Rightarrow> h) (ur_host u),
            pu_configured = True\<rparr>)
      | None \<Rightarrow>
          (let origin = ''http://127.0.0.1:'' @ show (ns_port n) in
           \<lparr>pu_origin = origin, pu_prefix = [], pu_mcp_url = origin @ ''/mcp'', pu_resource = origin @ ''/mcp'', pu_issuer = origin,
            pu_resource_metadata = origin @ ''/.well-known/oauth-protected-resource/mcp'',
            pu_authorization_server_metadata = origin @ ''/.well-known/oauth-authorization-server'',
            pu_public_host = None, pu_configured = False\<rparr>))"

section \<open>Remote access\<close>

definition start_http :: "core_world \<Rightarrow> core \<Rightarrow> string lp_result \<times> core" where
  "start_http w C =
     (case co_http C of
        Some addr \<Rightarrow> (Inr addr, C)
      | None \<Rightarrow>
          if ns_port (st_network (settings_of C)) = 0
          then (Inl (LpError_new ConfigFault ''No listener port is configured; finish setup first.''), C)
          else (case cw_serve w of
              Inl e \<Rightarrow> (Inl e, C\<lparr>co_http_error := Some (message e)\<rparr>)
            | Inr addr \<Rightarrow> (Inr addr, set_fault None (set_state Ready (C\<lparr>co_http := Some addr, co_http_error := None\<rparr>)))))"

definition stop_http :: "core \<Rightarrow> core" where
  "stop_http C =
     (case co_http C of None \<Rightarrow> C | Some addr \<Rightarrow> call (Http_Cancel addr) (C\<lparr>co_http := None\<rparr>))"

text \<open>\<open>n\<close> is the number of the operation's next call.\<close>

definition invalidate_all :: "core_world \<Rightarrow> nat \<Rightarrow> string \<Rightarrow> string \<Rightarrow> core \<Rightarrow> core" where
  "invalidate_all w n reason status C =
     (let (ended, S) = end_all (cw_io w n) reason (co_sessions C);
          C1 = calls (map (\<lambda>e. Emit (ClientDisconnected (ses_client_id (en_session e)) [] reason)) ended)
                 (C\<lparr>co_sessions := S\<rparr>);
          (ids, A) = invalidate (cw_io w (n + 1)) None None status reason (co_approvals C1) in
      call Oauth_Reset (calls (map (\<lambda>i. Emit (ApprovalChanged i status)) ids) (C1\<lparr>co_approvals := A\<rparr>)))"

definition write_gate_file :: "core_env \<Rightarrow> core_world \<Rightarrow> nat \<Rightarrow> bool \<Rightarrow> core \<Rightarrow> unit lp_result \<times> core" where
  "write_gate_file V w n enabled C =
     (let (r, g) = write_gate (cv_sha256_hex V) (cw_gate_ok w) (cv_show_ms V (io_now (cw_io w n))) enabled (co_gate C) in
      (r, C\<lparr>co_gate := g\<rparr>))"

definition write_latch :: "core_env \<Rightarrow> core_world \<Rightarrow> nat \<Rightarrow> bool \<Rightarrow> string \<Rightarrow> core \<Rightarrow> unit lp_result \<times> core" where
  "write_latch V w n on source C =
     (let (r, l) = latch_set (io_db_ok (cw_io w n)) (cv_show_ms V (io_now (cw_io w n))) on source (co_latch C) in
      (r, C\<lparr>co_latch := l\<rparr>))"

text \<open>\<^verbatim>\<open>latch.and(gate)\<close>: both writes are made, and the first error is the one reported.\<close>

definition emergency_stop :: "core_env \<Rightarrow> core_world \<Rightarrow> string \<Rightarrow> core \<Rightarrow> nat lp_result \<times> core" where
  "emergency_stop V w source C =
     (let C1 = calls [Mcp_Block, Tasks_KillAll, Helper_AbortAll] (set_state EmergencyStopped C);
          C2 = invalidate_all w 0 ''emergency stop'' ''cancelled'' C1;
          C3 = C2\<lparr>co_leases := clear_leases (cw_io w 2) (co_leases C2)\<rparr>;
          (latch, C4) = write_latch V w 3 True source C3;
          (gate, C5) = write_gate_file V w 4 False C4;
          C6 = (case and_then latch (\<lambda>_. gate) of
              Inr _ \<Rightarrow> C5
            | Inl e \<Rightarrow> set_fault (Some (''Emergency Stop latch could not be persisted: '' @ message e)) C5);
          C7 = call (Audit_Record ''emergency_stop'') (stop_http C6) in
      (Inr (cw_killed w), emit_state (call (Emit EmergencyStopEvent) C7)))"

definition resume_remote_access :: "core_env \<Rightarrow> core_world \<Rightarrow> nat \<Rightarrow> core \<Rightarrow> unit lp_result \<times> core" where
  "resume_remote_access V w n C =
     (if settings_fault C \<noteq> None
      then (Inl (LpError_new ConfigFault ''Repair or reset the damaged settings before enabling remote access.''), C)
      else (case write_latch V w n False ''local resume'' C of
          (Inl e, C1) \<Rightarrow> (Inl e, C1)
        | (Inr _, C1) \<Rightarrow>
            (case write_gate_file V w (n + 1) True C1 of
               (Inl e, C2) \<Rightarrow> (Inl e, C2)
             | (Inr _, C2) \<Rightarrow>
                 (let C3 = call (Audit_Record ''remote_access_resumed'') C2 in
                  case cw_audit w of
                    Inl e \<Rightarrow> (Inl e, C3)
                  | Inr _ \<Rightarrow>
                      (case start_http w (call Mcp_Resume C3) of
                         (Inl e, C4) \<Rightarrow> (Inl e, C4)
                       | (Inr _, C4) \<Rightarrow> (Inr (), emit_state C4))))))"

definition pause_remote_access :: "core_env \<Rightarrow> core_world \<Rightarrow> core \<Rightarrow> unit lp_result \<times> core" where
  "pause_remote_access V w C =
     (case write_gate_file V w 0 False C of
        (Inl e, C1) \<Rightarrow> (Inl e, C1)
      | (Inr _, C1) \<Rightarrow>
          (let C2 = invalidate_all w 1 ''remote access paused'' ''cancelled'' (stop_http (set_state Paused C1));
               C3 = call (Audit_Record ''remote_access_paused'') C2 in
           case cw_audit w of
             Inl e \<Rightarrow> (Inl e, C3)
           | Inr _ \<Rightarrow> (Inr (), emit_state C3)))"

definition enable_remote_access :: "core_env \<Rightarrow> core_world \<Rightarrow> core \<Rightarrow> unit lp_result \<times> core" where
  "enable_remote_access V w C =
     (if latched (io_db_ok (cw_io w 0)) C
      then (Inl (LpError_new EmergencyStopActive
        ''Emergency Stop is latched; use Resume to re-enable remote access.''), C)
      else resume_remote_access V w 1 C)"

definition start_or_fault :: "core_world \<Rightarrow> core \<Rightarrow> core" where
  "start_or_fault w C =
     (case start_http w C of
        (Inr _, C') \<Rightarrow> C'
      | (Inl e, C') \<Rightarrow> set_fault (Some (message e)) (set_state Faulted C'))"

definition restart_mcp :: "core_env \<Rightarrow> core_world \<Rightarrow> nat \<Rightarrow> bool \<Rightarrow> core \<Rightarrow> unit lp_result \<times> core" where
  "restart_mcp V w n terminate_tasks C =
     (let prev = co_state C;
          C1 = stop_http (emit_state (set_state Restarting C));
          C2 = (if terminate_tasks then call Tasks_KillAll C1 else C1);
          C3 = call (Audit_Record ''mcp_restart'') (invalidate_all w n ''MCP restart'' ''invalidated'' C2);
          C4 = (if prev = EmergencyStopped \<or> latched (io_db_ok (cw_io w (n + 2))) C3 then set_state EmergencyStopped C3
            else if prev = Ready \<or> gate_enabled (cv_sha256_hex V) (co_gate C3) \<and> st_setup_completed (settings_of C3)
            then start_or_fault w C3
            else set_state Paused C3) in
      (Inr (), emit_state C4))"

definition shutdown :: "core_world \<Rightarrow> core \<Rightarrow> core" where
  "shutdown w C =
     calls [Tasks_KillAll, Helper_AbortAll, Index_StopWatcher, Audit_Record ''shutdown''] (stop_http (set_state Stopping C))"

section \<open>Sessions\<close>

text \<open>\<^verbatim>\<open>tasks.list(Some(client), true, 1000)\<close> is \<open>cw_tasks w client\<close>: the identifiers of the client's running tasks with their sessions.\<close>

definition on_session_ended :: "core_world \<Rightarrow> nat \<Rightarrow> ended_session \<Rightarrow> core \<Rightarrow> core" where
  "on_session_ended w n e C =
     (let s = en_session e;
          (ids, A) = invalidate (cw_io w n) None (Some (ses_id s)) ''invalidated'' (''session '' @ en_reason e) (co_approvals C);
          C1 = calls (map (\<lambda>i. Emit (ApprovalChanged i ''invalidated'')) ids) (C\<lparr>co_approvals := A\<rparr>);
          C2 = (if ss_terminate_tasks_on_expiry (st_sessions (settings_of C1)) \<and> contains_str (en_reason e) ''expiry''
            then calls (map (\<lambda>t. Tasks_Kill (fst t)) (filter (\<lambda>t. snd t = Some (ses_id s)) (cw_tasks w (ses_client_id s)))) C1
            else C1) in
      call (Auth_LogConnection (ses_client_id s) (ses_credential_id s) ''session_ended'' (Some (en_reason e)) None) C2)"

definition client_limit :: "concurrency_settings \<Rightarrow> u64" where
  "client_limit cs = (if cs_allow_multiple_agents cs then cs_max_simultaneous_clients cs else 1)"

definition listed_client :: "concurrency_settings \<Rightarrow> principal \<Rightarrow> bool" where
  "listed_client cs p \<longleftrightarrow> cs_allow_any_authenticated_client cs \<or> List.member (cs_allowed_client_ids cs) (pr_client_id p)"

definition session_for ::
    "core_world \<Rightarrow> principal \<Rightarrow> string option \<Rightarrow> string option \<Rightarrow> string option \<Rightarrow> core \<Rightarrow> session lp_result \<times> core" where
  "session_for w p client_info protocol remote C =
     (let s = settings_of C; cs = st_concurrency s; active = active_client_ids (io_now (cw_io w 0)) (co_sessions C) in
      if \<not> listed_client cs p
      then (Inl (LpError_new ClientDisabled ''This client is not in the local allow list.''), C)
      else if \<not> List.member active (pr_client_id p) \<and> length active \<ge> unat (client_limit cs)
      then (Inl (LpError_new ClientLimitReached ''The maximum number of simultaneous clients is connected.''), C)
      else (case resolve_session (cw_io w 1) (pr_client_id p) (pr_credential_id p) (st_sessions s) (co_sessions C) of
          (Inl e, S) \<Rightarrow> (Inl e, C\<lparr>co_sessions := S\<rparr>)
        | (Inr (session, ended), S) \<Rightarrow>
            (let C1 = C\<lparr>co_sessions := S\<rparr>;
                 C2 = (case ended of None \<Rightarrow> C1 | Some e \<Rightarrow> on_session_ended w 2 e C1);
                 is_new = (ses_created_at session = ses_last_activity_at session
                   \<and> io_now (cw_io w 3) - ses_created_at session < 2000);
                 C3 = call (Auth_RecordSeen (pr_client_id p) client_info protocol remote) C2;
                 C4 = (if is_new
                   then calls [Auth_LogConnection (pr_client_id p) (pr_credential_id p) ''session_started'' None remote,
                     Emit (ClientConnected (pr_client_id p) (pr_display_name p))] C3
                   else C3) in
             (Inr session, C4))))"

definition end_session :: "core_world \<Rightarrow> string \<Rightarrow> string \<Rightarrow> core \<Rightarrow> core" where
  "end_session w sid reason C =
     (case end_session_id (cw_io w 0) sid reason (co_sessions C) of
        (None, S) \<Rightarrow> C\<lparr>co_sessions := S\<rparr>
      | (Some e, S) \<Rightarrow>
          (let C1 = C\<lparr>co_sessions := S\<rparr>;
               (ids, A) = invalidate (cw_io w 1) None (Some sid) ''cancelled'' reason (co_approvals C1);
               C2 = calls (map (\<lambda>i. Emit (ApprovalChanged i ''cancelled'')) ids) (C1\<lparr>co_approvals := A\<rparr>) in
           call (Auth_LogConnection (ses_client_id (en_session e)) (ses_credential_id (en_session e)) ''session_ended''
             (Some reason) None) C2))"

definition client_access_removed :: "core_world \<Rightarrow> string \<Rightarrow> string \<Rightarrow> core \<Rightarrow> nat \<times> core" where
  "client_access_removed w client reason C =
     (let (_, S) = end_client (cw_io w 0) client reason (co_sessions C);
          (ids, A) = invalidate (cw_io w 1) (Some client) None ''cancelled'' reason (co_approvals C);
          C1 = calls (map (\<lambda>i. Emit (ApprovalChanged i ''cancelled'')) ids) (C\<lparr>co_sessions := S, co_approvals := A\<rparr>);
          revoke = ss_terminate_tasks_on_revoke (st_sessions (settings_of C1));
          C2 = (if revoke then call (Tasks_KillClient client) C1 else C1);
          C3 = C2\<lparr>co_leases := release_client (cw_io w 2) client (co_leases C2)\<rparr> in
      (if revoke then cw_killed w else 0, call (Emit (ClientDisconnected client [] reason)) C3))"

section \<open>Approvals\<close>

text \<open>The fields of the tool's context the operation reads, and the scopes its definition requires.\<close>

definition complete_summary :: "core_env \<Rightarrow> approval_requirement \<Rightarrow> approval_summary \<Rightarrow> approval_summary" where
  "complete_summary V req summary =
     summary\<lparr>sm_session_scope_label := scope_describe (ar_session_scope req),
       sm_paths := (if sm_paths summary = [] then ar_paths req else sm_paths summary),
       sm_command := (if sm_command summary = None then map_option (cv_redact V) (ar_command req) else sm_command summary),
       sm_impact := (if sm_impact summary = [] then ar_impact req else sm_impact summary)\<rparr>"

definition request_approval ::
    "core_env \<Rightarrow> core_world \<Rightarrow> principal \<Rightarrow> session \<Rightarrow> string \<Rightarrow> json \<Rightarrow> string list option \<Rightarrow> approval_requirement
     \<Rightarrow> string \<Rightarrow> approval_summary \<Rightarrow> core \<Rightarrow> approval_view lp_result \<times> core" where
  "request_approval V w p session tool raw_args tool_scopes req digest summary C =
     (let s = settings_of C;
          op = \<lparr>po_tool_name = tool, po_arguments = raw_args, po_descriptor_digest = digest,
            po_required_scopes = unwrap_or [] tool_scopes, po_session_scope = ar_session_scope req\<rparr> in
      case create (cw_io w 0) (cv_json_digest V) (cv_show_u64 V) p session tool req (complete_summary V req summary) op
          (st_policy_revision s) (ss_pending_approval_minutes (st_sessions s)) (co_approvals C) of
        (Inl e, A) \<Rightarrow> (Inl e, C\<lparr>co_approvals := A\<rparr>)
      | (Inr view, A) \<Rightarrow>
          (Inr view, call (Emit (ApprovalRequested (av_id view) (pr_display_name p)
             (unwrap_or (join_with '', '' (sm_paths (av_summary view))) (sm_command (av_summary view)))
             (av_requires_admin view))) (C\<lparr>co_approvals := A\<rparr>)))"

definition decide_approval :: "core_world \<Rightarrow> string \<Rightarrow> local_decision \<Rightarrow> core \<Rightarrow> approval_view lp_result \<times> core" where
  "decide_approval w i d C =
     (case decide (cw_io w 0) i d (ss_pending_approval_minutes (st_sessions (settings_of C))) (co_approvals C) of
        (Inl e, A) \<Rightarrow> (Inl e, C\<lparr>co_approvals := A\<rparr>)
      | (Inr view, A) \<Rightarrow>
          (let C1 = C\<lparr>co_approvals := A\<rparr>;
               C2 = (case (if d = AllowSession then approval_scope A i else None) of
                   None \<Rightarrow> C1
                 | Some scope \<Rightarrow> C1\<lparr>co_sessions := snd (add_session_grant (cw_io w 1) (av_session_id view)
                     \<lparr>sg_scope = scope, sg_label = scope_describe scope, sg_approval_id = Some i,
                      sg_created_at = io_now (cw_io w 1)\<rparr> (co_sessions C1))\<rparr>) in
           (Inr view, calls [Audit_Record ''approval_decision'', Emit (ApprovalChanged i (av_status view))] C2)))"

text \<open>What the index answers for the path: the identifier, name and lock of its top project.\<close>

definition project_write_guard ::
    "core_env \<Rightarrow> core_world \<Rightarrow> (string \<Rightarrow> (string \<times> string \<times> bool) option) \<Rightarrow> string \<Rightarrow> string \<Rightarrow> string option \<Rightarrow> core
     \<Rightarrow> unit lp_result \<times> core" where
  "project_write_guard V w top_project client path task C =
     (if \<not> is_trusted (ev_lc (cv_policy V)) (pe_roots (co_policy C)) path then (Inr (), C)
      else (case top_project path of
          None \<Rightarrow> (Inr (), C)
        | Some (pid, display_name, locked) \<Rightarrow>
            if locked then (Inl (LpError_new ProjectLocked
              (''The user has locked '' @ [CHR 0x27] @ display_name @ [CHR 0x27] @ '' for agents.'')), C)
            else
              (let cs = st_concurrency (settings_of C);
                   (r, M) = acquire (cw_io w 0) pid client task (as_i64 (cs_writer_lease_seconds cs) * 1000)
                     (cs_allow_multiple_writers_per_project cs) (co_leases C) in
               (r, C\<lparr>co_leases := M\<rparr>))))"

section \<open>Settings\<close>

definition update_settings :: "core_env \<Rightarrow> core_world \<Rightarrow> app_settings \<Rightarrow> core \<Rightarrow> app_settings lp_result \<times> core" where
  "update_settings V w next C =
     (case update_store (cv_config V) (cw_save w) next (co_settings C) of
        (Inl e, T) \<Rightarrow> (Inl e, C\<lparr>co_settings := T\<rparr>)
      | (Inr (prev, n), T) \<Rightarrow>
          (let C1 = call (Tasks_SetMaxOutput (pc_max_output_bytes_per_task (st_process n))) (rebuild_policy V w (C\<lparr>co_settings := T\<rparr>));
               C2 = C1\<lparr>co_sessions := apply_limits (st_sessions n) (co_sessions C1)\<rparr>;
               C3 = (if st_policy_revision prev \<noteq> st_policy_revision n
                 then (let (ids, A) = invalidate (cw_io w 1) None None ''invalidated'' ''security settings changed'' (co_approvals C2) in
                   calls (map (\<lambda>i. Emit (ApprovalChanged i ''invalidated'')) ids)
                     (C2\<lparr>co_sessions := clear_grants (cw_io w 0) (co_sessions C2), co_approvals := A\<rparr>))
                 else C2);
               C4 = call (Audit_Record ''settings_change'') C3;
               C5 = (if st_network prev \<noteq> st_network n \<and> co_state C4 = Ready then snd (restart_mcp V w 2 False C4) else C4) in
           (Inr n, call (Emit (SettingsChanged (st_policy_revision n))) C5)))"

definition reset_settings :: "core_env \<Rightarrow> core_world \<Rightarrow> core \<Rightarrow> app_settings lp_result \<times> core" where
  "reset_settings V w C =
     (case reset_to_defaults (cv_config V) (cw_save w) (co_settings C) of
        (Inl e, T) \<Rightarrow> (Inl e, C\<lparr>co_settings := T\<rparr>)
      | (Inr s, T) \<Rightarrow>
          (let C1 = call (Audit_Record ''settings_reset'') (rebuild_policy V w (C\<lparr>co_settings := T\<rparr>));
               C2 = (if co_state C1 = Faulted then set_fault None (set_state Paused C1) else C1) in
           (Inr s, emit_state C2)))"

section \<open>Background work\<close>

text \<open>The loop that listens to the task manager: a finished task gives its leases back. The status is the task's
  \<^verbatim>\<open>TaskStatus::as_str\<close>, \<open>command\<close> what the task manager has under the identifier.\<close>

definition on_task_finished :: "core_world \<Rightarrow> string \<Rightarrow> string \<Rightarrow> string \<Rightarrow> string \<Rightarrow> core \<Rightarrow> core" where
  "on_task_finished w task client status command C =
     (let C1 = call (Emit (TaskChanged task status client)) (C\<lparr>co_leases := release_task (cw_io w 0) task (co_leases C)\<rparr>) in
      if status = ''failed'' \<or> status = ''timed_out'' then call (Emit (TaskFailed task client command)) C1 else C1)"

definition on_task_started :: "string \<Rightarrow> string \<Rightarrow> core \<Rightarrow> core" where
  "on_task_started task client C = call (Emit (TaskChanged task ''running'' client)) C"

text \<open>The calls are numbered after the sweeps: 0 and 1 are theirs, the ended sessions follow, and the running tasks share 2.\<close>

definition keep_task_alive :: "core_world \<Rightarrow> string \<times> string \<Rightarrow> core \<Rightarrow> core" where
  "keep_task_alive w t C =
     C\<lparr>co_sessions := touch_client (cw_io w 2) (snd t) (co_sessions C),
       co_leases := renew_task (cw_io w 2) (fst t)
         (as_i64 (cs_writer_lease_seconds (st_concurrency (settings_of C))) * 1000) (co_leases C)\<rparr>"

definition maintenance_fast :: "core_world \<Rightarrow> core \<Rightarrow> core" where
  "maintenance_fast w C =
     (let (ended, S) = sweep (cw_io w 0) (co_sessions C);
          C1 = fold (\<lambda>x. on_session_ended w (3 + fst x) (snd x)) (List.enumerate 0 ended) (C\<lparr>co_sessions := S\<rparr>);
          (ids, A) = expire_sweep (cw_io w 1) (co_approvals C1);
          C2 = calls (map (\<lambda>i. Emit (ApprovalChanged i ''expired'')) ids) (C1\<lparr>co_approvals := A\<rparr>);
          C3 = call Oauth_Cleanup (fold (keep_task_alive w) (cw_running w) C2) in
      case cw_audit_fault w of None \<Rightarrow> C3 | Some f \<Rightarrow> call (Emit (AuditFault f)) C3)"

definition maintenance_slow :: "core_world \<Rightarrow> core \<Rightarrow> core" where
  "maintenance_slow w C =
     (let s = settings_of C; au = st_audit s; ds = st_data_shared s in
      calls [Audit_Retention (ad_retention_days au) (ad_max_size_mb au * 1024 * 1024)
          (dsh_retention_days ds) (dsh_max_size_mb ds * 1024 * 1024) (dsh_reserved_events_per_session ds)
          (map ses_id (list_sessions (co_sessions C))),
        Cache_Cleanup (map fst (cw_running w)) (ct_finished_task_retention_hours (st_cache_temp s) * 3600),
        Tasks_Prune (as_i64 (ad_retention_days au) * DAY_MS)] C)"

section \<open>Starting\<close>

text \<open>What outlives the process: the settings file is read anew, the gate file and the tables of the control database stay.\<close>

record disk =
  di_gate :: "string option"
  di_latch :: "json option"
  di_sessions :: "session_row list"
  di_permissions :: "permission_row list"
  di_approvals :: "approval_row list"
  di_executions :: "execution_row list"
  di_idem :: "idem_row list"
  di_locks :: "lease list"

definition disk_of :: "core \<Rightarrow> disk" where
  "disk_of C =
     \<lparr>di_gate = co_gate C, di_latch = co_latch C, di_sessions = sv_sessions (co_sessions C),
      di_permissions = sv_permissions (co_sessions C), di_approvals = as_approvals (co_approvals C),
      di_executions = as_executions (co_approvals C), di_idem = as_idem (co_approvals C),
      di_locks = lg_locks (co_leases C)\<rparr>"

record core_options =
  op_root :: string
  op_cache_temp :: string
  op_install_dir :: "string option"
  op_settings_override :: "app_settings option"
  op_env :: expand_env

text \<open>\<open>stored\<close> is what \<^verbatim>\<open>config::load\<close> gave, \<open>opened\<close> the first error of opening secrets, databases, index, tasks and
  the gateway, \<open>tasks\<close> and \<open>audits\<close> the outcomes of their recoveries.\<close>

definition fresh_core :: "core_env \<Rightarrow> core_world \<Rightarrow> core_options \<Rightarrow> settings_store \<Rightarrow> string \<Rightarrow> disk \<Rightarrow> core" where
  "fresh_core V w opts T trusted d =
     (let canon = canonical_or (ev_open (cv_policy V));
          r = \<lparr>ro_trusted = canon trusted, ro_app_data = canon (op_root opts), ro_cache_temp = canon (op_cache_temp opts),
            ro_install_dir = Option.bind (map_option canon (op_install_dir opts))
              (\<lambda>p. if starts_with_ci (ev_lc (cv_policy V)) p (canon trusted) then None else Some p)\<rparr> in
      \<lparr>co_settings = T, co_state = Starting, co_fault = None, co_gate = di_gate d, co_latch = di_latch d,
       co_sessions = SessionService_new (di_sessions d) (di_permissions d),
       co_approvals = ApprovalService_new (di_approvals d) (di_executions d) (di_idem d),
       co_leases = LeaseManager_new (cw_io w 0) (di_locks d), co_env = op_env opts, co_roots = r,
       co_policy = PolicyEngine_new (cv_policy V) (policy_settings (sst_current T)) r (op_env opts) (sst_fault T \<noteq> None),
       co_http = None, co_http_error = None, co_calls = []\<rparr>)"

definition recover :: "core_world \<Rightarrow> unit lp_result \<Rightarrow> unit lp_result \<Rightarrow> core \<Rightarrow> unit lp_result \<times> core" where
  "recover w tasks audits C =
     (case and_then tasks (\<lambda>_. audits) of
        Inl e \<Rightarrow> (Inl e, C)
      | Inr _ \<Rightarrow>
          (case startup_recovery (cw_io w 1) (co_approvals C) of
             (Inl e, A) \<Rightarrow> (Inl e, C\<lparr>co_approvals := A\<rparr>)
           | (Inr _, A) \<Rightarrow>
               (case end_all_persisted (cw_io w 2) ''restart'' (co_sessions C) of
                  (Inl e, S) \<Rightarrow> (Inl e, C\<lparr>co_approvals := A, co_sessions := S\<rparr>)
                | (Inr _, S) \<Rightarrow> (Inr (), call (Audit_Record ''startup'') (C\<lparr>co_approvals := A, co_sessions := S\<rparr>)))))"

definition open_gate :: "core_env \<Rightarrow> core_world \<Rightarrow> core \<Rightarrow> core" where
  "open_gate V w C =
     (if latched (io_db_ok (cw_io w 3)) C then set_state EmergencyStopped C
      else (case settings_fault C of
          Some f \<Rightarrow> set_fault (Some (cf_message f)) (set_state Faulted C)
        | None \<Rightarrow>
            if st_setup_completed (settings_of C) \<and> gate_enabled (cv_sha256_hex V) (co_gate C) then start_or_fault w C
            else set_state Paused C))"

definition start ::
    "core_env \<Rightarrow> core_world \<Rightarrow> core_options \<Rightarrow> loaded_settings \<Rightarrow> unit lp_result \<Rightarrow> unit lp_result \<Rightarrow> unit lp_result \<Rightarrow> disk
     \<Rightarrow> core lp_result \<times> disk" where
  "start V w opts stored opened tasks audits d =
     (let T = (case op_settings_override opts of Some s \<Rightarrow> SettingsStore_from_settings s | None \<Rightarrow> SettingsStore_load stored) in
      case opened of
        Inl e \<Rightarrow> (Inl e, d)
      | Inr _ \<Rightarrow>
          (case or_else (st_root_override (sst_current T)) (cw_default_root w) of
             None \<Rightarrow> (Inl LpError_internal, d)
           | Some trusted \<Rightarrow>
               (case recover w tasks audits (fresh_core V w opts T trusted d) of
                  (Inl e, C) \<Rightarrow> (Inl e, disk_of C)
                | (Inr _, C) \<Rightarrow> (let C' = emit_state (open_gate V w C) in (Inr C', disk_of C')))))"

end
