(* ===== verification/Core_Props.thy ===== *)
theory Core_Props
  imports Core Approval_Props
begin

text \<open>
  Runs of the service and what holds of them: the process may end at any moment between operations and be
  started again on what the disk keeps. Availability, the Emergency Stop latch, and what ending a session, removing
  a client or changing the settings leaves behind.
\<close>

section \<open>What the operations leave alone\<close>

text \<open>The parts that decide availability and policy.\<close>

definition remote :: "core \<Rightarrow> settings_store \<times> server_state \<times> json option \<times> string option \<times> expand_env \<times> roots \<times> policy_engine" where
  "remote C = (co_settings C, co_state C, co_latch C, co_http C, co_env C, co_roots C, co_policy C)"

lemma calls_sel [simp]:
  "co_settings (calls xs C) = co_settings C" "co_state (calls xs C) = co_state C" "co_fault (calls xs C) = co_fault C"
  "co_gate (calls xs C) = co_gate C" "co_latch (calls xs C) = co_latch C" "co_sessions (calls xs C) = co_sessions C"
  "co_approvals (calls xs C) = co_approvals C" "co_leases (calls xs C) = co_leases C" "co_env (calls xs C) = co_env C"
  "co_roots (calls xs C) = co_roots C" "co_policy (calls xs C) = co_policy C" "co_http (calls xs C) = co_http C"
  by (simp_all add: calls_def)

lemma call_sel [simp]:
  "co_settings (call x C) = co_settings C" "co_state (call x C) = co_state C" "co_fault (call x C) = co_fault C"
  "co_gate (call x C) = co_gate C" "co_latch (call x C) = co_latch C" "co_sessions (call x C) = co_sessions C"
  "co_approvals (call x C) = co_approvals C" "co_leases (call x C) = co_leases C" "co_env (call x C) = co_env C"
  "co_roots (call x C) = co_roots C" "co_policy (call x C) = co_policy C" "co_http (call x C) = co_http C"
  by (simp_all add: call_def)

lemma set_state_sel [simp]:
  "co_settings (set_state s C) = co_settings C" "co_state (set_state s C) = s" "co_fault (set_state s C) = co_fault C"
  "co_gate (set_state s C) = co_gate C" "co_latch (set_state s C) = co_latch C" "co_sessions (set_state s C) = co_sessions C"
  "co_approvals (set_state s C) = co_approvals C" "co_leases (set_state s C) = co_leases C" "co_env (set_state s C) = co_env C"
  "co_roots (set_state s C) = co_roots C" "co_policy (set_state s C) = co_policy C" "co_http (set_state s C) = co_http C"
  by (simp_all add: set_state_def)

lemma set_fault_sel [simp]:
  "co_settings (set_fault s C) = co_settings C" "co_state (set_fault s C) = co_state C" "co_fault (set_fault s C) = s"
  "co_gate (set_fault s C) = co_gate C" "co_latch (set_fault s C) = co_latch C" "co_sessions (set_fault s C) = co_sessions C"
  "co_approvals (set_fault s C) = co_approvals C" "co_leases (set_fault s C) = co_leases C" "co_env (set_fault s C) = co_env C"
  "co_roots (set_fault s C) = co_roots C" "co_policy (set_fault s C) = co_policy C" "co_http (set_fault s C) = co_http C"
  by (simp_all add: set_fault_def)

lemma emit_state_sel [simp]:
  "co_settings (emit_state C) = co_settings C" "co_state (emit_state C) = co_state C" "co_fault (emit_state C) = co_fault C"
  "co_gate (emit_state C) = co_gate C" "co_latch (emit_state C) = co_latch C" "co_sessions (emit_state C) = co_sessions C"
  "co_approvals (emit_state C) = co_approvals C" "co_leases (emit_state C) = co_leases C" "co_env (emit_state C) = co_env C"
  "co_roots (emit_state C) = co_roots C" "co_policy (emit_state C) = co_policy C" "co_http (emit_state C) = co_http C"
  by (simp_all add: emit_state_def)

lemma stop_http_sel [simp]:
  "co_settings (stop_http C) = co_settings C" "co_state (stop_http C) = co_state C" "co_fault (stop_http C) = co_fault C"
  "co_gate (stop_http C) = co_gate C" "co_latch (stop_http C) = co_latch C" "co_sessions (stop_http C) = co_sessions C"
  "co_approvals (stop_http C) = co_approvals C" "co_leases (stop_http C) = co_leases C" "co_env (stop_http C) = co_env C"
  "co_roots (stop_http C) = co_roots C" "co_policy (stop_http C) = co_policy C" "co_http (stop_http C) = None"
  by (simp_all add: stop_http_def split: option.split)

lemma invalidate_all_sel [simp]:
  "co_settings (invalidate_all w n r st C) = co_settings C" "co_state (invalidate_all w n r st C) = co_state C"
  "co_fault (invalidate_all w n r st C) = co_fault C"
  "co_gate (invalidate_all w n r st C) = co_gate C" "co_latch (invalidate_all w n r st C) = co_latch C"
  "co_sessions (invalidate_all w n r st C) = snd (end_all (cw_io w n) r (co_sessions C))"
  "co_approvals (invalidate_all w n r st C) = snd (invalidate (cw_io w (n + 1)) None None st r (co_approvals C))"
  "co_leases (invalidate_all w n r st C) = co_leases C" "co_env (invalidate_all w n r st C) = co_env C"
  "co_roots (invalidate_all w n r st C) = co_roots C" "co_policy (invalidate_all w n r st C) = co_policy C"
  "co_http (invalidate_all w n r st C) = co_http C"
  by (simp_all add: invalidate_all_def Let_def split: prod.split)

lemma on_session_ended_remote: "remote (on_session_ended w n e C) = remote C"
  by (simp add: on_session_ended_def remote_def Let_def split: prod.split)

lemma fold_remote: "(\<And>x C. remote (f x C) = remote C) \<Longrightarrow> remote (fold f xs C) = remote C"
  by (induction xs arbitrary: C) simp_all

lemma session_for_remote: "remote (snd (session_for w p ci pr rm C)) = remote C"
proof -
  have "remote (on_session_ended w 2 e (C\<lparr>co_sessions := S\<rparr>)) = remote C" for e S
    by (simp add: on_session_ended_remote) (simp add: remote_def)
  then show ?thesis
    by (auto simp: session_for_def Let_def remote_def split: prod.split sum.split option.split)
qed

lemma end_session_remote: "remote (end_session w sid reason C) = remote C"
  by (simp add: end_session_def remote_def Let_def split: prod.split option.split)

lemma client_access_removed_remote: "remote (snd (client_access_removed w c reason C)) = remote C"
  by (simp add: client_access_removed_def remote_def Let_def split: prod.split)

lemma request_approval_remote: "remote (snd (request_approval V w p s t a sc req dg sm C)) = remote C"
  by (simp add: request_approval_def remote_def Let_def split: prod.split sum.split)

lemma decide_approval_remote: "remote (snd (decide_approval w i d C)) = remote C"
  by (simp add: decide_approval_def remote_def Let_def split: prod.split sum.split option.split)

lemma project_write_guard_remote: "remote (snd (project_write_guard V w tp c p t C)) = remote C"
  by (simp add: project_write_guard_def remote_def Let_def split: prod.split option.split)

lemma on_task_finished_remote: "remote (on_task_finished w t c st cmd C) = remote C"
  by (simp add: on_task_finished_def remote_def Let_def)

lemma on_task_started_remote: "remote (on_task_started t c C) = remote C"
  by (simp add: on_task_started_def remote_def)

lemma keep_task_alive_remote: "remote (keep_task_alive w t C) = remote C"
  by (simp add: keep_task_alive_def remote_def)

lemma remote_update:
  "remote (call x C) = remote C" "remote (calls xs C) = remote C"
  "remote (C\<lparr>co_sessions := S\<rparr>) = remote C" "remote (C\<lparr>co_approvals := A\<rparr>) = remote C"
  "remote (C\<lparr>co_leases := M\<rparr>) = remote C"
  by (simp_all add: remote_def)

lemma maintenance_fast_remote: "remote (maintenance_fast w C) = remote C"
  by (simp add: maintenance_fast_def Let_def remote_update fold_remote on_session_ended_remote keep_task_alive_remote
      split: prod.split option.split)

lemma maintenance_slow_remote: "remote (maintenance_slow w C) = remote C"
  by (simp add: maintenance_slow_def remote_def Let_def)

lemmas remote_frames = session_for_remote end_session_remote client_access_removed_remote request_approval_remote
  decide_approval_remote project_write_guard_remote on_task_finished_remote on_task_started_remote maintenance_fast_remote maintenance_slow_remote
  on_session_ended_remote

section \<open>Runs\<close>

datatype system = Down disk | Up core

datatype core_event =
    CE_Start | CE_Exit | CE_EmergencyStop | CE_Resume | CE_Enable | CE_Pause | CE_RestartMcp | CE_Shutdown
  | CE_Session | CE_Client | CE_Approval | CE_Settings | CE_Background

text \<open>\<open>CE_Exit\<close> is the end of the process, in order or not; \<open>CE_Start\<close> covers a start that fails and leaves the disk as it made it.\<close>

inductive core_step :: "core_env \<Rightarrow> system \<Rightarrow> core_event \<Rightarrow> system \<Rightarrow> bool" for V where
  core_started: "stored = load (cv_config V) (cv_show_u32 V) settings_text backup \<Longrightarrow>
    start V w opts stored opened tasks audits d = (Inr C, d') \<Longrightarrow> core_step V (Down d) CE_Start (Up C)"
| core_not_started: "stored = load (cv_config V) (cv_show_u32 V) settings_text backup \<Longrightarrow>
    start V w opts stored opened tasks audits d = (Inl e, d') \<Longrightarrow> core_step V (Down d) CE_Start (Down d')"
| core_exit: "core_step V (Up C) CE_Exit (Down (disk_of C))"
| core_emergency_stop: "core_step V (Up C) CE_EmergencyStop (Up (snd (emergency_stop V w source C)))"
| core_resume: "core_step V (Up C) CE_Resume (Up (snd (resume_remote_access V w 0 C)))"
| core_enable: "core_step V (Up C) CE_Enable (Up (snd (enable_remote_access V w C)))"
| core_pause: "core_step V (Up C) CE_Pause (Up (snd (pause_remote_access V w C)))"
| core_restart_mcp: "core_step V (Up C) CE_RestartMcp (Up (snd (restart_mcp V w 0 terminate_tasks C)))"
| core_shutdown: "core_step V (Up C) CE_Shutdown (Up (shutdown w C))"
| core_session: "core_step V (Up C) CE_Session (Up (snd (session_for w p client_info protocol peer C)))"
| core_end_session: "core_step V (Up C) CE_Session (Up (end_session w sid reason C))"
| core_client_removed: "core_step V (Up C) CE_Client (Up (snd (client_access_removed w client reason C)))"
| core_request: "core_step V (Up C) CE_Approval
    (Up (snd (request_approval V w p session tool raw_args tool_scopes req digest summary C)))"
| core_decide: "core_step V (Up C) CE_Approval (Up (snd (decide_approval w i d C)))"
| core_guard: "core_step V (Up C) CE_Client (Up (snd (project_write_guard V w top_project client path task C)))"
| core_update: "core_step V (Up C) CE_Settings (Up (snd (update_settings V w next C)))"
| core_reset: "core_step V (Up C) CE_Settings (Up (snd (reset_settings V w C)))"
| core_task_finished: "core_step V (Up C) CE_Background (Up (on_task_finished w task client status cmd C))"
| core_task_started: "core_step V (Up C) CE_Background (Up (on_task_started task client C))"
| core_maintenance_fast: "core_step V (Up C) CE_Background (Up (maintenance_fast w C))"
| core_maintenance_slow: "core_step V (Up C) CE_Background (Up (maintenance_slow w C))"

section \<open>The invariant\<close>

text \<open>The listener runs exactly while calls are accepted, and then the latch reads as clear and the settings are sound; damaged
  settings never count as set up; and the engine that judges calls is the one of the current settings.\<close>

definition policy_current :: "core_env \<Rightarrow> core \<Rightarrow> bool" where
  "policy_current V C \<longleftrightarrow> co_policy C =
     PolicyEngine_new (cv_policy V) (policy_settings (settings_of C)) (co_roots C) (co_env C) (settings_fault C \<noteq> None)"

definition latch_clear :: "core \<Rightarrow> bool" where
  "latch_clear C \<longleftrightarrow> latch_get True (co_latch C) = Some False"

definition core_inv :: "core_env \<Rightarrow> core \<Rightarrow> bool" where
  "core_inv V C \<longleftrightarrow> (co_http C \<noteq> None \<longleftrightarrow> accepting C) \<and> (accepting C \<longrightarrow> latch_clear C \<and> settings_fault C = None)
     \<and> (settings_fault C \<noteq> None \<longrightarrow> \<not> st_setup_completed (settings_of C)) \<and> policy_current V C"

definition system_inv :: "core_env \<Rightarrow> system \<Rightarrow> bool" where
  "system_inv V x = (case x of Down _ \<Rightarrow> True | Up C \<Rightarrow> core_inv V C)"

lemma core_inv_frame: "remote C' = remote C \<Longrightarrow> core_inv V C \<Longrightarrow> core_inv V C'"
  by (simp add: core_inv_def remote_def accepting_def latch_clear_def policy_current_def)

lemma latch_clear_frame: "remote C' = remote C \<Longrightarrow> latch_clear C' = latch_clear C"
  by (simp add: remote_def latch_clear_def)

lemma latched_not_clear: "\<not> latched ok C \<Longrightarrow> latch_clear C"
  by (auto simp: latched_def latch_get_def latch_clear_def split: if_splits)

text \<open>A core that is not accepting and has no listener: from here only \<^verbatim>\<open>start_http\<close> opens it.\<close>

definition closed :: "core_env \<Rightarrow> core \<Rightarrow> bool" where
  "closed V C \<longleftrightarrow> co_http C = None \<and> (settings_fault C \<noteq> None \<longrightarrow> \<not> st_setup_completed (settings_of C)) \<and> policy_current V C"

lemma closed_inv: "closed V C \<Longrightarrow> s \<noteq> Ready \<Longrightarrow> core_inv V (set_state s C)"
  by (simp add: closed_def core_inv_def accepting_def policy_current_def)

lemma core_inv_closed: "core_inv V C \<Longrightarrow> closed V (stop_http C)"
  by (simp add: closed_def core_inv_def policy_current_def)

lemma start_http_inv:
  "core_inv V C \<Longrightarrow> latch_clear C \<Longrightarrow> settings_fault C = None \<Longrightarrow> core_inv V (snd (start_http w C))"
  by (auto simp: start_http_def core_inv_def accepting_def latch_clear_def policy_current_def split: option.split sum.split)

lemma start_or_fault_inv:
  "closed V C \<Longrightarrow> latch_clear C \<Longrightarrow> settings_fault C = None \<Longrightarrow> core_inv V (start_or_fault w C)"
  by (auto simp: start_or_fault_def start_http_def closed_def core_inv_def accepting_def latch_clear_def policy_current_def
      split: option.split sum.split)

lemma write_latch_sel:
  "write_latch V w n on src C = (r, C') \<Longrightarrow>
     C' = C\<lparr>co_latch := co_latch C'\<rparr> \<and> (r = Inr () \<longrightarrow> latch_get True (co_latch C') = Some on)
     \<and> (is_ok r \<longleftrightarrow> io_db_ok (cw_io w n)) \<and> (\<not> is_ok r \<longrightarrow> C' = C)"
  by (auto simp: write_latch_def latch_set_def Let_def latch_get_def json_get_def is_ok_def split: if_splits)

lemma write_gate_file_sel:
  "write_gate_file V w n on C = (r, C') \<Longrightarrow> C' = C\<lparr>co_gate := co_gate C'\<rparr> \<and> (is_ok r \<longleftrightarrow> cw_gate_ok w)"
  by (auto simp: write_gate_file_def write_gate_def Let_def is_ok_def split: if_splits)

lemma emergency_stop_sel:
  "co_state (snd (emergency_stop V w src C)) = EmergencyStopped" "co_http (snd (emergency_stop V w src C)) = None"
  "co_settings (snd (emergency_stop V w src C)) = co_settings C" "co_policy (snd (emergency_stop V w src C)) = co_policy C"
  "co_env (snd (emergency_stop V w src C)) = co_env C" "co_roots (snd (emergency_stop V w src C)) = co_roots C"
  "co_sessions (snd (emergency_stop V w src C)) = snd (end_all (cw_io w 0) ''emergency stop'' (co_sessions C))"
  "co_approvals (snd (emergency_stop V w src C)) =
     snd (invalidate (cw_io w 1) None None ''cancelled'' ''emergency stop'' (co_approvals C))"
  "co_leases (snd (emergency_stop V w src C)) = clear_leases (cw_io w 2) (co_leases C)"
  by (auto simp: emergency_stop_def Let_def write_latch_def write_gate_file_def split: prod.split sum.split)

lemma emergency_stop_latch:
  "co_latch (snd (emergency_stop V w src C)) =
     snd (latch_set (io_db_ok (cw_io w 3)) (cv_show_ms V (io_now (cw_io w 3))) True src (co_latch C))"
  by (auto simp: emergency_stop_def Let_def write_latch_def write_gate_file_def split: prod.split sum.split)

lemma emergency_stop_gate:
  "co_gate (snd (emergency_stop V w src C)) =
     snd (write_gate (cv_sha256_hex V) (cw_gate_ok w) (cv_show_ms V (io_now (cw_io w 4))) False (co_gate C))"
  by (auto simp: emergency_stop_def Let_def write_latch_def write_gate_file_def split: prod.split sum.split)

lemma emergency_stop_inv: "core_inv V C \<Longrightarrow> core_inv V (snd (emergency_stop V w src C))"
  by (simp add: core_inv_def accepting_def policy_current_def emergency_stop_sel)

lemma core_inv_latch_gate:
  "core_inv V C \<Longrightarrow> latch_get True l = Some False \<Longrightarrow> core_inv V (C\<lparr>co_latch := l, co_gate := g\<rparr>)"
  by (simp add: core_inv_def accepting_def latch_clear_def policy_current_def)

lemma core_inv_gate: "core_inv V C \<Longrightarrow> core_inv V (C\<lparr>co_gate := g\<rparr>)"
  by (rule core_inv_frame) (simp_all add: remote_def)

lemma core_inv_call [simp]: "core_inv V (call x C) = core_inv V C" "core_inv V (calls xs C) = core_inv V C"
  "core_inv V (emit_state C) = core_inv V C"
  by (simp_all add: core_inv_def accepting_def latch_clear_def policy_current_def)

lemma latch_clear_sel [simp]: "latch_clear (call x C) = latch_clear C" "latch_clear (calls xs C) = latch_clear C"
  "latch_clear (emit_state C) = latch_clear C" "latch_clear (set_state s C) = latch_clear C"
  "latch_clear (set_fault f C) = latch_clear C" "latch_clear (stop_http C) = latch_clear C"
  "latch_clear (invalidate_all w n r st C) = latch_clear C" "latch_clear (C\<lparr>co_gate := g\<rparr>) = latch_clear C"
  by (simp_all add: latch_clear_def)

lemma resume_inv:
  assumes "core_inv V C"
  shows "core_inv V (snd (resume_remote_access V w n C))"
proof (cases "settings_fault C = None \<and> io_db_ok (cw_io w n)")
  case False
  then show ?thesis using assms
    by (auto simp: resume_remote_access_def write_latch_def latch_set_def Let_def)
next
  case True
  define C1 where "C1 = snd (write_latch V w n False ''local resume'' C)"
  define C2 where "C2 = snd (write_gate_file V w (n + 1) True C1)"
  have w: "write_latch V w n False ''local resume'' C = (Inr (), C1)"
    using True by (simp add: C1_def write_latch_def latch_set_def Let_def)
  have "core_inv V C1" "latch_clear C1" "settings_fault C1 = None"
    using assms True
    by (simp_all add: C1_def write_latch_def latch_set_def Let_def core_inv_def accepting_def latch_clear_def policy_current_def
        latch_get_def json_get_def)
  then have inv: "core_inv V C2" "latch_clear C2" "settings_fault C2 = None"
    using core_inv_gate by (simp_all add: C2_def write_gate_file_def write_gate_def Let_def)
  then have "core_inv V (snd (start_http w (call Mcp_Resume (call (Audit_Record ''remote_access_resumed'') C2))))"
    using start_http_inv by simp
  moreover obtain r where "write_gate_file V w (n + 1) True C1 = (r, C2)"
    by (metis C2_def prod.collapse)
  ultimately show ?thesis
    using True w inv(1) by (auto simp: resume_remote_access_def Let_def split: sum.split prod.split)
qed

lemma enable_inv: "core_inv V C \<Longrightarrow> core_inv V (snd (enable_remote_access V w C))"
  by (simp add: enable_remote_access_def resume_inv)

lemma pause_inv:
  assumes "core_inv V C"
  shows "core_inv V (snd (pause_remote_access V w C))"
proof (cases "cw_gate_ok w")
  case False
  then show ?thesis using assms by (auto simp: pause_remote_access_def write_gate_file_def write_gate_def Let_def)
next
  case True
  have "core_inv V (invalidate_all w 1 r st (stop_http (set_state Paused (C\<lparr>co_gate := g\<rparr>))))" for r st g
    using assms by (simp add: core_inv_def accepting_def policy_current_def)
  with True show ?thesis
    by (auto simp: pause_remote_access_def write_gate_file_def write_gate_def Let_def split: sum.split)
qed

lemma closed_frame: "closed V C \<Longrightarrow> co_settings C' = co_settings C \<Longrightarrow> co_http C' = co_http C \<Longrightarrow> co_env C' = co_env C \<Longrightarrow>
    co_roots C' = co_roots C \<Longrightarrow> co_policy C' = co_policy C \<Longrightarrow> closed V C'"
  by (simp add: closed_def policy_current_def)

lemma restart_mcp_inv:
  assumes "core_inv V C"
  shows "core_inv V (snd (restart_mcp V w n kill C))"
proof -
  define C1 where "C1 = stop_http (emit_state (set_state Restarting C))"
  define C2 where "C2 = (if kill then call Tasks_KillAll C1 else C1)"
  define C3 where "C3 = call (Audit_Record ''mcp_restart'') (invalidate_all w n ''MCP restart'' ''invalidated'' C2)"
  have C3: "closed V C3"
    using core_inv_closed [OF assms] by (rule closed_frame) (simp_all add: C1_def C2_def C3_def)
  have "co_settings C3 = co_settings C" by (simp add: C1_def C2_def C3_def)
  then have sound: "settings_fault C3 = None" if "co_state C = Ready \<or> st_setup_completed (settings_of C3)"
    using that assms by (auto simp: core_inv_def accepting_def)
  show ?thesis
    using closed_inv [OF C3] start_or_fault_inv [OF C3] latched_not_clear [of _ C3] sound
    by (auto simp: restart_mcp_def Let_def simp flip: C1_def C2_def C3_def)
qed

lemma shutdown_inv: "core_inv V C \<Longrightarrow> core_inv V (shutdown w C)"
  by (simp add: shutdown_def core_inv_def accepting_def policy_current_def)

lemma rebuild_policy_sel [simp]:
  "co_settings (rebuild_policy V w C) = co_settings C" "co_state (rebuild_policy V w C) = co_state C"
  "co_fault (rebuild_policy V w C) = co_fault C" "co_gate (rebuild_policy V w C) = co_gate C"
  "co_latch (rebuild_policy V w C) = co_latch C" "co_sessions (rebuild_policy V w C) = co_sessions C"
  "co_approvals (rebuild_policy V w C) = co_approvals C" "co_leases (rebuild_policy V w C) = co_leases C"
  "co_env (rebuild_policy V w C) = co_env C" "co_http (rebuild_policy V w C) = co_http C"
  by (simp_all add: rebuild_policy_def Let_def)

lemma rebuild_policy_current: "policy_current V (rebuild_policy V w C)"
  by (simp add: rebuild_policy_def policy_current_def Let_def)

lemma rebuild_inv: "core_inv V C \<Longrightarrow> sst_fault T = None \<Longrightarrow> core_inv V (rebuild_policy V w (C\<lparr>co_settings := T\<rparr>))"
  using rebuild_policy_current [of V w "C\<lparr>co_settings := T\<rparr>"]
  by (simp add: core_inv_def accepting_def latch_clear_def)

lemma update_store_cases:
  obtains e where "update_store K sv n T = (Inl e, T)"
  | T' where "update_store K sv n T = (Inr (sst_current T, sst_current T'), T')" "sst_fault T' = None"
      "sst_current T' = next_settings (sst_current T) n"
proof (cases "save K sv (next_settings (sst_current T) n)")
  case (Inl e)
  then show thesis using that(1) [of e] by (simp add: update_store_def Let_def)
next
  case (Inr u)
  then show thesis
    using that(2) [of "\<lparr>sst_current = next_settings (sst_current T) n, sst_fault = None\<rparr>"] by (simp add: update_store_def Let_def)
qed

text \<open>The service after an accepted update, before its listener is restarted.\<close>

definition updated :: "core_env \<Rightarrow> core_world \<Rightarrow> settings_store \<Rightarrow> core \<Rightarrow> core" where
  "updated V w T C =
     (let n = sst_current T;
          C1 = call (Tasks_SetMaxOutput (pc_max_output_bytes_per_task (st_process n))) (rebuild_policy V w (C\<lparr>co_settings := T\<rparr>));
          C2 = C1\<lparr>co_sessions := apply_limits (st_sessions n) (co_sessions C1)\<rparr> in
      call (Audit_Record ''settings_change'')
        (if st_policy_revision (settings_of C) \<noteq> st_policy_revision n
         then (let (ids, A) = invalidate (cw_io w 1) None None ''invalidated'' ''security settings changed'' (co_approvals C2) in
           calls (map (\<lambda>i. Emit (ApprovalChanged i ''invalidated'')) ids)
             (C2\<lparr>co_sessions := clear_grants (cw_io w 0) (co_sessions C2), co_approvals := A\<rparr>))
         else C2))"

lemma update_settings_updated:
  assumes "update_store (cv_config V) (cw_save w) n (co_settings C) = (Inr (settings_of C, sst_current T), T)"
  shows "update_settings V w n C = (Inr (sst_current T),
    call (Emit (SettingsChanged (st_policy_revision (sst_current T))))
      (if st_network (settings_of C) \<noteq> st_network (sst_current T) \<and> co_state (updated V w T C) = Ready
       then snd (restart_mcp V w 2 False (updated V w T C)) else updated V w T C))"
  using assms by (simp add: update_settings_def updated_def Let_def)

lemma updated_sel:
  "remote (updated V w T C) = remote (rebuild_policy V w (C\<lparr>co_settings := T\<rparr>))"
  by (simp add: updated_def Let_def remote_def split: prod.split)

lemma update_settings_inv:
  assumes "core_inv V C"
  shows "core_inv V (snd (update_settings V w n C))"
proof (cases rule: update_store_cases [of "cv_config V" "cw_save w" n "co_settings C"])
  case (1 e)
  then show ?thesis using assms by (simp add: update_settings_def)
next
  case (2 T)
  have "core_inv V (updated V w T C)"
    using core_inv_frame [OF updated_sel rebuild_inv [OF assms 2(2)]] .
  then show ?thesis using restart_mcp_inv by (simp add: update_settings_updated [OF 2(1)])
qed

lemma reset_settings_inv:
  assumes "core_inv V C"
  shows "core_inv V (snd (reset_settings V w C))"
proof (cases "save (cv_config V) (cw_save w) (Settings_default\<lparr>st_policy_revision := st_policy_revision (settings_of C) + 1\<rparr>)")
  case (Inl e)
  then show ?thesis using assms by (simp add: reset_settings_def reset_to_defaults_def Let_def)
next
  case (Inr u)
  define C1 where "C1 = rebuild_policy V w (C\<lparr>co_settings :=
    \<lparr>sst_current = Settings_default\<lparr>st_policy_revision := st_policy_revision (settings_of C) + 1\<rparr>, sst_fault = None\<rparr>\<rparr>)"
  have "core_inv V C1" unfolding C1_def by (rule rebuild_inv [OF assms]) simp
  moreover have "core_inv V (set_fault None (set_state Paused (call x C1)))" if "co_state C = Faulted" for x
    using that \<open>core_inv V C1\<close> by (simp add: C1_def core_inv_def accepting_def policy_current_def)
  ultimately show ?thesis
    using Inr by (simp add: reset_settings_def reset_to_defaults_def Let_def flip: C1_def)
qed

lemma load_faulted: "settings_fault C \<noteq> None \<Longrightarrow> co_settings C = SettingsStore_load (load K sh t b) \<Longrightarrow>
    \<not> st_setup_completed (settings_of C)"
  by (auto simp: SettingsStore_load_def load_def Settings_default_def split: sum.splits if_splits)

lemma fresh_core_closed:
  assumes "T = (case op_settings_override opts of Some s \<Rightarrow> SettingsStore_from_settings s
    | None \<Rightarrow> SettingsStore_load (load K sh t b))"
  shows "closed V (fresh_core V w opts T trusted d)"
  using assms load_faulted [of "fresh_core V w opts T trusted d" K sh t b]
  by (auto simp: closed_def fresh_core_def Let_def policy_current_def SettingsStore_from_settings_def split: option.splits)

lemma recover_closed: "closed V C \<Longrightarrow> recover w tasks audits C = (r, C') \<Longrightarrow> closed V C' \<and> co_latch C' = co_latch C"
  by (auto simp: recover_def closed_def policy_current_def split: sum.splits prod.splits)

lemma open_gate_inv: "closed V C \<Longrightarrow> core_inv V (open_gate V w C)"
  using latched_not_clear [of _ C]
  by (auto simp: open_gate_def closed_inv start_or_fault_inv split: option.split)
     (auto simp: closed_def core_inv_def accepting_def policy_current_def)

lemma start_inv:
  assumes "start V w opts (load K sh t b) opened tasks audits d = (Inr C, d')"
  shows "core_inv V C"
proof -
  define T where "T = (case op_settings_override opts of Some s \<Rightarrow> SettingsStore_from_settings s
    | None \<Rightarrow> SettingsStore_load (load K sh t b))"
  obtain trusted C0 u where r: "recover w tasks audits (fresh_core V w opts T trusted d) = (Inr u, C0)"
      and C: "C = emit_state (open_gate V w C0)"
    using assms by (auto simp: start_def Let_def simp flip: T_def split: sum.splits option.splits prod.splits)
  have "closed V C0" using recover_closed [OF fresh_core_closed [OF T_def] r] by simp
  then show ?thesis using open_gate_inv C by simp
qed

text \<open>A start that finds its storage and the workspace succeeds.\<close>

definition started_core :: "core_env \<Rightarrow> core_world \<Rightarrow> core_options \<Rightarrow> settings_store \<Rightarrow> string \<Rightarrow> disk \<Rightarrow> core" where
  "started_core V w opts T trusted d =
     emit_state (open_gate V w (snd (recover w (Inr ()) (Inr ()) (fresh_core V w opts T trusted d))))"

lemma recover_ok:
  "io_db_ok (cw_io w 1) \<Longrightarrow> io_db_ok (cw_io w 2) \<Longrightarrow>
     recover w (Inr ()) (Inr ()) C = (Inr (), snd (recover w (Inr ()) (Inr ()) C))"
  by (simp add: recover_def startup_recovery_def end_all_persisted_def)

lemma start_returns:
  assumes "T = (case op_settings_override opts of Some s \<Rightarrow> SettingsStore_from_settings s | None \<Rightarrow> SettingsStore_load stored)"
    and "or_else (st_root_override (sst_current T)) (cw_default_root w) = Some trusted"
    and "io_db_ok (cw_io w 1)" and "io_db_ok (cw_io w 2)"
  shows "start V w opts stored (Inr ()) (Inr ()) (Inr ()) d =
    (Inr (started_core V w opts T trusted d), disk_of (started_core V w opts T trusted d))"
proof -
  have "fst (recover w (Inr ()) (Inr ()) C) = Inr ()" for C
    by (metis recover_ok [OF assms(3,4)] fst_conv)
  then show ?thesis
    using assms(2) by (simp add: start_def started_core_def Let_def case_prod_unfold flip: assms(1))
qed

lemma core_step_inv: "core_step V x e y \<Longrightarrow> system_inv V x \<Longrightarrow> system_inv V y"
  by (induction rule: core_step.induct)
     (auto simp: system_inv_def start_inv emergency_stop_inv resume_inv enable_inv pause_inv restart_mcp_inv shutdown_inv
       update_settings_inv reset_settings_inv remote_frames intro: core_inv_frame)

interpretation core_runs: invariant_system "core_step V" "system_inv V" for V
  by unfold_locales (rule core_step_inv)

section \<open>The latch\<close>

text \<open>The latch as the database keeps it, whether or not a process runs.\<close>

definition latch_row :: "system \<Rightarrow> json option" where
  "latch_row x = (case x of Down d \<Rightarrow> di_latch d | Up C \<Rightarrow> co_latch C)"

definition stopped :: "system \<Rightarrow> bool" where
  "stopped x \<longleftrightarrow> latch_get True (latch_row x) = Some True"

lemma start_http_latch [simp]: "co_latch (snd (start_http w C)) = co_latch C"
  by (auto simp: start_http_def split: option.split sum.split)

lemma start_or_fault_latch [simp]: "co_latch (start_or_fault w C) = co_latch C"
  by (simp add: start_or_fault_def start_http_def split: option.split sum.split)

lemma start_or_fault_sel [simp]: "co_sessions (start_or_fault w C) = co_sessions C"
  "co_approvals (start_or_fault w C) = co_approvals C" "co_settings (start_or_fault w C) = co_settings C"
  by (simp_all add: start_or_fault_def start_http_def split: option.split sum.split)

lemma write_gate_file_latch [simp]: "co_latch (snd (write_gate_file V w n on C)) = co_latch C"
  by (simp add: write_gate_file_def Let_def split: prod.split)

lemma restart_mcp_latch: "co_latch (snd (restart_mcp V w n kill C)) = co_latch C"
  by (simp add: restart_mcp_def Let_def)

lemma pause_latch: "co_latch (snd (pause_remote_access V w C)) = co_latch C"
  by (auto simp: pause_remote_access_def write_gate_file_def write_gate_def Let_def split: sum.split)

lemma update_settings_latch: "co_latch (snd (update_settings V w n C)) = co_latch C"
proof (cases rule: update_store_cases [of "cv_config V" "cw_save w" n "co_settings C"])
  case (1 e)
  then show ?thesis by (simp add: update_settings_def)
next
  case (2 T)
  have "co_latch (updated V w T C) = co_latch C" using updated_sel [of V w T C] by (simp add: remote_def)
  then show ?thesis by (simp add: update_settings_updated [OF 2(1)] restart_mcp_latch)
qed

lemma reset_settings_latch: "co_latch (snd (reset_settings V w C)) = co_latch C"
  by (simp add: reset_settings_def Let_def split: prod.split sum.split)

lemma open_gate_latch: "co_latch (open_gate V w C) = co_latch C"
  by (simp add: open_gate_def split: option.split)

lemma recover_latch: "co_latch (snd (recover w tasks audits C)) = co_latch C"
  by (auto simp: recover_def split: sum.splits prod.splits)

lemma fresh_core_latch: "co_latch (fresh_core V w opts T trusted d) = di_latch d"
  by (simp add: fresh_core_def Let_def)

lemma start_latch:
  assumes "start V w opts stored opened tasks audits d = (r, d')"
  shows "di_latch d' = di_latch d \<and> (\<forall>C. r = Inr C \<longrightarrow> co_latch C = di_latch d)"
  using assms recover_latch [of w tasks audits] fresh_core_latch [of V w opts]
  by (auto simp: start_def Let_def disk_of_def open_gate_latch split: sum.splits option.splits prod.splits)
     (metis snd_conv)+

lemma enable_stopped: "latch_get True (co_latch C) = Some True \<Longrightarrow> snd (enable_remote_access V w C) = C"
  by (auto simp: enable_remote_access_def latched_def latch_get_def)

lemma remote_latch: "remote C' = remote C \<Longrightarrow> co_latch C' = co_latch C"
  by (simp add: remote_def)

lemma stopped_stays: "core_step V x e y \<Longrightarrow> stopped x \<Longrightarrow> e \<noteq> CE_Resume \<Longrightarrow> stopped y"
proof (induction rule: core_step.induct)
  case (core_emergency_stop C w source)
  then show ?case
    by (auto simp: stopped_def latch_row_def emergency_stop_latch latch_set_def latch_get_def json_get_def)
qed (auto simp: stopped_def latch_row_def enable_stopped pause_latch restart_mcp_latch update_settings_latch
       reset_settings_latch shutdown_def disk_of_def dest: start_latch
       simp: remote_frames [THEN remote_latch])

text \<open>C8: In every run of the service, whatever operations, crashes and restarts it has, a process that accepts remote calls runs
  its listener, found the Emergency Stop latch clear and its settings sound; a process that does not
  accept them has no listener.\<close>

theorem ready_is_clear:
  assumes "run (core_step V) (Down d) es (Up C)"
  shows "(accepting C \<longrightarrow> latch_get True (co_latch C) = Some False \<and> settings_fault C = None)
    \<and> (co_http C \<noteq> None \<longleftrightarrow> accepting C)"
  using core_runs.run_inv [OF assms] by (simp add: system_inv_def core_inv_def latch_clear_def)

text \<open>C6: Once Emergency Stop has stored its latch, no process accepts a call again before the local user resumes: no restart, no
  settings change, no enabling and no MCP restart reopens remote access.\<close>

theorem stopped_until_resume:
  assumes "run (core_step V) (Down d) es (Up C)" and "io_db_ok (cw_io w 3)"
    and "run (core_step V) (Up (snd (emergency_stop V w source C))) later (Up C')" and "CE_Resume \<notin> set later"
  shows "\<not> accepting C' \<and> co_http C' = None \<and> latch_get True (co_latch C') = Some True"
proof -
  have "stopped (Up (snd (emergency_stop V w source C)))"
    using assms(2) by (simp add: stopped_def latch_row_def emergency_stop_latch latch_get_set)
  with assms(3,4) have "stopped (Up C')"
    by (induction rule: run.induct) (auto intro: stopped_stays)
  moreover have "core_inv V C'"
    using core_runs.run_inv [OF assms(3)] core_runs.run_inv [OF assms(1)] emergency_stop_inv by (simp add: system_inv_def)
  ultimately show ?thesis by (auto simp: stopped_def latch_row_def core_inv_def latch_clear_def)
qed

section \<open>What is left open\<close>

text \<open>No approval with one of the open states that the two filters select.\<close>

definition none_open :: "string option \<Rightarrow> string option \<Rightarrow> approval_service \<Rightarrow> bool" where
  "none_open client sid A \<longleftrightarrow> list_all (\<lambda>r. \<not> matches client sid r) (as_approvals A)"

lemma invalidate_none_open:
  assumes "io_db_ok w" and "\<not> open_status status"
  shows "none_open client sid (snd (invalidate w client sid status note A))"
  using assms
  by (auto simp: none_open_def invalidate_def Let_def list_all_iff update_where_def matches_def)

lemma end_where_active: "sv_active (snd (end_where w P r S)) = filter (\<lambda>e. \<not> P (snd e)) (sv_active S)"
  by (simp add: end_where_def Let_def delete_where_def)

lemma end_all_active: "sv_active (snd (end_all w r S)) = []"
  by (simp add: end_all_def end_where_active)

lemma clear_leases_empty: "lg_leases (clear_leases w M) = []"
  by (simp add: clear_leases_def sync_locks_def)

text \<open>C12: Emergency Stop always takes effect: whatever fails, no call is accepted, the listener is gone, every session and every
  lease is dropped from memory; and what the database and the gate file accept is closed there too: the latch is set,
  no approval is open, and the gate no longer reads as enabled.\<close>

theorem emergency_stop_closes:
  assumes "\<And>x. one_line (cv_sha256_hex V x)" and "\<And>t. one_line (cv_show_ms V t)"
  shows "\<not> accepting (snd (emergency_stop V w source C)) \<and> co_http (snd (emergency_stop V w source C)) = None
    \<and> list_sessions (co_sessions (snd (emergency_stop V w source C))) = []
    \<and> lg_leases (co_leases (snd (emergency_stop V w source C))) = []
    \<and> (io_db_ok (cw_io w 3) \<longrightarrow> latch_get True (co_latch (snd (emergency_stop V w source C))) = Some True)
    \<and> (io_db_ok (cw_io w 1) \<longrightarrow> none_open None None (co_approvals (snd (emergency_stop V w source C))))
    \<and> (cw_gate_ok w \<longrightarrow> \<not> gate_enabled (cv_sha256_hex V) (co_gate (snd (emergency_stop V w source C))))"
proof (intro conjI impI)
  show "\<not> accepting (snd (emergency_stop V w source C))" "co_http (snd (emergency_stop V w source C)) = None"
    "list_sessions (co_sessions (snd (emergency_stop V w source C))) = []"
    "lg_leases (co_leases (snd (emergency_stop V w source C))) = []"
    by (simp_all add: accepting_def emergency_stop_sel list_sessions_def end_all_active clear_leases_empty)
next
  assume "io_db_ok (cw_io w 3)"
  then show "latch_get True (co_latch (snd (emergency_stop V w source C))) = Some True"
    by (simp add: emergency_stop_latch latch_get_set)
next
  assume "io_db_ok (cw_io w 1)"
  then show "none_open None None (co_approvals (snd (emergency_stop V w source C)))"
    by (simp add: emergency_stop_sel invalidate_none_open open_status_def)
next
  assume "cw_gate_ok w"
  then show "\<not> gate_enabled (cv_sha256_hex V) (co_gate (snd (emergency_stop V w source C)))"
    using read_gate_write [of "cv_sha256_hex V" "cv_show_ms V (io_now (cw_io w 4))" False] assms
    by (simp add: emergency_stop_gate gate_enabled_def)
qed

lemma client_leases: "l \<in> set (concat (map snd (lg_leases (release_client w c M)))) \<Longrightarrow> ls_holder_client_id l \<noteq> c"
  by (auto simp: release_client_def sync_locks_def retain_leases_def non_empty_def split: if_splits)

text \<open>Removing a client's access leaves it nothing: no session, no lease and, when the database takes the change, no open approval;
  the sessions of other clients stay as they were.\<close>

theorem client_removed:
  assumes "client_access_removed w client reason C = (killed, C')"
  shows "sv_active (co_sessions C') = filter (\<lambda>e. ses_client_id (snd e) \<noteq> client) (sv_active (co_sessions C))
    \<and> list_all (\<lambda>l. ls_holder_client_id l \<noteq> client) (concat (map snd (lg_leases (co_leases C'))))
    \<and> (io_db_ok (cw_io w 1) \<longrightarrow> none_open (Some client) None (co_approvals C'))"
proof -
  have "co_sessions C' = snd (end_client (cw_io w 0) client reason (co_sessions C))"
    and "co_leases C' = release_client (cw_io w 2) client (co_leases C)"
    and "co_approvals C' = snd (invalidate (cw_io w 1) (Some client) None ''cancelled'' reason (co_approvals C))"
    using assms by (auto simp: client_access_removed_def Let_def split: prod.splits)
  then show ?thesis
    using client_leases [of _ "cw_io w 2" client "co_leases C"]
    by (auto simp: end_client_def end_where_active list_all_iff invalidate_none_open open_status_def)
qed

section \<open>Settings\<close>

lemma updated_revised:
  assumes "st_policy_revision (settings_of C) \<noteq> st_policy_revision (sst_current T)"
  shows "co_sessions (updated V w T C) = clear_grants (cw_io w 0) (apply_limits (st_sessions (sst_current T)) (co_sessions C))"
    and "co_approvals (updated V w T C) =
      snd (invalidate (cw_io w 1) None None ''invalidated'' ''security settings changed'' (co_approvals C))"
  using assms by (simp_all add: updated_def Let_def split: prod.split)

lemma restart_mcp_sessions:
  "co_sessions (snd (restart_mcp V w n kill C)) = snd (end_all (cw_io w n) ''MCP restart'' (co_sessions C))"
  "co_approvals (snd (restart_mcp V w n kill C)) =
     snd (invalidate (cw_io w (n + 1)) None None ''invalidated'' ''MCP restart'' (co_approvals C))"
  by (simp_all add: restart_mcp_def Let_def)

lemma restart_mcp_policy: "co_settings (snd (restart_mcp V w n kill C)) = co_settings C"
  by (simp add: restart_mcp_def Let_def)

lemma invalidate_keeps_closed:
  "none_open client sid A \<Longrightarrow> \<not> open_status status \<Longrightarrow> none_open client sid (snd (invalidate w c' s' status note A))"
  by (auto simp: none_open_def invalidate_def Let_def list_all_iff update_where_def matches_def)

definition no_grants :: "session_service \<Rightarrow> bool" where
  "no_grants S \<longleftrightarrow> list_all (\<lambda>e. scopes (snd e) = []) (sv_active S)"

lemma clear_grants_none: "no_grants (clear_grants w S)"
  by (simp add: no_grants_def clear_grants_def list_all_iff map_session_def scopes_def)

lemma end_all_none: "no_grants (snd (end_all w r S))"
  by (simp add: no_grants_def end_all_active)

text \<open>C24: A settings change that moves the policy revision takes back what was approved under the old one: afterwards no session
  holds a grant, no approval is open if the database took the change, and the policy engine is the one of the new settings.\<close>

theorem update_revokes_approvals:
  assumes "update_settings V w n C = (Inr s, C')" and "st_policy_revision s \<noteq> st_policy_revision (settings_of C)"
    and "core_inv V C"
  shows "settings_of C' = s \<and> no_grants (co_sessions C') \<and> (io_db_ok (cw_io w 1) \<longrightarrow> none_open None None (co_approvals C'))
    \<and> pe_settings (co_policy C') = policy_settings s"
proof (cases rule: update_store_cases [of "cv_config V" "cw_save w" n "co_settings C"])
  case (1 e)
  then show ?thesis using assms(1) by (simp add: update_settings_def)
next
  case (2 T)
  let ?U = "updated V w T C"
  have s: "s = sst_current T" using assms(1) by (simp add: update_settings_updated [OF 2(1)])
  have set: "co_settings ?U = T" using updated_sel [of V w T C] by (simp add: remote_def)
  have rev: "st_policy_revision (settings_of C) \<noteq> st_policy_revision (sst_current T)" using assms(2) s by simp
  have C': "co_settings C' = T" "co_sessions C' = co_sessions ?U \<or> co_sessions C' = snd (end_all (cw_io w 2) ''MCP restart'' (co_sessions ?U))"
    "co_approvals C' = co_approvals ?U \<or> co_approvals C' =
       snd (invalidate (cw_io w 3) None None ''invalidated'' ''MCP restart'' (co_approvals ?U))"
    using assms(1) set by (auto simp: update_settings_updated [OF 2(1)] restart_mcp_policy restart_mcp_sessions eval_nat_numeral)
  have "core_inv V C'" using update_settings_inv [OF assms(3), of w n] assms(1) by simp
  then have "pe_settings (co_policy C') = policy_settings s"
    using C'(1) s by (simp add: core_inv_def policy_current_def PolicyEngine_new_def)
  moreover have "no_grants (co_sessions C')"
    using C'(2) end_all_none clear_grants_none by (auto simp: updated_revised(1) [OF rev])
  moreover have "none_open None None (co_approvals C')" if "io_db_ok (cw_io w 1)"
    using C'(3) that invalidate_none_open [of "cw_io w 1" "''invalidated''"] invalidate_keeps_closed
    by (auto simp: updated_revised(2) [OF rev] open_status_def)
  ultimately show ?thesis using C'(1) s by simp
qed

text \<open>Resetting the settings replaces every rule and advances the revision but takes nothing back: the sessions keep their
  grants and the approvals stay as they are.\<close>

theorem reset_keeps_grants:
  assumes "reset_settings V w C = (Inr s, C')"
  shows "st_policy_revision s = st_policy_revision (settings_of C) + 1
    \<and> co_sessions C' = co_sessions C \<and> co_approvals C' = co_approvals C
    \<and> pe_settings (co_policy C') = policy_settings (Settings_default\<lparr>st_policy_revision := st_policy_revision s\<rparr>)"
  using assms
  by (auto simp: reset_settings_def reset_to_defaults_def Let_def rebuild_policy_def PolicyEngine_new_def
      split: sum.splits if_splits)

section \<open>Sessions\<close>

lemma sorted_dedup: "sorted xs \<Longrightarrow> distinct (dedup xs) \<and> sorted (dedup xs)"
  by (induction xs rule: dedup.induct) auto

definition live_clients :: "int \<Rightarrow> session_service \<Rightarrow> string set" where
  "live_clients now S = ses_client_id ` {s \<in> snd ` set (sv_active S). expired s now = None}"

lemma active_clients_set: "set (active_client_ids now S) = live_clients now S"
  by (auto simp: active_client_ids_def live_clients_def)

lemma active_clients: "length (active_client_ids now S) = card (live_clients now S)"
proof -
  have "distinct (active_client_ids now S)"
    by (simp add: active_client_ids_def sorted_dedup)
  then show ?thesis by (simp flip: distinct_card active_clients_set)
qed

lemma finite_live_clients: "finite (live_clients now S)"
  by (simp add: live_clients_def)

lemma resolve_active:
  assumes "resolve_session w client cred cfg S = (Inr r, S')"
  shows "set (sv_active S') \<subseteq> insert ((client, cred), new_session w client cred cfg) (set (sv_active S))"
  using assms
  by (auto simp: resolve_session_def open_session_def Let_def delete_where_def split: option.splits if_splits)

lemma resolve_live_clients:
  assumes "resolve_session w client cred cfg S = (Inr r, S')"
  shows "live_clients now S' \<subseteq> insert client (live_clients now S)"
proof
  fix c
  assume "c \<in> live_clients now S'"
  then obtain e where e: "e \<in> set (sv_active S')" "c = ses_client_id (snd e)" "expired (snd e) now = None"
    by (auto simp: live_clients_def)
  then consider "e = ((client, cred), new_session w client cred cfg)" | "e \<in> set (sv_active S)"
    using resolve_active [OF assms] by auto
  then show "c \<in> insert client (live_clients now S)"
    using e by cases (auto simp: live_clients_def intro!: image_eqI [of _ _ "snd e"])
qed

lemma session_for_sessions:
  assumes "session_for w p ci pr rm C = (Inr s, C')"
  obtains e where "resolve_session (cw_io w 1) (pr_client_id p) (pr_credential_id p) (st_sessions (settings_of C)) (co_sessions C)
      = (Inr (s, e), co_sessions C')"
    and "listed_client (st_concurrency (settings_of C)) p"
    and "pr_client_id p \<in> live_clients (io_now (cw_io w 0)) (co_sessions C)
      \<or> card (live_clients (io_now (cw_io w 0)) (co_sessions C)) < unat (client_limit (st_concurrency (settings_of C)))"
proof -
  have ended: "co_sessions (on_session_ended w 2 e D) = co_sessions D" for e D
    by (simp add: on_session_ended_def Let_def split: prod.split)
  show thesis
    using assms that
    by (auto simp: session_for_def Let_def ended active_clients_set active_clients not_le
        split: if_splits prod.splits sum.splits option.splits)
qed

text \<open>Admission is bounded: a call gets a session only for a listed client, and the number of clients with a live session then is
  at most the configured limit (one without multiple agents), unless it already was above it and did not grow.\<close>

theorem session_for_bounded:
  assumes "session_for w p client_info protocol peer C = (Inr s, C')"
  shows "listed_client (st_concurrency (settings_of C)) p
    \<and> card (live_clients (io_now (cw_io w 0)) (co_sessions C'))
      \<le> max (unat (client_limit (st_concurrency (settings_of C)))) (card (live_clients (io_now (cw_io w 0)) (co_sessions C)))"
proof -
  let ?L = "live_clients (io_now (cw_io w 0))"
  obtain e where r: "resolve_session (cw_io w 1) (pr_client_id p) (pr_credential_id p) (st_sessions (settings_of C)) (co_sessions C)
      = (Inr (s, e), co_sessions C')"
    and l: "listed_client (st_concurrency (settings_of C)) p"
    and n: "pr_client_id p \<in> ?L (co_sessions C) \<or> card (?L (co_sessions C)) < unat (client_limit (st_concurrency (settings_of C)))"
    using session_for_sessions [OF assms] by metis
  have "card (?L (co_sessions C')) \<le> card (insert (pr_client_id p) (?L (co_sessions C)))"
    using resolve_live_clients [OF r] finite_live_clients by (meson card_mono finite.insertI)
  with n l show ?thesis
    using finite_live_clients by (auto simp: card_insert_if insert_absorb split: if_splits)
qed

section \<open>Approvals\<close>

lemma decide_view:
  assumes "decide w i d lt A = (Inr view, A')"
  obtains r where "find_by ap_id i (as_approvals A) = Some r" and "av_session_id view = ap_session_id r"
    and "d \<noteq> DenyRequest \<Longrightarrow> as_ops A' = as_ops A"
proof -
  obtain r where r: "find_by ap_id i (as_approvals A) = Some r"
    using assms by (auto simp: decide_def split: if_splits option.splits)
  have "find_by ap_id i (decide_rows w i d lt (as_approvals A)) = Some (r\<lparr>ap_status := decision_status d,
      ap_decided_at := Some (io_now w),
      ap_expires_at := (if d = DenyRequest then ap_expires_at r else io_now w + as_i64 lt * MINUTE_MS)\<rparr>)"
    unfolding decide_rows_def using approval_rows.change_row [OF _ r, of _ i] by simp
  then show thesis
    using assms r that by (auto simp: decide_def get_approval_def row_to_view_def Let_def split: if_splits)
qed

lemma find_map_session: "find (\<lambda>s. ses_id s = sid) (map snd (update_first (\<lambda>e. ses_id (snd e) = sid) (map_session (push_grant g)) es))
    = map_option (push_grant g) (find (\<lambda>s. ses_id s = sid) (map snd es))"
  by (induction es) (auto simp: map_session_def push_grant_def)

lemma add_session_grant_get:
  "get_session S sid = Some s \<Longrightarrow> get_session (snd (add_session_grant w sid g S)) sid = Some (push_grant g s)"
  by (simp add: add_session_grant_def get_session_def find_map_session Let_def)

lemma update_first_others:
  "distinct (map k xs) \<Longrightarrow> (\<And>x. k (f x) = k x) \<Longrightarrow>
     update_first (\<lambda>x. k x = y) f xs = map (\<lambda>x. if k x = y then f x else x) xs"
  by (induction xs) (auto simp: image_iff intro!: map_idI [symmetric])

text \<open>The grants a decision adds: the request's scope for \<^verbatim>\<open>AllowSession\<close>, nothing else.\<close>

definition granted_scopes :: "local_decision \<Rightarrow> string \<Rightarrow> approval_service \<Rightarrow> session_scope list" where
  "granted_scopes d i A = (if d = AllowSession then (case approval_scope A i of None \<Rightarrow> [] | Some s \<Rightarrow> [s]) else [])"

lemma session_ids_distinct: "session_inv S \<Longrightarrow> distinct (map (\<lambda>e. ses_id (snd e)) (sv_active S))"
  by (simp add: session_inv_def idents_ok_def comp_def ident_def)

text \<open>A decision of the local user grants no more than what was asked, and to nobody else: the session the request came from gets
  the request's scope exactly when it was allowed for the session, and every other session keeps its grants.\<close>

theorem decision_grants:
  assumes "decide_approval w i d C = (Inr view, C')" and "session_inv (co_sessions C)"
  shows "map (\<lambda>e. (ses_id (snd e), scopes (snd e))) (sv_active (co_sessions C')) =
    map (\<lambda>e. (ses_id (snd e), scopes (snd e) @
      (if ses_id (snd e) = av_session_id view then granted_scopes d i (co_approvals C') else []))) (sv_active (co_sessions C))"
proof (cases "granted_scopes d i (co_approvals C')")
  case Nil
  then have "co_sessions C' = co_sessions C"
    using assms(1) by (auto simp: decide_approval_def granted_scopes_def Let_def split: prod.splits sum.splits option.splits if_splits)
  with Nil show ?thesis by simp
next
  case (Cons sc rest)
  let ?g = "\<lparr>sg_scope = sc, sg_label = scope_describe sc, sg_approval_id = Some i, sg_created_at = io_now (cw_io w 1)\<rparr>"
  have rest: "rest = []" and S': "co_sessions C' = snd (add_session_grant (cw_io w 1) (av_session_id view) ?g (co_sessions C))"
    using Cons assms(1)
    by (auto simp: decide_approval_def granted_scopes_def Let_def split: prod.splits sum.splits option.splits if_splits)
  have "map (\<lambda>e. (ses_id (snd e), scopes (snd e))) (sv_active (co_sessions C')) =
      map (\<lambda>e. (ses_id (snd e), scopes (snd e) @ (if ses_id (snd e) = av_session_id view then [sc] else []))) (sv_active (co_sessions C))"
  proof (cases "get_session (co_sessions C) (av_session_id view)")
    case None
    then have "co_sessions C' = co_sessions C" by (simp add: S' add_session_grant_def)
    then show ?thesis using None by (auto simp: get_session_def find_None_set)
  next
    case (Some s)
    then have "sv_active (co_sessions C') = map (\<lambda>e. if ses_id (snd e) = av_session_id view then map_session (push_grant ?g) e else e)
        (sv_active (co_sessions C))"
      using update_first_others [OF session_ids_distinct [OF assms(2)], of "map_session (push_grant ?g)" "av_session_id view"]
      by (simp add: S' add_session_grant_def Let_def map_session_def push_grant_def)
    then show ?thesis by (simp add: map_session_def push_grant_def scopes_def)
  qed
  then show ?thesis using Cons rest by simp
qed

lemma request_approval_sessions: "co_sessions (snd (request_approval V w p s t a sc req dg sm C)) = co_sessions C"
  by (simp add: request_approval_def Let_def split: prod.split sum.split)

lemma approved_scope:
  assumes "request_approval V w p s tool args sc req dg sm C = (Inr view, C1)"
    and "decide_approval w' (av_id view) AllowSession C1 = (Inr view', C2)"
    and "get_session (co_sessions C) (ses_id s) = Some t"
  shows "\<exists>t'. get_session (co_sessions C2) (ses_id s) = Some t' \<and> scopes t' = scopes t @ [ar_session_scope req]"
proof -
  define op where "op = \<lparr>po_tool_name = tool, po_arguments = args, po_descriptor_digest = dg,
    po_required_scopes = unwrap_or [] sc, po_session_scope = ar_session_scope req\<rparr>"
  obtain A where cr: "create (cw_io w 0) (cv_json_digest V) (cv_show_u64 V) p s tool req (complete_summary V req sm) op
      (st_policy_revision (settings_of C)) (ss_pending_approval_minutes (st_sessions (settings_of C))) (co_approvals C) = (Inr view, A)"
      and C1: "co_approvals C1 = A" "co_sessions C1 = co_sessions C"
    using assms(1) by (auto simp: request_approval_def Let_def simp flip: op_def split: prod.splits sum.splits)
  have id: "av_id view = io_id (cw_io w 0)" and ops: "as_ops A (av_id view) = Some op"
    and row: "\<exists>r. find_by ap_id (av_id view) (as_approvals A) = Some r \<and> ap_session_id r = ses_id s"
    using cr by (auto simp: create_def Let_def get_approval_def row_to_view_def create_row_def split: if_splits option.splits
        dest!: approval_rows.put_new)
  obtain A' where d: "decide (cw_io w' 0) (av_id view) AllowSession (ss_pending_approval_minutes (st_sessions (settings_of C1))) A = (Inr view', A')"
    and C2: "co_sessions C2 = (case approval_scope A' (av_id view) of None \<Rightarrow> co_sessions C
      | Some x \<Rightarrow> snd (add_session_grant (cw_io w' 1) (av_session_id view') \<lparr>sg_scope = x, sg_label = scope_describe x,
          sg_approval_id = Some (av_id view), sg_created_at = io_now (cw_io w' 1)\<rparr> (co_sessions C)))"
    using assms(2) C1
    by (auto simp: decide_approval_def Let_def split: prod.splits sum.splits option.splits)
  from d obtain r where "find_by ap_id (av_id view) (as_approvals A) = Some r" "av_session_id view' = ap_session_id r" "as_ops A' = as_ops A"
    by (rule decide_view) auto
  with row ops have "av_session_id view' = ses_id s" "approval_scope A' (av_id view) = Some (ar_session_scope req)"
    by (auto simp: approval_scope_def op_def)
  then show ?thesis
    using C2 add_session_grant_get [OF assms(3)] by (auto simp: push_grant_def scopes_def)
qed

end
