(* ===== verification/Core_Examples.thy ===== *)
theory Core_Examples
  imports Core_Props Policy_Examples
begin

text \<open>
  The properties of the service at concrete inputs: a service that is started on an empty disk, resumed, stopped in an
  emergency and started again, and single operations on a service with one session.
\<close>

section \<open>A run of the service\<close>

definition service_env :: core_env where
  "service_env =
     \<lparr>cv_policy = demo_env, cv_config = plain_env, cv_show_u32 = (\<lambda>_. ''1''), cv_sha256_hex = (\<lambda>_. ''00''),
      cv_show_ms = (\<lambda>_. ''17''), cv_json_digest = (\<lambda>_. ''d''), cv_show_u64 = (\<lambda>_. ''1''), cv_redact = (\<lambda>s. s)\<rparr>"

definition service_world :: core_world where
  "service_world =
     \<lparr>cw_io = (\<lambda>_. \<lparr>io_now = 0, io_id = ''id_1'', io_db_ok = True\<rparr>), cw_gate_ok = True, cw_audit = Inr (),
      cw_serve = Inr ''127.0.0.1:8787'', cw_save = Inr (), cw_default_root = Some (bs ''C:/Projects''), cw_killed = 0,
      cw_running = [], cw_tasks = (\<lambda>_. []), cw_audit_fault = None\<rparr>"

definition service_settings :: app_settings where
  "service_settings = Settings_default\<lparr>st_network := NetworkSettings_default\<lparr>ns_port := 8787\<rparr>\<rparr>"

definition service_options :: core_options where
  "service_options = \<lparr>op_root = bs ''C:/App'', op_cache_temp = bs ''C:/App/cache'', op_install_dir = None,
     op_settings_override = Some service_settings, op_env = \<lparr>ee_profile = None, ee_vars = []\<rparr>\<rparr>"

definition empty_disk :: disk where
  "empty_disk = \<lparr>di_gate = None, di_latch = None, di_sessions = [], di_permissions = [], di_approvals = [], di_executions = [],
     di_idem = [], di_locks = []\<rparr>"

definition no_document :: loaded_settings where
  "no_document = load (cv_config service_env) (cv_show_u32 service_env)
     (Inl \<lparr>ioe_os = Some 2, ioe_not_found = True, ioe_text = ''not found''\<rparr>) None"

definition service_started :: "disk \<Rightarrow> core" where
  "service_started =
     started_core service_env service_world service_options (SettingsStore_from_settings service_settings) (bs ''C:/Projects'')"

lemma service_world_sel [simp]:
  "cw_io service_world n = \<lparr>io_now = 0, io_id = ''id_1'', io_db_ok = True\<rparr>" "cw_gate_ok service_world"
  "cw_audit service_world = Inr ()" "cw_serve service_world = Inr ''127.0.0.1:8787''" "cw_save service_world = Inr ()"
  "cw_default_root service_world = Some (bs ''C:/Projects'')"
  by (simp_all add: service_world_def)

lemma service_starts:
  "start service_env service_world service_options no_document (Inr ()) (Inr ()) (Inr ()) d =
     (Inr (service_started d), disk_of (service_started d))"
  unfolding service_started_def
  by (rule start_returns) (simp_all add: service_options_def SettingsStore_from_settings_def service_settings_def Settings_default_def)

lemma service_start_step: "core_step service_env (Down d) CE_Start (Up (service_started d))"
  using core_started [OF _ service_starts] by (simp add: no_document_def)

definition service_ready :: core where
  "service_ready = snd (resume_remote_access service_env service_world 0 (service_started empty_disk))"

lemma service_run: "run (core_step service_env) (Down empty_disk) [CE_Start, CE_Resume] (Up service_ready)"
  using service_start_step [of empty_disk] core_resume [of service_env "service_started empty_disk" service_world]
  unfolding service_ready_def run_Cons by (blast intro: run_nil)

lemma service_started_sel: "co_http (service_started d) = None \<or> di_gate d \<noteq> None"
  "settings_fault (service_started d) = None" "settings_of (service_started d) = service_settings"
  by (auto simp: service_started_def started_core_def open_gate_def recover_def fresh_core_def Let_def SettingsStore_from_settings_def
      gate_enabled_def read_gate_def startup_recovery_def end_all_persisted_def split: if_splits option.splits)

lemma service_accepting: "accepting service_ready"
  using service_started_sel [of empty_disk]
  by (auto simp: service_ready_def resume_remote_access_def write_latch_def latch_set_def write_gate_file_def write_gate_def
      start_http_def Let_def accepting_def service_settings_def empty_disk_def split: option.split)

theorem ready_is_clear_witness:
  "accepting service_ready \<and> latch_get True (co_latch service_ready) = Some False \<and> co_http service_ready \<noteq> None"
  using ready_is_clear [OF service_run] service_accepting by blast

definition service_stopped :: core where
  "service_stopped = snd (emergency_stop service_env service_world ''tray'' service_ready)"

lemma service_stopped_run:
  "run (core_step service_env) (Up service_stopped) [CE_Exit, CE_Start] (Up (service_started (disk_of service_stopped)))"
  using core_exit [of service_env service_stopped] service_start_step [of "disk_of service_stopped"]
  unfolding run_Cons by (blast intro: run_nil)

theorem stopped_until_resume_witness:
  "\<not> accepting (service_started (disk_of service_stopped)) \<and> co_http (service_started (disk_of service_stopped)) = None
    \<and> latch_get True (co_latch (service_started (disk_of service_stopped))) = Some True"
  using stopped_until_resume [OF service_run _ service_stopped_run [unfolded service_stopped_def]]
  by (simp add: service_stopped_def)

theorem emergency_stop_closes_witness:
  "\<not> accepting service_stopped \<and> list_sessions (co_sessions service_stopped) = []
    \<and> latch_get True (co_latch service_stopped) = Some True \<and> none_open None None (co_approvals service_stopped)
    \<and> \<not> gate_enabled (cv_sha256_hex service_env) (co_gate service_stopped)"
  using emergency_stop_closes [of service_env service_world "''tray''" service_ready]
  by (simp add: service_stopped_def service_env_def one_line_def)

section \<open>Changed settings\<close>

definition revised_settings :: app_settings where
  "revised_settings = next_settings service_settings (service_settings\<lparr>st_shell_protection_enabled := False\<rparr>)"

definition service_revised :: core where
  "service_revised =
     snd (update_settings service_env service_world (service_settings\<lparr>st_shell_protection_enabled := False\<rparr>) service_ready)"

lemma service_inv: "core_inv service_env service_ready"
  using core_runs.run_inv [OF service_run] by (simp add: system_inv_def)

lemma service_ready_settings: "settings_of service_ready = service_settings"
  using service_started_sel(3) [of empty_disk]
  by (auto simp: service_ready_def resume_remote_access_def write_latch_def latch_set_def write_gate_file_def write_gate_def
      start_http_def Let_def split: option.split sum.split)

lemma revised_settings_sel:
  "st_policy_revision revised_settings = st_policy_revision service_settings + 1"
  "validate plain_env revised_settings = Inr ()"
  by code_simp+

lemma service_revision:
  "update_settings service_env service_world (service_settings\<lparr>st_shell_protection_enabled := False\<rparr>) service_ready =
     (Inr revised_settings, service_revised)"
proof -
  let ?n = "service_settings\<lparr>st_shell_protection_enabled := False\<rparr>"
  have "update_store (cv_config service_env) (cw_save service_world) ?n (co_settings service_ready) =
      (Inr (settings_of service_ready, sst_current \<lparr>sst_current = revised_settings, sst_fault = None\<rparr>),
       \<lparr>sst_current = revised_settings, sst_fault = None\<rparr>)"
    by (simp add: update_store_def Let_def service_ready_settings save_def service_env_def revised_settings_sel(2)
        flip: revised_settings_def)
  from update_settings_updated [OF this] show ?thesis
    unfolding service_revised_def by (metis fst_conv prod.collapse settings_store.select_convs(1))
qed

theorem update_revokes_approvals_witness:
  "settings_of service_revised = revised_settings \<and> no_grants (co_sessions service_revised)
    \<and> none_open None None (co_approvals service_revised)"
  using update_revokes_approvals [OF service_revision _ service_inv]
  by (simp add: service_ready_settings revised_settings_sel(1))

section \<open>One session\<close>

definition one_session :: core where
  "one_session =
     \<lparr>co_settings = \<lparr>sst_current = service_settings, sst_fault = None\<rparr>, co_state = Ready, co_fault = None, co_gate = None,
      co_latch = None, co_sessions = demo_sessions, co_approvals = sample_empty, co_leases = \<lparr>lg_leases = [], lg_locks = []\<rparr>,
      co_env = \<lparr>ee_profile = None, ee_vars = []\<rparr>, co_roots = pe_roots demo_engine, co_policy = demo_engine,
      co_http = Some ''127.0.0.1:8787'', co_http_error = None, co_calls = []\<rparr>"

definition one_removed :: "nat \<times> core" where
  "one_removed = client_access_removed service_world ''cl_1'' ''revoked'' one_session"

theorem client_removed_witness:
  "sv_active (co_sessions (snd one_removed)) = [] \<and> none_open (Some ''cl_1'') None (co_approvals (snd one_removed))"
  using client_removed [of service_world "''cl_1''" "''revoked''" one_session "fst one_removed" "snd one_removed"]
  by (simp add: one_removed_def one_session_def session_demo demo_idle_def)

definition one_reset :: "app_settings lp_result \<times> core" where
  "one_reset = reset_settings service_env service_world one_session"

lemma one_reset_ok: "one_reset = (Inr (Settings_default\<lparr>st_policy_revision := st_policy_revision service_settings + 1\<rparr>), snd one_reset)"
  by (simp add: one_reset_def reset_settings_def reset_to_defaults_def Let_def save_def validate_cong defaults_valid one_session_def)

theorem reset_keeps_grants_witness:
  "co_sessions (snd one_reset) = co_sessions one_session \<and> co_approvals (snd one_reset) = co_approvals one_session"
  using reset_keeps_grants [OF one_reset_ok [unfolded one_reset_def]] by (simp add: one_reset_def)

definition one_admitted :: "session lp_result \<times> core" where
  "one_admitted = session_for service_world sample_principal None None None one_session"

theorem session_for_bounded_witness:
  "card (live_clients 0 (co_sessions (snd one_admitted)))
    \<le> max (unat (client_limit (st_concurrency service_settings))) (card (live_clients 0 (co_sessions one_session)))"
proof -
  have "fst one_admitted = Inr demo_idle"
    by code_simp
  then have "one_admitted = (Inr demo_idle, snd one_admitted)"
    by (metis prod.collapse)
  from session_for_bounded [OF this [unfolded one_admitted_def]] show ?thesis
    by (simp add: one_admitted_def one_session_def)
qed

definition one_requested :: "approval_view lp_result \<times> core" where
  "one_requested = request_approval service_env service_world sample_principal demo_idle ''fs_delete'' JNull None sample_request ''d''
     sample_summary one_session"

definition one_decided :: "approval_view lp_result \<times> core" where
  "one_decided = decide_approval service_world ''id_1'' AllowSession (snd one_requested)"

lemma one_results:
  "map_sum id av_id (fst one_requested) = Inr ''id_1''"
  "map_sum id (\<lambda>v. (av_session_id v, av_status v)) (fst one_decided) = Inr (''ses_1'', ''allowed_session'')"
  "granted_scopes AllowSession ''id_1'' (co_approvals (snd one_decided)) = [Exact ''k'' ''l'']"
  by code_simp+

lemma one_session_inv: "session_inv (co_sessions (snd one_requested))"
  using session_runs.run_inv [OF session_demo_run] request_approval_sessions
  by (simp add: one_requested_def one_session_def SessionService_new_inv keyed_def)

theorem decision_grants_witness:
  "map (\<lambda>e. (ses_id (snd e), scopes (snd e))) (sv_active (co_sessions (snd one_decided))) = [(''ses_1'', [Exact ''k'' ''l''])]"
proof -
  obtain v where v: "one_decided = (Inr v, snd one_decided)" "av_session_id v = ''ses_1''"
    using one_results(2) by (cases "fst one_decided") (auto simp: prod_eq_iff)
  have "sv_active (co_sessions (snd one_requested)) = [((''cl_1'', ''cred_1''), demo_idle)]"
    using request_approval_sessions by (simp add: one_requested_def one_session_def session_demo)
  then show ?thesis
    using decision_grants [OF v(1) [unfolded one_decided_def] one_session_inv] one_results(3) v(2)
    by (simp add: one_decided_def demo_idle_def scopes_def)
qed

section \<open>A damaged settings file\<close>

definition damaged_env :: core_env where
  "damaged_env = service_env\<lparr>cv_config := plain_env\<lparr>ce_json_parse := (\<lambda>_. Inl ''expected value'')\<rparr>\<rparr>"

definition damaged_options :: core_options where
  "damaged_options = service_options\<lparr>op_settings_override := None\<rparr>"

definition damaged_document :: loaded_settings where
  "damaged_document = load (cv_config damaged_env) (cv_show_u32 damaged_env) (Inr ''{'') None"

definition damaged_service :: core where
  "damaged_service =
     started_core damaged_env service_world damaged_options (SettingsStore_load damaged_document) (bs ''C:/Projects'') empty_disk"

lemma damaged_run: "run (core_step damaged_env) (Down empty_disk) [CE_Start] (Up damaged_service)"
proof -
  have "start damaged_env service_world damaged_options damaged_document (Inr ()) (Inr ()) (Inr ()) empty_disk =
      (Inr damaged_service, disk_of damaged_service)"
    unfolding damaged_service_def
    by (rule start_returns)
       (simp_all add: damaged_options_def service_options_def SettingsStore_load_def damaged_document_def load_def damaged_env_def
         service_env_def Settings_default_def)
  from core_started [OF _ this] have "core_step damaged_env (Down empty_disk) CE_Start (Up damaged_service)"
    by (simp add: damaged_document_def)
  then show ?thesis unfolding run_Cons by (blast intro: run_nil)
qed

lemma damaged_fault: "settings_fault damaged_service \<noteq> None"
  by (simp add: damaged_service_def started_core_def open_gate_def recover_def fresh_core_def Let_def SettingsStore_load_def
      damaged_document_def load_def damaged_env_def service_env_def startup_recovery_def end_all_persisted_def
      latched_def latch_get_def empty_disk_def)

end
