(* ===== verification/Auth.thy ===== *)
theory Auth
  imports Approvals
begin

text \<open>
  Local principals and their credentials, \<^verbatim>\<open>workstation-server/src/auth/mod.rs\<close>, and the data of the authorization server
  beside it. Tokens are stored as keyed hashes: the hash is a parameter. The columns that hold scopes
  are texts, as in the database.
\<close>

section \<open>The outside world\<close>

text \<open>The clock, which stands during an operation, whether the database answers the operation's \<open>n\<close>-th access, and the operation's
  \<open>n\<close>-th random identifier, token and pairing code.\<close>

record auth_world =
  aw_now :: int
  aw_db_ok :: "nat \<Rightarrow> bool"
  aw_id :: "nat \<Rightarrow> string"
  aw_token :: "nat \<Rightarrow> string"
  aw_pairing :: string

definition new_id :: "auth_world \<Rightarrow> nat \<Rightarrow> string \<Rightarrow> string" where
  "new_id w n pre = pre @ ''_'' @ aw_id w n"

definition random_token :: "auth_world \<Rightarrow> nat \<Rightarrow> string \<Rightarrow> string" where
  "random_token w n pre = pre @ ''_'' @ aw_token w n"

section \<open>Data\<close>

record client_row =
  clr_id :: string
  clr_display_name :: string
  clr_vendor_label :: "string option"
  clr_enabled :: bool
  clr_created_at :: int
  clr_last_seen_at :: "int option"
  clr_last_client_info :: "string option"
  clr_last_protocol_version :: "string option"
  clr_last_remote_addr :: "string option"

record credential_row =
  cr_id :: string
  cr_client_id :: string
  cr_kind :: string
  cr_token_hash :: "string option"
  cr_token_hint :: "string option"
  cr_scopes :: string
  cr_created_at :: int
  cr_last_used_at :: "int option"
  cr_expires_at :: "int option"
  cr_revoked_at :: "int option"
  cr_enabled :: bool
  cr_oauth_client_id :: "string option"
  cr_resource :: "string option"
  cr_label :: "string option"

record oauth_client_row =
  oc_id :: string
  oc_name :: "string option"
  oc_redirect_uris :: "string list"
  oc_auth_method :: string
  oc_secret_hash :: "string option"
  oc_created_at :: int
  oc_last_used_at :: "int option"
  oc_software_id :: "string option"
  oc_registration_addr :: "string option"
  oc_local_client_id :: "string option"

record token_row =
  tk_hash :: string
  tk_kind :: string
  tk_credential_id :: string
  tk_expires_at :: int
  tk_created_at :: int
  tk_used_at :: "int option"
  tk_revoked_at :: "int option"
  tk_scopes :: string
  tk_resource :: string

record connection_event =
  cx_ts :: int
  cx_client_id :: "string option"
  cx_credential_id :: "string option"
  cx_event :: string
  cx_detail :: "string option"
  cx_remote_addr :: "string option"

record oauth_decision =
  od_approve :: bool
  od_bind_client_id :: "string option"
  od_display_name :: "string option"

record pending_authorization =
  pa_request_id :: string
  pa_created_at :: int
  pa_expires_at :: int
  pa_oauth_client_id :: string
  pa_client_name :: string
  pa_redirect_uri :: string
  pa_state :: "string option"
  pa_code_challenge :: string
  pa_scopes :: "string list"
  pa_resource :: string
  pa_pairing_code :: string
  pa_binding_hash :: string
  pa_remote_addr :: "string option"
  pa_suggested_client_id :: "string option"
  pa_decision :: "oauth_decision option"
  pa_released :: bool

record auth_code =
  ac_oauth_client_id :: string
  ac_redirect_uri :: string
  ac_code_challenge :: string
  ac_scopes :: "string list"
  ac_resource :: string
  ac_bind_client_id :: "string option"
  ac_display_name :: string
  ac_expires_at :: int
  ac_used :: bool
  ac_issued_credential :: "string option"

text \<open>The tables, then the two maps that live in memory: the pending requests by identifier and the codes by hash.\<close>

record auth_service =
  at_clients :: "client_row list"
  at_credentials :: "credential_row list"
  at_oauth_clients :: "oauth_client_row list"
  at_tokens :: "token_row list"
  at_events :: "connection_event list"
  at_pending :: "(string \<times> pending_authorization) list"
  at_codes :: "(string \<times> auth_code) list"

interpretation client_rows: row_store clr_id "find_by clr_id" "insert_by clr_id" update_where delete_where "keyed clr_id"
  by (rule list_row_store)

interpretation credential_rows: row_store cr_id "find_by cr_id" "insert_by cr_id" update_where delete_where "keyed cr_id"
  by (rule list_row_store)

interpretation token_rows: row_store tk_hash "find_by tk_hash" "insert_by tk_hash" update_where delete_where "keyed tk_hash"
  by (rule list_row_store)

interpretation oauth_rows: row_store oc_id "find_by oc_id" "insert_by oc_id" update_where delete_where "keyed oc_id"
  by (rule list_row_store)

section \<open>Scopes\<close>

definition SCOPE_READ :: string where "SCOPE_READ = ''workstation:read''"

definition SCOPE_WRITE :: string where "SCOPE_WRITE = ''workstation:write''"

definition SCOPE_EXECUTE :: string where "SCOPE_EXECUTE = ''workstation:execute''"

definition ALL_SCOPES :: "string list" where
  "ALL_SCOPES = [SCOPE_READ, SCOPE_WRITE, SCOPE_EXECUTE]"

definition parse_scopes :: "string \<Rightarrow> string list" where
  "parse_scopes s = split_whitespace s"

definition normalize_scopes :: "string option \<Rightarrow> string list" where
  "normalize_scopes requested =
     dedup (sort (case requested of
         Some s \<Rightarrow> if trim s \<noteq> [] then filter (List.member ALL_SCOPES) (split_whitespace s) else ALL_SCOPES
       | None \<Rightarrow> ALL_SCOPES))"

section \<open>Clients\<close>

definition AuthService_new ::
    "client_row list \<Rightarrow> credential_row list \<Rightarrow> oauth_client_row list \<Rightarrow> token_row list \<Rightarrow> connection_event list \<Rightarrow> auth_service" where
  "AuthService_new cs crs ocs ts es =
     \<lparr>at_clients = cs, at_credentials = crs, at_oauth_clients = ocs, at_tokens = ts, at_events = es, at_pending = [], at_codes = []\<rparr>"

text \<open>\<open>i\<close> and \<open>n\<close> number the identifier and the database access.\<close>

definition create_client ::
    "auth_world \<Rightarrow> nat \<Rightarrow> nat \<Rightarrow> string \<Rightarrow> string option \<Rightarrow> auth_service \<Rightarrow> string lp_result \<times> auth_service" where
  "create_client w i n display_name vendor A =
     (let cid = new_id w i ''cl''; nm = trim display_name in
      if nm = [] \<or> length nm > 100 then (Inl (LpError_invalid ''client name must be 1-100 characters''), A)
      else (case (if aw_db_ok w n then insert_by clr_id
            \<lparr>clr_id = cid, clr_display_name = nm, clr_vendor_label = vendor, clr_enabled = True, clr_created_at = aw_now w,
             clr_last_seen_at = None, clr_last_client_info = None, clr_last_protocol_version = None, clr_last_remote_addr = None\<rparr>
            (at_clients A) else None) of
          None \<Rightarrow> (Inl LpError_internal, A)
        | Some rows \<Rightarrow> (Inr cid, A\<lparr>at_clients := rows\<rparr>)))"

text \<open>\<^verbatim>\<open>ClientRow\<close> and \<^verbatim>\<open>CredentialRow\<close> as listed: the latest expiry of a refresh token that is neither used nor revoked.\<close>

definition refresh_expires_at :: "auth_service \<Rightarrow> credential_row \<Rightarrow> int option" where
  "refresh_expires_at A cr =
     (case map tk_expires_at (filter (\<lambda>t. tk_credential_id t = cr_id cr \<and> tk_kind t = ''refresh'' \<and> tk_used_at t = None
          \<and> tk_revoked_at t = None) (at_tokens A)) of
        [] \<Rightarrow> None
      | e # es \<Rightarrow> Some (foldl max e es))"

definition list_clients ::
    "auth_world \<Rightarrow> nat \<Rightarrow> auth_service \<Rightarrow> (client_row \<times> (credential_row \<times> int option) list) list lp_result" where
  "list_clients w n A =
     (if \<not> aw_db_ok w n then Inl LpError_internal
      else Inr (map (\<lambda>c. (c, map (\<lambda>cr. (cr, refresh_expires_at A cr))
          (filter (\<lambda>cr. cr_client_id cr = clr_id c) (sort_key cr_created_at (at_credentials A)))))
        (sort_key clr_created_at (at_clients A))))"

definition client ::
    "auth_world \<Rightarrow> nat \<Rightarrow> string \<Rightarrow> auth_service \<Rightarrow> (client_row \<times> (credential_row \<times> int option) list) option lp_result" where
  "client w n cid A = (case list_clients w n A of Inl e \<Rightarrow> Inl e | Inr cs \<Rightarrow> Inr (find (\<lambda>c. clr_id (fst c) = cid) cs))"

definition set_client_enabled :: "auth_world \<Rightarrow> string \<Rightarrow> bool \<Rightarrow> auth_service \<Rightarrow> unit lp_result \<times> auth_service" where
  "set_client_enabled w cid enabled A =
     (if \<not> aw_db_ok w 0 then (Inl LpError_internal, A)
      else (if count_where (\<lambda>r. clr_id r = cid) (at_clients A) = 0 then Inl (LpError_not_found ''unknown client'') else Inr (),
        A\<lparr>at_clients := update_where (\<lambda>r. clr_id r = cid) (\<lambda>r. r\<lparr>clr_enabled := enabled\<rparr>) (at_clients A)\<rparr>))"

definition rename_client :: "auth_world \<Rightarrow> string \<Rightarrow> string \<Rightarrow> auth_service \<Rightarrow> unit lp_result \<times> auth_service" where
  "rename_client w cid nm A =
     (let nm = trim nm in
      if nm = [] \<or> length nm > 100 then (Inl (LpError_invalid ''client name must be 1-100 characters''), A)
      else if \<not> aw_db_ok w 0 then (Inl LpError_internal, A)
      else (Inr (), A\<lparr>at_clients := update_where (\<lambda>r. clr_id r = cid) (\<lambda>r. r\<lparr>clr_display_name := nm\<rparr>) (at_clients A)\<rparr>))"

definition record_seen ::
    "auth_world \<Rightarrow> string \<Rightarrow> string option \<Rightarrow> string option \<Rightarrow> string option \<Rightarrow> auth_service \<Rightarrow> auth_service" where
  "record_seen w cid info protocol peer A =
     (if \<not> aw_db_ok w 0 then A
      else A\<lparr>at_clients := update_where (\<lambda>r. clr_id r = cid)
        (\<lambda>r. r\<lparr>clr_last_seen_at := Some (aw_now w), clr_last_client_info := or_else info (clr_last_client_info r),
          clr_last_protocol_version := or_else protocol (clr_last_protocol_version r),
          clr_last_remote_addr := or_else peer (clr_last_remote_addr r)\<rparr>) (at_clients A)\<rparr>)"

section \<open>Manual tokens\<close>

text \<open>The credentials table: the identifier is its key and a token hash, when there is one, is unique.\<close>

definition insert_credential :: "credential_row \<Rightarrow> credential_row list \<Rightarrow> credential_row list option" where
  "insert_credential r rows =
     (if cr_token_hash r \<noteq> None \<and> list_ex (\<lambda>x. cr_token_hash x = cr_token_hash r) rows then None else insert_by cr_id r rows)"

definition create_manual_token ::
    "(string \<Rightarrow> string) \<Rightarrow> auth_world \<Rightarrow> nat \<Rightarrow> string \<Rightarrow> string list \<Rightarrow> string option \<Rightarrow> u64 option \<Rightarrow> auth_service
     \<Rightarrow> (string \<times> string) lp_result \<times> auth_service" where
  "create_manual_token hash w n cid requested label days A =
     (let token = random_token w 0 ''lpm''; cred = new_id w 0 ''cred'';
          sc = (if requested = [] then normalize_scopes None else normalize_scopes (Some (join_with [SP] requested)));
          row = \<lparr>cr_id = cred, cr_client_id = cid, cr_kind = ''manual_token'', cr_token_hash = Some (hash token),
            cr_token_hint = Some (''lpm_'' @ [CHR 0xE2, CHR 0x80, CHR 0xA6] @ drop (length token - 4) token),
            cr_scopes = join_with [SP] sc, cr_created_at = aw_now w, cr_last_used_at = None,
            cr_expires_at = map_option (\<lambda>d. aw_now w + as_i64 d * DAY_MS) days, cr_revoked_at = None, cr_enabled = True,
            cr_oauth_client_id = None, cr_resource = None, cr_label = label\<rparr> in
      if \<not> aw_db_ok w n then (Inl LpError_internal, A)
      else if find_by clr_id cid (at_clients A) = None then (Inl (LpError_not_found ''unknown client''), A)
      else (case insert_credential row (at_credentials A) of
          None \<Rightarrow> (Inl LpError_internal, A)
        | Some rows \<Rightarrow> (Inr (cred, token), A\<lparr>at_credentials := rows\<rparr>)))"

text \<open>\<^verbatim>\<open>COALESCE(revoked_at, now)\<close>.\<close>

definition revoke_row :: "int \<Rightarrow> credential_row \<Rightarrow> credential_row" where
  "revoke_row now r = r\<lparr>cr_revoked_at := or_else (cr_revoked_at r) (Some now), cr_enabled := False\<rparr>"

definition revoke_token :: "int \<Rightarrow> token_row \<Rightarrow> token_row" where
  "revoke_token now t = t\<lparr>tk_revoked_at := or_else (tk_revoked_at t) (Some now)\<rparr>"

definition revoke_credential :: "auth_world \<Rightarrow> nat \<Rightarrow> string \<Rightarrow> auth_service \<Rightarrow> string lp_result \<times> auth_service" where
  "revoke_credential w n cred A =
     (if \<not> aw_db_ok w n then (Inl LpError_internal, A)
      else (case find_by cr_id cred (at_credentials A) of
          None \<Rightarrow> (Inl (LpError_not_found ''unknown credential''), A)
        | Some r \<Rightarrow> (Inr (cr_client_id r),
            A\<lparr>at_credentials := update_where (\<lambda>x. cr_id x = cred) (revoke_row (aw_now w)) (at_credentials A),
              at_tokens := update_where (\<lambda>t. tk_credential_id t = cred) (revoke_token (aw_now w)) (at_tokens A)\<rparr>)))"

text \<open>\<^verbatim>\<open>((e - now).max(DAY_MS) / DAY_MS) as u64\<close>.\<close>

definition rotate_manual_token ::
    "(string \<Rightarrow> string) \<Rightarrow> auth_world \<Rightarrow> string \<Rightarrow> auth_service \<Rightarrow> (string \<times> string) lp_result \<times> auth_service" where
  "rotate_manual_token hash w cred A =
     (if \<not> aw_db_ok w 0 then (Inl LpError_internal, A)
      else (case find (\<lambda>r. cr_id r = cred \<and> cr_kind r = ''manual_token'' \<and> cr_revoked_at r = None) (at_credentials A) of
          None \<Rightarrow> (Inl (LpError_not_found ''unknown or revoked token''), A)
        | Some r \<Rightarrow>
            (case create_manual_token hash w 1 (cr_client_id r) (parse_scopes (cr_scopes r)) (cr_label r)
                (map_option (\<lambda>e. word_of_int (max (e - aw_now w) DAY_MS div DAY_MS)) (cr_expires_at r)) A of
               (Inl e, A1) \<Rightarrow> (Inl e, A1)
             | (Inr t, A1) \<Rightarrow>
                 (case revoke_credential w 2 cred A1 of
                    (Inl e, A2) \<Rightarrow> (Inl e, A2)
                  | (Inr _, A2) \<Rightarrow> (Inr t, A2)))))"

definition set_credential_enabled :: "auth_world \<Rightarrow> string \<Rightarrow> bool \<Rightarrow> auth_service \<Rightarrow> string lp_result \<times> auth_service" where
  "set_credential_enabled w cred enabled A =
     (if \<not> aw_db_ok w 0 then (Inl LpError_internal, A)
      else (case find_by cr_id cred (at_credentials A) of
          None \<Rightarrow> (Inl (LpError_not_found ''unknown credential''), A)
        | Some r \<Rightarrow> (Inr (cr_client_id r),
            A\<lparr>at_credentials := update_where (\<lambda>x. cr_id x = cred) (\<lambda>x. x\<lparr>cr_enabled := enabled\<rparr>) (at_credentials A)\<rparr>)))"

definition owned_by :: "auth_service \<Rightarrow> string \<Rightarrow> token_row \<Rightarrow> bool" where
  "owned_by A cid t \<longleftrightarrow> list_ex (\<lambda>r. cr_id r = tk_credential_id t \<and> cr_client_id r = cid) (at_credentials A)"

definition revoke_client_credentials :: "auth_world \<Rightarrow> string \<Rightarrow> auth_service \<Rightarrow> nat lp_result \<times> auth_service" where
  "revoke_client_credentials w cid A =
     (if \<not> aw_db_ok w 0 then (Inl LpError_internal, A)
      else (Inr (count_where (\<lambda>r. cr_client_id r = cid \<and> cr_revoked_at r = None) (at_credentials A)),
        A\<lparr>at_tokens := update_where (owned_by A cid) (revoke_token (aw_now w)) (at_tokens A),
          at_credentials := update_where (\<lambda>r. cr_client_id r = cid \<and> cr_revoked_at r = None) (revoke_row (aw_now w))
            (at_credentials A)\<rparr>))"

section \<open>Authentication\<close>

record auth_failure =
  af_error :: string
  af_description :: string
  af_code :: error_code

definition AuthFailure_invalid :: "string \<Rightarrow> auth_failure" where
  "AuthFailure_invalid d = \<lparr>af_error = ''invalid_token'', af_description = d, af_code = AuthenticationFailed\<rparr>"

definition disabled_failure :: auth_failure where
  "disabled_failure = \<lparr>af_error = ''invalid_token'', af_description = ''client or credential disabled'', af_code = ClientDisabled\<rparr>"

definition resource_matches :: "string \<Rightarrow> string \<Rightarrow> bool" where
  "resource_matches a b \<longleftrightarrow>
     eq_ignore_ascii_case (trim_end_matches a (\<lambda>c. c = CHR 0x2F)) (trim_end_matches b (\<lambda>c. c = CHR 0x2F))"

definition touch_credential :: "auth_world \<Rightarrow> nat \<Rightarrow> string \<Rightarrow> auth_service \<Rightarrow> auth_service" where
  "touch_credential w n cred A =
     (if \<not> aw_db_ok w n then A
      else A\<lparr>at_credentials := update_where
        (\<lambda>r. cr_id r = cred \<and> (case cr_last_used_at r of None \<Rightarrow> True | Some t \<Rightarrow> t < aw_now w - 30000))
        (\<lambda>r. r\<lparr>cr_last_used_at := Some (aw_now w)\<rparr>) (at_credentials A)\<rparr>)"

text \<open>The two joins: a manual token with its client, and an access token with its grant and client.\<close>

definition manual_row :: "string \<Rightarrow> auth_service \<Rightarrow> (credential_row \<times> client_row) option" where
  "manual_row h A =
     Option.bind (find (\<lambda>r. cr_token_hash r = Some h \<and> cr_kind r = ''manual_token'') (at_credentials A))
       (\<lambda>cr. map_option (Pair cr) (find_by clr_id (cr_client_id cr) (at_clients A)))"

definition token_row_of :: "string \<Rightarrow> string \<Rightarrow> auth_service \<Rightarrow> (token_row \<times> credential_row \<times> client_row) option" where
  "token_row_of kind h A =
     Option.bind (find (\<lambda>t. tk_hash t = h \<and> tk_kind t = kind) (at_tokens A))
       (\<lambda>t. Option.bind (find_by cr_id (tk_credential_id t) (at_credentials A))
         (\<lambda>cr. map_option (\<lambda>cl. (t, cr, cl)) (find_by clr_id (cr_client_id cr) (at_clients A))))"

definition manual_principal :: "credential_row \<Rightarrow> client_row \<Rightarrow> principal" where
  "manual_principal cr cl =
     \<lparr>pr_client_id = cr_client_id cr, pr_display_name = clr_display_name cl, pr_credential_id = cr_id cr,
      pr_auth_method = ManualToken, pr_scopes = parse_scopes (cr_scopes cr), pr_oauth_client_id = None\<rparr>"

definition oauth_principal :: "token_row \<Rightarrow> credential_row \<Rightarrow> client_row \<Rightarrow> principal" where
  "oauth_principal t cr cl =
     \<lparr>pr_client_id = cr_client_id cr, pr_display_name = clr_display_name cl, pr_credential_id = tk_credential_id t,
      pr_auth_method = OAuth, pr_scopes = parse_scopes (tk_scopes t), pr_oauth_client_id = cr_oauth_client_id cr\<rparr>"

definition authenticate_bearer ::
    "(string \<Rightarrow> string) \<Rightarrow> auth_world \<Rightarrow> string \<Rightarrow> string \<Rightarrow> auth_service \<Rightarrow> (auth_failure + principal) \<times> auth_service" where
  "authenticate_bearer hash w token0 resource A =
     (let token = trim token0 in
      if length token < 20 \<or> length token > 512 then (Inl (AuthFailure_invalid ''malformed token''), A)
      else if starts_with token ''lpm_'' then
        (if \<not> aw_db_ok w 0 then (Inl (AuthFailure_invalid ''token lookup failed''), A)
         else (case manual_row (hash token) A of
             None \<Rightarrow> (Inl (AuthFailure_invalid ''unknown token''), A)
           | Some (cr, cl) \<Rightarrow>
               if cr_revoked_at cr \<noteq> None then (Inl (AuthFailure_invalid ''token revoked''), A)
               else if (case cr_expires_at cr of None \<Rightarrow> False | Some e \<Rightarrow> e < aw_now w)
               then (Inl (AuthFailure_invalid ''token expired''), A)
               else if \<not> cr_enabled cr \<or> \<not> clr_enabled cl then (Inl disabled_failure, A)
               else (Inr (manual_principal cr cl), touch_credential w 1 (cr_id cr) A)))
      else if starts_with token ''lpa_'' then
        (if \<not> aw_db_ok w 0 then (Inl (AuthFailure_invalid ''token lookup failed''), A)
         else (case token_row_of ''access'' (hash token) A of
             None \<Rightarrow> (Inl (AuthFailure_invalid ''unknown token''), A)
           | Some (t, cr, cl) \<Rightarrow>
               if tk_revoked_at t \<noteq> None \<or> cr_revoked_at cr \<noteq> None then (Inl (AuthFailure_invalid ''token revoked''), A)
               else if tk_expires_at t < aw_now w then (Inl (AuthFailure_invalid ''token expired''), A)
               else if \<not> resource_matches (tk_resource t) resource
               then (Inl (AuthFailure_invalid ''token audience does not match this server''), A)
               else if \<not> cr_enabled cr \<or> \<not> clr_enabled cl then (Inl disabled_failure, A)
               else (Inr (oauth_principal t cr cl), touch_credential w 1 (tk_credential_id t) A)))
      else (Inl (AuthFailure_invalid ''unrecognized token type''), A))"

definition log_connection_event ::
    "auth_world \<Rightarrow> string option \<Rightarrow> string option \<Rightarrow> string \<Rightarrow> string option \<Rightarrow> string option \<Rightarrow> auth_service \<Rightarrow> auth_service" where
  "log_connection_event w cid cred event detail peer A =
     (if \<not> aw_db_ok w 0 then A
      else A\<lparr>at_events := at_events A @ [\<lparr>cx_ts = aw_now w, cx_client_id = cid, cx_credential_id = cred, cx_event = event,
        cx_detail = detail, cx_remote_addr = peer\<rparr>]\<rparr>)"

end
