(* ===== verification/OAuth.thy ===== *)
theory OAuth
  imports Auth
begin

text \<open>
  The authorization server, \<^verbatim>\<open>workstation-server/src/auth/oauth.rs\<close>: dynamic registration, the pending request that only a local
  decision can grant, the code released to the browser that began it, its exchange under PKCE, and the rotation
  and revocation of refresh tokens. URL parsing, the keyed hash and the digest of PKCE are parameters.
\<close>

section \<open>Requests and answers\<close>

record oauth_error =
  oe_error :: string
  oe_description :: string
  oe_status :: nat

definition OAuthError_new :: "string \<Rightarrow> string \<Rightarrow> oauth_error" where
  "OAuthError_new e d = \<lparr>oe_error = e, oe_description = d, oe_status = 400\<rparr>"

definition unauthorized_client :: "string \<Rightarrow> oauth_error" where
  "unauthorized_client d = \<lparr>oe_error = ''invalid_client'', oe_description = d, oe_status = 401\<rparr>"

record registration_request =
  rr_redirect_uris :: "string list"
  rr_client_name :: "string option"
  rr_auth_method :: "string option"
  rr_grant_types :: "string list option"
  rr_response_types :: "string list option"
  rr_scope :: "string option"
  rr_software_id :: "string option"

record registration_response =
  rs_client_id :: string
  rs_client_secret :: "string option"
  rs_client_id_issued_at :: int
  rs_client_secret_expires_at :: "int option"
  rs_redirect_uris :: "string list"
  rs_auth_method :: string
  rs_grant_types :: "string list"
  rs_response_types :: "string list"
  rs_client_name :: "string option"
  rs_scope :: string

record authorize_params =
  azp_response_type :: "string option"
  azp_client :: "string option"
  azp_redirect_uri :: "string option"
  azp_state :: "string option"
  azp_code_challenge :: "string option"
  azp_code_challenge_method :: "string option"
  azp_scope :: "string option"
  azp_resource :: "string option"

record pending_connection_view =
  pv_request_id :: string
  pv_created_at :: int
  pv_expires_at :: int
  pv_oauth_client_id :: string
  pv_client_name :: string
  pv_redirect_uri :: string
  pv_redirect_is_known_chatgpt :: bool
  pv_scopes :: "string list"
  pv_resource :: string
  pv_pairing_code :: string
  pv_remote_addr :: "string option"
  pv_suggested_client_id :: "string option"
  pv_status :: string

record begin_outcome =
  bo_request_id :: string
  bo_binding_secret :: string
  bo_view :: pending_connection_view

datatype authorize_error =
    NoRedirect string
  | RedirectError string "string option" string string

datatype poll_outcome =
    PollWaiting pending_connection_view
  | PollRedirect string
  | PollExpired
  | PollNotFound

record token_request =
  tr_grant_type :: "string option"
  tr_code :: "string option"
  tr_redirect_uri :: "string option"
  tr_client_id :: "string option"
  tr_client_secret :: "string option"
  tr_code_verifier :: "string option"
  tr_refresh_token :: "string option"
  tr_scope :: "string option"
  tr_resource :: "string option"

record token_response =
  ts_access_token :: string
  ts_token_type :: string
  ts_expires_in :: u64
  ts_refresh_token :: string
  ts_scope :: string

text \<open>The code that is not the repository's: \<^verbatim>\<open>url::Url::parse\<close> and its query serializer, the keyed hash and \<^verbatim>\<open>sha256_b64url\<close>.\<close>

record oauth_env =
  ov_url_parse :: "string \<Rightarrow> string + url"
  ov_append_query :: "string \<Rightarrow> (string \<times> string) list \<Rightarrow> string"
  ov_hash :: "string \<Rightarrow> string"
  ov_sha256_b64url :: "string \<Rightarrow> string"

section \<open>Helpers\<close>

definition KNOWN_CHATGPT_REDIRECTS :: "string list" where
  "KNOWN_CHATGPT_REDIRECTS =
     [''https://chatgpt.com/connector_platform_oauth_redirect'', ''https://chatgpt.com/connector/oauth/'',
      ''https://platform.openai.com/apps-manage/oauth'']"

definition validate_redirect_uri :: "oauth_env \<Rightarrow> string \<Rightarrow> string + unit" where
  "validate_redirect_uri V uri =
     (case ov_url_parse V uri of
        Inl _ \<Rightarrow> Inl ''redirect URI is not a valid absolute URL''
      | Inr u \<Rightarrow>
          if url_fragment u \<noteq> None then Inl ''redirect URI must not contain a fragment''
          else if url_scheme u = ''https'' then Inr ()
          else if url_scheme u = ''http'' \<and> (url_host u = Some ''localhost'' \<or> url_host u = Some ''127.0.0.1'' \<or> url_host u = Some ''[::1]'')
          then Inr ()
          else Inl ''redirect URI must use https (or http on loopback for local tools)'')"

definition valid_verifier :: "string \<Rightarrow> bool" where
  "valid_verifier v \<longleftrightarrow> 43 \<le> length v \<and> length v \<le> 128
     \<and> list_all (\<lambda>c. is_ascii_alphabetic c \<or> is_ascii_digit c \<or> contains_char ''-._~'' c) v"

definition view_of :: "pending_authorization \<Rightarrow> pending_connection_view" where
  "view_of pa =
     \<lparr>pv_request_id = pa_request_id pa, pv_created_at = pa_created_at pa, pv_expires_at = pa_expires_at pa,
      pv_oauth_client_id = pa_oauth_client_id pa, pv_client_name = pa_client_name pa, pv_redirect_uri = pa_redirect_uri pa,
      pv_redirect_is_known_chatgpt = list_ex (starts_with (pa_redirect_uri pa)) KNOWN_CHATGPT_REDIRECTS,
      pv_scopes = pa_scopes pa, pv_resource = pa_resource pa, pv_pairing_code = pa_pairing_code pa,
      pv_remote_addr = pa_remote_addr pa, pv_suggested_client_id = pa_suggested_client_id pa,
      pv_status = (case pa_decision pa of None \<Rightarrow> ''pending'' | Some d \<Rightarrow> if od_approve d then ''approved'' else ''denied'')\<rparr>"

text \<open>\<^verbatim>\<open>char::is_control\<close>: the two blocks of control characters, in UTF-8.\<close>

definition is_control :: "string \<Rightarrow> bool" where
  "is_control c =
     (case c of
        [b] \<Rightarrow> byte b < 0x20 \<or> byte b = 0x7F
      | [b0, b1] \<Rightarrow> byte b0 = 0xC2 \<and> byte b1 < 0xA0
      | _ \<Rightarrow> False)"

definition ulid_like :: "auth_world \<Rightarrow> string" where
  "ulid_like w = to_ascii_lowercase (trim_start_str (new_id w 0 ''x'') ''x_'')"

section \<open>Registration\<close>

text \<open>The registry stays bounded: never-used registrations, oldest first, give way; \<open>None\<close> when that is not enough.\<close>

definition prune_clients :: "int \<Rightarrow> oauth_client_row list \<Rightarrow> oauth_client_row list option" where
  "prune_clients limit rows =
     (if int (length rows) < limit then Some rows
      else
        (let unused = map oc_id (take (nat (int (length rows) - limit + 1))
               (sort_key oc_created_at (filter (\<lambda>r. oc_local_client_id r = None) rows)));
             rows' = delete_where (\<lambda>r. List.member unused (oc_id r)) rows in
         if int (length rows') \<ge> limit then None else Some rows'))"

definition check_uri :: "oauth_env \<Rightarrow> unit \<Rightarrow> string \<Rightarrow> oauth_error + unit" where
  "check_uri V _ u =
     (if length u > 512 then Inl (OAuthError_new ''invalid_redirect_uri'' ''redirect URI too long'')
      else (case validate_redirect_uri V u of
          Inl e \<Rightarrow> Inl (OAuthError_new ''invalid_redirect_uri'' e)
        | Inr _ \<Rightarrow> Inr ()))"

definition registered_name :: "string option \<Rightarrow> string option" where
  "registered_name n =
     Option.bind (map_option (\<lambda>s. concat (take 100 (filter (\<lambda>c. \<not> is_control c) (utf8_chars s)))) n)
       (\<lambda>s. if trim s = [] then None else Some s)"

definition check_metadata :: "oauth_env \<Rightarrow> registration_request \<Rightarrow> auth_settings \<Rightarrow> oauth_error + string" where
  "check_metadata V req cfg =
     (let auth = unwrap_or ''client_secret_basic'' (rr_auth_method req) in
      if \<not> au_allow_dynamic_client_registration cfg
      then Inl (OAuthError_new ''invalid_client_metadata'' ''dynamic client registration is disabled'')
      else if rr_redirect_uris req = [] \<or> length (rr_redirect_uris req) > 5
      then Inl (OAuthError_new ''invalid_redirect_uri'' ''one to five redirect_uris are required'')
      else and_then (fold_until (check_uri V) () (rr_redirect_uris req)) (\<lambda>_.
        if \<not> List.member [''none'', ''client_secret_post'', ''client_secret_basic''] auth
        then Inl (OAuthError_new ''invalid_client_metadata'' ''unsupported token_endpoint_auth_method'')
        else if list_ex (\<lambda>x. x \<noteq> ''authorization_code'' \<and> x \<noteq> ''refresh_token'') (unwrap_or [] (rr_grant_types req))
        then Inl (OAuthError_new ''invalid_client_metadata'' ''only authorization_code and refresh_token grants are supported'')
        else if list_ex (\<lambda>x. x \<noteq> ''code'') (unwrap_or [] (rr_response_types req))
        then Inl (OAuthError_new ''invalid_client_metadata'' ''only the code response type is supported'')
        else Inr auth))"

definition oauth_register ::
    "oauth_env \<Rightarrow> auth_world \<Rightarrow> registration_request \<Rightarrow> string option \<Rightarrow> auth_settings \<Rightarrow> auth_service
     \<Rightarrow> (oauth_error + registration_response) \<times> auth_service" where
  "oauth_register V w req peer cfg A =
     (case check_metadata V req cfg of
        Inl e \<Rightarrow> (Inl e, A)
      | Inr auth \<Rightarrow>
          (let nm = registered_name (rr_client_name req); cid = ''lpoc_'' @ ulid_like w;
               secret = (if auth = ''none'' then None else Some (random_token w 0 ''lpcs''));
               row = \<lparr>oc_id = cid, oc_name = nm, oc_redirect_uris = rr_redirect_uris req, oc_auth_method = auth,
                 oc_secret_hash = map_option (ov_hash V) secret, oc_created_at = aw_now w, oc_last_used_at = None,
                 oc_software_id = rr_software_id req, oc_registration_addr = peer, oc_local_client_id = None\<rparr> in
           if \<not> aw_db_ok w 0 then (Inl (OAuthError_new ''invalid_client_metadata'' (message LpError_internal)), A)
           else (case prune_clients (as_i64 (au_max_registered_clients cfg)) (at_oauth_clients A) of
               None \<Rightarrow> (Inl (OAuthError_new ''invalid_client_metadata'' ''registration limit reached''), A)
             | Some rows \<Rightarrow>
                 (case insert_by oc_id row rows of
                    None \<Rightarrow> (Inl (OAuthError_new ''invalid_client_metadata'' (message LpError_internal)), A)
                  | Some rows' \<Rightarrow>
                      (Inr \<lparr>rs_client_id = cid, rs_client_secret = secret, rs_client_id_issued_at = aw_now w div 1000,
                         rs_client_secret_expires_at = (if auth = ''none'' then None else Some 0),
                         rs_redirect_uris = rr_redirect_uris req, rs_auth_method = auth,
                         rs_grant_types = [''authorization_code'', ''refresh_token''], rs_response_types = [''code''],
                         rs_client_name = nm, rs_scope = join_with [SP] ALL_SCOPES\<rparr>,
                       A\<lparr>at_oauth_clients := rows'\<rparr>)))))"

definition oauth_client :: "auth_world \<Rightarrow> nat \<Rightarrow> string \<Rightarrow> auth_service \<Rightarrow> oauth_client_row option" where
  "oauth_client w n cid A = (if aw_db_ok w n then find_by oc_id cid (at_oauth_clients A) else None)"

section \<open>Authorization\<close>

definition live_requests :: "int \<Rightarrow> (string \<times> pending_authorization) list \<Rightarrow> (string \<times> pending_authorization) list" where
  "live_requests now ps = filter (\<lambda>e. pa_expires_at (snd e) > now \<and> \<not> pa_released (snd e)) ps"

definition chosen_redirect :: "authorize_params \<Rightarrow> string list \<Rightarrow> string option" where
  "chosen_redirect p uris =
     (case azp_redirect_uri p of
        Some r \<Rightarrow> Some r
      | None \<Rightarrow> (case uris of [u] \<Rightarrow> Some u | _ \<Rightarrow> None))"

text \<open>The checks after the redirect URI is known to be registered: an error code and text, or the resource.\<close>

definition check_authorize :: "authorize_params \<Rightarrow> string \<Rightarrow> (string \<times> string) + string" where
  "check_authorize p our_resource =
     (let challenge = unwrap_or [] (azp_code_challenge p) in
      if azp_response_type p \<noteq> Some ''code'' then Inl (''unsupported_response_type'', ''response_type must be code'')
      else if length challenge < 43 \<or> length challenge > 128
      then Inl (''invalid_request'', ''a PKCE code_challenge is required'')
      else if azp_code_challenge_method p \<noteq> Some ''S256''
      then Inl (''invalid_request'', ''code_challenge_method must be S256'')
      else if (case azp_resource p of None \<Rightarrow> False | Some r \<Rightarrow> \<not> resource_matches r our_resource)
      then Inl (''invalid_target'', ''unknown resource'')
      else if (case azp_scope p of None \<Rightarrow> False | Some s \<Rightarrow> list_ex (\<lambda>x. \<not> List.member ALL_SCOPES x
          \<and> \<not> List.member [''openid'', ''offline_access''] x) (split_whitespace s))
      then Inl (''invalid_scope'', ''unknown scope requested'')
      else if (case azp_state p of None \<Rightarrow> False | Some s \<Rightarrow> length s > 1024) then Inl (''invalid_request'', ''state too long'')
      else Inr our_resource)"

definition oauth_begin ::
    "oauth_env \<Rightarrow> auth_world \<Rightarrow> authorize_params \<Rightarrow> string \<Rightarrow> string option \<Rightarrow> auth_settings \<Rightarrow> auth_service
     \<Rightarrow> (authorize_error + begin_outcome) \<times> auth_service" where
  "oauth_begin V w p our_resource peer cfg A =
     (case azp_client p of
        None \<Rightarrow> (Inl (NoRedirect ''missing client_id''), A)
      | Some cid \<Rightarrow>
      (case oauth_client w 0 cid A of
         None \<Rightarrow> (Inl (NoRedirect ''unknown client_id; register the client first''), A)
       | Some oc \<Rightarrow>
       (case chosen_redirect p (oc_redirect_uris oc) of
          None \<Rightarrow> (Inl (NoRedirect ''redirect_uri is required''), A)
        | Some uri \<Rightarrow>
            if \<not> List.member (oc_redirect_uris oc) uri
            then (Inl (NoRedirect ''redirect_uri does not exactly match a registered URI''), A)
            else (case check_authorize p our_resource of
                Inl (e, d) \<Rightarrow> (Inl (RedirectError uri (azp_state p) e d), A)
              | Inr resource \<Rightarrow>
                  (let live = live_requests (aw_now w) (at_pending A); A1 = A\<lparr>at_pending := live\<rparr> in
                   if length live \<ge> unat (au_max_pending_connection_requests cfg)
                      \<or> length (filter (\<lambda>e. pa_oauth_client_id (snd e) = cid) live) \<ge> 3
                   then (Inl (RedirectError uri (azp_state p) ''temporarily_unavailable'' ''too many pending connection requests''), A1)
                   else
                     (let rid = new_id w 0 ''req''; binding = random_token w 0 ''lpb'';
                          pa = \<lparr>pa_request_id = rid, pa_created_at = aw_now w,
                            pa_expires_at = aw_now w + as_i64 (au_pending_connection_ttl_seconds cfg) * 1000,
                            pa_oauth_client_id = cid, pa_client_name = unwrap_or ''Unnamed MCP client'' (oc_name oc),
                            pa_redirect_uri = uri, pa_state = azp_state p,
                            pa_code_challenge = unwrap_or [] (azp_code_challenge p), pa_scopes = normalize_scopes (azp_scope p),
                            pa_resource = resource, pa_pairing_code = aw_pairing w, pa_binding_hash = ov_hash V binding,
                            pa_remote_addr = peer, pa_suggested_client_id = oc_local_client_id oc, pa_decision = None,
                            pa_released = False\<rparr> in
                      (Inr \<lparr>bo_request_id = rid, bo_binding_secret = binding, bo_view = view_of pa\<rparr>,
                       A1\<lparr>at_pending := delete_where (\<lambda>e. fst e = rid) live @ [(rid, pa)]\<rparr>)))))))"

definition oauth_pending :: "auth_world \<Rightarrow> auth_service \<Rightarrow> pending_connection_view list \<times> auth_service" where
  "oauth_pending w A =
     (let live = live_requests (aw_now w) (at_pending A) in
      (sort_key pv_created_at (map (\<lambda>e. view_of (snd e)) live), A\<lparr>at_pending := live\<rparr>))"

definition oauth_decide ::
    "auth_world \<Rightarrow> string \<Rightarrow> bool \<Rightarrow> string option \<Rightarrow> string option \<Rightarrow> auth_service \<Rightarrow> unit lp_result \<times> auth_service" where
  "oauth_decide w rid approve bind_client display_name A =
     (case find_by fst rid (at_pending A) of
        None \<Rightarrow> (Inl (LpError_not_found ''unknown or expired connection request''), A)
      | Some (_, pa) \<Rightarrow>
          if pa_expires_at pa < aw_now w then (Inl (LpError_not_found ''connection request expired''), A)
          else if pa_decision pa \<noteq> None then (Inl (LpError_invalid ''connection request already decided''), A)
          else (Inr (), A\<lparr>at_pending := update_where (\<lambda>e. fst e = rid)
            (\<lambda>e. (fst e, (snd e)\<lparr>pa_decision := Some \<lparr>od_approve = approve, od_bind_client_id = bind_client,
               od_display_name = display_name\<rparr>\<rparr>)) (at_pending A)\<rparr>))"

definition issued_code :: "auth_world \<Rightarrow> auth_settings \<Rightarrow> pending_authorization \<Rightarrow> oauth_decision \<Rightarrow> auth_code" where
  "issued_code w cfg pa d =
     \<lparr>ac_oauth_client_id = pa_oauth_client_id pa, ac_redirect_uri = pa_redirect_uri pa, ac_code_challenge = pa_code_challenge pa,
      ac_scopes = pa_scopes pa, ac_resource = pa_resource pa,
      ac_bind_client_id = or_else (od_bind_client_id d) (pa_suggested_client_id pa),
      ac_display_name = (case od_display_name d of
          Some n \<Rightarrow> if trim n = [] then pa_client_name pa else n
        | None \<Rightarrow> pa_client_name pa),
      ac_expires_at = aw_now w + as_i64 (au_authorization_code_ttl_seconds cfg) * 1000, ac_used = False,
      ac_issued_credential = None\<rparr>"

definition opt_pair :: "string \<Rightarrow> string option \<Rightarrow> (string \<times> string) list" where
  "opt_pair k v = (case v of None \<Rightarrow> [] | Some x \<Rightarrow> [(k, x)])"

definition put_code :: "string \<Rightarrow> auth_code \<Rightarrow> (string \<times> auth_code) list \<Rightarrow> (string \<times> auth_code) list" where
  "put_code h ac cs = delete_where (\<lambda>e. fst e = h) cs @ [(h, ac)]"

definition oauth_poll ::
    "oauth_env \<Rightarrow> auth_world \<Rightarrow> string \<Rightarrow> string option \<Rightarrow> string \<Rightarrow> auth_settings \<Rightarrow> auth_service \<Rightarrow> poll_outcome \<times> auth_service" where
  "oauth_poll V w rid secret issuer cfg A =
     (case find_by fst rid (at_pending A) of
        None \<Rightarrow> (PollNotFound, A)
      | Some (_, pa) \<Rightarrow>
          if \<not> (case secret of None \<Rightarrow> False | Some s \<Rightarrow> ov_hash V s = pa_binding_hash pa) then (PollNotFound, A)
          else
            (let gone = A\<lparr>at_pending := delete_where (\<lambda>e. fst e = rid) (at_pending A)\<rparr> in
             if pa_expires_at pa < aw_now w \<or> pa_released pa
             then (let r = ov_append_query V (pa_redirect_uri pa)
                     ([(''error'', ''access_denied''), (''error_description'', ''the connection request expired''), (''iss'', issuer)]
                      @ opt_pair ''state'' (pa_state pa)) in
                   (if r = [] then PollExpired else PollRedirect r, gone))
             else (case pa_decision pa of
                 None \<Rightarrow> (PollWaiting (view_of pa), A)
               | Some d \<Rightarrow>
                   if od_approve d
                   then (let code = random_token w 0 ''lpc'' in
                     (PollRedirect (ov_append_query V (pa_redirect_uri pa)
                        ([(''code'', code)] @ opt_pair ''state'' (pa_state pa) @ [(''iss'', issuer)])),
                      gone\<lparr>at_codes := put_code (ov_hash V code) (issued_code w cfg pa d) (at_codes A)\<rparr>))
                   else (PollRedirect (ov_append_query V (pa_redirect_uri pa)
                        ([(''error'', ''access_denied''), (''error_description'', ''the workstation owner denied the request'')]
                         @ opt_pair ''state'' (pa_state pa) @ [(''iss'', issuer)])), gone))))"

definition oauth_cleanup :: "auth_world \<Rightarrow> auth_service \<Rightarrow> auth_service" where
  "oauth_cleanup w A =
     A\<lparr>at_pending := filter (\<lambda>e. pa_expires_at (snd e) > aw_now w - 60000) (at_pending A),
       at_codes := filter (\<lambda>e. ac_expires_at (snd e) > aw_now w - 600000) (at_codes A)\<rparr>"

definition oauth_reset :: "auth_service \<Rightarrow> auth_service" where
  "oauth_reset A = A\<lparr>at_pending := [], at_codes := []\<rparr>"

section \<open>Tokens\<close>

definition authenticate_client ::
    "oauth_env \<Rightarrow> auth_world \<Rightarrow> string \<Rightarrow> string option \<Rightarrow> (string \<times> string) option \<Rightarrow> auth_service \<Rightarrow> oauth_error + string \<times> string option" where
  "authenticate_client V w cid form_secret basic A =
     (case oauth_client w 0 cid A of
        None \<Rightarrow> Inl (unauthorized_client ''unknown client'')
      | Some oc \<Rightarrow>
          if oc_auth_method oc = ''none'' then Inr (oc_auth_method oc, oc_local_client_id oc)
          else if oc_auth_method oc = ''client_secret_basic'' \<or> oc_auth_method oc = ''client_secret_post''
          then
            (let presented = (case basic of
                 Some (i, s) \<Rightarrow> if i = cid then Some s else None
               | None \<Rightarrow> form_secret);
                 ok = (case (presented, oc_secret_hash oc) of (Some p, Some h) \<Rightarrow> ov_hash V p = h | _ \<Rightarrow> False) in
             if ok then Inr (oc_auth_method oc, oc_local_client_id oc)
             else Inl (unauthorized_client ''client authentication failed''))
          else Inl (unauthorized_client ''unsupported client authentication''))"

definition clamp :: "u64 \<Rightarrow> u64 \<Rightarrow> u64 \<Rightarrow> u64" where
  "clamp lo hi x = (if x < lo then lo else if hi < x then hi else x)"

definition grant_token :: "auth_world \<Rightarrow> string \<Rightarrow> string \<Rightarrow> string \<Rightarrow> int \<Rightarrow> string list \<Rightarrow> string \<Rightarrow> token_row" where
  "grant_token w h kind cred ttl sc resource =
     \<lparr>tk_hash = h, tk_kind = kind, tk_credential_id = cred, tk_expires_at = aw_now w + ttl, tk_created_at = aw_now w, tk_used_at = None,
      tk_revoked_at = None, tk_scopes = join_with [SP] sc, tk_resource = resource\<rparr>"

definition issue_tokens ::
    "oauth_env \<Rightarrow> auth_world \<Rightarrow> nat \<Rightarrow> string \<Rightarrow> string list \<Rightarrow> string \<Rightarrow> auth_settings \<Rightarrow> auth_service
     \<Rightarrow> (oauth_error + token_response) \<times> auth_service" where
  "issue_tokens V w n cred sc resource cfg A =
     (let access = random_token w 1 ''lpa''; refresh = random_token w 2 ''lpr'';
          access_ttl = clamp 60 (24 * 3600) (au_access_token_ttl_seconds cfg);
          refresh_ttl_ms = as_i64 (clamp 1 365 (au_refresh_token_ttl_days cfg)) * DAY_MS in
      case (if aw_db_ok w n
            then Option.bind (insert_by tk_hash (grant_token w (ov_hash V access) ''access'' cred (as_i64 access_ttl * 1000) sc resource) (at_tokens A))
              (insert_by tk_hash (grant_token w (ov_hash V refresh) ''refresh'' cred refresh_ttl_ms sc resource))
            else None) of
        None \<Rightarrow> (Inl (OAuthError_new ''server_error'' (message LpError_internal)), A)
      | Some rows \<Rightarrow>
          (Inr \<lparr>ts_access_token = access, ts_token_type = ''Bearer'', ts_expires_in = access_ttl, ts_refresh_token = refresh,
             ts_scope = join_with [SP] sc\<rparr>,
           A\<lparr>at_credentials := update_where (\<lambda>r. cr_id r = cred) (\<lambda>r. r\<lparr>cr_expires_at := Some (aw_now w + refresh_ttl_ms)\<rparr>)
               (at_credentials A),
             at_tokens := delete_where (\<lambda>t. tk_credential_id t = cred \<and> tk_expires_at t < aw_now w - DAY_MS) rows\<rparr>))"

definition set_code :: "string \<Rightarrow> (auth_code \<Rightarrow> auth_code) \<Rightarrow> auth_service \<Rightarrow> auth_service" where
  "set_code h f A = A\<lparr>at_codes := update_where (\<lambda>e. fst e = h) (\<lambda>e. (fst e, f (snd e))) (at_codes A)\<rparr>"

text \<open>The checks of an unused code, after it is marked used.\<close>

definition check_code :: "oauth_env \<Rightarrow> auth_world \<Rightarrow> token_request \<Rightarrow> string \<Rightarrow> string \<Rightarrow> auth_code \<Rightarrow> oauth_error option" where
  "check_code V w req cid verifier ac =
     (if ac_expires_at ac < aw_now w then Some (OAuthError_new ''invalid_grant'' ''authorization code expired'')
      else if ac_oauth_client_id ac \<noteq> cid then Some (OAuthError_new ''invalid_grant'' ''code was issued to another client'')
      else if tr_redirect_uri req \<noteq> Some (ac_redirect_uri ac) then Some (OAuthError_new ''invalid_grant'' ''redirect_uri mismatch'')
      else if \<not> valid_verifier verifier \<or> ov_sha256_b64url V verifier \<noteq> ac_code_challenge ac
      then Some (OAuthError_new ''invalid_grant'' ''PKCE verification failed'')
      else if (case tr_resource req of None \<Rightarrow> False | Some r \<Rightarrow> \<not> resource_matches r (ac_resource ac))
      then Some (OAuthError_new ''invalid_target'' ''resource does not match the authorization'')
      else None)"

definition grant_principal ::
    "auth_world \<Rightarrow> auth_code \<Rightarrow> string option \<Rightarrow> auth_service \<Rightarrow> (oauth_error + string) \<times> auth_service" where
  "grant_principal w ac local A =
     (case (case or_else (ac_bind_client_id ac) local of
          Some c \<Rightarrow> (case client w 1 c A of Inr (Some _) \<Rightarrow> Some c | _ \<Rightarrow> None)
        | None \<Rightarrow> None) of
        Some c \<Rightarrow> (Inr c, A)
      | None \<Rightarrow>
          (case create_client w 0 2 (ac_display_name ac) (Some ''oauth'') A of
             (Inl e, A1) \<Rightarrow> (Inl (OAuthError_new ''server_error'' (message e)), A1)
           | (Inr c, A1) \<Rightarrow> (Inr c, A1)))"

definition grant_row :: "auth_world \<Rightarrow> string \<Rightarrow> string \<Rightarrow> string \<Rightarrow> auth_code \<Rightarrow> credential_row" where
  "grant_row w cred owner cid ac =
     \<lparr>cr_id = cred, cr_client_id = owner, cr_kind = ''oauth_grant'', cr_token_hash = None, cr_token_hint = None,
      cr_scopes = join_with [SP] (ac_scopes ac), cr_created_at = aw_now w, cr_last_used_at = None, cr_expires_at = None,
      cr_revoked_at = None, cr_enabled = True, cr_oauth_client_id = Some cid, cr_resource = Some (ac_resource ac),
      cr_label = Some ''OAuth connection''\<rparr>"

definition store_grant :: "auth_world \<Rightarrow> string \<Rightarrow> string \<Rightarrow> string \<Rightarrow> auth_code \<Rightarrow> auth_service \<Rightarrow> auth_service option" where
  "store_grant w cred owner cid ac A =
     (case (if aw_db_ok w 3 then insert_credential (grant_row w cred owner cid ac) (at_credentials A) else None) of
        None \<Rightarrow> None
      | Some rows \<Rightarrow> Some (A\<lparr>at_credentials := rows,
          at_oauth_clients := update_where (\<lambda>r. oc_id r = cid)
            (\<lambda>r. r\<lparr>oc_local_client_id := Some owner, oc_last_used_at := Some (aw_now w)\<rparr>) (at_oauth_clients A)\<rparr>))"

type_synonym token_result = "oauth_error + token_response \<times> string \<times> string"

definition exchange_code ::
    "oauth_env \<Rightarrow> auth_world \<Rightarrow> token_request \<Rightarrow> string \<Rightarrow> string option \<Rightarrow> auth_settings \<Rightarrow> auth_service \<Rightarrow> token_result \<times> auth_service" where
  "exchange_code V w req cid local cfg A =
     (case (tr_code req, tr_code_verifier req) of
        (None, _) \<Rightarrow> (Inl (OAuthError_new ''invalid_request'' ''code is required''), A)
      | (Some _, None) \<Rightarrow> (Inl (OAuthError_new ''invalid_request'' ''code_verifier is required''), A)
      | (Some presented, Some verifier) \<Rightarrow>
      (let h = ov_hash V presented in
       case find_by fst h (at_codes A) of
         None \<Rightarrow> (Inl (OAuthError_new ''invalid_grant'' ''unknown or expired authorization code''), A)
       | Some (_, ac) \<Rightarrow>
           if ac_used ac
           then (Inl (OAuthError_new ''invalid_grant'' ''authorization code already used''),
             (case ac_issued_credential ac of None \<Rightarrow> A | Some cred \<Rightarrow> snd (revoke_credential w 1 cred A)))
           else
             (let A1 = set_code h (\<lambda>c. c\<lparr>ac_used := True\<rparr>) A in
              case check_code V w req cid verifier ac of
                Some e \<Rightarrow> (Inl e, A1)
              | None \<Rightarrow>
                  (case grant_principal w ac local A1 of
                     (Inl e, A2) \<Rightarrow> (Inl e, A2)
                   | (Inr owner, A2) \<Rightarrow>
                       (let cred = new_id w 1 ''cred'' in
                        case store_grant w cred owner cid ac A2 of
                          None \<Rightarrow> (Inl (OAuthError_new ''server_error'' (message LpError_internal)), A2)
                        | Some A3 \<Rightarrow>
                            (case issue_tokens V w 4 cred (ac_scopes ac) (ac_resource ac) cfg
                                 (set_code h (\<lambda>c. c\<lparr>ac_issued_credential := Some cred\<rparr>) A3) of
                               (Inl e, A4) \<Rightarrow> (Inl e, A4)
                             | (Inr resp, A4) \<Rightarrow> (Inr (resp, owner, cred), A4)))))))"

text \<open>The checks of a refresh token that was not used before: an error, or the scopes of the new tokens.\<close>

definition check_refresh ::
    "auth_world \<Rightarrow> token_request \<Rightarrow> string \<Rightarrow> token_row \<Rightarrow> credential_row \<Rightarrow> client_row \<Rightarrow> oauth_error + string list" where
  "check_refresh w req our_resource t cr cl =
     (let granted = split_whitespace (tk_scopes t) in
      if tk_revoked_at t \<noteq> None \<or> cr_revoked_at cr \<noteq> None \<or> \<not> cr_enabled cr \<or> \<not> clr_enabled cl
      then Inl (OAuthError_new ''invalid_grant'' ''the grant was revoked or disabled'')
      else if tk_expires_at t < aw_now w then Inl (OAuthError_new ''invalid_grant'' ''refresh token expired'')
      else if \<not> resource_matches (tk_resource t) our_resource
      then Inl (OAuthError_new ''invalid_grant'' ''the grant is bound to a different resource; reconnect'')
      else (case tr_scope req of
          None \<Rightarrow> Inr granted
        | Some s \<Rightarrow>
            if list_ex (\<lambda>x. \<not> List.member granted x) (split_whitespace s)
            then Inl (OAuthError_new ''invalid_scope'' ''requested scope exceeds the grant'')
            else Inr (split_whitespace s)))"

definition reuse_error :: oauth_error where
  "reuse_error = OAuthError_new ''invalid_grant'' ''refresh token reuse detected; the grant was revoked''"

definition refresh ::
    "oauth_env \<Rightarrow> auth_world \<Rightarrow> token_request \<Rightarrow> string \<Rightarrow> string \<Rightarrow> auth_settings \<Rightarrow> auth_service \<Rightarrow> token_result \<times> auth_service" where
  "refresh V w req cid our_resource cfg A =
     (case tr_refresh_token req of
        None \<Rightarrow> (Inl (OAuthError_new ''invalid_request'' ''refresh_token is required''), A)
      | Some rt \<Rightarrow>
      if \<not> aw_db_ok w 1 then (Inl (OAuthError_new ''server_error'' (message LpError_internal)), A)
      else (case token_row_of ''refresh'' (ov_hash V rt) A of
          None \<Rightarrow> (Inl (OAuthError_new ''invalid_grant'' ''unknown refresh token''), A)
        | Some (t, cr, cl) \<Rightarrow>
            if cr_oauth_client_id cr \<noteq> Some cid
            then (Inl (OAuthError_new ''invalid_grant'' ''refresh token was issued to another client''), A)
            else if tk_used_at t \<noteq> None then (Inl reuse_error, snd (revoke_credential w 2 (cr_id cr) A))
            else (case check_refresh w req our_resource t cr cl of
                Inl e \<Rightarrow> (Inl e, A)
              | Inr requested \<Rightarrow>
                  if \<not> aw_db_ok w 2 then (Inl (OAuthError_new ''server_error'' (message LpError_internal)), A)
                  else
                    (let unused = (\<lambda>x. tk_hash x = ov_hash V rt \<and> tk_used_at x = None);
                         A1 = A\<lparr>at_tokens := update_where unused (\<lambda>x. x\<lparr>tk_used_at := Some (aw_now w)\<rparr>) (at_tokens A)\<rparr> in
                     if count_where unused (at_tokens A) \<noteq> 1
                     then (Inl reuse_error, snd (revoke_credential w 3 (cr_id cr) A1))
                     else (case issue_tokens V w 4 (cr_id cr) requested (tk_resource t) cfg A1 of
                         (Inl e, A2) \<Rightarrow> (Inl e, A2)
                       | (Inr resp, A2) \<Rightarrow> (Inr (resp, cr_client_id cr, cr_id cr), A2))))))"

definition oauth_token ::
    "oauth_env \<Rightarrow> auth_world \<Rightarrow> token_request \<Rightarrow> (string \<times> string) option \<Rightarrow> string \<Rightarrow> auth_settings \<Rightarrow> auth_service
     \<Rightarrow> token_result \<times> auth_service" where
  "oauth_token V w req basic our_resource cfg A =
     (case or_else (tr_client_id req) (map_option fst basic) of
        None \<Rightarrow> (Inl (unauthorized_client ''client_id is required''), A)
      | Some cid \<Rightarrow>
          if (case tr_resource req of None \<Rightarrow> False | Some r \<Rightarrow> \<not> resource_matches r our_resource)
          then (Inl (OAuthError_new ''invalid_target'' ''unknown resource''), A)
          else (case authenticate_client V w cid (tr_client_secret req) basic A of
              Inl e \<Rightarrow> (Inl e, A)
            | Inr (_, local) \<Rightarrow>
                if tr_grant_type req = Some ''authorization_code'' then exchange_code V w req cid local cfg A
                else if tr_grant_type req = Some ''refresh_token'' then refresh V w req cid our_resource cfg A
                else (Inl (OAuthError_new ''unsupported_grant_type''
                  ''grant_type must be authorization_code or refresh_token''), A)))"

definition oauth_revoke :: "oauth_env \<Rightarrow> auth_world \<Rightarrow> string \<Rightarrow> auth_service \<Rightarrow> string option \<times> auth_service" where
  "oauth_revoke V w token A =
     (case (if aw_db_ok w 0 then find_by tk_hash (ov_hash V token) (at_tokens A) else None) of
        None \<Rightarrow> (None, A)
      | Some t \<Rightarrow>
          if tk_kind t = ''refresh''
          then (case revoke_credential w 1 (tk_credential_id t) A of
              (Inl _, A1) \<Rightarrow> (None, A1)
            | (Inr c, A1) \<Rightarrow> (Some c, A1))
          else (None, if aw_db_ok w 1 then A\<lparr>at_tokens := update_where (\<lambda>x. tk_hash x = ov_hash V token)
              (\<lambda>x. x\<lparr>tk_revoked_at := Some (aw_now w)\<rparr>) (at_tokens A)\<rparr> else A))"

end
