(* ===== verification/Auth_Props.thy ===== *)
theory Auth_Props
  imports OAuth
begin

text \<open>
  Runs of the authentication service and what holds of them: codes and refresh tokens are spent once, a grant needs a local
  decision, a revoked credential stays dead, and no token carries a scope its grant does not have.
\<close>

section \<open>Runs\<close>

text \<open>\<open>OE_Release rid h\<close>: a poll of request \<open>rid\<close> stored the code with hash \<open>h\<close>. \<open>OE_Exchange h cred\<close> and \<open>OE_Refresh h cred\<close>: a
  code or a refresh token with hash \<open>h\<close> was taken and tokens of the credential with the hashes \<open>hs\<close> were issued.\<close>

datatype auth_event =
    OE_Decide string bool
  | OE_Release string string
  | OE_Exchange string string "string list"
  | OE_Refresh string string "string list"
  | OE_Authenticated string
  | OE_Restart
  | OE_Other

definition issued_hashes :: "oauth_env \<Rightarrow> token_response \<Rightarrow> string list" where
  "issued_hashes V r = [ov_hash V (ts_access_token r), ov_hash V (ts_refresh_token r)]"

inductive auth_step :: "oauth_env \<Rightarrow> auth_service \<Rightarrow> auth_event \<Rightarrow> auth_service \<Rightarrow> bool" for V where
  auth_register: "auth_step V A OE_Other (snd (oauth_register V w rq peer cfg A))"
| auth_begin: "auth_step V A OE_Other (snd (oauth_begin V w p res peer cfg A))"
| auth_pending: "auth_step V A OE_Other (snd (oauth_pending w A))"
| auth_decide: "oauth_decide w rid approve b n A = (Inr (), A') \<Longrightarrow> auth_step V A (OE_Decide rid approve) A'"
| auth_decide_refused: "oauth_decide w rid approve b n A = (Inl e, A') \<Longrightarrow> auth_step V A OE_Other A'"
| auth_release: "oauth_poll V w rid secret iss cfg A = (out, A') \<Longrightarrow> at_codes A' \<noteq> at_codes A \<Longrightarrow>
    auth_step V A (OE_Release rid (ov_hash V (random_token w 0 ''lpc''))) A'"
| auth_poll: "oauth_poll V w rid secret iss cfg A = (out, A') \<Longrightarrow> at_codes A' = at_codes A \<Longrightarrow> auth_step V A OE_Other A'"
| auth_exchange: "exchange_code V w rq cid local cfg A = (Inr (resp, own, cred), A') \<Longrightarrow> tr_code rq = Some c \<Longrightarrow>
    auth_step V A (OE_Exchange (ov_hash V c) cred (issued_hashes V resp)) A'"
| auth_exchange_refused: "exchange_code V w rq cid local cfg A = (Inl e, A') \<Longrightarrow> auth_step V A OE_Other A'"
| auth_refresh: "refresh V w rq cid res cfg A = (Inr (resp, own, cred), A') \<Longrightarrow> tr_refresh_token rq = Some r \<Longrightarrow>
    auth_step V A (OE_Refresh (ov_hash V r) cred (issued_hashes V resp)) A'"
| auth_refresh_refused: "refresh V w rq cid res cfg A = (Inl e, A') \<Longrightarrow> auth_step V A OE_Other A'"
| auth_revoke: "auth_step V A OE_Other (snd (oauth_revoke V w t A))"
| auth_cleanup: "auth_step V A OE_Other (oauth_cleanup w A)"
| auth_reset: "auth_step V A OE_Other (oauth_reset A)"
| auth_authenticated: "authenticate_bearer (ov_hash V) w t res A = (Inr p, A') \<Longrightarrow> auth_step V A (OE_Authenticated (pr_credential_id p)) A'"
| auth_not_authenticated: "authenticate_bearer (ov_hash V) w t res A = (Inl e, A') \<Longrightarrow> auth_step V A OE_Other A'"
| auth_create_client: "auth_step V A OE_Other (snd (create_client w i n nm v A))"
| auth_enable_client: "auth_step V A OE_Other (snd (set_client_enabled w c b A))"
| auth_rename: "auth_step V A OE_Other (snd (rename_client w c nm A))"
| auth_seen: "auth_step V A OE_Other (record_seen w c info proto peer A)"
| auth_log: "auth_step V A OE_Other (log_connection_event w c cr ev dt peer A)"
| auth_manual: "auth_step V A OE_Other (snd (create_manual_token (ov_hash V) w n c sc l ds A))"
| auth_rotate: "auth_step V A OE_Other (snd (rotate_manual_token (ov_hash V) w cr A))"
| auth_revoke_credential: "auth_step V A OE_Other (snd (revoke_credential w n cr A))"
| auth_enable_credential: "auth_step V A OE_Other (snd (set_credential_enabled w cr b A))"
| auth_revoke_client: "auth_step V A OE_Other (snd (revoke_client_credentials w c A))"
| auth_restart: "auth_step V A OE_Restart
    (AuthService_new (at_clients A) (at_credentials A) (at_oauth_clients A) (at_tokens A) (at_events A))"

lemma oauth_token_cases:
  assumes "oauth_token V w rq basic res cfg A = (r, A')"
  obtains e where "r = Inl e" "A' = A"
  | cid local where "exchange_code V w rq cid local cfg A = (r, A')"
  | cid where "refresh V w rq cid res cfg A = (r, A')"
  using assms by (auto simp: oauth_token_def split: option.splits if_splits sum.splits)

section \<open>What each operation changes\<close>

lemma create_client_sel: "create_client w i n nm v A = (r, A') \<Longrightarrow>
    at_credentials A' = at_credentials A \<and> at_tokens A' = at_tokens A \<and> at_codes A' = at_codes A \<and> at_pending A' = at_pending A"
  by (auto simp: create_client_def Let_def split: if_splits option.splits)

lemma create_manual_token_sel: "create_manual_token h w n c sc l ds A = (r, A') \<Longrightarrow>
    at_tokens A' = at_tokens A \<and> at_codes A' = at_codes A \<and> at_pending A' = at_pending A"
  by (auto simp: create_manual_token_def Let_def split: if_splits option.splits)

lemma revoke_credential_sel: "revoke_credential w n cr A = (r, A') \<Longrightarrow> at_codes A' = at_codes A \<and> at_pending A' = at_pending A"
  by (auto simp: revoke_credential_def split: if_splits option.splits)

lemma revoke_credential_snd [simp]: "at_codes (snd (revoke_credential w n cr A)) = at_codes A"
  "at_pending (snd (revoke_credential w n cr A)) = at_pending A"
  by (auto simp: revoke_credential_def split: option.splits)

lemma issue_tokens_sel: "issue_tokens V w n cr sc res cfg A = (r, A') \<Longrightarrow> at_codes A' = at_codes A \<and> at_pending A' = at_pending A"
  by (auto simp: issue_tokens_def Let_def split: option.splits)

lemma grant_principal_sel: "grant_principal w ac l A = (r, A') \<Longrightarrow>
    at_credentials A' = at_credentials A \<and> at_tokens A' = at_tokens A \<and> at_codes A' = at_codes A \<and> at_pending A' = at_pending A"
  by (auto simp: grant_principal_def dest: create_client_sel split: option.splits sum.splits prod.splits)

lemma store_grant_sel: "store_grant w cr own cid ac A = Some A' \<Longrightarrow>
    at_tokens A' = at_tokens A \<and> at_codes A' = at_codes A \<and> at_pending A' = at_pending A"
  by (auto simp: store_grant_def split: option.splits)

lemma refresh_sel: "refresh V w rq cid res cfg A = (r, A') \<Longrightarrow> at_codes A' = at_codes A \<and> at_pending A' = at_pending A"
  by (auto simp: refresh_def Let_def dest: issue_tokens_sel split: option.splits if_splits sum.splits prod.splits)

lemma rotate_sel: "rotate_manual_token h w cr A = (r, A') \<Longrightarrow> at_codes A' = at_codes A \<and> at_pending A' = at_pending A"
  by (auto simp: rotate_manual_token_def dest!: create_manual_token_sel revoke_credential_sel
      split: option.splits if_splits sum.splits prod.splits)

lemma touch_credential_sel [simp]: "at_codes (touch_credential w n cr A) = at_codes A" "at_pending (touch_credential w n cr A) = at_pending A"
  "at_tokens (touch_credential w n cr A) = at_tokens A"
  by (simp_all add: touch_credential_def)

lemma authenticate_sel: "authenticate_bearer h w t res A = (r, A') \<Longrightarrow>
    at_codes A' = at_codes A \<and> at_pending A' = at_pending A \<and> at_tokens A' = at_tokens A"
  by (auto simp: authenticate_bearer_def Let_def split: option.splits if_splits prod.splits)

lemmas auth_sels = create_client_sel create_manual_token_sel revoke_credential_sel issue_tokens_sel grant_principal_sel
  store_grant_sel refresh_sel rotate_sel authenticate_sel

lemma oauth_register_sel [simp]: "at_codes (snd (oauth_register V w rq p cfg A)) = at_codes A"
  "at_pending (snd (oauth_register V w rq p cfg A)) = at_pending A" "at_tokens (snd (oauth_register V w rq p cfg A)) = at_tokens A"
  "at_credentials (snd (oauth_register V w rq p cfg A)) = at_credentials A"
  by (auto simp: oauth_register_def Let_def split: option.splits sum.splits)

lemma oauth_begin_sel [simp]: "at_codes (snd (oauth_begin V w p res peer cfg A)) = at_codes A"
  "at_tokens (snd (oauth_begin V w p res peer cfg A)) = at_tokens A"
  "at_credentials (snd (oauth_begin V w p res peer cfg A)) = at_credentials A"
  by (auto simp: oauth_begin_def Let_def split: option.splits sum.splits)

lemma oauth_pending_sel [simp]: "at_codes (snd (oauth_pending w A)) = at_codes A" "at_tokens (snd (oauth_pending w A)) = at_tokens A"
  "at_credentials (snd (oauth_pending w A)) = at_credentials A" "at_pending (snd (oauth_pending w A)) = live_requests (aw_now w) (at_pending A)"
  by (simp_all add: oauth_pending_def Let_def)

lemma oauth_decide_sel: "oauth_decide w rid a b n A = (r, A') \<Longrightarrow>
    at_codes A' = at_codes A \<and> at_tokens A' = at_tokens A \<and> at_credentials A' = at_credentials A"
  by (auto simp: oauth_decide_def split: option.splits if_splits)

lemma oauth_poll_sel: "oauth_poll V w rid sec iss cfg A = (out, A') \<Longrightarrow> at_tokens A' = at_tokens A \<and> at_credentials A' = at_credentials A"
  by (auto simp: oauth_poll_def Let_def split: option.splits if_splits)

lemma oauth_revoke_sel [simp]: "at_codes (snd (oauth_revoke V w t A)) = at_codes A" "at_pending (snd (oauth_revoke V w t A)) = at_pending A"
  by (auto simp: oauth_revoke_def dest: revoke_credential_sel split: option.splits sum.splits prod.splits)

lemma oauth_cleanup_sel [simp]: "at_tokens (oauth_cleanup w A) = at_tokens A" "at_credentials (oauth_cleanup w A) = at_credentials A"
  by (simp_all add: oauth_cleanup_def)

lemma oauth_reset_sel [simp]: "at_tokens (oauth_reset A) = at_tokens A" "at_credentials (oauth_reset A) = at_credentials A"
  "at_codes (oauth_reset A) = []" "at_pending (oauth_reset A) = []"
  by (simp_all add: oauth_reset_def)

lemma client_ops_sel [simp]:
  "at_codes (snd (set_client_enabled w c b A)) = at_codes A" "at_pending (snd (set_client_enabled w c b A)) = at_pending A"
  "at_tokens (snd (set_client_enabled w c b A)) = at_tokens A" "at_credentials (snd (set_client_enabled w c b A)) = at_credentials A"
  "at_codes (snd (rename_client w c nm A)) = at_codes A" "at_pending (snd (rename_client w c nm A)) = at_pending A"
  "at_tokens (snd (rename_client w c nm A)) = at_tokens A" "at_credentials (snd (rename_client w c nm A)) = at_credentials A"
  "at_codes (record_seen w c i pr pe A) = at_codes A" "at_pending (record_seen w c i pr pe A) = at_pending A"
  "at_tokens (record_seen w c i pr pe A) = at_tokens A" "at_credentials (record_seen w c i pr pe A) = at_credentials A"
  "at_codes (log_connection_event w c' cr ev dt pe A) = at_codes A" "at_pending (log_connection_event w c' cr ev dt pe A) = at_pending A"
  "at_tokens (log_connection_event w c' cr ev dt pe A) = at_tokens A"
  "at_credentials (log_connection_event w c' cr ev dt pe A) = at_credentials A"
  "at_codes (snd (set_credential_enabled w cr' b A)) = at_codes A" "at_pending (snd (set_credential_enabled w cr' b A)) = at_pending A"
  "at_tokens (snd (set_credential_enabled w cr' b A)) = at_tokens A"
  "at_codes (snd (revoke_client_credentials w c A)) = at_codes A" "at_pending (snd (revoke_client_credentials w c A)) = at_pending A"
  by (simp_all add: set_client_enabled_def rename_client_def record_seen_def log_connection_event_def set_credential_enabled_def
      revoke_client_credentials_def Let_def split: option.splits)

lemma AuthService_new_sel [simp]: "at_codes (AuthService_new a b c d e) = []" "at_pending (AuthService_new a b c d e) = []"
  "at_tokens (AuthService_new a b c d e) = d" "at_credentials (AuthService_new a b c d e) = b"
  by (simp_all add: AuthService_new_def)

lemma create_ops_snd [simp]:
  "at_codes (snd (create_client w i n nm v A)) = at_codes A" "at_pending (snd (create_client w i n nm v A)) = at_pending A"
  "at_tokens (snd (create_client w i n nm v A)) = at_tokens A" "at_credentials (snd (create_client w i n nm v A)) = at_credentials A"
  "at_codes (snd (create_manual_token h w n c sc l ds A)) = at_codes A" "at_pending (snd (create_manual_token h w n c sc l ds A)) = at_pending A"
  "at_tokens (snd (create_manual_token h w n c sc l ds A)) = at_tokens A"
  "at_codes (snd (rotate_manual_token h w cr A)) = at_codes A" "at_pending (snd (rotate_manual_token h w cr A)) = at_pending A"
  by (metis create_client_sel create_manual_token_sel rotate_sel prod.collapse)+

section \<open>Codes\<close>

definition unused_code :: "string \<Rightarrow> auth_service \<Rightarrow> bool" where
  "unused_code h A \<longleftrightarrow> list_ex (\<lambda>e. fst e = h \<and> \<not> ac_used (snd e)) (at_codes A)"

definition releases :: "string \<Rightarrow> auth_event \<Rightarrow> bool" where
  "releases h e = (case e of OE_Release _ h' \<Rightarrow> h' = h | _ \<Rightarrow> False)"

definition exchanges :: "string \<Rightarrow> auth_event \<Rightarrow> bool" where
  "exchanges h e = (case e of OE_Exchange h' _ _ \<Rightarrow> h' = h | _ \<Rightarrow> False)"

lemma event_kinds [simp]:
  "releases h (OE_Release r h') \<longleftrightarrow> h' = h" "\<not> releases h (OE_Decide r a)" "\<not> releases h (OE_Exchange h' c i)"
  "\<not> releases h (OE_Refresh h' c i)" "\<not> releases h (OE_Authenticated c)" "\<not> releases h OE_Restart" "\<not> releases h OE_Other"
  "exchanges h (OE_Exchange h' c i) \<longleftrightarrow> h' = h" "\<not> exchanges h (OE_Decide r a)" "\<not> exchanges h (OE_Release r h')"
  "\<not> exchanges h (OE_Refresh h' c i)" "\<not> exchanges h (OE_Authenticated c)" "\<not> exchanges h OE_Restart" "\<not> exchanges h OE_Other"
  by (simp_all add: releases_def exchanges_def)

lemma set_code_sel [simp]: "at_pending (set_code h f A) = at_pending A" "at_tokens (set_code h f A) = at_tokens A"
  "at_credentials (set_code h f A) = at_credentials A"
  "at_codes (set_code h f A) = update_where (\<lambda>e. fst e = h) (\<lambda>e. (fst e, f (snd e))) (at_codes A)"
  by (simp_all add: set_code_def)

text \<open>The codes an exchange leaves: untouched, or the one it found marked as used.\<close>

definition code_spent :: "string \<Rightarrow> auth_service \<Rightarrow> auth_service \<Rightarrow> bool" where
  "code_spent h A A' \<longleftrightarrow> (\<exists>f. (\<forall>c. ac_used (f c)) \<and> at_codes A' = update_where (\<lambda>e. fst e = h) (\<lambda>e. (fst e, f (snd e))) (at_codes A))"

lemma code_spent_once: "code_spent h A (set_code h (\<lambda>c. c\<lparr>ac_used := True\<rparr>) A)"
  by (auto simp: code_spent_def intro!: exI [of _ "\<lambda>c. c\<lparr>ac_used := True\<rparr>"])

lemma code_spent_twice:
  "at_codes A' = update_where (\<lambda>e. fst e = h) (\<lambda>e. (fst e, (snd e)\<lparr>ac_issued_credential := i\<rparr>))
     (update_where (\<lambda>e. fst e = h) (\<lambda>e. (fst e, (snd e)\<lparr>ac_used := True\<rparr>)) (at_codes A)) \<Longrightarrow> code_spent h A A'"
  by (auto simp: code_spent_def update_where_def intro!: exI [of _ "\<lambda>c. c\<lparr>ac_used := True, ac_issued_credential := i\<rparr>"])

text \<open>The part of an exchange that follows once an unused code was found.\<close>

definition granted_code ::
    "oauth_env \<Rightarrow> auth_world \<Rightarrow> token_request \<Rightarrow> string \<Rightarrow> string \<Rightarrow> auth_code \<Rightarrow> string option \<Rightarrow> auth_settings \<Rightarrow> string \<Rightarrow> auth_service
     \<Rightarrow> token_result \<times> auth_service" where
  "granted_code V w rq cid v ac l cfg h A =
     (let A1 = set_code h (\<lambda>c. c\<lparr>ac_used := True\<rparr>) A in
      case check_code V w rq cid v ac of
        Some e \<Rightarrow> (Inl e, A1)
      | None \<Rightarrow>
          (case grant_principal w ac l A1 of
             (Inl e, A2) \<Rightarrow> (Inl e, A2)
           | (Inr own, A2) \<Rightarrow>
               (let cred = new_id w 1 ''cred'' in
                case store_grant w cred own cid ac A2 of
                  None \<Rightarrow> (Inl (OAuthError_new ''server_error'' (message LpError_internal)), A2)
                | Some A3 \<Rightarrow>
                    (case issue_tokens V w 4 cred (ac_scopes ac) (ac_resource ac) cfg
                         (set_code h (\<lambda>c. c\<lparr>ac_issued_credential := Some cred\<rparr>) A3) of
                       (Inl e, A4) \<Rightarrow> (Inl e, A4)
                     | (Inr resp, A4) \<Rightarrow> (Inr (resp, own, cred), A4)))))"

lemma granted_code_cases:
  assumes "granted_code V w rq cid v ac l cfg h A = (r, A')"
  obtains e where "r = Inl e" "A' = set_code h (\<lambda>c. c\<lparr>ac_used := True\<rparr>) A"
  | r' e where "r = Inl e" "grant_principal w ac l (set_code h (\<lambda>c. c\<lparr>ac_used := True\<rparr>) A) = (r', A')"
  | own A2 A3 r' where "check_code V w rq cid v ac = None"
      "grant_principal w ac l (set_code h (\<lambda>c. c\<lparr>ac_used := True\<rparr>) A) = (Inr own, A2)"
      "store_grant w (new_id w 1 ''cred'') own cid ac A2 = Some A3"
      "issue_tokens V w 4 (new_id w 1 ''cred'') (ac_scopes ac) (ac_resource ac) cfg
         (set_code h (\<lambda>c. c\<lparr>ac_issued_credential := Some (new_id w 1 ''cred'')\<rparr>) A3) = (r', A')"
      "r = map_sum id (\<lambda>resp. (resp, own, new_id w 1 ''cred'')) r'"
proof (cases "check_code V w rq cid v ac")
  case (Some e)
  then show thesis using assms that(1) [of e] by (auto simp: granted_code_def)
next
  case None
  note chk = this
  let ?A1 = "set_code h (\<lambda>c. c\<lparr>ac_used := True\<rparr>) A"
  obtain g A2 where g: "grant_principal w ac l ?A1 = (g, A2)" by fastforce
  show thesis
  proof (cases g)
    case (Inl e)
    then show thesis using assms that(2) [of e g] g chk by (simp add: granted_code_def)
  next
    case (Inr own)
    show thesis
    proof (cases "store_grant w (new_id w 1 ''cred'') own cid ac A2")
      case None
      then show thesis using assms that(2) [of _ g] g Inr chk by (auto simp: granted_code_def Let_def)
    next
      case (Some A3)
      then show thesis
        using assms that(3) [OF chk g [unfolded Inr] Some] g Inr chk
        by (auto simp: granted_code_def Let_def split: prod.splits sum.splits)
    qed
  qed
qed

lemma granted_code_spends:
  assumes "granted_code V w rq cid v ac l cfg h A = (r, A')"
  shows "at_pending A' = at_pending A \<and> code_spent h A A'"
  using assms
proof (cases rule: granted_code_cases)
  case (1 e)
  then show ?thesis using code_spent_once by simp
next
  case (2 r' e)
  then show ?thesis using grant_principal_sel [OF 2(2)] code_spent_once [of h A] by (simp add: code_spent_def)
next
  case (3 own A2 A3 r')
  then show ?thesis
    using grant_principal_sel [OF 3(2)] store_grant_sel [OF 3(3)] issue_tokens_sel [OF 3(4)]
    by (auto intro: code_spent_twice)
qed

lemma exchange_code_found:
  assumes "tr_code rq = Some c" and "tr_code_verifier rq = Some v" and "find_by fst (ov_hash V c) (at_codes A) = Some (k, ac)"
  shows "exchange_code V w rq cid l cfg A =
    (if ac_used ac then (Inl (OAuthError_new ''invalid_grant'' ''authorization code already used''),
       (case ac_issued_credential ac of None \<Rightarrow> A | Some cred \<Rightarrow> snd (revoke_credential w 1 cred A)))
     else granted_code V w rq cid v ac l cfg (ov_hash V c) A)"
  using assms by (simp add: exchange_code_def granted_code_def Let_def)

lemma exchange_code_cases:
  assumes "exchange_code V w rq cid l cfg A = (r, A')"
  obtains e where "r = Inl e" "A' = A"
  | e n cred where "r = Inl e" "A' = snd (revoke_credential w n cred A)"
  | c v ac where "tr_code rq = Some c" "tr_code_verifier rq = Some v"
      "find_by fst (ov_hash V c) (at_codes A) = Some (ov_hash V c, ac)" "\<not> ac_used ac"
      "granted_code V w rq cid v ac l cfg (ov_hash V c) A = (r, A')"
proof (cases "tr_code rq = None \<or> tr_code_verifier rq = None
    \<or> (\<forall>c. tr_code rq = Some c \<longrightarrow> find_by fst (ov_hash V c) (at_codes A) = None)")
  case True
  then have "\<not> is_ok r \<and> A' = A"
    using assms by (auto simp: exchange_code_def is_ok_def split: option.splits)
  then show thesis using that(1) by (cases r) (auto simp: is_ok_def)
next
  case False
  then obtain c v k ac where f: "tr_code rq = Some c" "tr_code_verifier rq = Some v"
      "find_by fst (ov_hash V c) (at_codes A) = Some (k, ac)"
    by auto
  moreover have "k = ov_hash V c" using find_by_Some [OF f(3)] by simp
  moreover note x = exchange_code_found [OF f, of w cid l cfg]
  ultimately show thesis
    using assms that
    by (cases "ac_used ac"; cases "ac_issued_credential ac") auto
qed

lemma exchange_code_spends:
  assumes "exchange_code V w rq cid l cfg A = (r, A')"
  shows "at_pending A' = at_pending A \<and> (at_codes A' = at_codes A \<and> \<not> is_ok r
    \<or> (\<exists>c ac. tr_code rq = Some c \<and> find_by fst (ov_hash V c) (at_codes A) = Some (ov_hash V c, ac) \<and> \<not> ac_used ac
        \<and> code_spent (ov_hash V c) A A'))"
  using assms
proof (cases rule: exchange_code_cases)
  case (3 c v ac)
  then show ?thesis using granted_code_spends [OF 3(5)] by blast
qed (auto simp: is_ok_def)

lemma unused_code_mono:
  assumes "auth_step V A e A'" and "\<not> releases h e" and "unused_code h A'"
  shows "unused_code h A"
  using assms
proof cases
  case (auth_release w rid secret iss cfg out)
  then have "ov_hash V (random_token w 0 ''lpc'') \<noteq> h" using assms(2) by simp
  moreover have "set (at_codes A') \<subseteq> set (at_codes A) \<union> {x. fst x = ov_hash V (random_token w 0 ''lpc'')}"
    using auth_release(2)
    by (auto simp: oauth_poll_def Let_def put_code_def delete_where_def split: option.splits if_splits)
  ultimately show ?thesis using assms(3) by (auto simp: unused_code_def list_ex_iff)
next
  case (auth_cleanup w)
  then have "set (at_codes A') \<subseteq> set (at_codes A)" by (auto simp: oauth_cleanup_def)
  then show ?thesis using assms(3) unfolding unused_code_def list_ex_iff by blast
next
  case (auth_exchange w rq cid local cfg resp own cred c)
  then show ?thesis
    using assms(3) exchange_code_spends [OF auth_exchange(2)]
    by (fastforce simp: unused_code_def code_spent_def update_where_def list_ex_iff split: if_splits)
next
  case (auth_exchange_refused w rq cid local cfg e)
  then show ?thesis
    using assms(3) exchange_code_spends [OF auth_exchange_refused(2)]
    by (fastforce simp: unused_code_def code_spent_def update_where_def list_ex_iff split: if_splits)
qed (use assms(3) in \<open>auto simp: unused_code_def oauth_cleanup_def list_ex_iff dest!: auth_sels oauth_decide_sel\<close>)

lemma exchange_needs_unused:
  assumes "auth_step V A e A'" and "exchanges h e"
  shows "unused_code h A \<and> \<not> unused_code h A'"
  using assms
proof cases
  case (auth_exchange w rq cid local cfg resp own cred c)
  then have "h = ov_hash V c" using assms(2) by simp
  then show ?thesis
    using exchange_code_spends [OF auth_exchange(2)] auth_exchange(3)
    by (auto simp: is_ok_def unused_code_def code_spent_def update_where_def list_ex_iff dest!: find_by_Some split: if_splits)
qed (use assms(2) in auto)

text \<open>The runs in which no code with the hash \<open>h\<close> is released.\<close>

definition quiet_step :: "oauth_env \<Rightarrow> string \<Rightarrow> auth_service \<Rightarrow> auth_event \<Rightarrow> auth_service \<Rightarrow> bool" where
  "quiet_step V h A e A' \<longleftrightarrow> auth_step V A e A' \<and> \<not> releases h e"

interpretation code_once: once_system "quiet_step V h" "\<lambda>_. True" "exchanges h" "\<lambda>A. \<not> unused_code h A" for V h
  by unfold_locales (auto simp: quiet_step_def dest: unused_code_mono exchange_needs_unused)

lemma run_restrict: "run step s es t \<Longrightarrow> list_all Q es \<Longrightarrow> run (\<lambda>s e t. step s e t \<and> Q e) s es t"
  by (induction rule: run.induct) (auto intro: run.intros)

text \<open>C14: An authorization code is good for one exchange: between two releases of a code with the same hash, over all operations and
  restarts, at most one exchange of it succeeds.\<close>

theorem code_exchanged_once:
  assumes "run (auth_step V) A es A'" and "list_all (\<lambda>e. \<not> releases h e) es"
  shows "length (filter (exchanges h) es) \<le> 1"
  using code_once.at_most_once [of V h A es A'] run_restrict [OF assms] by (simp add: quiet_step_def [abs_def])

section \<open>Refresh tokens\<close>

definition unused_token :: "string \<Rightarrow> auth_service \<Rightarrow> bool" where
  "unused_token h A \<longleftrightarrow> list_ex (\<lambda>t. tk_hash t = h \<and> tk_used_at t = None) (at_tokens A)"

definition issues :: "string \<Rightarrow> auth_event \<Rightarrow> bool" where
  "issues h e = (case e of OE_Exchange _ _ hs \<Rightarrow> List.member hs h | OE_Refresh _ _ hs \<Rightarrow> List.member hs h | _ \<Rightarrow> False)"

definition refreshes :: "string \<Rightarrow> auth_event \<Rightarrow> bool" where
  "refreshes h e = (case e of OE_Refresh h' _ _ \<Rightarrow> h' = h | _ \<Rightarrow> False)"

lemma token_event_kinds [simp]:
  "issues h (OE_Exchange h' c hs) \<longleftrightarrow> List.member hs h" "issues h (OE_Refresh h' c hs) \<longleftrightarrow> List.member hs h"
  "\<not> issues h (OE_Decide r a)" "\<not> issues h (OE_Release r h')" "\<not> issues h (OE_Authenticated c)" "\<not> issues h OE_Restart" "\<not> issues h OE_Other"
  "refreshes h (OE_Refresh h' c hs) \<longleftrightarrow> h' = h" "\<not> refreshes h (OE_Exchange h' c hs)"
  "\<not> refreshes h (OE_Decide r a)" "\<not> refreshes h (OE_Release r h')" "\<not> refreshes h (OE_Authenticated c)" "\<not> refreshes h OE_Restart"
  "\<not> refreshes h OE_Other"
  by (simp_all add: issues_def refreshes_def)

text \<open>How tokens change: each token of the new table was issued just now or comes from one of the old table with the same hash and
  credential that was not used before it.\<close>

definition token_from :: "token_row \<Rightarrow> token_row \<Rightarrow> bool" where
  "token_from t t' \<longleftrightarrow> tk_hash t' = tk_hash t \<and> tk_kind t' = tk_kind t \<and> tk_credential_id t' = tk_credential_id t
     \<and> tk_scopes t' = tk_scopes t \<and> (tk_used_at t' = None \<longrightarrow> tk_used_at t = None)"

definition tokens_from :: "string list \<Rightarrow> auth_service \<Rightarrow> auth_service \<Rightarrow> bool" where
  "tokens_from hs A A' \<longleftrightarrow> (\<forall>t'\<in>set (at_tokens A'). List.member hs (tk_hash t') \<or> (\<exists>t\<in>set (at_tokens A). token_from t t'))"

lemma token_from_refl [simp]: "token_from t t"
  by (simp add: token_from_def)

lemma tokens_from_subset:
  "set (at_tokens A') \<subseteq> set (at_tokens A) \<union> {t. List.member hs (tk_hash t)} \<Longrightarrow> tokens_from hs A A'"
  unfolding tokens_from_def using token_from_refl by blast

lemma tokens_from_same: "at_tokens A' = at_tokens A \<Longrightarrow> tokens_from hs A A'"
  by (rule tokens_from_subset) simp

lemma tokens_from_update: "(\<And>t. token_from t (f t)) \<Longrightarrow> at_tokens A' = update_where P f (at_tokens A) \<Longrightarrow> tokens_from hs A A'"
proof -
  assume f: "\<And>t. token_from t (f t)" and A': "at_tokens A' = update_where P f (at_tokens A)"
  show "tokens_from hs A A'"
    unfolding tokens_from_def
  proof
    fix t'
    assume "t' \<in> set (at_tokens A')"
    then obtain t where "t \<in> set (at_tokens A)" "t' = (if P t then f t else t)" by (auto simp: A' update_where_def)
    moreover from this(2) have "token_from t t'" using f by simp
    ultimately show "List.member hs (tk_hash t') \<or> (\<exists>t\<in>set (at_tokens A). token_from t t')" by blast
  qed
qed

lemma token_from_trans: "token_from a b \<Longrightarrow> token_from b c \<Longrightarrow> token_from a c"
  by (auto simp: token_from_def)

lemma tokens_from_trans:
  assumes "tokens_from hs A B" and "tokens_from hs' B C"
  shows "tokens_from (hs @ hs') A C"
  unfolding tokens_from_def
proof
  fix t
  assume "t \<in> set (at_tokens C)"
  then consider "List.member hs' (tk_hash t)" | u where "u \<in> set (at_tokens B)" "token_from u t"
    using assms(2) unfolding tokens_from_def by blast
  then show "List.member (hs @ hs') (tk_hash t) \<or> (\<exists>s\<in>set (at_tokens A). token_from s t)"
  proof cases
    case (2 u)
    then have "List.member hs (tk_hash u) \<or> (\<exists>s\<in>set (at_tokens A). token_from s u)" "tk_hash u = tk_hash t"
      using assms(1) by (auto simp: tokens_from_def token_from_def)
    then show ?thesis using 2 token_from_trans by (auto simp: List.member_iff)
  qed (simp add: List.member_iff)
qed

lemma revoke_credential_tokens: "tokens_from hs A (snd (revoke_credential w n cr A))"
  by (auto simp: revoke_credential_def tokens_from_def token_from_def revoke_token_def update_where_def split: option.splits)

lemma issue_tokens_cases:
  assumes "issue_tokens V w n cr sc res cfg A = (r, A')"
  obtains e where "r = Inl e" "A' = A"
  | resp a b e1 e2 where "r = Inr resp" "a = grant_token w (ov_hash V (ts_access_token resp)) ''access'' cr e1 sc res"
      "b = grant_token w (ov_hash V (ts_refresh_token resp)) ''refresh'' cr e2 sc res"
      "at_tokens A' = delete_where (\<lambda>t. tk_credential_id t = cr \<and> tk_expires_at t < aw_now w - DAY_MS) (at_tokens A @ [a, b])"
      "at_credentials A' = update_where (\<lambda>x. cr_id x = cr) (\<lambda>x. x\<lparr>cr_expires_at := Some (aw_now w + e2)\<rparr>) (at_credentials A)"
      "ts_scope resp = join_with [SP] sc"
proof -
  have ins: "insert_by tk_hash x rows = Some rows' \<longleftrightarrow> rows' = rows @ [x] \<and> \<not> list_ex (\<lambda>y. tk_hash y = tk_hash x) rows" for x rows rows'
    by (auto simp: insert_by_def)
  show thesis
    using assms that(1) that(2) [OF _ refl refl]
    by (auto simp: issue_tokens_def Let_def bind_eq_Some_conv ins split: option.splits if_splits)
qed

lemma issue_tokens_from:
  assumes "issue_tokens V w n cr sc res cfg A = (r, A')"
  shows "tokens_from (case r of Inl _ \<Rightarrow> [] | Inr resp \<Rightarrow> issued_hashes V resp) A A'"
  using assms
proof (cases rule: issue_tokens_cases)
  case (1 e)
  then show ?thesis by (simp add: tokens_from_same)
next
  case (2 resp a b e1 e2)
  then show ?thesis by (intro tokens_from_subset) (auto simp: issued_hashes_def delete_where_def grant_token_def)
qed

lemma tokens_from_left: "at_tokens B = at_tokens A \<Longrightarrow> tokens_from hs B C \<Longrightarrow> tokens_from hs A C"
  by (simp add: tokens_from_def)

definition result_hashes :: "oauth_env \<Rightarrow> token_result \<Rightarrow> string list" where
  "result_hashes V r = (case r of Inl _ \<Rightarrow> [] | Inr (resp, _) \<Rightarrow> issued_hashes V resp)"

lemma exchange_tokens:
  assumes "exchange_code V w rq cid l cfg A = (r, A')"
  shows "tokens_from (result_hashes V r) A A'"
  using assms
proof (cases rule: exchange_code_cases)
  case (3 c v ac)
  from 3(5) show ?thesis
  proof (cases rule: granted_code_cases)
    case (1 e)
    then show ?thesis by (auto intro: tokens_from_same)
  next
    case (2 r' e)
    then show ?thesis using grant_principal_sel [OF 2(2)] by (auto intro: tokens_from_same)
  next
    case (3 own A2 A3 r')
    have "at_tokens A3 = at_tokens A" using grant_principal_sel [OF 3(2)] store_grant_sel [OF 3(3)] by simp
    then show ?thesis
      using tokens_from_left [OF _ issue_tokens_from [OF 3(4)], of A] 3(5) by (cases r') (auto simp: result_hashes_def)
  qed
qed (auto intro: tokens_from_same revoke_credential_tokens)

text \<open>The part of a refresh that follows once the checks passed.\<close>

definition take_token :: "oauth_env \<Rightarrow> auth_world \<Rightarrow> string \<Rightarrow> auth_service \<Rightarrow> auth_service" where
  "take_token V w h A = A\<lparr>at_tokens := update_where (\<lambda>x. tk_hash x = h \<and> tk_used_at x = None)
     (\<lambda>x. x\<lparr>tk_used_at := Some (aw_now w)\<rparr>) (at_tokens A)\<rparr>"

lemma refresh_cases:
  assumes "refresh V w rq cid res cfg A = (r, A')"
  obtains e where "r = Inl e" "A' = A"
  | e n cred where "r = Inl e" "A' = snd (revoke_credential w n cred A)"
  | e cred h where "r = Inl e" "A' = snd (revoke_credential w 3 cred (take_token V w h A))"
  | rt t cr cl sc r' where "tr_refresh_token rq = Some rt" "token_row_of ''refresh'' (ov_hash V rt) A = Some (t, cr, cl)"
      "tk_used_at t = None" "check_refresh w rq res t cr cl = Inr sc"
      "issue_tokens V w 4 (cr_id cr) sc (tk_resource t) cfg (take_token V w (ov_hash V rt) A) = (r', A')"
      "r = map_sum id (\<lambda>resp. (resp, cr_client_id cr, cr_id cr)) r'" "cr_oauth_client_id cr = Some cid"
proof (cases "tr_refresh_token rq")
  case None
  then show thesis using assms that(1) by (auto simp: refresh_def)
next
  case (Some rt)
  note rt = this
  show thesis
  proof (cases "\<not> aw_db_ok w 1 \<or> token_row_of ''refresh'' (ov_hash V rt) A = None")
    case True
    then show thesis using assms rt that(1) by (auto simp: refresh_def split: if_splits)
  next
    case False
    then obtain t cr cl where t: "token_row_of ''refresh'' (ov_hash V rt) A = Some (t, cr, cl)" by auto
    show thesis
    proof (cases "cr_oauth_client_id cr \<noteq> Some cid \<or> tk_used_at t \<noteq> None")
      case True
      then show thesis using assms rt t False that(1,2) by (auto simp: refresh_def split: if_splits)
    next
      case used: False
      show thesis
      proof (cases "check_refresh w rq res t cr cl")
        case (Inl e)
        then show thesis using assms rt t False used that(1) by (auto simp: refresh_def)
      next
        case (Inr sc)
        then show thesis
          using assms rt t False used that(1) that(3) that(4) [OF rt t _ Inr]
          by (auto simp: refresh_def Let_def take_token_def split: if_splits prod.splits sum.splits)
      qed
    qed
  qed
qed

lemma take_token_from: "tokens_from [] A (take_token V w h A)"
  by (rule tokens_from_update [where A' = "take_token V w h A"]) (auto simp: take_token_def token_from_def)

lemma refresh_tokens:
  assumes "refresh V w rq cid res cfg A = (r, A')"
  shows "tokens_from (result_hashes V r) A A'"
  using assms
proof (cases rule: refresh_cases)
  case (1 e)
  then show ?thesis by (simp add: tokens_from_same)
next
  case (2 e n cred)
  then show ?thesis by (simp add: revoke_credential_tokens)
next
  case (3 e cred h)
  then show ?thesis
    using tokens_from_trans [of "[]" A "take_token V w h A" "[]" A', OF take_token_from] revoke_credential_tokens
    by (simp add: result_hashes_def)
next
  case (4 rt t cr cl sc r')
  then show ?thesis
    using tokens_from_trans [OF take_token_from issue_tokens_from [OF 4(5)]]
    by (cases r') (auto simp: result_hashes_def)
qed

lemma oauth_revoke_snd:
  "snd (oauth_revoke V w t A) = A \<or> (\<exists>n cr. snd (oauth_revoke V w t A) = snd (revoke_credential w n cr A))
    \<or> snd (oauth_revoke V w t A) = A\<lparr>at_tokens := update_where (\<lambda>x. tk_hash x = ov_hash V t)
        (\<lambda>x. x\<lparr>tk_revoked_at := Some (aw_now w)\<rparr>) (at_tokens A)\<rparr>"
proof -
  have "snd (case revoke_credential w 1 cr A of (Inl _, B) \<Rightarrow> (None, B) | (Inr c, B) \<Rightarrow> (Some c, B)) = snd (revoke_credential w 1 cr A)" for cr
    by (simp split: prod.split sum.split)
  then show ?thesis
    unfolding oauth_revoke_def by (cases "if aw_db_ok w 0 then find_by tk_hash (ov_hash V t) (at_tokens A) else None") auto
qed

lemma rotate_snd:
  obtains "snd (rotate_manual_token h w cr A) = A"
  | c sc l ds r1 A1 where "create_manual_token h w 1 c sc l ds A = (r1, A1)"
      "snd (rotate_manual_token h w cr A) = A1 \<or> snd (rotate_manual_token h w cr A) = snd (revoke_credential w 2 cr A1)"
proof (cases "find (\<lambda>r. cr_id r = cr \<and> cr_kind r = ''manual_token'' \<and> cr_revoked_at r = None) (at_credentials A)")
  case None
  then show thesis using that(1) by (simp add: rotate_manual_token_def)
next
  case (Some x)
  obtain r1 A1 where c: "create_manual_token h w 1 (cr_client_id x) (parse_scopes (cr_scopes x)) (cr_label x)
      (map_option (\<lambda>e. word_of_int (max (e - aw_now w) DAY_MS div DAY_MS)) (cr_expires_at x)) A = (r1, A1)"
    by fastforce
  show thesis
  proof (cases "aw_db_ok w 0")
    case True
    then have "snd (rotate_manual_token h w cr A) = A1 \<or> snd (rotate_manual_token h w cr A) = snd (revoke_credential w 2 cr A1)"
      using Some c by (simp add: rotate_manual_token_def del: One_nat_def split: sum.split prod.split)
    then show thesis by (rule that(2) [OF c])
  qed (use that(1) in \<open>simp add: rotate_manual_token_def\<close>)
qed

lemma auth_step_tokens:
  assumes "auth_step V A e A'"
  shows "tokens_from (case e of OE_Exchange _ _ hs \<Rightarrow> hs | OE_Refresh _ _ hs \<Rightarrow> hs | _ \<Rightarrow> []) A A'"
  using assms
proof cases
  case (auth_exchange w rq cid local cfg resp own cred c)
  then show ?thesis using exchange_tokens [OF auth_exchange(2)] by (simp add: result_hashes_def)
next
  case (auth_exchange_refused w rq cid local cfg e)
  then show ?thesis using exchange_tokens [OF auth_exchange_refused(2)] by (simp add: result_hashes_def)
next
  case (auth_refresh w rq cid res cfg resp own cred r)
  then show ?thesis using refresh_tokens [OF auth_refresh(2)] by (simp add: result_hashes_def)
next
  case (auth_refresh_refused w rq cid res cfg e)
  then show ?thesis using refresh_tokens [OF auth_refresh_refused(2)] by (simp add: result_hashes_def)
next
  case (auth_revoke w t)
  have "tokens_from [] A (snd (oauth_revoke V w t A))"
    using oauth_revoke_snd [of V w t A]
  proof (elim disjE exE)
    assume "snd (oauth_revoke V w t A) = A\<lparr>at_tokens := update_where (\<lambda>x. tk_hash x = ov_hash V t)
      (\<lambda>x. x\<lparr>tk_revoked_at := Some (aw_now w)\<rparr>) (at_tokens A)\<rparr>"
    then show ?thesis
      by (intro tokens_from_update [where f = "\<lambda>x. x\<lparr>tk_revoked_at := Some (aw_now w)\<rparr>"]) (simp_all add: token_from_def)
  qed (simp_all add: tokens_from_same revoke_credential_tokens)
  then show ?thesis using auth_revoke by simp
next
  case (auth_rotate w cr)
  then show ?thesis
    using tokens_from_left [OF _ revoke_credential_tokens]
    by (cases rule: rotate_snd [of "ov_hash V" w cr A]) (auto intro: tokens_from_same dest: create_manual_token_sel)
next
  case (auth_revoke_client w c)
  then show ?thesis
    using tokens_from_update [of "revoke_token (aw_now w)" A' "owned_by A c" A]
    by (cases "aw_db_ok w 0") (auto simp: revoke_client_credentials_def revoke_token_def token_from_def intro: tokens_from_same)
next
  case (auth_revoke_credential w n cr)
  then show ?thesis by (simp add: revoke_credential_tokens)
qed (auto intro!: tokens_from_same dest: oauth_decide_sel oauth_poll_sel authenticate_sel)

lemma tokens_from_unused:
  assumes "tokens_from hs A A'" and "\<not> List.member hs h" and "unused_token h A'"
  shows "unused_token h A"
proof -
  obtain t where t: "t \<in> set (at_tokens A')" "tk_hash t = h" "tk_used_at t = None"
    using assms(3) by (auto simp: unused_token_def list_ex_iff)
  then obtain u where "u \<in> set (at_tokens A)" "token_from u t"
    using assms(1,2) unfolding tokens_from_def by blast
  then show ?thesis using t by (auto simp: unused_token_def list_ex_iff token_from_def)
qed

lemma unused_token_mono:
  assumes "auth_step V A e A'" and "\<not> issues h e" and "unused_token h A'"
  shows "unused_token h A"
  by (rule tokens_from_unused [OF auth_step_tokens [OF assms(1)] _ assms(3)])
     (use assms(2) in \<open>cases e; simp add: List.member_iff\<close>)

lemma take_token_used: "\<not> unused_token h (take_token V w h A)"
proof -
  have "\<not> list_ex (\<lambda>t. tk_hash t = h \<and> tk_used_at t = None) (update_where (\<lambda>x. tk_hash x = h \<and> tk_used_at x = None)
      (\<lambda>x. x\<lparr>tk_used_at := Some (aw_now w)\<rparr>) ts)" for ts
    by (induction ts) (simp_all add: update_where_def)
  then show ?thesis by (simp add: unused_token_def take_token_def)
qed

lemma refresh_needs_unused:
  assumes "auth_step V A e A'" and "refreshes h e" and "\<not> issues h e"
  shows "unused_token h A \<and> \<not> unused_token h A'"
  using assms(1)
proof cases
  case (auth_refresh w rq cid res cfg resp own cred r)
  then have h: "h = ov_hash V r" "\<not> List.member (issued_hashes V resp) h" using assms(2,3) by simp_all
  from auth_refresh(2) show ?thesis
  proof (cases rule: refresh_cases)
    case (4 rt t cr cl sc r')
    have rt: "rt = r" using 4(1) auth_refresh(3) by simp
    have r': "r' = Inr resp" using 4(6) by (cases r') simp_all
    have "t \<in> set (at_tokens A)" "tk_hash t = h"
      using 4(2) rt h by (auto simp: token_row_of_def bind_eq_Some_conv dest!: find_Some_in_set)
    then have "unused_token h A" using 4(3) by (auto simp: unused_token_def list_ex_iff)
    moreover have "\<not> unused_token h (take_token V w h A)"
      by (rule take_token_used)
    moreover have "unused_token h A' \<Longrightarrow> unused_token h (take_token V w h A)"
      using tokens_from_unused [OF issue_tokens_from [OF 4(5)], of h] h r' rt by simp
    ultimately show ?thesis by blast
  qed simp_all
qed (use assms(2) in simp_all)

definition unissued_step :: "oauth_env \<Rightarrow> string \<Rightarrow> auth_service \<Rightarrow> auth_event \<Rightarrow> auth_service \<Rightarrow> bool" where
  "unissued_step V h A e A' \<longleftrightarrow> auth_step V A e A' \<and> \<not> issues h e"

interpretation token_once: once_system "unissued_step V h" "\<lambda>_. True" "refreshes h" "\<lambda>A. \<not> unused_token h A" for V h
  by unfold_locales (auto simp: unissued_step_def dest: unused_token_mono refresh_needs_unused)

text \<open>C15: Refresh tokens rotate: as long as no new token with the same hash is issued, at most one refresh with a refresh token
  succeeds, over all operations and restarts.\<close>

theorem refresh_token_used_once:
  assumes "run (auth_step V) A es A'" and "list_all (\<lambda>e. \<not> issues h e) es"
  shows "length (filter (refreshes h) es) \<le> 1"
  using token_once.at_most_once [of V h A es A'] run_restrict [OF assms] by (simp add: unissued_step_def [abs_def])

section \<open>Revocation\<close>

definition revoked :: "string \<Rightarrow> auth_service \<Rightarrow> bool" where
  "revoked cred A \<longleftrightarrow> list_ex (\<lambda>r. cr_id r = cred) (at_credentials A)
     \<and> list_all (\<lambda>r. cr_id r = cred \<longrightarrow> cr_revoked_at r \<noteq> None) (at_credentials A)"

text \<open>How credentials change: rows keep their identifier, scopes and revocation, and a new row has a new identifier.\<close>

definition row_kept :: "credential_row \<Rightarrow> credential_row \<Rightarrow> bool" where
  "row_kept r r' \<longleftrightarrow> cr_id r' = cr_id r \<and> cr_scopes r' = cr_scopes r \<and> (cr_revoked_at r \<noteq> None \<longrightarrow> cr_revoked_at r' \<noteq> None)"

definition credentials_grow :: "credential_row list \<Rightarrow> credential_row list \<Rightarrow> bool" where
  "credentials_grow rs rs' \<longleftrightarrow> (\<forall>r'\<in>set rs'. (\<exists>r\<in>set rs. row_kept r r') \<or> cr_id r' \<notin> cr_id ` set rs)
     \<and> cr_id ` set rs \<subseteq> cr_id ` set rs'"

lemma row_kept_refl [simp]: "row_kept r r"
  by (simp add: row_kept_def)

lemma row_kept_trans: "row_kept a b \<Longrightarrow> row_kept b c \<Longrightarrow> row_kept a c"
  by (auto simp: row_kept_def)

lemma credentials_grow_refl: "credentials_grow rs rs"
  unfolding credentials_grow_def using row_kept_refl by blast

lemma credentials_grow_trans:
  assumes "credentials_grow a b" and "credentials_grow b c"
  shows "credentials_grow a c"
proof -
  have "(\<exists>r\<in>set a. row_kept r r'') \<or> cr_id r'' \<notin> cr_id ` set a" if "r'' \<in> set c" for r''
  proof (cases "cr_id r'' \<in> cr_id ` set b")
    case True
    moreover have "(\<exists>r\<in>set b. row_kept r r'') \<or> cr_id r'' \<notin> cr_id ` set b"
      using assms(2) that by (simp add: credentials_grow_def)
    ultimately obtain r' where "r' \<in> set b" "row_kept r' r''" by blast
    moreover from this(1) have "(\<exists>r\<in>set a. row_kept r r') \<or> cr_id r' \<notin> cr_id ` set a"
      using assms(1) by (simp add: credentials_grow_def)
    ultimately consider r where "r \<in> set a" "row_kept r r'" | "cr_id r' \<notin> cr_id ` set a" by blast
    then show ?thesis
    proof cases
      case (1 r)
      then show ?thesis using row_kept_trans \<open>row_kept r' r''\<close> by blast
    next
      case 2
      then show ?thesis using \<open>row_kept r' r''\<close> by (simp add: row_kept_def)
    qed
  next
    case False
    moreover have "cr_id ` set a \<subseteq> cr_id ` set b" using assms(1) by (simp add: credentials_grow_def)
    ultimately show ?thesis by blast
  qed
  moreover have "cr_id ` set a \<subseteq> cr_id ` set c"
    by (rule subset_trans [of _ "cr_id ` set b"]) (use assms in \<open>simp_all add: credentials_grow_def\<close>)
  ultimately show ?thesis by (simp add: credentials_grow_def)
qed

lemma credentials_grow_update:
  assumes "\<And>r. row_kept r (f r)"
  shows "credentials_grow rs (update_where P f rs)"
proof -
  have kept: "row_kept r (if P r then f r else r)" for r using assms by simp
  have "cr_id ` set rs \<subseteq> cr_id ` set (update_where P f rs)"
  proof
    fix i
    assume "i \<in> cr_id ` set rs"
    then obtain r where "r \<in> set rs" "i = cr_id (if P r then f r else r)" using kept by (auto simp: row_kept_def)
    then show "i \<in> cr_id ` set (update_where P f rs)" by (auto simp: update_where_def)
  qed
  moreover have "\<exists>r\<in>set rs. row_kept r r'" if "r' \<in> set (update_where P f rs)" for r'
    using that kept by (auto simp: update_where_def) metis+
  ultimately show ?thesis by (simp add: credentials_grow_def)
qed

lemma insert_credential_grow:
  assumes "insert_credential r rs = Some rs'"
  shows "credentials_grow rs rs'"
proof -
  have "rs' = rs @ [r]" "cr_id r \<notin> cr_id ` set rs"
    using assms by (auto simp: insert_credential_def insert_by_def list_ex_iff split: if_splits)
  moreover have "\<exists>r\<in>set rs. row_kept r r'" if "r' \<in> set rs" for r'
    using that row_kept_refl by blast
  ultimately show ?thesis by (auto simp: credentials_grow_def)
qed

lemma revoke_credential_grow: "credentials_grow (at_credentials A) (at_credentials (snd (revoke_credential w n cr A)))"
  by (auto simp: revoke_credential_def revoke_row_def row_kept_def intro: credentials_grow_refl intro!: credentials_grow_update
      split: option.split)

lemma create_manual_token_grow:
  "create_manual_token h w n c sc l ds A = (r, A') \<Longrightarrow> credentials_grow (at_credentials A) (at_credentials A')"
  by (auto simp: create_manual_token_def Let_def intro: credentials_grow_refl insert_credential_grow split: if_splits option.splits)

lemma issue_tokens_grow:
  assumes "issue_tokens V w n cr sc res cfg A = (r, A')"
  shows "credentials_grow (at_credentials A) (at_credentials A')"
  using assms
proof (cases rule: issue_tokens_cases)
  case (2 resp a b e1 e2)
  then show ?thesis by (auto simp: row_kept_def intro!: credentials_grow_update)
qed (simp add: credentials_grow_refl)

lemma store_grant_grow: "store_grant w cr own cid ac A = Some A' \<Longrightarrow> credentials_grow (at_credentials A) (at_credentials A')"
  by (auto simp: store_grant_def intro: insert_credential_grow split: option.splits if_splits)

lemma exchange_grow:
  assumes "exchange_code V w rq cid l cfg A = (r, A')"
  shows "credentials_grow (at_credentials A) (at_credentials A')"
  using assms
proof (cases rule: exchange_code_cases)
  case (3 c v ac)
  from 3(5) show ?thesis
  proof (cases rule: granted_code_cases)
    case (1 e)
    then show ?thesis by (simp add: credentials_grow_refl)
  next
    case (2 r' e)
    then show ?thesis using grant_principal_sel [OF 2(2)] by (simp add: credentials_grow_refl)
  next
    case (3 own A2 A3 r')
    have "at_credentials A2 = at_credentials A" using grant_principal_sel [OF 3(2)] by simp
    then show ?thesis
      using credentials_grow_trans [OF store_grant_grow [OF 3(3)]] issue_tokens_grow [OF 3(4)] by simp
  qed
qed (simp_all add: credentials_grow_refl revoke_credential_grow)

lemma take_token_credentials [simp]: "at_credentials (take_token V w h A) = at_credentials A"
  by (simp add: take_token_def)

lemma refresh_grow:
  assumes "refresh V w rq cid res cfg A = (r, A')"
  shows "credentials_grow (at_credentials A) (at_credentials A')"
  using assms
proof (cases rule: refresh_cases)
  case (3 e cred h)
  then show ?thesis using revoke_credential_grow [of "take_token V w h A"] by simp
next
  case (4 rt t cr cl sc r')
  then show ?thesis using issue_tokens_grow [OF 4(5)] by simp
qed (simp_all add: credentials_grow_refl revoke_credential_grow)

lemma touch_credential_grow: "credentials_grow (at_credentials A) (at_credentials (touch_credential w n cr A))"
  by (auto simp: touch_credential_def row_kept_def intro: credentials_grow_refl intro!: credentials_grow_update)

lemma authenticate_grow: "authenticate_bearer h w t res A = (r, A') \<Longrightarrow> credentials_grow (at_credentials A) (at_credentials A')"
  by (auto simp: authenticate_bearer_def Let_def intro: credentials_grow_refl touch_credential_grow split: option.splits if_splits prod.splits)

lemma auth_step_credentials:
  assumes "auth_step V A e A'"
  shows "credentials_grow (at_credentials A) (at_credentials A')"
  using assms
proof cases
  case (auth_revoke w t)
  then show ?thesis
    using oauth_revoke_snd [of V w t A] revoke_credential_grow by (auto intro: credentials_grow_refl)
next
  case (auth_rotate w cr)
  show ?thesis
  proof (cases rule: rotate_snd [of "ov_hash V" w cr A])
    case 1
    then show ?thesis using auth_rotate by (simp add: credentials_grow_refl)
  next
    case (2 c sc l ds r1 A1)
    then show ?thesis
      using auth_rotate create_manual_token_grow [OF 2(1)] credentials_grow_trans [OF create_manual_token_grow [OF 2(1)] revoke_credential_grow]
      by auto
  qed
next
  case (auth_manual w n c sc l ds)
  then show ?thesis by (metis create_manual_token_grow prod.collapse)
next
  case (auth_enable_credential w cr b)
  then show ?thesis
    by (auto simp: set_credential_enabled_def row_kept_def intro: credentials_grow_refl intro!: credentials_grow_update split: option.split)
next
  case (auth_revoke_client w c)
  then show ?thesis
    by (auto simp: revoke_client_credentials_def revoke_row_def row_kept_def intro: credentials_grow_refl intro!: credentials_grow_update)
qed (auto intro: credentials_grow_refl exchange_grow refresh_grow authenticate_grow revoke_credential_grow
    dest!: oauth_decide_sel oauth_poll_sel)

lemma revoked_stays:
  assumes "credentials_grow (at_credentials A) (at_credentials A')" and "revoked cred A"
  shows "revoked cred A'"
proof -
  have ex: "cred \<in> cr_id ` set (at_credentials A)" using assms(2) by (auto simp: revoked_def list_ex_iff)
  then have "cred \<in> cr_id ` set (at_credentials A')" using assms(1) by (auto simp: credentials_grow_def)
  moreover have "cr_revoked_at r' \<noteq> None" if r': "r' \<in> set (at_credentials A')" "cr_id r' = cred" for r'
  proof -
    have "(\<exists>r\<in>set (at_credentials A). row_kept r r') \<or> cr_id r' \<notin> cr_id ` set (at_credentials A)"
      using assms(1) r'(1) by (simp add: credentials_grow_def)
    then obtain r where r: "r \<in> set (at_credentials A)" "row_kept r r'" using r'(2) ex by blast
    then have "cr_revoked_at r \<noteq> None" using assms(2) r'(2) by (auto simp: revoked_def list_all_iff row_kept_def)
    then show ?thesis using r(2) by (simp add: row_kept_def)
  qed
  ultimately show ?thesis by (auto simp: revoked_def list_ex_iff list_all_iff)
qed

interpretation revocation: invariant_system "auth_step V" "revoked cred" for V cred
  by unfold_locales (rule revoked_stays [OF auth_step_credentials])

lemma revoke_rows:
  "list_ex (\<lambda>r. cr_id r = cred) (update_where (\<lambda>x. cr_id x = cred) (revoke_row now) rs) = list_ex (\<lambda>r. cr_id r = cred) rs"
  "list_all (\<lambda>r. cr_id r = cred \<longrightarrow> cr_revoked_at r \<noteq> None) (update_where (\<lambda>x. cr_id x = cred) (revoke_row now) rs)"
proof -
  have "\<exists>y. or_else x (Some now) = Some y" for x by (cases x) simp_all
  then show "list_ex (\<lambda>r. cr_id r = cred) (update_where (\<lambda>x. cr_id x = cred) (revoke_row now) rs) = list_ex (\<lambda>r. cr_id r = cred) rs"
    "list_all (\<lambda>r. cr_id r = cred \<longrightarrow> cr_revoked_at r \<noteq> None) (update_where (\<lambda>x. cr_id x = cred) (revoke_row now) rs)"
    by (induction rs) (simp_all add: update_where_def revoke_row_def)
qed

lemma revoke_credential_revokes:
  assumes "fst (revoke_credential w n cred A) = Inr c"
  shows "revoked cred (snd (revoke_credential w n cred A))"
proof -
  obtain r where "find_by cr_id cred (at_credentials A) = Some r" "aw_db_ok w n"
    using assms by (auto simp: revoke_credential_def split: if_splits option.splits)
  moreover from this(1) have "list_ex (\<lambda>r. cr_id r = cred) (at_credentials A)"
    using find_by_Some by (force simp: list_ex_iff)
  ultimately show ?thesis using revoke_rows by (simp add: revoke_credential_def revoked_def)
qed

lemma authenticated_not_revoked:
  assumes "authenticate_bearer h w t res A = (Inr p, A')"
  shows "\<not> revoked (pr_credential_id p) A"
  using assms
  by (auto simp: authenticate_bearer_def Let_def revoked_def list_all_iff manual_row_def token_row_of_def bind_eq_Some_conv
      manual_principal_def oauth_principal_def dest!: find_by_Some find_Some_in_set split: option.splits if_splits prod.splits)

text \<open>C19: Revocation is final: once a credential is revoked, no later call authenticates with it, whatever is enabled, rotated,
  refreshed or restarted in between.\<close>

theorem revoked_credential_dead:
  assumes "run (auth_step V) (snd (revoke_credential w n cred A)) es A'" and "fst (revoke_credential w n cred A) = Inr owner_id"
  shows "\<not> List.member es (OE_Authenticated cred) \<and> (\<forall>t res p A''. authenticate_bearer (ov_hash V) w' t res A' = (Inr p, A'') \<longrightarrow> pr_credential_id p \<noteq> cred)"
proof -
  have rev: "revoked cred (snd (revoke_credential w n cred A))"
    using assms(2) by (rule revoke_credential_revokes)
  have "OE_Authenticated cred \<notin> set es"
  proof
    assume "OE_Authenticated cred \<in> set es"
    then obtain xs ys where "es = xs @ OE_Authenticated cred # ys" by (meson split_list)
    then obtain B B' where "revoked cred B" "auth_step V B (OE_Authenticated cred) B'"
      using revocation.run_middle [of V _ xs "OE_Authenticated cred" ys A' cred] assms(1) rev by blast
    then show False by (auto elim!: auth_step.cases dest: authenticated_not_revoked)
  qed
  moreover have "revoked cred A'" using revocation.run_inv [OF assms(1) rev] .
  ultimately show ?thesis using authenticated_not_revoked by (auto simp: List.member_iff)
qed

text \<open>A refresh token that comes back after it was used takes its whole grant down: the answer is an error and the credential
  is revoked, provided the database answers.\<close>

theorem refresh_reuse_revokes:
  assumes "tr_refresh_token rq = Some rt" and "token_row_of ''refresh'' (ov_hash V rt) A = Some (t, cr, cl)"
    and "tk_used_at t \<noteq> None" and "cr_oauth_client_id cr = Some cid" and "aw_db_ok w 1" and "aw_db_ok w 2"
  shows "\<exists>A'. refresh V w rq cid res cfg A = (Inl reuse_error, A') \<and> revoked (cr_id cr) A'"
proof -
  have "cr \<in> set (at_credentials A)"
    using assms(2) by (auto simp: token_row_of_def bind_eq_Some_conv dest!: find_by_Some)
  then obtain c where "find_by cr_id (cr_id cr) (at_credentials A) = Some c"
    by (cases "find_by cr_id (cr_id cr) (at_credentials A)") (auto simp: find_by_None)
  then have "fst (revoke_credential w 2 (cr_id cr) A) = Inr (cr_client_id c)"
    using assms(6) by (simp add: revoke_credential_def)
  then show ?thesis
    using assms revoke_credential_revokes by (simp add: refresh_def)
qed

end
