(* ===== verification/Auth_Provenance.thy ===== *)
theory Auth_Provenance
  imports Auth_Props
begin

text \<open>Where an OAuth grant comes from: every access token handed out for an authorization code goes back to a request that was approved
  on this machine, and what a bearer token authenticates as is what the stored credential says.\<close>

section \<open>Provenance\<close>

text \<open>What the trace tells about the maps in memory: an approved request was decided locally, and a code stems from a request that was
  approved before its release.\<close>

definition approved_before :: "auth_event list \<Rightarrow> string \<Rightarrow> bool" where
  "approved_before es h \<longleftrightarrow> (\<exists>xs rid ys. es = xs @ OE_Release rid h # ys \<and> List.member xs (OE_Decide rid True))"

definition traced :: "auth_event list \<Rightarrow> auth_service \<Rightarrow> bool" where
  "traced es A \<longleftrightarrow> (\<forall>(rid, pa)\<in>set (at_pending A). \<forall>d. pa_decision pa = Some d \<and> od_approve d \<longrightarrow> List.member es (OE_Decide rid True))
     \<and> (\<forall>(h, ac)\<in>set (at_codes A). approved_before es h)"

lemma approved_before_snoc: "approved_before es h \<Longrightarrow> approved_before (es @ [e]) h"
  unfolding approved_before_def by (metis append.assoc append_Cons)

lemma traced_intro:
  assumes "\<And>h ac. (h, ac) \<in> set (at_codes A) \<Longrightarrow> approved_before es h"
    and "\<And>rid pa d. \<lbrakk>(rid, pa) \<in> set (at_pending A); pa_decision pa = Some d; od_approve d\<rbrakk> \<Longrightarrow> List.member es (OE_Decide rid True)"
  shows "traced es A"
  unfolding traced_def using assms by blast

lemma traced_request:
  "\<lbrakk>traced es A; (rid, pa) \<in> set (at_pending A); pa_decision pa = Some d; od_approve d\<rbrakk> \<Longrightarrow> OE_Decide rid True \<in> set es"
  unfolding traced_def List.member_iff by blast

lemma traced_code: "\<lbrakk>traced es A; (h, ac) \<in> set (at_codes A)\<rbrakk> \<Longrightarrow> approved_before es h"
  unfolding traced_def by blast

lemma traced_mono:
  assumes "traced es A" and "set (at_pending A') \<subseteq> set (at_pending A) \<union> {e. pa_decision (snd e) = None}"
    and "fst ` set (at_codes A') \<subseteq> fst ` set (at_codes A)"
  shows "traced (es @ [e]) A'"
proof -
  have "approved_before (es @ [e]) h" if "(h, ac) \<in> set (at_codes A')" for h ac
  proof -
    have "h \<in> fst ` set (at_codes A')" using that by force
    then have "h \<in> fst ` set (at_codes A)" using assms(3) by blast
    then show ?thesis using traced_code [OF assms(1)] approved_before_snoc by force
  qed
  moreover have "List.member (es @ [e]) (OE_Decide rid True)"
    if p: "(rid, pa) \<in> set (at_pending A')" "pa_decision pa = Some d" "od_approve d" for rid pa d
  proof -
    have "(rid, pa) \<in> set (at_pending A)" using assms(2) p by auto
    then show ?thesis using traced_request [OF assms(1)] p by (simp add: List.member_iff)
  qed
  ultimately show ?thesis by (rule traced_intro)
qed

lemma update_codes_fst: "fst ` set (update_where P (\<lambda>e. (fst e, f (snd e))) cs) = fst ` set cs"
proof -
  have "map fst (update_where P (\<lambda>e. (fst e, f (snd e))) cs) = map fst cs" by (simp add: update_where_def)
  then show ?thesis by (metis set_map)
qed

lemma exchange_codes_fst:
  assumes "exchange_code V w rq cid l cfg A = (r, A')"
  shows "fst ` set (at_codes A') = fst ` set (at_codes A)"
proof -
  consider "at_codes A' = at_codes A"
    | f k where "at_codes A' = update_where (\<lambda>e. fst e = k) (\<lambda>e. (fst e, f (snd e))) (at_codes A)"
    using exchange_code_spends [OF assms] unfolding code_spent_def by blast
  then show ?thesis by cases (simp_all add: update_codes_fst)
qed

lemma exchange_traced:
  assumes "exchange_code V w rq cid l cfg A = (r, A')" and "traced es A"
  shows "traced (es @ [e]) A'"
proof (rule traced_mono [OF assms(2)])
  show "set (at_pending A') \<subseteq> set (at_pending A) \<union> {e. pa_decision (snd e) = None}"
    using exchange_code_spends [OF assms(1)] by simp
  show "fst ` set (at_codes A') \<subseteq> fst ` set (at_codes A)"
    using exchange_codes_fst [OF assms(1)] by simp
qed

lemma begin_pending: "set (at_pending (snd (oauth_begin V w p res peer cfg A))) \<subseteq> set (at_pending A) \<union> {e. pa_decision (snd e) = None}"
  by (auto simp: oauth_begin_def Let_def live_requests_def delete_where_def split: option.splits sum.splits)

lemma decide_pending:
  assumes "oauth_decide w rid ap b n A = (Inr (), A')"
  shows "at_pending A' = update_where (\<lambda>e. fst e = rid) (\<lambda>e. (fst e, (snd e)\<lparr>pa_decision := Some \<lparr>od_approve = ap, od_bind_client_id = b,
      od_display_name = n\<rparr>\<rparr>)) (at_pending A) \<and> at_codes A' = at_codes A"
  using assms by (auto simp: oauth_decide_def split: option.splits if_splits)

lemma decide_traced:
  assumes "oauth_decide w rid ap b n A = (Inr (), A')" and "traced es A"
  shows "traced (es @ [OE_Decide rid ap]) A'"
proof (rule traced_intro)
  fix h ac
  assume "(h, ac) \<in> set (at_codes A')"
  then show "approved_before (es @ [OE_Decide rid ap]) h"
    using decide_pending [OF assms(1)] traced_code [OF assms(2)] approved_before_snoc by simp
next
  fix i q d
  assume q: "(i, q) \<in> set (at_pending A')" "pa_decision q = Some d" "od_approve d"
  have "i = rid \<and> od_approve d = ap \<or> (i, q) \<in> set (at_pending A)"
    using q decide_pending [OF assms(1)] by (auto simp: update_where_def split: if_splits)
  then show "List.member (es @ [OE_Decide rid ap]) (OE_Decide i True)"
    using traced_request [OF assms(2)] q(2,3) by (auto simp: List.member_iff)
qed

lemma poll_release:
  assumes "oauth_poll V w rid sec iss cfg A = (out, A')" and "at_codes A' \<noteq> at_codes A"
  shows "set (at_pending A') \<subseteq> set (at_pending A) \<and> (\<exists>pa d. (rid, pa) \<in> set (at_pending A) \<and> pa_decision pa = Some d \<and> od_approve d
    \<and> at_codes A' = put_code (ov_hash V (random_token w 0 ''lpc'')) (issued_code w cfg pa d) (at_codes A))"
  using assms by (auto simp: oauth_poll_def Let_def delete_where_def dest!: find_by_Some split: option.splits if_splits) blast

lemma poll_traced:
  assumes "oauth_poll V w rid sec iss cfg A = (out, A')" and "traced es A" and "at_codes A' \<noteq> at_codes A"
  shows "traced (es @ [OE_Release rid (ov_hash V (random_token w 0 ''lpc''))]) A'"
proof (rule traced_intro)
  let ?h = "ov_hash V (random_token w 0 ''lpc'')"
  obtain pa d where pa: "(rid, pa) \<in> set (at_pending A)" "pa_decision pa = Some d" "od_approve d"
    and A': "at_codes A' = put_code ?h (issued_code w cfg pa d) (at_codes A)"
    using poll_release [OF assms(1,3)] by blast
  have h: "approved_before (es @ [OE_Release rid ?h]) ?h"
    unfolding approved_before_def List.member_iff using traced_request [OF assms(2) pa] by blast
  fix k ac
  assume "(k, ac) \<in> set (at_codes A')"
  then have "k = ?h \<or> (k, ac) \<in> set (at_codes A)" by (auto simp: A' put_code_def delete_where_def)
  then show "approved_before (es @ [OE_Release rid ?h]) k"
    using h traced_code [OF assms(2)] approved_before_snoc by blast
next
  fix i q d
  assume q: "(i, q) \<in> set (at_pending A')" "pa_decision q = Some d" "od_approve d"
  have "(i, q) \<in> set (at_pending A)" using q(1) poll_release [OF assms(1,3)] by blast
  then show "List.member (es @ [OE_Release rid (ov_hash V (random_token w 0 ''lpc''))]) (OE_Decide i True)"
    using traced_request [OF assms(2)] q(2,3) by (simp add: List.member_iff)
qed

lemma poll_pending: "oauth_poll V w rid sec iss cfg A = (out, A') \<Longrightarrow> set (at_pending A') \<subseteq> set (at_pending A)"
  by (auto simp: oauth_poll_def Let_def delete_where_def split: option.splits if_splits)

lemma traced_same: "\<lbrakk>traced es A; at_pending A' = at_pending A; at_codes A' = at_codes A\<rbrakk> \<Longrightarrow> traced (es @ [e]) A'"
  by (rule traced_mono) auto

lemma traced_sub: "\<lbrakk>traced es A; set (at_pending A') \<subseteq> set (at_pending A); set (at_codes A') \<subseteq> set (at_codes A)\<rbrakk> \<Longrightarrow> traced (es @ [e]) A'"
  by (rule traced_mono) auto

lemma auth_step_traced:
  assumes "auth_step V A e A'" and "traced es A"
  shows "traced (es @ [e]) A'"
  using assms(1)
proof cases
  case (auth_begin w p res peer cfg)
  then show ?thesis using traced_mono [OF assms(2) begin_pending [of V w p res peer cfg A]] by simp
next
  case (auth_pending w)
  then show ?thesis by (auto simp: oauth_pending_def Let_def live_requests_def delete_where_def intro!: traced_sub [OF assms(2)])
next
  case (auth_decide w rid ap b n)
  then show ?thesis using decide_traced [OF _ assms(2)] by blast
next
  case (auth_decide_refused w rid ap b n e)
  then have "set (at_pending A') \<subseteq> set (at_pending A) \<and> at_codes A' = at_codes A"
    by (auto simp: oauth_decide_def delete_where_def live_requests_def split: option.splits if_splits)
  then show ?thesis using traced_sub [OF assms(2)] by simp
next
  case (auth_release w rid sec iss cfg out)
  then show ?thesis using poll_traced [OF _ assms(2)] by blast
next
  case (auth_poll w rid sec iss cfg out)
  then show ?thesis using poll_pending traced_sub [OF assms(2)] by (metis subset_refl)
next
  case (auth_exchange w rq cid local cfg resp own cred c)
  then show ?thesis using exchange_traced [OF _ assms(2)] by blast
next
  case (auth_exchange_refused w rq cid local cfg e)
  then show ?thesis using exchange_traced [OF _ assms(2)] by blast
next
  case (auth_cleanup w)
  then show ?thesis by (auto simp: oauth_cleanup_def delete_where_def live_requests_def intro!: traced_sub [OF assms(2)])
next
  case auth_reset
  then show ?thesis by (auto simp: oauth_reset_def intro!: traced_sub [OF assms(2)])
next
  case auth_restart
  then show ?thesis by (auto intro!: traced_sub [OF assms(2)])
qed (auto intro!: traced_same [OF assms(2)] dest!: auth_sels)

lemma run_traced: "run (auth_step V) A es A' \<Longrightarrow> traced [] A \<Longrightarrow> traced es A'"
  by (induction rule: run.induct) (auto intro: auth_step_traced)

text \<open>C13: No grant without the user: in a run from a fresh service, an authorization code that is exchanged for tokens was released by the
  poll of an authorization request that was approved on this machine before.\<close>

theorem grant_needs_local_decision:
  assumes "run (auth_step V) (AuthService_new cs crs ocs ts evs) (fs @ OE_Exchange h cred hs # gs) A"
  shows "\<exists>xs rid ys. fs = xs @ OE_Release rid h # ys \<and> List.member xs (OE_Decide rid True)"
proof -
  obtain B B' where B: "run (auth_step V) (AuthService_new cs crs ocs ts evs) fs B" "auth_step V B (OE_Exchange h cred hs) B'"
    using run_split [OF assms] by (auto simp: run_Cons)
  have "traced [] (AuthService_new cs crs ocs ts evs)" by (rule traced_intro) simp_all
  then have tr: "traced fs B" using run_traced [OF B(1)] by simp
  have "unused_code h B" using exchange_needs_unused [OF B(2)] by simp
  then obtain ac where "(h, ac) \<in> set (at_codes B)" by (auto simp: unused_code_def list_ex_iff)
  then show ?thesis using traced_code [OF tr] unfolding approved_before_def by simp
qed

section \<open>What an exchange checks\<close>

text \<open>The code grant asks for proof: tokens are issued only for an unused, unexpired code of the presenting client, with the redirect
  address of the request, a well-formed PKCE verifier whose digest is the recorded challenge, and no other resource than the approved one.\<close>

theorem exchange_requires_proof:
  assumes "exchange_code V w rq cid local cfg A = (Inr (resp, own, cred), A')"
  shows "\<exists>presented verifier ac. tr_code rq = Some presented \<and> tr_code_verifier rq = Some verifier
    \<and> find_by fst (ov_hash V presented) (at_codes A) = Some (ov_hash V presented, ac)
    \<and> \<not> ac_used ac \<and> aw_now w \<le> ac_expires_at ac \<and> ac_oauth_client_id ac = cid \<and> tr_redirect_uri rq = Some (ac_redirect_uri ac)
    \<and> valid_verifier verifier \<and> ov_sha256_b64url V verifier = ac_code_challenge ac
    \<and> (case tr_resource rq of None \<Rightarrow> True | Some r \<Rightarrow> resource_matches r (ac_resource ac))"
  using assms
proof (cases rule: exchange_code_cases)
  case (3 c v ac)
  from 3(5) have "check_code V w rq cid v ac = None"
    by (cases rule: granted_code_cases) auto
  then show ?thesis using 3 by (auto simp: check_code_def split: if_splits option.splits)
qed auto

end
