(* ===== verification/Auth_Examples.thy ===== *)
theory Auth_Examples
  imports Auth_Provenance
begin

text \<open>One connection through the authorization server, from the browser's request to the second use of a refresh token: the concrete
  run on which the properties of the authentication service are applied.\<close>

definition conn_env :: oauth_env where
  "conn_env = \<lparr>ov_url_parse = (\<lambda>s. Inl s), ov_append_query = (\<lambda>s q. s), ov_hash = (\<lambda>s. s), ov_sha256_b64url = (\<lambda>s. s)\<rparr>"

definition conn_world :: "string \<Rightarrow> int \<Rightarrow> auth_world" where
  "conn_world tag now = \<lparr>aw_now = now, aw_db_ok = (\<lambda>_. True), aw_id = (\<lambda>n. tag), aw_token = (\<lambda>n. tag), aw_pairing = ''1234''\<rparr>"

definition conn_verifier :: string where
  "conn_verifier = ''abcdefghijklmnopqrstuvwxyzabcdefghijklmnopqrstuvwxyz''"

definition conn_client :: oauth_client_row where
  "conn_client = \<lparr>oc_id = ''lpoc_1'', oc_name = Some ''Chat'', oc_redirect_uris = [''https://chat/cb''], oc_auth_method = ''none'',
     oc_secret_hash = None, oc_created_at = 0, oc_last_used_at = None, oc_software_id = None, oc_registration_addr = None,
     oc_local_client_id = None\<rparr>"

definition conn_params :: authorize_params where
  "conn_params = \<lparr>azp_response_type = Some ''code'', azp_client = Some ''lpoc_1'', azp_redirect_uri = None, azp_state = Some ''st'',
     azp_code_challenge = Some conn_verifier, azp_code_challenge_method = Some ''S256'', azp_scope = Some ''workstation:read'',
     azp_resource = None\<rparr>"

definition conn_exchange :: token_request where
  "conn_exchange = \<lparr>tr_grant_type = Some ''authorization_code'', tr_code = Some ''lpc_c'', tr_redirect_uri = Some ''https://chat/cb'',
     tr_client_id = Some ''lpoc_1'', tr_client_secret = None, tr_code_verifier = Some conn_verifier, tr_refresh_token = None,
     tr_scope = None, tr_resource = None\<rparr>"

definition conn_refresh :: token_request where
  "conn_refresh = \<lparr>tr_grant_type = Some ''refresh_token'', tr_code = None, tr_redirect_uri = None,
     tr_client_id = Some ''lpoc_1'', tr_client_secret = None, tr_code_verifier = None, tr_refresh_token = Some ''lpr_x'',
     tr_scope = None, tr_resource = None\<rparr>"

definition conn_resource :: string where
  "conn_resource = ''https://pc.example/mcp''"

definition conn0 :: auth_service where
  "conn0 = AuthService_new [] [] [conn_client] [] []"

definition conn1 :: auth_service where
  "conn1 = snd (oauth_begin conn_env (conn_world ''r'' 0) conn_params conn_resource None AuthSettings_default conn0)"

definition conn2 :: auth_service where
  "conn2 = snd (oauth_decide (conn_world ''d'' 1000) ''req_r'' True None None conn1)"

definition conn3 :: auth_service where
  "conn3 = snd (oauth_poll conn_env (conn_world ''c'' 2000) ''req_r'' (Some ''lpb_r'') ''iss'' AuthSettings_default conn2)"

definition conn4 :: auth_service where
  "conn4 = snd (exchange_code conn_env (conn_world ''x'' 3000) conn_exchange ''lpoc_1'' None AuthSettings_default conn3)"

definition conn5 :: auth_service where
  "conn5 = snd (refresh conn_env (conn_world ''y'' 4000) conn_refresh ''lpoc_1'' conn_resource AuthSettings_default conn4)"

definition conn_tokens :: "string \<Rightarrow> token_response" where
  "conn_tokens tag = \<lparr>ts_access_token = ''lpa_'' @ tag, ts_token_type = ''Bearer'', ts_expires_in = 3600, ts_refresh_token = ''lpr_'' @ tag,
     ts_scope = ''workstation:read''\<rparr>"

lemma conn_decided: "fst (oauth_decide (conn_world ''d'' 1000) ''req_r'' True None None conn1) = Inr ()"
  by code_simp

lemma conn_released: "map fst (at_codes conn2) = [] \<and> map fst (at_codes conn3) = [''lpc_c'']"
  by code_simp

lemma conn_exchanged:
  "fst (exchange_code conn_env (conn_world ''x'' 3000) conn_exchange ''lpoc_1'' None AuthSettings_default conn3)
   = Inr (conn_tokens ''x'', ''cl_x'', ''cred_x'')"
  by code_simp

lemma conn_refreshed:
  "fst (refresh conn_env (conn_world ''y'' 4000) conn_refresh ''lpoc_1'' conn_resource AuthSettings_default conn4)
   = Inr (conn_tokens ''y'', ''cl_x'', ''cred_x'')"
  by code_simp

lemma conn_step1: "auth_step conn_env conn0 OE_Other conn1"
  unfolding conn1_def by (rule auth_begin)

lemma conn_step2: "auth_step conn_env conn1 (OE_Decide ''req_r'' True) conn2"
  by (rule auth_decide [of "conn_world ''d'' 1000" _ _ None None])
    (metis conn2_def conn_decided prod.collapse)

lemma conn_step3: "auth_step conn_env conn2 (OE_Release ''req_r'' ''lpc_c'') conn3"
proof -
  have "at_codes conn3 \<noteq> at_codes conn2" using conn_released by auto
  moreover have "ov_hash conn_env (random_token (conn_world ''c'' 2000) 0 ''lpc'') = ''lpc_c''" by code_simp
  ultimately show ?thesis
    using auth_release [of conn_env "conn_world ''c'' 2000" "''req_r''" "Some ''lpb_r''" "''iss''" AuthSettings_default conn2]
    by (metis conn3_def prod.collapse)
qed

lemma conn_step4: "auth_step conn_env conn3 (OE_Exchange ''lpc_c'' ''cred_x'' [''lpa_x'', ''lpr_x'']) conn4"
proof -
  have "exchange_code conn_env (conn_world ''x'' 3000) conn_exchange ''lpoc_1'' None AuthSettings_default conn3
      = (Inr (conn_tokens ''x'', ''cl_x'', ''cred_x''), conn4)"
    using conn_exchanged by (metis conn4_def prod.collapse)
  moreover have "tr_code conn_exchange = Some ''lpc_c''" by code_simp
  moreover have "ov_hash conn_env ''lpc_c'' = ''lpc_c''" "issued_hashes conn_env (conn_tokens ''x'') = [''lpa_x'', ''lpr_x'']" by code_simp+
  ultimately show ?thesis using auth_exchange by metis
qed

lemma conn_refresh_result:
  "refresh conn_env (conn_world ''y'' 4000) conn_refresh ''lpoc_1'' conn_resource AuthSettings_default conn4
   = (Inr (conn_tokens ''y'', ''cl_x'', ''cred_x''), conn5)"
  using conn_refreshed by (metis conn5_def prod.collapse)

lemma conn_step5: "auth_step conn_env conn4 (OE_Refresh ''lpr_x'' ''cred_x'' [''lpa_y'', ''lpr_y'']) conn5"
proof -
  have "tr_refresh_token conn_refresh = Some ''lpr_x''" "ov_hash conn_env ''lpr_x'' = ''lpr_x''"
    "issued_hashes conn_env (conn_tokens ''y'') = [''lpa_y'', ''lpr_y'']"
    by code_simp+
  then show ?thesis using auth_refresh [OF conn_refresh_result] by metis
qed

lemma run_one: "auth_step V s e t \<Longrightarrow> run (auth_step V) s [e] t"
  using run_snoc [OF run_nil, of "auth_step V" s e t] by simp

lemma conn_request: "run (auth_step conn_env) conn0 [OE_Other, OE_Decide ''req_r'' True, OE_Release ''req_r'' ''lpc_c''] conn3"
proof -
  note run_snoc [of "auth_step conn_env", OF run_one [OF conn_step1] conn_step2]
  from run_snoc [of "auth_step conn_env", OF this conn_step3] show ?thesis by simp
qed

section \<open>Witnesses\<close>

theorem code_exchanged_once_witness:
  "run (auth_step conn_env) conn3 [OE_Exchange ''lpc_c'' ''cred_x'' [''lpa_x'', ''lpr_x'']] conn4
   \<and> length (filter (exchanges ''lpc_c'') [OE_Exchange ''lpc_c'' ''cred_x'' [''lpa_x'', ''lpr_x'']]) \<le> 1"
  using code_exchanged_once [OF run_one [OF conn_step4], of "''lpc_c''"] run_one [OF conn_step4] by simp

theorem refresh_token_used_once_witness:
  "run (auth_step conn_env) conn4 [OE_Refresh ''lpr_x'' ''cred_x'' [''lpa_y'', ''lpr_y'']] conn5
   \<and> length (filter (refreshes ''lpr_x'') [OE_Refresh ''lpr_x'' ''cred_x'' [''lpa_y'', ''lpr_y'']]) \<le> 1"
  using refresh_token_used_once [OF run_one [OF conn_step5], of "''lpr_x''"] run_one [OF conn_step5] by simp

theorem revoked_credential_dead_witness:
  "\<exists>A'. run (auth_step conn_env) (snd (revoke_credential (conn_world ''z'' 5000) 0 ''cred_x'' conn4)) [OE_Other] A'
    \<and> (\<forall>t res p A''. authenticate_bearer (ov_hash conn_env) (conn_world ''q'' 7000) t res A' = (Inr p, A'') \<longrightarrow> pr_credential_id p \<noteq> ''cred_x'')"
proof -
  let ?R = "snd (revoke_credential (conn_world ''z'' 5000) 0 ''cred_x'' conn4)"
  let ?E = "snd (set_credential_enabled (conn_world ''e'' 6000) ''cred_x'' True ?R)"
  have ok: "fst (revoke_credential (conn_world ''z'' 5000) 0 ''cred_x'' conn4) = Inr ''cl_x''" by code_simp
  have r: "run (auth_step conn_env) ?R [OE_Other] ?E" by (rule run_one [OF auth_enable_credential])
  show ?thesis using revoked_credential_dead [OF r ok] r by blast
qed

theorem refresh_reuse_revokes_witness:
  "\<exists>A'. refresh conn_env (conn_world ''z'' 5000) conn_refresh ''lpoc_1'' conn_resource AuthSettings_default conn5 = (Inl reuse_error, A')
    \<and> revoked ''cred_x'' A'"
proof -
  have "\<exists>t cr cl. token_row_of ''refresh'' ''lpr_x'' conn5 = Some (t, cr, cl) \<and> tk_used_at t \<noteq> None
      \<and> cr_oauth_client_id cr = Some ''lpoc_1'' \<and> cr_id cr = ''cred_x''"
  proof -
    have "(case token_row_of ''refresh'' ''lpr_x'' conn5 of None \<Rightarrow> False | Some (t, cr, cl) \<Rightarrow> tk_used_at t \<noteq> None
      \<and> cr_oauth_client_id cr = Some ''lpoc_1'' \<and> cr_id cr = ''cred_x'')" by code_simp
    then show ?thesis by (auto split: option.splits)
  qed
  then obtain t cr cl where row: "token_row_of ''refresh'' (ov_hash conn_env ''lpr_x'') conn5 = Some (t, cr, cl)" "tk_used_at t \<noteq> None"
      "cr_oauth_client_id cr = Some ''lpoc_1''" "cr_id cr = ''cred_x''"
    by (auto simp: conn_env_def)
  have "tr_refresh_token conn_refresh = Some ''lpr_x''" by code_simp
  from refresh_reuse_revokes [OF this row(1-3), of "conn_world ''z'' 5000" conn_resource AuthSettings_default] row(4)
  show ?thesis by (simp add: conn_world_def)
qed

theorem grant_needs_local_decision_witness:
  "\<exists>xs rid ys. [OE_Other, OE_Decide ''req_r'' True, OE_Release ''req_r'' ''lpc_c''] = xs @ OE_Release rid ''lpc_c'' # ys
    \<and> List.member xs (OE_Decide rid True)"
proof -
  have "run (auth_step conn_env) (AuthService_new [] [] [conn_client] [] [])
      ([OE_Other, OE_Decide ''req_r'' True, OE_Release ''req_r'' ''lpc_c''] @ [OE_Exchange ''lpc_c'' ''cred_x'' [''lpa_x'', ''lpr_x'']]) conn4"
    using run_snoc [of "auth_step conn_env", OF conn_request conn_step4] by (simp only: conn0_def)
  from grant_needs_local_decision [OF this] show ?thesis .
qed

theorem exchange_requires_proof_witness:
  "\<exists>ac. find_by fst ''lpc_c'' (at_codes conn3) = Some (''lpc_c'', ac) \<and> ac_oauth_client_id ac = ''lpoc_1''"
proof -
  have "exchange_code conn_env (conn_world ''x'' 3000) conn_exchange ''lpoc_1'' None AuthSettings_default conn3
      = (Inr (conn_tokens ''x'', ''cl_x'', ''cred_x''), conn4)"
    using conn_exchanged by (metis conn4_def prod.collapse)
  from exchange_requires_proof [OF this] show ?thesis by (auto simp: conn_exchange_def conn_env_def)
qed

end
