(* ===== verification/Audit_Log.thy ===== *)
theory Audit_Log
  imports Config Event_System "HOL-Library.While_Combinator" "HOL-Library.List_Lexorder" "HOL-Library.Char_ord"
begin

text \<open>
  The audit history and the Data Shared log, \<^verbatim>\<open>workstation-audit/src/lib.rs\<close>: durable intents, the bounded queue with its
  writer, the record of what was shared, the queries, the recovery after a crash and the retention. The JSON printer and the
  digest are parameters. A write to the database takes effect as a whole or not at all.
\<close>

section \<open>Records\<close>

record audit_event =
  ae_kind :: string
  ae_client_id :: "string option"
  ae_client_display_name :: "string option"
  ae_session_id :: "string option"
  ae_mcp_protocol_version :: "string option"
  ae_tool_name :: "string option"
  ae_operation_category :: "string option"
  ae_project_id :: "string option"
  ae_cwd :: "string option"
  ae_command :: "string option"
  ae_arguments :: "json option"
  ae_paths :: "string list"
  ae_entry_point :: "string option"
  ae_shell_checks :: "bool option"
  ae_policy_decision :: "string option"
  ae_policy_detail :: "string option"
  ae_approval_id :: "string option"
  ae_approval_result :: "string option"
  ae_task_id :: "string option"
  ae_result_status :: string
  ae_error :: "string option"

definition AuditEvent_default :: audit_event where
  "AuditEvent_default =
     \<lparr>ae_kind = [], ae_client_id = None, ae_client_display_name = None, ae_session_id = None, ae_mcp_protocol_version = None,
      ae_tool_name = None, ae_operation_category = None, ae_project_id = None, ae_cwd = None, ae_command = None, ae_arguments = None,
      ae_paths = [], ae_entry_point = None, ae_shell_checks = None, ae_policy_decision = None, ae_policy_detail = None,
      ae_approval_id = None, ae_approval_result = None, ae_task_id = None, ae_result_status = [], ae_error = None\<rparr>"

record audit_completion =
  cm_result_status :: string
  cm_policy_decision :: "string option"
  cm_policy_detail :: "string option"
  cm_approval_id :: "string option"
  cm_approval_result :: "string option"
  cm_task_id :: "string option"
  cm_pid :: "u32 option"
  cm_exit_code :: "int option"
  cm_stdout_bytes :: "u64 option"
  cm_stderr_bytes :: "u64 option"
  cm_error :: "string option"
  cm_paths :: "string list option"

definition AuditCompletion_default :: audit_completion where
  "AuditCompletion_default =
     \<lparr>cm_result_status = [], cm_policy_decision = None, cm_policy_detail = None, cm_approval_id = None, cm_approval_result = None,
      cm_task_id = None, cm_pid = None, cm_exit_code = None, cm_stdout_bytes = None, cm_stderr_bytes = None, cm_error = None,
      cm_paths = None\<rparr>"

record audit_row =
  aur_event_id :: string
  aur_kind :: string
  aur_timestamp_start :: int
  aur_timestamp_end :: "int option"
  aur_client_id :: "string option"
  aur_client_display_name :: "string option"
  aur_session_id :: "string option"
  aur_mcp_protocol_version :: "string option"
  aur_tool_name :: "string option"
  aur_operation_category :: "string option"
  aur_project_id :: "string option"
  aur_cwd :: "string option"
  aur_command :: "string option"
  aur_arguments :: "string option"
  aur_paths :: "string option"
  aur_entry_point :: "string option"
  aur_shell_checks :: "bool option"
  aur_policy_decision :: "string option"
  aur_policy_detail :: "string option"
  aur_approval_id :: "string option"
  aur_approval_result :: "string option"
  aur_task_id :: "string option"
  aur_pid :: "int option"
  aur_exit_code :: "int option"
  aur_stdout_bytes :: "int option"
  aur_stderr_bytes :: "int option"
  aur_result_status :: string
  aur_duration_ms :: "int option"
  aur_error :: "string option"

record audit_filter =
  af_since_ms :: "int option"
  af_until_ms :: "int option"
  af_client_id :: "string option"
  af_tool_name :: "string option"
  af_project_id :: "string option"
  af_result_status :: "string option"
  af_kind :: "string option"
  af_text :: "string option"
  af_limit :: "u32 option"
  af_before_ms :: "int option"

record share_record =
  shr_client_id :: "string option"
  shr_session_id :: "string option"
  shr_tool_name :: "string option"
  shr_request_id :: "string option"
  shr_audit_event_id :: "string option"
  shr_source_path :: "string option"
  shr_mime_type :: string
  shr_payload :: string
  shr_redaction :: "json option"

record share_row =
  shw_event_id :: string
  shw_timestamp :: int
  shw_client_id :: "string option"
  shw_session_id :: "string option"
  shw_tool_name :: "string option"
  shw_request_id :: "string option"
  shw_audit_event_id :: "string option"
  shw_source_path :: "string option"
  shw_mime_type :: string
  shw_byte_count :: int
  shw_sha256 :: string
  shw_redaction :: "string option"
  shw_transmission :: string

text \<open>A row of the table \<^verbatim>\<open>data_shared\<close>: what a query returns, and the bytes.\<close>

record stored_share = share_row +
  sto_payload :: string

record share_filter =
  shf_since_ms :: "int option"
  shf_until_ms :: "int option"
  shf_client_id :: "string option"
  shf_session_id :: "string option"
  shf_tool_name :: "string option"
  shf_limit :: "u32 option"
  shf_before_ms :: "int option"

record retention_boundary =
  rb_log :: string
  rb_timestamp :: int
  rb_removed_before :: int
  rb_removed_count :: int
  rb_reason :: string
  rb_session_id :: "string option"

record retention_policy =
  rp_audit_retention_days :: u64
  rp_audit_max_bytes :: u64
  rp_shared_retention_days :: u64
  rp_shared_max_bytes :: u64
  rp_reserved_events_per_session :: u64

record retention_summary =
  rsu_audit_oldest_ms :: "int option"
  rsu_audit_newest_ms :: "int option"
  rsu_audit_events :: int
  rsu_audit_bytes :: u64
  rsu_shared_oldest_ms :: "int option"
  rsu_shared_newest_ms :: "int option"
  rsu_shared_events :: int
  rsu_shared_bytes :: int
  rsu_boundaries :: "retention_boundary list"
  rsu_truncated_sessions :: "string list"
  rsu_fault :: "string option"
  rsu_admission_blocked :: bool

datatype queue_op =
    Q_Insert string int audit_event
  | Q_Complete string int audit_completion
  | Q_Transmission "string list" string

text \<open>The three tables, then the fault, the admission flag and the queue, which live in memory; \<open>ad_closed\<close> when the writer is gone.\<close>

record audit_store =
  ad_events :: "audit_row list"
  ad_shares :: "stored_share list"
  ad_boundaries :: "retention_boundary list"
  ad_fault :: "string option"
  ad_admission_blocked :: bool
  ad_queue :: "queue_op list"
  ad_closed :: bool

text \<open>\<^verbatim>\<open>serde_json\<close>'s printer and \<^verbatim>\<open>Sha256\<close> with \<^verbatim>\<open>hex::encode\<close>.\<close>

record audit_env =
  av_json :: "json \<Rightarrow> string"
  av_sha256_hex :: "string \<Rightarrow> string"

definition audit_unavailable :: lp_error where
  "audit_unavailable = LpError_new AuditUnavailable ''Local audit storage is unavailable; the operation was not performed.''"

section \<open>Writing\<close>

definition event_row :: "audit_env \<Rightarrow> string \<Rightarrow> int \<Rightarrow> audit_event \<Rightarrow> audit_row" where
  "event_row V i ts e =
     \<lparr>aur_event_id = i, aur_kind = ae_kind e, aur_timestamp_start = ts, aur_timestamp_end = None, aur_client_id = ae_client_id e,
      aur_client_display_name = ae_client_display_name e, aur_session_id = ae_session_id e,
      aur_mcp_protocol_version = ae_mcp_protocol_version e, aur_tool_name = ae_tool_name e,
      aur_operation_category = ae_operation_category e, aur_project_id = ae_project_id e, aur_cwd = ae_cwd e,
      aur_command = ae_command e, aur_arguments = map_option (av_json V) (ae_arguments e),
      aur_paths = Some (av_json V (JArray (map JString (ae_paths e)))), aur_entry_point = ae_entry_point e,
      aur_shell_checks = ae_shell_checks e, aur_policy_decision = ae_policy_decision e, aur_policy_detail = ae_policy_detail e,
      aur_approval_id = ae_approval_id e, aur_approval_result = ae_approval_result e, aur_task_id = ae_task_id e, aur_pid = None,
      aur_exit_code = None, aur_stdout_bytes = None, aur_stderr_bytes = None, aur_result_status = ae_result_status e,
      aur_duration_ms = None, aur_error = ae_error e\<rparr>"

definition insert_event :: "audit_env \<Rightarrow> string \<Rightarrow> int \<Rightarrow> audit_event \<Rightarrow> audit_row list \<Rightarrow> audit_row list option" where
  "insert_event V i ts e rows = insert_by aur_event_id (event_row V i ts e) rows"

text \<open>\<^verbatim>\<open>COALESCE\<close> is \<open>or_else\<close>.\<close>

definition completed_row :: "audit_env \<Rightarrow> int \<Rightarrow> audit_completion \<Rightarrow> audit_row \<Rightarrow> audit_row" where
  "completed_row V ts c r =
     r\<lparr>aur_timestamp_end := Some ts, aur_result_status := cm_result_status c,
       aur_policy_decision := or_else (cm_policy_decision c) (aur_policy_decision r),
       aur_policy_detail := or_else (cm_policy_detail c) (aur_policy_detail r),
       aur_approval_id := or_else (cm_approval_id c) (aur_approval_id r),
       aur_approval_result := or_else (cm_approval_result c) (aur_approval_result r),
       aur_task_id := or_else (cm_task_id c) (aur_task_id r), aur_pid := or_else (map_option uint (cm_pid c)) (aur_pid r),
       aur_exit_code := or_else (cm_exit_code c) (aur_exit_code r),
       aur_stdout_bytes := or_else (map_option as_i64 (cm_stdout_bytes c)) (aur_stdout_bytes r),
       aur_stderr_bytes := or_else (map_option as_i64 (cm_stderr_bytes c)) (aur_stderr_bytes r),
       aur_error := or_else (cm_error c) (aur_error r),
       aur_paths := or_else (map_option (\<lambda>ps. av_json V (JArray (map JString ps))) (cm_paths c)) (aur_paths r),
       aur_duration_ms := Some (ts - aur_timestamp_start r)\<rparr>"

definition complete_event :: "audit_env \<Rightarrow> string \<Rightarrow> int \<Rightarrow> audit_completion \<Rightarrow> audit_row list \<Rightarrow> audit_row list" where
  "complete_event V i ts c rows = update_where (\<lambda>r. aur_event_id r = i) (completed_row V ts c) rows"

text \<open>Opening the store over what is on disk: nothing is queued and nothing is at fault.\<close>

definition AuditStore_open :: "audit_row list \<Rightarrow> stored_share list \<Rightarrow> retention_boundary list \<Rightarrow> audit_store" where
  "AuditStore_open es ss rbs =
     \<lparr>ad_events = es, ad_shares = ss, ad_boundaries = rbs, ad_fault = None, ad_admission_blocked = False, ad_queue = [], ad_closed = False\<rparr>"

definition QUEUE_CAPACITY :: nat where
  "QUEUE_CAPACITY = 2048"

definition BATCH :: nat where
  "BATCH = 256"

text \<open>One operation of a batch inside the transaction; \<open>None\<close> is a statement the database refuses.\<close>

definition apply_op :: "audit_env \<Rightarrow> queue_op \<Rightarrow> audit_store \<Rightarrow> audit_store option" where
  "apply_op V q S =
     (case q of
        Q_Insert i ts e \<Rightarrow> map_option (\<lambda>rows. S\<lparr>ad_events := rows\<rparr>) (insert_event V i ts e (ad_events S))
      | Q_Complete i ts c \<Rightarrow> Some (S\<lparr>ad_events := complete_event V i ts c (ad_events S)\<rparr>)
      | Q_Transmission ids st \<Rightarrow>
          Some (S\<lparr>ad_shares := fold (\<lambda>i. update_where (\<lambda>r. shw_event_id r = i) (\<lambda>r. r\<lparr>shw_transmission := st\<rparr>)) ids (ad_shares S)\<rparr>))"

fun apply_batch :: "audit_env \<Rightarrow> queue_op list \<Rightarrow> audit_store \<Rightarrow> audit_store option" where
  "apply_batch V [] S = Some S"
| "apply_batch V (q # qs) S = Option.bind (apply_op V q S) (apply_batch V qs)"

definition queue_fault :: string where
  "queue_fault = ''Audit storage write failed; see the diagnostic log.''"

text \<open>One round of the writer: at most \<open>n \<le> 256\<close> operations that were waiting, in one transaction. A batch that fails is gone.\<close>

definition write_batch :: "audit_env \<Rightarrow> io_env \<Rightarrow> nat \<Rightarrow> audit_store \<Rightarrow> audit_store" where
  "write_batch V w n S =
     (let batch = take (min n BATCH) (ad_queue S); S1 = S\<lparr>ad_queue := drop (min n BATCH) (ad_queue S)\<rparr> in
      case (if io_db_ok w then apply_batch V batch S1 else None) of
        Some S2 \<Rightarrow> S2
      | None \<Rightarrow> S1\<lparr>ad_fault := Some queue_fault\<rparr>)"

definition clear_fault :: "audit_store \<Rightarrow> audit_store" where
  "clear_fault S = S\<lparr>ad_fault := None\<rparr>"

definition intent :: "audit_env \<Rightarrow> io_env \<Rightarrow> audit_event \<Rightarrow> audit_store \<Rightarrow> string lp_result \<times> audit_store" where
  "intent V w e S =
     (if ad_fault S \<noteq> None then (Inl audit_unavailable, S)
      else (case (if io_db_ok w then insert_event V (io_id w) (io_now w) (e\<lparr>ae_result_status := ''intent''\<rparr>) (ad_events S) else None) of
          Some rows \<Rightarrow> (Inr (io_id w), S\<lparr>ad_events := rows\<rparr>)
        | None \<Rightarrow> (Inl audit_unavailable,
            S\<lparr>ad_fault := Some (''Audit intent could not be persisted: '' @ message LpError_internal)\<rparr>)))"

text \<open>\<^verbatim>\<open>send().await\<close>: a full queue makes the caller wait for the writer, so the operation is queued in any case.\<close>

definition send_op :: "queue_op \<Rightarrow> audit_store \<Rightarrow> audit_store" where
  "send_op q S = (if ad_closed S then S\<lparr>ad_fault := Some ''Audit queue is closed''\<rparr> else S\<lparr>ad_queue := ad_queue S @ [q]\<rparr>)"

definition complete_audit :: "io_env \<Rightarrow> string \<Rightarrow> audit_completion \<Rightarrow> audit_store \<Rightarrow> audit_store" where
  "complete_audit w i c S = send_op (Q_Complete i (io_now w) c) S"

definition record_event :: "io_env \<Rightarrow> audit_event \<Rightarrow> audit_store \<Rightarrow> string \<times> audit_store" where
  "record_event w e S = (io_id w, send_op (Q_Insert (io_id w) (io_now w) e) S)"

definition record_sync :: "audit_env \<Rightarrow> io_env \<Rightarrow> audit_event \<Rightarrow> audit_store \<Rightarrow> string lp_result \<times> audit_store" where
  "record_sync V w e S =
     (case (if io_db_ok w then insert_event V (io_id w) (io_now w) e (ad_events S) else None) of
        Some rows \<Rightarrow> (Inr (io_id w), S\<lparr>ad_events := rows\<rparr>)
      | None \<Rightarrow> (Inl LpError_internal, S))"

definition share_row_of :: "audit_env \<Rightarrow> io_env \<Rightarrow> share_record \<Rightarrow> stored_share" where
  "share_row_of V w r =
     \<lparr>shw_event_id = io_id w, shw_timestamp = io_now w, shw_client_id = shr_client_id r, shw_session_id = shr_session_id r,
      shw_tool_name = shr_tool_name r, shw_request_id = shr_request_id r, shw_audit_event_id = shr_audit_event_id r,
      shw_source_path = shr_source_path r, shw_mime_type = shr_mime_type r, shw_byte_count = int (length (shr_payload r)),
      shw_sha256 = av_sha256_hex V (shr_payload r), shw_redaction = map_option (av_json V) (shr_redaction r),
      shw_transmission = ''prepared'', sto_payload = shr_payload r\<rparr>"

definition record_share :: "audit_env \<Rightarrow> io_env \<Rightarrow> share_record \<Rightarrow> audit_store \<Rightarrow> (string \<times> string) lp_result \<times> audit_store" where
  "record_share V w r S =
     (if ad_fault S \<noteq> None \<or> ad_admission_blocked S then (Inl audit_unavailable, S)
      else (case (if io_db_ok w then insert_by shw_event_id (share_row_of V w r) (ad_shares S) else None) of
          Some rows \<Rightarrow> (Inr (io_id w, av_sha256_hex V (shr_payload r)), S\<lparr>ad_shares := rows\<rparr>)
        | None \<Rightarrow> (Inl audit_unavailable,
            S\<lparr>ad_fault := Some (''Data Shared record could not be persisted: '' @ message LpError_internal)\<rparr>)))"

text \<open>\<^verbatim>\<open>try_send\<close>: the update is dropped when the queue is full.\<close>

definition mark_transmission :: "string list \<Rightarrow> string \<Rightarrow> audit_store \<Rightarrow> audit_store" where
  "mark_transmission ids st S =
     (if ids = [] \<or> ad_closed S \<or> QUEUE_CAPACITY \<le> length (ad_queue S) then S
      else S\<lparr>ad_queue := ad_queue S @ [Q_Transmission ids st]\<rparr>)"

definition unknown_outcome_note :: string where
  "unknown_outcome_note = ''Local Pilot stopped before the outcome was recorded; reconcile manually.''"

definition mark_incomplete_unknown :: "io_env \<Rightarrow> audit_store \<Rightarrow> nat lp_result \<times> audit_store" where
  "mark_incomplete_unknown w S =
     (if \<not> io_db_ok w then (Inl LpError_internal, S)
      else
        (let P = (\<lambda>r. List.member [''intent'', ''running''] (aur_result_status r)) in
         (Inr (count_where P (ad_events S)),
          S\<lparr>ad_events := update_where P
              (\<lambda>r. r\<lparr>aur_result_status := ''outcome_unknown'', aur_error := or_else (aur_error r) (Some unknown_outcome_note)\<rparr>) (ad_events S),
            ad_shares := update_where (\<lambda>r. shw_transmission r = ''prepared'') (\<lambda>r. r\<lparr>shw_transmission := ''interrupted''\<rparr>) (ad_shares S)\<rparr>)))"

section \<open>Queries\<close>

text \<open>SQLite's \<^verbatim>\<open>LIKE\<close> with \<^verbatim>\<open>ESCAPE '\'\<close>, on characters: case is ignored for ASCII letters, and an escape stands before a literal.\<close>

function like_chars :: "string list \<Rightarrow> string list \<Rightarrow> bool" where
  "like_chars [] cs \<longleftrightarrow> cs = []"
| "like_chars (p # ps) cs \<longleftrightarrow>
     (if p = [BS] then (case ps of [] \<Rightarrow> False | q # qs \<Rightarrow> (case cs of [] \<Rightarrow> False | c # ds \<Rightarrow> eq_ignore_ascii_case c q \<and> like_chars qs ds))
      else if p = ''%'' then like_chars ps cs \<or> (case cs of [] \<Rightarrow> False | c # ds \<Rightarrow> like_chars (p # ps) ds)
      else (case cs of [] \<Rightarrow> False | c # ds \<Rightarrow> (p = ''_'' \<or> eq_ignore_ascii_case c p) \<and> like_chars ps ds))"
  by pat_completeness auto
termination by (relation "measure (\<lambda>(ps, cs). length ps + length cs)") auto

declare like_chars.simps(2) [simp del]

definition sql_like :: "string option \<Rightarrow> string \<Rightarrow> bool" where
  "sql_like column pat = (case column of None \<Rightarrow> False | Some s \<Rightarrow> like_chars (utf8_chars pat) (utf8_chars s))"

definition replace_str1 :: "char \<Rightarrow> string \<Rightarrow> string \<Rightarrow> string" where
  "replace_str1 c r s = concat (map (\<lambda>x. if x = c then r else [x]) s)"

definition like_pattern :: "string \<Rightarrow> string" where
  "like_pattern v = ''%'' @ replace_str1 CHR ''_'' [BS, CHR ''_''] (replace_str1 CHR ''%'' [BS, CHR ''%''] v) @ ''%''"

definition text_matches :: "string \<Rightarrow> audit_row \<Rightarrow> bool" where
  "text_matches v r \<longleftrightarrow> (let pat = like_pattern v in
     sql_like (aur_command r) pat \<or> sql_like (aur_arguments r) pat \<or> sql_like (aur_paths r) pat \<or> sql_like (aur_tool_name r) pat)"

text \<open>A condition that is only there when the filter has a value.\<close>

definition opt_cond :: "'a option \<Rightarrow> ('a \<Rightarrow> bool) \<Rightarrow> bool" where
  "opt_cond v P = (case v of None \<Rightarrow> True | Some x \<Rightarrow> P x)"

definition event_matches :: "audit_filter \<Rightarrow> audit_row \<Rightarrow> bool" where
  "event_matches f r \<longleftrightarrow>
     opt_cond (af_since_ms f) (\<lambda>v. aur_timestamp_start r \<ge> v) \<and> opt_cond (af_until_ms f) (\<lambda>v. aur_timestamp_start r \<le> v)
     \<and> opt_cond (af_before_ms f) (\<lambda>v. aur_timestamp_start r < v) \<and> opt_cond (af_client_id f) (\<lambda>v. aur_client_id r = Some v)
     \<and> opt_cond (af_tool_name f) (\<lambda>v. aur_tool_name r = Some v) \<and> opt_cond (af_project_id f) (\<lambda>v. aur_project_id r = Some v)
     \<and> opt_cond (af_result_status f) (\<lambda>v. aur_result_status r = v) \<and> opt_cond (af_kind f) (\<lambda>v. aur_kind r = v)
     \<and> opt_cond (af_text f) (\<lambda>v. text_matches v r)"

definition row_limit :: "u32 option \<Rightarrow> nat" where
  "row_limit l = min (case l of None \<Rightarrow> 200 | Some n \<Rightarrow> unat n) 2000"

definition query_events :: "io_env \<Rightarrow> audit_filter \<Rightarrow> audit_store \<Rightarrow> audit_row list lp_result" where
  "query_events w f S =
     (if io_db_ok w then Inr (newest_first aur_timestamp_start (row_limit (af_limit f)) (filter (event_matches f) (ad_events S)))
      else Inl LpError_internal)"

definition share_matches :: "share_filter \<Rightarrow> stored_share \<Rightarrow> bool" where
  "share_matches f r \<longleftrightarrow>
     opt_cond (shf_since_ms f) (\<lambda>v. shw_timestamp r \<ge> v) \<and> opt_cond (shf_until_ms f) (\<lambda>v. shw_timestamp r \<le> v)
     \<and> opt_cond (shf_before_ms f) (\<lambda>v. shw_timestamp r < v) \<and> opt_cond (shf_client_id f) (\<lambda>v. shw_client_id r = Some v)
     \<and> opt_cond (shf_session_id f) (\<lambda>v. shw_session_id r = Some v) \<and> opt_cond (shf_tool_name f) (\<lambda>v. shw_tool_name r = Some v)"

definition query_shares :: "io_env \<Rightarrow> share_filter \<Rightarrow> audit_store \<Rightarrow> share_row list lp_result" where
  "query_shares w f S =
     (if io_db_ok w
      then Inr (map share_row.truncate (newest_first shw_timestamp (row_limit (shf_limit f)) (filter (share_matches f) (ad_shares S))))
      else Inl LpError_internal)"

definition share_payload :: "io_env \<Rightarrow> string \<Rightarrow> audit_store \<Rightarrow> string option lp_result" where
  "share_payload w i S = (if io_db_ok w then Inr (map_option sto_payload (find_by shw_event_id i (ad_shares S))) else Inl LpError_internal)"

section \<open>Retention\<close>

definition shared_bytes :: "stored_share list \<Rightarrow> int" where
  "shared_bytes ss = sum_list (map shw_byte_count ss)"

definition boundary :: "string \<Rightarrow> int \<Rightarrow> int \<Rightarrow> nat \<Rightarrow> string \<Rightarrow> retention_boundary" where
  "boundary log now before n why =
     \<lparr>rb_log = log, rb_timestamp = now, rb_removed_before = before, rb_removed_count = int n, rb_reason = why, rb_session_id = None\<rparr>"

definition add_boundaries :: "retention_boundary list \<Rightarrow> audit_store \<Rightarrow> audit_store" where
  "add_boundaries bs' S = S\<lparr>ad_boundaries := ad_boundaries S @ bs'\<rparr>"

definition audit_by_age :: "int \<Rightarrow> retention_policy \<Rightarrow> audit_store \<Rightarrow> audit_store" where
  "audit_by_age now p S =
     (let cutoff = now - as_i64 (rp_audit_retention_days p) * DAY_MS;
          n = count_where (\<lambda>r. aur_timestamp_start r < cutoff) (ad_events S);
          S1 = S\<lparr>ad_events := delete_where (\<lambda>r. aur_timestamp_start r < cutoff) (ad_events S)\<rparr> in
      if n > 0 then add_boundaries [boundary ''audit'' now cutoff n ''age''] S1 else S1)"

text \<open>The loop over the size of the audit part. \<open>used k\<close> is the reading of the file size in its \<open>k\<close>-th round. The flag is set on
  \<^verbatim>\<open>break\<close>.\<close>

definition audit_size_round ::
    "(nat \<Rightarrow> int) \<Rightarrow> int \<Rightarrow> retention_policy \<Rightarrow> nat \<times> bool \<times> audit_store \<Rightarrow> nat \<times> bool \<times> audit_store" where
  "audit_size_round used now p s =
     (case s of (k, _, S) \<Rightarrow>
        if max 0 (used k - shared_bytes (ad_shares S)) \<le> uint (rp_audit_max_bytes p) then (Suc k, True, S)
        else (case drop 1000 (sort (map aur_timestamp_start (ad_events S))) of
            [] \<Rightarrow> (Suc k, True, S)
          | before # _ \<Rightarrow>
              (let n = count_where (\<lambda>r. aur_timestamp_start r < before) (ad_events S);
                   S1 = add_boundaries [boundary ''audit'' now before n ''size'']
                     (S\<lparr>ad_events := delete_where (\<lambda>r. aur_timestamp_start r < before) (ad_events S)\<rparr>) in
               (Suc k, n = 0, S1))))"

definition audit_by_size :: "(nat \<Rightarrow> int) \<Rightarrow> int \<Rightarrow> retention_policy \<Rightarrow> audit_store \<Rightarrow> audit_store option" where
  "audit_by_size used now p S =
     map_option (\<lambda>s. snd (snd s)) (while_option (\<lambda>s. \<not> fst (snd s)) (audit_size_round used now p) (0, False, S))"

definition shared_by_age :: "int \<Rightarrow> retention_policy \<Rightarrow> audit_store \<Rightarrow> audit_store" where
  "shared_by_age now p S =
     (let cutoff = now - as_i64 (rp_shared_retention_days p) * DAY_MS;
          n = count_where (\<lambda>r. shw_timestamp r < cutoff) (ad_shares S);
          S1 = S\<lparr>ad_shares := delete_where (\<lambda>r. shw_timestamp r < cutoff) (ad_shares S)\<rparr> in
      if n > 0 then add_boundaries [boundary ''data_shared'' now cutoff n ''age''] S1 else S1)"

text \<open>\<^verbatim>\<open>LIMIT n\<close>: a negative number is no limit.\<close>

definition sql_limit :: "int \<Rightarrow> 'a list \<Rightarrow> 'a list" where
  "sql_limit n xs = (if n < 0 then xs else take (nat n) xs)"

definition reserved_of :: "retention_policy \<Rightarrow> stored_share list \<Rightarrow> string \<Rightarrow> string list" where
  "reserved_of p ss sid =
     map shw_event_id (sql_limit (as_i64 (rp_reserved_events_per_session p))
       (sort_key (\<lambda>r. - shw_timestamp r) (filter (\<lambda>r. shw_session_id r = Some sid) ss)))"

definition reserved_shares :: "retention_policy \<Rightarrow> string list \<Rightarrow> stored_share list \<Rightarrow> string list" where
  "reserved_shares p active ss = concat (map (reserved_of p ss) active)"

definition SHARE_BATCH :: nat where
  "SHARE_BATCH = 200"

text \<open>The active sessions among the removed rows, in the order of \<^verbatim>\<open>BTreeSet\<close>.\<close>

definition truncated_by :: "string list \<Rightarrow> stored_share list \<Rightarrow> string list" where
  "truncated_by active rows = dedup (sort (filter (List.member active) (List.map_filter shw_session_id rows)))"

definition truncation :: "int \<Rightarrow> int \<Rightarrow> string \<Rightarrow> retention_boundary" where
  "truncation now before sid =
     \<lparr>rb_log = ''data_shared'', rb_timestamp = now, rb_removed_before = before, rb_removed_count = 0,
      rb_reason = ''active_session_truncated'', rb_session_id = Some sid\<rparr>"

text \<open>The loop over the size of Data Shared: running, then done with or without room for the reserved rows.\<close>

datatype rotation = Rotating | Fits | Blocked

definition shared_size_round ::
    "int \<Rightarrow> retention_policy \<Rightarrow> string list \<Rightarrow> string list \<Rightarrow> rotation \<times> audit_store \<Rightarrow> rotation \<times> audit_store" where
  "shared_size_round now p active reserved s =
     (let S = snd s in
      if shared_bytes (ad_shares S) \<le> uint (rp_shared_max_bytes p) then (Fits, S)
      else (case take SHARE_BATCH (sort_key shw_timestamp (filter (\<lambda>r. \<not> List.member reserved (shw_event_id r)) (ad_shares S))) of
          [] \<Rightarrow> (Blocked, S)
        | victim # rest \<Rightarrow>
            (let rows = victim # rest; before = shw_timestamp victim + 1 in
             (Rotating, add_boundaries
                (boundary ''data_shared'' now before (length rows) ''size'' # map (truncation now before) (truncated_by active rows))
                (S\<lparr>ad_shares := delete_where (\<lambda>r. List.member (map shw_event_id rows) (shw_event_id r)) (ad_shares S)\<rparr>)))))"

definition shared_by_size ::
    "int \<Rightarrow> retention_policy \<Rightarrow> string list \<Rightarrow> string list \<Rightarrow> audit_store \<Rightarrow> (rotation \<times> audit_store) option" where
  "shared_by_size now p active reserved S =
     while_option (\<lambda>s. fst s = Rotating) (shared_size_round now p active reserved) (Rotating, S)"

definition blocked_fault :: string where
  "blocked_fault = ''Data Shared reserved evidence exceeds the configured size; data delivery is paused until limits are raised or sessions end.''"

definition minimum :: "int list \<Rightarrow> int option" where
  "minimum xs = (if xs = [] then None else Some (Min (set xs)))"

definition maximum :: "int list \<Rightarrow> int option" where
  "maximum xs = (if xs = [] then None else Some (Max (set xs)))"

definition summary :: "io_env \<Rightarrow> u64 \<Rightarrow> audit_store \<Rightarrow> retention_summary lp_result" where
  "summary w db_bytes S =
     (if \<not> io_db_ok w then Inl LpError_internal
      else
        (let bounds = newest_first rb_timestamp 100 (ad_boundaries S) in
         Inr \<lparr>rsu_audit_oldest_ms = minimum (map aur_timestamp_start (ad_events S)),
           rsu_audit_newest_ms = maximum (map aur_timestamp_start (ad_events S)), rsu_audit_events = int (length (ad_events S)),
           rsu_audit_bytes = db_bytes, rsu_shared_oldest_ms = minimum (map shw_timestamp (ad_shares S)),
           rsu_shared_newest_ms = maximum (map shw_timestamp (ad_shares S)), rsu_shared_events = int (length (ad_shares S)),
           rsu_shared_bytes = shared_bytes (ad_shares S), rsu_boundaries = bounds,
           rsu_truncated_sessions = List.map_filter rb_session_id (filter (\<lambda>b. rb_reason b = ''active_session_truncated'') bounds),
           rsu_fault = ad_fault S, rsu_admission_blocked = ad_admission_blocked S\<rparr>))"

text \<open>The four passes in the database.\<close>

definition rotate ::
    "(nat \<Rightarrow> int) \<Rightarrow> int \<Rightarrow> retention_policy \<Rightarrow> string list \<Rightarrow> audit_store \<Rightarrow> (rotation \<times> audit_store) option" where
  "rotate used now p active S =
     Option.bind (audit_by_size used now p (audit_by_age now p S))
       (\<lambda>S1. let S2 = shared_by_age now p S1 in shared_by_size now p active (reserved_shares p active (ad_shares S2)) S2)"

definition set_admission :: "rotation \<Rightarrow> audit_store \<Rightarrow> audit_store" where
  "set_admission out S =
     (if out = Blocked then S\<lparr>ad_admission_blocked := True, ad_fault := Some blocked_fault\<rparr> else S\<lparr>ad_admission_blocked := False\<rparr>)"

text \<open>\<open>w2\<close> is the world when the summary is read; \<open>None\<close> would be a loop that does not end.\<close>

definition run_retention ::
    "io_env \<Rightarrow> io_env \<Rightarrow> u64 \<Rightarrow> (nat \<Rightarrow> int) \<Rightarrow> retention_policy \<Rightarrow> string list \<Rightarrow> audit_store
     \<Rightarrow> (retention_summary lp_result \<times> audit_store) option" where
  "run_retention w w2 db_bytes used p active S =
     (if \<not> io_db_ok w then Some (Inl LpError_internal, S)
      else map_option (\<lambda>(out, S1).
        (summary w2 db_bytes (set_admission out S1), set_admission out S1)) (rotate used (io_now w) p active S))"

section \<open>Export\<close>

definition EXPORT_PAGE :: nat where
  "EXPORT_PAGE = 2000"

text \<open>The export loop over pages: the rows so far, and the time before which the next page lies. \<open>None\<close> for the time is the first page.\<close>

definition export_page :: "audit_filter \<Rightarrow> int option \<Rightarrow> audit_store \<Rightarrow> audit_row list" where
  "export_page f before S =
     newest_first aur_timestamp_start EXPORT_PAGE (filter (event_matches (f\<lparr>af_limit := Some 2000, af_before_ms := before\<rparr>)) (ad_events S))"

definition export_round :: "audit_filter \<Rightarrow> audit_store \<Rightarrow> bool \<times> int option \<times> audit_row list \<Rightarrow> bool \<times> int option \<times> audit_row list" where
  "export_round f S s =
     (case s of (_, before, out) \<Rightarrow>
        (let rows = export_page f before S; out' = out @ rows in
         if rows = [] then (True, before, out)
         else (length rows < EXPORT_PAGE \<or> 1000000 < length out', Some (aur_timestamp_start (last rows)), out')))"

definition export_rows :: "audit_filter \<Rightarrow> audit_store \<Rightarrow> audit_row list option" where
  "export_rows f S = map_option (\<lambda>s. snd (snd s)) (while_option (\<lambda>s. \<not> fst s) (export_round f S) (False, None, []))"

text \<open>The number of rows and what is written to the file: one line for each row, printed by \<open>line\<close>. \<open>io_db_ok w\<close> is whether every
  page can be read, \<open>write_ok\<close> whether the file can be written.\<close>

definition export_events ::
    "(audit_row \<Rightarrow> string) \<Rightarrow> io_env \<Rightarrow> bool \<Rightarrow> audit_filter \<Rightarrow> audit_store \<Rightarrow> (nat \<times> string) lp_result option" where
  "export_events line w write_ok f S =
     (if \<not> io_db_ok w then Some (Inl LpError_internal)
      else map_option (\<lambda>rows. if write_ok then Inr (length rows, concat (map (\<lambda>r. line r @ [LF]) rows)) else Inl LpError_internal)
        (export_rows f S))"

end
