(* ===== verification/Audit_Props.thy ===== *)
theory Audit_Props
  imports Audit_Log
begin

text \<open>
  What the audit store promises: the retention ends, keeps to its limits, spares the reserved evidence and accounts for every row it
  removes; nothing is shared and no mutation is admitted while the store is at fault; the queue loses nothing silently;
  the export and its limits.
\<close>

section \<open>The loops end\<close>

definition size_measure :: "nat \<times> bool \<times> audit_store \<Rightarrow> nat" where
  "size_measure s = 2 * length (ad_events (snd (snd s))) + (if fst (snd s) then 0 else 1)"

lemma count_delete: "count_where P rows + length (delete_where P rows) = length rows"
  by (induction rows) (auto simp: count_where_def delete_where_def)

lemma boundaries_sel [simp]: "ad_events (add_boundaries b S) = ad_events S" "ad_shares (add_boundaries b S) = ad_shares S"
  "ad_boundaries (add_boundaries b S) = ad_boundaries S @ b" "ad_fault (add_boundaries b S) = ad_fault S"
  "ad_queue (add_boundaries b S) = ad_queue S" "ad_closed (add_boundaries b S) = ad_closed S"
  by (simp_all add: add_boundaries_def)

lemma audit_size_round_cases:
  obtains "audit_size_round used now p (k, d, S) = (Suc k, True, S)"
  | before where "audit_size_round used now p (k, d, S) =
      (Suc k, count_where (\<lambda>r. aur_timestamp_start r < before) (ad_events S) = 0,
       add_boundaries [boundary ''audit'' now before (count_where (\<lambda>r. aur_timestamp_start r < before) (ad_events S)) ''size'']
         (S\<lparr>ad_events := delete_where (\<lambda>r. aur_timestamp_start r < before) (ad_events S)\<rparr>))"
proof (cases "max 0 (used k - shared_bytes (ad_shares S)) \<le> uint (rp_audit_max_bytes p)")
  case True
  then show thesis using that(1) by (simp add: audit_size_round_def)
next
  case False
  then show thesis
    using that by (cases "drop 1000 (sort (map aur_timestamp_start (ad_events S)))") (simp_all add: audit_size_round_def Let_def)
qed

lemma audit_size_decreases:
  assumes "\<not> fst (snd s)"
  shows "size_measure (audit_size_round used now p s) < size_measure s"
proof -
  obtain k S where s: "s = (k, False, S)" using assms by (cases s) auto
  have "size_measure (audit_size_round used now p (k, False, S)) < size_measure (k, False, S)"
  proof (cases rule: audit_size_round_cases [of used now p k False S])
    case 1
    then show ?thesis by (simp add: size_measure_def)
  next
    case (2 before)
    show ?thesis
      using count_delete [of "\<lambda>r. aur_timestamp_start r < before" "ad_events S"]
      unfolding 2 by (auto simp: size_measure_def)
  qed
  then show ?thesis unfolding s .
qed

lemma audit_by_size_returns: "\<exists>S'. audit_by_size used now p S = Some S'"
proof -
  have "\<exists>t. while_option (\<lambda>s. \<not> fst (snd s)) (audit_size_round used now p) (0, False, S) = Some t"
    by (rule measure_while_option_Some [where P = "\<lambda>_. True" and f = size_measure]) (simp_all add: audit_size_decreases)
  then show ?thesis by (auto simp: audit_by_size_def)
qed

definition victims :: "string list \<Rightarrow> audit_store \<Rightarrow> stored_share list" where
  "victims reserved S = take SHARE_BATCH (sort_key shw_timestamp (filter (\<lambda>r. \<not> List.member reserved (shw_event_id r)) (ad_shares S)))"

definition rotated :: "int \<Rightarrow> string list \<Rightarrow> stored_share list \<Rightarrow> audit_store \<Rightarrow> audit_store" where
  "rotated now active rows S =
     add_boundaries (boundary ''data_shared'' now (shw_timestamp (hd rows) + 1) (length rows) ''size''
         # map (truncation now (shw_timestamp (hd rows) + 1)) (truncated_by active rows))
       (S\<lparr>ad_shares := delete_where (\<lambda>r. List.member (map shw_event_id rows) (shw_event_id r)) (ad_shares S)\<rparr>)"

lemma shared_size_round_eq:
  "shared_size_round now p active reserved s =
     (if shared_bytes (ad_shares (snd s)) \<le> uint (rp_shared_max_bytes p) then (Fits, snd s)
      else if victims reserved (snd s) = [] then (Blocked, snd s)
      else (Rotating, rotated now active (victims reserved (snd s)) (snd s)))"
  unfolding shared_size_round_def Let_def victims_def [symmetric]
  by (cases "victims reserved (snd s)") (simp_all add: rotated_def)

lemma victims_shares: "r \<in> set (victims reserved S) \<Longrightarrow> r \<in> set (ad_shares S) \<and> shw_event_id r \<notin> set reserved"
  by (auto simp: victims_def List.member_iff dest: in_set_takeD)

lemma rotated_sel [simp]:
  "ad_shares (rotated now active rows S) = filter (\<lambda>r. shw_event_id r \<notin> shw_event_id ` set rows) (ad_shares S)"
  "ad_events (rotated now active rows S) = ad_events S" "ad_fault (rotated now active rows S) = ad_fault S"
  "ad_queue (rotated now active rows S) = ad_queue S" "ad_closed (rotated now active rows S) = ad_closed S"
  by (simp_all add: rotated_def delete_where_def List.member_iff)

lemma rotated_shrinks: "victims reserved S \<noteq> [] \<Longrightarrow> length (ad_shares (rotated now active (victims reserved S) S)) < length (ad_shares S)"
proof -
  assume "victims reserved S \<noteq> []"
  then obtain r where "r \<in> set (victims reserved S)" by (cases "victims reserved S") auto
  then show ?thesis using victims_shares [of r reserved S] by (auto intro!: length_filter_less)
qed

definition rotation_measure :: "rotation \<times> audit_store \<Rightarrow> nat" where
  "rotation_measure s = 2 * length (ad_shares (snd s)) + (if fst s = Rotating then 1 else 0)"

lemma shared_size_decreases:
  "fst s = Rotating \<Longrightarrow> rotation_measure (shared_size_round now p active reserved s) < rotation_measure s"
  using rotated_shrinks [of reserved "snd s" now active] by (auto simp: shared_size_round_eq rotation_measure_def)

lemma shared_by_size_returns: "\<exists>r. shared_by_size now p active reserved S = Some r"
  unfolding shared_by_size_def
  by (rule measure_while_option_Some [where P = "\<lambda>_. True" and f = rotation_measure]) (simp_all add: shared_size_decreases)

text \<open>C35: Retention always ends, whatever the size of the database file reads in each round: it answers, with a summary or with an error.\<close>

theorem run_retention_returns: "\<exists>r S'. run_retention w w2 db_bytes used p active S = Some (r, S')"
proof -
  obtain S1 where 1: "audit_by_size used (io_now w) p (audit_by_age (io_now w) p S) = Some S1"
    using audit_by_size_returns by blast
  let ?S2 = "shared_by_age (io_now w) p S1"
  obtain out S3 where "shared_by_size (io_now w) p active (reserved_shares p active (ad_shares ?S2)) ?S2 = Some (out, S3)"
    using shared_by_size_returns by fastforce
  then have "rotate used (io_now w) p active S = Some (out, S3)" by (simp add: rotate_def 1 Let_def)
  then show ?thesis by (simp add: run_retention_def Let_def)
qed

section \<open>What retention leaves\<close>

lemma audit_by_age_sel [simp]: "ad_shares (audit_by_age now p S) = ad_shares S" "ad_fault (audit_by_age now p S) = ad_fault S"
  "ad_queue (audit_by_age now p S) = ad_queue S" "ad_closed (audit_by_age now p S) = ad_closed S"
  by (simp_all add: audit_by_age_def Let_def)

lemma audit_size_round_sel:
  "ad_shares (snd (snd (audit_size_round used now p s))) = ad_shares (snd (snd s))
   \<and> ad_fault (snd (snd (audit_size_round used now p s))) = ad_fault (snd (snd s))
   \<and> ad_queue (snd (snd (audit_size_round used now p s))) = ad_queue (snd (snd s))
   \<and> ad_closed (snd (snd (audit_size_round used now p s))) = ad_closed (snd (snd s))"
proof -
  obtain k d S where s: "s = (k, d, S)" by (cases s)
  show ?thesis unfolding s by (cases rule: audit_size_round_cases [of used now p k d S]) auto
qed

lemma audit_by_size_rule:
  assumes "audit_by_size used now p S = Some S'" and "P S"
    and "\<And>s. P (snd (snd s)) \<Longrightarrow> P (snd (snd (audit_size_round used now p s)))"
  shows "P S'"
proof -
  obtain t where t: "while_option (\<lambda>s. \<not> fst (snd s)) (audit_size_round used now p) (0, False, S) = Some t" "S' = snd (snd t)"
    using assms(1) by (auto simp: audit_by_size_def)
  have "P (snd (snd t))"
    by (rule while_option_rule [where P = "\<lambda>s. P (snd (snd s))", OF _ t(1)]) (use assms(2,3) in auto)
  then show ?thesis using t(2) by simp
qed

lemma audit_by_size_sel:
  assumes "audit_by_size used now p S = Some S'"
  shows "ad_shares S' = ad_shares S \<and> ad_fault S' = ad_fault S \<and> ad_queue S' = ad_queue S \<and> ad_closed S' = ad_closed S"
  by (rule audit_by_size_rule [where P = "\<lambda>T. ad_shares T = ad_shares S \<and> ad_fault T = ad_fault S \<and> ad_queue T = ad_queue S
      \<and> ad_closed T = ad_closed S", OF assms]) (use audit_size_round_sel in auto)

definition young_shares :: "int \<Rightarrow> retention_policy \<Rightarrow> stored_share list \<Rightarrow> stored_share list" where
  "young_shares now p ss = filter (\<lambda>r. now - as_i64 (rp_shared_retention_days p) * DAY_MS \<le> shw_timestamp r) ss"

lemma shared_by_age_sel [simp]: "ad_shares (shared_by_age now p S) = young_shares now p (ad_shares S)"
  "ad_events (shared_by_age now p S) = ad_events S" "ad_fault (shared_by_age now p S) = ad_fault S"
  "ad_queue (shared_by_age now p S) = ad_queue S" "ad_closed (shared_by_age now p S) = ad_closed S"
  by (simp_all add: shared_by_age_def Let_def young_shares_def delete_where_def not_less)

lemma shared_by_size_rule:
  assumes "shared_by_size now p active reserved S = Some t" and "P (Rotating, S)"
    and "\<And>s. \<lbrakk>P s; fst s = Rotating\<rbrakk> \<Longrightarrow> P (shared_size_round now p active reserved s)"
  shows "P t \<and> fst t \<noteq> Rotating"
  using while_option_rule [where P = P, OF assms(3) assms(1) [unfolded shared_by_size_def] assms(2)]
    while_option_stop [OF assms(1) [unfolded shared_by_size_def]] by simp

definition all_reserved :: "string list \<Rightarrow> stored_share list \<Rightarrow> bool" where
  "all_reserved reserved ss \<longleftrightarrow> list_all (\<lambda>r. List.member reserved (shw_event_id r)) ss"

lemma no_victims:
  assumes "victims reserved S = []"
  shows "all_reserved reserved (ad_shares S)"
proof -
  have "length (victims reserved S) = min SHARE_BATCH (length (filter (\<lambda>r. shw_event_id r \<notin> set reserved) (ad_shares S)))"
    by (simp add: victims_def List.member_iff)
  then have "length (filter (\<lambda>r. shw_event_id r \<notin> set reserved) (ad_shares S)) = 0" using assms by (simp add: SHARE_BATCH_def min_def split: if_splits)
  then have "filter (\<lambda>r. shw_event_id r \<notin> set reserved) (ad_shares S) = []" by (simp only: length_0_conv)
  then show ?thesis by (auto simp: all_reserved_def list_all_iff List.member_iff filter_empty_conv)
qed

text \<open>The outcome describes the store.\<close>

definition outcome_ok :: "retention_policy \<Rightarrow> string list \<Rightarrow> rotation \<times> audit_store \<Rightarrow> bool" where
  "outcome_ok p reserved s =
     (case fst s of
        Rotating \<Rightarrow> True
      | Fits \<Rightarrow> shared_bytes (ad_shares (snd s)) \<le> uint (rp_shared_max_bytes p)
      | Blocked \<Rightarrow> uint (rp_shared_max_bytes p) < shared_bytes (ad_shares (snd s)) \<and> all_reserved reserved (ad_shares (snd s)))"

lemma shared_round_outcome: "outcome_ok p reserved (shared_size_round now p active reserved s)"
  by (simp add: shared_size_round_eq outcome_ok_def no_victims)

lemma shared_by_size_outcome:
  assumes "shared_by_size now p active reserved S = Some t"
  shows "outcome_ok p reserved t \<and> fst t \<noteq> Rotating"
  by (rule shared_by_size_rule [OF assms]) (simp_all add: shared_round_outcome, simp add: outcome_ok_def)

definition spares :: "audit_store \<Rightarrow> string list \<Rightarrow> audit_store \<Rightarrow> bool" where
  "spares S reserved T \<longleftrightarrow> ad_events T = ad_events S \<and> ad_fault T = ad_fault S \<and> ad_queue T = ad_queue S \<and> ad_closed T = ad_closed S
    \<and> set (ad_shares T) \<subseteq> set (ad_shares S) \<and> (\<forall>r\<in>set (ad_shares S). shw_event_id r \<in> set reserved \<longrightarrow> r \<in> set (ad_shares T))"

lemma shared_round_spares:
  assumes "spares S reserved (snd s)"
  shows "spares S reserved (snd (shared_size_round now p active reserved s))"
proof -
  have "shw_event_id r \<notin> shw_event_id ` set (victims reserved (snd s))" if "shw_event_id r \<in> set reserved" for r
    using that victims_shares [of _ reserved "snd s"] by fastforce
  then show ?thesis using assms by (auto simp: shared_size_round_eq spares_def)
qed

lemma shared_by_size_keeps:
  assumes "shared_by_size now p active reserved S = Some t"
  shows "spares S reserved (snd t)"
proof -
  have "spares S reserved (snd t) \<and> fst t \<noteq> Rotating"
    by (rule shared_by_size_rule [OF assms]) (simp_all add: shared_round_spares, simp add: spares_def)
  then show ?thesis ..
qed

lemma rotate_cases:
  assumes "rotate used now p active S = Some (out, S')"
  obtains S1 where "audit_by_size used now p (audit_by_age now p S) = Some S1" "ad_shares S1 = ad_shares S" "ad_fault S1 = ad_fault S"
    "ad_queue S1 = ad_queue S" "ad_closed S1 = ad_closed S"
    "shared_by_size now p active (reserved_shares p active (young_shares now p (ad_shares S))) (shared_by_age now p S1) = Some (out, S')"
  using assms audit_by_size_sel [of used now p "audit_by_age now p S"] by (auto simp: rotate_def bind_eq_Some_conv Let_def)

lemma run_retention_cases:
  assumes "run_retention w w2 n used p active S = Some (r, S')" and "io_db_ok w"
  obtains out S1 where "rotate used (io_now w) p active S = Some (out, S1)" "S' = set_admission out S1" "r = summary w2 n S'"
  using assms by (auto simp: run_retention_def)

lemma set_admission_sel [simp]: "ad_shares (set_admission out S) = ad_shares S" "ad_events (set_admission out S) = ad_events S"
  "ad_boundaries (set_admission out S) = ad_boundaries S" "ad_queue (set_admission out S) = ad_queue S"
  "ad_closed (set_admission out S) = ad_closed S" "ad_admission_blocked (set_admission out S) \<longleftrightarrow> out = Blocked"
  "ad_fault (set_admission out S) = (if out = Blocked then Some blocked_fault else ad_fault S)"
  by (simp_all add: set_admission_def)

text \<open>C36: Retention keeps to the limit of the Data Shared log, or says that it cannot: afterwards the stored bytes fit, unless only the
  reserved evidence of active sessions is left, and then the store is at fault and admits no more data.\<close>

theorem retention_bounds:
  assumes "run_retention w w2 n used p active S = Some (r, S')" and "io_db_ok w"
  shows "(if ad_admission_blocked S'
    then ad_fault S' = Some blocked_fault \<and> uint (rp_shared_max_bytes p) < shared_bytes (ad_shares S')
      \<and> all_reserved (reserved_shares p active (young_shares (io_now w) p (ad_shares S))) (ad_shares S')
    else shared_bytes (ad_shares S') \<le> uint (rp_shared_max_bytes p))"
proof (rule run_retention_cases [OF assms])
  fix out S1
  assume o: "rotate used (io_now w) p active S = Some (out, S1)" "S' = set_admission out S1"
  obtain S0 where "shared_by_size (io_now w) p active (reserved_shares p active (young_shares (io_now w) p (ad_shares S)))
      (shared_by_age (io_now w) p S0) = Some (out, S1)"
    using rotate_cases [OF o(1)] by metis
  from shared_by_size_outcome [OF this] show ?thesis unfolding o(2) by (cases out) (simp_all add: outcome_ok_def)
qed

lemma reserved_member:
  assumes "sid \<in> set active" and "r \<in> set (sql_limit (as_i64 (rp_reserved_events_per_session p))
      (sort_key (\<lambda>r. - shw_timestamp r) (filter (\<lambda>r. shw_session_id r = Some sid) ss)))"
  shows "r \<in> set ss \<and> shw_event_id r \<in> set (reserved_shares p active ss)"
  using assms by (auto simp: reserved_shares_def reserved_of_def sql_limit_def split: if_splits dest: in_set_takeD)

text \<open>Reserved evidence survives: the newest records of an active session, as many as the settings reserve, are still there after
  the retention, whatever the size limit, as long as they are not older than the retention period.\<close>

theorem retention_spares_reserved:
  assumes "run_retention w w2 n used p active S = Some (r, S')" and "List.member active sid"
    and "List.member (sql_limit (as_i64 (rp_reserved_events_per_session p))
      (sort_key (\<lambda>x. - shw_timestamp x) (filter (\<lambda>x. shw_session_id x = Some sid) (young_shares (io_now w) p (ad_shares S))))) x"
  shows "List.member (ad_shares S') x"
proof -
  have x: "x \<in> set (young_shares (io_now w) p (ad_shares S)) \<and>
    shw_event_id x \<in> set (reserved_shares p active (young_shares (io_now w) p (ad_shares S)))"
    by (rule reserved_member [of sid]) (use assms(2,3) in \<open>simp_all add: List.member_iff\<close>)
  show ?thesis
  proof (cases "io_db_ok w")
    case False
    then have "S' = S" using assms(1) by (simp add: run_retention_def)
    then show ?thesis using x by (simp add: List.member_iff young_shares_def)
  next
    case True
    show ?thesis
    proof (rule run_retention_cases [OF assms(1) True])
      fix out S1
      assume o: "rotate used (io_now w) p active S = Some (out, S1)" "S' = set_admission out S1"
      obtain S0 where "ad_shares S0 = ad_shares S" "shared_by_size (io_now w) p active
          (reserved_shares p active (young_shares (io_now w) p (ad_shares S))) (shared_by_age (io_now w) p S0) = Some (out, S1)"
        using rotate_cases [OF o(1)] by metis
      from shared_by_size_keeps [OF this(2)] this(1) x show ?thesis unfolding o(2) by (simp add: List.member_iff spares_def)
    qed
  qed
qed

section \<open>Every removal is recorded\<close>

definition removed :: "string \<Rightarrow> audit_store \<Rightarrow> int" where
  "removed log S = sum_list (map rb_removed_count (filter (\<lambda>b. rb_log b = log) (ad_boundaries S)))"

definition accounted :: "audit_store \<Rightarrow> audit_store \<Rightarrow> bool" where
  "accounted S T \<longleftrightarrow> int (length (ad_events T)) + removed ''audit'' T = int (length (ad_events S)) + removed ''audit'' S
    \<and> int (length (ad_shares T)) + removed ''data_shared'' T = int (length (ad_shares S)) + removed ''data_shared'' S"

lemma accounted_trans: "accounted S T \<Longrightarrow> accounted T U \<Longrightarrow> accounted S U"
  by (simp add: accounted_def)

lemma removed_add: "removed log (add_boundaries (boundary l now before n why # bs') S)
    = (if l = log then int n else 0) + removed log (add_boundaries bs' S)"
  by (simp add: removed_def boundary_def)

lemma removed_add_Nil: "removed log (add_boundaries [] S) = removed log S"
  by (simp add: removed_def)

lemma removed_truncation: "removed log (add_boundaries (map (truncation now before) ids) S) = removed log S"
proof -
  have "sum_list (map rb_removed_count (filter (\<lambda>b. rb_log b = log) (map (truncation now before) ids))) = 0"
    by (induction ids) (auto simp: truncation_def)
  then show ?thesis by (simp add: removed_def)
qed

lemma removed_update [simp]: "removed log (S\<lparr>ad_events := es\<rparr>) = removed log S" "removed log (S\<lparr>ad_shares := ss\<rparr>) = removed log S"
  by (simp_all add: removed_def)

lemma int_count_delete: "int (length (delete_where P rows)) + int (count_where P rows) = int (length rows)"
  using count_delete [of P rows] by linarith

lemma age_accounted: "accounted S (audit_by_age now p S)" "accounted S (shared_by_age now p S)"
  using int_count_delete [of "\<lambda>r. aur_timestamp_start r < now - as_i64 (rp_audit_retention_days p) * DAY_MS" "ad_events S"]
    int_count_delete [of "\<lambda>r. shw_timestamp r < now - as_i64 (rp_shared_retention_days p) * DAY_MS" "ad_shares S"]
  unfolding accounted_def audit_by_age_def shared_by_age_def Let_def
  by (simp_all add: removed_add removed_add_Nil)

lemma audit_round_accounted: "accounted (snd (snd s)) (snd (snd (audit_size_round used now p s)))"
proof -
  obtain k d S where s: "s = (k, d, S)" by (cases s)
  have "accounted S (snd (snd (audit_size_round used now p (k, d, S))))"
  proof (cases rule: audit_size_round_cases [of used now p k d S])
    case 1
    then show ?thesis by (simp add: accounted_def)
  next
    case (2 before)
    show ?thesis
      using int_count_delete [of "\<lambda>r. aur_timestamp_start r < before" "ad_events S"]
      unfolding 2 by (simp add: accounted_def removed_add removed_add_Nil)
  qed
  then show ?thesis by (simp add: s)
qed

lemma keyed_filter_ids:
  assumes "keyed key xs" and "distinct rows" and "set rows \<subseteq> set xs"
  shows "length (filter (\<lambda>r. key r \<notin> key ` set rows) xs) + length rows = length xs"
proof -
  have inj: "inj_on key (set xs)" and d: "distinct xs"
    using assms(1) by (simp_all add: keyed_def distinct_map)
  have "set (filter (\<lambda>r. key r \<in> key ` set rows) xs) = set rows"
    using assms(3) inj by (auto simp: inj_on_def)
  then have "length (filter (\<lambda>r. key r \<in> key ` set rows) xs) = length rows"
    using d assms(2) by (metis distinct_card distinct_filter)
  then show ?thesis
    using sum_length_filter_compl [of "\<lambda>r. key r \<in> key ` set rows" xs] by simp
qed

lemma victims_distinct: "keyed shw_event_id (ad_shares S) \<Longrightarrow> distinct (victims reserved S)"
  by (simp add: victims_def keyed_def distinct_map)

lemma rotated_accounted:
  assumes "keyed shw_event_id (ad_shares S)" and "rows = victims reserved S"
  shows "accounted S (rotated now active rows S)"
proof -
  have "set rows \<subseteq> set (ad_shares S)" using victims_shares assms(2) by blast
  then have "int (length (filter (\<lambda>r. shw_event_id r \<notin> shw_event_id ` set rows) (ad_shares S))) + int (length rows) = int (length (ad_shares S))"
    using keyed_filter_ids [OF assms(1) victims_distinct [OF assms(1)]] assms(2) by (metis of_nat_add)
  moreover have "removed log (rotated now active rows S) = (if log = ''data_shared'' then int (length rows) else 0) + removed log S" for log
    by (simp add: rotated_def removed_add removed_truncation)
  ultimately show ?thesis by (simp add: accounted_def)
qed

definition kept_account :: "audit_store \<Rightarrow> audit_store \<Rightarrow> bool" where
  "kept_account S T \<longleftrightarrow> keyed shw_event_id (ad_shares T) \<and> accounted S T"

lemma keyed_filter: "keyed key xs \<Longrightarrow> keyed key (filter P xs)"
  by (simp add: keyed_def distinct_map_filter)

lemma shared_round_accounted:
  "kept_account S (snd s) \<Longrightarrow> kept_account S (snd (shared_size_round now p active reserved s))"
  by (auto simp: shared_size_round_eq kept_account_def keyed_filter intro: accounted_trans rotated_accounted)

lemma rotate_accounted:
  assumes "rotate used now p active S = Some (out, S')" and "keyed shw_event_id (ad_shares S)"
  shows "accounted S S'"
proof (rule rotate_cases [OF assms(1)])
  fix S1
  assume 1: "audit_by_size used now p (audit_by_age now p S) = Some S1" "ad_shares S1 = ad_shares S"
    and 2: "shared_by_size now p active (reserved_shares p active (young_shares now p (ad_shares S))) (shared_by_age now p S1) = Some (out, S')"
  have a: "accounted S S1"
    by (rule audit_by_size_rule [OF 1(1), where P = "accounted S"]) (auto intro: age_accounted accounted_trans audit_round_accounted)
  have k: "kept_account S (shared_by_age now p S1)"
    using accounted_trans [OF a age_accounted(2)] assms(2) 1(2) by (simp add: kept_account_def keyed_filter young_shares_def)
  have "kept_account S (snd (out, S')) \<and> fst (out, S') \<noteq> Rotating"
    by (rule shared_by_size_rule [OF 2]) (simp_all add: k shared_round_accounted)
  then show ?thesis by (simp add: kept_account_def)
qed

text \<open>Nothing leaves the logs unrecorded: whatever the retention removes from the audit history or from Data Shared is counted in the
  boundaries it writes, so that rows and removed rows together stay the same.\<close>

theorem removals_recorded:
  assumes "run_retention w w2 n used p active S = Some (r, S')" and "keyed shw_event_id (ad_shares S)"
  shows "int (length (ad_events S')) + removed ''audit'' S' = int (length (ad_events S)) + removed ''audit'' S
    \<and> int (length (ad_shares S')) + removed ''data_shared'' S' = int (length (ad_shares S)) + removed ''data_shared'' S"
proof (cases "io_db_ok w")
  case False
  then have "S' = S" using assms(1) by (simp add: run_retention_def)
  then show ?thesis by simp
next
  case True
  show ?thesis
  proof (rule run_retention_cases [OF assms(1) True])
    fix out S1
    assume "rotate used (io_now w) p active S = Some (out, S1)" "S' = set_admission out S1"
    then show ?thesis using rotate_accounted [OF _ assms(2)] by (fastforce simp: accounted_def removed_def)
  qed
qed

section \<open>Runs\<close>

text \<open>The labels: an intent and a share that were stored, with their identifiers, an operation handed to the queue, a round of the writer,
  and what resets the store.\<close>

datatype audit_label =
    AU_Intent string
  | AU_Share string
  | AU_Queue queue_op
  | AU_Write
  | AU_Retention
  | AU_ClearFault
  | AU_Restart
  | AU_Other

inductive audit_step :: "audit_env \<Rightarrow> audit_store \<Rightarrow> audit_label \<Rightarrow> audit_store \<Rightarrow> bool" for V where
  au_intent: "intent V w e S = (Inr i, S') \<Longrightarrow> audit_step V S (AU_Intent i) S'"
| au_intent_refused: "intent V w e S = (Inl x, S') \<Longrightarrow> audit_step V S AU_Other S'"
| au_share: "record_share V w r S = (Inr (i, h), S') \<Longrightarrow> audit_step V S (AU_Share i) S'"
| au_share_refused: "record_share V w r S = (Inl x, S') \<Longrightarrow> audit_step V S AU_Other S'"
| au_complete: "audit_step V S (AU_Queue (Q_Complete i (io_now w) c)) (complete_audit w i c S)"
| au_record: "audit_step V S (AU_Queue (Q_Insert (io_id w) (io_now w) e)) (snd (record_event w e S))"
| au_record_sync: "audit_step V S AU_Other (snd (record_sync V w e S))"
| au_transmission: "audit_step V S AU_Other (mark_transmission ids st S)"
| au_write: "audit_step V S AU_Write (write_batch V w n S)"
| au_writer_gone: "audit_step V S AU_Other (S\<lparr>ad_closed := True\<rparr>)"
| au_unknown: "audit_step V S AU_Other (snd (mark_incomplete_unknown w S))"
| au_retention: "run_retention w w2 n used p active S = Some (r, S') \<Longrightarrow> audit_step V S AU_Retention S'"
| au_clear: "audit_step V S AU_ClearFault (clear_fault S)"
| au_restart: "audit_step V S AU_Restart (AuditStore_open (ad_events S) (ad_shares S) (ad_boundaries S))"

definition resets :: "audit_label \<Rightarrow> bool" where
  "resets l \<longleftrightarrow> l = AU_ClearFault \<or> l = AU_Restart"

definition admits :: "audit_label \<Rightarrow> bool" where
  "admits l = (case l of AU_Intent _ \<Rightarrow> True | AU_Share _ \<Rightarrow> True | _ \<Rightarrow> False)"

lemma label_kinds [simp]:
  "resets AU_ClearFault" "resets AU_Restart" "\<not> resets (AU_Intent i)" "\<not> resets (AU_Share i)" "\<not> resets (AU_Queue q)"
  "\<not> resets AU_Write" "\<not> resets AU_Retention" "\<not> resets AU_Other"
  "admits (AU_Intent i)" "admits (AU_Share i)" "\<not> admits (AU_Queue q)" "\<not> admits AU_Write" "\<not> admits AU_Retention"
  "\<not> admits AU_ClearFault" "\<not> admits AU_Restart" "\<not> admits AU_Other"
  by (simp_all add: resets_def admits_def)

lemma apply_op_sel: "apply_op V q S = Some S' \<Longrightarrow> ad_fault S' = ad_fault S \<and> ad_queue S' = ad_queue S"
  by (cases q) (auto simp: apply_op_def)

lemma apply_batch_sel: "apply_batch V qs S = Some S' \<Longrightarrow> ad_fault S' = ad_fault S \<and> ad_queue S' = ad_queue S"
  by (induction qs arbitrary: S) (auto simp: bind_eq_Some_conv dest!: apply_op_sel)

lemma retention_fault:
  assumes "run_retention w w2 n used p active S = Some (r, S')"
  shows "ad_fault S \<noteq> None \<longrightarrow> ad_fault S' \<noteq> None"
proof (cases "io_db_ok w")
  case False
  then show ?thesis using assms by (simp add: run_retention_def)
next
  case True
  show ?thesis
  proof (rule run_retention_cases [OF assms True])
    fix out S1
    assume o: "rotate used (io_now w) p active S = Some (out, S1)" "S' = set_admission out S1"
    then obtain S0 where "ad_fault S0 = ad_fault S" "shared_by_size (io_now w) p active
        (reserved_shares p active (young_shares (io_now w) p (ad_shares S))) (shared_by_age (io_now w) p S0) = Some (out, S1)"
      using rotate_cases [OF o(1)] by metis
    then have "ad_fault S1 = ad_fault S" using shared_by_size_keeps by (fastforce simp: spares_def)
    then show ?thesis using o(2) by simp
  qed
qed

lemma fault_stays:
  assumes "audit_step V S l S'" and "\<not> resets l" and "ad_fault S \<noteq> None"
  shows "ad_fault S' \<noteq> None \<and> \<not> admits l"
  using assms
proof cases
  case (au_write w n)
  then show ?thesis
    using assms(3) by (auto simp: write_batch_def Let_def dest!: apply_batch_sel split: option.splits)
next
  case (au_retention w w2 n used p active r)
  then show ?thesis using retention_fault [OF au_retention(2)] assms(3) by simp
qed (use assms(3) in \<open>auto simp: intent_def record_share_def complete_audit_def record_event_def record_sync_def send_op_def
    mark_transmission_def mark_incomplete_unknown_def Let_def split: option.splits if_splits\<close>)

text \<open>The runs in which nobody clears the fault and the process goes on.\<close>

definition unreset_step :: "audit_env \<Rightarrow> audit_store \<Rightarrow> audit_label \<Rightarrow> audit_store \<Rightarrow> bool" where
  "unreset_step V S l S' \<longleftrightarrow> audit_step V S l S' \<and> \<not> resets l"

interpretation fault_latch: invariant_system "unreset_step V" "\<lambda>S. ad_fault S \<noteq> None" for V
  by unfold_locales (auto simp: unreset_step_def dest: fault_stays)

lemma run_unreset: "run (audit_step V) S es S' \<Longrightarrow> list_all (\<lambda>l. \<not> resets l) es \<Longrightarrow> run (unreset_step V) S es S'"
  by (induction rule: run.induct) (auto simp: unreset_step_def intro: run.intros)

text \<open>C20: The store fails closed: once it is at fault, no intent is recorded and no data is released until the user clears the fault or the
  process starts again, whatever is attempted meanwhile.\<close>

theorem audit_fails_closed:
  assumes "run (audit_step V) S es S'" and "list_all (\<lambda>l. \<not> resets l) es" and "ad_fault S \<noteq> None"
  shows "list_all (\<lambda>l. \<not> admits l) es \<and> ad_fault S' \<noteq> None"
proof -
  have r: "run (unreset_step V) S es S'" using run_unreset assms(1,2) by blast
  have "\<not> admits l" if "l \<in> set es" for l
  proof -
    obtain xs ys where "es = xs @ l # ys" using split_list [OF \<open>l \<in> set es\<close>] by blast
    then obtain T T' where "ad_fault T \<noteq> None" "unreset_step V T l T'"
      using fault_latch.run_middle [of V S xs l ys S'] r assms(3) by blast
    then show ?thesis using fault_stays unfolding unreset_step_def by blast
  qed
  then show ?thesis using fault_latch.run_inv [OF r assms(3)] by (simp add: list_all_iff)
qed

section \<open>The queue\<close>

definition queued_or_stored :: "string \<Rightarrow> int \<Rightarrow> audit_event \<Rightarrow> audit_store \<Rightarrow> bool" where
  "queued_or_stored i ts e S \<longleftrightarrow> List.member (ad_queue S) (Q_Insert i ts e) \<or> list_ex (\<lambda>r. aur_event_id r = i) (ad_events S)"

definition stored_ids :: "audit_store \<Rightarrow> string set" where
  "stored_ids S = aur_event_id ` set (ad_events S)"

lemma queued_iff: "queued_or_stored i ts e S \<longleftrightarrow> Q_Insert i ts e \<in> set (ad_queue S) \<or> i \<in> stored_ids S"
  by (auto simp: queued_or_stored_def stored_ids_def List.member_iff list_ex_iff)

lemma insert_event_ids: "insert_event V i ts e rows = Some rows' \<Longrightarrow> aur_event_id ` set rows' = insert i (aur_event_id ` set rows)"
  by (auto simp: insert_event_def insert_by_def event_row_def split: if_splits)

lemma update_ids: "(\<And>r. aur_event_id (f r) = aur_event_id r) \<Longrightarrow> aur_event_id ` set (update_where P f rows) = aur_event_id ` set rows"
proof -
  assume "\<And>r. aur_event_id (f r) = aur_event_id r"
  then have "map aur_event_id (update_where P f rows) = map aur_event_id rows" by (simp add: update_where_def)
  then show ?thesis by (metis set_map)
qed

lemma apply_op_ids:
  assumes "apply_op V q S = Some S'"
  shows "stored_ids S \<subseteq> stored_ids S' \<and> (\<forall>i ts e. q = Q_Insert i ts e \<longrightarrow> i \<in> stored_ids S')"
  using assms
  by (cases q) (auto simp: apply_op_def stored_ids_def complete_event_def update_ids completed_row_def dest: insert_event_ids)

lemma apply_batch_ids:
  "apply_batch V qs S = Some S' \<Longrightarrow> stored_ids S \<subseteq> stored_ids S' \<and> (\<forall>i ts e. Q_Insert i ts e \<in> set qs \<longrightarrow> i \<in> stored_ids S')"
proof (induction qs arbitrary: S)
  case (Cons q qs)
  then obtain T where T: "apply_op V q S = Some T" "apply_batch V qs T = Some S'" by (auto simp: bind_eq_Some_conv)
  show ?case unfolding list.set using apply_op_ids [OF T(1)] Cons.IH [OF T(2)] by blast
qed simp

lemma write_batch_keeps:
  assumes "queued_or_stored i ts e S" and "ad_fault (write_batch V w n S) = None"
  shows "queued_or_stored i ts e (write_batch V w n S)"
proof -
  let ?k = "min n BATCH"
  obtain T where T: "apply_batch V (take ?k (ad_queue S)) (S\<lparr>ad_queue := drop ?k (ad_queue S)\<rparr>) = Some T" "write_batch V w n S = T"
    using assms(2) by (auto simp: write_batch_def Let_def split: option.splits if_splits)
  have "Q_Insert i ts e \<in> set (take ?k (ad_queue S)) \<or> Q_Insert i ts e \<in> set (drop ?k (ad_queue S)) \<or> i \<in> stored_ids S"
    using assms(1) by (metis queued_iff Un_iff append_take_drop_id set_append)
  moreover have "ad_queue T = drop ?k (ad_queue S)" using apply_batch_sel [OF T(1)] by simp
  moreover have "stored_ids S \<subseteq> stored_ids T" using apply_batch_ids [OF T(1)] by (simp add: stored_ids_def)
  moreover have "i \<in> stored_ids T" if "Q_Insert i ts e \<in> set (take ?k (ad_queue S))" using that apply_batch_ids [OF T(1)] by blast
  ultimately show ?thesis unfolding T(2) queued_iff by auto
qed

lemma queue_step_keeps:
  assumes "audit_step V S l S'" and "\<not> resets l" and "l \<noteq> AU_Retention" and "ad_fault S' = None" and "queued_or_stored i ts e S"
  shows "queued_or_stored i ts e S'"
  using assms(1)
proof cases
  case (au_write w n)
  then show ?thesis using write_batch_keeps assms(4,5) by blast
next
  case (au_unknown w)
  then show ?thesis using assms(5)
    by (auto simp: mark_incomplete_unknown_def Let_def queued_iff stored_ids_def update_ids)
qed (use assms(2-5) in \<open>auto simp: queued_iff stored_ids_def intent_def record_share_def complete_audit_def record_event_def record_sync_def
    send_op_def mark_transmission_def dest!: insert_event_ids split: option.splits if_splits\<close>)

lemma queue_step_enters:
  "audit_step V S (AU_Queue (Q_Insert i ts e)) S' \<Longrightarrow> ad_fault S' = None \<Longrightarrow> queued_or_stored i ts e S'"
  by (erule audit_step.cases) (auto simp: queued_iff record_event_def send_op_def split: if_splits)

lemma run_fault_before:
  assumes "run (audit_step V) S es S'" and "list_all (\<lambda>l. \<not> resets l) es" and "ad_fault S' = None"
  shows "ad_fault S = None"
  using fault_latch.run_inv [of V S es S'] run_unreset [OF assms(1,2)] assms(3) by blast

text \<open>C34: The queue loses nothing silently: an event handed to the queue is still queued or in the history as long as the store reports no
  fault, over all operations but the retention, which keeps its own account, and a restart.\<close>

theorem no_silent_loss:
  assumes "run (audit_step V) S es S'" and "list_all (\<lambda>l. \<not> resets l \<and> l \<noteq> AU_Retention) es" and "ad_fault S' = None"
    and "List.member es (AU_Queue (Q_Insert i ts e))"
  shows "queued_or_stored i ts e S'"
  using assms
proof (induction rule: run.induct)
  case (run_nil S)
  then show ?case by simp
next
  case (run_snoc S es T l S')
  have l: "\<not> resets l" "l \<noteq> AU_Retention" "list_all (\<lambda>l. \<not> resets l \<and> l \<noteq> AU_Retention) es" using run_snoc.prems(1) by auto
  have T: "ad_fault T = None" using fault_stays [OF run_snoc.hyps(2) l(1)] run_snoc.prems(2) by blast
  show ?case
  proof (cases "l = AU_Queue (Q_Insert i ts e)")
    case True
    then show ?thesis using queue_step_enters run_snoc.hyps(2) run_snoc.prems(2) by blast
  next
    case False
    then have "queued_or_stored i ts e T" using run_snoc.IH [OF l(3) T] run_snoc.prems(3) by (simp add: List.member_iff)
    then show ?thesis using queue_step_keeps [OF run_snoc.hyps(2) l(1,2) run_snoc.prems(2)] by blast
  qed
qed

section \<open>Export\<close>

definition matching :: "audit_filter \<Rightarrow> int option \<Rightarrow> audit_store \<Rightarrow> audit_row list" where
  "matching f before S = filter (event_matches (f\<lparr>af_before_ms := before\<rparr>)) (ad_events S)"

lemma export_page_eq: "export_page f before S = newest_first aur_timestamp_start EXPORT_PAGE (matching f before S)"
  by (simp add: export_page_def matching_def event_matches_def [abs_def])

lemma event_matches_before:
  "event_matches (f\<lparr>af_before_ms := Some t\<rparr>) r \<longleftrightarrow> event_matches (f\<lparr>af_before_ms := None\<rparr>) r \<and> aur_timestamp_start r < t"
  by (auto simp: event_matches_def opt_cond_def)

lemma matching_Some: "matching f (Some t) S = filter (\<lambda>r. aur_timestamp_start r < t) (matching f None S)"
  by (auto simp: matching_def event_matches_before intro: filter_cong)

lemma matching_shrinks:
  assumes "r \<in> set (matching f before S)"
  shows "length (matching f (Some (aur_timestamp_start r)) S) < length (matching f before S)"
proof (cases before)
  case None
  then show ?thesis using assms by (auto simp: matching_Some intro!: length_filter_less)
next
  case (Some t)
  then have "aur_timestamp_start r < t" using assms by (simp add: matching_Some)
  then have "matching f (Some (aur_timestamp_start r)) S = filter (\<lambda>x. aur_timestamp_start x < aur_timestamp_start r) (matching f before S)"
    by (auto simp: Some matching_Some intro!: filter_cong)
  then show ?thesis using assms by (auto intro!: length_filter_less)
qed

definition export_measure :: "audit_filter \<Rightarrow> audit_store \<Rightarrow> bool \<times> int option \<times> audit_row list \<Rightarrow> nat" where
  "export_measure f S s = (if fst s then 0 else Suc (length (matching f (fst (snd s)) S)))"

lemma export_page_last:
  assumes "export_page f before S \<noteq> []"
  shows "last (export_page f before S) \<in> set (matching f before S)"
  using last_in_set [OF assms] by (auto simp: export_page_eq newest_first_def dest: in_set_takeD)

lemma export_round_decreases:
  assumes "\<not> fst s"
  shows "export_measure f S (export_round f S s) < export_measure f S s"
proof -
  obtain before out where s: "s = (False, before, out)" using assms by (cases s) auto
  show ?thesis
  proof (cases "export_page f before S = []")
    case True
    then show ?thesis by (simp add: s export_round_def export_measure_def)
  next
    case False
    then show ?thesis
      using matching_shrinks [OF export_page_last [OF False]] by (simp add: s export_round_def export_measure_def Let_def)
  qed
qed

lemma export_rows_returns: "\<exists>rows. export_rows f S = Some rows"
proof -
  have "\<exists>t. while_option (\<lambda>s. \<not> fst s) (export_round f S) (False, None, []) = Some t"
    by (rule measure_while_option_Some [where P = "\<lambda>_. True" and f = "export_measure f S"]) (simp_all add: export_round_decreases)
  then show ?thesis by (auto simp: export_rows_def)
qed

definition newest :: "audit_filter \<Rightarrow> audit_store \<Rightarrow> audit_row list" where
  "newest f S = sort_key (\<lambda>r. - aur_timestamp_start r) (matching f None S)"

lemma export_page_newest:
  "export_page f None S = take EXPORT_PAGE (newest f S)"
  "export_page f (Some t) S = take EXPORT_PAGE (filter (\<lambda>r. aur_timestamp_start r < t) (newest f S))"
  by (simp_all add: export_page_eq newest_first_def newest_def matching_Some filter_sort)

lemma newest_strict:
  assumes "distinct (map aur_timestamp_start (matching f None S))"
  shows "sorted_wrt (\<lambda>a b. aur_timestamp_start b < aur_timestamp_start a) (newest f S)"
proof -
  have "distinct (map aur_timestamp_start (newest f S))"
    using assms by (simp add: newest_def distinct_map)
  then have "distinct (map (\<lambda>r. - aur_timestamp_start r) (newest f S))"
    by (simp add: distinct_map inj_on_def)
  moreover have "sorted (map (\<lambda>r. - aur_timestamp_start r) (newest f S))" by (simp add: newest_def)
  ultimately have "sorted_wrt (<) (map (\<lambda>r. - aur_timestamp_start r) (newest f S))" by (simp add: strict_sorted_iff)
  then show ?thesis by (simp add: sorted_wrt_map)
qed

lemma strict_filter:
  assumes "sorted_wrt (\<lambda>a b. ts b < ts a) (xs @ y # ys)"
  shows "filter (\<lambda>r. (ts r :: int) < ts y) (xs @ y # ys) = ys"
  using assms by (auto simp: sorted_wrt_append filter_empty_conv intro!: filter_True)

lemma page_after:
  assumes "sorted_wrt (\<lambda>a b. aur_timestamp_start b < aur_timestamp_start a) (newest f S)" and "newest f S = out @ rest" and "out \<noteq> []"
  shows "export_page f (Some (aur_timestamp_start (last out))) S = take EXPORT_PAGE rest"
proof -
  have "newest f S = butlast out @ last out # rest" using assms(2,3) by simp
  then show ?thesis using assms(1) strict_filter [of aur_timestamp_start "butlast out" "last out" rest] by (simp add: export_page_newest)
qed

text \<open>The state of the export after some pages.\<close>

definition exported :: "audit_filter \<Rightarrow> audit_store \<Rightarrow> bool \<times> int option \<times> audit_row list \<Rightarrow> bool" where
  "exported f S s \<longleftrightarrow>
     (case s of (stop, before, out) \<Rightarrow>
        (\<exists>rest. newest f S = out @ rest \<and> before = (if out = [] then None else Some (aur_timestamp_start (last out))) \<and> (stop \<longrightarrow> rest = [])))"

lemma exported_page:
  assumes "sorted_wrt (\<lambda>a b. aur_timestamp_start b < aur_timestamp_start a) (newest f S)" and "newest f S = out @ rest"
  shows "export_page f (if out = [] then None else Some (aur_timestamp_start (last out))) S = take EXPORT_PAGE rest"
  using page_after [OF assms] assms(2) by (simp add: export_page_newest)

lemma exported_round:
  assumes "sorted_wrt (\<lambda>a b. aur_timestamp_start b < aur_timestamp_start a) (newest f S)" and "length (newest f S) \<le> 1000000"
    and "exported f S s" and "\<not> fst s"
  shows "exported f S (export_round f S s)"
proof -
  obtain before out where s: "s = (False, before, out)" using assms(4) by (cases s) auto
  obtain rest where r: "newest f S = out @ rest" "before = (if out = [] then None else Some (aur_timestamp_start (last out)))"
    using assms(3) by (auto simp: exported_def s)
  have page: "export_page f before S = take EXPORT_PAGE rest" using exported_page [OF assms(1) r(1)] r(2) by simp
  show ?thesis
  proof (cases "rest = []")
    case True
    then show ?thesis using r page by (simp add: s export_round_def exported_def Let_def)
  next
    case False
    then have ne: "take EXPORT_PAGE rest \<noteq> []" by (simp add: EXPORT_PAGE_def)
    have "rest = take EXPORT_PAGE rest @ drop EXPORT_PAGE rest" by simp
    then have split: "newest f S = (out @ take EXPORT_PAGE rest) @ drop EXPORT_PAGE rest" using r(1) by simp
    then have small: "length (out @ take EXPORT_PAGE rest) \<le> 1000000" using assms(2) by (metis le_trans length_append le_add1)
    have "drop EXPORT_PAGE rest = []" if "length (take EXPORT_PAGE rest) < EXPORT_PAGE" using that by auto
    then show ?thesis
      using split ne small
      by (auto simp: s export_round_def page exported_def Let_def intro!: exI [of _ "drop EXPORT_PAGE rest"])
  qed
qed

text \<open>The export is complete when no two matching events have the same time and there are at most a million of them: it writes every
  matching event once, newest first.\<close>

theorem export_complete:
  assumes "distinct (map aur_timestamp_start (matching f None S))" and "length (matching f None S) \<le> 1000000"
  shows "export_rows f S = Some (sort_key (\<lambda>r. - aur_timestamp_start r) (matching f None S))"
proof -
  have len: "length (newest f S) \<le> 1000000" using assms(2) by (simp add: newest_def)
  obtain t where t: "while_option (\<lambda>s. \<not> fst s) (export_round f S) (False, None, []) = Some t"
    using export_rows_returns [of f S] by (auto simp: export_rows_def)
  have "exported f S t"
    by (rule while_option_rule [OF _ t]) (simp_all add: exported_round [OF newest_strict [OF assms(1)] len], simp add: exported_def)
  then have "snd (snd t) = newest f S"
    using while_option_stop [OF t] by (auto simp: exported_def split: prod.splits)
  then show ?thesis by (simp add: export_rows_def t newest_def)
qed

text \<open>Events of one millisecond are lost by the export: when more events than a page holds have the same time, only the first page of them
  is written, because the next page asks for strictly earlier events.\<close>

theorem export_loses_ties:
  assumes "list_all (\<lambda>r. aur_timestamp_start r = t) (matching f None S)" and "EXPORT_PAGE < length (matching f None S)"
  shows "\<exists>rows. export_rows f S = Some rows \<and> length rows = EXPORT_PAGE"
proof -
  let ?L = "newest f S"
  have L: "EXPORT_PAGE < length ?L" and all: "\<forall>r\<in>set ?L. aur_timestamp_start r = t"
    using assms by (auto simp: newest_def list_all_iff)
  have ne: "take EXPORT_PAGE ?L \<noteq> []" using L by (auto simp: EXPORT_PAGE_def)
  then have last: "aur_timestamp_start (last (take EXPORT_PAGE ?L)) = t" using all last_in_set in_set_takeD by metis
  have one: "export_round f S (False, None, []) = (False, Some t, take EXPORT_PAGE ?L)"
    using ne last L by (simp add: export_round_def export_page_newest Let_def EXPORT_PAGE_def)
  have "export_page f (Some t) S = []" using all by (simp add: export_page_newest filter_empty_conv)
  then have two: "export_round f S (False, Some t, take EXPORT_PAGE ?L) = (True, Some t, take EXPORT_PAGE ?L)"
    by (simp add: export_round_def Let_def)
  have "while_option (\<lambda>s. \<not> fst s) (export_round f S) (False, None, []) = Some (True, Some t, take EXPORT_PAGE ?L)"
    by (simp add: while_option_unfold one two)
  then show ?thesis using L by (simp add: export_rows_def)
qed

section \<open>Search\<close>

lemma like_percent: "like_chars (''%'' # ps) cs \<longleftrightarrow> (\<exists>a b. cs = a @ b \<and> like_chars ps b)"
proof (induction cs)
  case Nil
  then show ?case by (simp add: like_chars.simps(2))
next
  case (Cons c cs)
  have "like_chars (''%'' # ps) (c # cs) \<longleftrightarrow> like_chars ps (c # cs) \<or> like_chars (''%'' # ps) cs" by (simp add: like_chars.simps(2))
  also have "\<dots> \<longleftrightarrow> (\<exists>a b. c # cs = a @ b \<and> like_chars ps b)"
    unfolding Cons.IH by (metis append_Cons append_Nil list.inject neq_Nil_conv)
  finally show ?case .
qed

definition escaped :: "char \<Rightarrow> string list" where
  "escaped c = (if c = CHR ''%'' \<or> c = CHR ''_'' then [[BS], [c]] else [[c]])"

lemma like_escaped:
  assumes "c \<noteq> BS"
  shows "like_chars (escaped c @ ps) cs \<longleftrightarrow> (\<exists>d ds. cs = d # ds \<and> eq_ignore_ascii_case d [c] \<and> like_chars ps ds)"
  using assms by (cases cs) (auto simp: escaped_def like_chars.simps(2))

lemma like_literal:
  "list_all (\<lambda>c. c \<noteq> BS) v \<Longrightarrow> like_chars (concat (map escaped v) @ ps) cs \<longleftrightarrow>
     (\<exists>m b. cs = m @ b \<and> list_all2 (\<lambda>d c. eq_ignore_ascii_case d [c]) m v \<and> like_chars ps b)"
proof (induction v arbitrary: cs)
  case (Cons c v)
  have "like_chars (concat (map escaped (c # v)) @ ps) cs \<longleftrightarrow>
      (\<exists>d ds. cs = d # ds \<and> eq_ignore_ascii_case d [c] \<and> like_chars (concat (map escaped v) @ ps) ds)"
    using like_escaped [of c "concat (map escaped v) @ ps" cs] Cons.prems by simp
  also have "\<dots> \<longleftrightarrow> (\<exists>m b. cs = m @ b \<and> list_all2 (\<lambda>d c. eq_ignore_ascii_case d [c]) m (c # v) \<and> like_chars ps b)"
    using Cons by (auto simp: list_all2_Cons2; metis append_Cons)
  finally show ?case .
qed simp

definition is_ascii_str :: "string \<Rightarrow> bool" where
  "is_ascii_str v \<longleftrightarrow> list_all (\<lambda>c. byte c < 128) v"

lemma utf8_ascii: "is_ascii_str v \<Longrightarrow> utf8_chars v = map (\<lambda>c. [c]) v"
proof (induction v)
  case (Cons c v)
  have "\<not> is_continuation d" if "d \<in> set v" for d using that Cons.prems by (auto simp: is_ascii_str_def is_continuation_def list_all_iff)
  then have "takeWhile is_continuation v = []" "dropWhile is_continuation v = v" by (cases v; simp)+
  then show ?case using Cons by (simp add: is_ascii_str_def)
qed simp

lemma like_pattern_chars:
  assumes "is_ascii_str v"
  shows "utf8_chars (like_pattern v) = ''%'' # concat (map escaped v) @ [''%'']"
proof -
  have e: "replace_str1 CHR ''_'' [BS, CHR ''_''] (replace_str1 CHR ''%'' [BS, CHR ''%''] v) = concat (concat (map escaped v))"
    by (induction v) (auto simp: replace_str1_def escaped_def)
  have "is_ascii_str (concat (concat (map escaped v)))"
    using assms by (induction v) (auto simp: is_ascii_str_def escaped_def)
  then have "is_ascii_str (like_pattern v)" by (simp add: like_pattern_def e is_ascii_str_def)
  moreover have "map (\<lambda>c. [c]) (concat (concat (map escaped v))) = concat (map escaped v)"
    by (induction v) (auto simp: escaped_def)
  ultimately show ?thesis using utf8_ascii [of "like_pattern v"] by (simp add: like_pattern_def e del: utf8_chars.simps)
qed

text \<open>The search finds what it is asked for: an ASCII text without a backslash matches a column exactly when the column has it as a
  substring, up to the case of ASCII letters, and the wildcards in it stand for themselves.\<close>

theorem search_is_substring:
  assumes "is_ascii_str v" and "list_all (\<lambda>c. c \<noteq> BS) v"
  shows "sql_like (Some s) (like_pattern v) \<longleftrightarrow>
    (\<exists>a m b. utf8_chars s = a @ m @ b \<and> list_all2 (\<lambda>d c. eq_ignore_ascii_case d [c]) m v)"
proof -
  have "like_chars (concat (map escaped v) @ [''%'']) cs \<longleftrightarrow>
      (\<exists>m b. cs = m @ b \<and> list_all2 (\<lambda>d c. eq_ignore_ascii_case d [c]) m v)" for cs
    unfolding like_literal [OF assms(2)] using like_percent [of "[]"] by simp
  then have "sql_like (Some s) (like_pattern v) \<longleftrightarrow>
      (\<exists>a c. utf8_chars s = a @ c \<and> (\<exists>m b. c = m @ b \<and> list_all2 (\<lambda>d c. eq_ignore_ascii_case d [c]) m v))"
    by (simp add: sql_like_def like_pattern_chars [OF assms(1)] like_percent)
  then show ?thesis by blast
qed

lemma search_misses_backslash: "\<not> sql_like (Some ([CHR ''C'', CHR '':'', BS, CHR ''x''])) (like_pattern [CHR ''C'', CHR '':'', BS, CHR ''x''])"
  by code_simp

end
