(* ===== verification/Audit_Examples.thy ===== *)
theory Audit_Examples
  imports Audit_Props
begin

text \<open>A small store on which the properties of the audit log are applied.\<close>

definition aud_env :: audit_env where
  "aud_env = \<lparr>av_json = (\<lambda>j. ''null''), av_sha256_hex = (\<lambda>s. ''00'')\<rparr>"

definition aud_io :: "string \<Rightarrow> int \<Rightarrow> bool \<Rightarrow> io_env" where
  "aud_io i now ok = \<lparr>io_now = now, io_id = i, io_db_ok = ok\<rparr>"

definition aud_share :: "string \<Rightarrow> int \<Rightarrow> string \<Rightarrow> stored_share" where
  "aud_share i ts sid =
     \<lparr>shw_event_id = i, shw_timestamp = ts, shw_client_id = None, shw_session_id = Some sid, shw_tool_name = None, shw_request_id = None,
      shw_audit_event_id = None, shw_source_path = None, shw_mime_type = ''text/plain'', shw_byte_count = 1000, shw_sha256 = ''00'',
      shw_redaction = None, shw_transmission = ''sent'', sto_payload = []\<rparr>"

definition aud_policy :: retention_policy where
  "aud_policy = \<lparr>rp_audit_retention_days = 30, rp_audit_max_bytes = 100, rp_shared_retention_days = 30, rp_shared_max_bytes = 1500,
     rp_reserved_events_per_session = 1\<rparr>"

definition aud_row :: "string \<Rightarrow> int \<Rightarrow> audit_row" where
  "aud_row i ts = event_row aud_env i ts AuditEvent_default"

definition aud_store :: audit_store where
  "aud_store = AuditStore_open [aud_row ''e1'' 1, aud_row ''e2'' 2] [aud_share ''a'' 1 ''s'', aud_share ''b'' 2 ''s'', aud_share ''c'' 3 ''t''] []"

definition aud_retained :: "(retention_summary lp_result \<times> audit_store) option" where
  "aud_retained = run_retention (aud_io ''r'' 10 True) (aud_io ''q'' 10 True) 4096 (\<lambda>_. 0) aud_policy [''s''] aud_store"

lemma aud_retained_Some: "run_retention (aud_io ''r'' 10 True) (aud_io ''q'' 10 True) 4096 (\<lambda>_. 0) aud_policy [''s''] aud_store
    = Some (fst (the aud_retained), snd (the aud_retained))"
proof -
  have "aud_retained \<noteq> None" by code_simp
  then show ?thesis by (auto simp: aud_retained_def)
qed

lemma aud_retained_sel: "ad_admission_blocked (snd (the aud_retained)) = False" "map shw_event_id (ad_shares (snd (the aud_retained))) = [''b'']"
  by code_simp+

theorem retention_bounds_witness:
  "\<not> ad_admission_blocked (snd (the aud_retained)) \<and> shared_bytes (ad_shares (snd (the aud_retained))) \<le> uint (rp_shared_max_bytes aud_policy)"
  using retention_bounds [OF aud_retained_Some] by (simp add: aud_io_def aud_retained_sel)

theorem retention_spares_reserved_witness: "List.member (ad_shares (snd (the aud_retained))) (aud_share ''b'' 2 ''s'')"
proof (rule retention_spares_reserved [OF aud_retained_Some, of "''s''"])
  show "List.member [''s''] ''s''" by code_simp
  show "List.member (sql_limit (as_i64 (rp_reserved_events_per_session aud_policy)) (sort_key (\<lambda>x. - shw_timestamp x)
      (filter (\<lambda>x. shw_session_id x = Some ''s'') (young_shares (io_now (aud_io ''r'' 10 True)) aud_policy (ad_shares aud_store)))))
      (aud_share ''b'' 2 ''s'')" by code_simp
qed

theorem removals_recorded_witness:
  "int (length (ad_shares (snd (the aud_retained)))) + removed ''data_shared'' (snd (the aud_retained)) = 3"
proof -
  have "keyed shw_event_id (ad_shares aud_store)" "int (length (ad_shares aud_store)) + removed ''data_shared'' aud_store = 3" by code_simp+
  then show ?thesis using removals_recorded [OF aud_retained_Some] by simp
qed

definition aud_faulted :: audit_store where
  "aud_faulted = snd (intent aud_env (aud_io ''i'' 5 False) AuditEvent_default aud_store)"

lemma audit_run_one: "audit_step V s e t \<Longrightarrow> run (audit_step V) s [e] t"
  using run_snoc [OF run_nil, of "audit_step V" s e t] by simp

theorem audit_fails_closed_witness:
  "ad_fault aud_faulted \<noteq> None \<and> ad_fault (complete_audit (aud_io ''i'' 6 True) ''e1'' AuditCompletion_default aud_faulted) \<noteq> None"
proof -
  have f: "ad_fault aud_faulted \<noteq> None" by code_simp
  have "run (audit_step aud_env) aud_faulted [AU_Queue (Q_Complete ''e1'' (io_now (aud_io ''i'' 6 True)) AuditCompletion_default)]
      (complete_audit (aud_io ''i'' 6 True) ''e1'' AuditCompletion_default aud_faulted)"
    by (rule audit_run_one [OF au_complete])
  from audit_fails_closed [OF this _ f] f show ?thesis by simp
qed

definition aud_queued :: audit_store where
  "aud_queued = snd (record_event (aud_io ''n'' 7 True) AuditEvent_default aud_store)"

theorem no_silent_loss_witness:
  "queued_or_stored ''n'' 7 AuditEvent_default (write_batch aud_env (aud_io ''x'' 8 True) 1 aud_queued)"
proof -
  have "run (audit_step aud_env) aud_store [AU_Queue (Q_Insert (io_id (aud_io ''n'' 7 True)) (io_now (aud_io ''n'' 7 True)) AuditEvent_default)] aud_queued"
    unfolding aud_queued_def by (rule audit_run_one [OF au_record])
  from run_snoc [OF this au_write [of aud_env aud_queued "aud_io ''x'' 8 True" 1]]
  have r: "run (audit_step aud_env) aud_store [AU_Queue (Q_Insert ''n'' 7 AuditEvent_default), AU_Write]
      (write_batch aud_env (aud_io ''x'' 8 True) 1 aud_queued)" by (simp add: aud_io_def)
  have "ad_fault (write_batch aud_env (aud_io ''x'' 8 True) 1 aud_queued) = None" by code_simp
  from no_silent_loss [OF r _ this] show ?thesis by (simp add: List.member_iff)
qed

definition aud_filter :: audit_filter where
  "aud_filter = \<lparr>af_since_ms = None, af_until_ms = None, af_client_id = None, af_tool_name = None, af_project_id = None, af_result_status = None,
     af_kind = None, af_text = None, af_limit = None, af_before_ms = None\<rparr>"

theorem export_complete_witness: "export_rows aud_filter aud_store = Some [aud_row ''e2'' 2, aud_row ''e1'' 1]"
proof -
  have "distinct (map aur_timestamp_start (matching aud_filter None aud_store))" "length (matching aud_filter None aud_store) = 2"
    "sort_key (\<lambda>r. - aur_timestamp_start r) (matching aud_filter None aud_store) = [aud_row ''e2'' 2, aud_row ''e1'' 1]"
    by code_simp+
  then show ?thesis using export_complete [of aud_filter aud_store] by simp
qed

theorem search_is_substring_witness: "sql_like (Some ''git push --force'') (like_pattern ''PUSH'')"
proof -
  have "is_ascii_str ''PUSH''" "list_all (\<lambda>c. c \<noteq> BS) ''PUSH''" by code_simp+
  moreover have "\<exists>a m b. utf8_chars ''git push --force'' = a @ m @ b \<and> list_all2 (\<lambda>d c. eq_ignore_ascii_case d [c]) m ''PUSH''"
  proof (intro exI conjI)
    show "utf8_chars ''git push --force'' = map (\<lambda>c. [c]) ''git '' @ map (\<lambda>c. [c]) ''push'' @ map (\<lambda>c. [c]) '' --force''" by code_simp
    show "list_all2 (\<lambda>d c. eq_ignore_ascii_case d [c]) (map (\<lambda>c. [c]) ''push'') ''PUSH''" by code_simp
  qed
  ultimately show ?thesis using search_is_substring by blast
qed

text \<open>Two thousand and one events of one millisecond.\<close>

definition aud_burst :: audit_store where
  "aud_burst = AuditStore_open (replicate 2001 (aud_row ''e'' 1)) [] []"

theorem export_loses_ties_witness: "\<exists>rows. export_rows aud_filter aud_burst = Some rows \<and> length rows = EXPORT_PAGE"
proof -
  have m: "event_matches (aud_filter\<lparr>af_before_ms := None\<rparr>) (aud_row ''e'' 1)" by code_simp
  have "matching aud_filter None aud_burst = replicate 2001 (aud_row ''e'' 1)"
    using m by (simp add: matching_def aud_burst_def AuditStore_open_def filter_replicate)
  moreover have "aur_timestamp_start (aud_row ''e'' 1) = 1" by code_simp
  ultimately show ?thesis
    using export_loses_ties [of 1 aud_filter aud_burst] by (simp add: EXPORT_PAGE_def list_all_iff)
qed

end
