(* ===== verification/Redaction.thy ===== *)
theory Redaction
  imports Attribution Db_Table "HOL-Library.Sublist" "HOL-Library.List_Lexorder" "HOL-Library.Char_ord"
begin

text \<open>
  The central redaction engine, \<^verbatim>\<open>workstation-core/src/redaction.rs\<close>: known secret values, the pattern rules, JSON values and the
  streaming redactor with its hold-back. The \<^verbatim>\<open>regex\<close> crate and \<^verbatim>\<open>String::from_utf8_lossy\<close> are parameters.
\<close>

section \<open>Rules\<close>

text \<open>\<open>rg_matches p s\<close> is \<^verbatim>\<open>captures_iter\<close>: for each match, from left to right, the text between the previous match and it and its groups
  (group 0 first; a group that took no part is empty), and then the text after the last match.\<close>

record redact_engine =
  rg_matches :: "string \<Rightarrow> string \<Rightarrow> (string \<times> string list) list \<times> string"
  rg_lossy :: "string \<Rightarrow> string"

record redact_rule =
  ru_kind :: string
  ru_pattern :: string
  ru_replacement :: string

definition rule :: "string \<Rightarrow> string \<Rightarrow> string \<Rightarrow> redact_rule" where
  "rule k p r = \<lparr>ru_kind = k, ru_pattern = rx p, ru_replacement = r\<rparr>"

text \<open>The patterns, with \<open>%\<close> for the backslash.\<close>

definition rules :: "redact_rule list" where
  "rules =
     [rule ''private_key''
        ''-----BEGIN [A-Z0-9 ]*PRIVATE KEY(?: BLOCK)?-----[%s%S]*?-----END [A-Z0-9 ]*PRIVATE KEY(?: BLOCK)?-----''
        ''<redacted private key>'',
      rule ''local_pilot_token'' ''%blp[amr]_[A-Za-z0-9_%-]{20,}'' ''<redacted>'',
      rule ''github_token'' ''%b(gh[pousr])_[A-Za-z0-9]{30,255}%b'' ''${1}_<redacted>'',
      rule ''github_pat'' ''%bgithub_pat_[A-Za-z0-9_]{20,255}%b'' ''github_pat_<redacted>'',
      rule ''authorization_header''
        ''(?i)%b((?:proxy-)?authorization)(%s*[:=]%s*)(?:(?:bearer|basic|token|digest)%s+)?[^%s%r%n,;]+'' ''${1}${2}<redacted>'',
      rule ''bearer'' ''(?i)%bbearer%s+[A-Za-z0-9%-._~+/]{8,}=*'' ''Bearer <redacted>'',
      rule ''aws_access_key'' ''%b(?:AKIA|ASIA|AGPA|AIDA|AROA)[0-9A-Z]{16}%b'' ''<redacted aws key id>'',
      rule ''aws_secret'' ''(?i)(aws_?secret_?access_?key%s*[=:]%s*)[A-Za-z0-9/+=]{40}'' ''${1}<redacted>'',
      rule ''anthropic_key'' ''%bsk-ant-[A-Za-z0-9_%-]{20,}'' ''<redacted api key>'',
      rule ''openai_key'' ''%bsk-(?:proj-|svcacct-|admin-)?[A-Za-z0-9_%-]{20,}'' ''<redacted api key>'',
      rule ''slack_token'' ''%bxox[abprs]-[A-Za-z0-9%-]{10,}'' ''<redacted>'',
      rule ''google_api_key'' ''%bAIza[0-9A-Za-z%-_]{35}%b'' ''<redacted api key>'',
      rule ''stripe_key'' ''%b(?:sk|rk)_(?:live|test)_[0-9a-zA-Z]{16,}'' ''<redacted api key>'',
      rule ''npm_token'' ''%bnpm_[A-Za-z0-9]{36}%b'' ''<redacted>'',
      rule ''cloudflare_tunnel_token'' ''%beyJhIjoi[A-Za-z0-9+/=_%-]{40,}'' ''<redacted tunnel token>'',
      rule ''jwt'' ''%beyJ[A-Za-z0-9_%-]{8,}%.eyJ[A-Za-z0-9_%-]{8,}%.[A-Za-z0-9_%-]{8,}'' ''<redacted jwt>'',
      rule ''url_credentials'' ''(?i)%b([a-z][a-z0-9+.%-]*://[^%s:/@]+:)([^@%s/]+)(@)'' ''${1}<redacted>${3}'',
      rule ''connection_string_password''
        (''(?i)%b(password|pwd)(%s*=%s*)([^;%x22'' @ [CHR 0x27] @ ''%s()]{3,})(;|%s|$)'') ''${1}${2}<redacted>${4}'',
      rule ''secret_assignment''
        (concat [''(?i)%b([A-Z0-9_.%-]*(?:secret|token|passwd|password|api_?key|apikey|private_?key|access_?key|client_?secret|auth_?key)'',
           ''[A-Z0-9_.%-]*)(%s*[=:]%s*)('', [DQ], ''[A-Za-z0-9_%-+/=.~]{12,}'', [DQ], ''|'', [CHR 0x27], ''[A-Za-z0-9_%-+/=.~]{12,}'',
           [CHR 0x27], ''|[A-Za-z0-9_%-+/=.~]{16,})''])
        ''${1}${2}<redacted>'']"

definition group :: "string list \<Rightarrow> nat \<Rightarrow> string" where
  "group caps n = (if n < length caps then caps ! n else [])"

text \<open>The replacement string of \<^verbatim>\<open>replace_all\<close>: \<open>${n}\<close> is the \<open>n\<close>-th group, for the single digits that occur here.\<close>

fun expand_template :: "string list \<Rightarrow> string \<Rightarrow> string" where
  "expand_template caps (a # b # d # e # rest) =
     (if a = CHR ''$'' \<and> b = CHR ''{'' \<and> is_ascii_digit d \<and> e = CHR ''}'' then group caps (byte d - 48) @ expand_template caps rest
      else a # expand_template caps (b # d # e # rest))"
| "expand_template caps s = s"

definition is_placeholder :: "string \<Rightarrow> bool" where
  "is_placeholder s \<longleftrightarrow>
     (let v = trim_end_matches (dropWhile (\<lambda>c. c = DQ \<or> c = CHR 0x27) s) (\<lambda>c. c = DQ \<or> c = CHR 0x27); lower = to_ascii_lowercase v in
      contains_str lower ''example'' \<or> contains_str lower ''placeholder'' \<or> contains_str lower ''changeme'' \<or> contains_str lower ''your_''
      \<or> contains_str lower ''redacted'' \<or> starts_with lower ''process.env'' \<or> starts_with lower ''os.environ'' \<or> starts_with lower ''env.''
      \<or> list_all (\<lambda>c. c = CHR ''x'' \<or> c = CHR ''X'' \<or> c = CHR ''*'') v
      \<or> \<not> (list_ex is_ascii_digit v \<and> list_ex is_ascii_alphabetic v))"

section \<open>Reports\<close>

text \<open>The counts by kind, in the order of the \<^verbatim>\<open>BTreeMap\<close>.\<close>

type_synonym redaction_report = "(string \<times> nat) list"

fun bump :: "string \<Rightarrow> nat \<Rightarrow> redaction_report \<Rightarrow> redaction_report" where
  "bump k n [] = [(k, n)]"
| "bump k n ((j, m) # r) = (if k = j then (j, m + n) # r else if k < j then (k, n) # (j, m) # r else (j, m) # bump k n r)"

definition report_add :: "string \<Rightarrow> nat \<Rightarrow> redaction_report \<Rightarrow> redaction_report" where
  "report_add k n r = (if n > 0 then bump k n r else r)"

definition report_merge :: "redaction_report \<Rightarrow> redaction_report \<Rightarrow> redaction_report" where
  "report_merge r other = fold (\<lambda>(k, n). bump k n) other r"

definition report_total :: "redaction_report \<Rightarrow> nat" where
  "report_total r = sum_list (map snd r)"

section \<open>Known values\<close>

type_synonym known_values = "(string \<times> string) list"

definition add_known_value :: "string \<Rightarrow> string \<Rightarrow> known_values \<Rightarrow> known_values" where
  "add_known_value name v K =
     (if length v < 8 \<or> list_ex (\<lambda>e. snd e = v) K then K else sort_key (\<lambda>e. - int (length (snd e))) (K @ [(name, v)]))"

definition SECRET_NAMES :: "string list" where
  "SECRET_NAMES =
     [''OPENAI_API_KEY'', ''ANTHROPIC_API_KEY'', ''AWS_SECRET_ACCESS_KEY'', ''AWS_SESSION_TOKEN'', ''GITHUB_TOKEN'', ''GH_TOKEN'',
      ''GH_ENTERPRISE_TOKEN'', ''GITHUB_ENTERPRISE_TOKEN'', ''CLOUDFLARE_API_TOKEN'', ''CLOUDFLARE_API_KEY'', ''CF_API_TOKEN'',
      ''CF_API_KEY'', ''TUNNEL_TOKEN'', ''NPM_TOKEN'', ''NODE_AUTH_TOKEN'', ''AZURE_CLIENT_SECRET'', ''GOOGLE_APPLICATION_CREDENTIALS'',
      ''DATABASE_URL'', ''HF_TOKEN'', ''HUGGING_FACE_HUB_TOKEN'']"

definition SECRET_SUFFIXES :: "string list" where
  "SECRET_SUFFIXES =
     [''_TOKEN'', ''_SECRET'', ''_PASSWORD'', ''_PASSWD'', ''_KEY'', ''_API_KEY'', ''_APIKEY'', ''_PAT'', ''_CREDENTIALS'',
      ''_PRIVATE_KEY'', ''_AUTH'']"

definition is_secret_env_name :: "string \<Rightarrow> bool" where
  "is_secret_env_name name \<longleftrightarrow>
     (let upper = to_ascii_uppercase name in
      if List.member SECRET_NAMES upper then True
      else if list_ex (ends_with upper) SECRET_SUFFIXES then \<not> List.member [''PSMODULEPATH_KEY'', ''PROCESSOR_ARCHITECTURE_KEY''] upper
      else contains_str upper ''SECRET'' \<or> contains_str upper ''PASSWORD'')"

definition register_process_environment :: "(string \<times> string) list \<Rightarrow> known_values \<Rightarrow> known_values" where
  "register_process_environment vars K = fold (\<lambda>(n, v) K. if is_secret_env_name n then add_known_value n v K else K) vars K"

text \<open>The text before the first occurrence, and after it.\<close>

fun find_sub :: "string \<Rightarrow> string \<Rightarrow> (string \<times> string) option" where
  "find_sub v [] = (if v = [] then Some ([], []) else None)"
| "find_sub v (c # s) =
     (if starts_with (c # s) v then Some ([], drop (length v) (c # s)) else map_option (\<lambda>(a, b). (c # a, b)) (find_sub v s))"

lemma find_sub_Some: "find_sub v s = Some (a, b) \<Longrightarrow> s = a @ v @ b"
  by (induction s arbitrary: a) (auto simp: starts_with_iff split: if_splits)

text \<open>\<^verbatim>\<open>str::matches\<close> and \<^verbatim>\<open>str::replace\<close>: the pieces between the occurrences, which do not overlap.\<close>

function split_str :: "string \<Rightarrow> string \<Rightarrow> string list" where
  "split_str v s = (if v = [] then [s] else (case find_sub v s of None \<Rightarrow> [s] | Some (a, b) \<Rightarrow> a # split_str v b))"
  by pat_completeness auto
termination by (relation "measure (\<lambda>(v, s). length s)") (auto dest!: find_sub_Some)

declare split_str.simps [simp del]

definition marker :: "string \<Rightarrow> string" where
  "marker name = ''<redacted:'' @ name @ ''>''"

definition known_pass :: "known_values \<Rightarrow> string \<Rightarrow> string \<times> redaction_report" where
  "known_pass K s =
     fold (\<lambda>(name, v) (t, r).
       if contains_str t v then (join_with (marker name) (split_str v t), report_add ''known_value'' (length (split_str v t) - 1) r)
       else (t, r)) K (s, [])"

section \<open>Redaction of texts and values\<close>

definition replace_matches :: "(string \<times> string list) list \<times> string \<Rightarrow> (string list \<Rightarrow> string) \<Rightarrow> string" where
  "replace_matches m f = concat (map (\<lambda>(pre, caps). pre @ f caps) (fst m)) @ snd m"

definition assignment_value :: "string list \<Rightarrow> string" where
  "assignment_value caps = (if is_placeholder (group caps 3) then group caps 0 else group caps 1 @ group caps 2 @ ''<redacted>'')"

definition rule_pass :: "redact_engine \<Rightarrow> redact_rule \<Rightarrow> string \<times> redaction_report \<Rightarrow> string \<times> redaction_report" where
  "rule_pass E ru tr =
     (case tr of (t, r) \<Rightarrow>
        (let m = rg_matches E (ru_pattern ru) t in
         if fst m = [] then (t, r)
         else if ru_kind ru = ''secret_assignment''
         then (let n = length (filter (\<lambda>(_, caps). \<not> is_placeholder (group caps 3)) (fst m)) in
               if n > 0 then (replace_matches m assignment_value, report_add (ru_kind ru) n r) else (t, r))
         else (replace_matches m (\<lambda>caps. expand_template caps (ru_replacement ru)), report_add (ru_kind ru) (length (fst m)) r)))"

definition redact :: "redact_engine \<Rightarrow> known_values \<Rightarrow> string \<Rightarrow> string \<times> redaction_report" where
  "redact E K s = fold (rule_pass E) rules (known_pass K s)"

definition redact_string :: "redact_engine \<Rightarrow> known_values \<Rightarrow> string \<Rightarrow> string" where
  "redact_string E K s = fst (redact E K s)"

definition contains_secret :: "redact_engine \<Rightarrow> known_values \<Rightarrow> string \<Rightarrow> bool" where
  "contains_secret E K s \<longleftrightarrow> snd (redact E K s) \<noteq> []"

definition sensitive_key :: "string \<Rightarrow> bool" where
  "sensitive_key k \<longleftrightarrow> List.member [''authorization'', ''password'', ''client_secret'', ''access_token'', ''refresh_token'', ''code_verifier'']
     (to_ascii_lowercase k)"

definition is_JString :: "json \<Rightarrow> bool" where
  "is_JString j = (case j of JString _ \<Rightarrow> True | _ \<Rightarrow> False)"

fun redact_json_inner :: "redact_engine \<Rightarrow> known_values \<Rightarrow> json \<Rightarrow> redaction_report \<Rightarrow> json \<times> redaction_report"
  and redact_items :: "redact_engine \<Rightarrow> known_values \<Rightarrow> json list \<Rightarrow> redaction_report \<Rightarrow> json list \<times> redaction_report"
  and redact_fields :: "redact_engine \<Rightarrow> known_values \<Rightarrow> (string \<times> json) list \<Rightarrow> redaction_report \<Rightarrow> (string \<times> json) list \<times> redaction_report" where
  "redact_json_inner E K (JString s) r = (let (t, rep) = redact E K s in (JString t, report_merge r rep))"
| "redact_json_inner E K (JArray js) r = (let (js', r') = redact_items E K js r in (JArray js', r'))"
| "redact_json_inner E K (JObject fs) r = (let (fs', r') = redact_fields E K fs r in (JObject fs', r'))"
| "redact_json_inner E K JNull r = (JNull, r)"
| "redact_json_inner E K (JBool b) r = (JBool b, r)"
| "redact_json_inner E K (JNumber n) r = (JNumber n, r)"
| "redact_items E K [] r = ([], r)"
| "redact_items E K (j # js) r = (let (j', r1) = redact_json_inner E K j r; (js', r2) = redact_items E K js r1 in (j' # js', r2))"
| "redact_fields E K [] r = ([], r)"
| "redact_fields E K ((k, j) # fs) r =
     (let (j', r1) = (if is_JString j \<and> sensitive_key k then (JString ''<redacted>'', report_add ''sensitive_field'' 1 r)
                      else redact_json_inner E K j r);
          (fs', r2) = redact_fields E K fs r1 in ((k, j') # fs', r2))"

definition redact_json :: "redact_engine \<Rightarrow> known_values \<Rightarrow> json \<Rightarrow> json \<times> redaction_report" where
  "redact_json E K j = redact_json_inner E K j []"

section \<open>Streams\<close>

definition MAX_HOLD :: nat where "MAX_HOLD = 64 * 1024"

definition TAIL_HOLD :: nat where "TAIL_HOLD = 512"

definition find_at :: "string \<Rightarrow> string \<Rightarrow> nat option" where
  "find_at hay needle = map_option (\<lambda>p. length (fst p)) (find_sub needle hay)"

definition last_newline :: "string \<Rightarrow> nat option" where
  "last_newline buf = (case rsplit_once buf (\<lambda>c. c = LF) of None \<Rightarrow> None | Some (a, _) \<Rightarrow> Some (length a))"

fun utf8_floor :: "string \<Rightarrow> nat \<Rightarrow> nat" where
  "utf8_floor buf 0 = 0"
| "utf8_floor buf (Suc i) = (if Suc i < length buf \<and> is_continuation (buf ! Suc i) then utf8_floor buf i else Suc i)"

definition line_start :: "string \<Rightarrow> nat" where
  "line_start buf = (case last_newline buf of None \<Rightarrow> 0 | Some i \<Rightarrow> i + 1)"

definition safe_cut :: "string \<Rightarrow> nat" where
  "safe_cut buf =
     (case find_at buf ''-----BEGIN '' of
        Some begin \<Rightarrow>
          if find_at (drop begin buf) ''-----END '' = None \<and> length buf < MAX_HOLD
          then utf8_floor buf (min begin (line_start (take begin buf)))
          else (case last_newline buf of
              Some i \<Rightarrow> utf8_floor buf (i + 1)
            | None \<Rightarrow> if length buf > MAX_HOLD then utf8_floor buf (length buf - TAIL_HOLD) else 0)
      | None \<Rightarrow>
          (case last_newline buf of
             Some i \<Rightarrow> utf8_floor buf (i + 1)
           | None \<Rightarrow> if length buf > MAX_HOLD then utf8_floor buf (length buf - TAIL_HOLD) else 0))"

record stream_redactor =
  sd_pending :: string
  sd_report :: redaction_report

definition stream_new :: stream_redactor where
  "stream_new = \<lparr>sd_pending = [], sd_report = []\<rparr>"

definition redact_bytes :: "redact_engine \<Rightarrow> known_values \<Rightarrow> string \<Rightarrow> stream_redactor \<Rightarrow> string \<times> stream_redactor" where
  "redact_bytes E K bytes st =
     (let (out, rep) = redact E K (rg_lossy E bytes) in (out, st\<lparr>sd_report := report_merge (sd_report st) rep\<rparr>))"

definition stream_push :: "redact_engine \<Rightarrow> known_values \<Rightarrow> string \<Rightarrow> stream_redactor \<Rightarrow> string \<times> stream_redactor" where
  "stream_push E K chunk st =
     (let buf = sd_pending st @ chunk; cut = safe_cut buf in
      if cut = 0 then ([], st\<lparr>sd_pending := buf\<rparr>) else redact_bytes E K (take cut buf) (st\<lparr>sd_pending := drop cut buf\<rparr>))"

definition stream_finish :: "redact_engine \<Rightarrow> known_values \<Rightarrow> stream_redactor \<Rightarrow> string \<times> stream_redactor" where
  "stream_finish E K st =
     (if sd_pending st = [] then ([], st) else redact_bytes E K (sd_pending st) (st\<lparr>sd_pending := []\<rparr>))"

fun stream_all :: "redact_engine \<Rightarrow> known_values \<Rightarrow> string list \<Rightarrow> stream_redactor \<Rightarrow> string \<times> stream_redactor" where
  "stream_all E K [] st = stream_finish E K st"
| "stream_all E K (c # cs) st = (let (out, st1) = stream_push E K c st; (rest, st2) = stream_all E K cs st1 in (out @ rest, st2))"

end
