(* ===== verification/Tools.thy ===== *)
theory Tools
  imports Core Auth Audit_Log Redaction
begin

text \<open>
  The tool registry and the pipeline every tool call goes through, \<^verbatim>\<open>workstation-server/src/tools/mod.rs\<close>. A tool's handler is a field of its
  definition, as in the source: a function from the call's context and arguments to a result, the call's notes and a new state; \<open>None\<close>
  is a handler that panicked. The state is the service's core with the audit store; the operations of the core that only record an
  audit event keep doing so in its log of calls.
\<close>

section \<open>Errors as JSON\<close>

definition error_code_str :: "error_code \<Rightarrow> string" where
  "error_code_str c =
     (case c of
        McpServerNotFound \<Rightarrow> ''MCP_SERVER_NOT_FOUND'' | McpServerDisabled \<Rightarrow> ''MCP_SERVER_DISABLED''
      | McpConnectionFailed \<Rightarrow> ''MCP_CONNECTION_FAILED'' | McpProcessExited \<Rightarrow> ''MCP_PROCESS_EXITED''
      | McpToolNotFound \<Rightarrow> ''MCP_TOOL_NOT_FOUND'' | McpToolTimeout \<Rightarrow> ''MCP_TOOL_TIMEOUT''
      | McpPermissionDenied \<Rightarrow> ''MCP_PERMISSION_DENIED'' | McpProtocolError \<Rightarrow> ''MCP_PROTOCOL_ERROR''
      | McpInvalidResponse \<Rightarrow> ''MCP_INVALID_RESPONSE'' | AuthenticationFailed \<Rightarrow> ''AUTHENTICATION_FAILED''
      | InsufficientScope \<Rightarrow> ''INSUFFICIENT_SCOPE'' | PermissionDenied \<Rightarrow> ''PERMISSION_DENIED''
      | ProtectedResource \<Rightarrow> ''PROTECTED_RESOURCE'' | ApprovalRequired \<Rightarrow> ''APPROVAL_REQUIRED''
      | ApprovalDenied \<Rightarrow> ''APPROVAL_DENIED'' | ApprovalExpired \<Rightarrow> ''APPROVAL_EXPIRED''
      | ApprovalInvalidated \<Rightarrow> ''APPROVAL_INVALIDATED'' | ApprovalPending \<Rightarrow> ''APPROVAL_PENDING''
      | SessionExpired \<Rightarrow> ''SESSION_EXPIRED'' | IdempotencyConflict \<Rightarrow> ''IDEMPOTENCY_CONFLICT''
      | OutcomeUnknown \<Rightarrow> ''OUTCOME_UNKNOWN'' | PathOutsidePolicy \<Rightarrow> ''PATH_OUTSIDE_POLICY''
      | PathNotFound \<Rightarrow> ''PATH_NOT_FOUND'' | AlreadyExists \<Rightarrow> ''ALREADY_EXISTS'' | ProjectNotFound \<Rightarrow> ''PROJECT_NOT_FOUND''
      | TaskNotFound \<Rightarrow> ''TASK_NOT_FOUND'' | NotFound \<Rightarrow> ''NOT_FOUND'' | CommandFailed \<Rightarrow> ''COMMAND_FAILED'' | Timeout \<Rightarrow> ''TIMEOUT''
      | OutputLimitReached \<Rightarrow> ''OUTPUT_LIMIT_REACHED'' | EmergencyStopActive \<Rightarrow> ''EMERGENCY_STOP_ACTIVE''
      | ServiceUnavailable \<Rightarrow> ''SERVICE_UNAVAILABLE'' | ClientDisabled \<Rightarrow> ''CLIENT_DISABLED''
      | ClientLimitReached \<Rightarrow> ''CLIENT_LIMIT_REACHED'' | RateLimited \<Rightarrow> ''RATE_LIMITED'' | ProjectLocked \<Rightarrow> ''PROJECT_LOCKED''
      | AuditUnavailable \<Rightarrow> ''AUDIT_UNAVAILABLE'' | CacheQuotaExceeded \<Rightarrow> ''CACHE_QUOTA_EXCEEDED''
      | InvalidArguments \<Rightarrow> ''INVALID_ARGUMENTS'' | TooLarge \<Rightarrow> ''TOO_LARGE'' | AttributionBlocked \<Rightarrow> ''ATTRIBUTION_BLOCKED''
      | ConfigFault \<Rightarrow> ''CONFIG_FAULT'' | Unsupported \<Rightarrow> ''UNSUPPORTED'' | Internal \<Rightarrow> ''INTERNAL'')"

text \<open>An error with its details. JSON objects have their keys in the order of \<^verbatim>\<open>serde_json::Map\<close>, which is alphabetical.\<close>

type_synonym tool_error = "lp_error \<times> json option"

definition plain_error :: "lp_error \<Rightarrow> tool_error" where
  "plain_error e = (e, None)"

definition error_value :: "tool_error \<Rightarrow> json" where
  "error_value e =
     JObject [(''error'', JObject ([(''code'', JString (error_code_str (code (fst e))))]
       @ (case snd e of None \<Rightarrow> [] | Some d \<Rightarrow> [(''details'', d)]) @ [(''message'', JString (message (fst e)))]))]"

text \<open>\<^verbatim>\<open>usize\<close> in decimal.\<close>

fun show_nat :: "nat \<Rightarrow> string" where
  "show_nat n = (if n < 10 then [char_of (48 + n)] else show_nat (n div 10) @ [char_of (48 + n mod 10)])"

text \<open>The longest prefix of at most \<open>n\<close> bytes that ends between two characters.\<close>

fun take_chars :: "nat \<Rightarrow> string list \<Rightarrow> string" where
  "take_chars n [] = []"
| "take_chars n (c # cs) = (if length c \<le> n then c @ take_chars (n - length c) cs else [])"

fun truncate_args :: "json \<Rightarrow> json" where
  "truncate_args (JString s) =
     (if length s > 2000
      then JString (take_chars 2000 (utf8_chars s) @ [CHR 0xE2, CHR 0x80, CHR 0xA6] @ ''('' @ show_nat (length s) @ '' bytes)'')
      else JString s)"
| "truncate_args (JArray js) = JArray (take 100 (map truncate_args js))"
| "truncate_args (JObject fs) = JObject (map (\<lambda>(k, j). (k, truncate_args j)) fs)"
| "truncate_args JNull = JNull"
| "truncate_args (JBool b) = JBool b"
| "truncate_args (JNumber n) = JNumber n"

section \<open>Definitions and contexts\<close>

record call_notes =
  cn_paths :: "string list"
  cn_cwd :: "string option"
  cn_command :: "string option"
  cn_project_id :: "string option"
  cn_task_id :: "string option"
  cn_pid :: "u32 option"
  cn_exit_code :: "int option"
  cn_decision :: "string option"
  cn_decision_detail :: "string option"
  cn_approval_id :: "string option"
  cn_approval_result :: "string option"
  cn_entry_point :: "entry_point option"
  cn_category :: "string option"
  cn_warnings :: "string list"
  cn_source_path :: "string option"

definition CallNotes_default :: call_notes where
  "CallNotes_default =
     \<lparr>cn_paths = [], cn_cwd = None, cn_command = None, cn_project_id = None, cn_task_id = None, cn_pid = None, cn_exit_code = None,
      cn_decision = None, cn_decision_detail = None, cn_approval_id = None, cn_approval_result = None, cn_entry_point = None,
      cn_category = None, cn_warnings = [], cn_source_path = None\<rparr>"

record resume_grant =
  rg_approval_id :: string
  rg_execution_id :: string
  rg_descriptor_digest :: string

record tool_ctx =
  tc_principal :: principal
  tc_session :: session
  tc_tool :: string
  tc_request_id :: string
  tc_raw_args :: json
  tc_resume :: "resume_grant option"
  tc_audit_event_id :: "string option"

text \<open>\<open>sy_share_ids\<close> are the Data Shared records of the HTTP response that carries the call.\<close>

record tool_state =
  sy_core :: core
  sy_audit :: audit_store
  sy_share_ids :: "string list"

type_synonym tool_result = "tool_error + json"

type_synonym handler = "tool_ctx \<Rightarrow> json \<Rightarrow> tool_state \<Rightarrow> tool_result option \<times> call_notes \<times> tool_state"

datatype kind = K_Read | K_Poll | K_Write | K_Destructive | K_Execute | K_Control

record tool_def =
  td_name :: string
  td_title :: string
  td_description :: string
  td_read_only :: bool
  td_destructive :: bool
  td_idempotent :: bool
  td_open_world :: bool
  td_scopes :: "string list"
  td_mutating :: bool
  td_poll :: bool
  td_handler :: handler

text \<open>\<^verbatim>\<open>ToolRegistry::add\<close>. The schema is generated and not part of the model; \<open>decode\<close> is what \<^verbatim>\<open>serde_json::from_value\<close> makes of the
  arguments, an error text or the typed value.\<close>

definition kind_flags :: "kind \<Rightarrow> bool \<times> bool \<times> string list \<times> bool \<times> bool" where
  "kind_flags k =
     (case k of
        K_Read \<Rightarrow> (True, False, [SCOPE_READ], False, False)
      | K_Poll \<Rightarrow> (True, False, [SCOPE_READ], False, True)
      | K_Write \<Rightarrow> (False, False, [SCOPE_WRITE], True, False)
      | K_Destructive \<Rightarrow> (False, True, [SCOPE_WRITE], True, False)
      | K_Execute \<Rightarrow> (False, True, [SCOPE_EXECUTE], True, False)
      | K_Control \<Rightarrow> (False, False, [SCOPE_READ], False, False))"

definition typed_handler ::
    "(json \<Rightarrow> string + 'a) \<Rightarrow> (tool_ctx \<Rightarrow> 'a \<Rightarrow> tool_state \<Rightarrow> tool_result option \<times> call_notes \<times> tool_state) \<Rightarrow> handler" where
  "typed_handler decode f ctx args S =
     (case decode args of
        Inl e \<Rightarrow> (Some (Inl (plain_error (LpError_invalid (''invalid arguments: '' @ e)))), CallNotes_default, S)
      | Inr a \<Rightarrow> f ctx a S)"

definition make_tool ::
    "string \<Rightarrow> string \<Rightarrow> string \<Rightarrow> kind \<Rightarrow> (json \<Rightarrow> string + 'a)
     \<Rightarrow> (tool_ctx \<Rightarrow> 'a \<Rightarrow> tool_state \<Rightarrow> tool_result option \<times> call_notes \<times> tool_state) \<Rightarrow> tool_def" where
  "make_tool nm title description k decode f =
     (case kind_flags k of (read_only, destructive, sc, mutating, poll) \<Rightarrow>
        \<lparr>td_name = nm, td_title = title, td_description = description, td_read_only = read_only, td_destructive = destructive,
         td_idempotent = read_only, td_open_world = False, td_scopes = sc, td_mutating = mutating, td_poll = poll,
         td_handler = typed_handler decode f\<rparr>)"

text \<open>The registry, in the order of registration. Names are looked up in a map into which later definitions are inserted over earlier ones.\<close>

type_synonym tool_registry = "tool_def list"

definition add_tool :: "tool_def \<Rightarrow> tool_registry \<Rightarrow> tool_registry" where
  "add_tool d R = R @ [d]"

definition get_tool :: "tool_registry \<Rightarrow> string \<Rightarrow> tool_def option" where
  "get_tool R n = find (\<lambda>d. td_name d = n) (List.rev R)"

definition security_schemes :: "tool_def \<Rightarrow> json" where
  "security_schemes d = JArray [JObject [(''scopes'', JArray (map JString (td_scopes d))), (''type'', JString ''oauth2'')]]"

text \<open>What is fixed for the process, and what one call meets outside.\<close>

datatype call_result = Structured_Result json | Structured_Error json "json option"

record tool_env =
  tv_core :: core_env
  tv_audit :: audit_env
  tv_engine :: redact_engine
  tv_known :: known_values
  tv_encode :: "call_result \<Rightarrow> string"
  tv_parse_url :: "string \<Rightarrow> parsed_origin option"
  tv_show_port :: "u16 \<Rightarrow> string"

record tool_world =
  tw_session :: core_world
  tw_touch :: io_env
  tw_intent :: io_env
  tw_idem :: io_env
  tw_idem_later :: int
  tw_share :: io_env
  tw_complete :: io_env
  tw_idem_finish :: io_env

section \<open>Authorization of a handler\<close>

definition with_policy :: "(string \<Rightarrow> bool) \<Rightarrow> entry_point \<Rightarrow> tool_ctx \<Rightarrow> tool_state \<Rightarrow> policy_context" where
  "with_policy owns entry ctx S =
     \<lparr>px_principal_id = pr_client_id (tc_principal ctx), px_entry = entry,
      px_session_grants = (case get_session (co_sessions (sy_core S)) (ses_id (tc_session ctx)) of None \<Rightarrow> [] | Some s \<Rightarrow> scopes s),
      px_owns_task = owns\<rparr>"

text \<open>The loop over the decisions: the requirements so far, or the denial that ends it.\<close>

definition decision_step ::
    "approval_requirement list \<times> call_notes \<Rightarrow> decision \<Rightarrow> (tool_error \<times> call_notes) + (approval_requirement list \<times> call_notes)" where
  "decision_step s d =
     (case s of (reqs, n) \<Rightarrow>
        (let n1 = n\<lparr>cn_decision := Some (decision_label d)\<rparr> in
         case d of
           Allow ws \<Rightarrow> Inr (reqs, n1\<lparr>cn_warnings := cn_warnings n1 @ ws\<rparr>)
         | Deny c reason \<Rightarrow>
             Inl (plain_error (LpError_new c reason), n1\<lparr>cn_decision := Some ''deny'', cn_decision_detail := Some reason\<rparr>)
         | RequireApproval r \<Rightarrow> Inr (reqs @ [r], n1)))"

definition call_digest :: "tool_env \<Rightarrow> tool_ctx \<Rightarrow> json \<Rightarrow> string" where
  "call_digest V ctx descriptor =
     cv_json_digest (tv_core V)
       (JObject [(''arguments'', tc_raw_args ctx), (''descriptor'', descriptor), (''tool'', JString (tc_tool ctx))])"

definition combined_requirement :: "tool_ctx \<Rightarrow> string \<Rightarrow> approval_requirement list \<Rightarrow> approval_requirement" where
  "combined_requirement ctx digest reqs =
     (let req = hd reqs in
      if length reqs > 1
      then req\<lparr>ar_reason := join_with [SP] (map ar_reason reqs), ar_paths := concat (map ar_paths reqs),
        ar_requires_admin := list_ex ar_requires_admin reqs, ar_risk := Max (set (map ar_risk reqs)),
        ar_session_scope := Exact digest (''repeat this exact '' @ tc_tool ctx @ '' call'')\<rparr>
      else req)"

definition risk_str :: "risk \<Rightarrow> string" where
  "risk_str r = (case r of Low \<Rightarrow> ''low'' | Medium \<Rightarrow> ''medium'' | High \<Rightarrow> ''high'' | Critical \<Rightarrow> ''critical'')"

definition approval_details :: "tool_env \<Rightarrow> approval_requirement \<Rightarrow> approval_view \<Rightarrow> json" where
  "approval_details V req view =
     JObject [(''approval_id'', JString (av_id view)), (''category'', JString (ar_category req)),
       (''expires_at'', JString (cv_show_ms (tv_core V) (av_expires_at view))),
       (''message'', JString (''Local user approval is required before this operation can run. Approval does not run it: after the user '' @
          ''approves, call approval_resume with this approval_id (poll approval_status meanwhile).'')),
       (''paths'', JArray (map JString (ar_paths req))), (''reason'', JString (ar_reason req)),
       (''requires_admin'', JBool (ar_requires_admin req)), (''risk'', JString (risk_str (ar_risk req))),
       (''session_scope'', JString (scope_describe (ar_session_scope req))), (''status'', JString ''approval_required'')]"

definition changed_since_approval :: tool_error where
  "changed_since_approval = plain_error (LpError_new ApprovalInvalidated
     (''The target, command or policy inputs changed since approval (for example a path now resolves elsewhere). '' @
      ''Nothing was executed; request the operation again.''))"

definition authorize ::
    "tool_env \<Rightarrow> core_world \<Rightarrow> tool_registry \<Rightarrow> tool_ctx \<Rightarrow> decision list \<Rightarrow> json \<Rightarrow> approval_summary \<Rightarrow> call_notes \<Rightarrow> tool_state
     \<Rightarrow> (tool_error + unit) \<times> call_notes \<times> tool_state" where
  "authorize V w R ctx decisions descriptor smry n S =
     (case fold_until decision_step ([], n) decisions of
        Inl (e, n1) \<Rightarrow> (Inl e, n1, S)
      | Inr ([], n1) \<Rightarrow>
          (Inr (), if cn_decision n1 = None \<or> cn_decision n1 = Some ''allow'' then n1\<lparr>cn_decision := Some ''allow''\<rparr> else n1, S)
      | Inr (reqs, n1) \<Rightarrow>
          (let digest = call_digest V ctx descriptor in
           case tc_resume ctx of
             Some g \<Rightarrow>
               if rg_descriptor_digest g = digest
               then (Inr (), n1\<lparr>cn_decision := Some ''allow_by_approval'', cn_approval_id := Some (rg_approval_id g),
                 cn_approval_result := Some ''resumed''\<rparr>, S)
               else (Inl changed_since_approval, n1, S)
           | None \<Rightarrow>
               (let req = combined_requirement ctx digest reqs in
                case request_approval (tv_core V) w (tc_principal ctx) (tc_session ctx) (tc_tool ctx) (tc_raw_args ctx)
                    (map_option td_scopes (get_tool R (tc_tool ctx))) req digest smry (sy_core S) of
                  (Inl e, C) \<Rightarrow> (Inl (plain_error e), n1, S\<lparr>sy_core := C\<rparr>)
                | (Inr view, C) \<Rightarrow>
                    (Inl (LpError_new ApprovalRequired ''Local user approval is required before this operation can run.'',
                       Some (approval_details V req view)),
                     n1\<lparr>cn_decision := Some ''require_approval'', cn_approval_id := Some (av_id view), cn_category := Some (ar_category req)\<rparr>,
                     S\<lparr>sy_core := C\<rparr>))))"

section \<open>The pipeline\<close>

record call_input =
  ci_name :: string
  ci_arguments :: json
  ci_principal :: principal
  ci_protocol_version :: "string option"
  ci_client_info :: "string option"
  ci_remote_addr :: "string option"
  ci_request_id :: string

definition run_handler :: "tool_def \<Rightarrow> tool_ctx \<Rightarrow> json \<Rightarrow> tool_state \<Rightarrow> tool_result \<times> call_notes \<times> tool_state" where
  "run_handler d ctx args S =
     (case td_handler d ctx args S of
        (Some r, n, S') \<Rightarrow> (r, n, S')
      | (None, n, S') \<Rightarrow> (Inl (plain_error LpError_internal), n, S'))"

definition json_field :: "string \<Rightarrow> json \<Rightarrow> json option" where
  "json_field k j = (case j of JObject fs \<Rightarrow> map_of fs k | _ \<Rightarrow> None)"

definition json_str :: "json option \<Rightarrow> string option" where
  "json_str j = (case j of Some (JString s) \<Rightarrow> Some s | _ \<Rightarrow> None)"

definition report_json :: "redaction_report \<Rightarrow> json option" where
  "report_json r =
     (if r = [] then None else Some (JObject [(''counts'', JObject (map (\<lambda>(k, n). (k, JNumber (show_nat n))) r))]))"

text \<open>The value, whether it is an error, its status and the error code.\<close>

definition outcome_of :: "tool_result \<Rightarrow> json \<times> bool \<times> string \<times> error_code option" where
  "outcome_of result =
     (case result of
        Inr v \<Rightarrow> (v, False, ''ok'', None)
      | Inl e \<Rightarrow>
          if code (fst e) = ApprovalRequired
          then (unwrap_or (JObject [(''status'', JString ''approval_required'')]) (snd e), False, ''approval_required'', None)
          else (error_value e, True,
            (if List.member [PermissionDenied, ProtectedResource, AttributionBlocked, PathOutsidePolicy] (code (fst e)) then ''denied''
             else ''error''), Some (code (fst e))))"

definition too_large :: "nat \<Rightarrow> u64 \<Rightarrow> call_result" where
  "too_large n limit =
     Structured_Error (error_value (plain_error (LpError_new OutputLimitReached
       (''The result ('' @ show_nat n @ '' bytes) exceeds the '' @ show_nat (unat limit) @
        '' byte limit. Request a smaller range (offset/length, line ranges, max_results).'')))) None"

definition unavailable_result :: call_result where
  "unavailable_result = Structured_Error (error_value (plain_error audit_unavailable)) None"

definition entry_str :: "entry_point \<Rightarrow> string" where
  "entry_str e = (case e of Structured \<Rightarrow> ''structured'' | RawShell \<Rightarrow> ''rawshell'')"

definition share_record_of :: "tool_ctx \<Rightarrow> tool_def \<Rightarrow> call_notes \<Rightarrow> string \<Rightarrow> redaction_report \<Rightarrow> share_record" where
  "share_record_of ctx d n bytes report =
     \<lparr>shr_client_id = Some (pr_client_id (tc_principal ctx)), shr_session_id = Some (ses_id (tc_session ctx)),
      shr_tool_name = Some (td_name d), shr_request_id = Some (tc_request_id ctx), shr_audit_event_id = tc_audit_event_id ctx,
      shr_source_path = cn_source_path n, shr_mime_type = ''application/json'', shr_payload = bytes, shr_redaction = report_json report\<rparr>"

definition completion_of :: "call_notes \<Rightarrow> string \<Rightarrow> error_code option \<Rightarrow> audit_completion" where
  "completion_of n status err =
     \<lparr>cm_result_status = status, cm_policy_decision = cn_decision n,
      cm_policy_detail = or_else (cn_decision_detail n) (if cn_warnings n = [] then None else Some (join_with ''; '' (cn_warnings n))),
      cm_approval_id = cn_approval_id n, cm_approval_result = cn_approval_result n, cm_task_id = cn_task_id n, cm_pid = cn_pid n,
      cm_exit_code = cn_exit_code n, cm_stdout_bytes = None, cm_stderr_bytes = None, cm_error = map_option error_code_str err,
      cm_paths = (if cn_paths n = [] then None else Some (cn_paths n))\<rparr>"

definition finished_event :: "audit_event \<Rightarrow> call_notes \<Rightarrow> string \<Rightarrow> audit_completion \<Rightarrow> audit_event" where
  "finished_event base n status c =
     base\<lparr>ae_result_status := status, ae_paths := cn_paths n, ae_cwd := cn_cwd n, ae_command := cn_command n,
       ae_project_id := cn_project_id n, ae_task_id := cn_task_id n, ae_policy_decision := cn_decision n,
       ae_policy_detail := cm_policy_detail c, ae_approval_id := cn_approval_id n, ae_error := cm_error c,
       ae_entry_point := map_option entry_str (cn_entry_point n), ae_operation_category := cn_category n\<rparr>"

text \<open>The result as it would be sent: redacted, and replaced by an error when it is too large.\<close>

definition outgoing :: "tool_env \<Rightarrow> u64 \<Rightarrow> json \<Rightarrow> bool \<Rightarrow> call_result" where
  "outgoing V limit v is_error =
     (let red = fst (redact_json (tv_engine V) (tv_known V) v);
          r = (if is_error then Structured_Error red None else Structured_Result red) in
      if length (tv_encode V r) > unat limit then too_large (length (tv_encode V r)) limit else r)"

definition finish_call ::
    "tool_env \<Rightarrow> tool_world \<Rightarrow> tool_ctx \<Rightarrow> tool_def \<Rightarrow> audit_event \<Rightarrow> tool_result \<Rightarrow> call_notes \<Rightarrow> string option \<Rightarrow> tool_state
     \<Rightarrow> call_result \<times> tool_state" where
  "finish_call V w ctx d base result n idem S =
     (let (v, is_error, status, err) = outcome_of result;
          r = outgoing V (lm_max_result_bytes (st_limits (settings_of (sy_core S)))) v is_error;
          report = snd (redact_json (tv_engine V) (tv_known V) v);
          (share, A1) = record_share (tv_audit V) (tw_share w) (share_record_of ctx d n (tv_encode V r) report) (sy_audit S);
          (final, S1) = (case share of
              Inr (i, _) \<Rightarrow> (r, S\<lparr>sy_audit := A1, sy_share_ids := sy_share_ids S @ [i]\<rparr>)
            | Inl _ \<Rightarrow> (unavailable_result, S\<lparr>sy_audit := A1,
                sy_core := call (Emit (AuditFault ''Data Shared storage failed; data delivery is paused.'')) (sy_core S)\<rparr>));
          c = completion_of n status err;
          A2 = (case tc_audit_event_id ctx of
              Some i \<Rightarrow> complete_audit (tw_complete w) i c (sy_audit S1)
            | None \<Rightarrow> snd (record_event (tw_complete w) (finished_event base n status c) (sy_audit S1)));
          C2 = (case idem of
              Some k \<Rightarrow> if is_error then sy_core S1
                else (sy_core S1)\<lparr>co_approvals := idem_finish (tw_idem_finish w) (pr_client_id (tc_principal ctx)) k v (co_approvals (sy_core S1))\<rparr>
            | None \<Rightarrow> sy_core S1) in
      (final, S1\<lparr>sy_audit := A2, sy_core := C2\<rparr>))"

definition www_authenticate_meta :: "tool_env \<Rightarrow> core \<Rightarrow> string list \<Rightarrow> json" where
  "www_authenticate_meta V C sc =
     (let names = join_with [SP] sc in
      JObject [(''mcp/www_authenticate'', JArray [JString (''Bearer resource_metadata='' @ [DQ]
        @ pu_resource_metadata (public_urls (tv_parse_url V) (tv_show_port V) C) @ [DQ] @ '', error='' @ [DQ] @ ''insufficient_scope'' @ [DQ]
        @ '', error_description='' @ [DQ] @ ''This tool needs the '' @ names @ '' scope; reconnect to grant it'' @ [DQ]
        @ '', scope='' @ [DQ] @ names @ [DQ])])])"

definition base_event :: "tool_env \<Rightarrow> call_input \<Rightarrow> tool_def \<Rightarrow> session \<Rightarrow> core \<Rightarrow> audit_event" where
  "base_event V inp d s C =
     AuditEvent_default\<lparr>ae_kind := ''tool_call'', ae_client_id := Some (pr_client_id (ci_principal inp)),
       ae_client_display_name := Some (pr_display_name (ci_principal inp)), ae_session_id := Some (ses_id s),
       ae_mcp_protocol_version := ci_protocol_version inp, ae_tool_name := Some (td_name d),
       ae_arguments := Some (truncate_args (fst (redact_json (tv_engine V) (tv_known V) (ci_arguments inp)))),
       ae_shell_checks := Some (se_shell_protection_enabled (policy_settings (settings_of C))), ae_result_status := ''ok''\<rparr>"

text \<open>What becomes of a call before a handler may run: an answer without a session, an answer that goes through \<open>finish_call\<close>, a stored
  result to replay, or the handler's turn.\<close>

datatype admission =
    Refused call_result
  | Answered tool_ctx tool_def audit_event tool_error
  | Replayed tool_ctx tool_def audit_event json string
  | Admitted tool_ctx tool_def audit_event "string option"

definition disabled_error :: "core \<Rightarrow> lp_error" where
  "disabled_error C =
     LpError_new (if co_state C = EmergencyStopped then EmergencyStopActive else ServiceUnavailable)
       ''Remote access is currently disabled on this workstation.''"

definition idempotency ::
    "tool_env \<Rightarrow> tool_world \<Rightarrow> call_input \<Rightarrow> tool_ctx \<Rightarrow> tool_def \<Rightarrow> audit_event \<Rightarrow> tool_state \<Rightarrow> admission \<times> tool_state" where
  "idempotency V w inp ctx d base S =
     (case (if td_mutating d then json_str (json_field ''idempotency_key'' (ci_arguments inp)) else None) of
        None \<Rightarrow> (Admitted ctx d base None, S)
      | Some k \<Rightarrow>
          (case idem_begin (tw_idem w) (tw_idem_later w) (pr_client_id (ci_principal inp)) k (td_name d)
               (cv_json_digest (tv_core V) (ci_arguments inp)) (co_approvals (sy_core S)) of
             (out, A) \<Rightarrow>
               (let S1 = S\<lparr>sy_core := (sy_core S)\<lparr>co_approvals := A\<rparr>\<rparr> in
                (case out of
                   Inr IO_Proceed \<Rightarrow> Admitted ctx d base (Some k)
                 | Inr (IO_Replay v) \<Rightarrow> Replayed ctx d base v k
                 | Inr IO_InProgress \<Rightarrow> Answered ctx d base (plain_error (LpError_new IdempotencyConflict
                     ''A call with this idempotency_key is still in progress or its outcome is unknown.''))
                 | Inr IO_Conflict \<Rightarrow> Answered ctx d base (plain_error (LpError_new IdempotencyConflict
                     ''This idempotency_key was already used with different arguments.''))
                 | Inl e \<Rightarrow> Answered ctx d base (plain_error e), S1))))"

definition admit :: "tool_env \<Rightarrow> tool_registry \<Rightarrow> tool_world \<Rightarrow> call_input \<Rightarrow> tool_state \<Rightarrow> admission \<times> tool_state" where
  "admit V R w inp S =
     (let C = sy_core S in
      if \<not> accepting C then (Refused (Structured_Error (error_value (plain_error (disabled_error C))) None), S)
      else (case get_tool R (ci_name inp) of
          None \<Rightarrow> (Refused (Structured_Error (error_value (plain_error (LpError_not_found
            (''unknown tool '' @ [CHR 0x27] @ ci_name inp @ [CHR 0x27])))) None), S)
        | Some d \<Rightarrow>
            if \<not> list_all (has_scope (ci_principal inp)) (td_scopes d)
            then (Refused (Structured_Error (error_value (plain_error (LpError_new InsufficientScope
              (''This tool requires the '' @ join_with [SP] (td_scopes d) @ '' scope.''))))
                (Some (www_authenticate_meta V C (td_scopes d)))), S)
            else (case session_for (tw_session w) (ci_principal inp) (ci_client_info inp) (ci_protocol_version inp) (ci_remote_addr inp) C of
                (Inl e, C1) \<Rightarrow> (Refused (Structured_Error (error_value (plain_error e)) None), S\<lparr>sy_core := C1\<rparr>)
              | (Inr s, C1) \<Rightarrow>
                  (let C2 = (if td_poll d then C1 else C1\<lparr>co_sessions := touch (tw_touch w) (ses_id s) (co_sessions C1)\<rparr>);
                       base = base_event V inp d s C;
                       ctx = \<lparr>tc_principal = ci_principal inp, tc_session = s, tc_tool = td_name d, tc_request_id = ci_request_id inp,
                         tc_raw_args = ci_arguments inp, tc_resume = None, tc_audit_event_id = None\<rparr>;
                       S1 = S\<lparr>sy_core := C2\<rparr> in
                   if td_mutating d
                   then (case intent (tv_audit V) (tw_intent w) base (sy_audit S1) of
                       (Inl e, A) \<Rightarrow> (Refused unavailable_result,
                         S1\<lparr>sy_audit := A, sy_core := call (Emit (AuditFault (message e))) C2\<rparr>)
                     | (Inr i, A) \<Rightarrow> idempotency V w inp (ctx\<lparr>tc_audit_event_id := Some i\<rparr>) d base (S1\<lparr>sy_audit := A\<rparr>))
                   else idempotency V w inp ctx d base S1))))"

definition dispatch :: "tool_env \<Rightarrow> tool_registry \<Rightarrow> tool_world \<Rightarrow> call_input \<Rightarrow> tool_state \<Rightarrow> call_result \<times> tool_state" where
  "dispatch V R w inp S =
     (case admit V R w inp S of
        (Refused r, S1) \<Rightarrow> (r, S1)
      | (Answered ctx d base e, S1) \<Rightarrow> finish_call V w ctx d base (Inl e) CallNotes_default None S1
      | (Replayed ctx d base v k, S1) \<Rightarrow> finish_call V w ctx d base (Inr v) CallNotes_default (Some k) S1
      | (Admitted ctx d base idem, S1) \<Rightarrow>
          (case run_handler d ctx (ci_arguments inp) S1 of
             (result, n, S2) \<Rightarrow> finish_call V w ctx d base result n idem S2))"

end
