(* ===== verification/Approval_Tools.thy ===== *)
theory Approval_Tools
  imports Tools
begin

text \<open>
  The approval and session tools, \<^verbatim>\<open>workstation-server/src/tools/approval.rs\<close>: the poll of an approval, the resumption that runs the stored
  operation through its own handler, and the caller's session. The registry is an argument, as the resumption looks the approved tool up in it.
\<close>

definition owned :: "tool_ctx \<Rightarrow> string \<Rightarrow> tool_state \<Rightarrow> tool_error + approval_view" where
  "owned ctx i S =
     (case get_approval (co_approvals (sy_core S)) i of
        Some a \<Rightarrow> if av_client_id a = pr_client_id (tc_principal ctx) then Inr a else Inl (plain_error (LpError_not_found ''unknown approval''))
      | None \<Rightarrow> Inl (plain_error (LpError_not_found ''unknown approval'')))"

definition next_step :: "string \<Rightarrow> bool \<Rightarrow> string" where
  "next_step status executed =
     (if status = ''pending'' then ''Wait for the user to decide in Local Pilot, then call approval_resume.''
      else if (status = ''allowed_once'' \<or> status = ''allowed_session'') \<and> \<not> executed
      then ''Approved: call approval_resume with this approval_id to run the operation.''
      else if status = ''consumed'' \<or> status = ''allowed_session'' then ''Already executed; approval_resume returns the recorded result.''
      else ''This approval cannot be used; request the operation again if still needed.'')"

definition execution_json :: "execution_view option \<Rightarrow> json" where
  "execution_json e =
     (case e of None \<Rightarrow> JNull
      | Some x \<Rightarrow> JObject [(''execution_id'', JString (ev_execution_id x)), (''status'', JString (ev_status x))])"

definition approval_status :: "tool_env \<Rightarrow> tool_ctx \<Rightarrow> string \<Rightarrow> tool_state \<Rightarrow> tool_result option \<times> call_notes \<times> tool_state" where
  "approval_status V ctx i S =
     (case owned ctx i S of
        Inl e \<Rightarrow> (Some (Inl e), CallNotes_default, S)
      | Inr v \<Rightarrow>
          (let exec = Option.bind (av_execution_id v) (execution (co_approvals (sy_core S))) in
           (Some (Inr (JObject [(''approval_id'', JString (av_id v)), (''execution'', execution_json exec),
              (''expires_at'', JString (cv_show_ms (tv_core V) (av_expires_at v))), (''next_step'', JString (next_step (av_status v) (exec \<noteq> None))),
              (''reason'', JString (av_reason v)), (''status'', JString (av_status v)), (''tool'', JString (av_tool_name v))])),
            CallNotes_default, S)))"

section \<open>Resumption\<close>

record resume_world =
  ru_begin :: io_env
  ru_intent :: io_env
  ru_execution :: io_env
  ru_audit :: io_env

definition existing_result :: "execution_view \<Rightarrow> tool_result" where
  "existing_result e =
     (if ev_status e = ''dispatched''
      then Inr (JObject [(''execution_id'', JString (ev_execution_id e)),
        (''message'', JString ''The approved operation is running; call approval_resume again later for its result.''),
        (''status'', JString ''executing'')])
      else if ev_status e = ''outcome_unknown''
      then Inl (plain_error (LpError_new OutcomeUnknown
        (''Local Pilot stopped after dispatching this operation; its outcome is unknown and it will not be replayed. '' @
         ''Check the target state before retrying.'')))
      else Inr (JObject [(''already_executed'', JBool True), (''execution_id'', JString (ev_execution_id e)),
        (''result'', unwrap_or JNull (ev_result e)), (''status'', JString (ev_status e))]))"

definition resume_event :: "tool_env \<Rightarrow> tool_ctx \<Rightarrow> tool_def \<Rightarrow> pending_operation \<Rightarrow> approval_view \<Rightarrow> core \<Rightarrow> audit_event" where
  "resume_event V ctx d op a C =
     AuditEvent_default\<lparr>ae_kind := ''approved_execution'', ae_client_id := Some (pr_client_id (tc_principal ctx)),
       ae_client_display_name := Some (pr_display_name (tc_principal ctx)), ae_session_id := Some (ses_id (tc_session ctx)),
       ae_tool_name := Some (td_name d),
       ae_arguments := Some (truncate_args (fst (redact_json (tv_engine V) (tv_known V) (po_arguments op)))),
       ae_approval_id := Some (av_id a), ae_approval_result := Some (av_status a),
       ae_shell_checks := Some (se_shell_protection_enabled (policy_settings (settings_of C))), ae_result_status := ''intent''\<rparr>"

text \<open>Before the approved handler runs: an answer, or the tool with the context and the stored operation it runs on.\<close>

datatype resumption =
    Settled tool_result
  | Running tool_def tool_ctx pending_operation approval_view string

definition set_approvals :: "approval_service \<Rightarrow> tool_state \<Rightarrow> tool_state" where
  "set_approvals A S = S\<lparr>sy_core := (sy_core S)\<lparr>co_approvals := A\<rparr>\<rparr>"

definition fail_execution :: "resume_world \<Rightarrow> string \<Rightarrow> tool_state \<Rightarrow> tool_state" where
  "fail_execution w x S = set_approvals (complete_execution (ru_execution w) x ''failed'' None None (co_approvals (sy_core S))) S"

definition inner_ctx :: "tool_ctx \<Rightarrow> tool_def \<Rightarrow> pending_operation \<Rightarrow> approval_view \<Rightarrow> string \<Rightarrow> string \<Rightarrow> tool_ctx" where
  "inner_ctx ctx d op a x event =
     \<lparr>tc_principal = tc_principal ctx, tc_session = tc_session ctx, tc_tool = td_name d, tc_request_id = tc_request_id ctx,
      tc_raw_args = po_arguments op,
      tc_resume = Some \<lparr>rg_approval_id = av_id a, rg_execution_id = x, rg_descriptor_digest = po_descriptor_digest op\<rparr>,
      tc_audit_event_id = Some event\<rparr>"

definition resume_admit :: "tool_env \<Rightarrow> tool_registry \<Rightarrow> resume_world \<Rightarrow> tool_ctx \<Rightarrow> string \<Rightarrow> tool_state \<Rightarrow> resumption \<times> tool_state" where
  "resume_admit V R w ctx i S =
     (case begin_resume (ru_begin w) i (tc_principal ctx) (tc_session ctx) (st_policy_revision (settings_of (sy_core S)))
          (co_approvals (sy_core S)) of
        (Inl e, A) \<Rightarrow> (Settled (Inl (plain_error e)), set_approvals A S)
      | (Inr (RS_Existing e), A) \<Rightarrow> (Settled (existing_result e), set_approvals A S)
      | (Inr (RS_Dispatch op x a), A) \<Rightarrow>
          (let S1 = set_approvals A S in
           case get_tool R (po_tool_name op) of
             None \<Rightarrow> (Settled (Inl (plain_error LpError_internal)), fail_execution w x S1)
           | Some d \<Rightarrow>
               (case intent (tv_audit V) (ru_intent w) (resume_event V ctx d op a (sy_core S1)) (sy_audit S1) of
                  (Inl e, U) \<Rightarrow> (Settled (Inl (plain_error e)), fail_execution w x (S1\<lparr>sy_audit := U\<rparr>))
                | (Inr event, U) \<Rightarrow> (Running d (inner_ctx ctx d op a x event) op a x, S1\<lparr>sy_audit := U\<rparr>))))"

definition resume_value :: "tool_env \<Rightarrow> tool_result \<Rightarrow> string \<times> json" where
  "resume_value V r =
     (case r of
        Inr v \<Rightarrow> (''completed'', fst (redact_json (tv_engine V) (tv_known V) v))
      | Inl e \<Rightarrow> (''failed'', JObject [(''error'', JObject [(''code'', JString (error_code_str (code (fst e)))),
          (''message'', JString (message (fst e)))])]))"

definition resume_completion :: "call_notes \<Rightarrow> tool_result \<Rightarrow> string \<Rightarrow> approval_view \<Rightarrow> audit_completion" where
  "resume_completion n r status a =
     AuditCompletion_default\<lparr>cm_result_status := (if status = ''completed'' then ''ok'' else ''error''), cm_policy_decision := cn_decision n,
       cm_task_id := cn_task_id n, cm_pid := cn_pid n, cm_exit_code := cn_exit_code n,
       cm_paths := (if cn_paths n = [] then None else Some (cn_paths n)),
       cm_error := (case r of Inl e \<Rightarrow> Some (error_code_str (code (fst e))) | Inr _ \<Rightarrow> None), cm_approval_id := Some (av_id a)\<rparr>"

definition approval_resume ::
    "tool_env \<Rightarrow> tool_registry \<Rightarrow> resume_world \<Rightarrow> tool_ctx \<Rightarrow> string \<Rightarrow> tool_state \<Rightarrow> tool_result option \<times> call_notes \<times> tool_state" where
  "approval_resume V R w ctx i S =
     (case resume_admit V R w ctx i S of
        (Settled r, S1) \<Rightarrow> (Some r, CallNotes_default, S1)
      | (Running d inner op a x, S1) \<Rightarrow>
          (case run_handler d inner (po_arguments op) S1 of
             (r, n, S2) \<Rightarrow>
               (let (status, v) = resume_value V r;
                    A3 = complete_execution (ru_execution w) x status (Some v) (cn_task_id n) (co_approvals (sy_core S2));
                    S3 = set_approvals A3 S2;
                    S4 = S3\<lparr>sy_audit := complete_audit (ru_audit w) (unwrap_or [] (tc_audit_event_id inner))
                      (resume_completion n r status a) (sy_audit S3),
                      sy_core := call (Emit (ApprovalChanged (av_id a) ''executed'')) (sy_core S3)\<rparr>;
                    notes = CallNotes_default\<lparr>cn_approval_id := Some (av_id a), cn_approval_result := Some ''resumed'', cn_paths := cn_paths n,
                      cn_task_id := cn_task_id n, cn_source_path := cn_source_path n\<rparr> in
                (Some (map_sum id (\<lambda>v. JObject [(''approval_id'', JString (av_id a)), (''execution_id'', JString x), (''result'', v),
                   (''status'', JString ''executed'')]) r), notes, S4))))"

section \<open>Sessions\<close>

definition auth_method_str :: "auth_method \<Rightarrow> string" where
  "auth_method_str m = (case m of OAuth \<Rightarrow> ''o_auth'' | ManualToken \<Rightarrow> ''manual_token'')"

definition session_current :: "tool_env \<Rightarrow> tool_ctx \<Rightarrow> unit \<Rightarrow> tool_state \<Rightarrow> tool_result option \<times> call_notes \<times> tool_state" where
  "session_current V ctx u S =
     (let C = sy_core S; p = tc_principal ctx; s = unwrap_or (tc_session ctx) (get_session (co_sessions C) (ses_id (tc_session ctx)));
          ms = (\<lambda>t. JString (cv_show_ms (tv_core V) t)) in
      (Some (Inr (JObject [(''absolute_expires_at'', ms (ses_absolute_expires_at s)), (''auth_method'', JString (auth_method_str (pr_auth_method p))),
         (''client_id'', JString (pr_client_id p)), (''client_name'', JString (pr_display_name p)), (''created_at'', ms (ses_created_at s)),
         (''idle_expires_at'', ms (idle_expires_at s)), (''scopes'', JArray (map JString (pr_scopes p))),
         (''session_approvals'', JArray (map (\<lambda>g. JString (sg_label g)) (ses_grants s))), (''session_id'', JString (ses_id s)),
         (''shell_protection_checks'', JBool (se_shell_protection_enabled (policy_settings (settings_of C)))),
         (''trusted_workspace'', JString (ro_trusted (co_roots C)))])), CallNotes_default, S))"

definition session_end :: "core_world \<Rightarrow> tool_ctx \<Rightarrow> unit \<Rightarrow> tool_state \<Rightarrow> tool_result option \<times> call_notes \<times> tool_state" where
  "session_end w ctx u S =
     (Some (Inr (JObject [(''ended'', JBool True), (''session_id'', JString (ses_id (tc_session ctx)))])), CallNotes_default,
      S\<lparr>sy_core := end_session w (ses_id (tc_session ctx)) ''ended by client'' (sy_core S)\<rparr>)"

text \<open>The registration. The two argument types refuse unknown fields; \<open>err\<close> is the deserializer's error text.\<close>

definition decode_approval :: "(json \<Rightarrow> string) \<Rightarrow> json \<Rightarrow> string + string" where
  "decode_approval err j =
     (case j of
        JObject [(k, JString i)] \<Rightarrow> if k = ''approval_id'' then Inr i else Inl (err j)
      | _ \<Rightarrow> Inl (err j))"

definition decode_empty :: "(json \<Rightarrow> string) \<Rightarrow> json \<Rightarrow> string + unit" where
  "decode_empty err j = (case j of JObject [] \<Rightarrow> Inr () | _ \<Rightarrow> Inl (err j))"

definition register_approval :: "(json \<Rightarrow> string) \<Rightarrow> tool_env \<Rightarrow> resume_world \<Rightarrow> core_world \<Rightarrow> tool_registry \<Rightarrow> tool_registry" where
  "register_approval err V rw cw R =
     R @ [make_tool ''approval_status'' ''Approval status''
         (''Check a pending approval (pending, allowed_once, allowed_session, denied, expired, cancelled, consumed, invalidated). '' @
          ''Never executes anything.'') K_Poll (decode_approval err) (approval_status V),
       make_tool ''approval_resume'' ''Resume approved operation''
         (''Run the exact operation stored with an approval after the user allowed it. Arguments cannot be changed; targets are '' @
          ''re-validated. Repeated or concurrent calls return the same execution instead of running it again.'')
         K_Control (decode_approval err) (approval_resume V R rw),
       make_tool ''session_current'' ''Current session''
         ''Your application session: expiry times and scoped session approvals.'' K_Poll (decode_empty err) (session_current V),
       make_tool ''session_end'' ''End session''
         ''End your application session; session approvals and pending requests are cancelled.'' K_Control (decode_empty err) (session_end cw)]"

end
