(* ===== verification/Tool_Props.thy ===== *)
theory Tool_Props
  imports Approval_Tools Approval_Props Redaction_Props
begin

text \<open>
  What the pipeline guarantees for every tool, whatever its handler does: a handler is only ever called for an admitted call, after the
  intent of a mutation is in the audit history; what is delivered is redacted, bounded and recorded byte for byte; a decision that needs
  an approval is not passed over; and a resumption runs the stored operation and nothing else.
\<close>

section \<open>Handlers are called for admitted calls only\<close>

text \<open>The registry with other handlers. A call whose outcome is the same for two handlers did not run them where they differ.\<close>

definition rehandled :: "(tool_def \<Rightarrow> handler) \<Rightarrow> tool_registry \<Rightarrow> tool_registry" where
  "rehandled h R = map (\<lambda>d. d\<lparr>td_handler := h d\<rparr>) R"

definition intent_stored :: "tool_ctx \<Rightarrow> tool_state \<Rightarrow> bool" where
  "intent_stored ctx T \<longleftrightarrow>
     (case tc_audit_event_id ctx of
        None \<Rightarrow> False
      | Some i \<Rightarrow> list_ex (\<lambda>r. aur_event_id r = i \<and> aur_result_status r = ''intent'' \<and> aur_tool_name r = Some (tc_tool ctx)
          \<and> aur_client_id r = Some (pr_client_id (tc_principal ctx)) \<and> aur_session_id r = Some (ses_id (tc_session ctx)))
          (ad_events (sy_audit T)))"

definition call_ok :: "tool_state \<Rightarrow> call_input \<Rightarrow> tool_def \<Rightarrow> tool_ctx \<Rightarrow> tool_state \<Rightarrow> bool" where
  "call_ok S inp d ctx T \<longleftrightarrow> accepting (sy_core S) \<and> td_name d = ci_name inp \<and> list_all (has_scope (ci_principal inp)) (td_scopes d)
     \<and> tc_principal ctx = ci_principal inp \<and> tc_tool ctx = ci_name inp \<and> tc_raw_args ctx = ci_arguments inp \<and> tc_resume ctx = None
     \<and> (td_mutating d \<longrightarrow> intent_stored ctx T)"

lemma get_tool_rehandled: "get_tool (rehandled h R) n = map_option (\<lambda>d. d\<lparr>td_handler := h d\<rparr>) (get_tool R n)"
proof -
  have "find (\<lambda>d. td_name d = n) (map (\<lambda>d. d\<lparr>td_handler := h d\<rparr>) xs) = map_option (\<lambda>d. d\<lparr>td_handler := h d\<rparr>) (find (\<lambda>d. td_name d = n) xs)" for xs
    by (induction xs) auto
  then show ?thesis by (simp add: get_tool_def rehandled_def rev_map)
qed

lemma get_tool_name: "get_tool R n = Some d \<Longrightarrow> td_name d = n \<and> d \<in> set R"
  by (auto simp: get_tool_def dest!: find_Some_in_set)

text \<open>An admission for the same call under other handlers.\<close>

fun rehandle_admission :: "(tool_def \<Rightarrow> handler) \<Rightarrow> admission \<Rightarrow> admission" where
  "rehandle_admission h (Refused r) = Refused r"
| "rehandle_admission h (Answered ctx d base e) = Answered ctx (d\<lparr>td_handler := h d\<rparr>) base e"
| "rehandle_admission h (Replayed ctx d base v k) = Replayed ctx (d\<lparr>td_handler := h d\<rparr>) base v k"
| "rehandle_admission h (Admitted ctx d base k) = Admitted ctx (d\<lparr>td_handler := h d\<rparr>) base k"

lemma idempotency_rehandled:
  "idempotency V w inp ctx (d\<lparr>td_handler := h d\<rparr>) base S = map_prod (rehandle_admission h) id (idempotency V w inp ctx d base S)"
  by (auto simp: idempotency_def Let_def split: option.splits prod.splits sum.splits idem_outcome.splits)

lemma base_event_rehandled [simp]: "base_event V inp (d\<lparr>td_handler := g\<rparr>) s C = base_event V inp d s C"
  by (simp add: base_event_def)

lemma admit_rehandled: "admit V (rehandled h R) w inp S = map_prod (rehandle_admission h) id (admit V R w inp S)"
proof (cases "get_tool R (ci_name inp)")
  case None
  then show ?thesis by (simp add: admit_def get_tool_rehandled Let_def)
next
  case (Some d)
  show ?thesis
    unfolding admit_def get_tool_rehandled Some
    by (simp add: Let_def idempotency_rehandled split: prod.splits sum.splits)
qed

lemma finish_rehandled [simp]:
  "finish_call V w ctx (d\<lparr>td_handler := g\<rparr>) base result n k S = finish_call V w ctx d base result n k S"
  by (simp add: finish_call_def share_record_of_def)

lemma intent_stored_row:
  assumes "intent V w e A = (Inr i, A')"
  shows "list_ex (\<lambda>r. aur_event_id r = i \<and> aur_result_status r = ''intent'' \<and> aur_tool_name r = ae_tool_name e
    \<and> aur_client_id r = ae_client_id e \<and> aur_session_id r = ae_session_id e) (ad_events A')"
  using assms by (auto simp: intent_def insert_event_def insert_by_def event_row_def split: if_splits option.splits)

lemma idempotency_Admitted:
  assumes "idempotency V w inp ctx d base S = (Admitted ctx' d' base' k, S')"
  shows "ctx' = ctx \<and> d' = d \<and> base' = base \<and> sy_audit S' = sy_audit S"
  using assms by (auto simp: idempotency_def Let_def split: option.splits prod.splits sum.splits idem_outcome.splits if_splits)

lemma admit_cases:
  assumes "admit V R w inp S = (Admitted ctx d base k, S')"
  obtains s C1 S1 where "accepting (sy_core S)" "get_tool R (ci_name inp) = Some d" "list_all (has_scope (ci_principal inp)) (td_scopes d)"
    "session_for (tw_session w) (ci_principal inp) (ci_client_info inp) (ci_protocol_version inp) (ci_remote_addr inp) (sy_core S) = (Inr s, C1)"
    "tc_principal ctx = ci_principal inp" "tc_session ctx = s" "tc_tool ctx = ci_name inp" "tc_raw_args ctx = ci_arguments inp"
    "tc_resume ctx = None" "base = base_event V inp d s (sy_core S)"
    "td_mutating d \<longrightarrow> (\<exists>i A. intent (tv_audit V) (tw_intent w) base A = (Inr i, sy_audit S') \<and> tc_audit_event_id ctx = Some i)"
proof -
  have g: "accepting (sy_core S)" using assms by (auto simp: admit_def Let_def split: if_splits)
  obtain d0 where d0: "get_tool R (ci_name inp) = Some d0"
    using assms g by (cases "get_tool R (ci_name inp)") (auto simp: admit_def)
  have sc: "list_all (has_scope (ci_principal inp)) (td_scopes d0)" using assms g d0 by (auto simp: admit_def Let_def split: if_splits)
  obtain r C1 where sf: "session_for (tw_session w) (ci_principal inp) (ci_client_info inp) (ci_protocol_version inp) (ci_remote_addr inp)
      (sy_core S) = (r, C1)" by fastforce
  obtain s where r: "r = Inr s" using assms g d0 sc sf by (cases r) (auto simp: admit_def)
  note eqs = assms [unfolded admit_def Let_def] g d0 sc sf [unfolded r]
  show thesis
  proof (cases "td_mutating d0")
    case True
    let ?b = "base_event V inp d0 s (sy_core S)"
    obtain x A where i: "intent (tv_audit V) (tw_intent w) ?b (sy_audit S) = (x, A)" by fastforce
    obtain e where x: "x = Inr e" using eqs True i by (cases x) auto
    show thesis
      using eqs True i [unfolded x] get_tool_name [OF d0] sc sf [unfolded r] g
      by (auto dest!: idempotency_Admitted intro!: that)
  next
    case False
    then show thesis
      using eqs get_tool_name [OF d0] sc sf [unfolded r] g
      by (auto dest!: idempotency_Admitted intro!: that)
  qed
qed

lemma admitted_call_ok:
  assumes "admit V R w inp S = (Admitted ctx d base k, S')"
  shows "call_ok S inp d ctx S' \<and> d \<in> set R"
  using assms
proof (rule admit_cases)
  fix s C1 S1
  assume a: "accepting (sy_core S)" "get_tool R (ci_name inp) = Some d" "list_all (has_scope (ci_principal inp)) (td_scopes d)"
    "tc_principal ctx = ci_principal inp" "tc_session ctx = s" "tc_tool ctx = ci_name inp" "tc_raw_args ctx = ci_arguments inp"
    "tc_resume ctx = None" "base = base_event V inp d s (sy_core S)"
    "td_mutating d \<longrightarrow> (\<exists>i A. intent (tv_audit V) (tw_intent w) base A = (Inr i, sy_audit S') \<and> tc_audit_event_id ctx = Some i)"
  have "intent_stored ctx S'" if mut: "td_mutating d"
  proof -
    obtain i A where "intent (tv_audit V) (tw_intent w) base A = (Inr i, sy_audit S')" "tc_audit_event_id ctx = Some i"
      using a(10) mut by blast
    then show ?thesis
      using intent_stored_row get_tool_name [OF a(2)] a(4-6) by (fastforce simp: intent_stored_def a(9) base_event_def)
  qed
  then show ?thesis using a get_tool_name [OF a(2)] by (simp add: call_ok_def)
qed

text \<open>C3: No handler runs unadmitted: exchanging the handlers of the registry changes nothing about a call, its answer or the state it leaves,
  unless they differ where the service accepts calls, the caller has every scope the tool asks for, the arguments are those of the call and,
  for a mutating tool, the intent of this call is already in the audit history.\<close>

theorem handler_needs_admission:
  assumes "\<And>d ctx T. \<lbrakk>d \<in> set R; call_ok S inp d ctx T\<rbrakk> \<Longrightarrow> h d ctx (ci_arguments inp) T = td_handler d ctx (ci_arguments inp) T"
  shows "dispatch V (rehandled h R) w inp S = dispatch V R w inp S"
proof -
  obtain a S' where a: "admit V R w inp S = (a, S')" by fastforce
  show ?thesis
  proof (cases a)
    case (Admitted ctx d base k)
    then have "h d ctx (ci_arguments inp) S' = td_handler d ctx (ci_arguments inp) S'" using admitted_call_ok a assms by blast
    then show ?thesis using a Admitted by (simp add: dispatch_def admit_rehandled run_handler_def split: prod.splits option.splits)
  qed (simp_all add: dispatch_def admit_rehandled a)
qed

section \<open>What is delivered\<close>

definition delivered :: "tool_env \<Rightarrow> json \<Rightarrow> tool_state \<Rightarrow> bool" where
  "delivered V v S \<longleftrightarrow> blanked v
     \<and> length (tv_encode V (Structured_Result v)) \<le> unat (lm_max_result_bytes (st_limits (settings_of (sy_core S))))
     \<and> list_ex (\<lambda>r. sto_payload r = tv_encode V (Structured_Result v) \<and> List.member (sy_share_ids S) (shw_event_id r)) (ad_shares (sy_audit S))"

lemma outgoing_Result:
  assumes "outgoing V limit v is_error = Structured_Result u"
  shows "blanked u \<and> length (tv_encode V (Structured_Result u)) \<le> unat limit"
  using assms
  by (auto simp: outgoing_def Let_def too_large_def redact_json_def redact_inner_blanked split: if_splits)

lemma record_share_stored:
  assumes "record_share V w r A = (Inr (i, h), A')"
  shows "list_ex (\<lambda>x. sto_payload x = shr_payload r \<and> shw_event_id x = i) (ad_shares A')"
  using assms by (auto simp: record_share_def insert_by_def share_row_of_def split: if_splits option.splits)

lemma queued_shares [simp]:
  "ad_shares (complete_audit w i c A) = ad_shares A" "ad_shares (snd (record_event w e A)) = ad_shares A"
  by (simp_all add: complete_audit_def record_event_def send_op_def)

lemma finish_delivered:
  assumes "finish_call V w ctx d base result n k S = (Structured_Result u, S')"
  shows "delivered V u S'"
proof -
  obtain v is_error status err where o: "outcome_of result = (v, is_error, status, err)" by (metis prod.exhaust)
  let ?r = "outgoing V (lm_max_result_bytes (st_limits (settings_of (sy_core S)))) v is_error"
  obtain share A1 where sh: "record_share (tv_audit V) (tw_share w)
      (share_record_of ctx d n (tv_encode V ?r) (snd (redact_json (tv_engine V) (tv_known V) v))) (sy_audit S) = (share, A1)"
    by fastforce
  note e = assms [unfolded finish_call_def o Let_def prod.case sh]
  obtain i hash where sr: "share = Inr (i, hash)"
    using e by (cases share) (auto simp: unavailable_result_def)
  have r: "?r = Structured_Result u" and "settings_of (sy_core S') = settings_of (sy_core S)"
    and "sy_share_ids S' = sy_share_ids S @ [i]" and "ad_shares (sy_audit S') = ad_shares A1"
    using e by (auto simp: sr split: option.splits)
  with outgoing_Result [OF r] record_share_stored [OF sh [unfolded sr]] show ?thesis
    by (auto simp: delivered_def share_record_of_def list_ex_iff)
qed

lemma admit_refuses: "admit V R w inp S \<noteq> (Refused (Structured_Result v), S')"
  by (auto simp: admit_def idempotency_def Let_def unavailable_result_def
      split: if_splits option.splits prod.splits sum.splits idem_outcome.splits)

text \<open>C4: What is delivered is redacted, bounded and recorded: whatever the handler returned, a successful answer has no string under a
  sensitive name, is no longer than the limit of the settings in force, and its exact bytes are stored as a Data Shared record of the response.\<close>

theorem delivered_result:
  assumes "dispatch V R w inp S = (Structured_Result v, S')"
  shows "delivered V v S'"
  using assms admit_refuses [of V R w inp S v S']
  by (auto simp: dispatch_def split: prod.splits admission.splits dest: finish_delivered)

section \<open>Authorization\<close>

lemma decision_step_simps:
  "decision_step (reqs, n) (Allow ws) = Inr (reqs, n\<lparr>cn_decision := Some (decision_label (Allow ws)), cn_warnings := cn_warnings n @ ws\<rparr>)"
  "decision_step (reqs, n) (RequireApproval r) = Inr (reqs @ [r], n\<lparr>cn_decision := Some (decision_label (RequireApproval r))\<rparr>)"
  "decision_step (reqs, n) (Deny c m) =
     Inl (plain_error (LpError_new c m), n\<lparr>cn_decision := Some ''deny'', cn_decision_detail := Some m\<rparr>)"
  by (simp_all add: decision_step_def Let_def)

fun denies :: "decision \<Rightarrow> bool" where
  "denies (Deny c m) = True"
| "denies (Allow ws) = False"
| "denies (RequireApproval r) = False"

fun requirements_of :: "decision \<Rightarrow> approval_requirement list" where
  "requirements_of (Deny c m) = []"
| "requirements_of (Allow ws) = []"
| "requirements_of (RequireApproval r) = [r]"

lemma decision_fold:
  "fold_until decision_step (reqs, n) ds = Inr (reqs', n') \<Longrightarrow>
     \<not> list_ex denies ds \<and> reqs' = reqs @ concat (map requirements_of ds)"
proof (induction ds arbitrary: reqs n)
  case (Cons d ds)
  from Cons.prems show ?case by (cases d) (auto simp: decision_step_simps dest!: Cons.IH)
qed simp

lemma decision_fold_denied: "fold_until decision_step (reqs, n) ds = Inl e \<Longrightarrow> list_ex denies ds"
proof (induction ds arbitrary: reqs n)
  case (Cons d ds)
  then show ?case by (cases d) (auto simp: decision_step_simps)
qed simp

lemma authorize_passes:
  "fst (authorize V w R ctx ds descriptor smry n S) = Inr () \<longleftrightarrow>
     \<not> list_ex denies ds
     \<and> (concat (map requirements_of ds) = [] \<or> map_option rg_descriptor_digest (tc_resume ctx) = Some (call_digest V ctx descriptor))"
proof (cases "fold_until decision_step ([], n) ds")
  case (Inl e)
  then show ?thesis using decision_fold_denied [OF Inl] by (cases e) (simp add: authorize_def)
next
  case (Inr p)
  obtain reqs n1 where p: "p = (reqs, n1)" by fastforce
  have f: "\<not> list_ex denies ds" "reqs = concat (map requirements_of ds)" using decision_fold [OF Inr [unfolded p]] by simp_all
  show ?thesis
  proof (cases reqs)
    case Nil
    have "concat (map requirements_of ds) = []" using f(2) Nil by simp
    then show ?thesis using f(1) unfolding authorize_def Inr p Nil by simp
  next
    case (Cons q qs)
    have "concat (map requirements_of ds) \<noteq> []" unfolding f(2) [symmetric] Cons by simp
    then show ?thesis
      using f(1) unfolding authorize_def Inr p Cons Let_def
      by (simp del: concat_eq_Nil_conv split: option.split prod.split sum.split)
  qed
qed

text \<open>C16: A handler passes authorization exactly when no decision denies and either no decision asks for an approval, or the call resumes an
  approval granted for the digest of this tool, these arguments and this descriptor. Nothing else lets it through.\<close>

theorem authorize_ok_iff:
  "fst (authorize V w R ctx ds descriptor smry n S) = Inr () \<longleftrightarrow>
     \<not> list_ex denies ds
     \<and> (concat (map requirements_of ds) = [] \<or> map_option rg_descriptor_digest (tc_resume ctx) = Some (call_digest V ctx descriptor))"
  by (rule authorize_passes)

section \<open>Resumption runs the stored operation\<close>

definition approval_open :: "tool_ctx \<Rightarrow> string \<Rightarrow> core \<Rightarrow> bool" where
  "approval_open ctx i C \<longleftrightarrow>
     (case find_by ap_id i (as_approvals (co_approvals C)) of
        None \<Rightarrow> False
      | Some r \<Rightarrow> ap_client_id r = pr_client_id (tc_principal ctx) \<and> ap_session_id r = ses_id (tc_session ctx)
          \<and> (ap_status r = ''allowed_once'' \<or> ap_status r = ''allowed_session'') \<and> ap_execution_id r = None
          \<and> ap_policy_revision r = st_policy_revision (settings_of C))"

definition resume_ok :: "tool_state \<Rightarrow> tool_ctx \<Rightarrow> string \<Rightarrow> pending_operation \<Rightarrow> tool_def \<Rightarrow> tool_ctx \<Rightarrow> tool_state \<Rightarrow> bool" where
  "resume_ok S ctx i op d c T \<longleftrightarrow> as_ops (co_approvals (sy_core S)) i = Some op \<and> approval_open ctx i (sy_core S)
     \<and> td_name d = po_tool_name op \<and> tc_tool c = po_tool_name op \<and> tc_raw_args c = po_arguments op
     \<and> tc_principal c = tc_principal ctx \<and> tc_session c = tc_session ctx
     \<and> map_option rg_descriptor_digest (tc_resume c) = Some (po_descriptor_digest op)
     \<and> map_option rg_approval_id (tc_resume c) = Some i \<and> intent_stored c T"

lemma resume_admit_Running:
  assumes "resume_admit V R w ctx i S = (Running d c op a x, T)"
  shows "d \<in> set R \<and> resume_ok S ctx i op d c T"
proof -
  obtain out A where b: "begin_resume (ru_begin w) i (tc_principal ctx) (tc_session ctx) (st_policy_revision (settings_of (sy_core S)))
      (co_approvals (sy_core S)) = (out, A)" by fastforce
  then have out: "out = Inr (RS_Dispatch op x a)"
    using assms by (auto simp: resume_admit_def Let_def split: sum.splits resume_start.splits option.splits prod.splits)
  have tool: "get_tool R (po_tool_name op) = Some d"
    using assms b out by (auto simp: resume_admit_def Let_def split: option.splits prod.splits sum.splits)
  obtain event where event: "intent (tv_audit V) (ru_intent w) (resume_event V ctx d op a (sy_core (set_approvals A S)))
      (sy_audit (set_approvals A S)) = (Inr event, sy_audit T)" and c: "c = inner_ctx ctx d op a x event"
    using assms b out tool by (auto simp: resume_admit_def Let_def split: prod.splits sum.splits)
  obtain r where r: "may_dispatch (ru_begin w) i (tc_principal ctx) (tc_session ctx) (st_policy_revision (settings_of (sy_core S))) r op
      (co_approvals (sy_core S))" and a: "av_id a = i"
    using b out by (cases rule: begin_resume_cases) auto
  have "intent_stored c T"
    using intent_stored_row [OF event] by (auto simp: intent_stored_def c inner_ctx_def resume_event_def)
  then show ?thesis
    using r a get_tool_name [OF tool] by (auto simp: resume_ok_def approval_open_def may_dispatch_def c inner_ctx_def)
qed

lemma resume_admit_rehandled:
  "resume_admit V (rehandled h R) w ctx i S =
     map_prod (\<lambda>s. case s of Settled r \<Rightarrow> Settled r | Running d c op a x \<Rightarrow> Running (d\<lparr>td_handler := h d\<rparr>) c op a x) id
       (resume_admit V R w ctx i S)"
  by (auto simp: resume_admit_def get_tool_rehandled Let_def inner_ctx_def resume_event_def
      split: sum.splits resume_start.splits option.splits prod.splits)

text \<open>C7: A resumption runs what was approved and nothing else: exchanging the handlers of the registry changes nothing about it, unless they
  differ on the stored arguments of the stored tool, for an approval that this client was granted, in this session and under the policy in
  force, that has not run yet, with the digest that was approved, and after the intent is in the audit history.\<close>

theorem resume_runs_stored_operation:
  assumes "\<And>d c op T. \<lbrakk>d \<in> set R; resume_ok S ctx i op d c T\<rbrakk> \<Longrightarrow> h d c (po_arguments op) T = td_handler d c (po_arguments op) T"
  shows "approval_resume V (rehandled h R) w ctx i S = approval_resume V R w ctx i S"
proof -
  obtain a T where a: "resume_admit V R w ctx i S = (a, T)" by fastforce
  show ?thesis
  proof (cases a)
    case (Running d c op v x)
    then have "h d c (po_arguments op) T = td_handler d c (po_arguments op) T" using resume_admit_Running a assms by blast
    then show ?thesis
      using a Running by (simp add: approval_resume_def resume_admit_rehandled run_handler_def split: prod.splits option.splits)
  qed (simp add: approval_resume_def resume_admit_rehandled a)
qed

end
