(* ===== verification/Tool_Examples.thy ===== *)
theory Tool_Examples
  imports Tool_Props Core_Examples Audit_Examples
begin

text \<open>The pipeline on one read tool and one mutating tool: a service with one session, an empty audit store and a small encoder.\<close>

definition call_env :: tool_env where
  "call_env =
     \<lparr>tv_core = service_env, tv_audit = aud_env, tv_engine = \<lparr>rg_matches = (\<lambda>p s. ([], s)), rg_lossy = (\<lambda>s. s)\<rparr>, tv_known = [],
      tv_encode = (\<lambda>r. case r of Structured_Result v \<Rightarrow> ''ok'' | Structured_Error v m \<Rightarrow> ''error''), tv_parse_url = (\<lambda>s. None),
      tv_show_port = (\<lambda>p. ''1'')\<rparr>"

definition call_world :: tool_world where
  "call_world =
     \<lparr>tw_session = service_world, tw_touch = aud_io [] 1 True, tw_intent = aud_io ''evt_1'' 1 True, tw_idem = aud_io [] 1 True,
      tw_idem_later = 1, tw_share = aud_io ''shr_1'' 2 True, tw_complete = aud_io ''evt_2'' 2 True, tw_idem_finish = aud_io [] 2 True\<rparr>"

definition call_core :: core where
  "call_core = one_session\<lparr>co_settings := \<lparr>sst_current = service_settings\<lparr>st_limits := (st_limits service_settings)\<lparr>lm_max_result_bytes := 64\<rparr>\<rparr>,
     sst_fault = None\<rparr>\<rparr>"

definition call_state :: tool_state where
  "call_state = \<lparr>sy_core = call_core, sy_audit = AuditStore_open [] [] [], sy_share_ids = []\<rparr>"

definition show_secret :: "tool_ctx \<Rightarrow> json \<Rightarrow> tool_state \<Rightarrow> tool_result option \<times> call_notes \<times> tool_state" where
  "show_secret ctx a S = (Some (Inr (JObject [(''password'', JString ''hunter2'')])), CallNotes_default, S)"

definition call_registry :: tool_registry where
  "call_registry =
     [make_tool ''env_get'' ''Environment'' '''' K_Read (\<lambda>j. Inr j) show_secret,
      make_tool ''fs_delete'' ''Delete'' '''' K_Destructive (\<lambda>j. Inr j) show_secret]"

definition call_of :: "string \<Rightarrow> call_input" where
  "call_of n =
     \<lparr>ci_name = n, ci_arguments = JObject [(''path'', JString ''a'')], ci_principal = sample_principal, ci_protocol_version = None,
      ci_client_info = None, ci_remote_addr = None, ci_request_id = ''req_1''\<rparr>"

text \<open>Handlers that panic wherever the call is not in order.\<close>

definition guarded :: "tool_def \<Rightarrow> handler" where
  "guarded d ctx args T =
     (if call_ok call_state (call_of ''fs_delete'') d ctx T then td_handler d ctx args T else (None, CallNotes_default, T))"

theorem handler_needs_admission_witness:
  "dispatch call_env (rehandled guarded call_registry) call_world (call_of ''fs_delete'') call_state
     = dispatch call_env call_registry call_world (call_of ''fs_delete'') call_state"
  by (rule handler_needs_admission) (simp add: guarded_def)

lemma call_answer:
  "fst (dispatch call_env call_registry call_world (call_of ''env_get'') call_state) = Structured_Result (JObject [(''password'', JString ''<redacted>'')])"
  by code_simp

theorem delivered_result_witness:
  "delivered call_env (JObject [(''password'', JString ''<redacted>'')])
     (snd (dispatch call_env call_registry call_world (call_of ''env_get'') call_state))"
  using call_answer by (intro delivered_result [of call_env call_registry call_world "call_of ''env_get''" call_state]) (metis prod.collapse)

definition resume_ctx :: tool_ctx where
  "resume_ctx = \<lparr>tc_principal = sample_principal, tc_session = demo_idle, tc_tool = ''approval_resume'', tc_request_id = ''req_2'',
     tc_raw_args = JObject [], tc_resume = None, tc_audit_event_id = None\<rparr>"

definition resume_state :: tool_state where
  "resume_state = call_state\<lparr>sy_core := call_core\<lparr>co_approvals := snd sample_decided\<rparr>\<rparr>"

definition approved_only :: "tool_def \<Rightarrow> handler" where
  "approved_only d ctx args T =
     (if resume_ok resume_state resume_ctx ''apr_1'' sample_op d ctx T then td_handler d ctx args T else (None, CallNotes_default, T))"

definition resume_times :: resume_world where
  "resume_times = \<lparr>ru_begin = sample_world ''exe_1'' 2, ru_intent = sample_world ''evt_1'' 2, ru_execution = sample_world [] 3,
     ru_audit = sample_world [] 3\<rparr>"

lemma resume_executed:
  "fst (approval_resume call_env call_registry resume_times resume_ctx ''apr_1'' resume_state) =
     Some (Inr (JObject [(''approval_id'', JString ''apr_1''), (''execution_id'', JString ''exe_1''),
       (''result'', JObject [(''password'', JString ''hunter2'')]), (''status'', JString ''executed'')]))"
  by code_simp

theorem resume_runs_stored_operation_witness:
  "fst (approval_resume call_env (rehandled approved_only call_registry) resume_times resume_ctx ''apr_1'' resume_state) =
     Some (Inr (JObject [(''approval_id'', JString ''apr_1''), (''execution_id'', JString ''exe_1''),
       (''result'', JObject [(''password'', JString ''hunter2'')]), (''status'', JString ''executed'')]))"
proof -
  have "approval_resume call_env (rehandled approved_only call_registry) resume_times resume_ctx ''apr_1'' resume_state =
      approval_resume call_env call_registry resume_times resume_ctx ''apr_1'' resume_state"
  proof (rule resume_runs_stored_operation)
    fix d c op T
    assume ok: "resume_ok resume_state resume_ctx ''apr_1'' op d c T"
    have "as_ops (co_approvals (sy_core resume_state)) ''apr_1'' = Some sample_op" by code_simp
    with ok have "op = sample_op" by (simp add: resume_ok_def)
    with ok show "approved_only d c (po_arguments op) T = td_handler d c (po_arguments op) T" by (simp add: approved_only_def)
  qed
  then show ?thesis using resume_executed by simp
qed

end
