(* ===== verification/Mcp_Gateway.thy ===== *)
theory Mcp_Gateway
  imports Tools
begin

text \<open>
  The gateway to downstream MCP services, \<^verbatim>\<open>workstation-server/src/local_mcp/mod.rs\<close>, with the launch of a process and the tool discovery of
  \<^verbatim>\<open>local_mcp/transport.rs\<close>: the configuration of a service and its validation, the registry and the lifecycle of a connection. A start
  runs over several steps, between which the service can be stopped: \<open>start_begin\<close> up to the first \<^verbatim>\<open>await\<close>, \<open>start_finish\<close> after
  it. The connection itself, the SDK's, is a record of what the code reads of it.
\<close>

section \<open>Configuration\<close>

datatype transport = Stdio | StreamableHttp

datatype risk_class =
    Risk_ReadOnly | Risk_ProjectWrite | Risk_FilesystemWrite | Risk_ProcessExecution | Risk_Network | Risk_ApplicationControl
  | Risk_ArbitraryCode | Risk_Unknown

datatype tool_permission = TP_Allow | TP_Deny | TP_Ask

record tool_policy =
  tp_risk :: risk_class
  tp_permission :: tool_permission

definition ToolPolicy_default :: tool_policy where
  "ToolPolicy_default = \<lparr>tp_risk = Risk_Unknown, tp_permission = TP_Ask\<rparr>"

text \<open>A \<^verbatim>\<open>BTreeMap\<close> is the list of its entries in the order of the keys.\<close>

fun btree_insert :: "string \<Rightarrow> 'a \<Rightarrow> (string \<times> 'a) list \<Rightarrow> (string \<times> 'a) list" where
  "btree_insert k v [] = [(k, v)]"
| "btree_insert k v ((j, u) # r) =
     (if k = j then (k, v) # r else if k < j then (k, v) # (j, u) # r else (j, u) # btree_insert k v r)"

record server_config =
  sc_id :: string
  sc_name :: string
  sc_enabled :: bool
  sc_transport :: transport
  sc_command :: string
  sc_args :: "string list"
  sc_cwd :: string
  sc_env :: "(string \<times> string) list"
  sc_url :: string
  sc_auto_start :: bool
  sc_auto_connect :: bool
  sc_trusted :: bool
  sc_connection_timeout_seconds :: u64
  sc_tool_timeout_seconds :: u64
  sc_reconnect_attempts :: u32
  sc_tool_policies :: "(string \<times> tool_policy) list"
  sc_logging :: bool

definition ServerConfig_default :: server_config where
  "ServerConfig_default =
     \<lparr>sc_id = [], sc_name = [], sc_enabled = True, sc_transport = Stdio, sc_command = [], sc_args = [], sc_cwd = [], sc_env = [],
      sc_url = [], sc_auto_start = False, sc_auto_connect = False, sc_trusted = False, sc_connection_timeout_seconds = 10,
      sc_tool_timeout_seconds = 60, sc_reconnect_attempts = 0, sc_tool_policies = [], sc_logging = True\<rparr>"

text \<open>What is outside: the length of the serialized configuration, whether a path is a directory, the URL parser, the sealing of
  a configuration for the disk (\<^verbatim>\<open>serde_json\<close> and DPAPI) and its inverse, the digest of a JSON value.\<close>

record mcp_env =
  mv_config_bytes :: "server_config \<Rightarrow> int"
  mv_is_dir :: "string \<Rightarrow> bool"
  mv_url_parse :: "string \<Rightarrow> url option"
  mv_seal :: "server_config \<Rightarrow> string lp_result"
  mv_unseal :: "string \<Rightarrow> server_config lp_result"
  mv_json_digest :: "json \<Rightarrow> string"

definition local_url :: "mcp_env \<Rightarrow> string \<Rightarrow> url lp_result" where
  "local_url V value =
     (case mv_url_parse V value of
        None \<Rightarrow> Inl (LpError_invalid ''Invalid MCP URL'')
      | Some u \<Rightarrow>
          if url_scheme u \<noteq> ''http'' \<or> url_username u \<noteq> [] \<or> url_password u \<noteq> None \<or> url_query u \<noteq> None \<or> url_fragment u \<noteq> None
          then Inl (LpError_invalid ''Use a local http URL without credentials, query or fragment'')
          else if url_host u = Some ''localhost'' then Inr (u\<lparr>url_host := Some ''127.0.0.1''\<rparr>)
          else if url_host u = Some ''127.0.0.1'' \<or> url_host u = Some ''[::1]'' then Inr u
          else Inl (LpError_new McpPermissionDenied ''Only localhost, 127.0.0.1 and ::1 MCP endpoints are allowed''))"

definition NUL :: char where
  "NUL = CHR 0x00"

definition id_byte :: "char \<Rightarrow> bool" where
  "id_byte c \<longleftrightarrow> (CHR ''a'' \<le> c \<and> c \<le> CHR ''z'') \<or> is_ascii_digit c \<or> c = CHR ''-'' \<or> c = CHR ''_''"

text \<open>An en dash in UTF-8.\<close>

definition EN_DASH :: string where
  "EN_DASH = [CHR 0xE2, CHR 0x80, CHR 0x93]"

definition check_limits :: "mcp_env \<Rightarrow> server_config \<Rightarrow> lp_error option" where
  "check_limits V c =
     (if sc_name c = [] \<or> length (sc_name c) > 128 then Some (LpError_invalid ''A server name of at most 128 bytes is required'')
      else if \<not> (1 \<le> sc_connection_timeout_seconds c \<and> sc_connection_timeout_seconds c \<le> 120)
        \<or> \<not> (1 \<le> sc_tool_timeout_seconds c \<and> sc_tool_timeout_seconds c \<le> 3600) \<or> sc_reconnect_attempts c > 5
      then Some (LpError_invalid (''Timeouts must be 1'' @ EN_DASH @ ''120 seconds for connection and 1'' @ EN_DASH
        @ ''3600 for calls; at most 5 reconnect attempts''))
      else if length (sc_args c) > 128 \<or> length (sc_env c) > 128 \<or> length (sc_tool_policies c) > 2000 \<or> mv_config_bytes V c > 256 * 1024
      then Some (LpError_invalid ''Server configuration exceeds limits'')
      else if contains_char (sc_command c) NUL \<or> contains_char (sc_cwd c) NUL \<or> list_ex (\<lambda>v. contains_char v NUL) (sc_args c)
        \<or> list_ex (\<lambda>(k, v). k = [] \<or> contains_char k (CHR ''='') \<or> contains_char k NUL \<or> contains_char v NUL) (sc_env c)
      then Some (LpError_invalid ''Invalid command, argument or environment value'')
      else None)"

text \<open>\<^verbatim>\<open>validate\<close> trims the name in place; the configuration it leaves is the result.\<close>

definition validate_server :: "mcp_env \<Rightarrow> server_config \<Rightarrow> server_config lp_result" where
  "validate_server V c0 =
     (if sc_id c0 = [] \<or> length (sc_id c0) > 64 \<or> \<not> list_all id_byte (sc_id c0)
      then Inl (LpError_invalid (''Server ID must contain 1'' @ EN_DASH @ ''64 lowercase letters, digits, underscores or hyphens''))
      else (let c = c0\<lparr>sc_name := trim (sc_name c0)\<rparr> in
        case check_limits V c of
          Some e \<Rightarrow> Inl e
        | None \<Rightarrow>
            (case sc_transport c of
               Stdio \<Rightarrow>
                 if trim (sc_command c) = [] \<or> \<not> is_absolute (sc_cwd c) \<or> \<not> mv_is_dir V (sc_cwd c)
                 then Inl (LpError_invalid ''stdio requires a command and an existing absolute working directory'')
                 else Inr c
             | StreamableHttp \<Rightarrow> (case local_url V (sc_url c) of Inl e \<Rightarrow> Inl e | Inr _ \<Rightarrow> Inr c))))"

section \<open>Configuration as JSON\<close>

definition transport_str :: "transport \<Rightarrow> string" where
  "transport_str t = (case t of Stdio \<Rightarrow> ''stdio'' | StreamableHttp \<Rightarrow> ''streamable-http'')"

definition risk_class_str :: "risk_class \<Rightarrow> string" where
  "risk_class_str r =
     (case r of
        Risk_ReadOnly \<Rightarrow> ''read-only'' | Risk_ProjectWrite \<Rightarrow> ''project-write'' | Risk_FilesystemWrite \<Rightarrow> ''filesystem-write''
      | Risk_ProcessExecution \<Rightarrow> ''process-execution'' | Risk_Network \<Rightarrow> ''network'' | Risk_ApplicationControl \<Rightarrow> ''application-control''
      | Risk_ArbitraryCode \<Rightarrow> ''arbitrary-code'' | Risk_Unknown \<Rightarrow> ''unknown'')"

definition tool_permission_str :: "tool_permission \<Rightarrow> string" where
  "tool_permission_str p = (case p of TP_Allow \<Rightarrow> ''allow'' | TP_Deny \<Rightarrow> ''deny'' | TP_Ask \<Rightarrow> ''ask'')"

definition tool_policy_json :: "tool_policy \<Rightarrow> json" where
  "tool_policy_json p =
     JObject [(''permission'', JString (tool_permission_str (tp_permission p))), (''risk'', JString (risk_class_str (tp_risk p)))]"

definition server_config_json :: "server_config \<Rightarrow> json" where
  "server_config_json c =
     JObject [(''args'', JArray (map JString (sc_args c))), (''autoConnect'', JBool (sc_auto_connect c)),
       (''autoStart'', JBool (sc_auto_start c)), (''command'', JString (sc_command c)),
       (''connectionTimeoutSeconds'', JNumber (show_nat (unat (sc_connection_timeout_seconds c)))), (''cwd'', JString (sc_cwd c)),
       (''enabled'', JBool (sc_enabled c)), (''env'', JObject (map (\<lambda>(k, v). (k, JString v)) (sc_env c))), (''id'', JString (sc_id c)),
       (''logging'', JBool (sc_logging c)), (''name'', JString (sc_name c)),
       (''reconnectAttempts'', JNumber (show_nat (unat (sc_reconnect_attempts c)))),
       (''toolPolicies'', JObject (map (\<lambda>(k, p). (k, tool_policy_json p)) (sc_tool_policies c))),
       (''toolTimeoutSeconds'', JNumber (show_nat (unat (sc_tool_timeout_seconds c)))),
       (''transport'', JString (transport_str (sc_transport c))), (''trusted'', JBool (sc_trusted c)), (''url'', JString (sc_url c))]"

definition public_config :: "server_config \<Rightarrow> (string \<times> json) list" where
  "public_config c =
     [(''enabled'', JBool (sc_enabled c)), (''id'', JString (sc_id c)), (''name'', JString (sc_name c)),
      (''transport'', JString (transport_str (sc_transport c))), (''trusted'', JBool (sc_trusted c))]"

section \<open>The registry\<close>

text \<open>\<open>rt_exit_code\<close> and the times are as in the source; the log is a bounded list of redacted chunks.\<close>

record runtime =
  rt_status :: string
  rt_last_connected :: "int option"
  rt_last_error :: "string option"
  rt_pid :: "u32 option"
  rt_started_at :: "int option"
  rt_exit_code :: "u32 option"
  rt_restart_count :: u32
  rt_next_retry_at :: "int option"
  rt_tool_count :: nat
  rt_server_info :: "json option"
  rt_discovered_at :: "int option"
  rt_logs :: "string list"

definition Runtime_new :: "string \<Rightarrow> runtime" where
  "Runtime_new status =
     \<lparr>rt_status = status, rt_last_connected = None, rt_last_error = None, rt_pid = None, rt_started_at = None, rt_exit_code = None,
      rt_restart_count = 0, rt_next_retry_at = None, rt_tool_count = 0, rt_server_info = None, rt_discovered_at = None, rt_logs = []\<rparr>"

text \<open>What the code reads of a running service: whether it is closed, its process and what it says about itself.\<close>

record connection =
  cx_closed :: bool
  cx_pid :: "u32 option"
  cx_info :: "json option"

record mcp_tool =
  mt_name :: string
  mt_value :: json

text \<open>\<open>en_operation\<close>: the lock of the entry is held by a start that is waiting. \<open>en_cancelled\<close>: the current cancellation token was cancelled.
  Dropping a connection ends its process.\<close>

record mcp_entry =
  en_config :: server_config
  en_runtime :: runtime
  en_connection :: "connection option"
  en_tools :: "mcp_tool list"
  en_operation :: bool
  en_cancelled :: bool

definition idle_status :: "server_config \<Rightarrow> string" where
  "idle_status c = (if sc_enabled c then ''stopped'' else ''disabled'')"

definition Entry_new :: "server_config \<Rightarrow> mcp_entry" where
  "Entry_new c =
     \<lparr>en_config = c, en_runtime = Runtime_new (idle_status c), en_connection = None, en_tools = [], en_operation = False,
      en_cancelled = False\<rparr>"

definition stop_entry :: "mcp_entry \<Rightarrow> mcp_entry" where
  "stop_entry e =
     e\<lparr>en_cancelled := True, en_connection := None, en_tools := [],
       en_runtime := (en_runtime e)\<lparr>rt_status := idle_status (en_config e), rt_pid := None, rt_tool_count := 0, rt_next_retry_at := None\<rparr>\<rparr>"

text \<open>\<open>gw_rows\<close> is the table \<^verbatim>\<open>servers\<close>; \<open>gw_known\<close> the values the shared redactor knows.\<close>

record gateway =
  gw_rows :: "(string \<times> string) list"
  gw_entries :: "(string \<times> mcp_entry) list"
  gw_blocked :: bool
  gw_known :: known_values

definition known_env :: "server_config \<Rightarrow> known_values \<Rightarrow> known_values" where
  "known_env c K = fold (\<lambda>(k, v). add_known_value k v) (sc_env c) K"

definition add_entry :: "server_config \<Rightarrow> gateway \<Rightarrow> gateway" where
  "add_entry c G = G\<lparr>gw_entries := btree_insert (sc_id c) (Entry_new c) (gw_entries G), gw_known := known_env c (gw_known G)\<rparr>"

text \<open>\<^verbatim>\<open>Gateway::open\<close> on the rows in the order of their identifiers: the first row that does not unseal ends it.\<close>

definition gateway_open :: "mcp_env \<Rightarrow> known_values \<Rightarrow> (string \<times> string) list \<Rightarrow> gateway lp_result" where
  "gateway_open V K rows =
     and_then (fold_until (\<lambda>cs r. and_then (mv_unseal V (snd r)) (\<lambda>c. Inr (cs @ [c]))) [] (sort_key fst rows))
       (\<lambda>cs. Inr (fold add_entry cs \<lparr>gw_rows = rows, gw_entries = [], gw_blocked = True, gw_known = K\<rparr>))"

definition get_entry :: "gateway \<Rightarrow> string \<Rightarrow> mcp_entry lp_result" where
  "get_entry G i =
     (case map_of (gw_entries G) i of None \<Rightarrow> Inl (LpError_new McpServerNotFound ''MCP server not found'') | Some e \<Rightarrow> Inr e)"

definition set_entry :: "string \<Rightarrow> mcp_entry \<Rightarrow> gateway \<Rightarrow> gateway" where
  "set_entry i e G = G\<lparr>gw_entries := map (\<lambda>(j, x). (j, if j = i then e else x)) (gw_entries G)\<rparr>"

definition gateway_config :: "gateway \<Rightarrow> string \<Rightarrow> server_config lp_result" where
  "gateway_config G i = and_then (get_entry G i) (\<lambda>e. Inr (en_config e))"

text \<open>The masked values of an edited configuration are those of the stored one.\<close>

definition MASK :: string where
  "MASK = ''<redacted>''"

definition unmask :: "server_config \<Rightarrow> server_config \<Rightarrow> server_config lp_result" where
  "unmask old c =
     and_then (fold_until (\<lambda>out (k, v). if v = MASK
         then (case map_of (sc_env old) k of None \<Rightarrow> Inl (LpError_invalid ''Enter the environment value'') | Some u \<Rightarrow> Inr (out @ [(k, u)]))
         else Inr (out @ [(k, v)])) [] (sc_env c))
       (\<lambda>env. Inr (c\<lparr>sc_env := env\<rparr>))"

text \<open>\<^verbatim>\<open>save\<close> when no start holds the lock of the entry. \<open>ok\<close>: the database takes the write.\<close>

definition gateway_save :: "mcp_env \<Rightarrow> bool \<Rightarrow> server_config \<Rightarrow> bool \<Rightarrow> gateway \<Rightarrow> unit lp_result \<times> gateway" where
  "gateway_save V ok config replace G =
     (case and_then (validate_server V config) (\<lambda>c. if replace then and_then (gateway_config G (sc_id c)) (\<lambda>old. unmask old c) else Inr c) of
        Inl e \<Rightarrow> (Inl e, G)
      | Inr c \<Rightarrow>
          (let G1 = G\<lparr>gw_known := known_env c (gw_known G)\<rparr> in
           case mv_seal V c of
             Inl e \<Rightarrow> (Inl e, G1)
           | Inr sealed \<Rightarrow>
               (let old = map_of (gw_entries G1) (sc_id c) in
                if (old \<noteq> None) \<noteq> replace
                then (Inl (LpError_invalid (if replace then ''Server does not exist'' else ''Duplicate server ID'')), G1)
                else if \<not> ok then (Inl LpError_internal, G1)
                else (case old of
                    Some e \<Rightarrow>
                      (Inr (), set_entry (sc_id c) (stop_entry ((stop_entry e)\<lparr>en_config := c\<rparr>))
                        (G1\<lparr>gw_rows := update_where (\<lambda>r. fst r = sc_id c) (\<lambda>r. (fst r, sealed)) (gw_rows G1)\<rparr>))
                  | None \<Rightarrow>
                      (case insert_by fst (sc_id c, sealed) (gw_rows G1) of
                         None \<Rightarrow> (Inl LpError_internal, G1)
                       | Some rows \<Rightarrow> (Inr (), G1\<lparr>gw_rows := rows, gw_entries := btree_insert (sc_id c) (Entry_new c) (gw_entries G1)\<rparr>))))))"

definition drop_entry :: "string \<Rightarrow> gateway \<Rightarrow> gateway" where
  "drop_entry i G = G\<lparr>gw_entries := filter (\<lambda>e. fst e \<noteq> i) (gw_entries G)\<rparr>"

definition gateway_remove :: "bool \<Rightarrow> string \<Rightarrow> gateway \<Rightarrow> unit lp_result \<times> gateway" where
  "gateway_remove ok i G =
     (case get_entry G i of
        Inl e \<Rightarrow> (Inl e, G)
      | Inr e \<Rightarrow>
          if \<not> ok then (Inl LpError_internal, G)
          else (Inr (), drop_entry i (G\<lparr>gw_rows := delete_where (\<lambda>r. fst r = i) (gw_rows G)\<rparr>)))"

definition gateway_block :: "gateway \<Rightarrow> gateway" where
  "gateway_block G = G\<lparr>gw_blocked := True, gw_entries := map (\<lambda>(i, e). (i, stop_entry e)) (gw_entries G)\<rparr>"

definition gateway_resume :: "gateway \<Rightarrow> gateway" where
  "gateway_resume G = G\<lparr>gw_blocked := False\<rparr>"

definition gateway_stop :: "string \<Rightarrow> gateway \<Rightarrow> unit lp_result \<times> gateway" where
  "gateway_stop i G = (case get_entry G i of Inl e \<Rightarrow> (Inl e, G) | Inr e \<Rightarrow> (Inr (), set_entry i (stop_entry e) G))"

section \<open>Starting a service\<close>

definition is_live :: "mcp_entry \<Rightarrow> bool" where
  "is_live e \<longleftrightarrow> (case en_connection e of None \<Rightarrow> False | Some c \<Rightarrow> \<not> cx_closed c)"

definition disabled_service :: lp_error where
  "disabled_service = LpError_new McpServerDisabled ''MCP server is disabled''"

text \<open>Up to the connection attempt: \<open>Inr True\<close> waits for it with the lock held, \<open>Inr False\<close> found the service connected.\<close>

definition start_begin :: "string \<Rightarrow> gateway \<Rightarrow> bool lp_result \<times> gateway" where
  "start_begin i G =
     (case get_entry G i of
        Inl e \<Rightarrow> (Inl e, G)
      | Inr e \<Rightarrow>
          if gw_blocked G then (Inl (LpError_new EmergencyStopActive ''Resume Local Pilot before starting MCP services''), G)
          else if \<not> sc_enabled (en_config e) then (Inl disabled_service, G)
          else if is_live e then (Inr False, G)
          else
            (let e1 = (stop_entry e)\<lparr>en_cancelled := False, en_operation := True\<rparr>;
                 status = (if sc_transport (en_config e) = Stdio then ''starting'' else ''connecting'') in
             (Inr True, set_entry i (e1\<lparr>en_runtime := (en_runtime e1)\<lparr>rt_status := status\<rparr>\<rparr>) G)))"

text \<open>The launched process reports itself while the start waits.\<close>

definition note_spawned :: "string \<Rightarrow> u32 \<Rightarrow> int \<Rightarrow> gateway \<Rightarrow> gateway" where
  "note_spawned i pid now G =
     (case get_entry G i of
        Inl e \<Rightarrow> G
      | Inr e \<Rightarrow> set_entry i (e\<lparr>en_runtime := (en_runtime e)\<lparr>rt_pid := Some pid, rt_started_at := Some now, rt_exit_code := None\<rparr>\<rparr>) G)"

text \<open>A redacted chunk of the process's error output, and what is left at its end, which the source adds without the bound.\<close>

definition note_log :: "bool \<Rightarrow> bool \<Rightarrow> string \<Rightarrow> string \<Rightarrow> gateway \<Rightarrow> gateway" where
  "note_log logging at_end i chunk G =
     (case (if logging \<and> chunk \<noteq> [] then get_entry G i else Inl LpError_internal) of
        Inl e \<Rightarrow> G
      | Inr e \<Rightarrow>
          (let logs = rt_logs (en_runtime e) @ [chunk] in
           set_entry i (e\<lparr>en_runtime := (en_runtime e)\<lparr>rt_logs := (if length logs > 64 \<and> \<not> at_end then tl logs else logs)\<rparr>\<rparr>) G))"

definition note_exit :: "string \<Rightarrow> u32 \<Rightarrow> gateway \<Rightarrow> gateway" where
  "note_exit i exit G =
     (case get_entry G i of Inl e \<Rightarrow> G | Inr e \<Rightarrow> set_entry i (e\<lparr>en_runtime := (en_runtime e)\<lparr>rt_exit_code := Some exit\<rparr>\<rparr>) G)"

text \<open>What the \<^verbatim>\<open>select!\<close> gave is an argument: the connection with its tools, the failure of the attempt, its timeout or the
  cancellation. A stop may come between the \<^verbatim>\<open>select!\<close> and this step.\<close>

definition start_finish ::
    "redact_engine \<Rightarrow> int \<Rightarrow> string \<Rightarrow> (connection \<times> mcp_tool list) lp_result \<Rightarrow> gateway \<Rightarrow> unit lp_result \<times> gateway" where
  "start_finish E now i result G =
     (case get_entry G i of
        Inl e \<Rightarrow> (Inl e, G)
      | Inr e0 \<Rightarrow>
          (let e = e0\<lparr>en_operation := False\<rparr> in
           case result of
             Inr (cx, tools) \<Rightarrow>
               if en_cancelled e \<or> gw_blocked G then (Inl (LpError_new EmergencyStopActive ''Connection stopped''), set_entry i e G)
               else (Inr (), set_entry i (e\<lparr>en_tools := tools, en_connection := Some cx,
                 en_runtime := (en_runtime e)\<lparr>rt_status := ''connected'', rt_last_error := None, rt_last_connected := Some now,
                   rt_tool_count := length tools, rt_discovered_at := Some now, rt_pid := cx_pid cx,
                   rt_server_info := map_option (\<lambda>j. fst (redact_json E (gw_known G) j)) (cx_info cx), rt_next_retry_at := None,
                   rt_restart_count := 0\<rparr>\<rparr>) G)
           | Inl err \<Rightarrow>
               (Inl err, set_entry i (e\<lparr>en_runtime :=
                 (if en_cancelled e then en_runtime e
                  else (en_runtime e)\<lparr>rt_status := ''error'', rt_last_error := Some (message err)\<rparr>)\<lparr>rt_pid := None\<rparr>\<rparr>) G)))"

text \<open>The SDK's service closes by itself, for example when the process ends.\<close>

definition note_closed :: "string \<Rightarrow> gateway \<Rightarrow> gateway" where
  "note_closed i G =
     (case get_entry G i of
        Inl e \<Rightarrow> G
      | Inr e \<Rightarrow> set_entry i (e\<lparr>en_connection := map_option (\<lambda>c. c\<lparr>cx_closed := True\<rparr>) (en_connection e)\<rparr>) G)"

text \<open>\<^verbatim>\<open>test\<close>: an entry under an identifier of its own, which is started, stopped and removed.\<close>

definition test_begin :: "mcp_env \<Rightarrow> string \<Rightarrow> server_config \<Rightarrow> gateway \<Rightarrow> unit lp_result \<times> gateway" where
  "test_begin V fresh config G =
     (case validate_server V config of
        Inl e \<Rightarrow> (Inl e, G)
      | Inr c \<Rightarrow>
          (let i = ''test-'' @ to_ascii_lowercase fresh in
           (Inr (), G\<lparr>gw_entries := btree_insert i (Entry_new (c\<lparr>sc_id := i\<rparr>)) (gw_entries G)\<rparr>)))"

definition test_end :: "string \<Rightarrow> gateway \<Rightarrow> gateway" where
  "test_end i G = drop_entry i (snd (gateway_stop i G))"

section \<open>What a client and the desktop see\<close>

definition opt_json :: "('a \<Rightarrow> json) \<Rightarrow> 'a option \<Rightarrow> json" where
  "opt_json f v = (case v of None \<Rightarrow> JNull | Some x \<Rightarrow> f x)"

definition show_i64 :: "int \<Rightarrow> string" where
  "show_i64 i = (if i < 0 then CHR ''-'' # show_nat (nat (- i)) else show_nat (nat i))"

definition int_json :: "int \<Rightarrow> json" where
  "int_json i = JNumber (show_i64 i)"

definition word_json :: "u32 \<Rightarrow> json" where
  "word_json x = JNumber (show_nat (unat x))"

definition runtime_json :: "bool \<Rightarrow> runtime \<Rightarrow> json" where
  "runtime_json logs r =
     JObject ([(''discoveredAt'', opt_json int_json (rt_discovered_at r)), (''exitCode'', opt_json word_json (rt_exit_code r)),
       (''lastConnected'', opt_json int_json (rt_last_connected r)), (''lastError'', opt_json JString (rt_last_error r))]
       @ (if logs then [(''logs'', JArray (map JString (rt_logs r)))] else [])
       @ [(''nextRetryAt'', opt_json int_json (rt_next_retry_at r)), (''pid'', opt_json word_json (rt_pid r)),
       (''restartCount'', word_json (rt_restart_count r)), (''serverInfo'', opt_json id (rt_server_info r)),
       (''startedAt'', opt_json int_json (rt_started_at r)), (''status'', JString (rt_status r)),
       (''toolCount'', JNumber (show_nat (rt_tool_count r)))])"

definition shown_runtime :: "mcp_entry \<Rightarrow> runtime" where
  "shown_runtime e =
     (if en_connection e \<noteq> None \<and> \<not> is_live e \<and> rt_status (en_runtime e) = ''connected''
      then (en_runtime e)\<lparr>rt_status := ''degraded''\<rparr> else en_runtime e)"

definition masked_env :: "server_config \<Rightarrow> json" where
  "masked_env c = JObject (map (\<lambda>(k, v). (k, JString MASK)) (sc_env c))"

definition local_config :: "server_config \<Rightarrow> (string \<times> json) list" where
  "local_config c =
     (case server_config_json c of
        JObject fs \<Rightarrow> map (\<lambda>(k, j). (k, if k = ''env'' then masked_env c else j)) fs
      | _ \<Rightarrow> [])"

definition entry_view :: "redact_engine \<Rightarrow> bool \<Rightarrow> gateway \<Rightarrow> mcp_entry \<Rightarrow> json" where
  "entry_view E local_ui G e =
     fst (redact_json E (gw_known G)
       (JObject (btree_insert ''runtime'' (runtime_json local_ui (shown_runtime e))
         (if local_ui then local_config (en_config e) else public_config (en_config e)))))"

definition gateway_get :: "redact_engine \<Rightarrow> gateway \<Rightarrow> string \<Rightarrow> json lp_result" where
  "gateway_get E G i = and_then (get_entry G i) (\<lambda>e. Inr (entry_view E False G e))"

definition gateway_list :: "redact_engine \<Rightarrow> gateway \<Rightarrow> json" where
  "gateway_list E G = JArray (map (\<lambda>(i, e). entry_view E False G e) (gw_entries G))"

definition desktop_list :: "redact_engine \<Rightarrow> gateway \<Rightarrow> json" where
  "desktop_list E G = JArray (map (\<lambda>(i, e). entry_view E True G e) (gw_entries G))"

definition tool_policy_of :: "server_config \<Rightarrow> string \<Rightarrow> tool_policy" where
  "tool_policy_of c tool = unwrap_or ToolPolicy_default (map_of (sc_tool_policies c) tool)"

definition set_field :: "string \<Rightarrow> json \<Rightarrow> json \<Rightarrow> json" where
  "set_field k v j = (case j of JObject fs \<Rightarrow> JObject (btree_insert k v fs) | _ \<Rightarrow> j)"

definition gateway_tools :: "redact_engine \<Rightarrow> gateway \<Rightarrow> string \<Rightarrow> json lp_result" where
  "gateway_tools E G i =
     and_then (get_entry G i) (\<lambda>e.
       if \<not> sc_enabled (en_config e) then Inl disabled_service
       else Inr (fst (redact_json E (gw_known G) (JArray (map (\<lambda>t.
         set_field ''policy'' (tool_policy_json (tool_policy_of (en_config e) (mt_name t)))
           (set_field ''serverId'' (JString i) (mt_value t))) (en_tools e))))))"

section \<open>Calls\<close>

text \<open>What an approval of a downstream operation is bound to: the configuration by its digest, and the tool as it was discovered.\<close>

definition descriptor :: "mcp_env \<Rightarrow> gateway \<Rightarrow> string \<Rightarrow> string option \<Rightarrow> json lp_result" where
  "descriptor V G i tool =
     and_then (get_entry G i) (\<lambda>e.
       if \<not> sc_enabled (en_config e) then Inl disabled_service
       else and_then (case tool of
           None \<Rightarrow> Inr JNull
         | Some name \<Rightarrow>
             (case find (\<lambda>t. mt_name t = name) (en_tools e) of
                None \<Rightarrow> Inl (LpError_new McpToolNotFound ''Tool not discovered; connect and refresh first'')
              | Some t \<Rightarrow> Inr (mt_value t)))
         (\<lambda>schema. Inr (JObject [(''configHash'', JString (mv_json_digest V (server_config_json (en_config e)))), (''tool'', schema)])))"

definition is_JObject :: "json \<Rightarrow> bool" where
  "is_JObject j = (case j of JObject fs \<Rightarrow> True | _ \<Rightarrow> False)"

text \<open>\<open>downstream\<close> is the request over the connection, with its timeout in seconds.\<close>

type_synonym downstream = "connection \<Rightarrow> u64 \<Rightarrow> string \<Rightarrow> json \<Rightarrow> json lp_result"

definition gateway_call ::
    "mcp_env \<Rightarrow> downstream \<Rightarrow> gateway \<Rightarrow> string \<Rightarrow> string \<Rightarrow> json \<Rightarrow> json \<Rightarrow> json lp_result" where
  "gateway_call V down G i tool args expected =
     and_then (get_entry G i) (\<lambda>e.
       if gw_blocked G then Inl (LpError_new EmergencyStopActive ''MCP gateway stopped'')
       else and_then (descriptor V G i (Some tool)) (\<lambda>d.
         if d \<noteq> expected then Inl (LpError_new ApprovalInvalidated ''MCP configuration or tool schema changed'')
         else (case en_connection e of
             None \<Rightarrow> Inl (LpError_new McpConnectionFailed ''MCP server is not connected'')
           | Some cx \<Rightarrow>
               if \<not> is_JObject args then Inl (LpError_invalid ''Tool arguments must be an object'')
               else down cx (sc_tool_timeout_seconds (en_config e)) tool args)))"

text \<open>\<^verbatim>\<open>refresh\<close> after the discovery over the connection it had taken. The service may have been stopped meanwhile.\<close>

definition refresh_begin :: "gateway \<Rightarrow> string \<Rightarrow> connection lp_result" where
  "refresh_begin G i =
     and_then (get_entry G i) (\<lambda>e. case en_connection e of
        None \<Rightarrow> Inl (LpError_new McpConnectionFailed ''Server is not connected'')
      | Some cx \<Rightarrow> Inr cx)"

definition refresh_finish ::
    "redact_engine \<Rightarrow> int \<Rightarrow> string \<Rightarrow> mcp_tool list lp_result \<Rightarrow> gateway \<Rightarrow> json lp_result \<times> gateway" where
  "refresh_finish E now i found G =
     (case and_then found (\<lambda>ts. and_then (get_entry G i) (\<lambda>e. Inr (ts, e))) of
        Inl e \<Rightarrow> (Inl e, G)
      | Inr (ts, e) \<Rightarrow>
          (let G1 = set_entry i (e\<lparr>en_tools := ts,
                 en_runtime := (en_runtime e)\<lparr>rt_tool_count := length ts, rt_discovered_at := Some now\<rparr>\<rparr>) G in
           (gateway_tools E G1 i, G1)))"

section \<open>Background\<close>

definition auto_start_ids :: "gateway \<Rightarrow> string list" where
  "auto_start_ids G =
     List.map_filter (\<lambda>(i, e). let c = en_config e in
       if sc_enabled c \<and> (if sc_transport c = Stdio then sc_auto_start c else sc_auto_connect c) then Some (sc_id c) else None) (gw_entries G)"

text \<open>\<^verbatim>\<open>maintain\<close> on one entry: a service that closed is stopped and degraded, then a retry becomes due, with a growing delay, as long as
  the attempts last. The second component says that a start is tried.\<close>

definition degrade :: "mcp_entry \<Rightarrow> mcp_entry" where
  "degrade e =
     (if en_connection e \<noteq> None \<and> \<not> is_live e
      then (let s = stop_entry e in
        s\<lparr>en_runtime := (en_runtime s)\<lparr>rt_status := ''degraded'', rt_last_error := Some ''Downstream MCP disconnected''\<rparr>\<rparr>)
      else e)"

definition maintain_entry :: "int \<Rightarrow> mcp_entry \<Rightarrow> bool \<times> mcp_entry" where
  "maintain_entry now e0 =
     (let e = degrade e0; r = en_runtime e; c = en_config e0 in
      if (rt_status r = ''degraded'' \<or> rt_status r = ''error'') \<and> sc_enabled c \<and> rt_restart_count r < sc_reconnect_attempts c
      then (let due = unwrap_or (now + 1000 * 2 ^ min (unat (rt_restart_count r)) 5) (rt_next_retry_at r) in
        if due \<le> now
        then (True, e\<lparr>en_runtime := r\<lparr>rt_next_retry_at := Some due, rt_restart_count := rt_restart_count r + 1\<rparr>\<rparr>)
        else (False, e\<lparr>en_runtime := r\<lparr>rt_next_retry_at := Some due\<rparr>\<rparr>))
      else (False, e))"

definition gateway_maintain :: "int \<Rightarrow> string \<Rightarrow> gateway \<Rightarrow> bool \<times> gateway" where
  "gateway_maintain now i G =
     (case (if gw_blocked G then None else map_of (gw_entries G) i) of
        None \<Rightarrow> (False, G)
      | Some e \<Rightarrow> (let (retry, e1) = maintain_entry now e in (retry, set_entry i e1 G)))"

section \<open>Launching and discovery\<close>

definition mcp_quote :: "string \<Rightarrow> string" where
  "mcp_quote arg = quote_loop [DQ] 0 arg"

definition mcp_command_line :: "string \<Rightarrow> string list \<Rightarrow> string" where
  "mcp_command_line application args = join_with [SP] (map mcp_quote (application # args))"

definition INHERITED :: "string list" where
  "INHERITED = [''SystemRoot'', ''WINDIR'', ''PATH'', ''PATHEXT'', ''TEMP'', ''TMP'', ''USERPROFILE'', ''APPDATA'', ''LOCALAPPDATA'']"

text \<open>\<open>var\<close> is \<^verbatim>\<open>std::env::var\<close>.\<close>

definition child_env :: "(string \<Rightarrow> string option) \<Rightarrow> server_config \<Rightarrow> (string \<times> string) list" where
  "child_env var c =
     fold (\<lambda>(k, v). btree_insert (to_ascii_uppercase k) v)
       (List.map_filter (\<lambda>k. map_option (\<lambda>v. (k, v)) (var k)) INHERITED @ sc_env c) []"

datatype discovery = Discovering "mcp_tool list" "string list" | Discovered "mcp_tool list lp_result"

text \<open>One page of \<^verbatim>\<open>tools/list\<close>: the tools so far with the cursors seen. \<open>bytes\<close> is the length of the serialized catalog.\<close>

definition bad_names :: "mcp_tool list \<Rightarrow> bool" where
  "bad_names ts \<longleftrightarrow> list_ex (\<lambda>t. mt_name t = []) ts \<or> \<not> distinct (map mt_name ts)"

definition discover_page ::
    "(mcp_tool list \<Rightarrow> nat) \<Rightarrow> mcp_tool list \<Rightarrow> string list \<Rightarrow> (mcp_tool list \<times> string option) option \<Rightarrow> discovery" where
  "discover_page bytes ts seen page =
     (case page of
        None \<Rightarrow> Discovered (Inl (LpError_new McpProtocolError ''MCP tools/list failed''))
      | Some (found, cursor) \<Rightarrow>
          (let all = ts @ found in
           if length all > 2000 \<or> bytes all > 4 * 1024 * 1024
           then Discovered (Inl (LpError_new McpInvalidResponse ''MCP tool catalog exceeds limits''))
           else (case cursor of
               Some c \<Rightarrow>
                 if List.member seen c then Discovered (Inl (LpError_new McpInvalidResponse ''MCP returned a repeated tool cursor''))
                 else Discovering all (c # seen)
             | None \<Rightarrow>
                 if bad_names all then Discovered (Inl (LpError_new McpInvalidResponse ''MCP tool names must be unique and nonempty''))
                 else Discovered (Inr all))))"

text \<open>The pages that came before the timeout of the discovery.\<close>

fun discover :: "(mcp_tool list \<Rightarrow> nat) \<Rightarrow> mcp_tool list \<Rightarrow> string list \<Rightarrow> (mcp_tool list \<times> string option) option list \<Rightarrow> mcp_tool list lp_result" where
  "discover bytes ts seen [] = Inl (LpError_new McpToolTimeout ''MCP tool discovery timed out'')"
| "discover bytes ts seen (p # ps) =
     (case discover_page bytes ts seen p of Discovered r \<Rightarrow> r | Discovering all seen' \<Rightarrow> discover bytes all seen' ps)"

end
