(* ===== verification/Mcp_Policy.thy ===== *)
theory Mcp_Policy
  imports Mcp_Gateway
begin

text \<open>
  Permission of downstream operations, \<^verbatim>\<open>workstation-server/src/local_mcp/policy.rs\<close>, and the tools over the gateway,
  \<^verbatim>\<open>workstation-server/src/tools/local_mcp.rs\<close>. A handler meets the gateway twice, when it is authorized and when it acts, and the two
  states may differ.
\<close>

section \<open>Risk\<close>

fun has_code :: "json \<Rightarrow> bool" where
  "has_code (JObject fs) =
     list_ex (\<lambda>(k, v). List.member [''code'', ''script'', ''python'', ''command'', ''shell'', ''expression''] (to_ascii_lowercase k) \<or> has_code v) fs"
| "has_code (JArray js) = list_ex has_code js"
| "has_code (JString s) = False"
| "has_code JNull = False"
| "has_code (JBool b) = False"
| "has_code (JNumber n) = False"

definition effective_risk :: "string \<Rightarrow> json \<Rightarrow> risk_class \<Rightarrow> risk_class" where
  "effective_risk name args configured =
     (if list_ex (contains_str (to_ascii_lowercase name)) [''execute'', ''eval'', ''python'', ''script'', ''command'', ''shell''] \<or> has_code args
      then Risk_ArbitraryCode else configured)"

definition risk_class_debug :: "risk_class \<Rightarrow> string" where
  "risk_class_debug r =
     (case r of
        Risk_ReadOnly \<Rightarrow> ''ReadOnly'' | Risk_ProjectWrite \<Rightarrow> ''ProjectWrite'' | Risk_FilesystemWrite \<Rightarrow> ''FilesystemWrite''
      | Risk_ProcessExecution \<Rightarrow> ''ProcessExecution'' | Risk_Network \<Rightarrow> ''Network'' | Risk_ApplicationControl \<Rightarrow> ''ApplicationControl''
      | Risk_ArbitraryCode \<Rightarrow> ''ArbitraryCode'' | Risk_Unknown \<Rightarrow> ''Unknown'')"

definition high_risk :: "risk_class \<Rightarrow> bool" where
  "high_risk r \<longleftrightarrow> List.member [Risk_ArbitraryCode, Risk_Unknown, Risk_ProcessExecution, Risk_FilesystemWrite, Risk_Network] r"

section \<open>Paths among the arguments\<close>

text \<open>The strings that are taken for paths, in the order in which the arguments are walked.\<close>

definition names_path :: "string \<Rightarrow> string \<Rightarrow> bool" where
  "names_path key s \<longleftrightarrow>
     (let k = to_ascii_lowercase key in
      length s < 32768 \<and> s \<noteq> [] \<and> (is_absolute s \<or> contains_str k ''path'' \<or> contains_str k ''directory''
        \<or> List.member [''file'', ''filename'', ''folder'', ''cwd''] k))"

fun path_arguments :: "string \<Rightarrow> json \<Rightarrow> string list" where
  "path_arguments key (JObject fs) = concat (map (\<lambda>(k, v). path_arguments k v) fs)"
| "path_arguments key (JArray js) = concat (map (path_arguments key) js)"
| "path_arguments key (JString s) = (if names_path key s then [s] else [])"
| "path_arguments key JNull = []"
| "path_arguments key (JBool b) = []"
| "path_arguments key (JNumber n) = []"

text \<open>\<^verbatim>\<open>broker::path_error\<close> and the error texts.\<close>

definition path_error_str :: "path_error \<Rightarrow> string" where
  "path_error_str e =
     (case e of
        Empty \<Rightarrow> ''path is empty'' | TooLong \<Rightarrow> ''path is too long'' | Unc \<Rightarrow> ''network (UNC) paths are not permitted''
      | Device \<Rightarrow> ''device namespace paths are not permitted''
      | Relative \<Rightarrow> ''drive-relative or root-relative paths are not permitted; use an absolute path''
      | AlternateStream \<Rightarrow> ''alternate data streams are not permitted'' | ReservedName \<Rightarrow> ''reserved device names are not permitted''
      | InvalidCharacters \<Rightarrow> ''path contains invalid characters'' | DanglingLink \<Rightarrow> ''path traverses a dangling link''
      | UnsupportedTarget \<Rightarrow> ''path resolves to an unsupported location'' | AccessDenied \<Rightarrow> ''access to the path was denied by Windows''
      | Io m \<Rightarrow> ''the path could not be resolved: '' @ m)"

definition broker_path_error :: "path_error \<Rightarrow> lp_error" where
  "broker_path_error e =
     (case e of
        AccessDenied \<Rightarrow> LpError_new PermissionDenied (path_error_str e)
      | Io m \<Rightarrow> LpError_new (if contains_str m ''does not exist'' then PathNotFound else InvalidArguments) (path_error_str e)
      | Empty \<Rightarrow> LpError_invalid (path_error_str e)
      | TooLong \<Rightarrow> LpError_invalid (path_error_str e)
      | _ \<Rightarrow> LpError_new PathOutsidePolicy (path_error_str e))"

definition broker_resolve :: "policy_env \<Rightarrow> string \<Rightarrow> string \<Rightarrow> expand_env \<Rightarrow> bool \<Rightarrow> canonical lp_result" where
  "broker_resolve V inp base env follow_final =
     (case resolve (ev_uc V) (ev_open V) env inp base follow_final of Inl e \<Rightarrow> Inl (broker_path_error e) | Inr c \<Rightarrow> Inr c)"

definition argument_decision ::
    "policy_env \<Rightarrow> policy_context \<Rightarrow> bool \<Rightarrow> core \<Rightarrow> decision list \<Rightarrow> string \<Rightarrow> decision list lp_result" where
  "argument_decision V pc read C ds s =
     and_then (broker_resolve V s (ro_trusted (co_roots C)) (co_env C) True)
       (\<lambda>c. Inr (ds @ [evaluate_fs V (co_policy C) (cn_path c) (if read then FA_Read else FA_Write) pc]))"

section \<open>Authorization\<close>

definition mcp_scope :: "tool_env \<Rightarrow> server_config \<Rightarrow> string \<Rightarrow> json \<Rightarrow> json \<Rightarrow> session_scope" where
  "mcp_scope V config tool args desc =
     Exact (cv_json_digest (tv_core V) (JObject [(''arguments'', args), (''descriptor'', desc), (''operation'', JString tool)]))
       (''Repeat this exact MCP operation on '' @ sc_name config)"

definition mcp_name :: "server_config \<Rightarrow> string \<Rightarrow> string" where
  "mcp_name config tool = sc_id config @ '' / '' @ tool"

definition mcp_requirement :: "server_config \<Rightarrow> string \<Rightarrow> risk_class \<Rightarrow> session_scope \<Rightarrow> approval_requirement" where
  "mcp_requirement config tool risk scope =
     \<lparr>ar_category = ''local_mcp'',
      ar_reason = sc_name config @ '' / '' @ tool @ '': '' @ risk_class_debug risk @ ''. Downstream code runs with local user access.'',
      ar_impact = ''Invoke the configured local MCP service; arbitrary code may access the host filesystem or network'',
      ar_risk = (if high_risk risk then High else Medium), ar_requires_admin = False, ar_paths = [],
      ar_command = Some (mcp_name config tool), ar_session_scope = scope\<rparr>"

definition mcp_risk :: "server_config \<Rightarrow> string \<Rightarrow> json \<Rightarrow> bool \<Rightarrow> risk_class" where
  "mcp_risk config tool args lifecycle =
     (if lifecycle then Risk_ProcessExecution else effective_risk tool args (tp_risk (tool_policy_of config tool)))"

definition runs_unasked :: "server_config \<Rightarrow> string \<Rightarrow> json \<Rightarrow> bool \<Rightarrow> bool" where
  "runs_unasked config tool args lifecycle \<longleftrightarrow>
     \<not> lifecycle \<and> \<not> high_risk (mcp_risk config tool args lifecycle)
     \<and> (tp_permission (tool_policy_of config tool) = TP_Allow \<or> sc_trusted config)"

definition mcp_decisions ::
    "tool_env \<Rightarrow> policy_context \<Rightarrow> server_config \<Rightarrow> string \<Rightarrow> json \<Rightarrow> json \<Rightarrow> bool \<Rightarrow> core \<Rightarrow> decision list lp_result" where
  "mcp_decisions V pc config tool args desc lifecycle C =
     (let risk = mcp_risk config tool args lifecycle; scope = mcp_scope V config tool args desc; P = cv_policy (tv_core V) in
      and_then (fold_until (argument_decision P pc (risk = Risk_ReadOnly) C) [] (path_arguments [] args))
        (\<lambda>ds.
          (let all = ds @ (if \<not> runs_unasked config tool args lifecycle \<and> \<not> held P pc scope
               then [RequireApproval (mcp_requirement config tool risk scope)] else []) in
           Inr (if all = [] then [Allow []] else all))))"

definition mcp_authorize ::
    "tool_env \<Rightarrow> core_world \<Rightarrow> tool_registry \<Rightarrow> (string \<Rightarrow> bool) \<Rightarrow> tool_ctx \<Rightarrow> server_config \<Rightarrow> string \<Rightarrow> json \<Rightarrow> json \<Rightarrow> bool \<Rightarrow> tool_state
     \<Rightarrow> (tool_error + unit) \<times> call_notes \<times> tool_state" where
  "mcp_authorize V w R owns ctx config tool args desc lifecycle S =
     (if settings_fault (sy_core S) \<noteq> None
      then (Inl (plain_error (LpError_new ConfigFault ''Repair configuration before invoking MCP services'')), CallNotes_default, S)
      else if tp_permission (tool_policy_of config tool) = TP_Deny
      then (Inl (plain_error (LpError_new McpPermissionDenied ''Downstream tool is denied by local policy'')), CallNotes_default, S)
      else (case mcp_decisions V (with_policy owns Structured ctx S) config tool args desc lifecycle (sy_core S) of
          Inl e \<Rightarrow> (Inl (plain_error e), CallNotes_default, S)
        | Inr ds \<Rightarrow>
            authorize V w R ctx ds desc
              \<lparr>sm_paths = [], sm_command = Some (mcp_name config tool), sm_cwd = None,
               sm_arguments = Some (fst (redact_json (tv_engine V) (tv_known V) args)),
               sm_impact = ''Downstream MCP action ('' @ risk_class_debug (mcp_risk config tool args lifecycle) @ ''); not an OS sandbox'',
               sm_session_scope_label = []\<rparr>
              (CallNotes_default\<lparr>cn_category := Some ''local_mcp'', cn_command := Some (mcp_name config tool),
                cn_source_path := Some (''mcp://'' @ sc_id config @ ''/'' @ tool)\<rparr>) S))"

section \<open>The tools\<close>

record mcp_call =
  mc_server :: string
  mc_tool :: string
  mc_arguments :: json

definition lift_result :: "json lp_result \<Rightarrow> tool_result" where
  "lift_result r = (case r of Inl e \<Rightarrow> Inl (plain_error e) | Inr v \<Rightarrow> Inr v)"

definition mcp_answer :: "json lp_result \<Rightarrow> tool_state \<Rightarrow> tool_result option \<times> call_notes \<times> tool_state" where
  "mcp_answer r S = (Some (lift_result r), CallNotes_default, S)"

definition mcp_list_servers :: "redact_engine \<Rightarrow> gateway \<Rightarrow> tool_ctx \<Rightarrow> unit \<Rightarrow> tool_state \<Rightarrow> tool_result option \<times> call_notes \<times> tool_state" where
  "mcp_list_servers E G ctx u S = mcp_answer (Inr (gateway_list E G)) S"

definition mcp_get_server :: "redact_engine \<Rightarrow> gateway \<Rightarrow> tool_ctx \<Rightarrow> string \<Rightarrow> tool_state \<Rightarrow> tool_result option \<times> call_notes \<times> tool_state" where
  "mcp_get_server E G ctx server S = mcp_answer (gateway_get E G server) S"

definition mcp_list_tools :: "redact_engine \<Rightarrow> gateway \<Rightarrow> tool_ctx \<Rightarrow> string \<Rightarrow> tool_state \<Rightarrow> tool_result option \<times> call_notes \<times> tool_state" where
  "mcp_list_tools E G ctx server S = mcp_answer (gateway_tools E G server) S"

text \<open>\<open>G\<close> is the gateway when the call is authorized, \<open>G'\<close> when it is made.\<close>

definition mcp_call_tool ::
    "mcp_env \<Rightarrow> downstream \<Rightarrow> gateway \<Rightarrow> gateway \<Rightarrow> tool_env \<Rightarrow> core_world \<Rightarrow> tool_registry \<Rightarrow> (string \<Rightarrow> bool) \<Rightarrow> tool_ctx \<Rightarrow> mcp_call \<Rightarrow> tool_state
     \<Rightarrow> tool_result option \<times> call_notes \<times> tool_state" where
  "mcp_call_tool M down G G' V w R owns ctx a S =
     (case and_then (gateway_config G (mc_server a)) (\<lambda>c. and_then (descriptor M G (mc_server a) (Some (mc_tool a))) (\<lambda>d. Inr (c, d))) of
        Inl e \<Rightarrow> mcp_answer (Inl e) S
      | Inr (config, desc) \<Rightarrow>
          (case mcp_authorize V w R owns ctx config (mc_tool a) (mc_arguments a) desc False S of
             (Inl e, n, S1) \<Rightarrow> (Some (Inl e), n, S1)
           | (Inr _, n, S1) \<Rightarrow> (Some (lift_result (gateway_call M down G' (mc_server a) (mc_tool a) (mc_arguments a) desc)), n, S1)))"

text \<open>The start, restart and stop of a service: \<open>act\<close> is what the operation makes of the gateway once it has run.\<close>

definition mcp_lifecycle ::
    "mcp_env \<Rightarrow> redact_engine \<Rightarrow> (gateway \<Rightarrow> unit lp_result \<times> gateway) \<Rightarrow> string \<Rightarrow> gateway \<Rightarrow> gateway \<Rightarrow> tool_env \<Rightarrow> core_world \<Rightarrow> tool_registry
     \<Rightarrow> (string \<Rightarrow> bool) \<Rightarrow> tool_ctx \<Rightarrow> string \<Rightarrow> tool_state \<Rightarrow> (tool_result option \<times> call_notes \<times> tool_state) \<times> gateway" where
  "mcp_lifecycle M E act op G G' V w R owns ctx server S =
     (case and_then (gateway_config G server) (\<lambda>c. and_then (descriptor M G server None) (\<lambda>d. Inr (c, d))) of
        Inl e \<Rightarrow> (mcp_answer (Inl e) S, G')
      | Inr (config, desc) \<Rightarrow>
          (case mcp_authorize V w R owns ctx config op (tc_raw_args ctx) desc True S of
             (Inl e, n, S1) \<Rightarrow> ((Some (Inl e), n, S1), G')
           | (Inr _, n, S1) \<Rightarrow>
               (case act G' of
                  (Inl e, H) \<Rightarrow> ((Some (Inl (plain_error e)), n, S1), H)
                | (Inr _, H) \<Rightarrow> ((Some (lift_result (gateway_get E H server)), n, S1), H))))"

end
