(* ===== verification/Mcp_Props.thy ===== *)
theory Mcp_Props
  imports Mcp_Policy Tool_Props Event_System
begin

text \<open>
  What the gateway guarantees: a connection is up only since a start that no stop and no Emergency Stop followed, the registry on the disk
  is the one in memory, a launched process gets the configured arguments, and a downstream call is made only when it is
  permitted, whatever the downstream service does.
\<close>

section \<open>Runs of the gateway\<close>

datatype gateway_event =
    GE_Save string
  | GE_Remove string
  | GE_Block
  | GE_Resume
  | GE_Stop string
  | GE_Start string
  | GE_Connect string
  | GE_Test string
  | GE_Note string
  | GE_Reopen

definition unlocked :: "gateway \<Rightarrow> string \<Rightarrow> bool" where
  "unlocked G i \<longleftrightarrow> (case map_of (gw_entries G) i of None \<Rightarrow> True | Some e \<Rightarrow> \<not> en_operation e)"

definition starting :: "gateway \<Rightarrow> string \<Rightarrow> bool" where
  "starting G i \<longleftrightarrow> (case map_of (gw_entries G) i of None \<Rightarrow> False | Some e \<Rightarrow> en_operation e)"

text \<open>Operations that take the lock of an entry wait for it. A test has an identifier that nothing else has.\<close>

inductive gateway_step :: "mcp_env \<Rightarrow> gateway \<Rightarrow> gateway_event \<Rightarrow> gateway \<Rightarrow> bool" for V where
  ge_save: "unlocked G (sc_id c) \<Longrightarrow> gateway_step V G (GE_Save (sc_id c)) (snd (gateway_save V ok c replace G))"
| ge_remove: "unlocked G i \<Longrightarrow> gateway_step V G (GE_Remove i) (snd (gateway_remove ok i G))"
| ge_block: "gateway_step V G GE_Block (gateway_block G)"
| ge_resume: "gateway_step V G GE_Resume (gateway_resume G)"
| ge_stop: "gateway_step V G (GE_Stop i) (snd (gateway_stop i G))"
| ge_start: "unlocked G i \<Longrightarrow> gateway_step V G (GE_Start i) (snd (start_begin i G))"
| ge_connect: "starting G i \<Longrightarrow> gateway_step V G (GE_Connect i) (snd (start_finish E now i result G))"
| ge_test: "test_begin V fresh c G = (Inr (), G') \<Longrightarrow> i = ''test-'' @ to_ascii_lowercase fresh \<Longrightarrow> map_of (gw_entries G) i = None
    \<Longrightarrow> map_of (gw_rows G) i = None \<Longrightarrow> gateway_step V G (GE_Test i) G'"
| ge_test_end: "unlocked G i \<Longrightarrow> map_of (gw_rows G) i = None \<Longrightarrow> gateway_step V G (GE_Test i) (test_end i G)"
| ge_spawned: "gateway_step V G (GE_Note i) (note_spawned i pid now G)"
| ge_log: "gateway_step V G (GE_Note i) (note_log logging at_end i chunk G)"
| ge_exit: "gateway_step V G (GE_Note i) (note_exit i exit G)"
| ge_closed: "gateway_step V G (GE_Note i) (note_closed i G)"
| ge_refresh: "gateway_step V G (GE_Note i) (snd (refresh_finish E now i found G))"
| ge_maintain: "gateway_step V G (GE_Note i) (snd (gateway_maintain now i G))"
| ge_reopen: "gateway_open V K (gw_rows G) = Inr G' \<Longrightarrow> gateway_step V G GE_Reopen G'"

lemma map_of_btree_insert [simp]: "map_of (btree_insert k v m) = (map_of m)(k \<mapsto> v)"
  by (induction m) auto

lemma map_of_set_entry [simp]:
  "map_of (gw_entries (set_entry i e G)) j =
     (if j = i then map_option (\<lambda>_. e) (map_of (gw_entries G) i) else map_of (gw_entries G) j)"
proof -
  have "map_of (map (\<lambda>(j, x). (j, if j = i then e else x)) m) j =
      (if j = i then map_option (\<lambda>_. e) (map_of m i) else map_of m j)" for m :: "(string \<times> mcp_entry) list"
    by (induction m) auto
  then show ?thesis by (simp add: set_entry_def)
qed

lemma set_entry_sel [simp]: "gw_rows (set_entry i e G) = gw_rows G" "gw_blocked (set_entry i e G) = gw_blocked G"
  by (simp_all add: set_entry_def)

lemma drop_entry_sel [simp]:
  "map_of (gw_entries (drop_entry i G)) j = (if j = i then None else map_of (gw_entries G) j)" "gw_rows (drop_entry i G) = gw_rows G"
  "gw_blocked (drop_entry i G) = gw_blocked G"
proof -
  have "map_of (filter (\<lambda>e. fst e \<noteq> i) m) j = (if j = i then None else map_of m j)" for m :: "(string \<times> mcp_entry) list"
    by (induction m) auto
  then show "map_of (gw_entries (drop_entry i G)) j = (if j = i then None else map_of (gw_entries G) j)" by (simp add: drop_entry_def)
qed (simp_all add: drop_entry_def)

lemma map_of_block [simp]: "map_of (gw_entries (gateway_block G)) j = map_option stop_entry (map_of (gw_entries G) j)"
proof -
  have "map_of (map (\<lambda>(i, e). (i, stop_entry e)) m) j = map_option stop_entry (map_of m j)" for m
    by (induction m) auto
  then show ?thesis by (simp add: gateway_block_def)
qed

lemma get_entry_Inr: "get_entry G i = Inr e \<longleftrightarrow> map_of (gw_entries G) i = Some e"
  by (auto simp: get_entry_def split: option.splits)

lemma get_entry_Inl: "get_entry G i = Inl e \<Longrightarrow> map_of (gw_entries G) i = None"
  by (auto simp: get_entry_def split: option.splits)

lemma stop_entry_sel [simp]:
  "en_connection (stop_entry e) = None" "en_cancelled (stop_entry e)" "en_operation (stop_entry e) = en_operation e"
  "en_config (stop_entry e) = en_config e" "rt_status (en_runtime (stop_entry e)) = idle_status (en_config e)"
  by (simp_all add: stop_entry_def)

lemma idle_not_connected [simp]: "idle_status c \<noteq> ''connected''" "''connected'' \<noteq> idle_status c"
  by (simp_all add: idle_status_def)

lemma Entry_new_sel [simp]:
  "en_connection (Entry_new c) = None" "\<not> en_operation (Entry_new c)" "en_config (Entry_new c) = c"
  "rt_status (en_runtime (Entry_new c)) = idle_status c"
  by (simp_all add: Entry_new_def Runtime_new_def)

lemma fold_add_entry:
  "map_of (gw_entries (fold add_entry cs G)) i =
     (case map_of (map (\<lambda>c. (sc_id c, c)) (rev cs)) i of None \<Rightarrow> map_of (gw_entries G) i | Some c \<Rightarrow> Some (Entry_new c))
   \<and> gw_rows (fold add_entry cs G) = gw_rows G \<and> gw_blocked (fold add_entry cs G) = gw_blocked G"
  by (induction cs arbitrary: G) (auto simp: add_entry_def map_add_def split: option.splits)

lemma opened:
  assumes "gateway_open V K rows = Inr G"
  obtains cs where "fold_until (\<lambda>cs r. and_then (mv_unseal V (snd r)) (\<lambda>c. Inr (cs @ [c]))) [] (sort_key fst rows) = Inr cs"
    "\<And>i. map_of (gw_entries G) i = map_option Entry_new (map_of (map (\<lambda>c. (sc_id c, c)) (rev cs)) i)" "gw_rows G = rows" "gw_blocked G"
proof -
  obtain cs where cs: "fold_until (\<lambda>cs r. and_then (mv_unseal V (snd r)) (\<lambda>c. Inr (cs @ [c]))) [] (sort_key fst rows) = Inr cs"
    "G = fold add_entry cs \<lparr>gw_rows = rows, gw_entries = [], gw_blocked = True, gw_known = K\<rparr>"
    using assms by (auto simp: gateway_open_def and_then_Inr)
  show thesis by (rule that [OF cs(1)]) (simp_all add: cs(2) fold_add_entry split: option.split)
qed

section \<open>Connections\<close>

text \<open>A service that is connected, or whose start may still connect it.\<close>

definition pending :: "mcp_entry \<Rightarrow> bool" where
  "pending e \<longleftrightarrow> en_connection e \<noteq> None \<or> (en_operation e \<and> \<not> en_cancelled e)"

definition may_connect :: "string \<Rightarrow> gateway \<Rightarrow> bool" where
  "may_connect i G \<longleftrightarrow> (case map_of (gw_entries G) i of None \<Rightarrow> False | Some e \<Rightarrow> pending e)"

definition connected :: "string \<Rightarrow> gateway \<Rightarrow> bool" where
  "connected i G \<longleftrightarrow> (case map_of (gw_entries G) i of None \<Rightarrow> False | Some e \<Rightarrow> en_connection e \<noteq> None)"

definition stops :: "string \<Rightarrow> gateway_event \<Rightarrow> bool" where
  "stops i x \<longleftrightarrow> x = GE_Stop i \<or> x = GE_Block \<or> x = GE_Reopen"

lemma may_connect_set:
  "get_entry G j = Inr e \<Longrightarrow> may_connect i (set_entry j e' G) = (if i = j then pending e' else may_connect i G)"
  by (simp add: may_connect_def get_entry_Inr)

lemma may_connect_entry: "get_entry G i = Inr e \<Longrightarrow> may_connect i G = pending e"
  by (simp add: may_connect_def get_entry_Inr)

lemma may_connect_sel [simp]:
  "may_connect i (G\<lparr>gw_rows := r\<rparr>) = may_connect i G" "may_connect i (G\<lparr>gw_known := k\<rparr>) = may_connect i G"
  "may_connect i (G\<lparr>gw_blocked := b\<rparr>) = may_connect i G" "may_connect i (drop_entry j G) = (i \<noteq> j \<and> may_connect i G)"
  "\<not> may_connect i (gateway_block G)"
  by (auto simp: may_connect_def pending_def split: option.split)

lemma may_connect_insert [simp]:
  "may_connect i (G\<lparr>gw_rows := r, gw_entries := btree_insert j e (gw_entries G)\<rparr>) = (if i = j then pending e else may_connect i G)"
  "may_connect i (G\<lparr>gw_entries := btree_insert j e (gw_entries G)\<rparr>) = (if i = j then pending e else may_connect i G)"
  "may_connect i (G\<lparr>gw_known := k, gw_rows := r, gw_entries := btree_insert j e (gw_entries G)\<rparr>) = (if i = j then pending e else may_connect i G)"
  by (simp_all add: may_connect_def)

lemma pending_simps [simp]: "\<not> pending (stop_entry e)" "\<not> pending (Entry_new c)"
  "pending (e\<lparr>en_runtime := r\<rparr>) = pending e" "pending (e\<lparr>en_tools := t\<rparr>) = pending e"
  by (simp_all add: pending_def)

text \<open>What each operation does to a pending entry.\<close>

lemma stopped_set: "may_connect i (set_entry j (stop_entry e) H) \<Longrightarrow> i \<noteq> j \<and> may_connect i H"
  by (cases "map_of (gw_entries H) j") (auto simp: may_connect_def split: if_splits)

lemma save_may_connect:
  assumes "may_connect i (snd (gateway_save V ok c0 replace G))"
  shows "may_connect i G"
proof (cases "and_then (validate_server V c0) (\<lambda>c. if replace then and_then (gateway_config G (sc_id c)) (\<lambda>old. unmask old c) else Inr c)")
  case (Inl e)
  then show ?thesis using assms by (simp add: gateway_save_def)
next
  case (Inr c)
  show ?thesis
  proof (cases "mv_seal V c")
    case (Inl e)
    then show ?thesis using assms by (simp add: gateway_save_def \<open>_ = Inr c\<close> Let_def)
  next
    case (Inr sealed)
    then show ?thesis
      using assms
      by (simp add: gateway_save_def \<open>_ = Inr c\<close> Let_def split: if_splits option.splits) (auto dest!: stopped_set split: if_splits)
  qed
qed

lemma stop_may_connect: "may_connect i (snd (gateway_stop j G)) \<Longrightarrow> i \<noteq> j \<and> may_connect i G"
  by (cases "get_entry G j")
    (auto simp: gateway_stop_def dest!: stopped_set, auto simp: may_connect_def dest: get_entry_Inl)

lemma remove_may_connect: "may_connect i (snd (gateway_remove ok j G)) \<Longrightarrow> may_connect i G"
  by (auto simp: gateway_remove_def split: sum.splits if_splits)

lemma start_may_connect: "may_connect i (snd (start_begin j G)) \<Longrightarrow> i \<noteq> j \<Longrightarrow> may_connect i G"
  by (auto simp: start_begin_def Let_def may_connect_set split: sum.splits if_splits)

lemma finish_may_connect: "may_connect i (snd (start_finish E now j result G)) \<Longrightarrow> starting G j \<Longrightarrow> may_connect i G"
proof (cases "get_entry G j")
  case (Inr e)
  assume "may_connect i (snd (start_finish E now j result G))" "starting G j"
  moreover have "en_operation e" using calculation(2) Inr by (simp add: starting_def get_entry_Inr)
  ultimately show ?thesis
    using may_connect_entry [OF Inr] may_connect_set [OF Inr]
    by (auto simp: start_finish_def Inr Let_def pending_def split: sum.splits prod.splits if_splits)
qed (simp add: start_finish_def)

lemma notes_may_connect:
  "may_connect i (note_spawned j pid now G) = may_connect i G" "may_connect i (note_log logging at_end j chunk G) = may_connect i G"
  "may_connect i (note_exit j exit G) = may_connect i G" "may_connect i (note_closed j G) = may_connect i G"
  by (auto simp: note_spawned_def note_log_def note_exit_def note_closed_def Let_def may_connect_set may_connect_entry pending_def
      split: sum.split if_splits)

lemma refresh_may_connect: "may_connect i (snd (refresh_finish E now j found G)) = may_connect i G"
proof (cases "and_then found (\<lambda>ts. and_then (get_entry G j) (\<lambda>e. Inr (ts, e)))")
  case (Inr p)
  then have "get_entry G j = Inr (snd p)" by (auto simp: and_then_Inr)
  then show ?thesis
    using Inr by (cases p) (auto simp: refresh_finish_def Let_def may_connect_set may_connect_entry)
qed (simp add: refresh_finish_def)

lemma maintain_entry_sel:
  "pending (snd (maintain_entry now e)) \<Longrightarrow> pending e" "en_config (snd (maintain_entry now e)) = en_config e"
  "en_operation (snd (maintain_entry now e)) = en_operation e"
  by (auto simp: maintain_entry_def degrade_def Let_def pending_def split: if_splits)

lemma maintained:
  "snd (gateway_maintain now j G) =
     (case (if gw_blocked G then None else map_of (gw_entries G) j) of None \<Rightarrow> G | Some e \<Rightarrow> set_entry j (snd (maintain_entry now e)) G)"
  by (simp add: gateway_maintain_def Let_def split: option.split prod.split)

lemma maintain_may_connect: "may_connect i (snd (gateway_maintain now j G)) \<Longrightarrow> may_connect i G"
  using maintain_entry_sel(1)
  by (cases "map_of (gw_entries G) j")
    (auto simp: maintained may_connect_set may_connect_entry get_entry_Inr split: if_splits)

lemma reopen_may_connect: "gateway_open V K rows = Inr G \<Longrightarrow> \<not> may_connect i G"
  by (elim opened) (auto simp: may_connect_def split: option.splits)

lemma becomes_connectable:
  assumes "gateway_step V G x G'" and "\<not> may_connect i G" and "may_connect i G'"
  shows "x = GE_Start i"
  using assms
proof (cases rule: gateway_step.cases)
  case (ge_start j)
  then show ?thesis using start_may_connect assms(2,3) by blast
next
  case (ge_test fresh c j)
  then show ?thesis using assms(2,3) by (auto simp: test_begin_def Let_def split: sum.splits if_splits)
next
  case (ge_test_end j)
  then show ?thesis using assms(2,3) by (auto simp: test_end_def dest: stop_may_connect)
next
  case (ge_save c ok replace)
  then show ?thesis using save_may_connect assms(2,3) by blast
next
  case (ge_remove j ok)
  then show ?thesis using remove_may_connect assms(2,3) by blast
next
  case (ge_stop j)
  then show ?thesis using stop_may_connect assms(2,3) by blast
next
  case (ge_connect j E now result)
  then show ?thesis using finish_may_connect assms(2,3) by blast
next
  case (ge_maintain j now)
  then show ?thesis using maintain_may_connect assms(2,3) by blast
next
  case (ge_reopen K)
  then show ?thesis using reopen_may_connect assms(3) by blast
qed (use assms(2,3) in \<open>simp_all add: gateway_resume_def notes_may_connect refresh_may_connect\<close>)

lemma stop_disconnects:
  assumes "gateway_step V G x G'" and "stops i x"
  shows "\<not> may_connect i G'"
  using assms
  by (cases rule: gateway_step.cases) (use stop_may_connect reopen_may_connect in \<open>auto simp: stops_def\<close>)

interpretation gateway_runs: enabling_system "gateway_step V" "\<lambda>_. True" "may_connect i" "\<lambda>x. x = GE_Start i" "stops i" for V i
proof
  show "gateway_step V s x t \<Longrightarrow> \<not> may_connect i s \<Longrightarrow> may_connect i t \<Longrightarrow> x = GE_Start i" for s x t
    by (rule becomes_connectable)
  show "gateway_step V s x t \<Longrightarrow> stops i x \<Longrightarrow> \<not> may_connect i t" for s x t
    by (rule stop_disconnects)
qed simp_all

lemma connected_may_connect: "connected i G \<Longrightarrow> may_connect i G"
  by (auto simp: connected_def may_connect_def pending_def split: option.splits)


section \<open>The registry on the disk\<close>

definition config_of :: "gateway \<Rightarrow> string \<Rightarrow> server_config option" where
  "config_of G i = map_option en_config (map_of (gw_entries G) i)"

text \<open>Every row is the sealed configuration of the entry with its identifier.\<close>

definition registry_ok :: "mcp_env \<Rightarrow> gateway \<Rightarrow> bool" where
  "registry_ok V G \<longleftrightarrow> keyed fst (gw_rows G)
     \<and> (\<forall>i s. map_of (gw_rows G) i = Some s \<longrightarrow> (\<exists>c. config_of G i = Some c \<and> mv_seal V c = Inr s \<and> sc_id c = i))"

lemma config_set:
  "get_entry G j = Inr e \<Longrightarrow> config_of (set_entry j e' G) i = (if i = j then Some (en_config e') else config_of G i)"
  by (simp add: config_of_def get_entry_Inr)

lemma config_entry: "get_entry G i = Inr e \<Longrightarrow> config_of G i = Some (en_config e)"
  by (simp add: config_of_def get_entry_Inr)

lemma config_kept:
  assumes "get_entry G j = Inr e" and "en_config e' = en_config e"
  shows "config_of (set_entry j e' G) i = config_of G i"
  using config_set [OF assms(1)] config_entry [OF assms(1)] assms(2) by simp

lemma registry_same: "registry_ok V G \<Longrightarrow> gw_rows G' = gw_rows G \<Longrightarrow> (\<And>i. config_of G' i = config_of G i) \<Longrightarrow> registry_ok V G'"
  by (simp add: registry_ok_def)

lemma registry_set:
  "registry_ok V G \<Longrightarrow> get_entry G j = Inr e \<Longrightarrow> en_config e' = en_config e \<Longrightarrow> registry_ok V (set_entry j e' G)"
  by (rule registry_same) (simp_all add: config_kept)

lemma gw_update_config [simp]:
  "config_of (G\<lparr>gw_rows := r\<rparr>) i = config_of G i" "config_of (G\<lparr>gw_known := k\<rparr>) i = config_of G i"
  "config_of (G\<lparr>gw_blocked := b\<rparr>) i = config_of G i" "config_of (gateway_block G) i = config_of G i"
  "config_of (drop_entry j G) i = (if i = j then None else config_of G i)"
  by (simp_all add: config_of_def option.map_comp comp_def)

lemma start_finish_config: "config_of (snd (start_finish E now j result G)) i = config_of G i"
  by (cases "get_entry G j") (auto simp: start_finish_def Let_def config_kept split: sum.splits prod.splits)

lemma start_begin_config: "config_of (snd (start_begin j G)) i = config_of G i"
  by (cases "get_entry G j") (auto simp: start_begin_def Let_def config_kept)

lemma stop_config: "config_of (snd (gateway_stop j G)) i = config_of G i"
  by (cases "get_entry G j") (auto simp: gateway_stop_def config_kept)

lemma notes_config:
  "config_of (note_spawned j pid now G) i = config_of G i" "config_of (note_log logging at_end j chunk G) i = config_of G i"
  "config_of (note_exit j exit G) i = config_of G i" "config_of (note_closed j G) i = config_of G i"
  by (auto simp: note_spawned_def note_log_def note_exit_def note_closed_def Let_def config_kept split: sum.split)

lemma refresh_config: "config_of (snd (refresh_finish E now j found G)) i = config_of G i"
proof (cases "and_then found (\<lambda>ts. and_then (get_entry G j) (\<lambda>e. Inr (ts, e)))")
  case (Inr p)
  then have "get_entry G j = Inr (snd p)" by (auto simp: and_then_Inr)
  then show ?thesis using Inr by (cases p) (simp add: refresh_finish_def Let_def config_kept)
qed (simp add: refresh_finish_def)

lemma maintain_config: "config_of (snd (gateway_maintain now j G)) i = config_of G i"
  using maintain_entry_sel(2)
  by (cases "map_of (gw_entries G) j") (auto simp: maintained config_kept get_entry_Inr)

lemma step_rows:
  "gw_rows (snd (start_finish E now j result G)) = gw_rows G" "gw_rows (snd (start_begin j G)) = gw_rows G"
  "gw_rows (snd (gateway_stop j G)) = gw_rows G" "gw_rows (note_spawned j pid now G) = gw_rows G"
  "gw_rows (note_log logging at_end j chunk G) = gw_rows G" "gw_rows (note_exit j exit G) = gw_rows G"
  "gw_rows (note_closed j G) = gw_rows G" "gw_rows (snd (refresh_finish E now j found G)) = gw_rows G"
  "gw_rows (snd (gateway_maintain now j G)) = gw_rows G" "gw_rows (gateway_block G) = gw_rows G"
  by (simp_all add: start_finish_def start_begin_def gateway_stop_def note_spawned_def note_log_def note_exit_def note_closed_def
      refresh_finish_def maintained gateway_block_def Let_def split: sum.split prod.split option.split)

lemma map_of_update_where: "map_of (update_where (\<lambda>r. fst r = k) (\<lambda>r. (fst r, v)) rows) i =
    (if i = k then map_option (\<lambda>_. v) (map_of rows k) else map_of rows i)"
  by (induction rows) (auto simp: update_where_def)

lemma keyed_update_where: "keyed fst rows \<Longrightarrow> keyed fst (update_where P (\<lambda>r. (fst r, v)) rows)"
proof -
  have "map fst (update_where P (\<lambda>r. (fst r, v)) rows) = map fst rows" by (induction rows) (auto simp: update_where_def)
  then show "keyed fst rows \<Longrightarrow> ?thesis" by (simp add: keyed_def)
qed

lemma inserted_row:
  assumes "insert_by fst (k, v) rows = Some rows'"
  shows "map_of rows' = (map_of rows)(k \<mapsto> v) \<and> (keyed fst rows \<longrightarrow> keyed fst rows')"
proof -
  have r: "rows' = rows @ [(k, v)]" and k: "k \<notin> fst ` set rows"
    using assms by (auto simp: insert_by_def list_ex_iff split: if_splits)
  have "map_of (xs @ [(k, v)]) = (map_of xs)(k \<mapsto> v)" if "k \<notin> fst ` set xs" for xs
    using that by (induction xs) (auto simp: fun_upd_twist)
  then show ?thesis using k by (auto simp: r keyed_def)
qed

lemma save_registry:
  assumes "registry_ok V G"
  shows "registry_ok V (snd (gateway_save V ok c0 replace G))"
proof (cases "and_then (validate_server V c0) (\<lambda>c. if replace then and_then (gateway_config G (sc_id c)) (\<lambda>old. unmask old c) else Inr c)")
  case (Inl e)
  then show ?thesis using assms by (simp add: gateway_save_def)
next
  case c: (Inr c)
  let ?G = "G\<lparr>gw_known := known_env c (gw_known G)\<rparr>"
  have G: "registry_ok V ?G" using assms by (rule registry_same) simp_all
  show ?thesis
  proof (cases "mv_seal V c")
    case (Inl e)
    then show ?thesis using G by (simp add: gateway_save_def c Let_def)
  next
    case s: (Inr sealed)
    show ?thesis
    proof (cases "map_of (gw_entries G) (sc_id c)")
      case None
      have "registry_ok V (?G\<lparr>gw_rows := rows, gw_entries := btree_insert (sc_id c) (Entry_new c) (gw_entries G)\<rparr>)"
        if "insert_by fst (sc_id c, sealed) (gw_rows G) = Some rows" for rows
      proof -
        have r: "map_of rows = (map_of (gw_rows G))(sc_id c \<mapsto> sealed)" "keyed fst rows"
          using inserted_row [OF that] assms by (simp_all add: registry_ok_def)
        show ?thesis
          using assms r s None by (auto simp: registry_ok_def config_of_def)
      qed
      then show ?thesis using G None by (auto simp: gateway_save_def c s Let_def split: option.splits)
    next
      case (Some e)
      have "registry_ok V (set_entry (sc_id c) (stop_entry ((stop_entry e)\<lparr>en_config := c\<rparr>))
          (?G\<lparr>gw_rows := update_where (\<lambda>r. fst r = sc_id c) (\<lambda>r. (fst r, sealed)) (gw_rows G)\<rparr>))"
        using assms s Some by (auto simp: registry_ok_def config_of_def map_of_update_where keyed_update_where)
      then show ?thesis using G Some by (simp add: gateway_save_def c s Let_def)
    qed
  qed
qed

lemma remove_registry:
  assumes "registry_ok V G"
  shows "registry_ok V (snd (gateway_remove ok i G))"
proof -
  have m: "map_of (delete_where (\<lambda>r. fst r = i) rows) j = (if j = i then None else map_of rows j)" for rows :: "(string \<times> string) list" and j
    by (induction rows) (auto simp: delete_where_def)
  have k: "keyed fst rows \<Longrightarrow> keyed fst (delete_where (\<lambda>r. fst r = i) rows)" for rows :: "(string \<times> string) list"
    by (induction rows) (auto simp: delete_where_def keyed_def)
  show ?thesis
    using assms by (cases "get_entry G i") (auto simp: gateway_remove_def registry_ok_def m k)
qed

text \<open>Unsealing gives back what was sealed.\<close>

definition unseals :: "mcp_env \<Rightarrow> bool" where
  "unseals V \<longleftrightarrow> (\<forall>c s. mv_seal V c = Inr s \<longrightarrow> mv_unseal V s = Inr c)"

lemma unseal_all:
  assumes "\<And>r. r \<in> set rows \<Longrightarrow> mv_unseal V (snd r) = Inr (f r)"
  shows "fold_until (\<lambda>cs r. and_then (mv_unseal V (snd r)) (\<lambda>c. Inr (cs @ [c]))) pre rows = Inr (pre @ map f rows)"
  using assms by (induction rows arbitrary: pre) auto

lemma fold_add_config:
  "gw_entries G = [] \<Longrightarrow> config_of (fold add_entry cs G) i = map_of (map (\<lambda>c. (sc_id c, c)) (rev cs)) i"
  by (simp add: config_of_def fold_add_entry split: option.split)

lemma test_begin_config:
  assumes "test_begin V fresh c G = (Inr (), G')" and "j \<noteq> ''test-'' @ to_ascii_lowercase fresh"
  shows "gw_rows G' = gw_rows G \<and> config_of G' j = config_of G j"
  using assms by (cases "validate_server V c") (auto simp: test_begin_def Let_def config_of_def)

lemma reopen_works:
  assumes "registry_ok V G" and "unseals V"
  shows "\<exists>H. gateway_open V K (gw_rows G) = Inr H \<and> gw_blocked H \<and> gw_rows H = gw_rows G
    \<and> (\<forall>i. config_of H i = (if map_of (gw_rows G) i = None then None else config_of G i))"
proof -
  let ?f = "\<lambda>r. the (config_of G (fst r))" and ?rows = "sort_key fst (gw_rows G)"
  have row: "\<exists>c. config_of G (fst r) = Some c \<and> mv_unseal V (snd r) = Inr c \<and> sc_id c = fst r" if "r \<in> set (gw_rows G)" for r
  proof -
    have "map_of (gw_rows G) (fst r) = Some (snd r)"
      using that assms(1) by (simp add: registry_ok_def keyed_def)
    then show ?thesis using assms by (fastforce simp: registry_ok_def unseals_def)
  qed
  have cs: "fold_until (\<lambda>cs r. and_then (mv_unseal V (snd r)) (\<lambda>c. Inr (cs @ [c]))) [] ?rows = Inr (map ?f ?rows)"
    by (rule unseal_all [where pre = "[]", simplified]) (use row in fastforce)
  let ?cs = "map ?f ?rows"
  have m: "map_of (map (\<lambda>c. (sc_id c, c)) (rev ?cs)) i = (if map_of (gw_rows G) i = None then None else config_of G i)" for i
  proof -
    have "map (\<lambda>c. (sc_id c, c)) (rev ?cs) = map (\<lambda>r. (fst r, ?f r)) (rev ?rows)"
      using row by (fastforce simp: rev_map)
    moreover have "map_of (map (\<lambda>r. (fst r, the (config_of G (fst r)))) xs) i =
        (if i \<in> fst ` set xs then Some (the (config_of G i)) else None)" for xs :: "(string \<times> string) list"
      by (induction xs) auto
    moreover have "config_of G i \<noteq> None" if "i \<in> fst ` set (gw_rows G)" using that row by fastforce
    ultimately show ?thesis by (auto simp: map_of_eq_None_iff)
  qed
  have "gateway_open V K (gw_rows G) = Inr (fold add_entry ?cs \<lparr>gw_rows = gw_rows G, gw_entries = [], gw_blocked = True, gw_known = K\<rparr>)"
    by (simp only: gateway_open_def cs and_then.simps)
  moreover have "config_of (fold add_entry ?cs \<lparr>gw_rows = gw_rows G, gw_entries = [], gw_blocked = True, gw_known = K\<rparr>) i =
      map_of (map (\<lambda>c. (sc_id c, c)) (rev ?cs)) i" for i
    by (rule fold_add_config) simp
  ultimately show ?thesis
    using m fold_add_entry [of ?cs "\<lparr>gw_rows = gw_rows G, gw_entries = [], gw_blocked = True, gw_known = K\<rparr>"]
    by (intro exI [of _ "fold add_entry ?cs \<lparr>gw_rows = gw_rows G, gw_entries = [], gw_blocked = True, gw_known = K\<rparr>"]) simp
qed

lemma step_registry:
  assumes "registry_ok V G" and "gateway_step V G x G'" and "unseals V"
  shows "registry_ok V G'"
  using assms(2)
proof (cases rule: gateway_step.cases)
  case (ge_test fresh c i)
  then have "gw_rows G' = gw_rows G" by (cases "validate_server V c") (auto simp: test_begin_def Let_def)
  moreover have "config_of G' j = config_of G j" if "map_of (gw_rows G) j \<noteq> None" for j
    using test_begin_config [OF ge_test(2), of j] that ge_test(3,5) by metis
  ultimately show ?thesis using assms(1) by (simp add: registry_ok_def)
next
  case (ge_test_end i)
  then have "gw_rows G' = gw_rows G" by (simp add: test_end_def step_rows)
  moreover have "config_of G' j = config_of G j" if "map_of (gw_rows G) j \<noteq> None" for j
    using that ge_test_end(2,4) by (auto simp: test_end_def stop_config)
  ultimately show ?thesis using assms(1) by (simp add: registry_ok_def)
next
  case (ge_reopen K)
  obtain H where "gateway_open V K (gw_rows G) = Inr H" "gw_rows H = gw_rows G"
    "\<forall>i. config_of H i = (if map_of (gw_rows G) i = None then None else config_of G i)"
    using reopen_works [OF assms(1,3)] by metis
  then show ?thesis using ge_reopen(2) assms(1) by (auto simp: registry_ok_def)
qed (auto intro: save_registry [OF assms(1)] remove_registry [OF assms(1)] registry_same [OF assms(1)]
    simp: step_rows start_finish_config start_begin_config stop_config notes_config refresh_config maintain_config gateway_resume_def)

text \<open>C39: The registry survives a restart: over any run from an empty registry, with failed writes, tests and restarts, opening the table again
  succeeds and gives exactly the saved services with the configurations they had, all of them stopped and the gateway blocked until
  the user resumes, provided that unsealing a configuration gives back what was sealed.\<close>

theorem registry_survives_restart:
  assumes "gateway_open V K [] = Inr G0" and "run (gateway_step V) G0 es G" and "unseals V"
  shows "\<exists>H. gateway_open V K' (gw_rows G) = Inr H \<and> gw_blocked H
    \<and> (\<forall>i. \<not> connected i H \<and> config_of H i = (if map_of (gw_rows G) i = None then None else config_of G i))"
proof -
  have "gw_rows G0 = []" using assms(1) by (elim opened) simp
  then have "registry_ok V G0" by (simp add: registry_ok_def keyed_def)
  with assms(2) have "registry_ok V G"
    by (induction rule: run.induct) (auto intro: step_registry [OF _ _ assms(3)])
  then obtain H where H: "gateway_open V K' (gw_rows G) = Inr H" "gw_blocked H"
    "\<forall>i. config_of H i = (if map_of (gw_rows G) i = None then None else config_of G i)"
    using reopen_works [OF _ assms(3)] by metis
  moreover have "\<not> connected i H" for i using reopen_may_connect [OF H(1)] connected_may_connect by blast
  ultimately show ?thesis by blast
qed

section \<open>Launching\<close>

lemma mcp_quote_read:
  assumes "r = [] \<or> (\<exists>r'. r = SP # r')"
  shows "win_args_loop (args_ready args) (mcp_quote a @ r) =
    win_args_loop \<lparr>as_args = args, as_cur = a, as_in_quote = False, as_started = True\<rparr> r"
proof -
  let ?s = "(args_ready args)\<lparr>as_in_quote := True, as_started := True\<rparr>"
  have r: "\<not> starts_with r [DQ]" using assms by (auto simp: starts_with_def)
  have "win_args_loop (args_ready args) (mcp_quote a @ r) = win_args_loop ?s (quote_loop [] 0 a @ r)"
    unfolding mcp_quote_def quote_loop_acc [of "[DQ]"] by (simp add: win_args_step_def args_ready_def)
  also have "\<dots> = win_args_loop \<lparr>as_args = args, as_cur = a, as_in_quote = False, as_started = True\<rparr> r"
    by (subst win_args_loop_quote_tail [OF _ r]) (simp_all add: args_ready_def)
  finally show ?thesis .
qed

lemma mcp_join_read: "args_finish (win_args_loop (args_ready pre) (join_with [SP] (map mcp_quote args))) = pre @ args"
proof (induction args arbitrary: pre)
  case Nil
  then show ?case by (simp add: args_finish_def args_ready_def)
next
  case (Cons a args)
  show ?case
  proof (cases args)
    case Nil
    with mcp_quote_read [of "[]" pre a] show ?thesis by (simp add: args_finish_def)
  next
    case (Cons b rest)
    then have "win_args_loop (args_ready pre) (join_with [SP] (map mcp_quote (a # args))) =
        win_args_loop \<lparr>as_args = pre, as_cur = a, as_in_quote = False, as_started = True\<rparr> (SP # join_with [SP] (map mcp_quote args))"
      by (simp add: mcp_quote_read del: win_args_loop.simps)
    also have "\<dots> = win_args_loop (args_ready (pre @ [a])) (join_with [SP] (map mcp_quote args))"
      by (simp add: win_args_step_def args_ready_def)
    finally show ?thesis using Cons.IH [of "pre @ [a]"] by simp
  qed
qed

text \<open>A service is launched with exactly its configured arguments: whatever characters they hold, the command line that is built splits
  into the executable and the arguments again, so that no argument can add another or end the quotation.\<close>

theorem command_line_roundtrip: "split_windows_args (mcp_command_line application args) = application # args"
  using mcp_join_read [of "[]" "application # args"]
  by (simp add: split_windows_args_def args_init_def args_ready_def mcp_command_line_def)

text \<open>The environment of the process has the listed variables and the configured ones, no others.\<close>

lemma child_env_names:
  "(k, v) \<in> set (child_env var c) \<Longrightarrow> k \<in> to_ascii_uppercase ` (set INHERITED \<union> fst ` set (sc_env c))"
proof -
  have ins: "fst ` set (btree_insert k v m) \<subseteq> insert k (fst ` set m)" for k v and m :: "(string \<times> string) list"
  proof (induction m)
    case (Cons x m)
    then show ?case by (cases x) (simp, blast)
  qed simp
  have "fst ` set (fold (\<lambda>(k, v). btree_insert (to_ascii_uppercase k) v) xs m) \<subseteq> to_ascii_uppercase ` fst ` set xs \<union> fst ` set m"
    for xs and m :: "(string \<times> string) list"
  proof (induction xs arbitrary: m)
    case (Cons x xs)
    obtain k v where x: "x = (k, v)" by fastforce
    have "fst ` set (fold (\<lambda>(k, v). btree_insert (to_ascii_uppercase k) v) (x # xs) m)
        \<subseteq> to_ascii_uppercase ` fst ` set xs \<union> fst ` set (btree_insert (to_ascii_uppercase k) v m)"
      using Cons.IH [of "btree_insert (to_ascii_uppercase k) v m"] by (simp add: x)
    also have "\<dots> \<subseteq> to_ascii_uppercase ` fst ` set (x # xs) \<union> fst ` set m"
      using ins [of "to_ascii_uppercase k" v m] by (auto simp: x)
    finally show ?case .
  qed simp
  then have sub: "fst ` set (child_env var c) \<subseteq>
      to_ascii_uppercase ` fst ` set (List.map_filter (\<lambda>k. map_option (\<lambda>v. (k, v)) (var k)) INHERITED @ sc_env c)"
    unfolding child_env_def by (metis (no_types, lifting) Un_empty_right image_empty list.set(1))
  have inh: "fst ` set (List.map_filter (\<lambda>k. map_option (\<lambda>v. (k, v)) (var k)) INHERITED) \<subseteq> set INHERITED"
    by (auto simp: List.map_filter_def split: option.splits)
  assume "(k, v) \<in> set (child_env var c)"
  then have "k \<in> fst ` set (child_env var c)" by (rule image_eqI [rotated]) simp
  then have "k \<in> to_ascii_uppercase ` (fst ` set (List.map_filter (\<lambda>k. map_option (\<lambda>v. (k, v)) (var k)) INHERITED) \<union> fst ` set (sc_env c))"
    using sub by (simp only: set_append image_Un) blast
  then show ?thesis using inh by blast
qed

section \<open>Permission of a call\<close>

lemma risk_only_raised: "high_risk configured \<Longrightarrow> high_risk (effective_risk tool args configured)"
  by (simp add: effective_risk_def high_risk_def)

definition argument_verdict :: "policy_env \<Rightarrow> policy_context \<Rightarrow> bool \<Rightarrow> core \<Rightarrow> string \<Rightarrow> decision lp_result" where
  "argument_verdict P pc read C s =
     map_sum id (\<lambda>k. evaluate_fs P (co_policy C) (cn_path k) (if read then FA_Read else FA_Write) pc)
       (broker_resolve P s (ro_trusted (co_roots C)) (co_env C) True)"

text \<open>What must hold when the request goes over the connection \<open>cx\<close>.\<close>

definition permitted_call ::
    "mcp_env \<Rightarrow> gateway \<Rightarrow> gateway \<Rightarrow> tool_env \<Rightarrow> (string \<Rightarrow> bool) \<Rightarrow> tool_ctx \<Rightarrow> mcp_call \<Rightarrow> tool_state \<Rightarrow> connection \<Rightarrow> bool" where
  "permitted_call M G G' V owns ctx a S cx \<longleftrightarrow>
     (case (gateway_config G (mc_server a), descriptor M G (mc_server a) (Some (mc_tool a)), get_entry G' (mc_server a)) of
        (Inr c, Inr d, Inr e) \<Rightarrow>
          (let C = sy_core S; P = cv_policy (tv_core V); pc = with_policy owns Structured ctx S;
               resumed = (map_option rg_descriptor_digest (tc_resume ctx) = Some (call_digest V ctx d));
               read = (mcp_risk c (mc_tool a) (mc_arguments a) False = Risk_ReadOnly) in
           settings_fault C = None \<and> tp_permission (tool_policy_of c (mc_tool a)) \<noteq> TP_Deny
           \<and> list_all (\<lambda>s. case argument_verdict P pc read C s of Inl x \<Rightarrow> False | Inr v \<Rightarrow> \<not> denies v \<and> (is_allow v \<or> resumed))
               (path_arguments [] (mc_arguments a))
           \<and> (resumed \<or> held P pc (mcp_scope V c (mc_tool a) (mc_arguments a) d)
             \<or> \<not> high_risk (effective_risk (mc_tool a) (mc_arguments a) (tp_risk (tool_policy_of c (mc_tool a))))
               \<and> (tp_permission (tool_policy_of c (mc_tool a)) = TP_Allow \<or> sc_trusted c))
           \<and> \<not> gw_blocked G' \<and> descriptor M G' (mc_server a) (Some (mc_tool a)) = Inr d \<and> en_connection e = Some cx)
      | _ \<Rightarrow> False)"

lemma argument_fold:
  "fold_until (argument_decision P pc read C) ds0 xs = Inr ds \<Longrightarrow>
     \<exists>es. ds = ds0 @ es \<and> map (argument_verdict P pc read C) xs = map Inr es"
proof (induction xs arbitrary: ds0)
  case (Cons x xs)
  then obtain k where k: "broker_resolve P x (ro_trusted (co_roots C)) (co_env C) True = Inr k"
    "fold_until (argument_decision P pc read C) (ds0 @ [evaluate_fs P (co_policy C) (cn_path k) (if read then FA_Read else FA_Write) pc]) xs = Inr ds"
    by (auto simp: argument_decision_def [of P pc read C ds0 x] and_then_Inr)
  from Cons.IH [OF k(2)] show ?case using k(1) by (auto simp: argument_verdict_def)
qed simp

lemma no_requirement_allows: "\<not> denies d \<Longrightarrow> requirements_of d = [] \<longleftrightarrow> is_allow d"
  by (cases d) simp_all

lemma unasked_is_low:
  "runs_unasked c tool args False \<Longrightarrow> \<not> high_risk (effective_risk tool args (tp_risk (tool_policy_of c tool)))
     \<and> (tp_permission (tool_policy_of c tool) = TP_Allow \<or> sc_trusted c)"
  by (simp add: runs_unasked_def mcp_risk_def)

lemma decisions_passed:
  assumes "mcp_decisions V pc c tool args d False C = Inr ds" and "\<not> list_ex denies ds"
    and "concat (map requirements_of ds) = [] \<or> resumed"
  shows "list_all (\<lambda>s. case argument_verdict (cv_policy (tv_core V)) pc (mcp_risk c tool args False = Risk_ReadOnly) C s of
      Inl x \<Rightarrow> False | Inr v \<Rightarrow> \<not> denies v \<and> (is_allow v \<or> resumed)) (path_arguments [] args)
    \<and> (resumed \<or> runs_unasked c tool args False \<or> held (cv_policy (tv_core V)) pc (mcp_scope V c tool args d))"
proof -
  let ?v = "argument_verdict (cv_policy (tv_core V)) pc (mcp_risk c tool args False = Risk_ReadOnly) C"
  obtain es where f: "fold_until (argument_decision (cv_policy (tv_core V)) pc (mcp_risk c tool args False = Risk_ReadOnly) C) []
      (path_arguments [] args) = Inr es"
    using assms(1) by (auto simp: mcp_decisions_def Let_def and_then_Inr)
  have es: "map ?v (path_arguments [] args) = map Inr es" using argument_fold [OF f] by simp
  have ds: "set es \<subseteq> set ds"
    "\<not> runs_unasked c tool args False \<Longrightarrow> \<not> held (cv_policy (tv_core V)) pc (mcp_scope V c tool args d) \<Longrightarrow>
      RequireApproval (mcp_requirement c tool (mcp_risk c tool args False) (mcp_scope V c tool args d)) \<in> set ds"
    using assms(1) f by (auto simp: mcp_decisions_def Let_def split: if_splits)
  have ok: "\<not> denies v \<and> (is_allow v \<or> resumed)" if "v \<in> set es" for v
    using that ds(1) assms(2,3) no_requirement_allows by (fastforce simp: list_ex_iff)
  have "\<exists>v. ?v s = Inr v \<and> v \<in> set es" if "s \<in> set (path_arguments [] args)" for s
  proof -
    have "?v s \<in> set (map Inr es)" using that es by (metis image_eqI list.set_map)
    then show ?thesis by auto
  qed
  then have "list_all (\<lambda>s. case ?v s of Inl x \<Rightarrow> False | Inr v \<Rightarrow> \<not> denies v \<and> (is_allow v \<or> resumed)) (path_arguments [] args)"
    using ok by (fastforce simp: list_all_iff)
  moreover have "resumed \<or> runs_unasked c tool args False \<or> held (cv_policy (tv_core V)) pc (mcp_scope V c tool args d)"
    using ds(2) assms(3) by fastforce
  ultimately show ?thesis by blast
qed

text \<open>C18: A downstream request is made only when it is permitted: exchanging what the downstream service answers changes nothing about the tool call,
  unless the two answer differently to a call for which the settings are sound, the tool is not denied, every argument taken for a path
  passed the file rules, the call may run unasked or was approved, the gateway is not blocked, and configuration and tool are the ones
  that were authorized. High-risk operations never run unasked.\<close>

theorem downstream_needs_permission:
  assumes "\<And>cx t. permitted_call M G G' V owns ctx a S cx \<Longrightarrow> down cx t (mc_tool a) (mc_arguments a) = down' cx t (mc_tool a) (mc_arguments a)"
  shows "mcp_call_tool M down G G' V w R owns ctx a S = mcp_call_tool M down' G G' V w R owns ctx a S"
proof (cases "and_then (gateway_config G (mc_server a)) (\<lambda>c. and_then (descriptor M G (mc_server a) (Some (mc_tool a))) (\<lambda>d. Inr (c, d)))")
  case (Inl e)
  then show ?thesis by (simp add: mcp_call_tool_def)
next
  case (Inr p)
  then obtain c d where p: "p = (c, d)" "gateway_config G (mc_server a) = Inr c" "descriptor M G (mc_server a) (Some (mc_tool a)) = Inr d"
    by (auto simp: and_then_Inr)
  obtain r n S1 where auth: "mcp_authorize V w R owns ctx c (mc_tool a) (mc_arguments a) d False S = (r, n, S1)" by (metis prod.exhaust)
  show ?thesis
  proof (cases r)
    case (Inl e)
    then show ?thesis by (simp add: mcp_call_tool_def \<open>_ = Inr p\<close> p(1) auth)
  next
    case ok: (Inr u)
    obtain ds where ds: "mcp_decisions V (with_policy owns Structured ctx S) c (mc_tool a) (mc_arguments a) d False (sy_core S) = Inr ds"
      and s: "settings_fault (sy_core S) = None" "tp_permission (tool_policy_of c (mc_tool a)) \<noteq> TP_Deny"
      using auth ok by (auto simp: mcp_authorize_def split: if_splits sum.splits)
    obtain sm n0 where "authorize V w R ctx ds d sm n0 S = (Inr u, n, S1)"
      using auth ok s ds by (simp add: mcp_authorize_def)
    then have "fst (authorize V w R ctx ds d sm n0 S) = Inr ()" by simp
    then have "\<not> list_ex denies ds \<and> (concat (map requirements_of ds) = []
        \<or> map_option rg_descriptor_digest (tc_resume ctx) = Some (call_digest V ctx d))"
      unfolding authorize_passes .
    note passed = decisions_passed [OF ds conjunct1 [OF this] conjunct2 [OF this]] and low = unasked_is_low [of c "mc_tool a" "mc_arguments a"]
    have "gateway_call M down G' (mc_server a) (mc_tool a) (mc_arguments a) d = gateway_call M down' G' (mc_server a) (mc_tool a) (mc_arguments a) d"
    proof (cases "get_entry G' (mc_server a)")
      case (Inr e)
      have "down cx t (mc_tool a) (mc_arguments a) = down' cx t (mc_tool a) (mc_arguments a)"
        if "\<not> gw_blocked G'" "descriptor M G' (mc_server a) (Some (mc_tool a)) = Inr d" "en_connection e = Some cx" for cx t
        by (rule assms) (use that passed low s Inr p in \<open>auto simp: permitted_call_def Let_def simp del: map_option_eq_Some\<close>)
      then show ?thesis
        by (cases "descriptor M G' (mc_server a) (Some (mc_tool a))") (simp_all add: gateway_call_def Inr split: option.split)
    qed (simp add: gateway_call_def)
    then show ?thesis by (simp add: mcp_call_tool_def \<open>_ = Inr p\<close> p(1) auth ok)
  qed
qed

end
