(* ===== verification/Mcp_Examples.thy ===== *)
theory Mcp_Examples
  imports Mcp_Props Tool_Examples
begin

text \<open>One service over HTTP: saved, started, connected, called, and found again after a restart.\<close>

definition hub_config :: server_config where
  "hub_config = ServerConfig_default\<lparr>sc_id := ''hub'', sc_name := ''Hub'', sc_transport := StreamableHttp, sc_url := ''http://localhost/mcp'',
     sc_tool_policies := [(''note'', \<lparr>tp_risk = Risk_ReadOnly, tp_permission = TP_Allow\<rparr>)]\<rparr>"

definition hub_url :: url where
  "hub_url = \<lparr>url_scheme = ''http'', url_host = Some ''localhost'', url_query = None, url_fragment = None, url_username = [],
     url_password = None, url_path = ''/mcp''\<rparr>"

definition hub_env :: mcp_env where
  "hub_env = \<lparr>mv_config_bytes = (\<lambda>c. 100), mv_is_dir = (\<lambda>d. True), mv_url_parse = (\<lambda>s. Some hub_url),
     mv_seal = (\<lambda>c. if c = hub_config then Inr ''sealed'' else Inl LpError_internal), mv_unseal = (\<lambda>s. Inr hub_config),
     mv_json_digest = (\<lambda>j. ''cfg'')\<rparr>"

definition hub_empty :: gateway where
  "hub_empty = \<lparr>gw_rows = [], gw_entries = [], gw_blocked = True, gw_known = []\<rparr>"

definition hub_saved :: gateway where
  "hub_saved = snd (gateway_save hub_env True hub_config False hub_empty)"

definition hub_starting :: gateway where
  "hub_starting = snd (start_begin ''hub'' (gateway_resume hub_saved))"

definition hub_link :: connection where
  "hub_link = \<lparr>cx_closed = False, cx_pid = None, cx_info = None\<rparr>"

definition hub_engine :: redact_engine where
  "hub_engine = \<lparr>rg_matches = (\<lambda>p s. ([], s)), rg_lossy = (\<lambda>s. s)\<rparr>"

definition hub_found :: "(connection \<times> mcp_tool list) lp_result" where
  "hub_found = Inr (hub_link, [\<lparr>mt_name = ''note'', mt_value = JObject [(''name'', JString ''note'')]\<rparr>])"

definition hub_up :: gateway where
  "hub_up = snd (start_finish hub_engine 5 ''hub'' hub_found hub_starting)"

lemma hub_opens: "gateway_open hub_env [] [] = Inr hub_empty"
  by (simp add: gateway_open_def hub_empty_def)

lemma hub_unseals: "unseals hub_env"
  by (simp add: unseals_def hub_env_def)

lemma hub_run: "run (gateway_step hub_env) hub_empty [GE_Save ''hub'', GE_Resume, GE_Start ''hub'', GE_Connect ''hub''] hub_up"
proof -
  have 1: "gateway_step hub_env hub_empty (GE_Save ''hub'') hub_saved"
  proof -
    have "sc_id hub_config = ''hub''" "unlocked hub_empty ''hub''" by code_simp+
    then show ?thesis using ge_save [of hub_empty hub_config hub_env True False] by (simp add: hub_saved_def)
  qed
  have 2: "unlocked (gateway_resume hub_saved) ''hub''" by code_simp
  have 3: "starting hub_starting ''hub''" by code_simp
  show ?thesis
    using 1 ge_resume [of hub_env hub_saved] ge_start [OF 2, of hub_env] ge_connect [OF 3, of hub_env hub_engine 5 hub_found]
    unfolding run_Cons hub_up_def hub_starting_def [symmetric] by (blast intro: run_nil)
qed


theorem registry_survives_restart_witness:
  "\<exists>H. gateway_open hub_env [] (gw_rows hub_up) = Inr H \<and> gw_blocked H
    \<and> (\<forall>i. \<not> connected i H \<and> config_of H i = (if map_of (gw_rows hub_up) i = None then None else config_of hub_up i))"
  by (rule registry_survives_restart [OF hub_opens hub_run hub_unseals])

definition hub_call :: mcp_call where
  "hub_call = \<lparr>mc_server = ''hub'', mc_tool = ''note'', mc_arguments = JObject [(''count'', JNumber ''2'')]\<rparr>"

definition hub_ctx :: tool_ctx where
  "hub_ctx = resume_ctx\<lparr>tc_tool := ''local_mcp_call_tool''\<rparr>"

text \<open>A service that answers permitted calls only.\<close>

definition hub_answers :: downstream where
  "hub_answers cx t tool args = Inr (JString ''done'')"

definition hub_guarded :: downstream where
  "hub_guarded cx t tool args =
     (if permitted_call hub_env hub_up hub_up call_env (\<lambda>t. False) hub_ctx hub_call call_state cx then Inr (JString ''done'')
      else Inl LpError_internal)"

lemma hub_called:
  "fst (mcp_call_tool hub_env hub_answers hub_up hub_up call_env service_world call_registry (\<lambda>t. False) hub_ctx hub_call call_state)
     = Some (Inr (JString ''done''))"
  by code_simp

theorem downstream_needs_permission_witness:
  "fst (mcp_call_tool hub_env hub_guarded hub_up hub_up call_env service_world call_registry (\<lambda>t. False) hub_ctx hub_call call_state)
     = Some (Inr (JString ''done''))"
proof -
  have "mcp_call_tool hub_env hub_guarded hub_up hub_up call_env service_world call_registry (\<lambda>t. False) hub_ctx hub_call call_state
      = mcp_call_tool hub_env hub_answers hub_up hub_up call_env service_world call_registry (\<lambda>t. False) hub_ctx hub_call call_state"
    by (rule downstream_needs_permission) (simp add: hub_guarded_def hub_answers_def)
  then show ?thesis using hub_called by simp
qed

end
