(* ===== verification/Task_Store.thy ===== *)
theory Task_Store
  imports Redaction Config Event_System
begin

text \<open>
  The task manager, \<^verbatim>\<open>workstation-executor/src/manager.rs\<close>: the task table and its statuses, the launch, the reader threads that
  redact and store the output, the retention cap, the wait thread, cancellation and termination, paged output, and the
  task tools of \<^verbatim>\<open>tools/process.rs\<close>. The operating system is a parameter: whether a process starts, what it prints, when it exits.
  A write to the database takes effect as a whole or not at all.
\<close>

section \<open>Statuses\<close>

datatype task_status =
    TaskRunning | TaskCompleted | TaskFailed | TaskCancelled | TaskKilled | TaskTimedOut | TaskInterrupted | TaskLaunchFailed

fun task_status_str :: "task_status \<Rightarrow> string" where
  "task_status_str TaskRunning = ''running''"
| "task_status_str TaskCompleted = ''completed''"
| "task_status_str TaskFailed = ''failed''"
| "task_status_str TaskCancelled = ''cancelled''"
| "task_status_str TaskKilled = ''killed''"
| "task_status_str TaskTimedOut = ''timed_out''"
| "task_status_str TaskInterrupted = ''interrupted''"
| "task_status_str TaskLaunchFailed = ''launch_failed''"

definition task_status_parse :: "string \<Rightarrow> task_status" where
  "task_status_parse s =
     (if s = ''running'' then TaskRunning
      else if s = ''completed'' then TaskCompleted
      else if s = ''failed'' then TaskFailed
      else if s = ''cancelled'' then TaskCancelled
      else if s = ''killed'' then TaskKilled
      else if s = ''timed_out'' then TaskTimedOut
      else if s = ''launch_failed'' then TaskLaunchFailed
      else TaskInterrupted)"

definition is_terminal :: "task_status \<Rightarrow> bool" where
  "is_terminal s \<longleftrightarrow> s \<noteq> TaskRunning"

lemma task_status_roundtrip [simp]: "task_status_parse (task_status_str s) = s"
  by (cases s) (simp_all add: task_status_parse_def)

section \<open>Rows and requests\<close>

record spawn_spec =
  ss_application :: string
  ss_command_line :: string
  ss_cwd :: string
  ss_env :: "(string \<times> string) list"

text \<open>\<^verbatim>\<open>TaskSpec\<close>; the timeout in milliseconds.\<close>

record task_spec =
  sp_client_id :: string
  sp_session_id :: "string option"
  sp_tool_name :: string
  sp_kind :: string
  sp_display_command :: string
  sp_project_id :: "string option"
  sp_spawn :: spawn_spec
  sp_timeout :: int
  sp_audit_event_id :: "string option"
  sp_approval_id :: "string option"
  sp_execution_id :: "string option"
  sp_warnings :: "string list"
  sp_cache_dir :: "string option"

record task_row =
  tr_task_id :: string
  tr_client_id :: string
  tr_session_id :: "string option"
  tr_tool_name :: string
  tr_kind :: string
  tr_command :: string
  tr_cwd :: string
  tr_project_id :: "string option"
  tr_pid :: "u32 option"
  tr_status :: string
  tr_exit_code :: "int option"
  tr_created_at :: int
  tr_started_at :: "int option"
  tr_ended_at :: "int option"
  tr_timeout_ms :: "int option"
  tr_stdout_bytes :: int
  tr_stderr_bytes :: int
  tr_total_bytes :: int
  tr_truncated_before :: int
  tr_last_output_at :: "int option"
  tr_error :: "string option"
  tr_audit_event_id :: "string option"
  tr_approval_id :: "string option"
  tr_execution_id :: "string option"
  tr_warnings :: "string list"
  tr_cache_dir :: "string option"
  tr_standard_user_token :: bool

record task_info =
  ti_task_id :: string
  ti_client_id :: string
  ti_session_id :: "string option"
  ti_tool_name :: string
  ti_kind :: string
  ti_command :: string
  ti_cwd :: string
  ti_project_id :: "string option"
  ti_pid :: "u32 option"
  ti_status :: task_status
  ti_exit_code :: "int option"
  ti_created_at :: int
  ti_started_at :: "int option"
  ti_ended_at :: "int option"
  ti_timeout_ms :: "int option"
  ti_stdout_bytes :: int
  ti_stderr_bytes :: int
  ti_total_bytes :: int
  ti_truncated_before :: int
  ti_last_output_at :: "int option"
  ti_error :: "string option"
  ti_approval_id :: "string option"
  ti_execution_id :: "string option"
  ti_warnings :: "string list"
  ti_standard_user_token :: bool
  ti_active_processes :: "u32 option"

definition row_to_task :: "task_row \<Rightarrow> task_info" where
  "row_to_task r =
     \<lparr>ti_task_id = tr_task_id r, ti_client_id = tr_client_id r, ti_session_id = tr_session_id r, ti_tool_name = tr_tool_name r,
      ti_kind = tr_kind r, ti_command = tr_command r, ti_cwd = tr_cwd r, ti_project_id = tr_project_id r, ti_pid = tr_pid r,
      ti_status = task_status_parse (tr_status r), ti_exit_code = tr_exit_code r, ti_created_at = tr_created_at r,
      ti_started_at = tr_started_at r, ti_ended_at = tr_ended_at r, ti_timeout_ms = tr_timeout_ms r,
      ti_stdout_bytes = tr_stdout_bytes r, ti_stderr_bytes = tr_stderr_bytes r, ti_total_bytes = tr_total_bytes r,
      ti_truncated_before = tr_truncated_before r, ti_last_output_at = tr_last_output_at r, ti_error = tr_error r,
      ti_approval_id = tr_approval_id r, ti_execution_id = tr_execution_id r, ti_warnings = tr_warnings r,
      ti_standard_user_token = tr_standard_user_token r, ti_active_processes = None\<rparr>"

text \<open>\<^verbatim>\<open>task_output_chunks\<close>; the primary key is the task and the sequence number.\<close>

record chunk_row =
  ck_task_id :: string
  ck_seq :: int
  ck_stream :: string
  ck_offset :: int
  ck_data :: string
  ck_ts :: int

abbreviation ck_len :: "chunk_row \<Rightarrow> int" where
  "ck_len c \<equiv> int (length (ck_data c))"

abbreviation ck_key :: "chunk_row \<Rightarrow> string \<times> int" where
  "ck_key c \<equiv> (ck_task_id c, ck_seq c)"

interpretation task_rows: row_store tr_task_id "find_by tr_task_id" "insert_by tr_task_id" update_where delete_where
  "keyed tr_task_id"
  by (rule list_row_store)

interpretation chunk_rows: row_store ck_key "find_by ck_key" "insert_by ck_key" update_where delete_where "keyed ck_key"
  by (rule list_row_store)

section \<open>The manager\<close>

text \<open>\<^verbatim>\<open>Running\<close>. \<open>rn_terminated\<close> are the exit codes the job was terminated with, oldest first; \<open>rn_waited\<close> tells whether
  the wait thread exists; \<open>rn_root_exit\<close> and \<open>rn_timed_out\<close> are its local variables, and \<open>rn_exited\<close> that it has left its loop.\<close>

record running =
  rn_client_id :: string
  rn_cancel_requested :: bool
  rn_kill_status :: "task_status option"
  rn_terminated :: "u32 list"
  rn_waited :: bool
  rn_root_exit :: "u32 option"
  rn_timed_out :: bool
  rn_exited :: bool

record output_state =
  os_next_offset :: int
  os_seq :: int
  os_stdout :: int
  os_stderr :: int

datatype task_event =
    TaskStarted string string
  | TaskFinished string string task_status "int option"

text \<open>\<open>tm_output\<close> is the \<^verbatim>\<open>OutputState\<close> the two readers of a task share; \<open>tm_grace\<close> are the tasks for which a
  grace period of \<^verbatim>\<open>cancel\<close> is running.\<close>

record task_manager =
  tm_tasks :: "task_row list"
  tm_chunks :: "chunk_row list"
  tm_running :: "(string \<times> running) list"
  tm_events :: "task_event list"
  tm_max_output_bytes :: u64
  tm_output :: "(string \<times> output_state) list"
  tm_grace :: "string list"

definition MIN_OUTPUT_CAP :: u64 where
  "MIN_OUTPUT_CAP = 64 * 1024"

definition TaskManager_open :: "task_row list \<Rightarrow> chunk_row list \<Rightarrow> u64 \<Rightarrow> task_manager" where
  "TaskManager_open tasks chunks cap =
     \<lparr>tm_tasks = tasks, tm_chunks = chunks, tm_running = [], tm_events = [], tm_max_output_bytes = max cap MIN_OUTPUT_CAP,
      tm_output = [], tm_grace = []\<rparr>"

definition set_max_output_bytes :: "u64 \<Rightarrow> task_manager \<Rightarrow> task_manager" where
  "set_max_output_bytes v S = S\<lparr>tm_max_output_bytes := max v MIN_OUTPUT_CAP\<rparr>"

definition find_task :: "string \<Rightarrow> task_manager \<Rightarrow> task_row option" where
  "find_task tid S = find_by tr_task_id tid (tm_tasks S)"

definition find_running :: "string \<Rightarrow> task_manager \<Rightarrow> running option" where
  "find_running tid S = map_of (tm_running S) tid"

definition change_running :: "(string \<Rightarrow> running \<Rightarrow> bool) \<Rightarrow> (running \<Rightarrow> running) \<Rightarrow> task_manager \<Rightarrow> task_manager" where
  "change_running P f S = S\<lparr>tm_running := map (\<lambda>(t, r). (t, if P t r then f r else r)) (tm_running S)\<rparr>"

definition send_task_event :: "task_event \<Rightarrow> task_manager \<Rightarrow> task_manager" where
  "send_task_event e S = S\<lparr>tm_events := tm_events S @ [e]\<rparr>"

definition STOPPED_MESSAGE :: string where
  "STOPPED_MESSAGE = ''Local Pilot stopped while the task was running; its process tree was terminated with the job.''"

definition interrupt_row :: "int \<Rightarrow> task_row \<Rightarrow> task_row" where
  "interrupt_row now r =
     r\<lparr>tr_status := ''interrupted'', tr_ended_at := Some now, tr_error := Some (unwrap_or STOPPED_MESSAGE (tr_error r))\<rparr>"

definition recover_on_startup :: "io_env \<Rightarrow> task_manager \<Rightarrow> nat lp_result \<times> task_manager" where
  "recover_on_startup w S =
     (if io_db_ok w
      then (Inr (count_where (\<lambda>r. tr_status r = ''running'') (tm_tasks S)),
            S\<lparr>tm_tasks := update_where (\<lambda>r. tr_status r = ''running'') (interrupt_row (io_now w)) (tm_tasks S)\<rparr>)
      else (Inl LpError_internal, S))"

definition running_count :: "string \<Rightarrow> task_manager \<Rightarrow> nat" where
  "running_count client S = count_where (\<lambda>p. rn_client_id (snd p) = client) (tm_running S)"

definition running_ids :: "task_manager \<Rightarrow> (string \<times> string) list" where
  "running_ids S = map (\<lambda>(t, r). (t, rn_client_id r)) (tm_running S)"

section \<open>Reading tasks\<close>

text \<open>\<open>act\<close> is what \<^verbatim>\<open>Job::active_processes\<close> answers for a running task.\<close>

definition task_get :: "(string \<Rightarrow> u32 option) \<Rightarrow> string \<Rightarrow> task_manager \<Rightarrow> task_info option" where
  "task_get act tid S =
     map_option (\<lambda>r. if find_running tid S = None then row_to_task r else (row_to_task r)\<lparr>ti_active_processes := act tid\<rparr>)
       (find_task tid S)"

definition unknown_task :: lp_error where
  "unknown_task = LpError_new TaskNotFound ''unknown task''"

definition get_or_unknown :: "(string \<Rightarrow> u32 option) \<Rightarrow> string \<Rightarrow> task_manager \<Rightarrow> task_info lp_result" where
  "get_or_unknown act tid S = (case task_get act tid S of None \<Rightarrow> Inl unknown_task | Some i \<Rightarrow> Inr i)"

definition task_list :: "string option \<Rightarrow> bool \<Rightarrow> nat \<Rightarrow> task_manager \<Rightarrow> task_info list" where
  "task_list client active_only limit S =
     map row_to_task (newest_first tr_created_at (min (max limit 1) 1000)
       (filter (\<lambda>r. (case client of None \<Rightarrow> True | Some c \<Rightarrow> tr_client_id r = c) \<and> (active_only \<longrightarrow> tr_status r = ''running''))
          (tm_tasks S)))"

section \<open>Launching\<close>

text \<open>What a launch meets: the clock when it starts and later, whether each of its three writes is taken, what \<^verbatim>\<open>spawn\<close>
  answers (an error, or the process id and whether it has a standard user token), and whether its threads start.\<close>

record launch_env =
  le_now :: int
  le_later :: int
  le_insert_ok :: bool
  le_spawn :: "string + u32 \<times> bool"
  le_failed_ok :: bool
  le_started_ok :: bool
  le_threads_ok :: bool

definition task_row_of :: "int \<Rightarrow> string \<Rightarrow> task_spec \<Rightarrow> task_row" where
  "task_row_of now tid spec =
     \<lparr>tr_task_id = tid, tr_client_id = sp_client_id spec, tr_session_id = sp_session_id spec, tr_tool_name = sp_tool_name spec,
      tr_kind = sp_kind spec, tr_command = sp_display_command spec, tr_cwd = ss_cwd (sp_spawn spec),
      tr_project_id = sp_project_id spec, tr_pid = None, tr_status = ''running'', tr_exit_code = None, tr_created_at = now,
      tr_started_at = None, tr_ended_at = None, tr_timeout_ms = Some (sp_timeout spec), tr_stdout_bytes = 0, tr_stderr_bytes = 0,
      tr_total_bytes = 0, tr_truncated_before = 0, tr_last_output_at = None, tr_error = None,
      tr_audit_event_id = sp_audit_event_id spec, tr_approval_id = sp_approval_id spec, tr_execution_id = sp_execution_id spec,
      tr_warnings = sp_warnings spec, tr_cache_dir = sp_cache_dir spec, tr_standard_user_token = False\<rparr>"

definition Running_new :: "string \<Rightarrow> running" where
  "Running_new client =
     \<lparr>rn_client_id = client, rn_cancel_requested = False, rn_kill_status = None, rn_terminated = [], rn_waited = False,
      rn_root_exit = None, rn_timed_out = False, rn_exited = False\<rparr>"

definition OutputState_new :: output_state where
  "OutputState_new = \<lparr>os_next_offset = 0, os_seq = 0, os_stdout = 0, os_stderr = 0\<rparr>"

definition put_running :: "string \<Rightarrow> running \<Rightarrow> task_manager \<Rightarrow> task_manager" where
  "put_running tid r S = S\<lparr>tm_running := (tid, r) # filter (\<lambda>p. fst p \<noteq> tid) (tm_running S)\<rparr>"

definition put_output :: "string \<Rightarrow> output_state \<Rightarrow> task_manager \<Rightarrow> task_manager" where
  "put_output tid ost S = S\<lparr>tm_output := (tid, ost) # filter (\<lambda>p. fst p \<noteq> tid) (tm_output S)\<rparr>"

definition set_task :: "bool \<Rightarrow> string \<Rightarrow> (task_row \<Rightarrow> task_row) \<Rightarrow> task_manager \<Rightarrow> task_manager" where
  "set_task ok tid f S =
     (if ok then S\<lparr>tm_tasks := update_where (\<lambda>r. tr_task_id r = tid) f (tm_tasks S)\<rparr> else S)"

definition launch_failed :: "launch_env \<Rightarrow> string \<Rightarrow> string \<Rightarrow> task_manager \<Rightarrow> task_info lp_result \<times> task_manager" where
  "launch_failed w tid e S =
     (let msg = ''launch failed: '' @ e in
      (Inl (LpError_new CommandFailed msg),
       set_task (le_failed_ok w) tid
         (\<lambda>r. r\<lparr>tr_status := ''launch_failed'', tr_ended_at := Some (le_later w), tr_error := Some msg\<rparr>) S))"

definition start_threads ::
    "launch_env \<Rightarrow> (string \<Rightarrow> u32 option) \<Rightarrow> string \<Rightarrow> string \<Rightarrow> task_manager \<Rightarrow> task_info lp_result \<times> task_manager" where
  "start_threads w act tid client S =
     (let S1 = put_output tid OutputState_new (put_running tid (Running_new client) S) in
      if \<not> le_threads_ok w then (Inl LpError_internal, S1)
      else
        let S2 = send_task_event (TaskStarted tid client) (change_running (\<lambda>t r. t = tid) (\<lambda>r. r\<lparr>rn_waited := True\<rparr>) S1)
        in (case task_get act tid S2 of None \<Rightarrow> Inl LpError_internal | Some i \<Rightarrow> Inr i, S2))"

definition task_launch ::
    "launch_env \<Rightarrow> (string \<Rightarrow> u32 option) \<Rightarrow> string \<Rightarrow> task_spec \<Rightarrow> task_manager \<Rightarrow> task_info lp_result \<times> task_manager" where
  "task_launch w act tid spec S =
     (case (if le_insert_ok w then insert_by tr_task_id (task_row_of (le_now w) tid spec) (tm_tasks S) else None) of
        None \<Rightarrow> (Inl LpError_internal, S)
      | Some rows \<Rightarrow>
          let S1 = S\<lparr>tm_tasks := rows\<rparr> in
          (case le_spawn w of
             Inl e \<Rightarrow> launch_failed w tid e S1
           | Inr (pid, standard_user) \<Rightarrow>
               if \<not> le_started_ok w then (Inl LpError_internal, S1)
               else start_threads w act tid (sp_client_id spec)
                 (set_task True tid
                    (\<lambda>r. r\<lparr>tr_pid := Some pid, tr_started_at := Some (le_later w), tr_standard_user_token := standard_user\<rparr>) S1)))"

section \<open>The readers\<close>

text \<open>A reader's \<^verbatim>\<open>pending\<close> bytes and its redactor. A read yields bytes and whether more than 200 ms have passed since the
  last flush; the last one (end of file or an error) yields none.\<close>

record reader =
  rd_pending :: string
  rd_redactor :: stream_redactor

definition FLUSH_BYTES :: nat where
  "FLUSH_BYTES = 16 * 1024"

definition reader_read :: "redact_engine \<Rightarrow> known_values \<Rightarrow> string \<Rightarrow> bool \<Rightarrow> reader \<Rightarrow> string option \<times> reader" where
  "reader_read E K buf elapsed R =
     (let (out, sd) = (if buf \<noteq> [] then stream_push E K buf (rd_redactor R) else stream_finish E K (rd_redactor R));
          pending = rd_pending R @ out in
      if pending \<noteq> [] \<and> (buf = [] \<or> FLUSH_BYTES \<le> length pending \<or> elapsed)
      then (Some pending, \<lparr>rd_pending = [], rd_redactor = sd\<rparr>)
      else (None, \<lparr>rd_pending = pending, rd_redactor = sd\<rparr>))"

text \<open>\<^verbatim>\<open>reader_loop\<close> over the reads of a stream, ended by its end of file: the chunks it hands to \<^verbatim>\<open>store_chunk\<close>.\<close>

fun reader_loop :: "redact_engine \<Rightarrow> known_values \<Rightarrow> (string \<times> bool) list \<Rightarrow> reader \<Rightarrow> string list" where
  "reader_loop E K [] R = (case reader_read E K [] False R of (None, _) \<Rightarrow> [] | (Some c, _) \<Rightarrow> [c])"
| "reader_loop E K ((buf, elapsed) # reads) R =
     (case reader_read E K buf elapsed R of
        (None, R1) \<Rightarrow> if buf = [] then [] else reader_loop E K reads R1
      | (Some c, R1) \<Rightarrow> if buf = [] then [c] else c # reader_loop E K reads R1)"

definition Reader_new :: reader where
  "Reader_new = \<lparr>rd_pending = [], rd_redactor = stream_new\<rparr>"

section \<open>Storing output\<close>

text \<open>\<^verbatim>\<open>store_chunk\<close> first takes a sequence number and an offset under the lock, then writes in a transaction of its own;
  the two readers of a task may interleave between the two.\<close>

definition alloc_chunk :: "string \<Rightarrow> string \<Rightarrow> string \<Rightarrow> output_state \<Rightarrow> chunk_row \<times> output_state" where
  "alloc_chunk tid stream data ost =
     (let n = int (length data) in
      (\<lparr>ck_task_id = tid, ck_seq = os_seq ost, ck_stream = stream, ck_offset = os_next_offset ost, ck_data = data, ck_ts = 0\<rparr>,
       (if stream = ''stdout'' then ost\<lparr>os_seq := os_seq ost + 1, os_next_offset := os_next_offset ost + n, os_stdout := os_stdout ost + n\<rparr>
        else ost\<lparr>os_seq := os_seq ost + 1, os_next_offset := os_next_offset ost + n, os_stderr := os_stderr ost + n\<rparr>)))"

definition task_chunks :: "string \<Rightarrow> chunk_row list \<Rightarrow> chunk_row list" where
  "task_chunks tid cs = filter (\<lambda>c. ck_task_id c = tid) cs"

definition retained_bytes :: "string \<Rightarrow> chunk_row list \<Rightarrow> int" where
  "retained_bytes tid cs = sum_list (map ck_len (task_chunks tid cs))"

text \<open>The chunks the cap drops, oldest first: their sequence numbers, and the end of the last one.\<close>

fun drop_oldest :: "int \<Rightarrow> int \<Rightarrow> chunk_row list \<Rightarrow> int list \<times> int" where
  "drop_oldest excess trunc [] = ([], trunc)"
| "drop_oldest excess trunc (c # cs) =
     (if excess \<le> 0 then ([], trunc)
      else let (ds, t) = drop_oldest (excess - ck_len c) (ck_offset c + ck_len c) cs in (ck_seq c # ds, t))"

definition count_output :: "int \<Rightarrow> string \<Rightarrow> int \<Rightarrow> task_row \<Rightarrow> task_row" where
  "count_output now stream n r =
     (let r1 = (if stream = ''stdout'' then r\<lparr>tr_stdout_bytes := tr_stdout_bytes r + n\<rparr> else r\<lparr>tr_stderr_bytes := tr_stderr_bytes r + n\<rparr>)
      in r1\<lparr>tr_total_bytes := tr_total_bytes r1 + n, tr_last_output_at := Some now\<rparr>)"

definition enforce_cap :: "string \<Rightarrow> task_manager \<Rightarrow> task_manager" where
  "enforce_cap tid S =
     (let cap = sint (tm_max_output_bytes S); retained = retained_bytes tid (tm_chunks S) in
      if retained \<le> cap then S
      else
        let (ds, t) = drop_oldest (retained - cap) 0 (sort_key ck_seq (task_chunks tid (tm_chunks S)))
        in S\<lparr>tm_chunks := delete_where (\<lambda>c. ck_task_id c = tid \<and> ck_seq c \<in> set ds) (tm_chunks S),
             tm_tasks := update_where (\<lambda>r. tr_task_id r = tid)
               (\<lambda>r. r\<lparr>tr_truncated_before := max (tr_truncated_before r) t\<rparr>) (tm_tasks S)\<rparr>)"

definition write_chunk :: "int \<Rightarrow> bool \<Rightarrow> chunk_row \<Rightarrow> task_manager \<Rightarrow> task_manager" where
  "write_chunk now ok c S =
     (case (if ok then insert_by ck_key (c\<lparr>ck_ts := now\<rparr>) (tm_chunks S) else None) of
        None \<Rightarrow> S
      | Some cs \<Rightarrow>
          enforce_cap (ck_task_id c)
            (S\<lparr>tm_chunks := cs,
               tm_tasks := update_where (\<lambda>r. tr_task_id r = ck_task_id c) (count_output now (ck_stream c) (ck_len c)) (tm_tasks S)\<rparr>))"

definition take_chunk :: "string \<Rightarrow> string \<Rightarrow> string \<Rightarrow> task_manager \<Rightarrow> (chunk_row \<times> task_manager) option" where
  "take_chunk tid stream data S =
     map_option (\<lambda>ost. let (c, o1) = alloc_chunk tid stream data ost in (c, put_output tid o1 S)) (map_of (tm_output S) tid)"

definition store_chunk :: "int \<Rightarrow> bool \<Rightarrow> string \<Rightarrow> string \<Rightarrow> string \<Rightarrow> task_manager \<Rightarrow> task_manager" where
  "store_chunk now ok tid stream data S =
     (case take_chunk tid stream data S of None \<Rightarrow> S | Some (c, S1) \<Rightarrow> write_chunk now ok c S1)"

section \<open>Paged output\<close>

record out_chunk =
  oc_stream :: string
  oc_offset :: int
  oc_text :: string

record output_slice =
  sl_task_id :: string
  sl_chunks :: "out_chunk list"
  sl_next_offset :: int
  sl_truncated_before :: int
  sl_total_bytes :: int
  sl_status :: task_status
  sl_more_available :: bool

definition PAGE_MAX :: int where
  "PAGE_MAX = 4 * 1024 * 1024"

text \<open>The loop that keeps a page from ending inside a UTF-8 sequence.\<close>

fun page_cut :: "string \<Rightarrow> nat \<Rightarrow> nat" where
  "page_cut piece 0 = 0"
| "page_cut piece (Suc k) =
     (if Suc k < length piece \<and> is_continuation (piece ! Suc k) then page_cut piece k else Suc k)"

text \<open>What a row still has from \<open>start\<close> on, and how much of it a page takes.\<close>

definition row_skip :: "int \<Rightarrow> chunk_row \<Rightarrow> nat" where
  "row_skip start c = nat (max (start - ck_offset c) 0)"

definition row_piece :: "int \<Rightarrow> chunk_row \<Rightarrow> string" where
  "row_piece start c = drop (min (row_skip start c) (length (ck_data c))) (ck_data c)"

definition page_room :: "int \<Rightarrow> int \<Rightarrow> nat" where
  "page_room limit used = nat (limit - used)"

definition row_take :: "int \<Rightarrow> int \<Rightarrow> string \<Rightarrow> nat" where
  "row_take limit used piece = page_cut piece (min (length piece) (page_room limit used))"

definition row_chunk :: "(string \<Rightarrow> string) \<Rightarrow> int \<Rightarrow> nat \<Rightarrow> chunk_row \<Rightarrow> out_chunk" where
  "row_chunk lossy start tk c =
     \<lparr>oc_stream = ck_stream c, oc_offset = ck_offset c + int (row_skip start c), oc_text = lossy (take tk (row_piece start c))\<rparr>"

definition row_end :: "int \<Rightarrow> nat \<Rightarrow> chunk_row \<Rightarrow> int" where
  "row_end start tk c = ck_offset c + int (row_skip start c) + int tk"

definition push_chunk :: "out_chunk \<Rightarrow> out_chunk list \<times> int \<times> bool \<Rightarrow> out_chunk list \<times> int \<times> bool" where
  "push_chunk c p = (c # fst p, snd p)"

primrec page_rows :: "(string \<Rightarrow> string) \<Rightarrow> int \<Rightarrow> int \<Rightarrow> chunk_row list \<Rightarrow> int \<Rightarrow> int \<Rightarrow> out_chunk list \<times> int \<times> bool" where
  "page_rows lossy limit start [] = (\<lambda>used nxt. ([], nxt, False))"
| "page_rows lossy limit start (c # cs) = (\<lambda>used nxt.
     let piece = row_piece start c; tk = row_take limit used piece in
     if piece = [] then page_rows lossy limit start cs used nxt
     else if page_room limit used = 0 \<or> tk = 0 then ([], nxt, True)
     else if tk < length piece then ([row_chunk lossy start tk c], row_end start tk c, True)
     else push_chunk (row_chunk lossy start tk c)
       (page_rows lossy limit start cs (used + int tk) (row_end start tk c)))"

definition rows_from :: "string \<Rightarrow> int \<Rightarrow> task_manager \<Rightarrow> chunk_row list" where
  "rows_from tid start S =
     sort_key ck_seq (filter (\<lambda>c. ck_task_id c = tid \<and> start < ck_offset c + ck_len c) (tm_chunks S))"

definition page_start :: "int option \<Rightarrow> int \<Rightarrow> int" where
  "page_start offset truncated = max (max (unwrap_or truncated offset) truncated) 0"

definition clamp_page :: "u64 \<Rightarrow> int" where
  "clamp_page n = min (max (uint n) 1) PAGE_MAX"

definition task_output ::
    "redact_engine \<Rightarrow> (string \<Rightarrow> u32 option) \<Rightarrow> string \<Rightarrow> int option \<Rightarrow> u64 \<Rightarrow> task_manager \<Rightarrow> output_slice lp_result" where
  "task_output E act tid offset max_bytes S =
     (case task_get act tid S of
        None \<Rightarrow> Inl unknown_task
      | Some info \<Rightarrow>
          let start = page_start offset (ti_truncated_before info);
              (chunks, nxt, more_rows) = page_rows (rg_lossy E) (clamp_page max_bytes) start (rows_from tid start S) 0 start
          in Inr \<lparr>sl_task_id = tid, sl_chunks = chunks, sl_next_offset = nxt, sl_truncated_before = ti_truncated_before info,
               sl_total_bytes = ti_total_bytes info, sl_status = ti_status info,
               sl_more_available = (more_rows \<or> nxt < ti_total_bytes info)\<rparr>)"

section \<open>Ending tasks\<close>

definition stop_with :: "task_status \<Rightarrow> running \<Rightarrow> running" where
  "stop_with st r = r\<lparr>rn_kill_status := Some st, rn_terminated := rn_terminated r @ [1]\<rparr>"

definition task_terminate ::
    "(string \<Rightarrow> u32 option) \<Rightarrow> string \<Rightarrow> task_status \<Rightarrow> task_manager \<Rightarrow> task_info lp_result \<times> task_manager" where
  "task_terminate act tid st S =
     (let S1 = change_running (\<lambda>t r. t = tid) (stop_with st) S in (get_or_unknown act tid S1, S1))"

definition task_kill :: "(string \<Rightarrow> u32 option) \<Rightarrow> string \<Rightarrow> task_manager \<Rightarrow> task_info lp_result \<times> task_manager" where
  "task_kill act tid S = task_terminate act tid TaskKilled S"

definition GRACE_WARNING :: string where
  "GRACE_WARNING = ''cancellation requested; the process tree is terminated after a 3 second grace period''"

text \<open>\<^verbatim>\<open>cancel\<close>; the Ctrl+Break it sends is outside the model, the thread it starts is an entry of \<open>tm_grace\<close>.\<close>

definition task_cancel :: "(string \<Rightarrow> u32 option) \<Rightarrow> string \<Rightarrow> task_manager \<Rightarrow> task_info lp_result \<times> task_manager" where
  "task_cancel act tid S =
     (case find_running tid S of
        None \<Rightarrow> (get_or_unknown act tid S, S)
      | Some r \<Rightarrow>
          if rn_cancel_requested r then task_terminate act tid TaskCancelled S
          else
            let S1 = change_running (\<lambda>t r. t = tid) (\<lambda>r. r\<lparr>rn_cancel_requested := True\<rparr>) S;
                S2 = S1\<lparr>tm_grace := tm_grace S1 @ [tid]\<rparr>
            in (case get_or_unknown act tid S2 of
                  Inl e \<Rightarrow> Inl e
                | Inr i \<Rightarrow> Inr (i\<lparr>ti_warnings := ti_warnings i @ [GRACE_WARNING]\<rparr>), S2))"

text \<open>The grace period ends.\<close>

definition cancel_elapsed :: "string \<Rightarrow> task_manager \<Rightarrow> task_manager" where
  "cancel_elapsed tid S =
     change_running (\<lambda>t r. t = tid) (stop_with TaskCancelled) (S\<lparr>tm_grace := remove1 tid (tm_grace S)\<rparr>)"

definition kill_all :: "task_manager \<Rightarrow> nat \<times> task_manager" where
  "kill_all S = (length (tm_running S), change_running (\<lambda>t r. True) (stop_with TaskKilled) S)"

definition kill_client :: "string \<Rightarrow> task_manager \<Rightarrow> nat \<times> task_manager" where
  "kill_client client S = (running_count client S, change_running (\<lambda>t r. rn_client_id r = client) (stop_with TaskKilled) S)"

text \<open>One round of the wait thread's loop: what \<^verbatim>\<open>WaitForSingleObject\<close> and \<^verbatim>\<open>GetExitCodeProcess\<close> give, how many processes
  the job has (nothing when the query fails), and whether the deadline is past.\<close>

record wait_obs =
  wo_exit :: "u32 option"
  wo_active :: "u32 option"
  wo_late :: bool

definition TIMEOUT_EXIT :: u32 where
  "TIMEOUT_EXIT = 0x50000001"

definition wait_round :: "wait_obs \<Rightarrow> running \<Rightarrow> running" where
  "wait_round w r =
     (let r1 = (if rn_root_exit r = None then r\<lparr>rn_root_exit := wo_exit w\<rparr> else r) in
      if rn_root_exit r1 \<noteq> None \<and> unwrap_or 0 (wo_active w) = 0 then r1\<lparr>rn_exited := True\<rparr>
      else
        let r2 = (if rn_kill_status r1 \<noteq> None then r1\<lparr>rn_terminated := rn_terminated r1 @ [1]\<rparr> else r1)
        in if wo_late w \<and> \<not> rn_timed_out r2
           then r2\<lparr>rn_timed_out := True, rn_terminated := rn_terminated r2 @ [TIMEOUT_EXIT], rn_kill_status := Some TaskTimedOut\<rparr>
           else r2)"

definition waits :: "running \<Rightarrow> bool" where
  "waits r \<longleftrightarrow> rn_waited r \<and> \<not> rn_exited r"

definition wait_step :: "string \<Rightarrow> wait_obs \<Rightarrow> task_manager \<Rightarrow> task_manager" where
  "wait_step tid w S = change_running (\<lambda>t r. t = tid \<and> waits r) (wait_round w) S"

definition final_status :: "running \<Rightarrow> task_status" where
  "final_status r =
     (case rn_kill_status r of
        Some s \<Rightarrow> s
      | None \<Rightarrow> if rn_cancel_requested r then TaskCancelled
                else if unwrap_or 1 (rn_root_exit r) = 0 then TaskCompleted else TaskFailed)"

definition exit_code_of :: "running \<Rightarrow> int" where
  "exit_code_of r = sint (unwrap_or 1 (rn_root_exit r))"

text \<open>The end of \<^verbatim>\<open>wait_loop\<close>. It waits at most five seconds for the readers, so they may still store output afterwards.\<close>

definition finish_task :: "int \<Rightarrow> bool \<Rightarrow> string \<Rightarrow> task_manager \<Rightarrow> task_manager" where
  "finish_task now ok tid S =
     (case find_running tid S of
        None \<Rightarrow> S
      | Some r \<Rightarrow>
          if \<not> rn_exited r then S
          else
            let S1 = set_task ok tid
                  (\<lambda>t. t\<lparr>tr_status := task_status_str (final_status r), tr_exit_code := Some (exit_code_of r), tr_ended_at := Some now\<rparr>) S;
                S2 = S1\<lparr>tm_running := filter (\<lambda>p. fst p \<noteq> tid) (tm_running S1)\<rparr>
            in send_task_event (TaskFinished tid (rn_client_id r) (final_status r) (Some (exit_code_of r))) S2)"

text \<open>\<^verbatim>\<open>wait\<close> over the states it sees, each with whether the time is up; it has not returned after the last.\<close>

fun task_wait :: "(string \<Rightarrow> u32 option) \<Rightarrow> string \<Rightarrow> (task_manager \<times> bool) list \<Rightarrow> task_info option option" where
  "task_wait act tid [] = None"
| "task_wait act tid ((S, over) # obs) =
     (case task_get act tid S of
        None \<Rightarrow> Some None
      | Some info \<Rightarrow> if is_terminal (ti_status info) \<or> over then Some (Some info) else task_wait act tid obs)"

definition ended_before :: "int \<Rightarrow> task_row \<Rightarrow> bool" where
  "ended_before cutoff r \<longleftrightarrow> tr_status r \<noteq> ''running'' \<and> (case tr_ended_at r of None \<Rightarrow> False | Some t \<Rightarrow> t < cutoff)"

definition task_prune :: "io_env \<Rightarrow> int \<Rightarrow> task_manager \<Rightarrow> nat lp_result \<times> task_manager" where
  "task_prune w max_age S =
     (let cutoff = io_now w - max_age;
          old = (\<lambda>c. \<exists>r \<in> set (tm_tasks S). ended_before cutoff r \<and> tr_task_id r = ck_task_id c) in
      if io_db_ok w
      then (Inr (count_where old (tm_chunks S)),
            S\<lparr>tm_chunks := delete_where old (tm_chunks S), tm_tasks := delete_where (ended_before cutoff) (tm_tasks S)\<rparr>)
      else (Inl LpError_internal, S))"

section \<open>The task tools\<close>

text \<open>The handlers of \<^verbatim>\<open>tools/process.rs\<close> that read or end a task, for the calling client.\<close>

definition owned_task :: "(string \<Rightarrow> u32 option) \<Rightarrow> string \<Rightarrow> string \<Rightarrow> task_manager \<Rightarrow> task_info lp_result" where
  "owned_task act client tid S =
     (case task_get act tid S of
        Some t \<Rightarrow> if ti_client_id t = client then Inr t else Inl unknown_task
      | None \<Rightarrow> Inl unknown_task)"

datatype task_call =
    TC_Get string
  | TC_List "bool option" "nat option"
  | TC_Output string "int option" "u64 option"
  | TC_Cancel string
  | TC_Kill string

datatype task_answer =
    TA_Info task_info
  | TA_List "task_info list"
  | TA_Slice output_slice

definition with_owned ::
    "(string \<Rightarrow> u32 option) \<Rightarrow> string \<Rightarrow> string \<Rightarrow> (task_manager \<Rightarrow> task_answer lp_result \<times> task_manager) \<Rightarrow> task_manager
       \<Rightarrow> task_answer lp_result \<times> task_manager" where
  "with_owned act client tid f S = (case owned_task act client tid S of Inl e \<Rightarrow> (Inl e, S) | Inr _ \<Rightarrow> f S)"

fun answer :: "('a \<Rightarrow> task_answer) \<Rightarrow> 'a lp_result \<Rightarrow> task_answer lp_result" where
  "answer f (Inl e) = Inl e"
| "answer f (Inr x) = Inr (f x)"

fun task_tool ::
    "redact_engine \<Rightarrow> (string \<Rightarrow> u32 option) \<Rightarrow> u64 \<Rightarrow> string \<Rightarrow> task_call \<Rightarrow> task_manager \<Rightarrow> task_answer lp_result \<times> task_manager" where
  "task_tool E act limit client (TC_Get tid) S = (answer TA_Info (owned_task act client tid S), S)"
| "task_tool E act limit client (TC_List active n) S =
     (Inr (TA_List (task_list (Some client) (unwrap_or False active) (min (unwrap_or 50 n) 200) S)), S)"
| "task_tool E act limit client (TC_Output tid offset n) S =
     with_owned act client tid (\<lambda>S. (answer TA_Slice (task_output E act tid offset (min (unwrap_or (64 * 1024) n) limit) S), S)) S"
| "task_tool E act limit client (TC_Cancel tid) S =
     with_owned act client tid (\<lambda>S. let (r, S') = task_cancel act tid S in (answer TA_Info r, S')) S"
| "task_tool E act limit client (TC_Kill tid) S =
     with_owned act client tid (\<lambda>S. let (r, S') = task_kill act tid S in (answer TA_Info r, S')) S"

end
