(* ===== verification/Task_Output.thy ===== *)
theory Task_Output
  imports Task_Store
begin

text \<open>
  What the output store of the task manager promises: pages that never cut a character, the retained bytes read back page by
  page, and the retention cap. The interface of a paged source is the locale \<open>pager\<close>, interpreted on \<^verbatim>\<open>TaskManager::output\<close>.
\<close>

section \<open>Valid UTF-8\<close>

text \<open>The well-formed byte sequences of the Unicode standard, of which a Rust \<^verbatim>\<open>String\<close> consists.\<close>

definition byte_in :: "nat \<Rightarrow> nat \<Rightarrow> char \<Rightarrow> bool" where
  "byte_in lo hi c \<longleftrightarrow> lo \<le> byte c \<and> byte c \<le> hi"

definition scalar2 :: "char \<Rightarrow> char \<Rightarrow> bool" where
  "scalar2 a b \<longleftrightarrow> byte_in 194 223 a \<and> is_continuation b"

definition scalar3 :: "char \<Rightarrow> char \<Rightarrow> char \<Rightarrow> bool" where
  "scalar3 a b c \<longleftrightarrow> is_continuation c \<and>
     (byte a = 224 \<and> byte_in 160 191 b \<or> byte a = 237 \<and> byte_in 128 159 b
      \<or> (byte_in 225 236 a \<or> byte_in 238 239 a) \<and> is_continuation b)"

definition scalar4 :: "char \<Rightarrow> char \<Rightarrow> char \<Rightarrow> char \<Rightarrow> bool" where
  "scalar4 a b c d \<longleftrightarrow> is_continuation c \<and> is_continuation d \<and>
     (byte a = 240 \<and> byte_in 144 191 b \<or> byte a = 244 \<and> byte_in 128 143 b \<or> byte_in 241 243 a \<and> is_continuation b)"

fun is_scalar :: "string \<Rightarrow> bool" where
  "is_scalar [a] \<longleftrightarrow> byte a < 128"
| "is_scalar [a, b] \<longleftrightarrow> scalar2 a b"
| "is_scalar [a, b, c] \<longleftrightarrow> scalar3 a b c"
| "is_scalar [a, b, c, d] \<longleftrightarrow> scalar4 a b c d"
| "is_scalar _ \<longleftrightarrow> False"

definition valid_utf8 :: "string \<Rightarrow> bool" where
  "valid_utf8 s \<longleftrightarrow> list_all is_scalar (utf8_chars s)"

text \<open>\<open>cut_ok s k\<close>: no character of \<open>s\<close> spans position \<open>k\<close>.\<close>

definition cut_ok :: "string \<Rightarrow> nat \<Rightarrow> bool" where
  "cut_ok s k \<longleftrightarrow> k = length s \<or> k < length s \<and> \<not> is_continuation (s ! k)"

lemma utf8_chars_append:
  "b = [] \<or> \<not> is_continuation (hd b) \<Longrightarrow> utf8_chars (a @ b) = utf8_chars a @ utf8_chars b"
proof (induction a rule: utf8_chars.induct)
  case (2 c cs)
  have b: "takeWhile is_continuation b = []" "dropWhile is_continuation b = b" using 2(2) by (cases b; simp)+
  show ?case
  proof (cases "\<forall>x\<in>set cs. is_continuation x")
    case True
    then have all: "takeWhile is_continuation cs = cs" "dropWhile is_continuation cs = []"
      by (simp_all add: takeWhile_eq_all_conv dropWhile_eq_Nil_conv)
    have "takeWhile is_continuation (cs @ b) = cs" "dropWhile is_continuation (cs @ b) = b"
      using True b by (simp_all add: takeWhile_append2 dropWhile_append2)
    then show ?thesis unfolding append_Cons utf8_chars.simps all by simp
  next
    case False
    then obtain x where x: "x \<in> set cs" "\<not> is_continuation x" by blast
    show ?thesis using 2 takeWhile_append1 [of x cs is_continuation b] dropWhile_append1 [of x cs is_continuation b] x by simp
  qed
qed simp

lemma cut_ok_split:
  assumes "cut_ok s k"
  shows "utf8_chars s = utf8_chars (take k s) @ utf8_chars (drop k s)"
proof -
  have "drop k s = [] \<or> \<not> is_continuation (hd (drop k s))"
    using assms by (auto simp: cut_ok_def hd_drop_conv_nth)
  from utf8_chars_append [OF this, of "take k s"] show ?thesis by simp
qed

lemma valid_split: "valid_utf8 s \<Longrightarrow> cut_ok s k \<Longrightarrow> valid_utf8 (take k s) \<and> valid_utf8 (drop k s)"
  by (simp add: valid_utf8_def cut_ok_split)

lemma valid_Nil [simp]: "valid_utf8 []"
  by (simp add: valid_utf8_def)

lemma scalar_length: "is_scalar g \<Longrightarrow> length g \<le> 4"
  by (cases g rule: is_scalar.cases) auto

lemma first_cut:
  assumes "valid_utf8 s" and "s \<noteq> []"
  shows "\<exists>j. 1 \<le> j \<and> j \<le> 4 \<and> j \<le> length s \<and> cut_ok s j"
proof -
  obtain c cs where s: "s = c # cs" using assms(2) by (cases s) auto
  define j where "j = Suc (length (takeWhile is_continuation cs))"
  have "length (c # takeWhile is_continuation cs) \<le> 4"
    using assms(1) unfolding s valid_utf8_def by (intro scalar_length) simp
  moreover have "j \<le> length s" by (simp add: j_def s length_takeWhile_le)
  moreover have "cut_ok s j"
  proof (cases "length (takeWhile is_continuation cs) < length cs")
    case True
    then show ?thesis using nth_length_takeWhile [OF True] by (simp add: cut_ok_def j_def s)
  next
    case False
    then show ?thesis using length_takeWhile_le [of is_continuation cs] by (simp add: cut_ok_def j_def s)
  qed
  ultimately show ?thesis by (intro exI [of _ j]) (simp add: j_def)
qed

section \<open>Where a page ends\<close>

lemma page_cut_le: "page_cut s k \<le> k"
  by (induction k) auto

lemma page_cut_ok: "k \<le> length s \<Longrightarrow> page_cut s k = 0 \<or> cut_ok s (page_cut s k)"
  by (induction k) (auto simp: cut_ok_def)

lemma page_cut_greatest: "j \<le> k \<Longrightarrow> cut_ok s j \<Longrightarrow> j \<le> page_cut s k"
  by (induction k) (auto simp: cut_ok_def le_Suc_eq)

lemma row_take_le: "row_take limit used p \<le> length p \<and> row_take limit used p \<le> page_room limit used"
  using page_cut_le [of p "min (length p) (page_room limit used)"] by (simp add: row_take_def)

lemma row_take_ok: "row_take limit used p = 0 \<or> cut_ok p (row_take limit used p)"
  by (simp add: row_take_def page_cut_ok)

lemma row_take_progress:
  assumes "valid_utf8 p" and "p \<noteq> []" and "4 \<le> limit - used"
  shows "0 < row_take limit used p"
proof -
  obtain j where j: "1 \<le> j" "j \<le> 4" "j \<le> length p" "cut_ok p j" using first_cut [OF assms(1,2)] by blast
  then have "j \<le> page_cut p (min (length p) (page_room limit used))"
    using assms(3) by (intro page_cut_greatest) (auto simp: page_room_def)
  then show ?thesis using j(1) by (simp add: row_take_def)
qed

section \<open>Rows without a gap\<close>

text \<open>\<open>rows_ok start p cs e\<close>: from position \<open>p\<close> to \<open>e\<close> the rows have every byte, in order, and what they hold from \<open>start\<close> on is
  valid UTF-8.\<close>

fun rows_ok :: "int \<Rightarrow> int \<Rightarrow> chunk_row list \<Rightarrow> int \<Rightarrow> bool" where
  "rows_ok start p [] e \<longleftrightarrow> p = e"
| "rows_ok start p (c # cs) e \<longleftrightarrow>
     ck_offset c + int (row_skip start c) = p \<and> row_piece start c \<noteq> [] \<and> valid_utf8 (row_piece start c) \<and>
     rows_ok start (p + int (length (row_piece start c))) cs e"

definition bytes_from :: "int \<Rightarrow> chunk_row list \<Rightarrow> string" where
  "bytes_from start cs = concat (map (row_piece start) cs)"

definition beyond :: "int \<Rightarrow> chunk_row \<Rightarrow> bool" where
  "beyond p c \<longleftrightarrow> p < ck_offset c + ck_len c"

lemma bytes_from_simps [simp]: "bytes_from s [] = []" "bytes_from s (c # cs) = row_piece s c @ bytes_from s cs"
  by (simp_all add: bytes_from_def)

lemma row_piece_nonempty:
  "row_piece s c \<noteq> [] \<Longrightarrow> ck_offset c + int (row_skip s c) + int (length (row_piece s c)) = ck_offset c + ck_len c"
  by (auto simp: row_piece_def min_def split: if_splits)

lemma rows_ok_le: "rows_ok s p cs e \<Longrightarrow> p \<le> e \<and> (cs \<noteq> [] \<longrightarrow> p < e) \<and> int (length (bytes_from s cs)) = e - p"
proof (induction cs arbitrary: p)
  case (Cons c cs)
  then have "p + int (length (row_piece s c)) \<le> e" "int (length (bytes_from s cs)) = e - (p + int (length (row_piece s c)))"
    by auto
  moreover have "0 < int (length (row_piece s c))" using Cons.prems by simp
  ultimately have "p < e" by linarith
  then show ?case using \<open>int (length (bytes_from s cs)) = e - (p + int (length (row_piece s c)))\<close> by simp
qed simp

lemma row_skip_beyond: "start \<le> q \<Longrightarrow> q \<le> ck_offset c \<Longrightarrow> row_skip start c = 0 \<and> row_skip q c = 0"
  by (simp add: row_skip_def)

lemma rows_shift:
  assumes "start \<le> q" and "q \<le> p" and "rows_ok start p cs e"
  shows "rows_ok q p cs e \<and> bytes_from q cs = bytes_from start cs \<and> filter (beyond q) cs = cs"
  using assms(2,3)
proof (induction cs arbitrary: p)
  case (Cons c cs)
  have same: "row_skip q c = row_skip start c"
  proof (cases "start = q")
    case False
    then have "start < p" using assms(1) Cons.prems(1) by simp
    then have "ck_offset c = p" using Cons.prems(2) by (auto simp: row_skip_def max_def split: if_splits)
    then show ?thesis using row_skip_beyond [OF assms(1)] Cons.prems(1) by simp
  qed simp
  then have piece: "row_piece q c = row_piece start c" by (simp add: row_piece_def)
  have "q \<le> p + int (length (row_piece start c))" using Cons.prems(1) by simp
  from Cons.IH [OF this] Cons.prems(2)
  have rest: "rows_ok q (p + int (length (row_piece start c))) cs e" "bytes_from q cs = bytes_from start cs"
      "filter (beyond q) cs = cs" by auto
  have "0 < int (length (row_piece start c))" using Cons.prems(2) by simp
  then have "q < p + int (length (row_piece start c))" using Cons.prems(1) by linarith
  then have "beyond q c"
    using row_piece_nonempty [of start c] Cons.prems(2) by (simp add: beyond_def)
  then show ?case using rest same piece Cons.prems(2) by simp
qed simp

lemma row_piece_advance:
  assumes "ck_offset c + int (row_skip start c) = p" and "tk \<le> length (row_piece start c)" and "start \<le> p"
  shows "row_piece (p + int tk) c = drop tk (row_piece start c)
    \<and> (tk < length (row_piece start c) \<longrightarrow> ck_offset c + int (row_skip (p + int tk) c) = p + int tk)"
proof -
  have "row_skip (p + int tk) c = row_skip start c + tk" using assms(1,3) by (simp add: row_skip_def)
  then show ?thesis using assms by (auto simp: row_piece_def min_def ac_simps)
qed

text \<open>Going on from a position inside the first row.\<close>

lemma rows_advance:
  assumes ok: "rows_ok start p (c # cs) e" and "start \<le> p"
    and tk: "tk < length (row_piece start c)" "tk = 0 \<or> cut_ok (row_piece start c) tk"
  defines "n \<equiv> p + int tk"
  shows "rows_ok n n (filter (beyond n) (c # cs)) e"
    and "bytes_from start (c # cs) = take tk (row_piece start c) @ bytes_from n (filter (beyond n) (c # cs))"
    and "filter (beyond n) (c # cs) \<noteq> []"
proof -
  let ?p = "row_piece start c"
  have adv: "row_piece n c = drop tk ?p" "ck_offset c + int (row_skip n c) = n"
    using row_piece_advance [of c start p tk] ok tk(1) assms(2) by (auto simp: n_def)
  have "valid_utf8 (drop tk ?p)" using tk(2) valid_split [of ?p tk] ok by auto
  have past: "n < ck_offset c + ck_len c" using row_piece_nonempty [of start c] ok tk(1) by (auto simp: n_def)
  have shift: "rows_ok n (p + int (length ?p)) cs e" "bytes_from n cs = bytes_from start cs" "filter (beyond n) cs = cs"
    using rows_shift [of start n "p + int (length ?p)" cs e] ok tk(1) assms(2) by (auto simp: n_def)
  have len: "n + int (length (drop tk ?p)) = p + int (length ?p)" using tk(1) by (simp add: n_def)
  have f: "filter (beyond n) (c # cs) = c # cs" using past shift(3) by (simp add: beyond_def)
  show "rows_ok n n (filter (beyond n) (c # cs)) e"
    unfolding f using adv shift(1) [folded len] tk(1) \<open>valid_utf8 (drop tk ?p)\<close> by simp
  show "bytes_from start (c # cs) = take tk ?p @ bytes_from n (filter (beyond n) (c # cs))"
    unfolding f using adv(1) shift(2) by simp
  show "filter (beyond n) (c # cs) \<noteq> []" unfolding f by simp
qed

section \<open>One page\<close>

definition chunks_text :: "out_chunk list \<Rightarrow> string" where
  "chunks_text cs = concat (map oc_text cs)"

text \<open>The documented behaviour of \<^verbatim>\<open>String::from_utf8_lossy\<close> that the pages rely on: valid text is unchanged.\<close>

definition lossy_ok :: "(string \<Rightarrow> string) \<Rightarrow> bool" where
  "lossy_ok lossy \<longleftrightarrow> (\<forall>s. valid_utf8 s \<longrightarrow> lossy s = s)"

definition page_facts :: "int \<Rightarrow> int \<Rightarrow> chunk_row list \<Rightarrow> int \<Rightarrow> int \<Rightarrow> string \<times> int \<times> bool \<Rightarrow> bool" where
  "page_facts start p cs e budget = (\<lambda>(got, n, m).
     let rest = filter (beyond n) cs in
     rows_ok n n rest e \<and> p \<le> n \<and> bytes_from start cs = got @ bytes_from n rest \<and> (m \<longleftrightarrow> rest \<noteq> []) \<and>
     int (length got) = n - p \<and> int (length got) \<le> max budget 0 \<and> (4 \<le> budget \<and> cs \<noteq> [] \<longrightarrow> got \<noteq> []))"

lemma page_stops:
  assumes "rows_ok start p (c # cs) e" and "start \<le> p" and "\<not> 4 \<le> budget"
  shows "page_facts start p (c # cs) e budget ([], p, True)"
proof -
  have "0 < length (row_piece start c)" using assms(1) by simp
  from rows_advance [OF assms(1,2) this] assms(3) show ?thesis
    unfolding page_facts_def Let_def by simp
qed

lemma page_cuts:
  assumes ok: "rows_ok start p (c # cs) e" and "start \<le> p" and "lossy_ok lossy"
    and tk: "0 < tk" "tk < length (row_piece start c)" "cut_ok (row_piece start c) tk" "int tk \<le> budget"
  shows "page_facts start p (c # cs) e budget (lossy (take tk (row_piece start c)), row_end start tk c, True)"
proof -
  have "valid_utf8 (take tk (row_piece start c))" using valid_split [OF _ tk(3)] ok by simp
  then have l: "lossy (take tk (row_piece start c)) = take tk (row_piece start c)"
    using assms(3) by (simp add: lossy_ok_def)
  have e: "row_end start tk c = p + int tk" using ok by (simp add: row_end_def)
  have "row_piece start c \<noteq> []" using ok by simp
  then show ?thesis
    unfolding page_facts_def Let_def l e prod.case
    using rows_advance [OF ok assms(2) tk(2)] tk by (simp add: min_def)
qed

lemma page_goes_on:
  assumes ok: "rows_ok start p (c # cs) e" and "start \<le> p" and "lossy_ok lossy"
    and "p' = p + int (length (row_piece start c))" and "int (length (row_piece start c)) \<le> budget"
    and IH: "page_facts start p' cs e (budget - int (length (row_piece start c))) (got, n, m)"
  shows "page_facts start p (c # cs) e budget (lossy (row_piece start c) @ got, n, m)"
proof -
  have l: "lossy (row_piece start c) = row_piece start c" using ok assms(3) by (simp add: lossy_ok_def)
  have "p' = ck_offset c + ck_len c" using row_piece_nonempty [of start c] ok assms(4) by auto
  moreover have "p' \<le> n" using IH by (simp add: page_facts_def Let_def)
  ultimately have "\<not> beyond n c" by (simp add: beyond_def)
  then show ?thesis using IH ok assms(4,5) unfolding page_facts_def Let_def l by auto
qed

lemma page_rows_facts:
  assumes "lossy_ok lossy" and "rows_ok start p cs e" and "start \<le> p" and "page_rows lossy limit start cs used p = (out, n, m)"
  shows "page_facts start p cs e (limit - used) (chunks_text out, n, m)"
  using assms(2-4)
proof (induction cs arbitrary: used p out n m)
  case Nil
  then show ?case by (simp add: page_facts_def chunks_text_def)
next
  case (Cons c cs)
  define piece where "piece = row_piece start c"
  define tk where "tk = row_take limit used piece"
  have np: "piece \<noteq> []" "valid_utf8 piece" using Cons.prems by (auto simp: piece_def)
  have tk: "tk \<le> length piece" "tk \<le> page_room limit used" "tk = 0 \<or> cut_ok piece tk"
    using row_take_le row_take_ok unfolding tk_def by auto
  have step: "page_rows lossy limit start (c # cs) used p =
      (if page_room limit used = 0 \<or> tk = 0 then ([], p, True)
       else if tk < length piece then ([row_chunk lossy start tk c], row_end start tk c, True)
       else push_chunk (row_chunk lossy start tk c) (page_rows lossy limit start cs (used + int tk) (row_end start tk c)))"
    using np(1) by (simp add: Let_def piece_def tk_def)
  consider "tk = 0" | "0 < tk" "tk < length piece" | "0 < tk" "tk = length piece" using tk(1) by linarith
  then show ?case
  proof cases
    case 1
    then have "\<not> 4 \<le> limit - used" using row_take_progress [OF np(2,1), of limit used] unfolding tk_def by linarith
    then show ?thesis
      using page_stops [OF Cons.prems(1,2)] step 1 Cons.prems(3) by (simp add: chunks_text_def)
  next
    case 2
    then have b: "int tk \<le> limit - used" "page_room limit used \<noteq> 0" using tk(2) by (auto simp: page_room_def)
    then have o: "out = [row_chunk lossy start tk c]" "n = row_end start tk c" "m" using step 2 Cons.prems(3) by auto
    show ?thesis
      using page_cuts [OF Cons.prems(1,2) assms(1) 2(1), of "limit - used"] 2 tk(3) b(1) o
      by (simp add: chunks_text_def row_chunk_def piece_def)
  next
    case 3
    have b: "int tk \<le> limit - used" using tk(2) 3(1) unfolding page_room_def by arith
    have nz: "page_room limit used \<noteq> 0" using tk(2) 3(1) by linarith
    have e: "row_end start tk c = p + int (length piece)" using Cons.prems(1) 3(2) by (simp add: row_end_def piece_def)
    obtain out' where r: "page_rows lossy limit start cs (used + int tk) (row_end start tk c) = (out', n, m)"
        "out = row_chunk lossy start tk c # out'"
      using step 3 nz Cons.prems(3)
      by (cases "page_rows lossy limit start cs (used + int tk) (row_end start tk c)") (auto simp: push_chunk_def)
    have "page_facts start (p + int (length piece)) cs e (limit - (used + int tk)) (chunks_text out', n, m)"
      using Cons.IH [OF _ _ r(1) [unfolded e]] Cons.prems(1,2) by (simp add: piece_def)
    from page_goes_on [OF Cons.prems(1,2) assms(1) refl, of "limit - used" "chunks_text out'" n m] this b
    show ?thesis using 3 r(2) by (simp add: piece_def chunks_text_def row_chunk_def algebra_simps)
  qed
qed

section \<open>A paged source\<close>

text \<open>A reader's loop over a source: it takes a page, and goes on from where the page says while there is more.\<close>

fun drain :: "('t \<Rightarrow> 'p \<Rightarrow> 'b list \<times> 'p \<times> bool) \<Rightarrow> nat \<Rightarrow> 't \<Rightarrow> 'p \<Rightarrow> 'b list option" where
  "drain page n t p =
     (case page t p of
        (got, q, False) \<Rightarrow> Some got
      | (got, q, True) \<Rightarrow> (case n of 0 \<Rightarrow> None | Suc m \<Rightarrow> map_option ((@) got) (drain page m t q)))"

declare drain.simps [simp del]

locale pager =
  fixes page :: "'t \<Rightarrow> 'p \<Rightarrow> 'b list \<times> 'p \<times> bool"
    and inv :: "'t \<Rightarrow> 'p \<Rightarrow> bool"
    and remaining :: "'t \<Rightarrow> 'p \<Rightarrow> 'b list"
  assumes page_splits: "inv t p \<Longrightarrow> page t p = (got, q, m) \<Longrightarrow> remaining t p = got @ remaining t q"
    and page_inv: "inv t p \<Longrightarrow> page t p = (got, q, m) \<Longrightarrow> inv t q"
    and page_more: "inv t p \<Longrightarrow> page t p = (got, q, m) \<Longrightarrow> m \<longleftrightarrow> remaining t q \<noteq> []"
    and page_progress: "inv t p \<Longrightarrow> page t p = (got, q, m) \<Longrightarrow> remaining t p \<noteq> [] \<Longrightarrow> got \<noteq> []"
begin

lemma drained: "inv t p \<Longrightarrow> length (remaining t p) \<le> n \<Longrightarrow> drain page n t p = Some (remaining t p)"
proof (induction n arbitrary: p)
  case (0 p)
  obtain got q m where pg: "page t p = (got, q, m)" by (cases "page t p") auto
  then show ?case using 0 page_splits [OF 0(1) pg] page_more [OF 0(1) pg] by (simp add: drain.simps)
next
  case (Suc n p)
  obtain got q m where pg: "page t p = (got, q, m)" by (cases "page t p") auto
  note facts = page_splits [OF Suc.prems(1) pg] page_inv [OF Suc.prems(1) pg] page_more [OF Suc.prems(1) pg]
    page_progress [OF Suc.prems(1) pg]
  show ?case
  proof (cases m)
    case False
    then show ?thesis using pg facts by (simp add: drain.simps)
  next
    case True
    then have "got \<noteq> []" using facts by auto
    then have "length (remaining t q) \<le> n" using facts(1) Suc.prems(2) by (cases got) auto
    then show ?thesis using Suc.IH [OF facts(2)] facts(1) pg True by (subst drain.simps) simp
  qed
qed

end

section \<open>The task manager as a paged source\<close>

text \<open>A caller that passes each page's \<^verbatim>\<open>next_offset\<close> to the next call, the first call with none.\<close>

record page_source =
  pg_engine :: redact_engine
  pg_active :: "string \<Rightarrow> u32 option"
  pg_task :: string
  pg_max :: u64
  pg_manager :: task_manager

definition task_page :: "page_source \<Rightarrow> int option \<Rightarrow> string \<times> int option \<times> bool" where
  "task_page s offset =
     (case task_output (pg_engine s) (pg_active s) (pg_task s) offset (pg_max s) (pg_manager s) of
        Inl e \<Rightarrow> ([], offset, False)
      | Inr sl \<Rightarrow> (chunks_text (sl_chunks sl), Some (sl_next_offset sl), sl_more_available sl))"

definition source_start :: "page_source \<Rightarrow> int option \<Rightarrow> int" where
  "source_start s offset = (case find_task (pg_task s) (pg_manager s) of None \<Rightarrow> 0 | Some r \<Rightarrow> page_start offset (tr_truncated_before r))"

definition source_rows :: "page_source \<Rightarrow> int option \<Rightarrow> chunk_row list" where
  "source_rows s offset = rows_from (pg_task s) (source_start s offset) (pg_manager s)"

definition source_rest :: "page_source \<Rightarrow> int option \<Rightarrow> string" where
  "source_rest s offset = bytes_from (source_start s offset) (source_rows s offset)"

definition source_ok :: "page_source \<Rightarrow> int option \<Rightarrow> bool" where
  "source_ok s offset \<longleftrightarrow> lossy_ok (rg_lossy (pg_engine s)) \<and> 4 \<le> pg_max s \<and>
     (\<exists>r. find_task (pg_task s) (pg_manager s) = Some r \<and>
        rows_ok (source_start s offset) (source_start s offset) (source_rows s offset) (tr_total_bytes r))"

lemma rows_from_beyond: "start \<le> n \<Longrightarrow> filter (beyond n) (rows_from tid start S) = rows_from tid n S"
  by (auto simp: rows_from_def beyond_def filter_sort intro!: arg_cong [where f = "sort_key ck_seq"] filter_cong)

lemma task_get_some:
  "find_task tid S = Some r \<Longrightarrow> \<exists>i. task_get act tid S = Some i \<and> ti_truncated_before i = tr_truncated_before r
     \<and> ti_total_bytes i = tr_total_bytes r"
  by (simp add: task_get_def row_to_task_def)

lemma clamp_page_four: "4 \<le> (n :: u64) \<Longrightarrow> 4 \<le> clamp_page n"
  by (simp add: clamp_page_def PAGE_MAX_def word_le_def)

lemma source_page:
  assumes "source_ok s offset" and "task_page s offset = (got, q, m)"
  shows "source_ok s q \<and> source_rest s offset = got @ source_rest s q \<and> (m \<longleftrightarrow> source_rest s q \<noteq> [])
    \<and> (source_rest s offset \<noteq> [] \<longrightarrow> got \<noteq> [])"
proof -
  let ?S = "pg_manager s" and ?tid = "pg_task s"
  define start where "start = source_start s offset"
  obtain r where r: "find_task ?tid ?S = Some r" "lossy_ok (rg_lossy (pg_engine s))" "4 \<le> pg_max s"
      "rows_ok start start (source_rows s offset) (tr_total_bytes r)"
    using assms(1) unfolding source_ok_def start_def by blast
  have sr: "source_rows s offset = rows_from ?tid start ?S" by (simp add: source_rows_def start_def)
  have st: "start = page_start offset (tr_truncated_before r)" using r(1) by (simp add: start_def source_start_def)
  obtain out n more_rows where pg: "page_rows (rg_lossy (pg_engine s)) (clamp_page (pg_max s)) start (rows_from ?tid start ?S) 0 start
      = (out, n, more_rows)" by (metis prod_cases3)
  obtain i where i: "task_get (pg_active s) ?tid ?S = Some i" "ti_truncated_before i = tr_truncated_before r"
      "ti_total_bytes i = tr_total_bytes r" using task_get_some [OF r(1)] by blast
  have res: "got = chunks_text out" "q = Some n" "m \<longleftrightarrow> more_rows \<or> n < tr_total_bytes r"
    using assms(2) i pg by (auto simp: task_page_def task_output_def Let_def st)
  have facts: "page_facts start start (rows_from ?tid start ?S) (tr_total_bytes r) (clamp_page (pg_max s)) (got, n, more_rows)"
    using page_rows_facts [OF r(2) r(4) [unfolded sr] order.refl pg] res(1) by simp
  then have "start \<le> n" by (simp add: page_facts_def Let_def)
  have nxt: "source_start s q = n"
    using \<open>start \<le> n\<close> r(1) st res(2) by (auto simp: source_start_def page_start_def)
  have rows: "source_rows s q = filter (beyond n) (rows_from ?tid start ?S)"
    using rows_from_beyond [OF \<open>start \<le> n\<close>] nxt by (simp add: source_rows_def)
  have ok: "rows_ok n n (source_rows s q) (tr_total_bytes r)" using facts rows by (simp add: page_facts_def Let_def)
  have ne: "source_rest s x \<noteq> [] \<longleftrightarrow> source_rows s x \<noteq> []" if "source_ok s x" for x
    using that by (cases "source_rows s x") (auto simp: source_ok_def source_rest_def)
  have q_ok: "source_ok s q" using ok nxt r by (simp add: source_ok_def)
  have "m \<longleftrightarrow> source_rows s q \<noteq> []"
    using facts rows_ok_le [OF ok] ok res(3) rows by (cases "source_rows s q") (auto simp: page_facts_def Let_def)
  moreover have "source_rest s offset = got @ source_rest s q"
    using facts rows sr nxt by (simp add: source_rest_def page_facts_def Let_def start_def)
  moreover have "source_rest s offset \<noteq> [] \<longrightarrow> got \<noteq> []"
    using facts clamp_page_four [OF r(3)] ne [OF assms(1)] sr by (simp add: page_facts_def Let_def)
  ultimately show ?thesis using ne [OF q_ok] q_ok by blast
qed

interpretation output_pages: pager task_page source_ok source_rest
  by unfold_locales (use source_page in blast)+

end
