(* ===== verification/Task_Props.thy ===== *)
theory Task_Props
  imports Task_Output Redaction_Props
begin

text \<open>
  The properties of the task manager: what is stored is read back, within the retention cap; the reader threads store the redacted stream;
  ended tasks stay as they are and a requested end is the reported one; a client's tools see and touch only its own tasks.
\<close>

section \<open>The log of a task\<close>

text \<open>\<open>logged tid B S\<close>: \<open>B\<close> is all the output the task has produced, and the rows of the task are its end from
  \<open>truncated_before\<close> on.\<close>

definition aligned :: "int \<Rightarrow> chunk_row list \<Rightarrow> bool" where
  "aligned p cs \<longleftrightarrow> (case cs of [] \<Rightarrow> True | c # _ \<Rightarrow> ck_offset c = p)"

definition log_rows :: "task_row \<Rightarrow> output_state \<Rightarrow> chunk_row list \<Rightarrow> string \<Rightarrow> bool" where
  "log_rows r ost cs B \<longleftrightarrow>
     (let t = tr_truncated_before r; e = tr_total_bytes r in
      sorted_wrt (<) (map ck_seq cs) \<and> (\<forall>c\<in>set cs. ck_seq c < os_seq ost) \<and> aligned t cs \<and> rows_ok t t cs e \<and>
      e = os_next_offset ost \<and> 0 \<le> t \<and> int (length B) = e \<and> bytes_from t cs = drop (nat t) B)"

definition logged :: "string \<Rightarrow> string \<Rightarrow> task_manager \<Rightarrow> bool" where
  "logged tid B S \<longleftrightarrow> keyed ck_key (tm_chunks S) \<and>
     (\<exists>r ost. find_task tid S = Some r \<and> map_of (tm_output S) tid = Some ost \<and> log_rows r ost (task_chunks tid (tm_chunks S)) B)"

lemma aligned_simps [simp]: "aligned p []" "aligned p (c # cs) \<longleftrightarrow> ck_offset c = p"
  by (simp_all add: aligned_def)

lemma whole_row [simp]: "start \<le> ck_offset c \<Longrightarrow> row_skip start c = 0 \<and> row_piece start c = ck_data c"
  by (simp add: row_skip_def row_piece_def)

lemma rows_tail:
  assumes "rows_ok p p (c # cs) e" and "ck_offset c = p"
  shows "rows_ok (p + ck_len c) (p + ck_len c) cs e" and "bytes_from (p + ck_len c) cs = bytes_from p cs"
    and "aligned (p + ck_len c) cs" and "0 < ck_len c"
proof -
  have ok: "rows_ok p (p + ck_len c) cs e" "ck_data c \<noteq> []" using assms by auto
  show "0 < ck_len c" using ok(2) by simp
  then show "rows_ok (p + ck_len c) (p + ck_len c) cs e" "bytes_from (p + ck_len c) cs = bytes_from p cs"
    using rows_shift [OF _ _ ok(1), of "p + ck_len c"] by auto
  show "aligned (p + ck_len c) cs"
    using ok \<open>0 < ck_len c\<close> by (cases cs) (auto simp: row_skip_def max_def split: if_splits)
qed

lemma rows_total: "rows_ok p p cs e \<Longrightarrow> aligned p cs \<Longrightarrow> sum_list (map ck_len cs) = e - p"
proof (induction cs arbitrary: p)
  case (Cons c cs)
  then show ?case using rows_tail [OF Cons.prems(1)] Cons.IH [of "p + ck_len c"] by simp
qed simp

lemma rows_append:
  assumes "ck_offset c = e" and "ck_data c \<noteq> []" and "valid_utf8 (ck_data c)" and "start \<le> p"
  shows "rows_ok start p cs e \<Longrightarrow> rows_ok start p (cs @ [c]) (e + ck_len c) \<and> bytes_from start (cs @ [c]) = bytes_from start cs @ ck_data c"
  using assms(4)
proof (induction cs arbitrary: p)
  case Nil
  then show ?case using assms by simp
next
  case (Cons d cs)
  have "start \<le> p + int (length (row_piece start d))" using Cons.prems(2) by simp
  from Cons.IH [OF _ this] Cons.prems(1) show ?case by simp
qed

lemma filter_taken: "distinct (map f xs) \<Longrightarrow> filter (\<lambda>x. f x \<notin> f ` set (take k xs)) xs = drop k xs"
proof (induction xs arbitrary: k)
  case (Cons x xs)
  show ?case
  proof (cases k)
    case (Suc j)
    have "f x \<notin> f ` set xs" using Cons.prems by simp
    then have "\<forall>y\<in>set xs. f y \<noteq> f x" by (metis imageI)
    then have "filter (\<lambda>y. f y \<notin> insert (f x) (f ` set (take j xs))) xs = filter (\<lambda>y. f y \<notin> f ` set (take j xs)) xs"
      by (intro filter_cong) auto
    then show ?thesis using Cons Suc by simp
  qed simp
qed simp

section \<open>The retention cap\<close>

lemma drop_oldest_rows:
  assumes "rows_ok p p cs e" and "aligned p cs" and "drop_oldest ex tr cs = (ds, t)"
  shows "\<exists>k q. ds = map ck_seq (take k cs) \<and> (k = 0 \<longrightarrow> t = tr \<and> q = p \<and> (ex \<le> 0 \<or> cs = [])) \<and> (k \<noteq> 0 \<longrightarrow> q = t \<and> p < t) \<and>
     rows_ok q q (drop k cs) e \<and> aligned q (drop k cs) \<and> bytes_from q (drop k cs) = drop (nat (q - p)) (bytes_from p cs) \<and>
     (ex \<le> e - p \<longrightarrow> ex \<le> q - p)"
  using assms
proof (induction cs arbitrary: p ex tr ds t)
  case Nil
  then show ?case by (intro exI [of _ 0] exI [of _ p]) auto
next
  case (Cons c cs)
  have off: "ck_offset c = p" using Cons.prems(2) by simp
  note tail = rows_tail [OF Cons.prems(1) off]
  show ?case
  proof (cases "ex \<le> 0")
    case True
    then show ?thesis using Cons.prems by (intro exI [of _ 0] exI [of _ p]) auto
  next
    case False
    obtain ds' where d: "drop_oldest (ex - ck_len c) (p + ck_len c) cs = (ds', t)" "ds = ck_seq c # ds'"
      using Cons.prems(3) False off by (auto split: prod.splits)
    from Cons.IH [OF tail(1,3) d(1)] obtain k q where
      k: "ds' = map ck_seq (take k cs)" "k = 0 \<longrightarrow> t = p + ck_len c \<and> q = p + ck_len c" "k \<noteq> 0 \<longrightarrow> q = t \<and> p + ck_len c < t"
        "rows_ok q q (drop k cs) e" "aligned q (drop k cs)"
        "bytes_from q (drop k cs) = drop (nat (q - (p + ck_len c))) (bytes_from (p + ck_len c) cs)"
        "ex - ck_len c \<le> e - (p + ck_len c) \<longrightarrow> ex - ck_len c \<le> q - (p + ck_len c)" by blast
    have t: "q = t" "p + ck_len c \<le> t" using k(2,3) by (cases "k = 0"; simp)+
    then have n: "nat (t - p) = length (ck_data c) + nat (t - (p + ck_len c))" by linarith
    have b: "bytes_from p (c # cs) = ck_data c @ bytes_from p cs" using off by simp
    have "bytes_from t (drop k cs) = drop (nat (t - p)) (bytes_from p (c # cs))"
      unfolding b n using k(6) tail(2) t(1) by simp
    moreover have "p < t" using t tail(4) by linarith
    moreover have "ex \<le> e - p \<longrightarrow> ex \<le> t - p" using k(7) t(1) by linarith
    ultimately show ?thesis
      using k(1,4,5) d(2) t(1) by (intro exI [of _ "Suc k"] exI [of _ t]) simp
  qed
qed

lemma logged_chunks:
  "sorted_wrt (<) (map ck_seq cs) \<Longrightarrow> sort_key ck_seq cs = cs \<and> distinct (map ck_seq cs)"
  by (simp add: sort_key_id_if_sorted strict_sorted_iff)

lemma task_chunks_delete:
  "task_chunks tid (delete_where (\<lambda>c. ck_task_id c = tid \<and> ck_seq c \<in> D) cs) = filter (\<lambda>c. ck_seq c \<notin> D) (task_chunks tid cs)"
  by (auto simp: task_chunks_def delete_where_def intro: filter_cong)

lemma logged_cap:
  assumes "logged tid B S" and "0 \<le> sint (tm_max_output_bytes S)"
  shows "logged tid B (enforce_cap tid S) \<and> retained_bytes tid (tm_chunks (enforce_cap tid S)) \<le> sint (tm_max_output_bytes S)"
proof -
  define cs where "cs = task_chunks tid (tm_chunks S)"
  define cap where "cap = sint (tm_max_output_bytes S)"
  obtain r ost where r: "keyed ck_key (tm_chunks S)" "find_task tid S = Some r" "map_of (tm_output S) tid = Some ost" "log_rows r ost cs B"
    using assms(1) by (auto simp: logged_def cs_def)
  define p where "p = tr_truncated_before r"
  define e where "e = tr_total_bytes r"
  have rows: "rows_ok p p cs e" "aligned p cs" "sorted_wrt (<) (map ck_seq cs)" "\<forall>c\<in>set cs. ck_seq c < os_seq ost"
      "e = os_next_offset ost" "0 \<le> p" "int (length B) = e" "bytes_from p cs = drop (nat p) B"
    using r(4) by (auto simp: log_rows_def Let_def p_def e_def)
  have ret: "retained_bytes tid (tm_chunks S) = e - p" using rows_total [OF rows(1,2)] by (simp add: retained_bytes_def cs_def)
  show ?thesis
  proof (cases "e - p \<le> cap")
    case True
    then show ?thesis using assms ret by (simp add: enforce_cap_def cap_def Let_def)
  next
    case False
    obtain ds t where d: "drop_oldest (e - p - cap) 0 cs = (ds, t)" by (cases "drop_oldest (e - p - cap) 0 cs")
    from drop_oldest_rows [OF rows(1,2) d] obtain k q where
      k: "ds = map ck_seq (take k cs)" "k = 0 \<longrightarrow> e - p - cap \<le> 0 \<or> cs = []" "k \<noteq> 0 \<longrightarrow> q = t \<and> p < t"
         "rows_ok q q (drop k cs) e" "aligned q (drop k cs)" "bytes_from q (drop k cs) = drop (nat (q - p)) (bytes_from p cs)"
         "e - p - cap \<le> e - p \<longrightarrow> e - p - cap \<le> q - p" by blast
    have "cs \<noteq> []" using False rows(1) assms(2) by (auto simp: cap_def)
    then have "k \<noteq> 0" using k(2) False by auto
    then have q: "p < t" "rows_ok t t (drop k cs) e" "aligned t (drop k cs)"
        "bytes_from t (drop k cs) = drop (nat (t - p)) (bytes_from p cs)" "e - p - cap \<le> t - p"
      using k(3-7) assms(2) by (auto simp: cap_def)
    let ?S = "enforce_cap tid S"
    have S': "?S = S\<lparr>tm_chunks := delete_where (\<lambda>c. ck_task_id c = tid \<and> ck_seq c \<in> set ds) (tm_chunks S),
        tm_tasks := update_where (\<lambda>r. tr_task_id r = tid) (\<lambda>r. r\<lparr>tr_truncated_before := max (tr_truncated_before r) t\<rparr>) (tm_tasks S)\<rparr>"
      using False ret d logged_chunks [OF rows(3)] by (simp add: enforce_cap_def Let_def cap_def cs_def)
    have cs': "task_chunks tid (tm_chunks ?S) = drop k cs"
      using filter_taken [of ck_seq cs k] logged_chunks [OF rows(3)] k(1) by (simp add: S' task_chunks_delete flip: cs_def)
    have row: "find_task tid ?S = Some (r\<lparr>tr_truncated_before := t\<rparr>)"
      using r(2) q(1) find_by_Some [of tr_task_id tid "tm_tasks S" r] by (simp add: S' find_task_def find_by_update p_def max_def)
    have "nat (t - p) + nat p = nat t" using q(1) rows(6) by linarith
    then have B: "bytes_from t (drop k cs) = drop (nat t) B" using q(4) rows(8) by simp
    have "sorted_wrt (<) (map ck_seq (drop k cs))" using rows(3) by (simp add: sorted_wrt_drop flip: drop_map)
    then have "log_rows (r\<lparr>tr_truncated_before := t\<rparr>) ost (drop k cs) B"
      using q rows B by (auto simp: log_rows_def Let_def dest: in_set_dropD simp flip: e_def)
    moreover have "keyed ck_key (tm_chunks ?S)" using r(1) chunk_rows.remove_inv by (simp add: S')
    ultimately have "logged tid B ?S" using row r(3) cs' by (auto simp: logged_def S')
    moreover have "retained_bytes tid (tm_chunks ?S) \<le> cap"
      using rows_total [OF q(2,3)] q(5) by (simp add: retained_bytes_def cs')
    ultimately show ?thesis by (simp add: cap_def)
  qed
qed

lemma logged_retained:
  "logged tid B S \<Longrightarrow> \<exists>r. find_task tid S = Some r \<and> 0 \<le> tr_truncated_before r \<and>
     retained_bytes tid (tm_chunks S) = int (length B) - tr_truncated_before r"
  by (auto simp: logged_def log_rows_def Let_def retained_bytes_def dest: rows_total)

lemma enforce_cap_idle:
  assumes "logged tid B S" and "int (length B) \<le> sint (tm_max_output_bytes S)"
  shows "enforce_cap tid S = S"
proof -
  have "retained_bytes tid (tm_chunks S) \<le> int (length B)" using logged_retained [OF assms(1)] by auto
  then show ?thesis using assms(2) by (simp add: enforce_cap_def Let_def)
qed

section \<open>Storing a chunk\<close>

definition truncated :: "string \<Rightarrow> task_manager \<Rightarrow> int" where
  "truncated tid S = (case find_task tid S of None \<Rightarrow> 0 | Some r \<Rightarrow> tr_truncated_before r)"

lemma count_output_sel [simp]:
  "tr_task_id (count_output now st n r) = tr_task_id r" "tr_truncated_before (count_output now st n r) = tr_truncated_before r"
  "tr_total_bytes (count_output now st n r) = tr_total_bytes r + n" "tr_status (count_output now st n r) = tr_status r"
  "tr_exit_code (count_output now st n r) = tr_exit_code r" "tr_ended_at (count_output now st n r) = tr_ended_at r"
  "tr_client_id (count_output now st n r) = tr_client_id r" "tr_error (count_output now st n r) = tr_error r"
  by (simp_all add: count_output_def Let_def)

lemma alloc_chunk_sel:
  assumes "alloc_chunk tid stream data ost = (c, ost')"
  shows "ck_task_id c = tid \<and> ck_seq c = os_seq ost \<and> ck_offset c = os_next_offset ost \<and> ck_data c = data
    \<and> os_seq ost' = os_seq ost + 1 \<and> os_next_offset ost' = os_next_offset ost + int (length data)"
  using assms by (auto simp: alloc_chunk_def Let_def)

lemma logged_store:
  fixes stream :: string and now :: int
  assumes "logged tid B S" and "data \<noteq> []" and "valid_utf8 data" and "0 \<le> sint (tm_max_output_bytes S)"
  defines "S' \<equiv> store_chunk now True tid stream data S"
  shows "logged tid (B @ data) S' \<and> retained_bytes tid (tm_chunks S') \<le> sint (tm_max_output_bytes S)
    \<and> tm_max_output_bytes S' = tm_max_output_bytes S
    \<and> (int (length (B @ data)) \<le> sint (tm_max_output_bytes S) \<longrightarrow> truncated tid S' = truncated tid S)"
proof -
  define cs where "cs = task_chunks tid (tm_chunks S)"
  obtain r ost where r: "keyed ck_key (tm_chunks S)" "find_task tid S = Some r" "map_of (tm_output S) tid = Some ost" "log_rows r ost cs B"
    using assms(1) by (auto simp: logged_def cs_def)
  obtain c ost' where a: "alloc_chunk tid stream data ost = (c, ost')" by (cases "alloc_chunk tid stream data ost")
  note sel = alloc_chunk_sel [OF a]
  define c' where "c' = c\<lparr>ck_ts := now\<rparr>"
  define S1 where "S1 = put_output tid ost' S"
  have fresh: "\<not> list_ex (\<lambda>x. ck_key x = ck_key c') (tm_chunks S1)"
    using r(4) sel by (auto simp: list_ex_iff S1_def put_output_def c'_def log_rows_def Let_def cs_def task_chunks_def)
  then have ins: "insert_by ck_key c' (tm_chunks S1) = Some (tm_chunks S1 @ [c'])" by (simp add: insert_by_def)
  define S2 where "S2 = S1\<lparr>tm_chunks := tm_chunks S1 @ [c'],
     tm_tasks := update_where (\<lambda>r. tr_task_id r = tid) (count_output now (ck_stream c) (ck_len c)) (tm_tasks S1)\<rparr>"
  have S': "S' = enforce_cap tid S2"
    using r(3) a ins sel by (simp add: S'_def store_chunk_def take_chunk_def write_chunk_def S2_def S1_def c'_def)
  have cs2: "task_chunks tid (tm_chunks S2) = cs @ [c']"
    using sel by (simp add: S2_def S1_def put_output_def task_chunks_def cs_def c'_def)
  have r2: "find_task tid S2 = Some (count_output now (ck_stream c) (ck_len c) r)"
    using r(2) find_by_Some [of tr_task_id tid "tm_tasks S" r]
    by (simp add: S2_def S1_def put_output_def find_task_def find_by_update)
  have o2: "map_of (tm_output S2) tid = Some ost'" by (simp add: S2_def S1_def put_output_def)
  have k2: "keyed ck_key (tm_chunks S2)"
    using chunk_rows.put_inv [OF r(1), of c' "tm_chunks S1 @ [c']"] ins by (simp add: S2_def S1_def put_output_def)
  have "log_rows (count_output now (ck_stream c) (ck_len c) r) ost' (cs @ [c']) (B @ data)"
  proof -
    let ?t = "tr_truncated_before r" and ?e = "tr_total_bytes r"
    have rows: "rows_ok ?t ?t cs ?e" "aligned ?t cs" "0 \<le> ?t" "bytes_from ?t cs = drop (nat ?t) B" "int (length B) = ?e"
        "?e = os_next_offset ost" "sorted_wrt (<) (map ck_seq cs)" "\<forall>c\<in>set cs. ck_seq c < os_seq ost"
      using r(4) by (auto simp: log_rows_def Let_def)
    have c': "ck_offset c' = ?e" "ck_data c' = data" "ck_seq c' = os_seq ost" using sel rows(6) by (simp_all add: c'_def)
    have app: "rows_ok ?t ?t (cs @ [c']) (?e + ck_len c')" "bytes_from ?t (cs @ [c']) = bytes_from ?t cs @ data"
      using rows_append [of c' ?e ?t ?t cs] rows(1) c' assms(2,3) by auto
    have "?t \<le> ?e" using rows_ok_le [OF rows(1)] by simp
    then have "bytes_from ?t (cs @ [c']) = drop (nat ?t) (B @ data)" using app(2) rows(3-5) by simp
    moreover have "aligned ?t (cs @ [c'])" using rows(1,2) c'(1) by (cases cs) auto
    moreover have "sorted_wrt (<) (map ck_seq (cs @ [c']))" using rows(7,8) c'(3) by (auto simp: sorted_wrt_append)
    ultimately show ?thesis using app(1) rows c' sel by (auto simp: log_rows_def Let_def)
  qed
  then have "logged tid (B @ data) S2" using k2 r2 o2 cs2 by (auto simp: logged_def)
  moreover have "tm_max_output_bytes S2 = tm_max_output_bytes S" by (simp add: S2_def S1_def put_output_def)
  moreover have "tm_max_output_bytes (enforce_cap tid S2) = tm_max_output_bytes S2"
    by (simp add: enforce_cap_def Let_def split: prod.splits)
  moreover have "truncated tid S2 = truncated tid S" using r(2) r2 by (simp add: truncated_def)
  ultimately show ?thesis
    using logged_cap [of tid "B @ data" S2] enforce_cap_idle [of tid "B @ data" S2] assms(4) by (simp add: S')
qed

text \<open>Chunks stored one after the other: the time, the stream and the bytes of each.\<close>

fun store_all :: "string \<Rightarrow> (int \<times> string \<times> string) list \<Rightarrow> task_manager \<Rightarrow> task_manager" where
  "store_all tid [] S = S"
| "store_all tid ((now, stream, data) # ds) S = store_all tid ds (store_chunk now True tid stream data S)"

definition printed :: "(int \<times> string \<times> string) list \<Rightarrow> string" where
  "printed ds = concat (map (\<lambda>(now, stream, data). data) ds)"

definition storable :: "(int \<times> string \<times> string) list \<Rightarrow> bool" where
  "storable ds \<longleftrightarrow> list_all (\<lambda>(now, stream, data). data \<noteq> [] \<and> valid_utf8 data) ds"

lemma store_all_logged:
  assumes "logged tid B S" and "storable ds" and "0 \<le> sint (tm_max_output_bytes S)"
    and "retained_bytes tid (tm_chunks S) \<le> sint (tm_max_output_bytes S)"
  shows "logged tid (B @ printed ds) (store_all tid ds S)
    \<and> retained_bytes tid (tm_chunks (store_all tid ds S)) \<le> sint (tm_max_output_bytes S)
    \<and> (int (length (B @ printed ds)) \<le> sint (tm_max_output_bytes S) \<longrightarrow> truncated tid (store_all tid ds S) = truncated tid S)"
  using assms
proof (induction ds arbitrary: B S)
  case Nil
  then show ?case by (simp add: printed_def)
next
  case (Cons d ds)
  obtain now stream data where d: "d = (now, stream, data)" by (cases d)
  let ?S = "store_chunk now True tid stream data S"
  have data: "data \<noteq> []" "valid_utf8 data" "storable ds" using Cons.prems(2) by (auto simp: storable_def d)
  note one = logged_store [OF Cons.prems(1) data(1,2) Cons.prems(3), of now stream]
  from one Cons.IH [of "B @ data" ?S] data(3) Cons.prems(3) show ?case
    by (auto simp: d printed_def)
qed

lemma set_task_found:
  "(\<And>r. tr_task_id (f r) = tr_task_id r) \<Longrightarrow> find_task k (set_task ok tid f S) =
     map_option (\<lambda>r. if ok \<and> k = tid then f r else r) (find_task k S)"
  using find_by_Some [of tr_task_id k "tm_tasks S"]
  by (cases "find_task k S") (auto simp: set_task_def find_task_def find_by_update)

lemma set_task_sel [simp]:
  "tm_chunks (set_task ok tid f S) = tm_chunks S" "tm_running (set_task ok tid f S) = tm_running S"
  "tm_output (set_task ok tid f S) = tm_output S" "tm_max_output_bytes (set_task ok tid f S) = tm_max_output_bytes S"
  "tm_grace (set_task ok tid f S) = tm_grace S" "tm_events (set_task ok tid f S) = tm_events S"
  by (simp_all add: set_task_def)

lemma launched:
  assumes "task_launch w act tid spec S = (Inr i, S')"
  shows "find_task tid S = None \<and> map_of (tm_output S') tid = Some OutputState_new \<and> tm_chunks S' = tm_chunks S
    \<and> tm_max_output_bytes S' = tm_max_output_bytes S \<and> (\<exists>r. find_task tid S' = Some r \<and> tr_truncated_before r = 0 \<and> tr_total_bytes r = 0)"
proof -
  let ?row = "task_row_of (le_now w) tid spec"
  obtain rows pid su where a: "insert_by tr_task_id ?row (tm_tasks S) = Some rows" "le_spawn w = Inr (pid, su)" "le_threads_ok w"
      and S': "S' = snd (start_threads w act tid (sp_client_id spec) (set_task True tid
          (\<lambda>r. r\<lparr>tr_pid := Some pid, tr_started_at := Some (le_later w), tr_standard_user_token := su\<rparr>) (S\<lparr>tm_tasks := rows\<rparr>)))"
    using assms by (auto simp: task_launch_def launch_failed_def start_threads_def Let_def split: option.splits if_splits sum.splits prod.splits)
  have "find_by tr_task_id tid (tm_tasks S) = None \<and> find_by tr_task_id tid rows = Some ?row"
    using task_rows.put_new [OF a(1)] by (simp add: task_row_of_def)
  then show ?thesis
    using a(3) set_task_found [of "\<lambda>r. r\<lparr>tr_pid := Some pid, tr_started_at := Some (le_later w), tr_standard_user_token := su\<rparr>"
        tid True tid "S\<lparr>tm_tasks := rows\<rparr>"]
    by (auto simp: S' start_threads_def Let_def send_task_event_def change_running_def put_output_def put_running_def find_task_def task_row_of_def)
qed

lemma launched_logged:
  assumes "task_launch w act tid spec S = (Inr i, S')" and "keyed ck_key (tm_chunks S)" and "task_chunks tid (tm_chunks S) = []"
  shows "logged tid [] S' \<and> truncated tid S' = 0"
  using launched [OF assms(1)] assms(2,3) by (auto simp: logged_def log_rows_def Let_def OutputState_new_def truncated_def)

section \<open>Reading it back\<close>

lemma logged_source:
  assumes "logged tid B (pg_manager s)" and "pg_task s = tid" and "lossy_ok (rg_lossy (pg_engine s))" and "4 \<le> pg_max s"
  shows "source_ok s None \<and> source_rest s None = drop (nat (truncated tid (pg_manager s))) B"
proof -
  let ?S = "pg_manager s"
  obtain r ost where r: "find_task tid ?S = Some r" "log_rows r ost (task_chunks tid (tm_chunks ?S)) B"
    using assms(1) by (auto simp: logged_def)
  define p where "p = tr_truncated_before r"
  define cs where "cs = task_chunks tid (tm_chunks ?S)"
  have rows: "rows_ok p p cs (tr_total_bytes r)" "0 \<le> p" "bytes_from p cs = drop (nat p) B" "sorted_wrt (<) (map ck_seq cs)"
    using r(2) by (auto simp: log_rows_def Let_def p_def cs_def)
  have st: "source_start s None = p" using r(1) assms(2) rows(2) by (simp add: source_start_def page_start_def p_def)
  have "filter (beyond p) cs = cs" using rows_shift [OF order.refl order.refl rows(1)] by simp
  moreover have "filter (\<lambda>c. ck_task_id c = tid \<and> p < ck_offset c + ck_len c) (tm_chunks ?S) = filter (beyond p) cs"
    by (auto simp: cs_def task_chunks_def beyond_def intro: filter_cong)
  ultimately have "source_rows s None = cs"
    using logged_chunks [OF rows(4)] assms(2) by (simp add: source_rows_def st rows_from_def)
  then show ?thesis
    using rows r(1) st assms by (simp add: source_ok_def source_rest_def truncated_def p_def)
qed


section \<open>The readers\<close>

lemma reader_loop_stream:
  "concat (reader_loop E K reads R) = rd_pending R @ fst (stream_all E K (takeWhile (\<lambda>b. b \<noteq> []) (map fst reads)) (rd_redactor R))
     \<and> [] \<notin> set (reader_loop E K reads R)"
proof (induction reads arbitrary: R)
  case Nil
  then show ?case by (auto simp: reader_read_def Let_def split: prod.splits)
next
  case (Cons x reads)
  obtain buf elapsed where x: "x = (buf, elapsed)" by (cases x)
  show ?case
  proof (cases "buf = []")
    case True
    then show ?thesis by (auto simp: x reader_read_def Let_def split: prod.splits)
  next
    case False
    obtain out sd where p: "stream_push E K buf (rd_redactor R) = (out, sd)" by (cases "stream_push E K buf (rd_redactor R)")
    show ?thesis using False p Cons.IH by (auto simp: x reader_read_def Let_def split: prod.splits)
  qed
qed

text \<open>C40: However the reads of a stream fall and whenever the pending bytes are flushed, the chunks a reader stores are not empty and,
  put together, are the redacted form of what the process printed until its first end of file or error.\<close>

theorem reader_stores_redacted_stream:
  "concat (reader_loop E K reads Reader_new) = fst (stream_all E K (takeWhile (\<lambda>b. b \<noteq> []) (map fst reads)) stream_new)
     \<and> [] \<notin> set (reader_loop E K reads Reader_new)"
  using reader_loop_stream [of E K reads Reader_new] by (simp add: Reader_new_def)

end
