(* ===== verification/Task_Runs.thy ===== *)
theory Task_Runs
  imports Task_Props
begin

text \<open>
  The task manager over its runs: launches, readers, wait threads, cancellations, kills, clean-up and restarts in any order. An
  ended task stays as it ended, the status a stop asked for is the one reported, and the task tools of a client see and
  touch only the client's own tasks.
\<close>

section \<open>Steps\<close>

datatype task_label =
    TL_Launch string
  | TL_Cancel string
  | TL_Grace string
  | TL_Kill string
  | TL_KillAll
  | TL_KillClient string
  | TL_Wait string bool
  | TL_Finish string task_status
  | TL_Restart
  | TL_Other

inductive task_step :: "task_manager \<Rightarrow> task_label \<Rightarrow> task_manager \<Rightarrow> bool" where
  ts_launch: "task_launch w act tid spec S = (res, S') \<Longrightarrow> task_step S (TL_Launch tid) S'"
| ts_take: "take_chunk tid stream data S = Some (c, S') \<Longrightarrow> task_step S TL_Other S'"
| ts_write: "task_step S TL_Other (write_chunk now ok c S)"
| ts_cancel: "task_cancel act tid S = (res, S') \<Longrightarrow> task_step S (TL_Cancel tid) S'"
| ts_grace: "tid \<in> set (tm_grace S) \<Longrightarrow> task_step S (TL_Grace tid) (cancel_elapsed tid S)"
| ts_kill: "task_kill act tid S = (res, S') \<Longrightarrow> task_step S (TL_Kill tid) S'"
| ts_kill_all: "task_step S TL_KillAll (snd (kill_all S))"
| ts_kill_client: "task_step S (TL_KillClient client) (snd (kill_client client S))"
| ts_wait: "task_step S (TL_Wait tid (wo_late w)) (wait_step tid w S)"
| ts_finish: "find_running tid S = Some r \<Longrightarrow> rn_exited r \<Longrightarrow>
     task_step S (TL_Finish tid (final_status r)) (finish_task now ok tid S)"
| ts_cap: "task_step S TL_Other (set_max_output_bytes v S)"
| ts_prune: "task_prune w age S = (res, S') \<Longrightarrow> task_step S TL_Other S'"
| ts_restart: "recover_on_startup w (TaskManager_open (tm_tasks S) (tm_chunks S) cap) = (Inr n, S') \<Longrightarrow> task_step S TL_Restart S'"

inductive_cases task_step_finishE: "task_step S (TL_Finish tid st) S'"

text \<open>The running tasks are in the table, as running.\<close>

definition tasks_ok :: "task_manager \<Rightarrow> bool" where
  "tasks_ok S \<longleftrightarrow> keyed tr_task_id (tm_tasks S) \<and>
     (\<forall>tid r. find_running tid S = Some r \<longrightarrow> (\<exists>row. find_task tid S = Some row \<and> tr_status row = ''running''))"

text \<open>What a step may do to the row of a task that ended, and to the entry of one that runs.\<close>

definition outcome :: "task_row \<Rightarrow> string \<times> int option \<times> int option \<times> string option" where
  "outcome r = (tr_status r, tr_exit_code r, tr_ended_at r, tr_error r)"

definition ended_as :: "string \<Rightarrow> string \<times> int option \<times> int option \<times> string option \<Rightarrow> task_manager \<Rightarrow> bool" where
  "ended_as tid x S \<longleftrightarrow> fst x \<noteq> ''running'' \<and> (case find_task tid S of None \<Rightarrow> True | Some r \<Rightarrow> outcome r = x)"

definition stops_as :: "string \<Rightarrow> task_status \<Rightarrow> task_manager \<Rightarrow> bool" where
  "stops_as tid st S \<longleftrightarrow> (case find_running tid S of None \<Rightarrow> True | Some r \<Rightarrow> rn_kill_status r = Some st)"

section \<open>How the operations change the two tables\<close>

lemma map_of_change:
  "map_of (map (\<lambda>(t, r). (t, if P t r then f r else r)) xs) k = map_option (\<lambda>r. if P k r then f r else r) (map_of xs k)"
  by (induction xs) auto

lemma find_running_change [simp]:
  "find_running tid (change_running P f S) = map_option (\<lambda>r. if P tid r then f r else r) (find_running tid S)"
  by (simp add: find_running_def change_running_def map_of_change)

lemma change_running_sel [simp]:
  "tm_tasks (change_running P f S) = tm_tasks S" "tm_chunks (change_running P f S) = tm_chunks S"
  "tm_grace (change_running P f S) = tm_grace S" "tm_max_output_bytes (change_running P f S) = tm_max_output_bytes S"
  "find_task tid (change_running P f S) = find_task tid S"
  by (simp_all add: change_running_def find_task_def)

lemma map_of_drop_key: "map_of (filter (\<lambda>p. fst p \<noteq> k) xs) j = (if j = k then None else map_of xs j)"
  by (induction xs) auto

lemma enforce_cap_rows:
  "find_running k (enforce_cap tid S) = find_running k S
   \<and> (\<exists>f. tm_tasks (enforce_cap tid S) = update_where (\<lambda>r. tr_task_id r = tid) f (tm_tasks S) \<and> (\<forall>r. outcome (f r) = outcome r \<and> tr_task_id (f r) = tr_task_id r))"
proof -
  obtain ds t where d: "drop_oldest (retained_bytes tid (tm_chunks S) - sint (tm_max_output_bytes S)) 0
      (sort_key ck_seq (task_chunks tid (tm_chunks S))) = (ds, t)" by (meson surj_pair)
  show ?thesis
  proof (cases "retained_bytes tid (tm_chunks S) \<le> sint (tm_max_output_bytes S)")
    case True
    then show ?thesis
      by (intro conjI exI [of _ "\<lambda>r. r"]) (auto simp: enforce_cap_def update_where_def Let_def)
  next
    case False
    then show ?thesis
      by (intro conjI exI [of _ "\<lambda>r. r\<lparr>tr_truncated_before := max (tr_truncated_before r) t\<rparr>"])
         (simp_all add: enforce_cap_def Let_def d find_running_def outcome_def)
  qed
qed

lemma update_where_twice:
  "(\<And>r. tr_task_id (f r) = tr_task_id r) \<Longrightarrow>
     update_where (\<lambda>r. tr_task_id r = tid) g (update_where (\<lambda>r. tr_task_id r = tid) f rows) = update_where (\<lambda>r. tr_task_id r = tid) (g \<circ> f) rows"
  by (auto simp: update_where_def)

lemma write_chunk_rows:
  "find_running k (write_chunk now ok c S) = find_running k S
   \<and> (\<exists>P f. tm_tasks (write_chunk now ok c S) = update_where P f (tm_tasks S) \<and> (\<forall>r. outcome (f r) = outcome r \<and> tr_task_id (f r) = tr_task_id r))"
proof (cases "if ok then insert_by ck_key (c\<lparr>ck_ts := now\<rparr>) (tm_chunks S) else None")
  case None
  then show ?thesis by (intro conjI exI [of _ "\<lambda>r. False"] exI [of _ "\<lambda>r. r"]) (auto simp: write_chunk_def update_where_def)
next
  case (Some cs)
  let ?g = "count_output now (ck_stream c) (ck_len c)"
  let ?S = "S\<lparr>tm_chunks := cs, tm_tasks := update_where (\<lambda>r. tr_task_id r = ck_task_id c) ?g (tm_tasks S)\<rparr>"
  have w: "write_chunk now ok c S = enforce_cap (ck_task_id c) ?S" using Some by (simp add: write_chunk_def)
  obtain f where f: "tm_tasks (enforce_cap (ck_task_id c) ?S) = update_where (\<lambda>r. tr_task_id r = ck_task_id c) f (tm_tasks ?S)"
      "\<forall>r. outcome (f r) = outcome r \<and> tr_task_id (f r) = tr_task_id r" using enforce_cap_rows by blast
  have g: "outcome (?g r) = outcome r \<and> tr_task_id (?g r) = tr_task_id r" for r by (simp add: outcome_def)
  have "tm_tasks (write_chunk now ok c S) = update_where (\<lambda>r. tr_task_id r = ck_task_id c) (f \<circ> ?g) (tm_tasks S)"
    unfolding w f(1) using update_where_twice [of ?g] g by simp
  moreover have "find_running k (write_chunk now ok c S) = find_running k S"
    unfolding w using enforce_cap_rows [of k "ck_task_id c" ?S] by (simp add: find_running_def)
  ultimately show ?thesis using f(2) g by fastforce
qed

lemma set_task_keyed:
  "(\<And>r. tr_task_id (f r) = tr_task_id r) \<Longrightarrow> keyed tr_task_id (tm_tasks S) \<Longrightarrow> keyed tr_task_id (tm_tasks (set_task ok tid f S))"
  by (simp add: set_task_def task_rows.change_inv)

lemma find_running_set_task [simp]: "find_running k (set_task ok tid f S) = find_running k S"
  by (simp add: find_running_def)

lemma set_task_other:
  "(\<And>r. tr_task_id (f r) = tr_task_id r) \<Longrightarrow> k \<noteq> tid \<Longrightarrow> find_task k (set_task ok tid f S) = find_task k S"
  by (cases "find_task k S") (simp_all add: set_task_found)

text \<open>A launch leaves the other tasks alone; its own task is new.\<close>

lemma launch_rows:
  assumes "task_launch w act tid spec S = (res, S')" and "keyed tr_task_id (tm_tasks S)"
  shows "keyed tr_task_id (tm_tasks S')
    \<and> (S' = S \<or> find_task tid S = None \<and> (\<exists>row. find_task tid S' = Some row \<and> (find_running tid S = None \<longrightarrow> find_running tid S' \<noteq> None \<longrightarrow> tr_status row = ''running'')))
    \<and> (\<forall>k. k \<noteq> tid \<longrightarrow> find_task k S' = find_task k S \<and> find_running k S' = find_running k S)"
proof -
  let ?row = "task_row_of (le_now w) tid spec"
  show ?thesis
  proof (cases "if le_insert_ok w then insert_by tr_task_id ?row (tm_tasks S) else None")
    case None
    then show ?thesis using assms by (simp add: task_launch_def)
  next
    case (Some rows)
    then have ins: "insert_by tr_task_id ?row (tm_tasks S) = Some rows" by (simp split: if_splits)
    let ?S1 = "S\<lparr>tm_tasks := rows\<rparr>"
    have key: "tr_task_id ?row = tid" by (simp add: task_row_of_def)
    have k1: "keyed tr_task_id (tm_tasks ?S1)" using task_rows.put_inv [OF assms(2) ins] by simp
    have f1: "find_task k ?S1 = (if k = tid then Some ?row else find_task k S)" for k
      using task_rows.put_look [OF ins, of k] key by (simp add: find_task_def)
    have r1: "find_running k ?S1 = find_running k S" for k by (simp add: find_running_def)
    have new: "find_task tid S = None" using task_rows.put_new [OF ins] key by (simp add: find_task_def)
    show ?thesis
    proof (cases "le_spawn w")
      case (Inl e)
      let ?g = "\<lambda>r. r\<lparr>tr_status := ''launch_failed'', tr_ended_at := Some (le_later w), tr_error := Some (''launch failed: '' @ e)\<rparr>"
      have S': "S' = set_task (le_failed_ok w) tid ?g ?S1"
        using assms(1) Some Inl by (simp add: task_launch_def launch_failed_def Let_def)
      have "keyed tr_task_id (tm_tasks S')" unfolding S' using k1 by (intro set_task_keyed) simp_all
      moreover have "find_task k S' = find_task k S" if "k \<noteq> tid" for k
        unfolding S' using set_task_other [of ?g k tid "le_failed_ok w" ?S1] that f1 by simp
      moreover have "\<exists>row. find_task tid S' = Some row"
        unfolding S' using set_task_found [of ?g tid "le_failed_ok w" tid ?S1] f1 by simp
      moreover have "find_running k S' = find_running k S" for k by (simp only: S' find_running_set_task r1)
      ultimately show ?thesis using new by auto
    next
      case (Inr p)
      let ?f = "\<lambda>r. r\<lparr>tr_pid := Some (fst p), tr_started_at := Some (le_later w), tr_standard_user_token := snd p\<rparr>"
      define S2 where "S2 = set_task True tid ?f ?S1"
      have f2: "find_task k S2 = (if k = tid then Some (?f ?row) else find_task k S)" for k
        using f1 [of k] set_task_found [of ?f tid True tid ?S1] set_task_other [of ?f k tid True ?S1] by (auto simp: S2_def)
      have k2: "keyed tr_task_id (tm_tasks S2)" unfolding S2_def using k1 by (intro set_task_keyed) simp_all
      have st: "tr_status (?f ?row) = ''running''" by (simp add: task_row_of_def)
      have S': "S' = ?S1 \<or> S' = snd (start_threads w act tid (sp_client_id spec) S2)"
        using assms(1) Some Inr by (cases p) (auto simp: task_launch_def Let_def S2_def split: if_splits)
      have thr: "tm_tasks (snd (start_threads w act tid (sp_client_id spec) S2)) = tm_tasks S2"
        by (simp add: start_threads_def Let_def put_output_def put_running_def send_task_event_def change_running_def)
      have run: "k \<noteq> tid \<Longrightarrow> find_running k (snd (start_threads w act tid (sp_client_id spec) S2)) = find_running k S" for k
        using r1 by (auto simp: start_threads_def Let_def put_output_def put_running_def send_task_event_def change_running_def
            find_running_def S2_def map_of_drop_key map_of_change option.map_ident_strong)
      from S' show ?thesis
      proof
        assume "S' = ?S1"
        then show ?thesis using k1 f1 r1 new by (auto simp: task_row_of_def)
      next
        assume S': "S' = snd (start_threads w act tid (sp_client_id spec) S2)"
        have "find_task k S' = find_task k S2" for k using thr by (simp add: S' find_task_def)
        then show ?thesis using k2 f2 st run new thr by (auto simp: S')
      qed
    qed
  qed
qed

section \<open>Every step keeps the table\<close>

text \<open>The effect of a step on one task that is not launched: its row keeps its outcome, or the wait thread ends it, or it is cleaned up
  after its end, or a restart interrupts it; its entry changes as the operation says.\<close>

definition row_kept :: "string \<Rightarrow> task_manager \<Rightarrow> task_manager \<Rightarrow> bool" where
  "row_kept k S S' \<longleftrightarrow>
     (case find_task k S of
        None \<Rightarrow> find_task k S' = None
      | Some r \<Rightarrow> (\<exists>r'. find_task k S' = Some r' \<and> outcome r' = outcome r))"

lemma row_kept_update:
  assumes "tm_tasks S' = update_where P f (tm_tasks S)" and "\<forall>r. outcome (f r) = outcome r \<and> tr_task_id (f r) = tr_task_id r"
  shows "row_kept k S S'"
  using assms(2) by (auto simp: row_kept_def find_task_def assms(1) find_by_update split: option.split)

lemma tasks_ok_update:
  assumes "tasks_ok S" and "tm_tasks S' = update_where P f (tm_tasks S)" and "\<forall>r. outcome (f r) = outcome r \<and> tr_task_id (f r) = tr_task_id r"
    and "\<forall>k. find_running k S' \<noteq> None \<longrightarrow> find_running k S \<noteq> None"
  shows "tasks_ok S'"
proof -
  have "keyed tr_task_id (tm_tasks S')"
    unfolding assms(2) using assms(1,3) by (intro task_rows.change_inv) (auto simp: tasks_ok_def)
  moreover have "\<exists>row. find_task k S' = Some row \<and> tr_status row = ''running''" if "find_running k S' = Some r" for k r
  proof -
    from that assms(4) obtain r0 where "find_running k S = Some r0" by (metis not_None_eq)
    then obtain row where "find_task k S = Some row" "tr_status row = ''running''" using assms(1) by (auto simp: tasks_ok_def)
    then show ?thesis using row_kept_update [OF assms(2,3), of k] by (auto simp: row_kept_def outcome_def)
  qed
  ultimately show ?thesis by (simp add: tasks_ok_def)
qed

lemma cancel_state:
  "snd (task_cancel act tid S) =
     (case find_running tid S of
        None \<Rightarrow> S
      | Some r \<Rightarrow>
          if rn_cancel_requested r then change_running (\<lambda>t r. t = tid) (stop_with TaskCancelled) S
          else (change_running (\<lambda>t r. t = tid) (\<lambda>r. r\<lparr>rn_cancel_requested := True\<rparr>) S)\<lparr>tm_grace := tm_grace S @ [tid]\<rparr>)"
  by (simp add: task_cancel_def task_terminate_def Let_def split: option.split)

lemma kill_state: "snd (task_kill act tid S) = change_running (\<lambda>t r. t = tid) (stop_with TaskKilled) S"
  by (simp add: task_kill_def task_terminate_def Let_def)

lemma find_running_fields [simp]:
  "find_running k (S\<lparr>tm_grace := g\<rparr>) = find_running k S" "find_running k (S\<lparr>tm_output := x\<rparr>) = find_running k S"
  "find_running k (S\<lparr>tm_events := v\<rparr>) = find_running k S" "find_running k (S\<lparr>tm_max_output_bytes := m\<rparr>) = find_running k S"
  "find_running k (S\<lparr>tm_tasks := ts\<rparr>) = find_running k S" "find_running k (S\<lparr>tm_chunks := cs\<rparr>) = find_running k S"
  by (simp_all add: find_running_def)

lemma finish_state:
  assumes "find_running tid S = Some r" and "rn_exited r"
  shows "find_running k (finish_task now ok tid S) = (if k = tid then None else find_running k S)"
    and "tm_tasks (finish_task now ok tid S) = tm_tasks (set_task ok tid
      (\<lambda>t. t\<lparr>tr_status := task_status_str (final_status r), tr_exit_code := Some (exit_code_of r), tr_ended_at := Some now\<rparr>) S)"
  using assms by (auto simp: finish_task_def Let_def send_task_event_def find_running_def map_of_drop_key)

lemma prune_state:
  assumes "task_prune w age S = (res, S')" and "keyed tr_task_id (tm_tasks S)"
  shows "keyed tr_task_id (tm_tasks S')" and "find_running k S' = find_running k S"
    and "find_task k S' = find_task k S \<or> find_task k S' = None \<and> (\<exists>r. find_task k S = Some r \<and> tr_status r \<noteq> ''running'')"
  using assms task_rows.remove_inv [OF assms(2)]
  by (auto simp: task_prune_def Let_def find_task_def ended_before_def find_by_delete [OF assms(2)] split: if_splits option.splits)

lemma restart_state:
  assumes "recover_on_startup w (TaskManager_open tasks chunks cap) = (Inr n, S')" and "keyed tr_task_id tasks"
  shows "keyed tr_task_id (tm_tasks S')" and "find_running k S' = None"
    and "find_task k S' = map_option (\<lambda>r. if tr_status r = ''running'' then interrupt_row (io_now w) r else r) (find_by tr_task_id k tasks)"
  using assms task_rows.change_inv [of "interrupt_row (io_now w)" tasks]
  by (auto simp: recover_on_startup_def TaskManager_open_def find_running_def find_task_def find_by_update interrupt_row_def split: if_splits)

text \<open>The steps that only mark entries or count output.\<close>

lemma marking_step:
  assumes "task_step S l S'" and "\<And>t. l \<noteq> TL_Launch t" and "\<And>t st. l \<noteq> TL_Finish t st" and "l \<noteq> TL_Restart"
  shows "(\<exists>w age res. task_prune w age S = (res, S')) \<or>
    (\<exists>P f. tm_tasks S' = update_where P f (tm_tasks S) \<and> (\<forall>r. outcome (f r) = outcome r \<and> tr_task_id (f r) = tr_task_id r))
      \<and> (\<forall>k. find_running k S' \<noteq> None \<longleftrightarrow> find_running k S \<noteq> None)"
proof -
  have same: "\<exists>P f. tm_tasks S' = update_where P f (tm_tasks S) \<and> (\<forall>r. outcome (f r) = outcome r \<and> tr_task_id (f r) = tr_task_id r)"
    if "tm_tasks S' = tm_tasks S" for S' using that by (intro exI [of _ "\<lambda>r. False"] exI [of _ "\<lambda>r. r"]) (simp add: update_where_def)
  note idle = same [OF refl]
  show ?thesis
    using assms
  proof cases
    case (ts_take tid stream data c)
    then obtain ost where "S' = put_output tid ost S" by (auto simp: take_chunk_def Let_def case_prod_beta)
    then show ?thesis by (intro disjI2 conjI same) (simp_all add: put_output_def)
  next
    case (ts_write now ok c)
    then show ?thesis using write_chunk_rows by (metis (no_types, lifting))
  next
    case (ts_cancel act tid res)
    then have "S' = snd (task_cancel act tid S)" by simp
    then show ?thesis by (intro disjI2 conjI same) (auto simp: cancel_state split: option.splits)
  next
    case (ts_kill act tid res)
    then have "S' = snd (task_kill act tid S)" by simp
    then show ?thesis by (intro disjI2 conjI same) (auto simp: kill_state)
  next
    case (ts_prune w age res)
    then show ?thesis by blast
  qed (use assms(2-4) idle in \<open>simp_all add: cancel_elapsed_def kill_all_def kill_client_def wait_step_def set_max_output_bytes_def\<close>)
qed

definition quiet :: "task_label \<Rightarrow> bool" where
  "quiet l \<longleftrightarrow> (case l of TL_Launch _ \<Rightarrow> False | TL_Finish _ _ \<Rightarrow> False | TL_Restart \<Rightarrow> False | _ \<Rightarrow> True)"

lemma quiet_tasks_ok:
  assumes "tasks_ok S" and "task_step S l S'" and "quiet l"
  shows "tasks_ok S'"
proof -
  have key: "keyed tr_task_id (tm_tasks S)" using assms(1) by (simp add: tasks_ok_def)
  have "l \<noteq> TL_Launch t" "l \<noteq> TL_Finish t st" "l \<noteq> TL_Restart" for t st using assms(3) by (auto simp: quiet_def)
  from marking_step [OF assms(2) this] show ?thesis
  proof (elim disjE exE conjE)
    fix w age res assume p: "task_prune w age S = (res, S')"
    show ?thesis using assms(1) prune_state [OF p key] unfolding tasks_ok_def by (metis option.inject)
  qed (use tasks_ok_update [OF assms(1)] in blast)
qed

lemma step_tasks_ok:
  assumes "tasks_ok S" and "task_step S l S'"
  shows "tasks_ok S'"
proof -
  have key: "keyed tr_task_id (tm_tasks S)" using assms(1) by (simp add: tasks_ok_def)
  show ?thesis
  proof (cases l)
    case (TL_Launch tid)
    then obtain w act spec res where l: "task_launch w act tid spec S = (res, S')"
      using assms(2) by (auto elim: task_step.cases)
    note rows = launch_rows [OF l key]
    show ?thesis
    proof (cases "S' = S")
      case False
      then have "find_running tid S = None" using rows assms(1) by (auto simp: tasks_ok_def)
      then show ?thesis using rows assms(1) False unfolding tasks_ok_def by (metis option.distinct(1))
    qed (use assms(1) in simp)
  next
    case (TL_Finish tid st)
    then obtain r now ok where r: "find_running tid S = Some r" "rn_exited r" "S' = finish_task now ok tid S"
      using assms(2) by (auto elim: task_step_finishE)
    let ?f = "\<lambda>t. t\<lparr>tr_status := task_status_str (final_status r), tr_exit_code := Some (exit_code_of r), tr_ended_at := Some now\<rparr>"
    have "keyed tr_task_id (tm_tasks S')" using finish_state(2) [OF r(1,2)] key by (auto simp: r(3) intro!: set_task_keyed)
    moreover have "find_task k S' = find_task k S" if "k \<noteq> tid" for k
      using finish_state(2) [OF r(1,2), of now ok] set_task_other [of ?f k tid ok S] that by (simp add: r(3) find_task_def)
    ultimately show ?thesis
      using assms(1) finish_state(1) [OF r(1,2)] by (auto simp: tasks_ok_def r(3) split: if_splits)
  next
    case TL_Restart
    then obtain w cap n where w: "recover_on_startup w (TaskManager_open (tm_tasks S) (tm_chunks S) cap) = (Inr n, S')"
      using assms(2) by (auto elim: task_step.cases)
    show ?thesis using restart_state [OF w key] by (simp add: tasks_ok_def)
  qed (use quiet_tasks_ok [OF assms] in \<open>simp_all add: quiet_def\<close>)
qed

interpretation task_system: invariant_system task_step tasks_ok
  by unfold_locales (rule step_tasks_ok)

lemma opened_ok: "keyed tr_task_id rows \<Longrightarrow> tasks_ok (TaskManager_open rows chunks cap)"
  by (simp add: tasks_ok_def TaskManager_open_def find_running_def)

section \<open>Ended tasks\<close>

text \<open>The steps of a run in which one task is not launched (again).\<close>

definition other_step :: "string \<Rightarrow> task_manager \<Rightarrow> task_label \<Rightarrow> task_manager \<Rightarrow> bool" where
  "other_step tid S l S' \<longleftrightarrow> task_step S l S' \<and> l \<noteq> TL_Launch tid"

lemma run_other: "run task_step S es S' \<Longrightarrow> TL_Launch tid \<notin> set es \<Longrightarrow> run (other_step tid) S es S'"
  by (induction rule: run.induct) (auto simp: other_step_def intro: run.intros)

lemma ended_not_running:
  assumes "tasks_ok S" and "ended_as tid x S"
  shows "find_running tid S = None"
  using assms by (cases "find_running tid S") (fastforce simp: tasks_ok_def ended_as_def outcome_def split: option.splits)+

lemma row_kept_ended: "row_kept tid S S' \<Longrightarrow> ended_as tid x S \<Longrightarrow> ended_as tid x S'"
  by (auto simp: row_kept_def ended_as_def split: option.splits)

lemma ended_stays:
  assumes "tasks_ok S" and "other_step tid S l S'" and "ended_as tid x S"
  shows "ended_as tid x S' \<and> (\<forall>st. l \<noteq> TL_Finish tid st)"
proof -
  have st: "task_step S l S'" "l \<noteq> TL_Launch tid" using assms(2) by (simp_all add: other_step_def)
  have key: "keyed tr_task_id (tm_tasks S)" using assms(1) by (simp add: tasks_ok_def)
  have none: "find_running tid S = None" using ended_not_running assms(1,3) by blast
  show ?thesis
  proof (cases "quiet l")
    case True
    have q: "l \<noteq> TL_Launch t" "l \<noteq> TL_Finish t u" "l \<noteq> TL_Restart" for t u using True by (auto simp: quiet_def)
    from marking_step [OF st(1) q] have "ended_as tid x S'"
    proof (elim disjE exE conjE)
      fix w age res assume p: "task_prune w age S = (res, S')"
      show ?thesis using prune_state(3) [OF p key, of tid] assms(3) by (auto simp: ended_as_def split: option.splits)
    qed (use row_kept_update row_kept_ended [OF _ assms(3)] in blast)
    then show ?thesis using q(2) by blast
  next
    case False
    then consider t where "l = TL_Launch t" "t \<noteq> tid" | t u where "l = TL_Finish t u" | "l = TL_Restart"
      using st(2) by (cases l) (auto simp: quiet_def)
    then show ?thesis
    proof cases
      case (1 t)
      then obtain w act spec res where l: "task_launch w act t spec S = (res, S')" using st(1) by (auto elim: task_step.cases)
      then have "find_task tid S' = find_task tid S" using launch_rows [OF l key] 1(2) by simp
      then show ?thesis using 1 assms(3) by (simp add: ended_as_def)
    next
      case (2 t u)
      then obtain r now ok where r: "find_running t S = Some r" "rn_exited r" "S' = finish_task now ok t S"
        using st(1) by (auto elim: task_step_finishE)
      then have "t \<noteq> tid" using none by auto
      then have "find_task tid S' = find_task tid S"
        using finish_state(2) [OF r(1,2), of now ok] by (simp add: r(3) find_task_def set_task_other [unfolded find_task_def])
      then show ?thesis using 2 \<open>t \<noteq> tid\<close> assms(3) by (simp add: ended_as_def)
    next
      case 3
      then obtain w cap n where w: "recover_on_startup w (TaskManager_open (tm_tasks S) (tm_chunks S) cap) = (Inr n, S')"
        using st(1) by (auto elim: task_step.cases)
      have "find_task tid S' = find_task tid S"
        using restart_state(3) [OF w key, of tid] assms(3)
        by (auto simp: ended_as_def outcome_def find_task_def split: option.splits)
      then show ?thesis using 3 assms(3) by (simp add: ended_as_def)
    qed
  qed
qed

interpretation ended_system: invariant_system "other_step tid" "\<lambda>S. tasks_ok S \<and> ended_as tid x S" for tid x
proof
  show "tasks_ok T \<and> ended_as tid x T" if "tasks_ok S \<and> ended_as tid x S" "other_step tid S l T" for S l T
    using that ended_stays [of S tid l T x] step_tasks_ok [of S l T] by (simp add: other_step_def)
qed

text \<open>C11: A task that ended stays as it ended. In every run, whatever readers, wait threads, cancellations, kills, clean-ups and restarts
  follow in whatever order, a task recorded with a terminal status keeps its status, exit code, end time and error until its record is
  deleted, and no end of it is announced again, as long as its identifier is not launched anew.\<close>

theorem ended_task_final:
  assumes "keyed tr_task_id rows" and "run task_step (TaskManager_open rows chunks cap) es S" and "find_task tid S = Some r"
    and "is_terminal (task_status_parse (tr_status r))" and "run task_step S fs S'" and "TL_Launch tid \<notin> set fs"
  shows "(find_task tid S' = None \<or> (\<exists>r'. find_task tid S' = Some r' \<and> tr_status r' = tr_status r \<and> tr_exit_code r' = tr_exit_code r
      \<and> tr_ended_at r' = tr_ended_at r \<and> tr_error r' = tr_error r))
    \<and> (\<forall>st. TL_Finish tid st \<notin> set fs)"
proof -
  let ?inv = "\<lambda>S. tasks_ok S \<and> ended_as tid (outcome r) S"
  have "tasks_ok S" using task_system.run_inv [OF assms(2) opened_ok [OF assms(1)]] .
  moreover have "tr_status r \<noteq> ''running''" using assms(4) by (auto simp: is_terminal_def task_status_parse_def)
  ultimately have inv: "?inv S" using assms(3) by (simp add: ended_as_def outcome_def)
  have r: "run (other_step tid) S fs S'" using run_other assms(5,6) by blast
  have "TL_Finish tid st \<notin> set fs" for st
  proof
    assume "TL_Finish tid st \<in> set fs"
    then obtain xs ys where fs: "fs = xs @ TL_Finish tid st # ys" by (meson split_list)
    obtain T T' where "?inv T" "other_step tid T (TL_Finish tid st) T'"
      using ended_system.run_middle [OF r [unfolded fs] inv] by blast
    then show False using ended_stays by blast
  qed
  moreover have "ended_as tid (outcome r) S'" using ended_system.run_inv [OF r inv] by simp
  ultimately show ?thesis by (auto simp: ended_as_def outcome_def split: option.splits)
qed

section \<open>Stopped tasks\<close>

text \<open>The steps that may set another status for the task: another stop of it, or its deadline.\<close>

definition restops :: "string \<Rightarrow> task_label \<Rightarrow> bool" where
  "restops tid l \<longleftrightarrow> l \<in> {TL_Launch tid, TL_Cancel tid, TL_Grace tid, TL_Kill tid, TL_KillAll, TL_Wait tid True}
     \<or> (\<exists>c. l = TL_KillClient c)"

definition stopping_step :: "string \<Rightarrow> task_manager \<Rightarrow> task_label \<Rightarrow> task_manager \<Rightarrow> bool" where
  "stopping_step tid S l S' \<longleftrightarrow> task_step S l S' \<and> \<not> restops tid l"

lemma run_stopping: "run task_step S es S' \<Longrightarrow> list_all (\<lambda>l. \<not> restops tid l) es \<Longrightarrow> run (stopping_step tid) S es S'"
  by (induction rule: run.induct) (auto simp: stopping_step_def intro: run.intros)

lemma wait_round_kill: "\<not> wo_late w \<Longrightarrow> rn_kill_status (wait_round w r) = rn_kill_status r"
  by (simp add: wait_round_def Let_def)

lemma stops_as_kept: "find_running tid S' = find_running tid S \<Longrightarrow> stops_as tid st S \<Longrightarrow> stops_as tid st S'"
  by (simp add: stops_as_def)

lemma stop_kept:
  assumes "keyed tr_task_id (tm_tasks S)" and "stopping_step tid S l S'" and "stops_as tid st S"
  shows "stops_as tid st S' \<and> (\<forall>u. l = TL_Finish tid u \<longrightarrow> u = st)"
proof -
  have step: "task_step S l S'" and no: "\<not> restops tid l" using assms(2) by (simp_all add: stopping_step_def)
  from step show ?thesis
  proof cases
    case (ts_launch w act t spec res)
    then show ?thesis using launch_rows [OF ts_launch(2) assms(1)] no stops_as_kept [OF _ assms(3)] by (auto simp: restops_def)
  next
    case (ts_take t stream data c)
    then have "find_running tid S' = find_running tid S" by (auto simp: take_chunk_def Let_def case_prod_beta put_output_def)
    then show ?thesis using ts_take stops_as_kept [OF _ assms(3)] by simp
  next
    case (ts_write now ok c)
    then show ?thesis using write_chunk_rows [of tid now ok c S] stops_as_kept [OF _ assms(3)] by simp
  next
    case (ts_cancel act t res)
    then have "S' = snd (task_cancel act t S)" "t \<noteq> tid" using no by (auto simp: restops_def)
    then have "find_running tid S' = find_running tid S" by (auto simp: cancel_state option.map_ident split: option.splits)
    then show ?thesis using ts_cancel stops_as_kept [OF _ assms(3)] by simp
  next
    case (ts_kill act t res)
    then have "S' = snd (task_kill act t S)" "t \<noteq> tid" using no by (auto simp: restops_def)
    then have "find_running tid S' = find_running tid S" by (simp add: kill_state option.map_ident)
    then show ?thesis using ts_kill stops_as_kept [OF _ assms(3)] by simp
  next
    case (ts_wait t w)
    then have "t \<noteq> tid \<or> \<not> wo_late w" using no by (auto simp: restops_def)
    then show ?thesis using ts_wait assms(3) wait_round_kill
      by (auto simp: stops_as_def wait_step_def split: option.splits)
  next
    case (ts_finish t r now ok)
    then show ?thesis using finish_state(1) [OF ts_finish(3,4), of tid now ok] assms(3)
      by (auto simp: stops_as_def final_status_def)
  next
    case (ts_prune w age res)
    then show ?thesis using prune_state(2) [OF ts_prune(2) assms(1), of tid] stops_as_kept [OF _ assms(3)] by simp
  next
    case (ts_restart w cap n)
    then show ?thesis using restart_state(2) [OF ts_restart(2) assms(1), of tid] by (simp add: stops_as_def)
  qed (use no assms(3) in \<open>auto simp: restops_def stops_as_def cancel_elapsed_def set_max_output_bytes_def kill_all_def kill_client_def
      split: option.splits\<close>)
qed

interpretation stopped_system: invariant_system "stopping_step tid" "\<lambda>S. tasks_ok S \<and> stops_as tid st S" for tid st
proof
  show "tasks_ok T \<and> stops_as tid st T" if "tasks_ok S \<and> stops_as tid st S" "stopping_step tid S l T" for S l T
    using that stop_kept [of S tid l T st] step_tasks_ok [of S l T] by (simp add: stopping_step_def tasks_ok_def)
qed


section \<open>What a client sees and touches\<close>

definition owns :: "string \<Rightarrow> task_manager \<Rightarrow> string \<Rightarrow> bool" where
  "owns client S tid \<longleftrightarrow> list_ex (\<lambda>r. tr_task_id r = tid \<and> tr_client_id r = client) (tm_tasks S)"

text \<open>The part of the manager's state that belongs to the tasks in a set.\<close>

definition view_of :: "(string \<Rightarrow> bool) \<Rightarrow> task_manager \<Rightarrow> task_manager" where
  "view_of mine S = S\<lparr>tm_tasks := filter (\<lambda>r. mine (tr_task_id r)) (tm_tasks S), tm_chunks := filter (\<lambda>c. mine (ck_task_id c)) (tm_chunks S),
     tm_running := filter (\<lambda>p. mine (fst p)) (tm_running S), tm_output := filter (\<lambda>p. mine (fst p)) (tm_output S),
     tm_grace := filter mine (tm_grace S), tm_events := [], tm_max_output_bytes := 0\<rparr>"

lemma map_of_filter_key: "map_of (filter (\<lambda>p. P (fst p)) xs) k = (if P k then map_of xs k else None)"
  by (induction xs) auto

lemma find_by_filter_key: "find_by key k (filter (\<lambda>r. P (key r)) rows) = (if P k then find_by key k rows else None)"
  by (induction rows) (auto simp: find_by_def)

lemma view_find [simp]:
  "find_task tid (view_of mine S) = (if mine tid then find_task tid S else None)"
  "find_running tid (view_of mine S) = (if mine tid then find_running tid S else None)"
  by (simp_all add: view_of_def find_task_def find_running_def find_by_filter_key map_of_filter_key)

lemma owns_iff:
  assumes "keyed tr_task_id (tm_tasks S)"
  shows "owns client S tid \<longleftrightarrow> (\<exists>r. find_task tid S = Some r \<and> tr_client_id r = client)"
proof -
  have "r \<in> set (tm_tasks S) \<and> tr_task_id r = tid \<longleftrightarrow> find_task tid S = Some r" for r
    using find_by_keyed [OF assms, of r] find_by_Some [of tr_task_id tid "tm_tasks S" r] by (auto simp: find_task_def)
  then show ?thesis by (auto simp: owns_def list_ex_iff)
qed

lemma view_get: "task_get act tid (view_of mine S) = (if mine tid then task_get act tid S else None)"
  by (simp add: task_get_def)

lemma view_rows: "mine tid \<Longrightarrow> rows_from tid start (view_of mine S) = rows_from tid start S"
  by (auto simp: rows_from_def view_of_def intro!: arg_cong [where f = "sort_key ck_seq"] filter_cong)

lemma view_output: "mine tid \<Longrightarrow> task_output E act tid offset n (view_of mine S) = task_output E act tid offset n S"
  by (simp add: task_output_def view_get view_rows cong: option.case_cong)

lemma get_or_unknown_cong: "task_get act tid S = task_get act tid T \<Longrightarrow> get_or_unknown act tid S = get_or_unknown act tid T"
  by (simp add: get_or_unknown_def)

lemma task_get_cong:
  "find_task tid S = find_task tid T \<Longrightarrow> find_running tid S = None \<longleftrightarrow> find_running tid T = None \<Longrightarrow> task_get act tid S = task_get act tid T"
  by (simp add: task_get_def)

lemma find_task_fields [simp]:
  "find_task k (S\<lparr>tm_grace := g\<rparr>) = find_task k S" "find_task k (S\<lparr>tm_running := x\<rparr>) = find_task k S"
  by (simp_all add: find_task_def)

lemma view_terminate: "mine tid \<Longrightarrow> fst (task_terminate act tid st (view_of mine S)) = fst (task_terminate act tid st S)"
  unfolding task_terminate_def Let_def fst_conv by (intro get_or_unknown_cong task_get_cong) simp_all

lemma view_cancel: "mine tid \<Longrightarrow> fst (task_cancel act tid (view_of mine S)) = fst (task_cancel act tid S)"
proof (cases "find_running tid S")
  case None
  assume "mine tid"
  then have "get_or_unknown act tid (view_of mine S) = get_or_unknown act tid S" by (intro get_or_unknown_cong task_get_cong) simp_all
  then show ?thesis using None \<open>mine tid\<close> by (simp add: task_cancel_def)
next
  case (Some r)
  assume mine: "mine tid"
  let ?c = "\<lambda>S. (change_running (\<lambda>t r. t = tid) (\<lambda>r. r\<lparr>rn_cancel_requested := True\<rparr>) S)\<lparr>tm_grace := tm_grace S @ [tid]\<rparr>"
  have "get_or_unknown act tid (?c (view_of mine S)) = get_or_unknown act tid (?c S)"
    using mine by (intro get_or_unknown_cong task_get_cong) simp_all
  then show ?thesis using Some mine view_terminate [of mine tid act TaskCancelled S] by (simp add: task_cancel_def Let_def)
qed

lemma view_list:
  assumes "\<And>r. r \<in> set (tm_tasks S) \<Longrightarrow> tr_client_id r = client \<Longrightarrow> mine (tr_task_id r)"
  shows "task_list (Some client) active n (view_of mine S) = task_list (Some client) active n S"
  using assms by (auto simp: task_list_def view_of_def intro!: arg_cong [where f = "newest_first tr_created_at _"] arg_cong [where f = "map row_to_task"] filter_cong)

lemma view_owned:
  assumes "keyed tr_task_id (tm_tasks S)" and "mine = owns client S"
  shows "owned_task act client tid (view_of mine S) = owned_task act client tid S"
    and "\<not> mine tid \<Longrightarrow> owned_task act client tid S = Inl unknown_task"
  using owns_iff [OF assms(1), of client tid] unfolding assms(2)
  by (auto simp: owned_task_def view_get task_get_def row_to_task_def split: option.splits)

lemma filter_change_other:
  "\<not> keep k \<Longrightarrow> filter (\<lambda>p. keep (fst p)) (map (\<lambda>(t, r). (t, if t = k then f r else r)) xs) = filter (\<lambda>p. keep (fst p)) xs"
  by (induction xs) auto

lemma view_change_other: "\<not> keep tid \<Longrightarrow> view_of keep (change_running (\<lambda>t r. t = tid) f S) = view_of keep S"
  by (simp add: view_of_def change_running_def filter_change_other)

lemma tool_isolated:
  assumes "keyed tr_task_id (tm_tasks S)" and "mine = owns client S"
  shows "fst (task_tool E act limit client call S) = fst (task_tool E act limit client call (view_of mine S))
    \<and> view_of (\<lambda>tid. \<not> mine tid) (snd (task_tool E act limit client call S)) = view_of (\<lambda>tid. \<not> mine tid) S"
proof (cases call)
  case (TC_List active n)
  have "mine (tr_task_id r)" if "r \<in> set (tm_tasks S)" "tr_client_id r = client" for r
    using that by (auto simp: assms(2) owns_def list_ex_iff)
  then show ?thesis using TC_List view_list [of S client mine] by simp
next
  case (TC_Output tid offset n)
  then show ?thesis using view_owned(1) [OF assms, of act tid] view_owned(2) [OF assms, of tid act] view_output [of mine tid] by (cases "mine tid") (auto simp: with_owned_def split: sum.splits)
next
  case (TC_Cancel tid)
  then show ?thesis
  proof (cases "mine tid")
    case True
    have "view_of (\<lambda>t. \<not> mine t) (snd (task_cancel act tid S)) = view_of (\<lambda>t. \<not> mine t) S"
      using True view_change_other [of "\<lambda>t. \<not> mine t" tid] by (auto simp: cancel_state view_of_def split: option.split)
    then show ?thesis using TC_Cancel True view_owned(1) [OF assms, of act tid] view_cancel [of mine tid act S]
      by (auto simp: with_owned_def case_prod_beta Let_def split: sum.splits)
  qed (use view_owned(1) [OF assms, of act tid] view_owned(2) [OF assms, of tid act] in \<open>auto simp: with_owned_def\<close>)
next
  case (TC_Kill tid)
  then show ?thesis
  proof (cases "mine tid")
    case True
    have "view_of (\<lambda>t. \<not> mine t) (snd (task_kill act tid S)) = view_of (\<lambda>t. \<not> mine t) S"
      using True view_change_other [of "\<lambda>t. \<not> mine t" tid] by (simp add: kill_state)
    then show ?thesis using TC_Kill True view_owned(1) [OF assms, of act tid] view_terminate [of mine tid act TaskKilled S]
      by (auto simp: with_owned_def case_prod_beta Let_def task_kill_def split: sum.splits)
  qed (use view_owned(1) [OF assms, of act tid] view_owned(2) [OF assms, of tid act] in \<open>auto simp: with_owned_def\<close>)
qed (use view_owned [OF assms] in simp)

text \<open>C9: A client's task tools see nothing of other clients' tasks and touch nothing of them. Whatever the call, its answer is the same as
  if only the client's own tasks, with their output and processes, existed, so that a foreign task looks like an unknown one; and everything
  that belongs to other tasks is left as it was.\<close>

theorem task_tools_isolated:
  assumes "keyed tr_task_id rows" and "run task_step (TaskManager_open rows chunks cap) es S"
  shows "fst (task_tool E act limit client call S) = fst (task_tool E act limit client call (view_of (owns client S) S))
    \<and> view_of (\<lambda>tid. \<not> owns client S tid) (snd (task_tool E act limit client call S)) = view_of (\<lambda>tid. \<not> owns client S tid) S"
proof -
  have "keyed tr_task_id (tm_tasks S)" using task_system.run_inv [OF assms(2) opened_ok [OF assms(1)]] by (simp add: tasks_ok_def)
  then show ?thesis by (rule tool_isolated [OF _ refl])
qed

end
