(* ===== verification/Task_Examples.thy ===== *)
theory Task_Examples
  imports Task_Runs
begin

text \<open>
  The task manager at work: one task that prints, ends and is read, and the cases its bookkeeping misses: output that is stored out of
  order, a page smaller than a character, and an end that the database did not take.
\<close>

section \<open>A task\<close>

definition tm_empty :: task_manager where
  "tm_empty = TaskManager_open [] [] 0"

definition tm_spec :: task_spec where
  "tm_spec =
     \<lparr>sp_client_id = ''c1'', sp_session_id = None, sp_tool_name = ''run'', sp_kind = ''process'', sp_display_command = ''dir'',
      sp_project_id = None, sp_spawn = \<lparr>ss_application = ''cmd'', ss_command_line = ''cmd /c dir'', ss_cwd = ''w'', ss_env = []\<rparr>,
      sp_timeout = 1000, sp_audit_event_id = None, sp_approval_id = None, sp_execution_id = None, sp_warnings = [], sp_cache_dir = None\<rparr>"

definition tm_env :: launch_env where
  "tm_env = \<lparr>le_now = 1, le_later = 2, le_insert_ok = True, le_spawn = Inr (7, False), le_failed_ok = True, le_started_ok = True,
     le_threads_ok = True\<rparr>"

abbreviation tm_act :: "string \<Rightarrow> u32 option" where
  "tm_act \<equiv> \<lambda>_. None"

definition tm_engine :: redact_engine where
  "tm_engine = \<lparr>rg_matches = (\<lambda>p s. ([], s)), rg_lossy = (\<lambda>s. s)\<rparr>"

definition tm_launched :: task_manager where
  "tm_launched = snd (task_launch tm_env tm_act ''t1'' tm_spec tm_empty)"

definition tm_info :: task_info where
  "tm_info = projr (fst (task_launch tm_env tm_act ''t1'' tm_spec tm_empty))"

lemma tm_launch: "task_launch tm_env tm_act ''t1'' tm_spec tm_empty = (Inr tm_info, tm_launched)"
proof -
  have "isl (fst (task_launch tm_env tm_act ''t1'' tm_spec tm_empty)) = False" by code_simp
  then show ?thesis unfolding tm_info_def tm_launched_def by (metis prod.collapse sum.collapse(2))
qed

definition tm_prints :: "(int \<times> string \<times> string) list" where
  "tm_prints = [(3, ''stdout'', ''one ''), (4, ''stderr'', [CHR 0xC3, CHR 0xA9])]"


section \<open>Its end\<close>

definition tm_ok_exit :: wait_obs where
  "tm_ok_exit = \<lparr>wo_exit = Some 0, wo_active = Some 0, wo_late = False\<rparr>"

definition tm_ended :: task_manager where
  "tm_ended = finish_task 9 True ''t1'' (wait_step ''t1'' tm_ok_exit tm_launched)"

definition tm_exited_entry :: "task_manager \<Rightarrow> running" where
  "tm_exited_entry S = the (find_running ''t1'' S)"

lemma tm_finish_step:
  assumes "find_running ''t1'' S \<noteq> None" and "rn_exited (tm_exited_entry S)"
  shows "task_step S (TL_Finish ''t1'' (final_status (tm_exited_entry S))) (finish_task now ok ''t1'' S)"
  using assms by (intro ts_finish) (auto simp: tm_exited_entry_def)

lemma tm_end_run:
  "run task_step tm_empty [TL_Launch ''t1'', TL_Wait ''t1'' False, TL_Finish ''t1'' TaskCompleted] tm_ended"
proof -
  let ?S = "wait_step ''t1'' tm_ok_exit tm_launched"
  have "find_running ''t1'' ?S \<noteq> None" "rn_exited (tm_exited_entry ?S)" "final_status (tm_exited_entry ?S) = TaskCompleted" by code_simp+
  from tm_finish_step [OF this(1,2), of 9 True] this(3)
  have "task_step ?S (TL_Finish ''t1'' TaskCompleted) tm_ended" unfolding tm_ended_def by simp
  moreover have "task_step tm_launched (TL_Wait ''t1'' False) ?S"
    using ts_wait [of tm_launched "''t1''" tm_ok_exit] by (simp add: tm_ok_exit_def)
  ultimately show ?thesis using ts_launch [OF tm_launch] by (auto simp: run_Cons intro: run_nil)
qed

theorem ended_task_final_witness:
  "(\<exists>r'. find_task ''t1'' (snd (kill_all tm_ended)) = Some r' \<and> tr_status r' = ''completed'' \<and> tr_exit_code r' = Some 0)
    \<and> (\<forall>st. TL_Finish ''t1'' st \<notin> set [TL_KillAll])"
proof -
  obtain r where r: "find_task ''t1'' tm_ended = Some r" "tr_status r = ''completed''" "tr_exit_code r = Some 0"
  proof -
    have "map_option tr_status (find_task ''t1'' tm_ended) = Some ''completed''"
      "map_option tr_exit_code (find_task ''t1'' tm_ended) = Some (Some 0)" by code_simp+
    then show ?thesis using that by auto
  qed
  have over: "is_terminal (task_status_parse (tr_status r))" unfolding r(2) by code_simp
  have "find_task ''t1'' (snd (kill_all tm_ended)) = Some r" using r(1) by (simp add: kill_all_def)
  moreover have "run task_step tm_ended [TL_KillAll] (snd (kill_all tm_ended))" by (auto simp: run_Cons intro: run_nil ts_kill_all)
  ultimately show ?thesis
    using ended_task_final [OF _ tm_end_run [unfolded tm_empty_def] r(1) over, of "[TL_KillAll]" "snd (kill_all tm_ended)"] r(2,3)
    by (auto simp: keyed_def)
qed

definition tm_killed :: task_manager where
  "tm_killed = snd (task_kill tm_act ''t1'' tm_launched)"

definition tm_kill_exit :: wait_obs where
  "tm_kill_exit = \<lparr>wo_exit = Some 1, wo_active = Some 0, wo_late = False\<rparr>"


theorem task_tools_isolated_witness:
  "fst (task_tool tm_engine tm_act 64 ''c2'' (TC_Kill ''t1'') tm_ended) = fst (task_tool tm_engine tm_act 64 ''c2'' (TC_Kill ''t1'')
      (view_of (owns ''c2'' tm_ended) tm_ended))
    \<and> view_of (\<lambda>tid. \<not> owns ''c2'' tm_ended tid) (snd (task_tool tm_engine tm_act 64 ''c2'' (TC_Kill ''t1'') tm_ended))
      = view_of (\<lambda>tid. \<not> owns ''c2'' tm_ended tid) tm_ended"
  by (rule task_tools_isolated [OF _ tm_end_run [unfolded tm_empty_def]]) (simp add: keyed_def)

section \<open>What the bookkeeping misses\<close>

text \<open>Standard error takes its place after standard output but is written first; a caller that polls in between goes on after both, and never
  sees the first chunk.\<close>

definition tm_taken :: "chunk_row \<times> chunk_row \<times> task_manager" where
  "tm_taken =
     (case take_chunk ''t1'' ''stdout'' ''out'' tm_launched of
        Some (c1, S1) \<Rightarrow> (case take_chunk ''t1'' ''stderr'' ''err'' S1 of Some (c2, S2) \<Rightarrow> (c1, c2, S2)))"

definition tm_first_poll :: task_manager where
  "tm_first_poll = (case tm_taken of (c1, c2, S) \<Rightarrow> write_chunk 5 True c2 S)"

definition tm_second_poll :: task_manager where
  "tm_second_poll = (case tm_taken of (c1, c2, S) \<Rightarrow> write_chunk 6 True c1 (write_chunk 5 True c2 S))"

definition poll_text :: "int option \<Rightarrow> task_manager \<Rightarrow> (string \<times> int \<times> bool) option" where
  "poll_text offset S =
     (case task_output tm_engine tm_act ''t1'' offset 1000 S of
        Inl e \<Rightarrow> None
      | Inr sl \<Rightarrow> Some (chunks_text (sl_chunks sl), sl_next_offset sl, sl_more_available sl))"

lemma late_chunk_missed:
  "poll_text None tm_first_poll = Some (''err'', 6, False)" "poll_text (Some 6) tm_second_poll = Some ([], 6, False)"
  "poll_text None tm_second_poll = Some (''outerr'', 6, False)"
  by code_simp+

text \<open>A page of one byte makes no progress on a character of two.\<close>

definition tm_accent :: task_manager where
  "tm_accent = store_chunk 5 True ''t1'' ''stdout'' [CHR 0xC3, CHR 0xA9] tm_launched"

lemma tiny_page_stuck: "task_page \<lparr>pg_engine = tm_engine, pg_active = tm_act, pg_task = ''t1'', pg_max = 1, pg_manager = tm_accent\<rparr> (Some 0)
    = ([], Some 0, True)"
  by code_simp

lemma tiny_page_never_ends:
  "drain task_page n \<lparr>pg_engine = tm_engine, pg_active = tm_act, pg_task = ''t1'', pg_max = 1, pg_manager = tm_accent\<rparr> (Some 0) = None"
  by (induction n) (simp_all add: drain.simps tiny_page_stuck)

text \<open>When the database does not take the end of a task, the task stays recorded as running although the manager has forgotten it, and a
  kill does nothing about it.\<close>

lemma unrecorded_end:
  assumes "find_running tid S = Some r" and "rn_exited r" and "find_task tid S = Some row" and "tr_status row = ''running''"
  defines "S' \<equiv> finish_task 0 False tid S"
  shows "find_task tid S' = Some row \<and> find_running tid S' = None \<and> fst (task_kill act tid S') = Inr (row_to_task row)"
proof -
  have "tm_tasks S' = tm_tasks S" using finish_state(2) [OF assms(1,2), of 0 False] by (simp add: S'_def set_task_def)
  then have t: "find_task tid S' = Some row" using assms(3) by (simp add: find_task_def)
  have r: "find_running tid S' = None" using finish_state(1) [OF assms(1,2)] by (simp add: S'_def)
  show ?thesis using t r by (simp add: task_kill_def task_terminate_def Let_def get_or_unknown_def task_get_def)
qed

end
