(* ===== verification/Spec2Isabelle.thy ===== *)
theory Spec2Isabelle
  imports Policy_Examples Path_Props Settings_Store Sessions Approval_Props Leases Rate_Limit Server_State Core_Examples Auth_Examples
    Audit_Examples Redaction_Props Tool_Examples Mcp_Examples Task_Examples
begin

text \<open>
  Local Pilot lets a remote agent work on one Windows workstation: over files, commands, Git and GitHub, under a policy that the local user
  owns, with approvals for what the policy does not allow by itself and a record of what was done and what left the machine. This
  development models the parts that decide: the policy engine (\<^verbatim>\<open>crates/workstation-policy\<close>), the service with its
  sessions, approvals, leases, limits, settings and authorization server (\<^verbatim>\<open>crates/workstation-server\<close>), the redactor
  (\<^verbatim>\<open>crates/workstation-core\<close>), the audit store (\<^verbatim>\<open>crates/workstation-audit\<close>), the task manager (\<^verbatim>\<open>crates/workstation-executor\<close>) and the pipeline that every tool call
  goes through.

  \<^bold>\<open>How the parts interact.\<close> A bearer token is resolved to a principal (Auth). A tool call enters \<open>dispatch\<close> (Tools): the service
  must be accepting (Server\_State, Core), the principal must hold the tool's scopes, it gets a session (Sessions), a mutation is
  written to the audit history as an intent (Audit\_Log), an idempotency key is claimed (Approvals), and then the handler runs. A handler asks
  the policy engine (Evaluator) about every path and command and hands the decisions to \<open>authorize\<close>; what needs approval becomes a
  request (Approvals) that the local user decides and \<open>approval_resume\<close> (Approval\_Tools) runs. The answer is redacted
  (Redaction), stored as Data Shared (Audit\_Log) and delivered. The settings (Config, Settings\_Store) determine the engine; Emergency Stop and the
  gate (Server\_State, Core) close the service over restarts. A process that a tool starts is a task (Task\_Store): its output is redacted and kept
  within a cap, and the client reads it page by page.

  \<^bold>\<open>Theories and sources.\<close> Paths are below \<^verbatim>\<open>src/crates\<close>.
  \<^item> Lp\_Prelude: \<^verbatim>\<open>workstation-core/src/error.rs\<close>, result types, early exits from loops, the locale \<open>coverage\<close> (a preorder of what covers
    what, interpreted by approval scopes and by path prefixes). Rust\_Str: \<^verbatim>\<open>str\<close> as bytes. Db\_Table: a table as its rows, with the
    locale \<open>row_store\<close>, interpreted by every table. Event\_System: runs of labelled steps, with the locales \<open>invariant_system\<close>,
    \<open>once_system\<close> and \<open>enabling_system\<close>, interpreted by the services' step relations.
  \<^item> Tokenize, Finding, Git\_Cmd, Gh\_Cmd, Packages, Program\_Cmd, Ps\_Cmd, Command: \<^verbatim>\<open>workstation-policy/src/command\<close>, from the text of a command
    to the findings the evaluator judges. Win\_Path, Winpath: \<^verbatim>\<open>std::path\<close>, \<^verbatim>\<open>winpath.rs\<close> and the canonicalization of \<^verbatim>\<open>winfs.rs\<close>. Protected,
    Classify, Attribution: the files of these names. Evaluator: \<^verbatim>\<open>evaluator.rs\<close>. Path\_Props, Policy, Policy\_Examples: what holds of them.
  \<^item> Config, Settings\_Store: \<^verbatim>\<open>workstation-core/src/config.rs\<close>, \<^verbatim>\<open>workstation-server/src/settings_store.rs\<close>. Sessions, Approvals,
    Approval\_Props, Leases, Rate\_Limit, Server\_State: \<^verbatim>\<open>sessions.rs\<close>, \<^verbatim>\<open>approvals.rs\<close>, \<^verbatim>\<open>leases.rs\<close>, \<^verbatim>\<open>ratelimit.rs\<close>, \<^verbatim>\<open>state.rs\<close>. Core, Core\_Props,
    Core\_Examples: \<^verbatim>\<open>lib.rs\<close>.
  \<^item> Auth, OAuth, Auth\_Props, Auth\_Provenance, Auth\_Examples: \<^verbatim>\<open>auth/mod.rs\<close>, \<^verbatim>\<open>auth/oauth.rs\<close>.
  \<^item> Audit\_Log, Audit\_Props, Audit\_Examples: \<^verbatim>\<open>workstation-audit/src/lib.rs\<close>. Redaction, Redaction\_Props:
    \<^verbatim>\<open>workstation-core/src/redaction.rs\<close>.
  \<^item> Tools, Approval\_Tools, Tool\_Props, Tool\_Examples: \<^verbatim>\<open>tools/mod.rs\<close>, \<^verbatim>\<open>tools/approval.rs\<close>. Mcp\_Gateway, Mcp\_Policy, Mcp\_Props,
    Mcp\_Examples: \<^verbatim>\<open>local_mcp/mod.rs\<close>, \<^verbatim>\<open>local_mcp/policy.rs\<close>, the decisions of \<^verbatim>\<open>local_mcp/transport.rs\<close>, and \<^verbatim>\<open>tools/local_mcp.rs\<close>.
  \<^item> Task\_Store: \<^verbatim>\<open>workstation-executor/src/manager.rs\<close> and the task tools of \<^verbatim>\<open>tools/process.rs\<close>. Task\_Output: pages, with the locale
    \<open>pager\<close> interpreted on \<^verbatim>\<open>TaskManager::output\<close>. Task\_Props, Task\_Runs, Task\_Examples: what holds of it, and what its bookkeeping misses.

  A struct is a record, an enum a datatype, and a method a function from the state to a result and a new state; an error is the left side of
  a sum. Definitions keep the source's names, with a prefix or suffix where a name is taken in HOL or two modules share it.

  \<^bold>\<open>What the lemmas show.\<close>
  \<^item> Policy: exactly when a file may be changed, what an allowed command may write, what is denied under every grant, and that
    an approval is effective. Path\_Props: the shape of a normalized path, that a canonical path hides no link, and that classes do not depend on spelling.
    Tokenize: quoting and splitting are inverse.
  \<^item> Approval\_Props: over all runs, with restarts and failed writes, an approval dispatches at most once, only after a local decision and only
    the stored operation; the exact condition of a dispatch; idempotency keys. Sessions: one session per client and credential, and no
    revival. Leases: one writer. Rate\_Limit: the number of calls admitted in an interval, and that the announced waiting time suffices. Settings\_Store: a
    revision pins the policy. Server\_State: the gate's round trip.
  \<^item> Core\_Props: a service that accepts calls has its listener, a clear latch and sound settings; Emergency Stop lasts until the user resumes,
    over restarts; a change of the rules revokes grants. Auth\_Props, Auth\_Provenance: codes and refresh tokens are good once, a revoked credential stays
    dead, and a grant goes back to a local decision.
  \<^item> Audit\_Props: retention ends, keeps its limits and accounts for what it removes; a faulted store admits nothing; the queue loses nothing
    silently; what the export and the search miss. Redaction\_Props: known values and sensitive fields are removed, and streams are conserved.
  \<^item> Tool\_Props: whatever the handlers do, they run only for admitted calls, what is delivered is redacted, bounded and recorded, and a
    resumption runs the stored operation. Mcp\_Props: a downstream request needs its permission, a service is connected only since its last start
    whatever interleaves with that start, and the registry survives a restart. Task\_Props, Task\_Runs: output is read back within the cap, the readers store the redacted stream,
    an ended task stays as it ended in every interleaving, a stop is reported as what it was, and the task tools of a client are
    isolated from other clients' tasks. This theory: the policy and the service together.

  \<^bold>\<open>Loops and bounds.\<close> There is no fuel. Scanners recur structurally or by a proved measure. The analysis of nested shells ends at the
  source's own \<^verbatim>\<open>MAX_DEPTH\<close> of 4, which the measure uses. The loops of retention and export are \<open>while_option\<close>; that the loops of the retention
  return is a theorem. Integers of the settings, revisions and limits are words of their width; times and row counts are
  integers, and the validation of the settings bounds the durations that are added to them. The rate limiter's \<^verbatim>\<open>f64\<close> is an exact real.

  \<^bold>\<open>Parameters.\<close> Code outside the repository is an argument, a field of an environment record: the regex and glob engines, the PowerShell
  parser, file handles and their final names, digests and keyed hashes, the URL parser, the JSON printer and the serializer of results, lossy UTF-8
  decoding, the database's page counts. What one operation meets is an argument as well: the clock, new identifiers and tokens, and whether
  the database takes a write. The theorems hold for all values of these unless a hypothesis says otherwise.

  \<^bold>\<open>What is left out of the modelled parts.\<close> An operation is one step: writes that the source makes under one lock or transaction take effect
  together or not at all, and tasks interleave between operations only; the start, test and refresh of a downstream service, which wait, are
  several steps. The calls of the service to the audit store, the task manager, the gateway and the
  components without a model are recorded in the order they are made (\<open>co_calls\<close>); readers and the wait thread of a task are steps of their own. Columns that hold JSON are their parsed values. The settings' change text and the service's
  background loops are not modelled; the operations these loops call are.

  \<^bold>\<open>Not modelled.\<close> The directory broker, process creation with its jobs and pipes, the elevated helper and the desktop shell act on Windows
  handles, jobs and windows, and their effects are those of the operating system. The handlers of the file, Git, GitHub, project and
  administration tools, and the tools that start processes, join these to the policy engine; the pipeline's theorems quantify over them. The project index is directory walking and SQLite full-text
  search. What a downstream MCP service does is an argument. The HTTP transport is glue to its libraries. The database pool, DPAPI, the known
  folders, the cache directory and the capture of the environment are primitives that the modelled parts take as parameters.
\<close>

section \<open>Policy and service together\<close>

text \<open>C5: The approval path works end to end. When the engine in force asks for approval of a command of a session, the service
  records the request, and the local user allows it for the session, then that session holds the requested scope in addition to what it
  held, and the engine in force allows the same command.\<close>

theorem approved_command_runs:
  assumes "evaluate_command (cv_policy V) (co_policy C) a cwd cmd facts rd (ctx\<lparr>px_session_grants := scopes t\<rparr>) = RequireApproval r"
    and "get_session (co_sessions C) (ses_id t) = Some t"
    and "request_approval V w p t tool args tool_scopes r digest smry C = (Inr view, C1)"
    and "decide_approval w' (av_id view) AllowSession C1 = (Inr view', C2)"
  shows "\<exists>t'. get_session (co_sessions C2) (ses_id t) = Some t' \<and> scopes t' = scopes t @ [ar_session_scope r]
    \<and> is_allow (evaluate_command (cv_policy V) (co_policy C2) a cwd cmd facts rd (ctx\<lparr>px_session_grants := scopes t'\<rparr>))"
proof -
  obtain t' where t': "get_session (co_sessions C2) (ses_id t) = Some t'" "scopes t' = scopes t @ [ar_session_scope r]"
    using approved_scope [OF assms(3,4,2)] by blast
  have "co_policy C2 = co_policy C"
    using request_approval_remote [of V w p t tool args tool_scopes r digest smry C] assms(3)
      decide_approval_remote [of w' "av_id view" AllowSession C1] assms(4) by (simp add: remote_def)
  then show ?thesis
    using command_grant_effective [OF assms(1)] t' by (simp add: add_grant_def)
qed

text \<open>C23: While the settings are damaged the service is closed on both levels: in every state it can reach with a settings fault it
  accepts no remote call, and the engine in force denies every file change, every command, every Git operation that
  is not read-only and every administrative operation.\<close>

theorem faulted_service_denies:
  assumes "run (core_step V) (Down d) es (Up C)" and "settings_fault C \<noteq> None" and "is_mutation acc"
    and "gc_kind g \<noteq> GK_ReadOnly"
  shows "\<not> accepting C \<and> (\<exists>c m. evaluate_fs (cv_policy V) (co_policy C) p acc ctx = Deny c m)
    \<and> (\<exists>c m. evaluate_command (cv_policy V) (co_policy C) a cwd cmd facts rd ctx = Deny c m)
    \<and> (\<exists>c m. evaluate_git_structured (cv_policy V) (co_policy C) g gf ctx = Deny c m)
    \<and> (\<exists>c m. evaluate_admin (cv_policy V) (co_policy C) smry digest ctx = Deny c m)"
proof -
  have inv: "core_inv V C" using core_runs.run_inv [OF assms(1)] by (simp add: system_inv_def)
  then have "pe_config_fault (co_policy C)"
    using assms(2) by (simp add: core_inv_def policy_current_def PolicyEngine_new_def)
  then show ?thesis
    using inv assms(2) config_fault_denied [OF _ assms(3,4)] by (auto simp: core_inv_def)
qed

section \<open>Witnesses\<close>

definition changing_requirement :: approval_requirement where
  "changing_requirement = simple_requirement ''system_change''
     (''user environment variable change'' @ '' changes user or system configuration.'')
     ''Modifies configuration outside the trusted workspace.'' High [] ''setx A B'' (exact_command (demo_request ''setx A B''))"

definition change_requested :: "approval_view lp_result \<times> core" where
  "change_requested = request_approval service_env service_world sample_principal demo_idle ''process_start'' JNull None
     changing_requirement ''d'' sample_summary one_session"

definition change_decided :: "approval_view lp_result \<times> core" where
  "change_decided = decide_approval service_world ''id_1'' AllowSession (snd change_requested)"

lemma change_results:
  "map_sum id av_id (fst change_requested) = Inr ''id_1''" "map_sum id av_status (fst change_decided) = Inr ''allowed_session''"
  by code_simp+

theorem approved_command_runs_witness:
  "\<exists>t'. get_session (co_sessions (snd change_decided)) ''ses_1'' = Some t' \<and> scopes t' = [ar_session_scope changing_requirement]
    \<and> is_allow (evaluate_command demo_env (co_policy (snd change_decided)) (demo_analysis [demo_change]) (bs ''C:/Projects'') ''setx A B''
        (\<lambda>_. demo_facts) (\<lambda>_. None) (demo_ctx\<lparr>px_session_grants := scopes t'\<rparr>))"
proof -
  obtain v where v: "change_requested = (Inr v, snd change_requested)" "av_id v = ''id_1''"
    using change_results(1) by (cases "fst change_requested") (auto simp: prod_eq_iff)
  obtain v' where v': "change_decided = (Inr v', snd change_decided)"
    using change_results(2) by (cases "fst change_decided") (auto simp: prod_eq_iff)
  have "evaluate_command (cv_policy service_env) (co_policy one_session) (demo_analysis [demo_change]) (bs ''C:/Projects'') ''setx A B''
      (\<lambda>_. demo_facts) (\<lambda>_. None) (demo_ctx\<lparr>px_session_grants := scopes demo_idle\<rparr>) = RequireApproval changing_requirement"
    using demo_change_approval
    by (simp add: demo_decide_def service_env_def one_session_def demo_idle_def scopes_def demo_ctx_def changing_requirement_def)
  moreover have "get_session (co_sessions one_session) (ses_id demo_idle) = Some demo_idle"
    by code_simp
  moreover have "decide_approval service_world (av_id v) AllowSession (snd change_requested) = (Inr v', snd change_decided)"
    using v' v(2) by (simp add: change_decided_def)
  ultimately show ?thesis
    using approved_command_runs [OF _ _ v(1) [unfolded change_requested_def]]
    by (simp add: change_requested_def service_env_def demo_idle_def scopes_def)
qed

theorem faulted_service_denies_witness:
  "\<not> accepting damaged_service
    \<and> (\<exists>c m. evaluate_fs (cv_policy damaged_env) (co_policy damaged_service) (bs ''C:/Projects/a'') FA_Create demo_ctx = Deny c m)"
  using faulted_service_denies [OF damaged_run damaged_fault, of FA_Create "git_parse [''push'']"]
  by (simp add: is_mutation_def git_parse_push)

end
